(* ===== verification/Prelude.thy ===== *)
theory Prelude
  imports Main "HOL-Library.Word" "HOL-Library.Sublist" "HOL-Library.Multiset"
begin

text \<open>
  The Go runtime the control plane is written against, and the generic lemmas every
  component uses.

  \<^item> Errors are values: a Go function returning \<open>(T, error)\<close> is modelled by a pair
    \<open>'a ret = 'a \<times> error option\<close>; the value part is kept on the error paths too,
    because some callers read it and ignore the error.
  \<^item> A Go \<open>string\<close> is its byte sequence (\<open>char\<close> is a byte, so \<open>length\<close> is Go's
    \<open>len\<close>). \<open>TrimSpace\<close> removes every UTF-8 encoded white-space rune. \<open>ToLower\<close> and
    \<open>EqualFold\<close> fold the ASCII letters and the non-ASCII runes whose image is an ASCII
    letter (U+0130, U+212A, U+017F); the remaining non-ASCII letters are left unchanged,
    which no comparison with an ASCII literal can observe.
  \<^item> A Go \<open>int\<close> is an HOL \<open>int\<close>; where the code adds counters the 64-bit wrap-around
    is written out with \<open>wrap64\<close>.
  \<^item> The loops "find the first element such that", "update the first element in place" and
    "cut the first element out of the slice" are \<open>find\<close>, \<open>update_first\<close> and
    \<open>delete_first\<close>.
\<close>

named_theorems go_string \<open>definitions of the string functions, for evaluating closed terms\<close>
named_theorems store_ops \<open>definitions of the repository operations\<close>

subsection \<open>Errors and results\<close>

datatype error =
    ErrNotFound
  | ErrConflict
  | Err string              \<comment> \<open>\<open>errors.New\<close>, or \<open>fmt.Errorf\<close> with its text built\<close>
  | ErrQuoted string string \<comment> \<open>\<open>fmt.Errorf\<close> with a trailing quoted argument\<close>
  | ErrIO string            \<comment> \<open>an error of the operating system\<close>
  | ErrJSON                 \<comment> \<open>a value \<open>encoding/json\<close> refuses to encode or decode\<close>

type_synonym 'a ret = "'a \<times> error option"

type_synonym time = int \<comment> \<open>nanoseconds since the Unix epoch, in UTC\<close>

type_synonym 'v gomap = "(string \<times> 'v) list"

definition zero_time :: time where
  "zero_time = - 62135596800000000000"

subsection \<open>64-bit integers\<close>

definition wrap64 :: "int \<Rightarrow> int" where
  "wrap64 x = (x + 2 ^ 63) mod 2 ^ 64 - 2 ^ 63"

lemma wrap64_id: "- (2 ^ 63) \<le> x \<Longrightarrow> x < 2 ^ 63 \<Longrightarrow> wrap64 x = x"
  by (simp add: wrap64_def)

lemma wrap64_range: "- (2 ^ 63) \<le> wrap64 x" "wrap64 x < 2 ^ 63"
proof -
  have "0 \<le> (x + 2 ^ 63) mod 2 ^ 64" and "(x + 2 ^ 63) mod 2 ^ 64 < (2 ^ 64 :: int)"
    by (rule pos_mod_sign, simp, rule pos_mod_bound, simp)
  then show "- (2 ^ 63) \<le> wrap64 x" and "wrap64 x < 2 ^ 63"
    by (simp_all add: wrap64_def)
qed

lemma wrap64_wrap64_add [simp]: "wrap64 (wrap64 x + y) = wrap64 (x + y)"
proof -
  have "wrap64 x + y + 2 ^ 63 = (x + 2 ^ 63) mod 2 ^ 64 + y"
    by (simp add: wrap64_def)
  then have "(wrap64 x + y + 2 ^ 63) mod 2 ^ 64 = (x + 2 ^ 63 + y) mod 2 ^ 64"
    by (simp only: mod_add_left_eq)
  also have "x + 2 ^ 63 + y = x + y + 2 ^ 63" by simp
  finally show ?thesis
    by (simp only: wrap64_def [of "wrap64 x + y"] wrap64_def [of "x + y"])
qed

lemma wrap64_add_cong: "wrap64 a = wrap64 b \<Longrightarrow> wrap64 (a + c) = wrap64 (b + c)"
  by (metis wrap64_wrap64_add)

lemma wrap64_add_right [simp]: "wrap64 (x + wrap64 y) = wrap64 (x + y)"
  using wrap64_wrap64_add [of y x] by (simp add: add.commute)

lemma wrap64_idem [simp]: "wrap64 (wrap64 x) = wrap64 x"
  using wrap64_wrap64_add [of x 0] by simp

subsection \<open>Strings\<close>

definition HasPrefix :: "string \<Rightarrow> string \<Rightarrow> bool" where
  [go_string]: "HasPrefix s p \<longleftrightarrow> take (length p) s = p"

definition HasSuffix :: "string \<Rightarrow> string \<Rightarrow> bool" where
  [go_string]: "HasSuffix s p \<longleftrightarrow> take (length p) (rev s) = rev p"

fun Contains :: "string \<Rightarrow> string \<Rightarrow> bool" where
  "Contains [] sub = (sub = [])"
| "Contains (c # cs) sub = (HasPrefix (c # cs) sub \<or> Contains cs sub)"

definition ContainsAny :: "string \<Rightarrow> string \<Rightarrow> bool" where
  [go_string]: "ContainsAny s cs \<longleftrightarrow> list_ex (\<lambda>c. List.member cs c) s"

definition TrimPrefix :: "string \<Rightarrow> string \<Rightarrow> string" where
  [go_string]: "TrimPrefix s p = (if HasPrefix s p then drop (length p) s else s)"

definition TrimSuffix :: "string \<Rightarrow> string \<Rightarrow> string" where
  [go_string]: "TrimSuffix s p = (if HasSuffix s p then take (length s - length p) s else s)"

lemma HasPrefix_append [simp]: "HasPrefix (p @ s) p"
  by (simp add: HasPrefix_def)

lemma HasPrefix_Nil [simp]: "HasPrefix s []"
  by (simp add: HasPrefix_def)

lemma HasPrefix_iff_prefix: "HasPrefix s p \<longleftrightarrow> prefix p s"
  by (metis HasPrefix_def append_take_drop_id prefix_def append_eq_conv_conj)

lemma HasSuffix_iff_suffix: "HasSuffix s p \<longleftrightarrow> suffix p s"
  by (simp add: HasSuffix_def suffix_to_prefix HasPrefix_iff_prefix [symmetric] HasPrefix_def)

text \<open>Stripping the members of a list of patterns from the front of a string.\<close>

function strip :: "string list \<Rightarrow> string \<Rightarrow> string" where
  "strip ps s = (case find (\<lambda>p. p \<noteq> [] \<and> HasPrefix s p) ps of
      None \<Rightarrow> s
    | Some p \<Rightarrow> strip ps (drop (length p) s))"
  by pat_completeness auto
termination
proof (relation "measure (\<lambda>(ps, s). length s)", goal_cases)
  case (2 ps s p)
  then have "p \<noteq> []" and "HasPrefix s p"
    by (auto simp: find_Some_iff)
  then have "length p \<le> length s" and "0 < length p"
    by (auto simp: HasPrefix_def) (metis length_take min.cobounded1)
  then have "length s - length p < length s" by linarith
  then show ?case by simp
qed simp

declare strip.simps [simp del]
declare strip.simps [go_string]

text \<open>The encodings of the runes \<open>unicode.IsSpace\<close> accepts.\<close>

definition space_runes :: "string list" where
  [go_string]: "space_runes =
    [[CHR 0x20], [CHR 0x09], [CHR 0x0A], [CHR 0x0B], [CHR 0x0C], [CHR 0x0D],
     [CHR 0xC2, CHR 0x85], [CHR 0xC2, CHR 0xA0], [CHR 0xE1, CHR 0x9A, CHR 0x80],
     [CHR 0xE2, CHR 0x80, CHR 0x80], [CHR 0xE2, CHR 0x80, CHR 0x81], [CHR 0xE2, CHR 0x80, CHR 0x82],
     [CHR 0xE2, CHR 0x80, CHR 0x83], [CHR 0xE2, CHR 0x80, CHR 0x84], [CHR 0xE2, CHR 0x80, CHR 0x85],
     [CHR 0xE2, CHR 0x80, CHR 0x86], [CHR 0xE2, CHR 0x80, CHR 0x87], [CHR 0xE2, CHR 0x80, CHR 0x88],
     [CHR 0xE2, CHR 0x80, CHR 0x89], [CHR 0xE2, CHR 0x80, CHR 0x8A], [CHR 0xE2, CHR 0x80, CHR 0xA8],
     [CHR 0xE2, CHR 0x80, CHR 0xA9], [CHR 0xE2, CHR 0x80, CHR 0xAF], [CHR 0xE2, CHR 0x81, CHR 0x9F],
     [CHR 0xE3, CHR 0x80, CHR 0x80]]"

definition TrimSpace :: "string \<Rightarrow> string" where
  [go_string]: "TrimSpace s = rev (strip (map rev space_runes) (rev (strip space_runes s)))"

lemma strip_no_prefix: "p \<in> set ps \<Longrightarrow> p \<noteq> [] \<Longrightarrow> \<not> HasPrefix (strip ps s) p"
proof (induction ps s rule: strip.induct)
  case (1 ps s)
  show ?case
  proof (cases "find (\<lambda>p. p \<noteq> [] \<and> HasPrefix s p) ps")
    case None
    then have "\<not> (\<exists>x \<in> set ps. x \<noteq> [] \<and> HasPrefix s x)"
      by (auto simp: find_None_iff)
    with None "1.prems" show ?thesis by (auto simp: strip.simps [of ps s])
  next
    case (Some q)
    with 1 show ?thesis by (simp add: strip.simps [of ps s])
  qed
qed

lemma strip_id: "(\<And>p. p \<in> set ps \<Longrightarrow> p \<noteq> [] \<Longrightarrow> \<not> HasPrefix s p) \<Longrightarrow> strip ps s = s"
  by (subst strip.simps) (auto simp: find_Some_iff split: option.splits)

lemma strip_suffix: "suffix (strip ps s) s"
proof (induction ps s rule: strip.induct)
  case (1 ps s)
  show ?case
  proof (cases "find (\<lambda>p. p \<noteq> [] \<and> HasPrefix s p) ps")
    case None
    then show ?thesis by (simp add: strip.simps [of ps s])
  next
    case (Some q)
    with 1 have "suffix (strip ps (drop (length q) s)) (drop (length q) s)" by simp
    with Some show ?thesis
      by (simp add: strip.simps [of ps s])
         (meson suffix_drop suffix_order.order_trans)
  qed
qed

lemma space_runes_nonempty: "p \<in> set space_runes \<Longrightarrow> p \<noteq> []"
  by (auto simp: space_runes_def)

text \<open>A trimmed string starts and ends with no white space, so trimming is idempotent.\<close>

lemma TrimSpace_no_prefix:
  assumes p: "p \<in> set space_runes"
  shows "\<not> HasPrefix (TrimSpace s) p"
proof
  let ?t = "strip space_runes s"
  assume "HasPrefix (TrimSpace s) p"
  moreover have "prefix (TrimSpace s) ?t"
    unfolding TrimSpace_def
    by (metis rev_rev_ident strip_suffix suffix_to_prefix)
  ultimately have "HasPrefix ?t p"
    by (auto simp: HasPrefix_iff_prefix)
  with strip_no_prefix [OF p space_runes_nonempty [OF p]] show False by simp
qed

lemma TrimSpace_idem [simp]: "TrimSpace (TrimSpace s) = TrimSpace s"
proof -
  have "strip space_runes (TrimSpace s) = TrimSpace s"
    by (rule strip_id) (simp add: TrimSpace_no_prefix)
  moreover have "strip (map rev space_runes) (rev (TrimSpace s)) = rev (TrimSpace s)"
    by (rule strip_id) (simp add: TrimSpace_def strip_no_prefix)
  ultimately show ?thesis
    by (metis TrimSpace_def rev_rev_ident)
qed

lemma TrimSpace_Nil [simp]: "TrimSpace [] = []"
  by (simp add: TrimSpace_def strip_id HasPrefix_def)

text \<open>
  Case mapping. \<open>lower_char\<close> is the byte-wise ASCII mapping; \<open>ToLower\<close> also sends
  U+0130 to \<open>i\<close> and U+212A to \<open>k\<close>, and \<open>fold_case\<close> (simple case folding) sends
  U+212A to \<open>k\<close> and U+017F to \<open>s\<close>.
\<close>

lemmas char_of_eval [go_string] = char_of_def bit_0

definition lower_char :: "char \<Rightarrow> char" where
  [go_string]: "lower_char c =
    (let n = of_char c :: nat in if 65 \<le> n \<and> n \<le> 90 then char_of (n + 32) else c)"

fun rewrite_runes :: "(string \<times> char) list \<Rightarrow> string \<Rightarrow> string" where
  "rewrite_runes rs [] = []"
| "rewrite_runes rs (c # cs) =
     (case find (\<lambda>(p, d). HasPrefix (c # cs) p) rs of
        None \<Rightarrow> lower_char c # rewrite_runes rs cs
      | Some (p, d) \<Rightarrow> d # rewrite_runes rs (drop (length p - 1) cs))"

definition ToLower :: "string \<Rightarrow> string" where
  [go_string]: "ToLower s = rewrite_runes
    [([CHR 0xC4, CHR 0xB0], CHR ''i''), ([CHR 0xE2, CHR 0x84, CHR 0xAA], CHR ''k'')] s"

definition fold_case :: "string \<Rightarrow> string" where
  [go_string]: "fold_case s = rewrite_runes
    [([CHR 0xE2, CHR 0x84, CHR 0xAA], CHR ''k''), ([CHR 0xC5, CHR 0xBF], CHR ''s'')] s"

definition EqualFold :: "string \<Rightarrow> string \<Rightarrow> bool" where
  [go_string]: "EqualFold s t \<longleftrightarrow> fold_case s = fold_case t"

lemma EqualFold_refl [simp]: "EqualFold s s"
  by (simp add: EqualFold_def)

lemma EqualFold_sym: "EqualFold s t \<Longrightarrow> EqualFold t s"
  by (simp add: EqualFold_def)

lemma EqualFold_trans: "EqualFold s t \<Longrightarrow> EqualFold t u \<Longrightarrow> EqualFold s u"
  by (simp add: EqualFold_def)

definition is_lower_alnum :: "char \<Rightarrow> bool" where
  [go_string]: "is_lower_alnum c \<longleftrightarrow>
    (let n = of_char c :: nat in 97 \<le> n \<and> n \<le> 122 \<or> 48 \<le> n \<and> n \<le> 57)"

definition is_digit :: "char \<Rightarrow> bool" where
  [go_string]: "is_digit c \<longleftrightarrow> (let n = of_char c :: nat in 48 \<le> n \<and> n \<le> 57)"

text \<open>\<open>strings.Trim\<close> for a one-byte cutset.\<close>

definition TrimByte :: "char \<Rightarrow> string \<Rightarrow> string" where
  [go_string]: "TrimByte c s = rev (dropWhile (\<lambda>x. x = c) (rev (dropWhile (\<lambda>x. x = c) s)))"

definition TrimRightByte :: "char \<Rightarrow> string \<Rightarrow> string" where
  [go_string]: "TrimRightByte c s = rev (dropWhile (\<lambda>x. x = c) (rev s))"

text \<open>\<open>strings.Split\<close> for a one-byte separator.\<close>

fun SplitByte :: "char \<Rightarrow> string \<Rightarrow> string list" where
  "SplitByte sep [] = [[]]"
| "SplitByte sep (c # cs) =
     (if c = sep then [] # SplitByte sep cs
      else (case SplitByte sep cs of [] \<Rightarrow> [[c]] | w # ws \<Rightarrow> (c # w) # ws))"

text \<open>
  \<open>strings.Fields\<close>: the maximal runs of non-space runes. \<open>fields_aux w s\<close> has read the
  field \<open>w\<close> (in reverse) and has \<open>s\<close> left.
\<close>

function fields_aux :: "string \<Rightarrow> string \<Rightarrow> string list" where
  "fields_aux w s =
     (case s of [] \<Rightarrow> (if w = [] then [] else [rev w])
      | c # cs \<Rightarrow>
         (case find (\<lambda>p. p \<noteq> [] \<and> HasPrefix s p) space_runes of
            None \<Rightarrow> fields_aux (c # w) cs
          | Some p \<Rightarrow> (if w = [] then [] else [rev w]) @ fields_aux [] (drop (length p - 1) cs)))"
  by pat_completeness auto
termination
  by (relation "measure (\<lambda>(w, s). length s)") auto

declare fields_aux.simps [simp del]
declare fields_aux.simps [go_string]

definition Fields :: "string \<Rightarrow> string list" where
  [go_string]: "Fields s = fields_aux [] s"

text \<open>Decimal printing (the verb \<open>%d\<close>).\<close>

fun dec_nat :: "nat \<Rightarrow> string" where
  "dec_nat n = (if n < 10 then [char_of (48 + n)] else dec_nat (n div 10) @ [char_of (48 + n mod 10)])"

declare dec_nat.simps [simp del]
declare dec_nat.simps [go_string]

definition Itoa :: "int \<Rightarrow> string" where
  [go_string]: "Itoa i = (if i < 0 then ''-'' @ dec_nat (nat (- i)) else dec_nat (nat i))"

fun dec_val :: "string \<Rightarrow> nat" where
  "dec_val s = fold (\<lambda>c a. 10 * a + (of_char c - 48)) s 0"

lemma dec_val_dec_nat: "dec_val (dec_nat n) = n"
proof (induction n rule: dec_nat.induct)
  case (1 n)
  show ?case
  proof (cases "n < 10")
    case True
    then show ?thesis by (simp add: dec_nat.simps [of n])
  next
    case False
    then have "dec_val (dec_nat (n div 10)) = n div 10" by (rule 1)
    moreover have "(48 + n mod 10) mod 256 = 48 + n mod 10" by simp
    ultimately show ?thesis
      using False by (simp add: dec_nat.simps [of n])
  qed
qed

lemma dec_nat_inj: "dec_nat m = dec_nat n \<longleftrightarrow> m = n"
  by (metis dec_val_dec_nat)

lemma dec_nat_digits: "c \<in> set (dec_nat n) \<Longrightarrow> is_digit c"
proof (induction n rule: dec_nat.induct)
  case (1 n)
  show ?case
  proof (cases "n < 10")
    case True
    with "1.prems" have "c = char_of (48 + n)" by (simp add: dec_nat.simps [of n])
    with True show ?thesis by (simp add: is_digit_def)
  next
    case False
    with "1.prems" have "c \<in> set (dec_nat (n div 10)) \<or> c = char_of (48 + n mod 10)"
      by (auto simp: dec_nat.simps [of n])
    moreover have "is_digit (char_of (48 + n mod 10))"
      by (simp add: is_digit_def)
    ultimately show ?thesis using "1.IH" [OF False] by auto
  qed
qed

lemma Itoa_inj: "Itoa i = Itoa j \<longleftrightarrow> i = j"
proof
  assume eq: "Itoa i = Itoa j"
  have minus: "CHR ''-'' \<notin> set (dec_nat n)" for n
    using dec_nat_digits [of "CHR ''-''" n] by (auto simp: is_digit_def)
  have hd_dec: "dec_nat n \<noteq> CHR ''-'' # w" for n w
    using minus [of n] by auto
  show "i = j"
    using eq hd_dec hd_dec [symmetric]
    by (auto simp: Itoa_def dec_nat_inj split: if_splits)
qed simp

subsection \<open>First-match loops over slices\<close>

fun update_first :: "('a \<Rightarrow> bool) \<Rightarrow> ('a \<Rightarrow> 'a) \<Rightarrow> 'a list \<Rightarrow> 'a list" where
  "update_first P f [] = []"
| "update_first P f (x # xs) = (if P x then f x # xs else x # update_first P f xs)"

fun delete_first :: "('a \<Rightarrow> bool) \<Rightarrow> 'a list \<Rightarrow> 'a list" where
  "delete_first P [] = []"
| "delete_first P (x # xs) = (if P x then xs else x # delete_first P xs)"

lemma find_SomeD: "find P xs = Some x \<Longrightarrow> x \<in> set xs \<and> P x"
  by (induction xs) (auto split: if_splits)

lemma find_NoneD: "find P xs = None \<Longrightarrow> x \<in> set xs \<Longrightarrow> \<not> P x"
  by (induction xs) (auto split: if_splits)

lemma length_update_first [simp]: "length (update_first P f xs) = length xs"
  by (induction xs) auto

lemma update_first_none: "find P xs = None \<Longrightarrow> update_first P f xs = xs"
  by (induction xs) (auto split: if_splits)

lemma delete_first_none: "find P xs = None \<Longrightarrow> delete_first P xs = xs"
  by (induction xs) (auto split: if_splits)

lemma map_update_first:
  "(\<And>x. P x \<Longrightarrow> g (f x) = g x) \<Longrightarrow> map g (update_first P f xs) = map g xs"
  by (induction xs) auto

text \<open>Where the updated elements come from: the updated one is the first match.\<close>

lemma set_update_first:
  assumes "y \<in> set (update_first P f xs)"
  shows "y \<in> set xs \<or> (\<exists>x. find P xs = Some x \<and> y = f x)"
  using assms by (induction xs) (auto split: if_splits)

lemma update_first_mem: "find P xs = Some x \<Longrightarrow> f x \<in> set (update_first P f xs)"
  by (induction xs) (auto split: if_splits)

lemma find_update_first_same:
  assumes "find P xs = Some x" and "P (f x)"
  shows "find P (update_first P f xs) = Some (f x)"
  using assms by (induction xs) (auto split: if_splits)

lemma find_update_first_other:
  assumes "\<And>x. P x \<Longrightarrow> \<not> Q x" and "\<And>x. P x \<Longrightarrow> \<not> Q (f x)"
  shows "find Q (update_first P f xs) = find Q xs"
  using assms by (induction xs) auto

lemma update_first_keeps:
  assumes "x \<in> set xs" and "\<not> P x"
  shows "x \<in> set (update_first P f xs)"
  using assms by (induction xs) auto

lemma set_delete_first: "set (delete_first P xs) \<subseteq> set xs"
  by (induction xs) auto

lemma delete_first_keeps: "x \<in> set xs \<Longrightarrow> \<not> P x \<Longrightarrow> x \<in> set (delete_first P xs)"
  by (induction xs) auto

lemma distinct_map_delete_first: "distinct (map k xs) \<Longrightarrow> distinct (map k (delete_first P xs))"
proof (induction xs)
  case (Cons x xs)
  have "k ` set (delete_first P xs) \<subseteq> k ` set xs"
    by (rule image_mono [OF set_delete_first])
  with Cons show ?case by auto
qed simp

lemma delete_first_unique:
  assumes "distinct (map k xs)"
  shows "find (\<lambda>x. k x = a) (delete_first (\<lambda>x. k x = a) xs) = None"
  using assms by (induction xs) (auto simp: find_None_iff image_iff)

lemma distinct_map_update_first:
  assumes "distinct (map k xs)" and "find P xs = Some x"
    and "k (f x) = k x \<or> k (f x) \<notin> k ` set xs"
  shows "distinct (map k (update_first P f xs))"
  using assms
proof (induction xs)
  case (Cons y ys)
  show ?case
  proof (cases "P y")
    case True
    with Cons.prems show ?thesis by auto
  next
    case False
    with Cons.prems have IH: "distinct (map k (update_first P f ys))"
      using Cons.IH by auto
    have "k y \<notin> k ` set (update_first P f ys)"
    proof
      assume "k y \<in> k ` set (update_first P f ys)"
      then obtain z where z: "z \<in> set (update_first P f ys)" "k z = k y" by auto
      from set_update_first [OF z(1)] have "z \<in> set ys \<or> z = f x"
        using False Cons.prems(2) by auto
      with z(2) False Cons.prems find_SomeD [of P "y # ys" x] show False
        by (auto simp: image_iff)
    qed
    with IH False show ?thesis by simp
  qed
qed simp

lemma update_first_unique:
  assumes "distinct (map k xs)" and "find (\<lambda>x. k x = n) xs = Some x"
    and "y \<in> set (update_first (\<lambda>x. k x = n) f xs)" and "y \<noteq> f x"
  shows "y \<in> set xs \<and> k y \<noteq> n"
  using assms
proof (induction xs)
  case (Cons a xs)
  show ?case
  proof (cases "k a = n")
    case True
    with Cons.prems have "y \<in> set xs" "k a \<notin> k ` set xs" by auto
    then have "k y \<noteq> k a" by (metis imageI)
    with True \<open>y \<in> set xs\<close> show ?thesis by simp
  next
    case False
    with Cons show ?thesis by auto
  qed
qed simp

lemma list_all2_update_first:
  assumes "\<And>x. R x x" and "\<And>x. find P xs = Some x \<Longrightarrow> R x (f x)"
  shows "list_all2 R xs (update_first P f xs)"
  using assms by (induction xs) (auto simp: list.rel_refl)

subsection \<open>Go maps\<close>

text \<open>Reading a map with string values: a missing key reads as the zero value.\<close>

definition gomap_str :: "string gomap \<Rightarrow> string \<Rightarrow> string" where
  [go_string]: "gomap_str m k = (case map_of m k of None \<Rightarrow> [] | Some v \<Rightarrow> v)"

text \<open>
  The unspecified iteration order of a Go map: a seed chooses the next key among those
  left, so that the seeds range over all the orders.
\<close>

definition pick :: "nat list \<Rightarrow> nat \<Rightarrow> nat" where
  "pick seed n = (case seed of [] \<Rightarrow> 0 | k # _ \<Rightarrow> k mod n)"

lemma pick_less: "0 < n \<Longrightarrow> pick seed n < n"
  by (simp add: pick_def split: list.splits)

function range_order :: "nat list \<Rightarrow> 'a list \<Rightarrow> 'a list" where
  "range_order seed xs =
     (if xs = [] then []
      else let i = pick seed (length xs) in
        xs ! i # range_order (tl seed) (take i xs @ drop (Suc i) xs))"
  by pat_completeness auto
termination
proof (relation "measure (\<lambda>(seed, xs). length xs)", goal_cases)
  case (2 seed xs i)
  with pick_less [of "length xs" seed] show ?case by simp
qed simp

declare range_order.simps [simp del]

lemma range_order_Nil [simp]: "range_order seed [] = []"
  by (simp add: range_order.simps)

lemma set_range_order [simp]: "set (range_order seed xs) = set xs"
proof (induction seed xs rule: range_order.induct)
  case (1 seed xs)
  show ?case
  proof (cases "xs = []")
    case False
    define i where "i = pick seed (length xs)"
    have "i < length xs" using False by (simp add: i_def pick_less)
    then have "set xs = insert (xs ! i) (set (take i xs @ drop (Suc i) xs))"
      by (metis Un_insert_right id_take_nth_drop list.simps(15) set_append)
    moreover have "set (range_order (tl seed) (take i xs @ drop (Suc i) xs)) = set (take i xs @ drop (Suc i) xs)"
      by (rule 1 [OF False i_def])
    ultimately show ?thesis
      using False by (simp add: range_order.simps [of seed xs] Let_def i_def)
  qed simp
qed

lemma range_order_onto:
  assumes "mset ys = mset xs"
  shows "\<exists>seed. range_order seed xs = ys"
  using assms
proof (induction ys arbitrary: xs)
  case (Cons y ys)
  then have "y \<in> set xs" by (metis list.set_intros(1) mset_eq_setD)
  then obtain i where i: "i < length xs" "xs ! i = y" by (auto simp: in_set_conv_nth)
  let ?rest = "take i xs @ drop (Suc i) xs"
  have "mset xs = add_mset y (mset ?rest)"
    using i id_take_nth_drop [OF i(1)] by (metis mset.simps(2) mset_append union_mset_add_mset_right)
  with Cons.prems have "mset ys = mset ?rest" by simp
  then obtain seed where "range_order seed ?rest = ys" using Cons.IH by blast
  with i have "range_order (i # seed) xs = y # ys"
    by (auto simp: range_order.simps [of "i # seed"] pick_def Let_def)
  then show ?case by blast
qed simp

subsection \<open>Transition systems\<close>

text \<open>
  The contract between a component and the global state machine: an invariant the start
  states satisfy and every step keeps, and a fact about one item that no step undoes.
\<close>

lemma image_pairs: "{(f y, d) | y d. y \<in> g ` A \<and> d \<in> h y} = {(f (g x), d) | x d. x \<in> A \<and> d \<in> h (g x)}"
  by blast

inductive reachable :: "('s \<Rightarrow> bool) \<Rightarrow> ('s \<Rightarrow> 's \<Rightarrow> bool) \<Rightarrow> 's \<Rightarrow> bool"
  for init :: "'s \<Rightarrow> bool" and step :: "'s \<Rightarrow> 's \<Rightarrow> bool" where
  start: "init s \<Longrightarrow> reachable init step s"
| next_state: "reachable init step s \<Longrightarrow> step s t \<Longrightarrow> reachable init step t"

locale transition_invariant =
  fixes init :: "'s \<Rightarrow> bool"
    and step :: "'s \<Rightarrow> 's \<Rightarrow> bool"
    and inv :: "'s \<Rightarrow> bool"
  assumes init_inv: "init s \<Longrightarrow> inv s"
    and step_inv: "step s t \<Longrightarrow> inv s \<Longrightarrow> inv t"
begin

lemma reachable_inv: "reachable init step s \<Longrightarrow> inv s"
  by (induction rule: reachable.induct) (auto intro: init_inv step_inv)

end

locale sticky_fact =
  fixes step :: "'s \<Rightarrow> 's \<Rightarrow> bool"
    and fact :: "'k \<Rightarrow> 's \<Rightarrow> bool"
  assumes step_keeps: "step s t \<Longrightarrow> fact k s \<Longrightarrow> fact k t"
begin

lemma steps_keep: "step\<^sup>*\<^sup>* s t \<Longrightarrow> fact k s \<Longrightarrow> fact k t"
  by (induction rule: rtranclp_induct) (auto intro: step_keeps)

end

end
