(* ===== verification/Float64.thy ===== *)
theory Float64
  imports Prelude
begin

unbundle bit_operations_syntax

text \<open>
  IEEE 754 binary64 values as their bit patterns: the comparison Go's \<open><\<close> performs and the
  addition (round to nearest, ties to even) that accumulates costs. A finite value is an
  integer multiple of \<open>2 ^ (- 1074)\<close>, so the exact sum is an integer sum in that unit
  and rounding keeps its 53 leading bits.
\<close>

type_synonym f64 = "64 word"

definition f64_mag :: "f64 \<Rightarrow> int" where
  "f64_mag w = uint w mod 2 ^ 63"

definition f64_neg :: "f64 \<Rightarrow> bool" where
  "f64_neg w \<longleftrightarrow> 2 ^ 63 \<le> uint w"

definition f64_inf_mag :: int where
  "f64_inf_mag = 2047 * 2 ^ 52"

definition f64_is_nan :: "f64 \<Rightarrow> bool" where
  "f64_is_nan w \<longleftrightarrow> f64_inf_mag < f64_mag w"

definition f64_finite :: "f64 \<Rightarrow> bool" where
  "f64_finite w \<longleftrightarrow> f64_mag w < f64_inf_mag"

definition f64_key :: "f64 \<Rightarrow> int" where
  "f64_key w = (if f64_neg w then - f64_mag w else f64_mag w)"

definition f64_less :: "f64 \<Rightarrow> f64 \<Rightarrow> bool" where
  "f64_less a b \<longleftrightarrow> \<not> f64_is_nan a \<and> \<not> f64_is_nan b \<and> f64_key a < f64_key b"

text \<open>The scaled integer of a finite value, and the nearest value of a scaled integer.\<close>

definition f64_scaled :: "f64 \<Rightarrow> int" where
  "f64_scaled w =
     (let m = f64_mag w; e = m div 2 ^ 52; f = m mod 2 ^ 52;
          v = (if e = 0 then f else (f + 2 ^ 52) * 2 ^ nat (e - 1))
      in if f64_neg w then - v else v)"

function bit_length :: "int \<Rightarrow> nat" where
  "bit_length n = (if n \<le> 0 then 0 else Suc (bit_length (n div 2)))"
  by pat_completeness auto
termination
  by (relation "measure nat") auto

declare bit_length.simps [simp del]

definition f64_round_mag :: "int \<Rightarrow> int" where
  "f64_round_mag n =
     (if n < 2 ^ 53 then n
      else let sh = bit_length n - 53;
               q = n div 2 ^ sh;
               r = n mod 2 ^ sh;
               q' = (if 2 ^ sh < 2 * r \<or> (2 * r = 2 ^ sh \<and> odd q) then q + 1 else q)
           in min (int sh * 2 ^ 52 + q') f64_inf_mag)"

definition f64_pack :: "bool \<Rightarrow> int \<Rightarrow> f64" where
  "f64_pack neg m = word_of_int ((if neg then 2 ^ 63 else 0) + m)"

definition f64_nan :: f64 where
  "f64_nan = 0x7FF8000000000001"

definition f64_add :: "f64 \<Rightarrow> f64 \<Rightarrow> f64" where
  "f64_add a b =
     (if f64_is_nan a \<or> f64_is_nan b then f64_nan
      else if \<not> f64_finite a then (if \<not> f64_finite b \<and> f64_neg a \<noteq> f64_neg b then f64_nan else a)
      else if \<not> f64_finite b then b
      else let n = f64_scaled a + f64_scaled b
           in if n = 0 then f64_pack (f64_neg a \<and> f64_neg b) 0
              else f64_pack (n < 0) (f64_round_mag \<bar>n\<bar>))"

text \<open>The literal \<open>.8\<close> of the evaluation gate, as the compiler rounds it.\<close>

definition f64_0_8 :: f64 where
  "f64_0_8 = 0x3FE999999999999A"

lemma uint_f64_pack:
  assumes "0 \<le> m" and "m < 2 ^ 63"
  shows "uint (f64_pack neg m) = (if neg then 2 ^ 63 else 0) + m"
  using assms unfolding f64_pack_def uint_word_of_int by (cases neg) simp_all

lemma f64_mag_pack: "0 \<le> m \<Longrightarrow> m < 2 ^ 63 \<Longrightarrow> f64_mag (f64_pack neg m) = m"
  by (cases neg) (simp_all add: f64_mag_def uint_f64_pack)

lemma f64_neg_pack: "0 \<le> m \<Longrightarrow> m < 2 ^ 63 \<Longrightarrow> f64_neg (f64_pack neg m) = neg"
  by (cases neg) (simp_all add: f64_neg_def uint_f64_pack)

lemma f64_round_mag_bounds: "0 \<le> n \<Longrightarrow> 0 \<le> f64_round_mag n" "f64_round_mag n \<le> f64_inf_mag"
  by (auto simp: f64_round_mag_def f64_inf_mag_def Let_def pos_imp_zdiv_nonneg_iff)

text \<open>Adding two ordinary values never produces a NaN: it is finite or an infinity.\<close>

lemma f64_add_not_nan:
  assumes "f64_finite a" and "f64_finite b"
  shows "\<not> f64_is_nan (f64_add a b)"
proof -
  have "f64_mag (f64_pack neg (f64_round_mag n)) = f64_round_mag n" if "0 \<le> n" for neg n
    using f64_round_mag_bounds [of n] that by (intro f64_mag_pack) (auto simp: f64_inf_mag_def)
  moreover have "f64_mag (f64_pack neg 0) = 0" for neg
    by (rule f64_mag_pack) simp_all
  ultimately show ?thesis
    using assms f64_round_mag_bounds
    by (auto simp: f64_add_def f64_is_nan_def f64_finite_def f64_inf_mag_def Let_def not_less)
qed

lemma f64_add_commute:
  assumes "f64_finite a" and "f64_finite b"
  shows "f64_add a b = f64_add b a"
  using assms by (simp add: f64_add_def f64_is_nan_def f64_finite_def add.commute conj_commute Let_def)

end
