(* ===== verification/Api.thy ===== *)
theory Api
  imports Float64
begin

text \<open>
  The wire contracts of \<^verbatim>\<open>go/pkg/api/types.go\<close>: one record per Go struct, fields in the
  order of the source and prefixed by a short tag of their struct. A pointer field is an
  \<open>option\<close>, a slice a list (the difference between a nil and an empty slice is visible in
  the JSON text only), a \<open>map[string]T\<close> an association list with distinct keys, a
  \<open>float64\<close> its bit pattern, \<open>any\<close> the datatype \<open>gany\<close>. The \<open>zero_T\<close> constants are
  Go's zero values \<open>T{}\<close>, which the operations return beside an error.
\<close>

datatype gany =
    AnyNil
  | AnyBool bool
  | AnyInt int
  | AnyFloat f64
  | AnyStr string
  | AnyTime time
  | AnyStrs "string list"
  | AnyList "gany list"
  | AnyMap "(string \<times> gany) list"

record StorageGrant =
  sg_SizeGB :: int
  sg_Buckets :: "string list"

record ComputeGrant =
  cg_Profile :: string
  cg_VCPUs :: int
  cg_MemoryGB :: int
  cg_GPUs :: int
  cg_GPUType :: string
  cg_MaxVMs :: int
  cg_MaxProjects :: int
  cg_MaxRuns :: int
  cg_MaxFunctions :: int

record UserAccess =
  ua_Subject :: string
  ua_Email :: string
  ua_Role :: string
  ua_Services :: "string list"
  ua_ProjectIDs :: "string list"
  ua_Storage :: StorageGrant
  ua_Compute :: ComputeGrant
  ua_Disabled :: bool
  ua_CreatedAt :: time
  ua_UpdatedAt :: time

record ResourceProfile =
  rp_Name :: string
  rp_Label :: string
  rp_Description :: string
  rp_Compute :: ComputeGrant
  rp_StorageGB :: int

record UpsertUserAccessRequest =
  uar_Email :: string
  uar_Role :: string
  uar_Services :: "string list"
  uar_ProjectIDs :: "string list"
  uar_Storage :: StorageGrant
  uar_Compute :: ComputeGrant
  uar_Disabled :: bool

record AccessRequest =
  ar_ID :: string
  ar_Subject :: string
  ar_Email :: string
  ar_Reason :: string
  ar_RequestedServices :: "string list"
  ar_Status :: string
  ar_Reviewer :: string
  ar_ReviewNote :: string
  ar_CreatedAt :: time
  ar_UpdatedAt :: time

record CreateAccessRequest =
  car_Reason :: string
  car_RequestedServices :: "string list"

record ReviewAccessRequest =
  rar_Status :: string
  rar_Note :: string

record APIToken =
  tok_ID :: string
  tok_Subject :: string
  tok_Name :: string
  tok_Prefix :: string
  tok_SecretHash :: string
  tok_Services :: "string list"
  tok_ProjectIDs :: "string list"
  tok_CreatedAt :: time
  tok_ExpiresAt :: time
  tok_LastUsedAt :: "time option"
  tok_RevokedAt :: "time option"

record CreateAPITokenRequest =
  ctr_Name :: string
  ctr_Services :: "string list"
  ctr_ProjectIDs :: "string list"
  ctr_ExpiresInDays :: int

record CreatedAPIToken =
  cat_Token :: APIToken
  cat_Secret :: string

record BlogPost =
  bp_ID :: string
  bp_Slug :: string
  bp_Title :: string
  bp_Summary :: string
  bp_Content :: string
  bp_Author :: string
  bp_Tags :: "string list"
  bp_Status :: string
  bp_CreatedAt :: time
  bp_UpdatedAt :: time
  bp_PublishedAt :: "time option"

record UpsertBlogPostRequest =
  ubr_Slug :: string
  ubr_Title :: string
  ubr_Summary :: string
  ubr_Content :: string
  ubr_Author :: string
  ubr_Tags :: "string list"
  ubr_Status :: string

record GitRepository =
  git_URL :: string
  git_Provider :: string
  git_DefaultBranch :: string
  git_LastCommit :: string
  git_SyncedAt :: "time option"

record Project =
  prj_ID :: string
  prj_Name :: string
  prj_Description :: string
  prj_Template :: string
  prj_Namespace :: string
  prj_Status :: string
  prj_CreatedAt :: time
  prj_OwnerSubject :: string
  prj_Repository :: "GitRepository option"

record CreateProjectRequest =
  cpr_Name :: string
  cpr_Description :: string
  cpr_Template :: string
  cpr_RepositoryURL :: string
  cpr_DefaultBranch :: string
  cpr_OwnerSubject :: string

record SetProjectRepositoryRequest =
  spr_URL :: string
  spr_DefaultBranch :: string
  spr_LastCommit :: string

record PipelineStep =
  ps_Name :: string
  ps_Status :: string
  ps_Image :: string
  ps_DependsOn :: "string list"
  ps_Progress :: int

record RunLog =
  rl_Timestamp :: time
  rl_Step :: string
  rl_Level :: string
  rl_Message :: string

record PipelineRun =
  run_ID :: string
  run_ProjectID :: string
  run_Name :: string
  run_Status :: string
  run_Progress :: int
  run_CreatedAt :: time
  run_UpdatedAt :: time
  run_ParentRunID :: string
  run_EngineRunID :: string
  run_DefinitionID :: string
  run_ExecutionMode :: string
  run_Parameters :: "gany gomap"
  run_Steps :: "PipelineStep list"
  run_Logs :: "RunLog list"

record UpdateRunStepRequest =
  usr_Step :: string
  usr_Status :: string
  usr_Message :: string

record SubmitPipelineRequest =
  sub_ProjectID :: string
  sub_Name :: string
  sub_DefinitionID :: string
  sub_Parameters :: "gany gomap"

record JobResources =
  jr_CPU :: string
  jr_Memory :: string
  jr_GPU :: int

record PipelineJob =
  job_Name :: string
  job_Kind :: string
  job_Function :: string
  job_Image :: string
  job_Command :: "string list"
  job_DependsOn :: "string list"
  job_Environment :: "string gomap"
  job_Resources :: JobResources
  job_Retries :: int

record PipelineDefinition =
  pd_ID :: string
  pd_ProjectID :: string
  pd_Name :: string
  pd_Version :: string
  pd_ExecutionMode :: string
  pd_Jobs :: "PipelineJob list"
  pd_RepositoryURL :: string
  pd_CommitSHA :: string
  pd_CreatedAt :: time
  pd_UpdatedAt :: time

record UpsertPipelineDefinitionRequest =
  upd_ProjectID :: string
  upd_Name :: string
  upd_Version :: string
  upd_ExecutionMode :: string
  upd_Jobs :: "PipelineJob list"
  upd_RepositoryURL :: string
  upd_CommitSHA :: string

record Function =
  fn_Name :: string
  fn_ProjectID :: string
  fn_Image :: string
  fn_Status :: string
  fn_Replicas :: int
  fn_EnvVars :: "string gomap"
  fn_Labels :: "string gomap"
  fn_Annotations :: "string gomap"
  fn_CPU :: string
  fn_Memory :: string
  fn_OwnerSubject :: string
  fn_CreatedAt :: time
  fn_UpdatedAt :: time

record DeployFunctionRequest =
  dfr_ProjectID :: string
  dfr_Name :: string
  dfr_Image :: string
  dfr_EnvVars :: "string gomap"
  dfr_Labels :: "string gomap"
  dfr_Annotations :: "string gomap"
  dfr_CPU :: string
  dfr_Memory :: string

record Component =
  cmp_Name :: string
  cmp_Category :: string
  cmp_Status :: string
  cmp_Description :: string
  cmp_URL :: string

record Model =
  mdl_ID :: string
  mdl_ProjectID :: string
  mdl_Name :: string
  mdl_Version :: string
  mdl_Stage :: string
  mdl_ArtifactURI :: string
  mdl_Metrics :: "f64 gomap"
  mdl_CreatedAt :: time
  mdl_GateStatus :: string
  mdl_DeploymentStatus :: string
  mdl_CanaryWeight :: int
  mdl_EndpointURL :: string
  mdl_PreviousStage :: string

record RegisterModelRequest =
  rmr_ProjectID :: string
  rmr_Name :: string
  rmr_Version :: string
  rmr_ArtifactURI :: string
  rmr_Metrics :: "f64 gomap"

record PromoteModelRequest =
  pmr_Stage :: string

record DeployModelRequest =
  dmr_CanaryWeight :: int

record Agent =
  agt_ID :: string
  agt_ProjectID :: string
  agt_Name :: string
  agt_Version :: string
  agt_Image :: string
  agt_GraphModule :: string
  agt_LLMBackend :: string
  agt_Status :: string
  agt_Replicas :: int
  agt_CanaryWeight :: int
  agt_Tools :: "string list"
  agt_CreatedAt :: time

record DeployAgentRequest =
  dar_ProjectID :: string
  dar_Name :: string
  dar_Version :: string
  dar_Image :: string
  dar_GraphModule :: string
  dar_LLMBackend :: string
  dar_Replicas :: int
  dar_Tools :: "string list"

record TrafficRequest =
  trf_CanaryWeight :: int

record Tool =
  tool_ID :: string
  tool_Name :: string
  tool_Version :: string
  tool_Description :: string
  tool_Tags :: "string list"
  tool_InputSchema :: "gany gomap"
  tool_Status :: string
  tool_CreatedAt :: time

record RegisterToolRequest =
  rtr_Name :: string
  rtr_Version :: string
  rtr_Description :: string
  rtr_Tags :: "string list"
  rtr_InputSchema :: "gany gomap"

record Connection =
  con_ID :: string
  con_Name :: string
  con_Type :: string
  con_Endpoint :: string
  con_SecretRef :: string
  con_Status :: string
  con_CreatedAt :: time
  con_CheckedAt :: "time option"
  con_Message :: string

record CreateConnectionRequest =
  ccr_Name :: string
  ccr_Type :: string
  ccr_Endpoint :: string
  ccr_SecretRef :: string

record ReadinessItem =
  ri_Key :: string
  ri_Label :: string
  ri_Status :: string
  ri_Description :: string
  ri_Action :: string

record Readiness =
  rdy_Percent :: int
  rdy_Ready :: bool
  rdy_Items :: "ReadinessItem list"

record AgentSession =
  ses_ID :: string
  ses_AgentID :: string
  ses_UserID :: string
  ses_Status :: string
  ses_CurrentNode :: string
  ses_Turns :: int
  ses_InputTokens :: int
  ses_OutputTokens :: int
  ses_CostUSD :: f64
  ses_StartedAt :: time
  ses_UpdatedAt :: time

record AgentTrace =
  trc_ID :: string
  trc_AgentID :: string
  trc_SessionID :: string
  trc_Name :: string
  trc_Status :: string
  trc_DurationMS :: int
  trc_Tokens :: int
  trc_Metadata :: "gany gomap"
  trc_CreatedAt :: time

record RecordTraceRequest =
  rec_AgentID :: string
  rec_SessionID :: string
  rec_UserID :: string
  rec_Name :: string
  rec_Status :: string
  rec_CurrentNode :: string
  rec_DurationMS :: int
  rec_InputTokens :: int
  rec_OutputTokens :: int
  rec_CostUSD :: f64
  rec_Metadata :: "gany gomap"

record FeatureField =
  ff_Name :: string
  ff_Type :: string

record FeatureView =
  fv_ID :: string
  fv_Name :: string
  fv_Entity :: string
  fv_Fields :: "FeatureField list"
  fv_Tags :: "string list"
  fv_Source :: string
  fv_TTLSeconds :: int
  fv_Status :: string
  fv_OnlineEntityCount :: int
  fv_MaterializedAt :: "time option"
  fv_CreatedAt :: time

record ApplyFeatureViewRequest =
  afv_Name :: string
  afv_Entity :: string
  afv_Fields :: "FeatureField list"
  afv_Tags :: "string list"
  afv_Source :: string
  afv_TTLSeconds :: int

record MaterializationReport =
  mat_EntityCount :: int

record InvokeAgentRequest =
  inv_Message :: string
  inv_SessionID :: string
  inv_UserID :: string

record AgentUsage =
  usg_Sessions :: int
  usg_Active :: int
  usg_InputTokens :: int
  usg_OutputTokens :: int
  usg_CostUSD :: f64

record AuditEvent =
  evt_ID :: string
  evt_Action :: string
  evt_Resource :: string
  evt_ResourceID :: string
  evt_Actor :: string
  evt_Metadata :: "gany gomap"
  evt_CreatedAt :: time

record CatalogItem =
  ci_Name :: string
  ci_Version :: string
  ci_Status :: string
  ci_Kind :: string
  ci_Metadata :: "string list"

record Dashboard =
  dsh_Projects :: int
  dsh_ActiveRuns :: int
  dsh_Healthy :: int
  dsh_Total :: int
  dsh_RecentRuns :: "PipelineRun list"
  dsh_OnboardingPct :: int

record APIError =
  ae_Error :: string
  ae_Message :: string

subsection \<open>Zero values\<close>

definition zero_StorageGrant :: StorageGrant where
  "zero_StorageGrant = \<lparr>
    sg_SizeGB = 0,
    sg_Buckets = []\<rparr>"

definition zero_ComputeGrant :: ComputeGrant where
  "zero_ComputeGrant = \<lparr>
    cg_Profile = [],
    cg_VCPUs = 0,
    cg_MemoryGB = 0,
    cg_GPUs = 0,
    cg_GPUType = [],
    cg_MaxVMs = 0,
    cg_MaxProjects = 0,
    cg_MaxRuns = 0,
    cg_MaxFunctions = 0\<rparr>"

definition zero_UserAccess :: UserAccess where
  "zero_UserAccess = \<lparr>
    ua_Subject = [],
    ua_Email = [],
    ua_Role = [],
    ua_Services = [],
    ua_ProjectIDs = [],
    ua_Storage = zero_StorageGrant,
    ua_Compute = zero_ComputeGrant,
    ua_Disabled = False,
    ua_CreatedAt = zero_time,
    ua_UpdatedAt = zero_time\<rparr>"

definition zero_AccessRequest :: AccessRequest where
  "zero_AccessRequest = \<lparr>
    ar_ID = [],
    ar_Subject = [],
    ar_Email = [],
    ar_Reason = [],
    ar_RequestedServices = [],
    ar_Status = [],
    ar_Reviewer = [],
    ar_ReviewNote = [],
    ar_CreatedAt = zero_time,
    ar_UpdatedAt = zero_time\<rparr>"

definition zero_APIToken :: APIToken where
  "zero_APIToken = \<lparr>
    tok_ID = [],
    tok_Subject = [],
    tok_Name = [],
    tok_Prefix = [],
    tok_SecretHash = [],
    tok_Services = [],
    tok_ProjectIDs = [],
    tok_CreatedAt = zero_time,
    tok_ExpiresAt = zero_time,
    tok_LastUsedAt = None,
    tok_RevokedAt = None\<rparr>"

definition zero_CreatedAPIToken :: CreatedAPIToken where
  "zero_CreatedAPIToken = \<lparr>
    cat_Token = zero_APIToken,
    cat_Secret = []\<rparr>"

definition zero_BlogPost :: BlogPost where
  "zero_BlogPost = \<lparr>
    bp_ID = [],
    bp_Slug = [],
    bp_Title = [],
    bp_Summary = [],
    bp_Content = [],
    bp_Author = [],
    bp_Tags = [],
    bp_Status = [],
    bp_CreatedAt = zero_time,
    bp_UpdatedAt = zero_time,
    bp_PublishedAt = None\<rparr>"

definition zero_Project :: Project where
  "zero_Project = \<lparr>
    prj_ID = [],
    prj_Name = [],
    prj_Description = [],
    prj_Template = [],
    prj_Namespace = [],
    prj_Status = [],
    prj_CreatedAt = zero_time,
    prj_OwnerSubject = [],
    prj_Repository = None\<rparr>"

definition zero_GitRepository :: GitRepository where
  "zero_GitRepository = \<lparr>
    git_URL = [],
    git_Provider = [],
    git_DefaultBranch = [],
    git_LastCommit = [],
    git_SyncedAt = None\<rparr>"

definition zero_PipelineRun :: PipelineRun where
  "zero_PipelineRun = \<lparr>
    run_ID = [],
    run_ProjectID = [],
    run_Name = [],
    run_Status = [],
    run_Progress = 0,
    run_CreatedAt = zero_time,
    run_UpdatedAt = zero_time,
    run_ParentRunID = [],
    run_EngineRunID = [],
    run_DefinitionID = [],
    run_ExecutionMode = [],
    run_Parameters = [],
    run_Steps = [],
    run_Logs = []\<rparr>"

definition zero_PipelineDefinition :: PipelineDefinition where
  "zero_PipelineDefinition = \<lparr>
    pd_ID = [],
    pd_ProjectID = [],
    pd_Name = [],
    pd_Version = [],
    pd_ExecutionMode = [],
    pd_Jobs = [],
    pd_RepositoryURL = [],
    pd_CommitSHA = [],
    pd_CreatedAt = zero_time,
    pd_UpdatedAt = zero_time\<rparr>"

definition zero_Function :: Function where
  "zero_Function = \<lparr>
    fn_Name = [],
    fn_ProjectID = [],
    fn_Image = [],
    fn_Status = [],
    fn_Replicas = 0,
    fn_EnvVars = [],
    fn_Labels = [],
    fn_Annotations = [],
    fn_CPU = [],
    fn_Memory = [],
    fn_OwnerSubject = [],
    fn_CreatedAt = zero_time,
    fn_UpdatedAt = zero_time\<rparr>"

definition zero_Model :: Model where
  "zero_Model = \<lparr>
    mdl_ID = [],
    mdl_ProjectID = [],
    mdl_Name = [],
    mdl_Version = [],
    mdl_Stage = [],
    mdl_ArtifactURI = [],
    mdl_Metrics = [],
    mdl_CreatedAt = zero_time,
    mdl_GateStatus = [],
    mdl_DeploymentStatus = [],
    mdl_CanaryWeight = 0,
    mdl_EndpointURL = [],
    mdl_PreviousStage = []\<rparr>"

definition zero_Agent :: Agent where
  "zero_Agent = \<lparr>
    agt_ID = [],
    agt_ProjectID = [],
    agt_Name = [],
    agt_Version = [],
    agt_Image = [],
    agt_GraphModule = [],
    agt_LLMBackend = [],
    agt_Status = [],
    agt_Replicas = 0,
    agt_CanaryWeight = 0,
    agt_Tools = [],
    agt_CreatedAt = zero_time\<rparr>"

definition zero_Tool :: Tool where
  "zero_Tool = \<lparr>
    tool_ID = [],
    tool_Name = [],
    tool_Version = [],
    tool_Description = [],
    tool_Tags = [],
    tool_InputSchema = [],
    tool_Status = [],
    tool_CreatedAt = zero_time\<rparr>"

definition zero_Connection :: Connection where
  "zero_Connection = \<lparr>
    con_ID = [],
    con_Name = [],
    con_Type = [],
    con_Endpoint = [],
    con_SecretRef = [],
    con_Status = [],
    con_CreatedAt = zero_time,
    con_CheckedAt = None,
    con_Message = []\<rparr>"

definition zero_AgentTrace :: AgentTrace where
  "zero_AgentTrace = \<lparr>
    trc_ID = [],
    trc_AgentID = [],
    trc_SessionID = [],
    trc_Name = [],
    trc_Status = [],
    trc_DurationMS = 0,
    trc_Tokens = 0,
    trc_Metadata = [],
    trc_CreatedAt = zero_time\<rparr>"

definition zero_AgentSession :: AgentSession where
  "zero_AgentSession = \<lparr>
    ses_ID = [],
    ses_AgentID = [],
    ses_UserID = [],
    ses_Status = [],
    ses_CurrentNode = [],
    ses_Turns = 0,
    ses_InputTokens = 0,
    ses_OutputTokens = 0,
    ses_CostUSD = 0,
    ses_StartedAt = zero_time,
    ses_UpdatedAt = zero_time\<rparr>"

definition zero_FeatureView :: FeatureView where
  "zero_FeatureView = \<lparr>
    fv_ID = [],
    fv_Name = [],
    fv_Entity = [],
    fv_Fields = [],
    fv_Tags = [],
    fv_Source = [],
    fv_TTLSeconds = 0,
    fv_Status = [],
    fv_OnlineEntityCount = 0,
    fv_MaterializedAt = None,
    fv_CreatedAt = zero_time\<rparr>"

definition zero_JobResources :: JobResources where
  "zero_JobResources = \<lparr>
    jr_CPU = [],
    jr_Memory = [],
    jr_GPU = 0\<rparr>"

definition zero_PipelineJob :: PipelineJob where
  "zero_PipelineJob = \<lparr>
    job_Name = [],
    job_Kind = [],
    job_Function = [],
    job_Image = [],
    job_Command = [],
    job_DependsOn = [],
    job_Environment = [],
    job_Resources = zero_JobResources,
    job_Retries = 0\<rparr>"

lemmas zero_defs =
  zero_StorageGrant_def zero_ComputeGrant_def zero_UserAccess_def zero_AccessRequest_def zero_APIToken_def zero_CreatedAPIToken_def zero_BlogPost_def zero_Project_def zero_GitRepository_def zero_PipelineRun_def zero_PipelineDefinition_def
  zero_Function_def zero_Model_def zero_Agent_def zero_Tool_def zero_Connection_def zero_AgentTrace_def zero_AgentSession_def zero_FeatureView_def zero_JobResources_def zero_PipelineJob_def

end
