(* ===== verification/Store_Base.thy ===== *)
theory Store_Base
  imports Api
begin

text \<open>
  The file-backed repository of \<^verbatim>\<open>go/internal/store/store.go\<close>: its in-memory state, the
  audit log, persistence and the helpers every operation shares.

  A method of \<open>*Store\<close> runs under the store's mutex, so it is a function from the store to
  the store and the method's results. The environment \<open>env\<close> holds what the call observes of
  the outside world: \<open>clk k\<close> is the \<open>k\<close>-th reading of \<open>time.Now()\<close> during the call
  (in evaluation order), \<open>map_seed\<close> decides the iteration order of maps, \<open>rand32\<close> and \<open>rand8\<close>
  are the bytes \<open>crypto/rand\<close> delivers to the two reads of a token generation (\<open>None\<close> when
  the read fails), \<open>marshal\<close> and \<open>unmarshal\<close> are \<open>encoding/json\<close> on the state
  (the text is never inspected by the program), and the remaining fields say which system
  calls fail. The file system is part of the store record: a map from path to contents.
\<close>

record state =
  st_UserAccess :: "UserAccess list"
  st_AccessRequests :: "AccessRequest list"
  st_APITokens :: "APIToken list"
  st_BlogPosts :: "BlogPost list"
  st_Projects :: "Project list"
  st_Runs :: "PipelineRun list"
  st_Definitions :: "PipelineDefinition list"
  st_Functions :: "Function list"
  st_Models :: "Model list"
  st_Agents :: "Agent list"
  st_Tools :: "Tool list"
  st_Connections :: "Connection list"
  st_Audit :: "AuditEvent list"
  st_Sessions :: "AgentSession list"
  st_Traces :: "AgentTrace list"
  st_Features :: "FeatureView list"

definition zero_state :: state where
  "zero_state = \<lparr>
    st_UserAccess = [], st_AccessRequests = [], st_APITokens = [], st_BlogPosts = [],
    st_Projects = [], st_Runs = [], st_Definitions = [], st_Functions = [], st_Models = [],
    st_Agents = [], st_Tools = [], st_Connections = [], st_Audit = [], st_Sessions = [],
    st_Traces = [], st_Features = []\<rparr>"

type_synonym disk = "string \<rightharpoonup> string"

record Store =
  spath :: string
  data :: state
  disk :: disk

record env =
  clk :: "nat \<Rightarrow> time"
  map_seed :: "nat list"
  rand32 :: "string option"
  rand8 :: "string option"
  marshal :: "state \<Rightarrow> string option"
  unmarshal :: "string \<Rightarrow> state \<Rightarrow> state \<times> error option"
  read_err :: "error option"
  mkdir_err :: "error option"
  write_err :: "(error \<times> string option) option"
  rename_err :: "error option"

subsection \<open>Persistence\<close>

definition tmp_path :: "Store \<Rightarrow> string" where
  "tmp_path s = spath s @ ''.tmp''"

definition persist :: "env \<Rightarrow> Store \<Rightarrow> Store \<times> error option" where
  "persist e s =
     (if spath s = [] then (s, None)
      else case mkdir_err e of Some x \<Rightarrow> (s, Some x)
      | None \<Rightarrow> (case marshal e (data s) of
          None \<Rightarrow> (s, Some ErrJSON)
        | Some raw \<Rightarrow> (case write_err e of
            Some (x, left) \<Rightarrow> (s\<lparr>disk := (disk s)(tmp_path s := left)\<rparr>, Some x)
          | None \<Rightarrow> (case rename_err e of
              Some x \<Rightarrow> (s\<lparr>disk := (disk s)(tmp_path s \<mapsto> raw)\<rparr>, Some x)
            | None \<Rightarrow> (s\<lparr>disk := (disk s)(tmp_path s := None, spath s \<mapsto> raw)\<rparr>, None)))))"

definition load :: "env \<Rightarrow> Store \<Rightarrow> Store \<times> error option" where
  "load e s =
     (case read_err e of Some x \<Rightarrow> (s, Some x)
      | None \<Rightarrow> (case disk s (spath s) of
          None \<Rightarrow> (s, None)
        | Some raw \<Rightarrow> (let (d, err) = unmarshal e raw (data s) in (s\<lparr>data := d\<rparr>, err))))"

text \<open>The recurring tail \<open>return v, s.persist()\<close>.\<close>

definition commit :: "env \<Rightarrow> Store \<Rightarrow> 'a \<Rightarrow> Store \<times> 'a ret" where
  "commit e s v = (let (s', err) = persist e s in (s', (v, err)))"

lemma persist_frame [simp]:
  "data (fst (persist e s)) = data s" "spath (fst (persist e s)) = spath s"
  by (auto simp: persist_def split: option.splits)

lemma commit_frame [simp]:
  "data (fst (commit e s v)) = data s" "spath (fst (commit e s v)) = spath s"
  "fst (snd (commit e s v)) = v" "snd (snd (commit e s v)) = snd (persist e s)"
  by (simp_all add: commit_def split_beta)

lemma persist_in_memory: "spath s = [] \<Longrightarrow> persist e s = (s, None)"
  by (simp add: persist_def)

lemma commit_in_memory: "spath s = [] \<Longrightarrow> commit e s v = (s, (v, None))"
  by (simp add: commit_def persist_in_memory)

text \<open>
  The states of the disk at which the process can be killed during \<open>persist\<close>: before the
  first system call, while the temporary file is written (any prefix of the document may be
  there), and after the rename.
\<close>

inductive persist_crash :: "env \<Rightarrow> Store \<Rightarrow> disk \<Rightarrow> bool" for e :: env and s :: Store where
  untouched: "persist_crash e s (disk s)"
| writing: "spath s \<noteq> [] \<Longrightarrow> mkdir_err e = None \<Longrightarrow> marshal e (data s) = Some raw \<Longrightarrow>
    prefix part raw \<Longrightarrow> persist_crash e s ((disk s)(tmp_path s \<mapsto> part))"
| finished: "persist_crash e s (disk (fst (persist e s)))"

lemma persist_crash_file:
  assumes "persist_crash e s d" and "spath s \<noteq> []"
  shows "d (spath s) = disk s (spath s) \<or> (\<exists>raw. marshal e (data s) = Some raw \<and> d (spath s) = Some raw)"
  using assms by (induction rule: persist_crash.induct) (auto simp: persist_def tmp_path_def split: option.splits)

subsection \<open>Small helpers\<close>

definition new_id :: "string \<Rightarrow> time \<Rightarrow> string" where
  "new_id pre t = pre @ ''-'' @ Itoa (wrap64 t)"

lemma new_id_inj:
  assumes "- (2 ^ 63) \<le> t" "t < 2 ^ 63" "- (2 ^ 63) \<le> u" "u < 2 ^ 63"
  shows "new_id p t = new_id p u \<longleftrightarrow> t = u"
  using assms by (simp add: new_id_def Itoa_inj wrap64_id)

definition hasProject :: "Project list \<Rightarrow> string \<Rightarrow> bool" where
  "hasProject values wanted = list_ex (\<lambda>v. prj_ID v = wanted) values"

definition first_or_empty :: "string list \<Rightarrow> string" where
  "first_or_empty values = (case values of [] \<Rightarrow> [] | v # _ \<Rightarrow> v)"

definition actor_name :: "string \<Rightarrow> string" where
  "actor_name actor = (if actor = [] then ''anonymous'' else actor)"

text \<open>\<open>record\<close>: prepend an audit event, with the clock readings \<open>k\<close> and \<open>k + 1\<close>.\<close>

definition record_event ::
  "env \<Rightarrow> nat \<Rightarrow> string \<Rightarrow> string \<Rightarrow> string \<Rightarrow> string \<Rightarrow> gany gomap \<Rightarrow> Store \<Rightarrow> Store" where
  "record_event e k action resource resourceID actor metadata s =
     (let event = \<lparr>evt_ID = new_id ''evt'' (clk e k), evt_Action = action, evt_Resource = resource,
                   evt_ResourceID = resourceID, evt_Actor = actor_name actor,
                   evt_Metadata = metadata, evt_CreatedAt = clk e (k + 1)\<rparr>
      in s\<lparr>data := (data s)\<lparr>st_Audit := event # st_Audit (data s)\<rparr>\<rparr>)"

lemma record_event_frame [simp]:
  "spath (record_event e k a r i ac md s) = spath s"
  "disk (record_event e k a r i ac md s) = disk s"
  "data (record_event e k a r i ac md s) =
     (data s)\<lparr>st_Audit := \<lparr>evt_ID = new_id ''evt'' (clk e k), evt_Action = a, evt_Resource = r,
       evt_ResourceID = i, evt_Actor = actor_name ac, evt_Metadata = md,
       evt_CreatedAt = clk e (k + 1)\<rparr> # st_Audit (data s)\<rparr>"
  by (simp_all add: record_event_def Let_def)

subsection \<open>Slugs\<close>

fun slug_loop :: "bool \<Rightarrow> string \<Rightarrow> string \<Rightarrow> string" where
  "slug_loop dash b [] = b"
| "slug_loop dash b (r # rs) =
     (if is_lower_alnum r then slug_loop False (b @ [r]) rs
      else if \<not> dash \<and> b \<noteq> [] then slug_loop True (b @ ''-'') rs
      else slug_loop dash b rs)"

definition slug :: "string \<Rightarrow> string" where
  "slug value = TrimByte (CHR ''-'') (slug_loop False [] (ToLower (TrimSpace value)))"

text \<open>
  The shape of a slug: lower-case letters, digits and single dashes, with no dash at
  either end.
\<close>

fun single_dashes :: "string \<Rightarrow> bool" where
  "single_dashes [] = True"
| "single_dashes [c] = True"
| "single_dashes (c # d # cs) = (\<not> (c = CHR ''-'' \<and> d = CHR ''-'') \<and> single_dashes (d # cs))"

definition slug_chars :: "string \<Rightarrow> bool" where
  "slug_chars s \<longleftrightarrow> (\<forall>c \<in> set s. is_lower_alnum c \<or> c = CHR ''-'')"

definition slug_shaped :: "string \<Rightarrow> bool" where
  "slug_shaped s \<longleftrightarrow> slug_chars s \<and> single_dashes s \<and>
     (s \<noteq> [] \<longrightarrow> hd s \<noteq> CHR ''-'' \<and> last s \<noteq> CHR ''-'')"

lemma dash_not_alnum [simp]: "\<not> is_lower_alnum (CHR ''-'')"
  by (simp add: is_lower_alnum_def)

lemma single_dashes_snoc:
  "single_dashes (s @ [c]) \<longleftrightarrow> single_dashes s \<and> \<not> (s \<noteq> [] \<and> last s = CHR ''-'' \<and> c = CHR ''-'')"
  by (induction s rule: single_dashes.induct) auto

lemma single_dashes_tl: "single_dashes (c # s) \<Longrightarrow> single_dashes s"
  by (cases s) auto

lemma single_dashes_butlast: "single_dashes (s @ [c]) \<Longrightarrow> single_dashes s"
  by (simp add: single_dashes_snoc)

text \<open>The builder of the loop: slug characters, no double dash, and \<open>dash\<close> tracks its end.\<close>

lemma slug_loop_inv:
  assumes "slug_chars b" and "single_dashes b" and "b \<noteq> [] \<Longrightarrow> hd b \<noteq> CHR ''-''"
    and "b \<noteq> [] \<Longrightarrow> dash \<longleftrightarrow> last b = CHR ''-''"
  shows "slug_chars (slug_loop dash b rs) \<and> single_dashes (slug_loop dash b rs) \<and>
     (slug_loop dash b rs \<noteq> [] \<longrightarrow> hd (slug_loop dash b rs) \<noteq> CHR ''-'')"
  using assms
proof (induction dash b rs rule: slug_loop.induct)
  case (1 dash b)
  then show ?case by simp
next
  case (2 dash b r rs)
  consider (keep) "is_lower_alnum r" | (dash) "\<not> is_lower_alnum r" "\<not> dash" "b \<noteq> []"
    | (skip) "\<not> is_lower_alnum r" "dash \<or> b = []" by blast
  then show ?case
  proof cases
    case keep
    then have "r \<noteq> CHR ''-''" by auto
    with keep "2.prems" have "slug_chars (b @ [r])" "single_dashes (b @ [r])"
      "hd (b @ [r]) \<noteq> CHR ''-''" "last (b @ [r]) \<noteq> CHR ''-''"
      by (auto simp: slug_chars_def single_dashes_snoc hd_append)
    with keep show ?thesis using "2.IH"(1) by simp
  next
    case dash
    with "2.prems" have "slug_chars (b @ ''-'')" "single_dashes (b @ ''-'')"
      "hd (b @ ''-'') \<noteq> CHR ''-''"
      by (auto simp: slug_chars_def single_dashes_snoc hd_append)
    with dash show ?thesis using "2.IH"(2) by simp
  next
    case skip
    with "2.prems" show ?thesis using "2.IH"(3) by auto
  qed
qed

lemma single_dashes_prefix: "single_dashes (s @ t) \<Longrightarrow> single_dashes s"
  by (induction t rule: rev_induct) (auto simp: single_dashes_snoc simp flip: append_assoc)

lemma TrimByte_shaped:
  assumes "slug_chars s" "single_dashes s" "s \<noteq> [] \<Longrightarrow> hd s \<noteq> CHR ''-''"
  shows "slug_shaped (TrimByte (CHR ''-'') s)"
proof -
  let ?t = "rev (dropWhile (\<lambda>x. x = CHR ''-'') (rev s))"
  have trim: "TrimByte (CHR ''-'') s = ?t"
    using assms(3) by (cases s) (auto simp: TrimByte_def)
  define u where "u = rev (takeWhile (\<lambda>x. x = CHR ''-'') (rev s))"
  have split: "?t @ u = s"
    unfolding u_def by (simp only: rev_append [symmetric] takeWhile_dropWhile_id rev_rev_ident)
  have "slug_chars ?t"
    using assms(1) set_dropWhileD [of _ "\<lambda>x. x = CHR ''-''" "rev s"]
    by (fastforce simp: slug_chars_def)
  moreover have "single_dashes ?t"
    by (rule single_dashes_prefix [of _ u]) (simp only: split assms(2))
  moreover have "hd ?t \<noteq> CHR ''-''" if "?t \<noteq> []"
  proof -
    have "hd ?t = hd s" "s \<noteq> []"
      using hd_append2 [OF that, of u] that by (simp only: split, cases s, simp_all)
    then show ?thesis using assms(3) by simp
  qed
  moreover have "last ?t \<noteq> CHR ''-''" if "?t \<noteq> []"
    using that hd_dropWhile [of "\<lambda>x. x = CHR ''-''" "rev s"] by (auto simp: last_rev)
  ultimately show ?thesis by (simp add: trim slug_shaped_def)
qed

lemma slug_is_shaped: "slug_shaped (slug v)"
  unfolding slug_def
  by (rule TrimByte_shaped) (use slug_loop_inv [of "[]" False] in \<open>auto simp: slug_chars_def\<close>)

text \<open>A slug is a fixed point of every stage of \<open>slug\<close>.\<close>

lemma slug_char_not_upper:
  "is_lower_alnum c \<or> c = CHR ''-'' \<Longrightarrow> lower_char c = c"
  by (auto simp: lower_char_def is_lower_alnum_def Let_def)

lemma rewrite_runes_id:
  assumes "slug_chars s"
    and "\<And>p d. (p, d) \<in> set rs \<Longrightarrow> p \<noteq> [] \<and> \<not> (is_lower_alnum (hd p) \<or> hd p = CHR ''-'')"
  shows "rewrite_runes rs s = s"
  using assms(1)
proof (induction s)
  case (Cons c cs)
  have "find (\<lambda>(p, d). HasPrefix (c # cs) p) rs = None"
  proof -
    have "\<not> HasPrefix (c # cs) p" if "(p, d) \<in> set rs" for p d
      using assms(2) [OF that] Cons.prems by (cases p) (auto simp: HasPrefix_def slug_chars_def)
    then show ?thesis by (auto simp: find_None_iff)
  qed
  with Cons show ?case by (simp add: slug_chars_def slug_char_not_upper)
qed simp

lemma ToLower_slug: "slug_chars s \<Longrightarrow> ToLower s = s"
  unfolding ToLower_def by (rule rewrite_runes_id) (auto simp: is_lower_alnum_def)

lemma space_runes_not_slug:
  "p \<in> set space_runes \<Longrightarrow> c \<in> set p \<Longrightarrow> \<not> (is_lower_alnum c \<or> c = CHR ''-'')"
  by (auto simp: space_runes_def is_lower_alnum_def)

lemma TrimSpace_slug:
  assumes "slug_chars s"
  shows "TrimSpace s = s"
proof -
  have no: "\<not> HasPrefix t q" if "set q \<subseteq> set p" "p \<in> set space_runes" "q \<noteq> []" "set t = set s" for t p q
    using that assms space_runes_not_slug [of p "hd q"]
    by (cases q; cases t) (auto simp: HasPrefix_def slug_chars_def)
  have "strip space_runes s = s"
    by (rule strip_id) (use no in blast)
  moreover have "strip (map rev space_runes) (rev s) = rev s"
    by (rule strip_id) (use no [of "rev _"] in fastforce)
  ultimately show ?thesis by (simp add: TrimSpace_def)
qed

lemma slug_loop_id:
  assumes "slug_chars s" "single_dashes (b @ s)" "b @ s \<noteq> [] \<Longrightarrow> hd (b @ s) \<noteq> CHR ''-''"
    and "dash \<longleftrightarrow> b \<noteq> [] \<and> last b = CHR ''-''"
  shows "slug_loop dash b s = b @ s"
  using assms
proof (induction s arbitrary: dash b)
  case (Cons c s)
  have dash: "\<not> dash \<and> b \<noteq> []" if "c = CHR ''-''"
  proof -
    have "b \<noteq> []" using that Cons.prems(3) by auto
    moreover have "single_dashes (b @ [c])"
      using single_dashes_prefix [of "b @ [c]" s] Cons.prems(2) by simp
    ultimately show ?thesis
      using that Cons.prems(4) by (simp add: single_dashes_snoc)
  qed
  from Cons.prems have "slug_loop (c = CHR ''-'') (b @ [c]) s = (b @ [c]) @ s"
    by (intro Cons.IH) (auto simp: slug_chars_def)
  moreover have "is_lower_alnum c \<or> c = CHR ''-''"
    using Cons.prems(1) by (simp add: slug_chars_def)
  moreover have "c \<noteq> CHR ''-''" if "is_lower_alnum c"
    using that by auto
  ultimately show ?case using dash by (cases "c = CHR ''-''") simp_all
qed simp

lemma slug_fixed:
  assumes "slug_shaped s"
  shows "slug s = s"
proof -
  have "slug_loop False [] s = s"
    using assms slug_loop_id [of s "[]" False] by (simp add: slug_shaped_def)
  moreover have "TrimByte (CHR ''-'') s = s"
  proof (cases "s = []")
    case False
    with assms have "hd s \<noteq> CHR ''-''" "hd (rev s) \<noteq> CHR ''-''"
      by (auto simp: slug_shaped_def hd_rev)
    with False have "dropWhile (\<lambda>x. x = CHR ''-'') s = s"
      "dropWhile (\<lambda>x. x = CHR ''-'') (rev s) = rev s"
      by (simp_all add: dropWhile_eq_self_iff)
    then show ?thesis by (simp add: TrimByte_def)
  qed (simp add: TrimByte_def)
  ultimately show ?thesis
    using assms by (simp add: slug_def slug_shaped_def ToLower_slug TrimSpace_slug)
qed

lemma slug_idem [simp]: "slug (slug v) = slug v"
  by (rule slug_fixed [OF slug_is_shaped])

subsection \<open>Default steps and the constructor\<close>

definition default_step :: "string \<Rightarrow> string \<Rightarrow> string list \<Rightarrow> PipelineStep" where
  "default_step status name deps =
     \<lparr>ps_Name = name, ps_Status = status, ps_Image = ''mlaiops/pipeline-runner:latest'',
      ps_DependsOn = deps, ps_Progress = 0\<rparr>"

definition defaultSteps :: "string \<Rightarrow> PipelineStep list" where
  "defaultSteps status =
     (let steps = [default_step status ''validate-data'' [],
                   default_step status ''train-model'' [''validate-data''],
                   default_step status ''evaluate'' [''train-model''],
                   default_step status ''register-model'' [''evaluate'']]
      in if status = ''succeeded'' then map (\<lambda>st. st\<lparr>ps_Progress := 100\<rparr>) steps else steps)"

definition demo_project :: "time \<Rightarrow> Project" where
  "demo_project now = \<lparr>prj_ID = ''prj-demo'', prj_Name = ''Fraud detection starter'',
     prj_Description = ''A guided tabular ML project'', prj_Template = ''tabular-classification'',
     prj_Namespace = ''team-demo'', prj_Status = ''ready'', prj_CreatedAt = now,
     prj_OwnerSubject = [], prj_Repository = None\<rparr>"

definition demo_run :: "time \<Rightarrow> PipelineRun" where
  "demo_run now = zero_PipelineRun\<lparr>run_ID := ''run-demo'', run_ProjectID := ''prj-demo'',
     run_Name := ''training-pipeline'', run_Status := ''succeeded'', run_Progress := 100,
     run_CreatedAt := now, run_UpdatedAt := now, run_Steps := defaultSteps ''succeeded''\<rparr>"

definition Store_New :: "env \<Rightarrow> disk \<Rightarrow> string list \<Rightarrow> Store" where
  "Store_New e dsk paths =
     (let s0 = \<lparr>spath = first_or_empty paths, data = zero_state, disk = dsk\<rparr>;
          s1 = (if spath s0 \<noteq> [] then fst (load e s0) else s0)
      in if st_Projects (data s1) = []
         then fst (persist e (s1\<lparr>data := (data s1)\<lparr>st_Projects := [demo_project (clk e 0)],
                                                  st_Runs := [demo_run (clk e 0)]\<rparr>\<rparr>))
         else s1)"

lemma length_defaultSteps [simp]: "length (defaultSteps st) = 4"
  by (simp add: defaultSteps_def Let_def)

lemma defaultSteps_status: "p \<in> set (defaultSteps st) \<Longrightarrow> ps_Status p = st"
  by (auto simp: defaultSteps_def default_step_def Let_def split: if_splits)

end
