(* ===== verification/Pipeline_Graph.thy ===== *)
theory Pipeline_Graph
  imports Prelude
begin

text \<open>
  The cycle check inside \<^verbatim>\<open>validatePipelineDefinition\<close> (\<^verbatim>\<open>go/internal/store/workloads.go\<close>):
  a depth-first search over the dependency graph with the two colour maps \<open>visiting\<close> and
  \<open>visited\<close>. The Go closure \<open>visit\<close> recurses through \<open>byName[name].DependsOn\<close>; here the
  recursion depth is bounded by a fuel argument and \<open>None\<close> means that it ran out.
  The lemmas show that a fuel larger than the number of jobs is always enough, that the
  search fails exactly when the graph has a cycle, and that a successful search yields a
  ranking of the jobs.
\<close>

type_synonym colours = "string set \<times> string set" \<comment> \<open>\<open>visiting\<close>, \<open>visited\<close>\<close>

fun visit :: "nat \<Rightarrow> (string \<Rightarrow> string list) \<Rightarrow> colours \<Rightarrow> string \<Rightarrow> (bool \<times> colours) option"
and visit_parents :: "nat \<Rightarrow> (string \<Rightarrow> string list) \<Rightarrow> colours \<Rightarrow> string list \<Rightarrow> (bool \<times> colours) option"
where
  "visit 0 deps c name = None"
| "visit (Suc n) deps (visiting, visited) name =
     (if name \<in> visiting then Some (False, (visiting, visited))
      else if name \<in> visited then Some (True, (visiting, visited))
      else (case visit_parents n deps (insert name visiting, visited) (deps name) of
          None \<Rightarrow> None
        | Some (False, c) \<Rightarrow> Some (False, c)
        | Some (True, (visiting', visited')) \<Rightarrow>
            Some (True, (visiting' - {name}, insert name visited'))))"
| "visit_parents n deps c [] = Some (True, c)"
| "visit_parents n deps c (parent # ps) =
     (case visit n deps c parent of
        None \<Rightarrow> None
      | Some (False, c') \<Rightarrow> Some (False, c')
      | Some (True, c') \<Rightarrow> visit_parents n deps c' ps)"

text \<open>The final loop \<open>for name := range byName\<close>, over the names in the order of the map.\<close>

definition visit_all :: "nat \<Rightarrow> (string \<Rightarrow> string list) \<Rightarrow> string list \<Rightarrow> bool option" where
  "visit_all n deps names = map_option fst (visit_parents n deps ({}, {}) names)"

text \<open>The dependency relation and the specification.\<close>

definition dep_rel :: "(string \<Rightarrow> string list) \<Rightarrow> string rel" where
  "dep_rel deps = {(x, y). y \<in> set (deps x)}"

definition ranked :: "(string \<Rightarrow> string list) \<Rightarrow> (string \<Rightarrow> nat) \<Rightarrow> string set \<Rightarrow> bool" where
  "ranked deps rank V \<longleftrightarrow> (\<forall>x \<in> V. \<forall>y \<in> set (deps x). y \<in> V \<and> rank y < rank x)"

lemma ranked_empty [simp]: "ranked deps rank {}"
  by (simp add: ranked_def)

lemma ranked_insert:
  assumes "ranked deps rank V" and "set (deps n) \<subseteq> V" and "n \<notin> V"
  shows "\<exists>rank'. ranked deps rank' (insert n V)"
proof
  let ?r = "rank(n := Suc (sum_list (map rank (deps n))))"
  have "rank y < Suc (sum_list (map rank (deps n)))" if "y \<in> set (deps n)" for y
    using member_le_sum_list [of "rank y" "map rank (deps n)"] that by simp
  with assms show "ranked deps ?r (insert n V)"
    by (auto simp: ranked_def)
qed

lemma ranked_trancl:
  assumes "(x, y) \<in> (dep_rel deps)\<^sup>+" and "ranked deps rank V" and "x \<in> V"
  shows "y \<in> V \<and> rank y < rank x"
  using assms by (induction rule: trancl_induct) (fastforce simp: dep_rel_def ranked_def)+

lemma ranked_acyclic:
  assumes "ranked deps rank V" and "\<And>x. x \<notin> V \<Longrightarrow> deps x = []"
  shows "acyclic (dep_rel deps)"
proof (rule acyclicI, rule allI, rule notI)
  fix x assume cycle: "(x, x) \<in> (dep_rel deps)\<^sup>+"
  then obtain y where "(x, y) \<in> dep_rel deps" by (meson tranclD)
  then have "x \<in> V" using assms(2) [of x] by (cases "x \<in> V") (auto simp: dep_rel_def)
  with ranked_trancl [OF cycle assms(1)] show False by simp
qed

text \<open>A successful visit: colours restored, everything new is visited, nothing grey is.\<close>

lemma visit_success:
  "visit n deps (visiting, visited) name = Some (True, (visiting', visited')) \<Longrightarrow>
     ranked deps rank visited \<Longrightarrow> visiting \<inter> visited = {} \<Longrightarrow>
     visiting' = visiting \<and> visited \<subseteq> visited' \<and> name \<in> visited' \<and>
     visiting \<inter> visited' = {} \<and> (\<exists>r. ranked deps r visited')"
  "visit_parents n deps (visiting, visited) ps = Some (True, (visiting', visited')) \<Longrightarrow>
     ranked deps rank visited \<Longrightarrow> visiting \<inter> visited = {} \<Longrightarrow>
     visiting' = visiting \<and> visited \<subseteq> visited' \<and> set ps \<subseteq> visited' \<and>
     visiting \<inter> visited' = {} \<and> (\<exists>r. ranked deps r visited')"
proof (induction n deps "(visiting, visited)" name and n deps "(visiting, visited)" ps
    arbitrary: visiting visited visiting' visited' rank and visiting visited visiting' visited' rank
    rule: visit_visit_parents.induct)
  case (2 n deps visiting visited name)
  show ?case
  proof (cases "name \<in> visited")
    case True
    with "2.prems" show ?thesis by (auto split: if_splits)
  next
    case False
    with "2.prems"(1) obtain G B where
      par: "visit_parents n deps (insert name visiting, visited) (deps name) = Some (True, (G, B))"
      and res: "visiting' = G - {name}" "visited' = insert name B" and new: "name \<notin> visiting"
      by (auto split: if_splits option.splits bool.splits)
    have "G = insert name visiting \<and> visited \<subseteq> B \<and> set (deps name) \<subseteq> B \<and>
        insert name visiting \<inter> B = {} \<and> (\<exists>r. ranked deps r B)"
      using "2.hyps" [OF new False par "2.prems"(2)] "2.prems"(3) False by auto
    with new res ranked_insert [of deps _ B name] show ?thesis by auto
  qed
next
  case (4 n deps parent ps)
  from "4.prems"(1) obtain G B where
    one: "visit n deps (visiting, visited) parent = Some (True, (G, B))"
    and rest: "visit_parents n deps (G, B) ps = Some (True, (visiting', visited'))"
    by (auto split: option.splits bool.splits)
  from "4.hyps"(1) [OF one "4.prems"(2,3)] obtain r where
    B: "G = visiting" "visited \<subseteq> B" "parent \<in> B" "visiting \<inter> B = {}" "ranked deps r B" by auto
  have "visiting' = visiting \<and> B \<subseteq> visited' \<and> set ps \<subseteq> visited' \<and>
      visiting \<inter> visited' = {} \<and> (\<exists>r. ranked deps r visited')"
    using "4.hyps"(2) [OF one refl refl rest B(5)] B by simp
  with B show ?case by auto
qed auto

text \<open>A failed visit: every grey node reaches the node under visit, so a cycle is closed.\<close>

lemma visit_grey:
  "visit n deps c name = Some (True, c') \<Longrightarrow> name \<notin> fst c \<Longrightarrow> fst c' = fst c"
  "visit_parents n deps c ps = Some (True, c') \<Longrightarrow> fst c' = fst c"
proof (induction n deps c name and n deps c ps arbitrary: c' and c' rule: visit_visit_parents.induct)
  case (2 n deps visiting visited name)
  then show ?case by (fastforce split: if_splits option.splits bool.splits)
next
  case (4 n deps c parent ps)
  from "4.prems" obtain c1 where
    one: "visit n deps c parent = Some (True, c1)" and rest: "visit_parents n deps c1 ps = Some (True, c')"
    by (auto split: option.splits bool.splits)
  from one have "parent \<notin> fst c" by (cases n; cases c) (auto split: if_splits)
  with "4.IH"(1) one have "fst c1 = fst c" by simp
  with "4.IH"(2) [OF one refl refl rest] show ?case by simp
qed auto

lemma visit_failure:
  "visit n deps c name = Some (False, c') \<Longrightarrow>
     (\<And>v. v \<in> fst c \<Longrightarrow> (v, name) \<in> (dep_rel deps)\<^sup>+) \<Longrightarrow> \<not> acyclic (dep_rel deps)"
  "visit_parents n deps c ps = Some (False, c') \<Longrightarrow>
     (\<And>v p. v \<in> fst c \<Longrightarrow> p \<in> set ps \<Longrightarrow> (v, p) \<in> (dep_rel deps)\<^sup>+) \<Longrightarrow> \<not> acyclic (dep_rel deps)"
proof (induction n deps c name and n deps c ps arbitrary: c' and c' rule: visit_visit_parents.induct)
  case (2 n deps visiting visited name)
  show ?case
  proof (cases "name \<in> visiting")
    case True
    with "2.prems"(2) show ?thesis by (auto simp: acyclic_def)
  next
    case False
    with "2.prems"(1) have fail: "visit_parents n deps (insert name visiting, visited) (deps name) = Some (False, c')"
      and new: "name \<notin> visited"
      by (auto split: if_splits option.splits bool.splits)
    have "(v, p) \<in> (dep_rel deps)\<^sup>+" if "v \<in> insert name visiting" "p \<in> set (deps name)" for v p
    proof -
      have "(name, p) \<in> dep_rel deps" using that(2) by (simp add: dep_rel_def)
      with that(1) "2.prems"(2) [of v] show ?thesis by (auto intro: trancl_into_trancl)
    qed
    with "2.IH" [OF False new fail] show ?thesis by simp
  qed
next
  case (4 n deps c parent ps)
  show ?case
  proof (cases "visit n deps c parent")
    case (Some r)
    obtain b c1 where r: "r = (b, c1)" by (cases r)
    show ?thesis
    proof (cases b)
      case True
      with Some r "4.prems"(1) have one: "visit n deps c parent = Some (True, c1)"
        and rest: "visit_parents n deps c1 ps = Some (False, c')" by auto
      from visit_grey(2) [of n deps c "[parent]" c1] one have "fst c1 = fst c" by simp
      with "4.IH"(2) [OF one refl refl rest] "4.prems"(2) show ?thesis by simp
    next
      case False
      with "4.IH"(1) [of c1] "4.prems"(2) Some r show ?thesis by simp
    qed
  qed (use "4.prems"(1) in simp)
qed auto

text \<open>Fuel: the recursion depth never exceeds the number of nodes not yet grey.\<close>

lemma visit_fuel:
  "card (N - fst c) < n \<Longrightarrow> finite N \<Longrightarrow> (\<And>x. x \<in> N \<Longrightarrow> set (deps x) \<subseteq> N) \<Longrightarrow> name \<in> N \<Longrightarrow>
     visit n deps c name \<noteq> None"
  "card (N - fst c) < n \<Longrightarrow> finite N \<Longrightarrow> (\<And>x. x \<in> N \<Longrightarrow> set (deps x) \<subseteq> N) \<Longrightarrow> set ps \<subseteq> N \<Longrightarrow>
     visit_parents n deps c ps \<noteq> None"
proof (induction n deps c name and n deps c ps rule: visit_visit_parents.induct)
  case (2 n deps visiting visited name)
  show ?case
  proof (cases "name \<in> visiting \<or> name \<in> visited")
    case False
    have "N - insert name visiting = (N - visiting) - {name}" by auto
    moreover have "name \<in> N - visiting" using False "2.prems"(4) by simp
    ultimately have "card (N - insert name visiting) < card (N - visiting)"
      using "2.prems"(2) by (simp only: card_Diff1_less finite_Diff)
    then have "card (N - fst (insert name visiting, visited)) < n"
      using "2.prems"(1) by simp
    moreover have "set (deps name) \<subseteq> N" using "2.prems" by simp
    ultimately have "visit_parents n deps (insert name visiting, visited) (deps name) \<noteq> None"
      using "2.IH" False "2.prems" by simp
    then show ?thesis using False by (auto split: option.splits bool.splits)
  qed auto
next
  case (4 n deps c parent ps)
  have *: "fst c1 = fst c" if "visit n deps c parent = Some (True, c1)" for c1
    using visit_grey(2) [of n deps c "[parent]" c1] that by simp
  have "visit n deps c parent \<noteq> None" using "4.IH"(1) "4.prems" by simp
  moreover have "visit_parents n deps c1 ps \<noteq> None" if "visit n deps c parent = Some (True, c1)" for c1
    using "4.IH"(2) [OF that refl refl] "4.prems" * [OF that] by simp
  ultimately show ?case by (auto split: option.splits bool.splits)
qed auto

theorem visit_all_correct:
  assumes "finite N" and "\<And>x. x \<in> N \<Longrightarrow> set (deps x) \<subseteq> N" and "\<And>x. x \<notin> N \<Longrightarrow> deps x = []"
    and "set names = N" and "card N < n"
  shows "visit_all n deps names = Some (acyclic (dep_rel deps))"
proof -
  have "visit_parents n deps ({}, {}) names \<noteq> None"
    by (rule visit_fuel(2) [of N]) (use assms in auto)
  then obtain b G B where run: "visit_parents n deps ({}, {}) names = Some (b, (G, B))" by auto
  show ?thesis
  proof (cases b)
    case True
    with run have "visit_parents n deps ({}, {}) names = Some (True, (G, B))" by simp
    from visit_success(2) [OF this ranked_empty] obtain r where "N \<subseteq> B" "ranked deps r B"
      using assms(4) by auto
    then have "acyclic (dep_rel deps)" using ranked_acyclic [of deps r B] assms(3) by blast
    with run True show ?thesis by (simp add: visit_all_def)
  next
    case False
    with run visit_failure(2) [of n deps "({}, {})" names] have "\<not> acyclic (dep_rel deps)" by simp
    with run False show ?thesis by (simp add: visit_all_def)
  qed
qed

end
