(* ===== verification/Go_Url.thy ===== *)
theory Go_Url
  imports Prelude
begin

text \<open>
  What the control plane uses of Go's \<^verbatim>\<open>net/url\<close>: \<open>url.Parse\<close> with its error cases, escaping,
  queries and the textual form of a URL. The URL record keeps the fields the callers read;
  \<open>url_User\<close> only says whether the \<open>User\<close> pointer is set. Host and path are
  percent-decoded as the library does.
\<close>

record URL =
  url_Scheme :: string
  url_Opaque :: string
  url_User :: bool
  url_Host :: string
  url_Path :: string
  url_RawPath :: string
  url_ForceQuery :: bool
  url_RawQuery :: string
  url_Fragment :: string

definition zero_URL :: URL where
  "zero_URL = \<lparr>url_Scheme = [], url_Opaque = [], url_User = False, url_Host = [], url_Path = [],
               url_RawPath = [], url_ForceQuery = False, url_RawQuery = [], url_Fragment = []\<rparr>"

definition byte :: "char \<Rightarrow> nat" where
  [go_string]: "byte c = of_char c"

definition is_alpha :: "char \<Rightarrow> bool" where
  [go_string]: "is_alpha c \<longleftrightarrow> 65 \<le> byte c \<and> byte c \<le> 90 \<or> 97 \<le> byte c \<and> byte c \<le> 122"

text \<open>\<open>strings.Cut\<close> at the first and a split at the last occurrence of a byte.\<close>

definition Cut :: "char \<Rightarrow> string \<Rightarrow> string \<times> string" where
  [go_string]: "Cut c s = (takeWhile (\<lambda>x. x \<noteq> c) s, drop 1 (dropWhile (\<lambda>x. x \<noteq> c) s))"

definition has_byte :: "char \<Rightarrow> string \<Rightarrow> bool" where
  [go_string]: "has_byte c s \<longleftrightarrow> list_ex (\<lambda>x. x = c) s"

definition CutLast :: "char \<Rightarrow> string \<Rightarrow> string \<times> string" where
  [go_string]: "CutLast c s =
     (rev (drop 1 (dropWhile (\<lambda>x. x \<noteq> c) (rev s))), rev (takeWhile (\<lambda>x. x \<noteq> c) (rev s)))"

fun hex_val :: "char \<Rightarrow> nat option" where
  "hex_val c = (let n = byte c in
     if 48 \<le> n \<and> n \<le> 57 then Some (n - 48)
     else if 97 \<le> n \<and> n \<le> 102 then Some (n - 87)
     else if 65 \<le> n \<and> n \<le> 70 then Some (n - 55) else None)"

datatype encoding = encodePath | encodeUserPassword | encodeHost | encodeZone | encodeFragment

definition host_safe :: "char \<Rightarrow> bool" where
  [go_string]: "host_safe c \<longleftrightarrow> is_alpha c \<or> is_digit c \<or>
     List.member (''!$&()*+,;=:[]<>-_.~'' @ [CHR 0x22, CHR 0x27]) c"

text \<open>\<open>unescape\<close>: percent decoding, with the extra checks on host and zone bytes.\<close>

fun unescape :: "encoding \<Rightarrow> string \<Rightarrow> string option" where
  "unescape mode [] = Some []"
| "unescape mode (c # cs) =
     (if c = CHR ''%'' then
        (case cs of
           h # l # rest \<Rightarrow>
             (case (hex_val h, hex_val l) of
                (Some x, Some y) \<Rightarrow>
                  (let v = char_of (16 * x + y) in
                   if mode = encodeHost \<and> x < 8 \<and> [h, l] \<noteq> ''25'' then None
                   else if mode = encodeZone \<and> [h, l] \<noteq> ''25'' \<and> v \<noteq> CHR '' '' \<and> \<not> host_safe v then None
                   else map_option (\<lambda>r. v # r) (unescape mode rest))
              | _ \<Rightarrow> None)
         | _ \<Rightarrow> None)
      else if (mode = encodeHost \<or> mode = encodeZone) \<and> byte c < 128 \<and> \<not> host_safe c then None
      else map_option (\<lambda>r. c # r) (unescape mode cs))"

definition validOptionalPort :: "string \<Rightarrow> bool" where
  [go_string]: "validOptionalPort port = (case port of [] \<Rightarrow> True | c # cs \<Rightarrow> c = CHR '':'' \<and> list_all is_digit cs)"

fun zone_index :: "nat \<Rightarrow> string \<Rightarrow> nat option" where
  "zone_index i [] = None"
| "zone_index i (c # cs) = (if HasPrefix (c # cs) ''%25'' then Some i else zone_index (Suc i) cs)"

definition parseHost :: "string \<Rightarrow> string option" where
  [go_string]: "parseHost host =
     (if HasPrefix host ''['' then
        (if \<not> has_byte (CHR '']'') host then None
         else let (inner, colonPort) = CutLast (CHR '']'') host in
           if \<not> validOptionalPort colonPort then None
           else (case zone_index 0 inner of
               Some z \<Rightarrow> (case (unescape encodeHost (take z inner), unescape encodeZone (drop z inner),
                               unescape encodeHost (CHR '']'' # colonPort)) of
                   (Some h1, Some h2, Some h3) \<Rightarrow> Some (h1 @ h2 @ h3) | _ \<Rightarrow> None)
             | None \<Rightarrow> unescape encodeHost host))
      else if has_byte (CHR '':'') host \<and> \<not> validOptionalPort (CHR '':'' # snd (CutLast (CHR '':'') host)) then None
      else unescape encodeHost host)"

definition validUserinfo :: "string \<Rightarrow> bool" where
  [go_string]: "validUserinfo s = list_all (\<lambda>c. is_alpha c \<or> is_digit c \<or>
     List.member (''-._:~!$&()*+,;=%@'' @ [CHR 0x27]) c) s"

text \<open>\<open>parseAuthority\<close>: whether user information is present, and the host.\<close>

definition parseAuthority :: "string \<Rightarrow> (bool \<times> string) option" where
  [go_string]: "parseAuthority authority =
     (if \<not> has_byte (CHR ''@'') authority then map_option (\<lambda>h. (False, h)) (parseHost authority)
      else let (userinfo, hostpart) = CutLast (CHR ''@'') authority in
        (case parseHost hostpart of
           None \<Rightarrow> None
         | Some h \<Rightarrow>
             if \<not> validUserinfo userinfo then None
             else let (name, password) = Cut (CHR '':'') userinfo in
               if unescape encodeUserPassword name = None \<or> unescape encodeUserPassword password = None then None
               else Some (True, h)))"

text \<open>\<open>getScheme\<close>, with \<open>None\<close> for "missing protocol scheme".\<close>

fun getScheme :: "string \<Rightarrow> string \<Rightarrow> string \<Rightarrow> (string \<times> string) option" where
  "getScheme raw pre [] = Some ([], raw)"
| "getScheme raw pre (c # cs) =
     (if is_alpha c then getScheme raw (pre @ [c]) cs
      else if is_digit c \<or> List.member ''+-.'' c
        then (if pre = [] then Some ([], raw) else getScheme raw (pre @ [c]) cs)
      else if c = CHR '':'' then (if pre = [] then None else Some (pre, cs))
      else Some ([], raw))"

text \<open>
  \<open>escape\<close> for the bytes a mode leaves alone: paths, single path segments (\<open>url.PathEscape\<close>)
  and query components (\<open>url.QueryEscape\<close>, where a space becomes a plus sign).
\<close>

definition upper_hex :: "nat \<Rightarrow> char" where
  [go_string]: "upper_hex n = ''0123456789ABCDEF'' ! (n mod 16)"

definition escape :: "(char \<Rightarrow> bool) \<Rightarrow> string \<Rightarrow> string" where
  [go_string]: "escape safe s = concat (map (\<lambda>c. if safe c then [c]
     else [CHR ''%'', upper_hex (byte c div 16), upper_hex (byte c)]) s)"

definition unreserved :: "char \<Rightarrow> bool" where
  [go_string]: "unreserved c \<longleftrightarrow> is_alpha c \<or> is_digit c \<or> List.member ''-_.~'' c"

definition path_safe :: "char \<Rightarrow> bool" where
  [go_string]: "path_safe c \<longleftrightarrow> unreserved c \<or> List.member ''$&+,/:;=@'' c"

definition segment_safe :: "char \<Rightarrow> bool" where
  [go_string]: "segment_safe c \<longleftrightarrow> unreserved c \<or> List.member ''$&+:=@'' c"

definition PathEscape :: "string \<Rightarrow> string" where
  [go_string]: "PathEscape s = escape segment_safe s"

definition QueryEscape :: "string \<Rightarrow> string" where
  [go_string]: "QueryEscape s = map (\<lambda>c. if c = CHR '' '' then CHR ''+'' else c) (escape (\<lambda>c. unreserved c \<or> c = CHR '' '') s)"

text \<open>\<open>setPath\<close>: the raw path is kept when it is not the standard encoding of the path.\<close>

definition setPath :: "URL \<Rightarrow> string \<Rightarrow> URL option" where
  [go_string]: "setPath u p = map_option (\<lambda>path. u\<lparr>url_Path := path, url_RawPath := (if p = escape path_safe path then [] else p)\<rparr>)
     (unescape encodePath p)"

definition parse :: "string \<Rightarrow> URL option" where
  [go_string]: "parse raw =
     (if list_ex (\<lambda>c. byte c < 32 \<or> byte c = 127) raw then None
      else if raw = ''*'' then Some (zero_URL\<lparr>url_Path := ''*''\<rparr>)
      else (case getScheme raw [] raw of
          None \<Rightarrow> None
        | Some (scheme0, rest0) \<Rightarrow>
            (let scheme = ToLower scheme0;
                 (rest, query) = Cut (CHR ''?'') rest0;
                 u = zero_URL\<lparr>url_Scheme := scheme, url_ForceQuery := (rest0 = rest @ ''?''), url_RawQuery := query\<rparr>
             in if \<not> HasPrefix rest ''/'' \<and> scheme \<noteq> [] then Some (u\<lparr>url_Opaque := rest\<rparr>)
                else if \<not> HasPrefix rest ''/'' \<and> has_byte (CHR '':'') (fst (Cut (CHR ''/'') rest)) then None
                else if (scheme \<noteq> [] \<or> \<not> HasPrefix rest ''///'') \<and> HasPrefix rest ''//'' then
                  (let authority = takeWhile (\<lambda>x. x \<noteq> CHR ''/'') (drop 2 rest);
                       path = dropWhile (\<lambda>x. x \<noteq> CHR ''/'') (drop 2 rest)
                   in case parseAuthority authority of
                        None \<Rightarrow> None
                      | Some (usr, host) \<Rightarrow>
                          setPath (u\<lparr>url_User := usr, url_Host := host\<rparr>) path)
                else setPath u rest)))"

definition url_Parse :: "string \<Rightarrow> URL option" where
  [go_string]: "url_Parse raw =
     (let (u, frag) = Cut (CHR ''#'') raw in
      case parse u of
        None \<Rightarrow> None
      | Some url \<Rightarrow>
          if frag = [] then Some url
          else map_option (\<lambda>f. url\<lparr>url_Fragment := f\<rparr>) (unescape encodeFragment frag))"

text \<open>\<open>EscapedPath\<close>, \<open>RequestURI\<close>, \<open>IsAbs\<close>.\<close>

definition validEncoded :: "string \<Rightarrow> bool" where
  [go_string]: "validEncoded s = list_all (\<lambda>c. path_safe c \<or> List.member (''!()*[]%'' @ [CHR 0x27]) c) s"

definition EscapedPath :: "URL \<Rightarrow> string" where
  [go_string]: "EscapedPath u =
     (if url_RawPath u \<noteq> [] \<and> validEncoded (url_RawPath u) \<and> unescape encodePath (url_RawPath u) = Some (url_Path u)
      then url_RawPath u else if url_Path u = ''*'' then ''*'' else escape path_safe (url_Path u))"

definition RequestURI :: "URL \<Rightarrow> string" where
  [go_string]: "RequestURI u =
     (let result = (if url_Opaque u = [] then (let e = EscapedPath u in if e = [] then ''/'' else e)
            else if HasPrefix (url_Opaque u) ''//'' then url_Scheme u @ '':'' @ url_Opaque u else url_Opaque u)
      in if url_ForceQuery u \<or> url_RawQuery u \<noteq> [] then result @ ''?'' @ url_RawQuery u else result)"

definition IsAbs :: "URL \<Rightarrow> bool" where
  [go_string]: "IsAbs u \<longleftrightarrow> url_Scheme u \<noteq> []"

text \<open>
  \<open>URL.Query().Get\<close>: the pairs of a query, malformed ones skipped, and the first value of a key.
\<close>

definition QueryUnescape :: "string \<Rightarrow> string option" where
  [go_string]: "QueryUnescape s = unescape encodePath (map (\<lambda>c. if c = CHR ''+'' then CHR '' '' else c) s)"

fun split_on :: "char \<Rightarrow> string \<Rightarrow> string list" where
  "split_on d [] = [[]]"
| "split_on d (c # cs) = (if c = d then [] # split_on d cs else (case split_on d cs of s # ss \<Rightarrow> (c # s) # ss | [] \<Rightarrow> [[c]]))"

definition query_pair :: "string \<Rightarrow> (string \<times> string) option" where
  [go_string]: "query_pair s = (if s = [] \<or> has_byte (CHR '';'') s then None
     else let (k, v) = Cut (CHR ''='') s in case (QueryUnescape k, QueryUnescape v) of (Some k', Some v') \<Rightarrow> Some (k', v') | _ \<Rightarrow> None)"

definition query_pairs :: "string \<Rightarrow> (string \<times> string) list" where
  [go_string]: "query_pairs q = List.map_filter query_pair (split_on (CHR ''&'') q)"

definition query_get :: "string \<Rightarrow> string \<Rightarrow> string" where
  [go_string]: "query_get q k = (case map_of (query_pairs q) k of Some v \<Rightarrow> v | None \<Rightarrow> [])"

text \<open>No user information is reported for an authority without an at sign.\<close>

lemma parseAuthority_user:
  "parseAuthority a = Some (usr, h) \<Longrightarrow> usr \<longleftrightarrow> has_byte (CHR ''@'') a"
  by (auto simp: parseAuthority_def Let_def split: if_splits option.splits prod.splits)

subsection \<open>Escaping is safe\<close>

lemma hex_val_upper: "n < 16 \<Longrightarrow> hex_val (upper_hex n) = Some n"
proof -
  have "\<forall>n < 16. hex_val (upper_hex n) = Some n" by code_simp
  then show "n < 16 \<Longrightarrow> hex_val (upper_hex n) = Some n" by blast
qed

lemma unescape_escaped_byte: "unescape encodePath (CHR ''%'' # upper_hex (byte c div 16) # upper_hex (byte c) # s) = map_option (\<lambda>r. c # r) (unescape encodePath s)"
proof -
  have "(of_char c :: nat) < 256" by simp
  then have "byte c div 16 < 16" unfolding byte_def by linarith
  moreover have "upper_hex (byte c) = upper_hex (byte c mod 16)" by (simp add: upper_hex_def)
  moreover have "16 * (byte c div 16) + byte c mod 16 = byte c" by simp
  ultimately show ?thesis
    using hex_val_upper [of "byte c div 16"] hex_val_upper [of "byte c mod 16"] by (simp add: Let_def byte_def del: hex_val.simps)
qed

text \<open>Decoding gives the text back, for every mode that escapes the percent sign.\<close>

lemma unescape_escape: "\<not> safe (CHR ''%'') \<Longrightarrow> unescape encodePath (escape safe s) = Some s"
proof (induction s)
  case (Cons c s)
  have e: "escape safe (c # s) = (if safe c then c # escape safe s
      else CHR ''%'' # upper_hex (byte c div 16) # upper_hex (byte c) # escape safe s)"
    by (simp add: escape_def)
  have "c \<noteq> CHR ''%''" if "safe c" using that Cons.prems by auto
  with Cons show ?case unfolding e by (cases "safe c") (simp_all add: unescape_escaped_byte del: unescape.simps, simp)
qed (simp add: escape_def)

lemma not_safe_percent [simp]: "\<not> unreserved (CHR ''%'')" "\<not> path_safe (CHR ''%'')" "\<not> segment_safe (CHR ''%'')"
  by code_simp+

lemma unescape_PathEscape: "unescape encodePath (PathEscape s) = Some s"
  by (simp add: PathEscape_def unescape_escape)

lemma PathEscape_inj: "PathEscape s = PathEscape t \<longleftrightarrow> s = t"
  by (metis option.inject unescape_PathEscape)

lemma upper_hex_unreserved: "unreserved (upper_hex n)"
proof -
  have "list_all unreserved ''0123456789ABCDEF''" by code_simp
  moreover have "n mod 16 < length ''0123456789ABCDEF''" by simp
  ultimately show ?thesis unfolding upper_hex_def list_all_length by blast
qed

lemma escape_set: "c \<in> set (escape safe s) \<Longrightarrow> safe c \<or> unreserved c \<or> c = CHR ''%''"
  using upper_hex_unreserved by (auto simp: escape_def split: if_splits)

lemma PathEscape_no_delimiter: "CHR ''/'' \<notin> set (PathEscape s)" "CHR ''?'' \<notin> set (PathEscape s)" "CHR ''#'' \<notin> set (PathEscape s)"
proof -
  have "\<not> segment_safe (CHR ''/'')" "\<not> segment_safe (CHR ''?'')" "\<not> segment_safe (CHR ''#'')"
    "\<not> unreserved (CHR ''/'')" "\<not> unreserved (CHR ''?'')" "\<not> unreserved (CHR ''#'')" by code_simp+
  then show "CHR ''/'' \<notin> set (PathEscape s)" "CHR ''?'' \<notin> set (PathEscape s)" "CHR ''#'' \<notin> set (PathEscape s)"
    using escape_set [of _ segment_safe s] unfolding PathEscape_def by auto
qed

text \<open>A query component survives the query.\<close>

lemma QueryUnescape_QueryEscape: "QueryUnescape (QueryEscape s) = Some s"
proof -
  let ?safe = "\<lambda>c. unreserved c \<or> c = CHR '' ''"
  have plus: "\<not> unreserved (CHR ''+'')" by code_simp
  have eq: "map (\<lambda>c. if c = CHR ''+'' then CHR '' '' else c) (QueryEscape s) = escape ?safe s"
  proof -
    have "c \<noteq> CHR ''+''" if "c \<in> set (escape ?safe s)" for c using escape_set [OF that] plus by auto
    then show ?thesis unfolding QueryEscape_def map_map by (intro map_idI) auto
  qed
  have "\<not> ?safe (CHR ''%'')" by simp
  from unescape_escape [of ?safe, OF this] show ?thesis unfolding QueryUnescape_def eq .
qed

lemma QueryEscape_set: "c \<in> set (QueryEscape s) \<Longrightarrow> unreserved c \<or> c = CHR ''%'' \<or> c = CHR ''+''"
proof -
  assume "c \<in> set (QueryEscape s)"
  then obtain x where "x \<in> set (escape (\<lambda>c. unreserved c \<or> c = CHR '' '') s)" "c = (if x = CHR '' '' then CHR ''+'' else x)"
    by (auto simp only: QueryEscape_def set_map)
  then show ?thesis using escape_set [of x "\<lambda>c. unreserved c \<or> c = CHR '' ''" s] by (cases "x = CHR '' ''") auto
qed

lemma split_on_none: "d \<notin> set s \<Longrightarrow> split_on d s = [s]"
  by (induction s) auto

lemma query_get_single:
  assumes "\<forall>c \<in> set k. unreserved c" and "k \<noteq> []"
  shows "query_get (k @ ''='' @ QueryEscape v) k = v"
proof -
  have no: "\<not> unreserved (CHR ''&'')" "\<not> unreserved (CHR '';'')" "\<not> unreserved (CHR ''='')" "\<not> unreserved (CHR ''+'')" by code_simp+
  let ?q = "k @ ''='' @ QueryEscape v"
  have set: "c \<noteq> CHR ''&''" "c \<noteq> CHR '';''" if "c \<in> set ?q" for c
    using that no assms(1) QueryEscape_set [of c v] by auto
  have cut: "Cut (CHR ''='') ?q = (k, QueryEscape v)"
  proof -
    have "\<forall>c \<in> set k. c \<noteq> CHR ''=''" using no(3) assms(1) by blast
    then show ?thesis by (simp add: Cut_def takeWhile_append2 dropWhile_append2)
  qed
  have k: "QueryUnescape k = Some k"
  proof -
    have "escape (\<lambda>c. unreserved c \<or> c = CHR '' '') k = k" using assms(1) by (induction k) (simp_all add: escape_def)
    moreover have "\<forall>c \<in> set k. c \<noteq> CHR '' ''"
    proof -
      have "\<not> unreserved (CHR '' '')" by code_simp
      then show ?thesis using assms(1) by blast
    qed
    ultimately have "QueryEscape k = k" by (simp add: QueryEscape_def map_idI)
    then show ?thesis using QueryUnescape_QueryEscape [of k] by simp
  qed
  have "split_on (CHR ''&'') ?q = [?q]" using set(1) by (intro split_on_none) blast
  moreover have "\<not> has_byte (CHR '';'') ?q" using set(2) unfolding has_byte_def list_ex_iff by metis
  ultimately have "query_pairs ?q = [(k, v)]"
    using assms(2) cut by (simp add: query_pairs_def query_pair_def List.map_filter_simps k QueryUnescape_QueryEscape)
  then show ?thesis by (simp add: query_get_def)
qed

end
