(* ===== verification/Workload_Validation.thy ===== *)
theory Workload_Validation
  imports Store_Base Pipeline_Graph Go_Url
begin

text \<open>
  The validators of \<^verbatim>\<open>go/internal/store/workloads.go\<close>: functions, Git repositories and
  pipeline definitions. The two regular expressions are written out as predicates. The
  last part proves that a pipeline definition is accepted exactly when it satisfies the
  declarative specification \<open>definition_ok\<close>, whatever order Go iterates the map of jobs in.
\<close>

subsection \<open>Functions\<close>

text \<open>\<^verbatim>\<open>^[1-9][0-9]*(m|Mi|Gi)?$\<close>\<close>

definition resourceQuantity :: "string \<Rightarrow> bool" where
  [go_string]: "resourceQuantity s =
     (case s of [] \<Rightarrow> False
      | c # cs \<Rightarrow> is_digit c \<and> c \<noteq> CHR ''0'' \<and>
          (let rest = dropWhile is_digit cs in rest = [] \<or> rest = ''m'' \<or> rest = ''Mi'' \<or> rest = ''Gi''))"

text \<open>\<^verbatim>\<open>^[a-z0-9](?:[a-z0-9-]{0,61}[a-z0-9])?$\<close>\<close>

definition functionName :: "string \<Rightarrow> bool" where
  [go_string]: "functionName s \<longleftrightarrow> s \<noteq> [] \<and> length s \<le> 63 \<and> is_lower_alnum (hd s) \<and> is_lower_alnum (last s) \<and>
     list_all (\<lambda>c. is_lower_alnum c \<or> c = CHR ''-'') s"

definition ValidateFunctionRequest :: "DeployFunctionRequest \<Rightarrow> error option" where
  "ValidateFunctionRequest req =
     (if dfr_ProjectID req = [] \<or> TrimSpace (dfr_Name req) = [] \<or> TrimSpace (dfr_Image req) = []
        then Some (Err ''project_id, name and image are required'')
      else if \<not> functionName (dfr_Name req) then Some (Err ''function name must be a lowercase DNS label'')
      else if dfr_CPU req \<noteq> [] \<and> \<not> resourceQuantity (dfr_CPU req)
        then Some (Err ''CPU must be a quantity such as 500m or 2'')
      else if dfr_Memory req \<noteq> [] \<and> \<not> resourceQuantity (dfr_Memory req)
        then Some (Err ''memory must be a quantity such as 512Mi or 2Gi'')
      else let mode = gomap_str (dfr_Annotations req) ''com.nexus.invocation'' in
        if mode \<noteq> [] \<and> mode \<noteq> ''sync'' \<and> mode \<noteq> ''async''
          then Some (Err ''com.nexus.invocation must be sync or async'')
        else let schedule = TrimSpace (gomap_str (dfr_Annotations req) ''schedule'') in
          if schedule = [] then None
          else if \<not> Contains (gomap_str (dfr_Annotations req) ''topic'') ''cron-function''
            then Some (Err ''scheduled functions must subscribe to the cron-function topic'')
          else if list_ex (\<lambda>expression. length (Fields expression) \<noteq> 5) (SplitByte (CHR '';'') schedule)
            then Some (Err ''schedule must contain five-field cron expressions'')
          else None)"

lemma ValidateFunctionRequest_None:
  assumes "ValidateFunctionRequest req = None"
  shows "dfr_ProjectID req \<noteq> []" "functionName (dfr_Name req)" "TrimSpace (dfr_Image req) \<noteq> []"
    "dfr_CPU req = [] \<or> resourceQuantity (dfr_CPU req)"
    "dfr_Memory req = [] \<or> resourceQuantity (dfr_Memory req)"
  using assms by (auto simp: ValidateFunctionRequest_def split: if_splits)

text \<open>A valid function name is a slug with possible double dashes: never a path or a host.\<close>

lemma functionName_chars: "functionName s \<Longrightarrow> slug_chars s"
  by (auto simp: functionName_def slug_chars_def list_all_iff)

subsection \<open>Git repositories\<close>

definition git_provider :: "string \<Rightarrow> string" where
  "git_provider lower =
     (if Contains lower ''github.com'' then ''github''
      else if Contains lower ''gitlab.com'' then ''gitlab''
      else if Contains lower ''bitbucket.org'' then ''bitbucket'' else ''git'')"

definition check_repository_url :: "string \<Rightarrow> error option" where
  "check_repository_url raw =
     (if HasPrefix raw ''git@'' then
        (if \<not> Contains raw '':'' \<or> ContainsAny raw [CHR 0x0A, CHR 0x0D, CHR 0x09, CHR '' '']
           then Some (Err ''invalid SSH repository URL'') else None)
      else (case url_Parse raw of
          None \<Rightarrow> Some (Err ''repository URL must use HTTPS or the git@host:path SSH form'')
        | Some parsed \<Rightarrow>
            if url_Scheme parsed \<noteq> ''https'' \<or> url_Host parsed = []
              then Some (Err ''repository URL must use HTTPS or the git@host:path SSH form'')
            else if url_User parsed
              then Some (Err ''repository credentials must not be embedded in the URL'')
            else None))"

definition validateGitRepository :: "SetProjectRepositoryRequest \<Rightarrow> GitRepository ret" where
  "validateGitRepository req =
     (let raw = TrimSpace (spr_URL req) in
      if raw = [] then (zero_GitRepository, Some (Err ''repository URL is required''))
      else case check_repository_url raw of
        Some err \<Rightarrow> (zero_GitRepository, Some err)
      | None \<Rightarrow>
          (let provider = git_provider (ToLower raw);
               branch0 = TrimSpace (spr_DefaultBranch req);
               branch = (if branch0 = [] then ''main'' else branch0)
           in if ContainsAny branch ('' ~^:?*['' @ [CHR 0x5C]) \<or> HasPrefix branch ''-'' \<or> Contains branch ''..''
                then (zero_GitRepository, Some (Err ''invalid default branch''))
              else (\<lparr>git_URL = raw, git_Provider = provider, git_DefaultBranch = branch,
                     git_LastCommit = TrimSpace (spr_LastCommit req), git_SyncedAt = None\<rparr>, None)))"

text \<open>What every stored repository satisfies: no credentials in the URL, a safe branch name.\<close>

definition repository_ok :: "GitRepository \<Rightarrow> bool" where
  "repository_ok g \<longleftrightarrow> git_URL g \<noteq> [] \<and> check_repository_url (git_URL g) = None \<and>
     git_DefaultBranch g \<noteq> [] \<and> \<not> HasPrefix (git_DefaultBranch g) ''-'' \<and>
     \<not> Contains (git_DefaultBranch g) ''..'' \<and>
     \<not> ContainsAny (git_DefaultBranch g) ('' ~^:?*['' @ [CHR 0x5C]) \<and>
     List.member [''git'', ''github'', ''gitlab'', ''bitbucket''] (git_Provider g)"

lemma git_provider_known: "List.member [''git'', ''github'', ''gitlab'', ''bitbucket''] (git_provider l)"
  by (simp add: git_provider_def)

lemma validateGitRepository_ok:
  assumes "validateGitRepository req = (g, None)"
  shows "repository_ok g"
  using assms git_provider_known [of "ToLower (TrimSpace (spr_URL req))"]
  by (auto simp: validateGitRepository_def repository_ok_def Let_def split: if_splits option.splits)

lemma repository_ok_synced [simp]: "repository_ok (g\<lparr>git_SyncedAt := t\<rparr>) = repository_ok g"
  by (simp add: repository_ok_def)

subsection \<open>Pipeline definitions\<close>

definition trim_job :: "PipelineJob \<Rightarrow> PipelineJob" where
  "trim_job job = job\<lparr>job_Name := TrimSpace (job_Name job), job_Kind := TrimSpace (job_Kind job)\<rparr>"

definition check_job :: "string \<Rightarrow> string set \<Rightarrow> PipelineJob \<Rightarrow> error option" where
  "check_job mode known job =
     (if job_Name job = [] \<or> job_Name job \<in> known then Some (Err ''job names must be non-empty and unique'')
      else if job_Kind job \<noteq> ''function'' \<and> job_Kind job \<noteq> ''container''
        then Some (Err ''job kind must be function or container'')
      else if job_Kind job = ''function'' \<and> TrimSpace (job_Function job) = []
        then Some (Err ''function jobs require function'')
      else if job_Kind job = ''container'' \<and> TrimSpace (job_Image job) = []
        then Some (Err ''container jobs require image'')
      else if mode = ''functions'' \<and> job_Kind job \<noteq> ''function''
        then Some (Err ''functions execution mode only accepts function jobs'')
      else if jr_CPU (job_Resources job) \<noteq> [] \<and> \<not> resourceQuantity (jr_CPU (job_Resources job))
        then Some (Err ''job CPU must be a Kubernetes quantity such as 500m or 2'')
      else if jr_Memory (job_Resources job) \<noteq> [] \<and> \<not> resourceQuantity (jr_Memory (job_Resources job))
        then Some (Err ''job memory must be a quantity such as 512Mi or 2Gi'')
      else if job_Retries job < 0 \<or> jr_GPU (job_Resources job) < 0
        then Some (Err ''job retries and GPU count cannot be negative'')
      else None)"

text \<open>The first loop: trims every job in place and checks it; stops at the first error.\<close>

fun check_jobs :: "string \<Rightarrow> string set \<Rightarrow> PipelineJob list \<Rightarrow> PipelineJob list \<times> string set \<times> error option" where
  "check_jobs mode known [] = ([], known, None)"
| "check_jobs mode known (j # js) =
     (let job = trim_job j in
      case check_job mode known job of
        Some err \<Rightarrow> (job # js, known, Some err)
      | None \<Rightarrow> (let (rest, known', err) = check_jobs mode (insert (job_Name job) known) js
                 in (job # rest, known', err)))"

definition byName :: "PipelineJob list \<Rightarrow> string \<rightharpoonup> PipelineJob" where
  "byName jobs = map_of (rev (map (\<lambda>j. (job_Name j, j)) jobs))"

definition parents :: "PipelineJob list \<Rightarrow> string \<Rightarrow> string list" where
  "parents jobs name = (case byName jobs name of None \<Rightarrow> [] | Some j \<Rightarrow> job_DependsOn j)"

text \<open>The second loop and the search: the dependencies of the checked jobs.\<close>

definition check_graph :: "nat list \<Rightarrow> string set \<Rightarrow> PipelineJob list \<Rightarrow> error option" where
  "check_graph seed known jobs =
     (if list_ex (\<lambda>job. list_ex (\<lambda>d. d = job_Name job \<or> d \<notin> known) (job_DependsOn job)) jobs
        then Some (Err ''job dependencies must reference another job'')
      else (case visit_all (Suc (length jobs)) (parents jobs) (range_order seed (remdups (map job_Name jobs))) of
          Some True \<Rightarrow> None
        | Some False \<Rightarrow> Some (Err ''pipeline graph contains a cycle'')
        | None \<Rightarrow> Some (Err ''recursion depth exceeded'')))"

definition validatePipelineDefinition ::
  "nat list \<Rightarrow> UpsertPipelineDefinitionRequest \<Rightarrow> UpsertPipelineDefinitionRequest ret" where
  "validatePipelineDefinition seed req0 =
     (let req = req0\<lparr>upd_Name := TrimSpace (upd_Name req0), upd_Version := TrimSpace (upd_Version req0)\<rparr> in
      if upd_ProjectID req = [] \<or> upd_Name req = [] \<or> upd_Version req = [] \<or> upd_Jobs req = []
        then (req, Some (Err ''project_id, name, version and at least one job are required''))
      else let req = req\<lparr>upd_ExecutionMode := (if upd_ExecutionMode req = [] then ''prefect'' else upd_ExecutionMode req)\<rparr> in
      if upd_ExecutionMode req \<noteq> ''prefect'' \<and> upd_ExecutionMode req \<noteq> ''functions''
        then (req, Some (Err ''execution_mode must be prefect or functions''))
      else let (jobs, known, err) = check_jobs (upd_ExecutionMode req) {} (upd_Jobs req)
           in (req\<lparr>upd_Jobs := jobs\<rparr>, if err \<noteq> None then err else check_graph seed known jobs))"

text \<open>The declarative specification of an acceptable definition.\<close>

definition job_ok :: "string \<Rightarrow> PipelineJob \<Rightarrow> bool" where
  "job_ok mode job \<longleftrightarrow> job_Name job \<noteq> [] \<and>
     (job_Kind job = ''function'' \<and> TrimSpace (job_Function job) \<noteq> [] \<or>
      job_Kind job = ''container'' \<and> TrimSpace (job_Image job) \<noteq> [] \<and> mode \<noteq> ''functions'') \<and>
     (jr_CPU (job_Resources job) = [] \<or> resourceQuantity (jr_CPU (job_Resources job))) \<and>
     (jr_Memory (job_Resources job) = [] \<or> resourceQuantity (jr_Memory (job_Resources job))) \<and>
     0 \<le> job_Retries job \<and> 0 \<le> jr_GPU (job_Resources job)"

definition graph_ok :: "PipelineJob list \<Rightarrow> bool" where
  "graph_ok jobs \<longleftrightarrow> distinct (map job_Name jobs) \<and>
     (\<forall>j \<in> set jobs. set (job_DependsOn j) \<subseteq> job_Name ` set jobs - {job_Name j}) \<and>
     acyclic {(job_Name j, d) | j d. j \<in> set jobs \<and> d \<in> set (job_DependsOn j)}"

definition normalise :: "UpsertPipelineDefinitionRequest \<Rightarrow> UpsertPipelineDefinitionRequest" where
  "normalise req = req\<lparr>upd_Name := TrimSpace (upd_Name req), upd_Version := TrimSpace (upd_Version req),
     upd_ExecutionMode := (if upd_ExecutionMode req = [] then ''prefect'' else upd_ExecutionMode req),
     upd_Jobs := map trim_job (upd_Jobs req)\<rparr>"

definition definition_ok :: "UpsertPipelineDefinitionRequest \<Rightarrow> bool" where
  "definition_ok req \<longleftrightarrow> upd_ProjectID req \<noteq> [] \<and> upd_Name req \<noteq> [] \<and> upd_Version req \<noteq> [] \<and>
     upd_Jobs req \<noteq> [] \<and> upd_ExecutionMode req \<in> {''prefect'', ''functions''} \<and>
     (\<forall>j \<in> set (upd_Jobs req). job_ok (upd_ExecutionMode req) j) \<and> graph_ok (upd_Jobs req)"

lemma check_job_None:
  "check_job mode known job = None \<longleftrightarrow> job_Name job \<notin> known \<and> job_ok mode job"
  by (auto simp: check_job_def job_ok_def)

lemma trim_job_idem [simp]: "trim_job (trim_job j) = trim_job j"
  by (simp add: trim_job_def)

lemma check_jobs_Cons:
  "check_jobs mode known (j # js) =
     (case check_job mode known (trim_job j) of
        Some err \<Rightarrow> (trim_job j # js, known, Some err)
      | None \<Rightarrow> (let r = check_jobs mode (insert (job_Name (trim_job j)) known) js
                 in (trim_job j # fst r, fst (snd r), snd (snd r))))"
  by (simp add: Let_def split: option.splits prod.splits)

lemma check_jobs_err:
  "snd (snd (check_jobs mode known js)) = None \<longleftrightarrow>
     distinct (map job_Name (map trim_job js)) \<and> known \<inter> job_Name ` set (map trim_job js) = {} \<and>
     (\<forall>j \<in> set js. job_ok mode (trim_job j))"
proof (induction js arbitrary: known)
  case (Cons j js)
  show ?case
  proof (cases "check_job mode known (trim_job j)")
    case None
    then have ok: "job_Name (trim_job j) \<notin> known" "job_ok mode (trim_job j)"
      by (simp_all add: check_job_None)
    have eq: "snd (snd (check_jobs mode known (j # js))) =
        snd (snd (check_jobs mode (insert (job_Name (trim_job j)) known) js))"
      using None by (simp add: check_jobs_Cons Let_def del: check_jobs.simps)
    show ?thesis unfolding eq Cons.IH using ok by auto
  next
    case (Some err)
    then have "\<not> (job_Name (trim_job j) \<notin> known \<and> job_ok mode (trim_job j))"
      by (simp flip: check_job_None)
    with Some show ?thesis by (auto simp: check_jobs_Cons simp del: check_jobs.simps)
  qed
qed simp

lemma check_jobs_out:
  "snd (snd (check_jobs mode known js)) = None \<Longrightarrow>
     fst (check_jobs mode known js) = map trim_job js \<and>
     fst (snd (check_jobs mode known js)) = known \<union> job_Name ` set (map trim_job js)"
  by (induction js arbitrary: known)
     (auto simp: check_jobs_Cons Let_def simp del: check_jobs.simps(2) split: option.splits)

lemma byName_distinct:
  assumes "distinct (map job_Name jobs)"
  shows "byName jobs name = Some j \<longleftrightarrow> j \<in> set jobs \<and> job_Name j = name"
proof -
  have "distinct (map fst (rev (map (\<lambda>j. (job_Name j, j)) jobs)))"
    using assms by (simp add: rev_map [symmetric] comp_def)
  then show ?thesis by (auto simp: byName_def map_of_eq_Some_iff)
qed

lemma dep_rel_parents:
  assumes "distinct (map job_Name jobs)"
  shows "dep_rel (parents jobs) = {(job_Name j, d) | j d. j \<in> set jobs \<and> d \<in> set (job_DependsOn j)}"
proof -
  have "y \<in> set (parents jobs x) \<longleftrightarrow> (\<exists>j. byName jobs x = Some j \<and> y \<in> set (job_DependsOn j))" for x y
    by (cases "byName jobs x") (simp_all add: parents_def)
  then show ?thesis unfolding dep_rel_def byName_distinct [OF assms] by auto
qed

lemma visit_all_jobs:
  assumes dist: "distinct (map job_Name jobs)"
    and closed: "\<And>j. j \<in> set jobs \<Longrightarrow> set (job_DependsOn j) \<subseteq> job_Name ` set jobs"
    and names: "set names = job_Name ` set jobs"
  shows "visit_all (Suc (length jobs)) (parents jobs) names =
     Some (acyclic {(job_Name j, d) | j d. j \<in> set jobs \<and> d \<in> set (job_DependsOn j)})"
proof -
  let ?N = "job_Name ` set jobs"
  have "set (parents jobs x) \<subseteq> ?N" for x
    using closed byName_distinct [OF dist, of x] by (fastforce simp: parents_def split: option.splits)
  moreover have "parents jobs x = []" if "x \<notin> ?N" for x
    using that byName_distinct [OF dist, of x] by (auto simp: parents_def split: option.splits)
  moreover have "card ?N < Suc (length jobs)"
    using card_image_le [of "set jobs" job_Name] card_length [of jobs] by simp
  ultimately have "visit_all (Suc (length jobs)) (parents jobs) names = Some (acyclic (dep_rel (parents jobs)))"
    using names by (intro visit_all_correct [of ?N]) auto
  then show ?thesis by (simp add: dep_rel_parents [OF dist])
qed

lemma check_graph_None:
  assumes "distinct (map job_Name jobs)"
  shows "check_graph seed (job_Name ` set jobs) jobs = None \<longleftrightarrow> graph_ok jobs"
proof -
  let ?dep = "\<forall>j \<in> set jobs. set (job_DependsOn j) \<subseteq> job_Name ` set jobs - {job_Name j}"
  have deps: "list_ex (\<lambda>job. list_ex (\<lambda>d. d = job_Name job \<or> d \<notin> job_Name ` set jobs) (job_DependsOn job)) jobs \<longleftrightarrow> \<not> ?dep"
    unfolding list_ex_iff by blast
  show ?thesis
  proof (cases ?dep)
    case True
    have "visit_all (Suc (length jobs)) (parents jobs) (range_order seed (remdups (map job_Name jobs))) =
        Some (acyclic {(job_Name j, d) | j d. j \<in> set jobs \<and> d \<in> set (job_DependsOn j)})"
      using True by (intro visit_all_jobs [OF assms]) auto
    with True assms show ?thesis unfolding check_graph_def deps graph_ok_def by (simp split: bool.split)
  next
    case False
    then show ?thesis unfolding check_graph_def deps graph_ok_def by simp
  qed
qed

lemma validatePipelineDefinition_iff:
  "validatePipelineDefinition seed req = (req', None) \<longleftrightarrow> req' = normalise req \<and> definition_ok (normalise req)"
proof (cases "upd_ProjectID req = [] \<or> TrimSpace (upd_Name req) = [] \<or> TrimSpace (upd_Version req) = [] \<or>
    upd_Jobs req = [] \<or> upd_ExecutionMode req \<notin> {[], ''prefect'', ''functions''}")
  case True
  then have "\<not> definition_ok (normalise req)"
    by (simp add: definition_ok_def normalise_def) blast
  moreover from True have "snd (validatePipelineDefinition seed req) \<noteq> None"
    by (simp add: validatePipelineDefinition_def Let_def) blast
  ultimately show ?thesis by (metis snd_conv)
next
  case False
  define mode where "mode = (if upd_ExecutionMode req = [] then ''prefect'' else upd_ExecutionMode req)"
  obtain jobs known err where run: "check_jobs mode {} (upd_Jobs req) = (jobs, known, err)"
    by (cases "check_jobs mode {} (upd_Jobs req)") auto
  have val: "validatePipelineDefinition seed req =
      ((normalise req)\<lparr>upd_Jobs := jobs\<rparr>, if err \<noteq> None then err else check_graph seed known jobs)"
    using False run [unfolded mode_def]
    by (cases "upd_ExecutionMode req = []") (auto simp: validatePipelineDefinition_def normalise_def Let_def)
  have mode: "upd_ExecutionMode (normalise req) = mode" "upd_Jobs (normalise req) = map trim_job (upd_Jobs req)"
    by (simp_all add: normalise_def mode_def)
  have head: "definition_ok (normalise req) \<longleftrightarrow>
      (\<forall>j \<in> set (map trim_job (upd_Jobs req)). job_ok mode j) \<and> graph_ok (map trim_job (upd_Jobs req))"
    unfolding definition_ok_def mode using False by (auto simp: normalise_def mode_def)
  show ?thesis
  proof (cases "err = None")
    case True
    have jobs: "jobs = map trim_job (upd_Jobs req)" "known = job_Name ` set jobs"
      "distinct (map job_Name jobs)" "\<forall>j \<in> set jobs. job_ok mode j"
      using True run check_jobs_err [of mode "{}" "upd_Jobs req"] check_jobs_out [of mode "{}" "upd_Jobs req"]
      by simp_all
    have "(normalise req)\<lparr>upd_Jobs := jobs\<rparr> = normalise req"
      using jobs(1) by (simp add: normalise_def)
    with True jobs(4) show ?thesis
      unfolding val head jobs(2) jobs(1) [symmetric] using check_graph_None [OF jobs(3)] by auto
  next
    case err: False
    then have "\<not> (distinct (map job_Name (map trim_job (upd_Jobs req))) \<and>
        (\<forall>j \<in> set (map trim_job (upd_Jobs req)). job_ok mode j))"
      using run check_jobs_err [of mode "{}" "upd_Jobs req"] by auto
    with err show ?thesis unfolding val head graph_ok_def by auto
  qed
qed

end
