(* ===== verification/Runs.thy ===== *)
theory Runs
  imports Workload_Validation
begin

text \<open>
  Pipeline runs of the file-backed repository (\<^verbatim>\<open>go/internal/store/store.go\<close> and the step
  helpers of \<^verbatim>\<open>workloads.go\<close>): submission, cancellation, retry, the link to the execution
  engine and the step reports. \<open>run_ok\<close> is the invariant of a stored run; it fixes the
  progress as a function of the steps and ties the status of the run to theirs.
\<close>

subsection \<open>Steps of a run\<close>

definition stepsFromDefinition :: "PipelineDefinition \<Rightarrow> PipelineStep list" where
  "stepsFromDefinition d = map (\<lambda>job.
     \<lparr>ps_Name = job_Name job, ps_Status = ''pending'',
      ps_Image = (if job_Kind job = ''function'' then ''function://'' @ job_Function job else job_Image job),
      ps_DependsOn = job_DependsOn job, ps_Progress = 0\<rparr>) (pd_Jobs d)"

definition resetSteps :: "PipelineStep list \<Rightarrow> PipelineStep list" where
  "resetSteps previous = map (\<lambda>st. st\<lparr>ps_Status := ''pending'', ps_Progress := 0\<rparr>) previous"

definition validStepStatus :: "string \<Rightarrow> bool" where
  "validStepStatus status \<longleftrightarrow>
     List.member [''pending'', ''running'', ''succeeded'', ''failed'', ''skipped''] status"

definition stepMessage :: "UpdateRunStepRequest \<Rightarrow> string" where
  "stepMessage req = (if usr_Message req \<noteq> [] then usr_Message req
                      else ''step '' @ usr_Step req @ '' '' @ usr_Status req)"

definition step_done :: "string \<Rightarrow> bool" where
  "step_done status \<longleftrightarrow> status = ''succeeded'' \<or> status = ''skipped''"

text \<open>The upsert loop of \<open>applyStepTransition\<close>.\<close>

definition upsert_step :: "UpdateRunStepRequest \<Rightarrow> PipelineStep list \<Rightarrow> PipelineStep list" where
  "upsert_step req steps =
     (case find (\<lambda>st. ps_Name st = usr_Step req) steps of
        Some _ \<Rightarrow> update_first (\<lambda>st. ps_Name st = usr_Step req)
          (\<lambda>st. if step_done (usr_Status req) then st\<lparr>ps_Status := usr_Status req, ps_Progress := 100\<rparr>
                else st\<lparr>ps_Status := usr_Status req\<rparr>) steps
      | None \<Rightarrow> steps @ [\<lparr>ps_Name = usr_Step req, ps_Status = usr_Status req, ps_Image = [], ps_DependsOn = [],
                        ps_Progress = (if step_done (usr_Status req) then 100 else 0)\<rparr>])"

fun count_steps :: "PipelineStep list \<Rightarrow> int \<times> int \<times> int \<Rightarrow> int \<times> int \<times> int" where
  "count_steps [] c = c"
| "count_steps (st # sts) (completed, failed, running) =
     count_steps sts
       (if step_done (ps_Status st) then (completed + 1, failed, running)
        else if ps_Status st = ''failed'' then (completed, failed + 1, running)
        else if ps_Status st = ''running'' then (completed, failed, running + 1)
        else (completed, failed, running))"

definition applyStepTransition :: "PipelineRun \<Rightarrow> UpdateRunStepRequest \<Rightarrow> PipelineRun" where
  "applyStepTransition run0 req =
     (let run = run0\<lparr>run_Steps := upsert_step req (run_Steps run0)\<rparr>;
          n = int (length (run_Steps run));
          (completed, failed, running) = count_steps (run_Steps run) (0, 0, 0);
          run = (if n > 0 then run\<lparr>run_Progress := completed * 100 div n\<rparr> else run)
      in if failed > 0 then run\<lparr>run_Status := ''failed''\<rparr>
         else if completed = n then run\<lparr>run_Status := ''succeeded'', run_Progress := 100\<rparr>
         else if running > 0 \<or> completed > 0 then run\<lparr>run_Status := ''running''\<rparr>
         else run)"

subsection \<open>Operations\<close>

definition pipelineDefinitionFrom :: "PipelineDefinition list \<Rightarrow> string \<Rightarrow> PipelineDefinition ret" where
  "pipelineDefinitionFrom values definitionID =
     (case find (\<lambda>d. pd_ID d = definitionID) values of
        Some d \<Rightarrow> (d, None) | None \<Rightarrow> (zero_PipelineDefinition, Some ErrNotFound))"

text \<open>Readers: \<open>Run\<close> and \<open>Runs\<close>.\<close>

definition Store_Run :: "Store \<Rightarrow> string \<Rightarrow> PipelineRun ret" where
  "Store_Run s runID = (case find (\<lambda>r. run_ID r = runID) (st_Runs (data s)) of
     Some r \<Rightarrow> (r, None) | None \<Rightarrow> (zero_PipelineRun, Some ErrNotFound))"

definition Store_Runs :: "Store \<Rightarrow> PipelineRun list" where
  "Store_Runs s = st_Runs (data s)"

text \<open>The steps, the execution mode and the name a submission starts from.\<close>

definition submission_plan :: "state \<Rightarrow> SubmitPipelineRequest \<Rightarrow> (PipelineStep list \<times> string \<times> string) option" where
  "submission_plan d req =
     (if sub_DefinitionID req = [] then Some (defaultSteps ''pending'', ''prefect'', sub_Name req)
      else let (definition, err) = pipelineDefinitionFrom (st_Definitions d) (sub_DefinitionID req) in
        if err \<noteq> None \<or> pd_ProjectID definition \<noteq> sub_ProjectID req then None
        else Some (stepsFromDefinition definition, pd_ExecutionMode definition,
                   if TrimSpace (sub_Name req) = [] then pd_Name definition else sub_Name req))"

definition Store_SubmitPipeline ::
  "env \<Rightarrow> Store \<Rightarrow> SubmitPipelineRequest \<Rightarrow> string list \<Rightarrow> Store \<times> PipelineRun ret" where
  [store_ops]: "Store_SubmitPipeline e s req actors =
     (if \<not> hasProject (st_Projects (data s)) (sub_ProjectID req) then (s, (zero_PipelineRun, Some ErrNotFound))
      else case submission_plan (data s) req of
        None \<Rightarrow> (s, (zero_PipelineRun, Some ErrNotFound))
      | Some (steps, mode, name0) \<Rightarrow>
          (let name = (if TrimSpace name0 = [] then ''training-pipeline'' else name0);
               now = clk e 0;
               run = \<lparr>run_ID = new_id ''run'' (clk e 1), run_ProjectID = sub_ProjectID req,
                      run_Name = TrimSpace name, run_Status = ''queued'', run_Progress = 0,
                      run_CreatedAt = now, run_UpdatedAt = now, run_ParentRunID = [],
                      run_EngineRunID = [], run_DefinitionID = sub_DefinitionID req,
                      run_ExecutionMode = mode, run_Parameters = sub_Parameters req, run_Steps = steps,
                      run_Logs = [\<lparr>rl_Timestamp = now, rl_Step = [], rl_Level = ''info'',
                                   rl_Message = ''Run accepted by control plane''\<rparr>]\<rparr>;
               s1 = s\<lparr>data := (data s)\<lparr>st_Runs := run # st_Runs (data s)\<rparr>\<rparr>;
               s2 = record_event e 2 ''pipeline.submitted'' ''pipeline_run'' (run_ID run) (first_or_empty actors) [] s1
           in commit e s2 run))"

abbreviation set_run :: "string \<Rightarrow> PipelineRun \<Rightarrow> Store \<Rightarrow> Store" where
  "set_run runID run s \<equiv>
     s\<lparr>data := (data s)\<lparr>st_Runs := update_first (\<lambda>r. run_ID r = runID) (\<lambda>_. run) (st_Runs (data s))\<rparr>\<rparr>"

definition Store_CancelRun :: "env \<Rightarrow> Store \<Rightarrow> string \<Rightarrow> string \<Rightarrow> Store \<times> PipelineRun ret" where
  [store_ops]: "Store_CancelRun e s runID actor =
     (case find (\<lambda>r. run_ID r = runID) (st_Runs (data s)) of
        None \<Rightarrow> (s, (zero_PipelineRun, Some ErrNotFound))
      | Some r \<Rightarrow>
          if run_Status r = ''succeeded'' \<or> run_Status r = ''failed''
            then (s, (zero_PipelineRun, Some (Err ''completed runs cannot be cancelled'')))
          else let run = r\<lparr>run_Status := ''cancelled'', run_UpdatedAt := clk e 0,
                           run_Logs := run_Logs r @ [\<lparr>rl_Timestamp = clk e 1, rl_Step = [], rl_Level = ''warning'',
                             rl_Message = ''Run cancelled by '' @ actor\<rparr>]\<rparr>;
                   s1 = set_run runID run s
               in commit e (record_event e 2 ''pipeline.cancelled'' ''pipeline_run'' runID actor [] s1) run)"

definition Store_RetryRun :: "env \<Rightarrow> Store \<Rightarrow> string \<Rightarrow> string \<Rightarrow> Store \<times> PipelineRun ret" where
  [store_ops]: "Store_RetryRun e s runID actor =
     (case find (\<lambda>r. run_ID r = runID) (st_Runs (data s)) of
        None \<Rightarrow> (s, (zero_PipelineRun, Some ErrNotFound))
      | Some previous \<Rightarrow>
          (let now = clk e 0;
               run = \<lparr>run_ID = new_id ''run'' (clk e 1), run_ProjectID = run_ProjectID previous,
                      run_Name = run_Name previous, run_Status = ''queued'', run_Progress = 0,
                      run_CreatedAt = now, run_UpdatedAt = now, run_ParentRunID = run_ID previous,
                      run_EngineRunID = [], run_DefinitionID = run_DefinitionID previous,
                      run_ExecutionMode = run_ExecutionMode previous, run_Parameters = run_Parameters previous,
                      run_Steps = resetSteps (run_Steps previous),
                      run_Logs = [\<lparr>rl_Timestamp = now, rl_Step = [], rl_Level = ''info'',
                                   rl_Message = ''Retry created from '' @ run_ID previous\<rparr>]\<rparr>;
               s1 = s\<lparr>data := (data s)\<lparr>st_Runs := run # st_Runs (data s)\<rparr>\<rparr>
           in commit e (record_event e 2 ''pipeline.retried'' ''pipeline_run'' (run_ID run) actor
                          [(''parent_run_id'', AnyStr (run_ID previous))] s1) run))"

definition Store_SetRunEngine :: "env \<Rightarrow> Store \<Rightarrow> string \<Rightarrow> string \<Rightarrow> Store \<times> PipelineRun ret" where
  [store_ops]: "Store_SetRunEngine e s runID engineRunID =
     (case find (\<lambda>r. run_ID r = runID) (st_Runs (data s)) of
        None \<Rightarrow> (s, (zero_PipelineRun, Some ErrNotFound))
      | Some r \<Rightarrow> (let run = r\<lparr>run_EngineRunID := engineRunID, run_UpdatedAt := clk e 0\<rparr>
                   in commit e (set_run runID run s) run))"

definition run_terminal :: "PipelineRun \<Rightarrow> bool" where
  "run_terminal r \<longleftrightarrow> run_Status r = ''cancelled'' \<or> run_Status r = ''failed'' \<or> run_Status r = ''succeeded''"

text \<open>The body of \<open>UpdateRunStep\<close> on the run it found.\<close>

definition report_step :: "time \<Rightarrow> UpdateRunStepRequest \<Rightarrow> PipelineRun \<Rightarrow> PipelineRun" where
  "report_step now req r =
     (let level = (if usr_Status req = ''failed'' then ''error'' else ''info'');
          logged = r\<lparr>run_Logs := run_Logs r @ [\<lparr>rl_Timestamp = now, rl_Step = usr_Step req, rl_Level = level,
                                                rl_Message = stepMessage req\<rparr>]\<rparr>
      in if run_terminal logged then logged
         else (applyStepTransition logged req)\<lparr>run_UpdatedAt := now\<rparr>)"

definition Store_UpdateRunStep ::
  "env \<Rightarrow> Store \<Rightarrow> string \<Rightarrow> UpdateRunStepRequest \<Rightarrow> string \<Rightarrow> Store \<times> PipelineRun ret" where
  [store_ops]: "Store_UpdateRunStep e s runID req actor =
     (if usr_Step req = [] \<or> usr_Status req = []
        then (s, (zero_PipelineRun, Some (Err ''step and status are required'')))
      else if \<not> validStepStatus (usr_Status req)
        then (s, (zero_PipelineRun, Some (ErrQuoted ''invalid step status '' (usr_Status req))))
      else case find (\<lambda>r. run_ID r = runID) (st_Runs (data s)) of
        None \<Rightarrow> (s, (zero_PipelineRun, Some ErrNotFound))
      | Some r \<Rightarrow> (let run = report_step (clk e 0) req r in commit e (set_run runID run s) run))"

subsection \<open>Counting and the status of a run\<close>

abbreviation statuses :: "PipelineRun \<Rightarrow> string list" where
  "statuses r \<equiv> map ps_Status (run_Steps r)"

lemma count_steps_spec:
  "count_steps sts (c, f, r) =
     (c + int (length (filter step_done (map ps_Status sts))),
      f + int (length (filter (\<lambda>x. x = ''failed'') (map ps_Status sts))),
      r + int (length (filter (\<lambda>x. x = ''running'') (map ps_Status sts))))"
  by (induction sts arbitrary: c f r) (auto simp: step_done_def)

lemma filter_length_all: "length (filter P xs) = length xs \<longleftrightarrow> (\<forall>x \<in> set xs. P x)"
  by (metis filter_id_conv length_filter_less less_irrefl)

text \<open>The verdict the comment of \<open>applyStepTransition\<close> promises.\<close>

definition run_verdict :: "string \<Rightarrow> string list \<Rightarrow> string" where
  "run_verdict old sts =
     (if ''failed'' \<in> set sts then ''failed''
      else if \<forall>x \<in> set sts. step_done x then ''succeeded''
      else if \<exists>x \<in> set sts. x = ''running'' \<or> step_done x then ''running''
      else old)"

definition step_progress :: "string list \<Rightarrow> int" where
  "step_progress sts = int (length (filter step_done sts)) * 100 div int (length sts)"

lemma upsert_step_nonempty [simp]: "upsert_step req steps \<noteq> []"
  by (cases steps) (auto simp: upsert_step_def split: option.splits)

lemma step_progress_all: "sts \<noteq> [] \<Longrightarrow> \<forall>x \<in> set sts. step_done x \<Longrightarrow> step_progress sts = 100"
  by (simp add: step_progress_def filter_id_conv [THEN iffD2])

lemma filter_empty_iff: "0 < length (filter P xs) \<longleftrightarrow> (\<exists>x \<in> set xs. P x)"
  by (induction xs) auto

lemma applyStepTransition_spec:
  "applyStepTransition run req = run\<lparr>
     run_Steps := upsert_step req (run_Steps run),
     run_Status := run_verdict (run_Status run) (map ps_Status (upsert_step req (run_Steps run))),
     run_Progress := step_progress (map ps_Status (upsert_step req (run_Steps run)))\<rparr>"
proof -
  define sts where "sts = map ps_Status (upsert_step req (run_Steps run))"
  define c where "c = length (filter step_done sts)"
  define f where "f = length (filter (\<lambda>x. x = ''failed'') sts)"
  define r where "r = length (filter (\<lambda>x. x = ''running'') sts)"
  have ne: "sts \<noteq> []" "length (upsert_step req (run_Steps run)) = length sts"
    by (simp_all add: sts_def)
  have cnt: "count_steps (upsert_step req (run_Steps run)) (0, 0, 0) = (int c, int f, int r)"
    by (simp add: count_steps_spec sts_def c_def f_def r_def)
  have fl: "0 < f \<longleftrightarrow> ''failed'' \<in> set sts" unfolding f_def filter_empty_iff by auto
  have cl: "c = length sts \<longleftrightarrow> (\<forall>x \<in> set sts. step_done x)" unfolding c_def by (rule filter_length_all)
  have rl: "0 < r \<or> 0 < c \<longleftrightarrow> (\<exists>x \<in> set sts. x = ''running'' \<or> step_done x)"
    unfolding r_def c_def filter_empty_iff by auto
  have prog: "step_progress sts = int c * 100 div int (length sts)" by (simp add: step_progress_def c_def)
  show ?thesis
    unfolding applyStepTransition_def Let_def
    using ne cnt fl cl rl prog step_progress_all [OF ne(1)]
    by (simp add: sts_def [symmetric] run_verdict_def)
qed

lemma step_progress_bounds: "0 \<le> step_progress sts" "step_progress sts \<le> 100"
proof -
  have le: "length (filter step_done sts) \<le> length sts" by simp
  show "0 \<le> step_progress sts" by (simp add: step_progress_def div_int_pos_iff)
  show "step_progress sts \<le> 100"
  proof (cases "sts = []")
    case False
    have "int (length (filter step_done sts)) * 100 div int (length sts) \<le> int (length sts) * 100 div int (length sts)"
      using le by (intro zdiv_mono1) (use False in auto)
    with False show ?thesis by (simp add: step_progress_def)
  qed (simp add: step_progress_def)
qed

subsection \<open>The invariant of a run\<close>

definition run_ok :: "PipelineRun \<Rightarrow> bool" where
  "run_ok r \<longleftrightarrow> run_Steps r \<noteq> [] \<and> (\<forall>x \<in> set (statuses r). validStepStatus x) \<and>
     run_Progress r = step_progress (statuses r) \<and>
     (run_Status r = ''queued'' \<and> (\<forall>x \<in> set (statuses r). x = ''pending'') \<or>
      run_Status r = ''running'' \<and> ''failed'' \<notin> set (statuses r) \<and> (\<exists>x \<in> set (statuses r). \<not> step_done x) \<or>
      run_Status r = ''succeeded'' \<and> (\<forall>x \<in> set (statuses r). step_done x) \<or>
      run_Status r = ''failed'' \<and> ''failed'' \<in> set (statuses r) \<or>
      run_Status r = ''cancelled'')"

lemma step_progress_pending: "\<forall>x \<in> set sts. x = ''pending'' \<Longrightarrow> step_progress sts = 0"
proof -
  assume "\<forall>x \<in> set sts. x = ''pending''"
  then have "filter step_done sts = []" by (auto simp: filter_empty_conv step_done_def)
  then show ?thesis by (simp add: step_progress_def)
qed

lemma run_ok_new:
  assumes "run_Steps r \<noteq> []" and "\<forall>x \<in> set (statuses r). x = ''pending''"
    and "run_Status r = ''queued''" and "run_Progress r = 0"
  shows "run_ok r"
  using assms step_progress_pending [of "statuses r"]
  by (auto simp: run_ok_def validStepStatus_def)

lemma statuses_upsert:
  "x \<in> set (map ps_Status (upsert_step req steps)) \<Longrightarrow> x \<in> set (map ps_Status steps) \<or> x = usr_Status req"
  by (auto simp: upsert_step_def dest!: set_update_first split: option.splits if_splits)

lemma upsert_has_status: "usr_Status req \<in> set (map ps_Status (upsert_step req steps))"
proof (cases "find (\<lambda>st. ps_Name st = usr_Step req) steps")
  case (Some st)
  then show ?thesis
    using update_first_mem [OF Some, of "\<lambda>st. if step_done (usr_Status req)
      then st\<lparr>ps_Status := usr_Status req, ps_Progress := 100\<rparr> else st\<lparr>ps_Status := usr_Status req\<rparr>"]
    by (force simp: upsert_step_def split: if_splits)
qed (simp add: upsert_step_def)

lemma applyStepTransition_ok:
  assumes ok: "run_ok r" and live: "\<not> run_terminal r" and valid: "validStepStatus (usr_Status req)"
  shows "run_ok (applyStepTransition r req)"
proof -
  define sts where "sts = map ps_Status (upsert_step req (run_Steps r))"
  have valid': "validStepStatus x" if "x \<in> set sts" for x
    using that statuses_upsert [of x req "run_Steps r"] ok valid by (auto simp: sts_def run_ok_def)
  have queued: "\<forall>x \<in> set sts. x = ''pending''"
    if "run_Status r = ''queued''" "\<forall>x \<in> set sts. x \<noteq> ''failed'' \<and> x \<noteq> ''running'' \<and> \<not> step_done x"
    using that valid' by (auto simp: validStepStatus_def step_done_def)
  have ne: "sts \<noteq> []" by (simp add: sts_def)
  from ok live have "run_Status r = ''queued'' \<or> run_Status r = ''running''"
    by (auto simp: run_ok_def run_terminal_def)
  then show ?thesis
    unfolding applyStepTransition_spec run_ok_def using queued valid' ne
    by (auto simp: sts_def [symmetric] run_verdict_def)
qed

lemma run_ok_cong:
  "run_ok (r\<lparr>run_Logs := l\<rparr>) = run_ok r" "run_ok (r\<lparr>run_UpdatedAt := t\<rparr>) = run_ok r"
  "run_ok (r\<lparr>run_EngineRunID := g\<rparr>) = run_ok r"
  by (simp_all add: run_ok_def)

lemma report_step_ok:
  "run_ok r \<Longrightarrow> validStepStatus (usr_Status req) \<Longrightarrow> run_ok (report_step now req r)"
  by (simp add: report_step_def Let_def run_ok_cong applyStepTransition_ok)

lemma run_ok_cancel: "run_ok r \<Longrightarrow> run_ok (r\<lparr>run_Status := ''cancelled'', run_UpdatedAt := t, run_Logs := l\<rparr>)"
  by (simp add: run_ok_def)

lemma run_ok_reset:
  "run_ok previous \<Longrightarrow> run_Steps r = resetSteps (run_Steps previous) \<Longrightarrow> run_Status r = ''queued'' \<Longrightarrow>
     run_Progress r = 0 \<Longrightarrow> run_ok r"
  by (rule run_ok_new) (auto simp: resetSteps_def run_ok_def)

lemma run_progress_bounds: "run_ok r \<Longrightarrow> 0 \<le> run_Progress r \<and> run_Progress r \<le> 100"
  by (simp add: run_ok_def step_progress_bounds)

text \<open>What the status of a run says about its steps.\<close>

lemma run_ok_status:
  assumes ok: "run_ok r"
  shows "run_Status r \<in> {''queued'', ''running'', ''succeeded'', ''failed'', ''cancelled''}"
    and "run_Status r = ''succeeded'' \<longleftrightarrow> run_Status r \<noteq> ''cancelled'' \<and> (\<forall>st \<in> set (run_Steps r). step_done (ps_Status st))"
    and "run_Status r = ''failed'' \<longleftrightarrow> run_Status r \<noteq> ''cancelled'' \<and> (\<exists>st \<in> set (run_Steps r). ps_Status st = ''failed'')"
proof -
  define S where "S = set (statuses r)"
  have all: "(\<forall>st \<in> set (run_Steps r). step_done (ps_Status st)) \<longleftrightarrow> (\<forall>x \<in> S. step_done x)"
    and ex: "(\<exists>st \<in> set (run_Steps r). ps_Status st = ''failed'') \<longleftrightarrow> ''failed'' \<in> S"
    by (auto simp: S_def intro: rev_image_eqI)
  have ne: "\<exists>x. x \<in> S" using ok by (cases "run_Steps r") (auto simp: run_ok_def S_def)
  have nd: "\<not> step_done ''pending''" "\<not> step_done ''failed''" by (simp_all add: step_done_def)
  have st: "run_Status r = ''queued'' \<and> (\<forall>x \<in> S. x = ''pending'') \<or>
      run_Status r = ''running'' \<and> ''failed'' \<notin> S \<and> (\<exists>x \<in> S. \<not> step_done x) \<or>
      run_Status r = ''succeeded'' \<and> (\<forall>x \<in> S. step_done x) \<or>
      run_Status r = ''failed'' \<and> ''failed'' \<in> S \<or> run_Status r = ''cancelled''"
    using ok by (simp add: run_ok_def S_def)
  then show "run_Status r \<in> {''queued'', ''running'', ''succeeded'', ''failed'', ''cancelled''}" by blast
  show "run_Status r = ''succeeded'' \<longleftrightarrow> run_Status r \<noteq> ''cancelled'' \<and> (\<forall>st \<in> set (run_Steps r). step_done (ps_Status st))"
    unfolding all using st ne nd by auto
  show "run_Status r = ''failed'' \<longleftrightarrow> run_Status r \<noteq> ''cancelled'' \<and> (\<exists>st \<in> set (run_Steps r). ps_Status st = ''failed'')"
    unfolding ex using st ne nd by auto
qed

subsection \<open>What each operation does to the runs\<close>

text \<open>
  The possible effects of an operation on the list of runs: nothing, a new queued run in
  front, or a change of the first run with the given identifier.
\<close>

inductive run_effect :: "state \<Rightarrow> PipelineRun list \<Rightarrow> PipelineRun list \<Rightarrow> bool" for d :: state where
  same: "run_effect d rs rs"
| submitted: "run_Status r = ''queued'' \<Longrightarrow> run_Progress r = 0 \<Longrightarrow>
    run_Steps r = defaultSteps ''pending'' \<or>
      (\<exists>def \<in> set (st_Definitions d). pd_ProjectID def = run_ProjectID r \<and> run_Steps r = stepsFromDefinition def) \<Longrightarrow>
    hasProject (st_Projects d) (run_ProjectID r) \<Longrightarrow> run_effect d rs (r # rs)"
| retried: "p \<in> set rs \<Longrightarrow> run_Status r = ''queued'' \<Longrightarrow> run_Progress r = 0 \<Longrightarrow>
    run_Steps r = resetSteps (run_Steps p) \<Longrightarrow> run_ProjectID r = run_ProjectID p \<Longrightarrow> run_effect d rs (r # rs)"
| cancelled: "find (\<lambda>r. run_ID r = i) rs = Some r \<Longrightarrow> run_Status r \<noteq> ''succeeded'' \<Longrightarrow> run_Status r \<noteq> ''failed'' \<Longrightarrow>
    run_effect d rs (update_first (\<lambda>r. run_ID r = i)
      (\<lambda>_. r\<lparr>run_Status := ''cancelled'', run_UpdatedAt := t, run_Logs := l\<rparr>) rs)"
| linked: "find (\<lambda>r. run_ID r = i) rs = Some r \<Longrightarrow>
    run_effect d rs (update_first (\<lambda>r. run_ID r = i) (\<lambda>_. r\<lparr>run_EngineRunID := g, run_UpdatedAt := t\<rparr>) rs)"
| reported: "find (\<lambda>r. run_ID r = i) rs = Some r \<Longrightarrow> validStepStatus (usr_Status req) \<Longrightarrow>
    run_effect d rs (update_first (\<lambda>r. run_ID r = i) (\<lambda>_. report_step t req r) rs)"

lemma run_effect_ok:
  assumes "run_effect d rs rs'" and "\<forall>r \<in> set rs. run_ok r"
    and "\<forall>def \<in> set (st_Definitions d). pd_Jobs def \<noteq> []"
  shows "\<forall>r \<in> set rs'. run_ok r"
  using assms
proof (induction rule: run_effect.induct)
  case (submitted r rs)
  then have "run_Steps r \<noteq> []" "\<forall>x \<in> set (statuses r). x = ''pending''"
    by (auto simp: stepsFromDefinition_def dest: defaultSteps_status)
      (metis length_defaultSteps list.size(3) zero_neq_numeral)
  then have "run_ok r" using submitted by (intro run_ok_new)
  with submitted show ?case by simp
next
  case (retried p rs r)
  then show ?case by (auto intro: run_ok_reset)
next
  case (cancelled i rs r t l)
  then show ?case by (auto dest!: set_update_first find_SomeD intro: run_ok_cancel)
next
  case (linked i rs r g t)
  then show ?case by (auto dest!: set_update_first find_SomeD simp: run_ok_cong)
next
  case (reported i rs r req t)
  then show ?case by (auto dest!: set_update_first find_SomeD intro: report_step_ok)
qed simp

text \<open>A finished run keeps its status, its steps and its progress.\<close>

definition run_frozen :: "string \<times> string \<times> PipelineStep list \<times> int \<Rightarrow> PipelineRun list \<Rightarrow> bool" where
  "run_frozen k rs \<longleftrightarrow> (case k of (i, st, sts, p) \<Rightarrow>
     st \<in> {''succeeded'', ''failed'', ''cancelled''} \<and>
     (\<exists>r \<in> set rs. run_ID r = i \<and> run_Status r = st \<and> run_Steps r = sts \<and> run_Progress r = p))"

lemma run_frozen_update:
  assumes "run_frozen k rs" and "find P rs = Some x"
    and "run_terminal x \<Longrightarrow> run_ID (f x) = run_ID x \<and> run_Status (f x) = run_Status x \<and>
      run_Steps (f x) = run_Steps x \<and> run_Progress (f x) = run_Progress x"
  shows "run_frozen k (update_first P f rs)"
  using assms(1,2)
proof (induction rs)
  case (Cons r rs)
  obtain i st sts p where k: "k = (i, st, sts, p)" by (cases k) auto
  show ?case
  proof (cases "P r")
    case True
    with Cons.prems have "x = r" by simp
    with True Cons.prems(1) assms(3) show ?thesis
      by (auto simp: k run_frozen_def run_terminal_def)
  next
    case False
    with Cons show ?thesis by (auto simp: k run_frozen_def)
  qed
qed (simp add: run_frozen_def split: prod.splits)

lemma report_step_terminal:
  "run_terminal r \<Longrightarrow> run_ID (report_step t req r) = run_ID r \<and> run_Status (report_step t req r) = run_Status r \<and>
     run_Steps (report_step t req r) = run_Steps r \<and> run_Progress (report_step t req r) = run_Progress r"
  by (simp add: report_step_def Let_def run_terminal_def)

lemma run_effect_frozen:
  assumes "run_effect d rs rs'" and "run_frozen k rs"
  shows "run_frozen k rs'"
  using assms
proof (induction rule: run_effect.induct)
  case (cancelled i rs r t l)
  then show ?case by (intro run_frozen_update [OF _ cancelled.hyps(1)]) (auto simp: run_terminal_def)
next
  case (linked i rs r g t)
  then show ?case by (intro run_frozen_update [OF _ linked.hyps]) auto
next
  case (reported i rs r req t)
  then show ?case by (intro run_frozen_update [OF _ reported.hyps(1)]) (auto simp: report_step_terminal)
qed (auto simp: run_frozen_def)

text \<open>Every operation of this component has one of these effects, and touches the audit log besides.\<close>

definition runs_only :: "state \<Rightarrow> state \<Rightarrow> bool" where
  "runs_only d d' \<longleftrightarrow> run_effect d (st_Runs d) (st_Runs d') \<and> suffix (st_Audit d) (st_Audit d') \<and>
     d' = d\<lparr>st_Runs := st_Runs d', st_Audit := st_Audit d'\<rparr>"

lemma runs_only_refl [simp]: "runs_only d d"
  by (simp add: runs_only_def run_effect.same)

lemma Store_SubmitPipeline_runs: "runs_only (data s) (data (fst (Store_SubmitPipeline e s req actors)))"
proof (cases "hasProject (st_Projects (data s)) (sub_ProjectID req)")
  case True
  show ?thesis
  proof (cases "submission_plan (data s) req")
    case (Some plan)
    obtain steps mode name where plan: "plan = (steps, mode, name)" by (cases plan)
    have "steps = defaultSteps ''pending'' \<or>
      (\<exists>def \<in> set (st_Definitions (data s)). pd_ProjectID def = sub_ProjectID req \<and> steps = stepsFromDefinition def)"
      using Some plan
      by (auto simp: submission_plan_def pipelineDefinitionFrom_def dest: find_SomeD split: if_splits option.splits)
    with True Some plan show ?thesis
      unfolding runs_only_def Store_SubmitPipeline_def
      by (simp add: Let_def suffix_ConsI run_effect.submitted)
  qed (simp add: Store_SubmitPipeline_def)
qed (simp add: Store_SubmitPipeline_def)

lemma Store_CancelRun_runs: "runs_only (data s) (data (fst (Store_CancelRun e s i actor)))"
  by (simp add: Store_CancelRun_def Let_def runs_only_def suffix_ConsI run_effect.cancelled run_effect.same
      split: option.splits)

lemma Store_RetryRun_runs: "runs_only (data s) (data (fst (Store_RetryRun e s i actor)))"
proof (cases "find (\<lambda>r. run_ID r = i) (st_Runs (data s))")
  case (Some p)
  with find_SomeD [OF Some] show ?thesis
    by (simp add: Store_RetryRun_def Let_def runs_only_def suffix_ConsI run_effect.retried [of p])
qed (simp add: Store_RetryRun_def)

lemma Store_SetRunEngine_runs: "runs_only (data s) (data (fst (Store_SetRunEngine e s i g)))"
  by (simp add: Store_SetRunEngine_def Let_def runs_only_def run_effect.linked run_effect.same
      split: option.splits)

lemma Store_UpdateRunStep_runs: "runs_only (data s) (data (fst (Store_UpdateRunStep e s i req actor)))"
  by (simp add: Store_UpdateRunStep_def Let_def runs_only_def run_effect.reported run_effect.same
      split: option.splits)

lemmas run_ops = Store_SubmitPipeline_runs Store_CancelRun_runs Store_RetryRun_runs
  Store_SetRunEngine_runs Store_UpdateRunStep_runs

subsection \<open>A run whose steps all report completion succeeds\<close>

lemma report_step_ID [simp]: "run_ID (report_step t req r) = run_ID r"
  by (simp add: report_step_def Let_def applyStepTransition_spec)

lemma Store_UpdateRunStep_Run:
  assumes "Store_Run s i = (r, None)" and "usr_Step req \<noteq> []" and "validStepStatus (usr_Status req)"
  shows "Store_Run (fst (Store_UpdateRunStep e s i req actor)) i = (report_step (clk e 0) req r, None)"
proof -
  from assms(1) have f: "find (\<lambda>r. run_ID r = i) (st_Runs (data s)) = Some r"
    by (auto simp: Store_Run_def split: option.splits)
  then have "run_ID r = i" using find_SomeD by fastforce
  with f have "find (\<lambda>r. run_ID r = i) (update_first (\<lambda>r. run_ID r = i) (\<lambda>_. report_step (clk e 0) req r)
      (st_Runs (data s))) = Some (report_step (clk e 0) req r)"
    by (subst find_update_first_same) auto
  moreover have "usr_Status req \<noteq> []"
    using assms(3) by (auto simp: validStepStatus_def)
  ultimately show ?thesis
    using assms f by (simp add: Store_UpdateRunStep_def Store_Run_def Let_def)
qed

text \<open>Every unfinished step is still to be reported, and nothing has failed so far.\<close>

definition awaits :: "string set \<Rightarrow> PipelineRun \<Rightarrow> bool" where
  "awaits names r \<longleftrightarrow> run_ok r \<and> run_Status r \<in> {''queued'', ''running'', ''succeeded''} \<and>
     distinct (map ps_Name (run_Steps r)) \<and>
     (\<forall>st \<in> set (run_Steps r). step_done (ps_Status st) \<or> ps_Name st \<in> names)"

lemma awaits_none: "awaits {} r \<Longrightarrow> run_Status r = ''succeeded'' \<and> run_Progress r = 100"
proof -
  assume a: "awaits {} r"
  then have "run_ok r" "\<forall>x \<in> set (statuses r). step_done x" "run_Steps r \<noteq> []"
    by (auto simp: awaits_def run_ok_def)
  moreover from this have "\<exists>x. x \<in> set (statuses r)" by (cases "run_Steps r") auto
  moreover have "\<not> step_done ''pending''" by (simp add: step_done_def)
  ultimately show ?thesis
    using a step_progress_all [of "statuses r"] by (auto simp: run_ok_def awaits_def)
qed

lemma upsert_step_names:
  "map ps_Name (upsert_step req steps) =
     map ps_Name steps @ (if usr_Step req \<in> set (map ps_Name steps) then [] else [usr_Step req])"
proof (cases "find (\<lambda>st. ps_Name st = usr_Step req) steps")
  case None
  then show ?thesis by (auto simp: upsert_step_def dest: find_NoneD)
next
  case (Some st)
  have "map ps_Name (update_first (\<lambda>st. ps_Name st = usr_Step req)
      (\<lambda>st. if step_done (usr_Status req) then st\<lparr>ps_Status := usr_Status req, ps_Progress := 100\<rparr>
            else st\<lparr>ps_Status := usr_Status req\<rparr>) steps) = map ps_Name steps"
    by (rule map_update_first) simp
  moreover have "usr_Step req \<in> ps_Name ` set steps"
    using find_SomeD [OF Some] by (metis imageI)
  ultimately show ?thesis using Some by (simp add: upsert_step_def)
qed

lemma upsert_step_done:
  assumes "distinct (map ps_Name steps)" and "step_done (usr_Status req)"
    and "st \<in> set (upsert_step req steps)" and "\<not> step_done (ps_Status st)"
  shows "st \<in> set steps \<and> ps_Name st \<noteq> usr_Step req"
  using assms
proof (cases "find (\<lambda>st. ps_Name st = usr_Step req) steps")
  case None
  with assms show ?thesis by (auto simp: upsert_step_def dest: find_NoneD)
next
  case (Some x)
  note update_first_unique [OF assms(1) Some, of st "\<lambda>st. st\<lparr>ps_Status := usr_Status req, ps_Progress := 100\<rparr>"]
  moreover have "st \<noteq> x\<lparr>ps_Status := usr_Status req, ps_Progress := 100\<rparr>"
    using assms(2,4) by auto
  ultimately show ?thesis using assms Some by (auto simp: upsert_step_def)
qed

lemma awaits_report:
  assumes "awaits (insert (usr_Step req) names) r" and "step_done (usr_Status req)"
  shows "awaits names (report_step t req r)"
proof -
  have valid: "validStepStatus (usr_Status req)"
    using assms(2) by (auto simp: validStepStatus_def step_done_def)
  then have ok: "run_ok (report_step t req r)" using assms(1) by (simp add: awaits_def report_step_ok)
  show ?thesis
  proof (cases "run_terminal r")
    case True
    with assms(1) have "run_Status r = ''succeeded''" by (auto simp: awaits_def run_terminal_def)
    moreover from this assms(1) have "\<forall>st \<in> set (run_Steps r). step_done (ps_Status st)"
      by (auto simp: awaits_def run_ok_def)
    ultimately show ?thesis
      using ok assms(1) report_step_terminal [OF True] by (auto simp: awaits_def)
  next
    case False
    then have rep: "run_Steps (report_step t req r) = upsert_step req (run_Steps r)"
      "run_Status (report_step t req r) = run_verdict (run_Status r) (map ps_Status (upsert_step req (run_Steps r)))"
      by (simp_all add: report_step_def Let_def run_terminal_def applyStepTransition_spec)
    have dist: "distinct (map ps_Name (run_Steps r))" using assms(1) by (simp add: awaits_def)
    have "''failed'' \<notin> set (statuses r)"
      using assms(1) False by (auto simp: awaits_def run_ok_def run_terminal_def)
    then have "''failed'' \<notin> set (map ps_Status (upsert_step req (run_Steps r)))"
      using statuses_upsert [of "''failed''" req "run_Steps r"] assms(2) by (auto simp: step_done_def)
    then have "run_Status (report_step t req r) \<in> {''queued'', ''running'', ''succeeded''}"
      using assms(1) unfolding rep run_verdict_def by (auto simp: awaits_def)
    moreover have "\<forall>st \<in> set (upsert_step req (run_Steps r)). step_done (ps_Status st) \<or> ps_Name st \<in> names"
      using upsert_step_done [OF dist assms(2)] assms(1) by (auto simp: awaits_def)
    moreover have "distinct (map ps_Name (upsert_step req (run_Steps r)))"
      using dist by (simp add: upsert_step_names)
    ultimately show ?thesis using ok by (simp add: awaits_def rep(1))
  qed
qed

definition report_all :: "string \<Rightarrow> string \<Rightarrow> (env \<times> UpdateRunStepRequest) list \<Rightarrow> Store \<Rightarrow> Store" where
  "report_all i actor reqs s = foldl (\<lambda>s (e, req). fst (Store_UpdateRunStep e s i req actor)) s reqs"

lemma report_all_awaits:
  assumes "Store_Run s i = (r, None)" and "awaits (usr_Step ` snd ` set reqs) r"
    and "\<forall>(e, req) \<in> set reqs. usr_Step req \<noteq> [] \<and> step_done (usr_Status req)"
  shows "\<exists>r'. Store_Run (report_all i actor reqs s) i = (r', None) \<and> awaits {} r'"
  using assms
proof (induction reqs arbitrary: s r)
  case (Cons er reqs)
  obtain e req where er: "er = (e, req)" by (cases er)
  with Cons.prems(3) have req: "usr_Step req \<noteq> []" "step_done (usr_Status req)" by auto
  then have "validStepStatus (usr_Status req)" by (auto simp: validStepStatus_def step_done_def)
  with Cons.prems(1) req(1)
  have run: "Store_Run (fst (Store_UpdateRunStep e s i req actor)) i = (report_step (clk e 0) req r, None)"
    by (rule Store_UpdateRunStep_Run)
  have "awaits (usr_Step ` snd ` set reqs) (report_step (clk e 0) req r)"
    using Cons.prems(2) req(2) er by (intro awaits_report) auto
  from Cons.IH [OF run this] Cons.prems(3) er show ?case by (auto simp: report_all_def)
qed (simp add: report_all_def)

lemma Store_SubmitPipeline_accepted:
  assumes "spath s = []" and "hasProject (st_Projects (data s)) (sub_ProjectID req)" and "submission_plan (data s) req \<noteq> None"
  shows "\<exists>s' run. Store_SubmitPipeline e s req actors = (s', (run, None))"
  using assms by (auto simp: Store_SubmitPipeline_def Let_def commit_in_memory)

end
