(* ===== verification/Projects.thy ===== *)
theory Projects
  imports Runs
begin

text \<open>
  Projects, pipeline definitions and functions of the file-backed repository
  (\<^verbatim>\<open>go/internal/store/store.go\<close> and \<^verbatim>\<open>workloads.go\<close>). The invariants: project names are
  distinct up to case, every attached repository passed validation, every stored pipeline
  definition satisfies \<open>definition_ok\<close>, function names are distinct DNS labels.
\<close>

subsection \<open>Projects\<close>

definition Store_Projects :: "Store \<Rightarrow> Project list" where
  "Store_Projects s = st_Projects (data s)"

definition Store_Project :: "Store \<Rightarrow> string \<Rightarrow> Project ret" where
  "Store_Project s projectID = (case find (\<lambda>p. prj_ID p = projectID) (st_Projects (data s)) of
     Some p \<Rightarrow> (p, None) | None \<Rightarrow> (zero_Project, Some ErrNotFound))"

definition Store_CreateProject ::
  "env \<Rightarrow> Store \<Rightarrow> CreateProjectRequest \<Rightarrow> string list \<Rightarrow> Store \<times> Project ret" where
  [store_ops]: "Store_CreateProject e s req actors =
     (let name = TrimSpace (cpr_Name req) in
      if length name < 3 then (s, (zero_Project, Some (Err ''name must contain at least 3 characters'')))
      else let template = (if cpr_Template req = [] then ''tabular-classification'' else cpr_Template req) in
      if list_ex (\<lambda>v. EqualFold (prj_Name v) name) (st_Projects (data s)) then (s, (zero_Project, Some ErrConflict))
      else let p = \<lparr>prj_ID = new_id ''prj'' (clk e 0), prj_Name = name,
                    prj_Description = TrimSpace (cpr_Description req), prj_Template = template,
                    prj_Namespace = slug name, prj_Status = ''ready'', prj_CreatedAt = clk e 1,
                    prj_OwnerSubject = cpr_OwnerSubject req, prj_Repository = None\<rparr>;
               (repository, err) = (if TrimSpace (cpr_RepositoryURL req) \<noteq> [] then
                  (let (g, err) = validateGitRepository \<lparr>spr_URL = cpr_RepositoryURL req,
                        spr_DefaultBranch = cpr_DefaultBranch req, spr_LastCommit = []\<rparr> in (Some g, err))
                  else (None, None)) in
      if err \<noteq> None then (s, (zero_Project, err))
      else let p = p\<lparr>prj_Repository := repository\<rparr>;
               s1 = s\<lparr>data := (data s)\<lparr>st_Projects := p # st_Projects (data s)\<rparr>\<rparr>
           in commit e (record_event e 2 ''project.created'' ''project'' (prj_ID p) (first_or_empty actors) [] s1) p)"

definition Store_SetProjectRepository ::
  "env \<Rightarrow> Store \<Rightarrow> string \<Rightarrow> SetProjectRepositoryRequest \<Rightarrow> string \<Rightarrow> Store \<times> Project ret" where
  [store_ops]: "Store_SetProjectRepository e s projectID req actor =
     (let (repository, err) = validateGitRepository req in
      if err \<noteq> None then (s, (zero_Project, err))
      else case find (\<lambda>p. prj_ID p = projectID) (st_Projects (data s)) of
        None \<Rightarrow> (s, (zero_Project, Some ErrNotFound))
      | Some p \<Rightarrow>
          (let p' = p\<lparr>prj_Repository := Some (repository\<lparr>git_SyncedAt := Some (clk e 0)\<rparr>)\<rparr>;
               s1 = s\<lparr>data := (data s)\<lparr>st_Projects :=
                      update_first (\<lambda>p. prj_ID p = projectID) (\<lambda>_. p') (st_Projects (data s))\<rparr>\<rparr>
           in commit e (record_event e 1 ''project.repository_updated'' ''project'' projectID actor
                 [(''provider'', AnyStr (git_Provider repository))] s1) p'))"

subsection \<open>Pipeline definitions\<close>

definition Store_PipelineDefinitions :: "Store \<Rightarrow> PipelineDefinition list" where
  "Store_PipelineDefinitions s = st_Definitions (data s)"

definition Store_PipelineDefinition :: "Store \<Rightarrow> string \<Rightarrow> PipelineDefinition ret" where
  "Store_PipelineDefinition s definitionID = pipelineDefinitionFrom (st_Definitions (data s)) definitionID"

definition definition_matches :: "string \<Rightarrow> UpsertPipelineDefinitionRequest \<Rightarrow> PipelineDefinition \<Rightarrow> bool" where
  "definition_matches definitionID req d \<longleftrightarrow> pd_ID d = definitionID \<or>
     (definitionID = [] \<and> pd_ProjectID d = upd_ProjectID req \<and> pd_Name d = upd_Name req \<and> pd_Version d = upd_Version req)"

definition Store_UpsertPipelineDefinition ::
  "env \<Rightarrow> Store \<Rightarrow> string \<Rightarrow> UpsertPipelineDefinitionRequest \<Rightarrow> string \<Rightarrow> Store \<times> PipelineDefinition ret" where
  [store_ops]: "Store_UpsertPipelineDefinition e s definitionID req0 actor =
     (let (req, err) = validatePipelineDefinition (map_seed e) req0 in
      if err \<noteq> None then (s, (zero_PipelineDefinition, err))
      else if \<not> hasProject (st_Projects (data s)) (upd_ProjectID req)
        then (s, (zero_PipelineDefinition, Some ErrNotFound))
      else let now = clk e 0 in
      case find (definition_matches definitionID req) (st_Definitions (data s)) of
        Some d \<Rightarrow>
          (let d' = d\<lparr>pd_Name := upd_Name req, pd_Version := upd_Version req,
                      pd_ExecutionMode := upd_ExecutionMode req, pd_Jobs := upd_Jobs req,
                      pd_RepositoryURL := upd_RepositoryURL req, pd_CommitSHA := upd_CommitSHA req,
                      pd_UpdatedAt := now\<rparr>;
               s1 = s\<lparr>data := (data s)\<lparr>st_Definitions :=
                      update_first (definition_matches definitionID req) (\<lambda>_. d') (st_Definitions (data s))\<rparr>\<rparr>
           in commit e (record_event e 1 ''pipeline_definition.updated'' ''pipeline_definition'' (pd_ID d) actor [] s1) d')
      | None \<Rightarrow>
          (let d = \<lparr>pd_ID = new_id ''pipe'' (clk e 1), pd_ProjectID = upd_ProjectID req, pd_Name = upd_Name req,
                    pd_Version = upd_Version req, pd_ExecutionMode = upd_ExecutionMode req, pd_Jobs = upd_Jobs req,
                    pd_RepositoryURL = upd_RepositoryURL req, pd_CommitSHA = upd_CommitSHA req,
                    pd_CreatedAt = now, pd_UpdatedAt = now\<rparr>;
               s1 = s\<lparr>data := (data s)\<lparr>st_Definitions := d # st_Definitions (data s)\<rparr>\<rparr>
           in commit e (record_event e 2 ''pipeline_definition.created'' ''pipeline_definition'' (pd_ID d) actor [] s1) d))"

subsection \<open>Functions\<close>

definition Store_Functions :: "Store \<Rightarrow> Function list" where
  "Store_Functions s = st_Functions (data s)"

definition Store_UpsertFunction ::
  "env \<Rightarrow> Store \<Rightarrow> DeployFunctionRequest \<Rightarrow> string \<Rightarrow> string \<Rightarrow> Store \<times> Function ret" where
  [store_ops]: "Store_UpsertFunction e s req owner actor =
     (case ValidateFunctionRequest req of
        Some err \<Rightarrow> (s, (zero_Function, Some err))
      | None \<Rightarrow>
      if \<not> hasProject (st_Projects (data s)) (dfr_ProjectID req) then (s, (zero_Function, Some ErrNotFound))
      else let now = clk e 0 in
      case find (\<lambda>f. fn_Name f = dfr_Name req) (st_Functions (data s)) of
        Some f \<Rightarrow>
          if fn_ProjectID f \<noteq> dfr_ProjectID req then (s, (zero_Function, Some ErrConflict))
          else let f' = f\<lparr>fn_Image := dfr_Image req, fn_EnvVars := dfr_EnvVars req, fn_Labels := dfr_Labels req,
                          fn_Annotations := dfr_Annotations req, fn_CPU := dfr_CPU req, fn_Memory := dfr_Memory req,
                          fn_Status := ''deployed'', fn_UpdatedAt := now\<rparr>;
                   s1 = s\<lparr>data := (data s)\<lparr>st_Functions :=
                          update_first (\<lambda>f. fn_Name f = dfr_Name req) (\<lambda>_. f') (st_Functions (data s))\<rparr>\<rparr>
               in commit e (record_event e 1 ''function.updated'' ''function'' (fn_Name f) actor [] s1) f'
      | None \<Rightarrow>
          (let f = zero_Function\<lparr>fn_Name := dfr_Name req, fn_ProjectID := dfr_ProjectID req, fn_Image := dfr_Image req,
                     fn_EnvVars := dfr_EnvVars req, fn_Labels := dfr_Labels req, fn_Annotations := dfr_Annotations req,
                     fn_CPU := dfr_CPU req, fn_Memory := dfr_Memory req, fn_OwnerSubject := owner,
                     fn_Status := ''deployed'', fn_CreatedAt := now, fn_UpdatedAt := now\<rparr>;
               s1 = s\<lparr>data := (data s)\<lparr>st_Functions := f # st_Functions (data s)\<rparr>\<rparr>
           in commit e (record_event e 1 ''function.deployed'' ''function'' (fn_Name f) actor [] s1) f))"

definition Store_DeleteFunction :: "env \<Rightarrow> Store \<Rightarrow> string \<Rightarrow> string \<Rightarrow> Store \<times> error option" where
  [store_ops]: "Store_DeleteFunction e s name actor =
     (case find (\<lambda>f. fn_Name f = name) (st_Functions (data s)) of
        None \<Rightarrow> (s, Some ErrNotFound)
      | Some _ \<Rightarrow>
          (let s1 = s\<lparr>data := (data s)\<lparr>st_Functions := delete_first (\<lambda>f. fn_Name f = name) (st_Functions (data s))\<rparr>\<rparr>
           in persist e (record_event e 0 ''function.deleted'' ''function'' name actor [] s1)))"

subsection \<open>Invariants\<close>

definition project_ok :: "Project \<Rightarrow> bool" where
  "project_ok p \<longleftrightarrow> 3 \<le> length (prj_Name p) \<and> TrimSpace (prj_Name p) = prj_Name p \<and>
     slug_shaped (prj_Namespace p) \<and> (case prj_Repository p of None \<Rightarrow> True | Some g \<Rightarrow> repository_ok g)"

definition projects_ok :: "Project list \<Rightarrow> bool" where
  "projects_ok ps \<longleftrightarrow> (\<forall>p \<in> set ps. project_ok p) \<and> distinct (map (\<lambda>p. fold_case (prj_Name p)) ps)"

definition as_request :: "PipelineDefinition \<Rightarrow> UpsertPipelineDefinitionRequest" where
  "as_request d = \<lparr>upd_ProjectID = pd_ProjectID d, upd_Name = pd_Name d, upd_Version = pd_Version d,
     upd_ExecutionMode = pd_ExecutionMode d, upd_Jobs = pd_Jobs d, upd_RepositoryURL = pd_RepositoryURL d,
     upd_CommitSHA = pd_CommitSHA d\<rparr>"

definition definitions_ok :: "Project list \<Rightarrow> PipelineDefinition list \<Rightarrow> bool" where
  "definitions_ok ps ds \<longleftrightarrow> (\<forall>d \<in> set ds. definition_ok (as_request d) \<and> hasProject ps (pd_ProjectID d))"

definition function_ok :: "Function \<Rightarrow> bool" where
  "function_ok f \<longleftrightarrow> functionName (fn_Name f) \<and> TrimSpace (fn_Image f) \<noteq> [] \<and>
     (fn_CPU f = [] \<or> resourceQuantity (fn_CPU f)) \<and> (fn_Memory f = [] \<or> resourceQuantity (fn_Memory f))"

definition functions_ok :: "Project list \<Rightarrow> Function list \<Rightarrow> bool" where
  "functions_ok ps fs \<longleftrightarrow> distinct (map fn_Name fs) \<and>
     (\<forall>f \<in> set fs. function_ok f \<and> hasProject ps (fn_ProjectID f))"

subsection \<open>Effects\<close>

definition projects_only :: "state \<Rightarrow> state \<Rightarrow> bool" where
  "projects_only d d' \<longleftrightarrow> (projects_ok (st_Projects d) \<longrightarrow> projects_ok (st_Projects d')) \<and>
     prj_ID ` set (st_Projects d) \<subseteq> prj_ID ` set (st_Projects d') \<and> suffix (st_Audit d) (st_Audit d') \<and>
     d' = d\<lparr>st_Projects := st_Projects d', st_Audit := st_Audit d'\<rparr>"

definition definitions_only :: "state \<Rightarrow> state \<Rightarrow> bool" where
  "definitions_only d d' \<longleftrightarrow>
     (definitions_ok (st_Projects d) (st_Definitions d) \<longrightarrow> definitions_ok (st_Projects d) (st_Definitions d')) \<and>
     suffix (st_Audit d) (st_Audit d') \<and>
     d' = d\<lparr>st_Definitions := st_Definitions d', st_Audit := st_Audit d'\<rparr>"

definition functions_only :: "state \<Rightarrow> state \<Rightarrow> bool" where
  "functions_only d d' \<longleftrightarrow>
     (functions_ok (st_Projects d) (st_Functions d) \<longrightarrow> functions_ok (st_Projects d) (st_Functions d')) \<and>
     suffix (st_Audit d) (st_Audit d') \<and>
     d' = d\<lparr>st_Functions := st_Functions d', st_Audit := st_Audit d'\<rparr>"

lemma workload_effects_refl [simp]: "projects_only d d" "definitions_only d d" "functions_only d d"
  by (simp_all add: projects_only_def definitions_only_def functions_only_def)

lemma hasProject_iff: "hasProject ps i \<longleftrightarrow> i \<in> prj_ID ` set ps"
  by (auto simp: hasProject_def list_ex_iff)

text \<open>The shape of a successful creation; every other path leaves the store alone.\<close>

lemma Store_CreateProject_cases:
  obtains (rejected) err where "Store_CreateProject e s req actors = (s, (zero_Project, Some err))"
  | (created) p where "project_ok p" "prj_ID p = new_id ''prj'' (clk e 0)" "prj_Name p = TrimSpace (cpr_Name req)"
      "prj_OwnerSubject p = cpr_OwnerSubject req" "prj_Namespace p = slug (prj_Name p)"
      "\<forall>v \<in> set (st_Projects (data s)). \<not> EqualFold (prj_Name v) (prj_Name p)"
      "Store_CreateProject e s req actors = commit e (record_event e 2 ''project.created'' ''project'' (prj_ID p)
         (first_or_empty actors) [] (s\<lparr>data := (data s)\<lparr>st_Projects := p # st_Projects (data s)\<rparr>\<rparr>)) p"
proof -
  define name where "name = TrimSpace (cpr_Name req)"
  define vr where "vr = validateGitRepository \<lparr>spr_URL = cpr_RepositoryURL req, spr_DefaultBranch = cpr_DefaultBranch req, spr_LastCommit = []\<rparr>"
  define p where "p = \<lparr>prj_ID = new_id ''prj'' (clk e 0), prj_Name = name,
      prj_Description = TrimSpace (cpr_Description req),
      prj_Template = (if cpr_Template req = [] then ''tabular-classification'' else cpr_Template req),
      prj_Namespace = slug name, prj_Status = ''ready'', prj_CreatedAt = clk e 1,
      prj_OwnerSubject = cpr_OwnerSubject req,
      prj_Repository = (if TrimSpace (cpr_RepositoryURL req) \<noteq> [] then Some (fst vr) else None)\<rparr>"
  show ?thesis
  proof (cases "length name < 3 \<or> list_ex (\<lambda>v. EqualFold (prj_Name v) name) (st_Projects (data s)) \<or>
      TrimSpace (cpr_RepositoryURL req) \<noteq> [] \<and> snd vr \<noteq> None")
    case True
    then have "\<exists>err. Store_CreateProject e s req actors = (s, (zero_Project, Some err))"
      by (auto simp: Store_CreateProject_def Let_def name_def vr_def split_beta)
    then show thesis using rejected by blast
  next
    case False
    have "TrimSpace (cpr_RepositoryURL req) \<noteq> [] \<Longrightarrow> repository_ok (fst vr)"
      using False validateGitRepository_ok [of _ "fst vr"] by (metis vr_def prod.collapse)
    with False have "project_ok p"
      by (simp add: project_ok_def p_def slug_is_shaped name_def)
    moreover have "Store_CreateProject e s req actors = commit e (record_event e 2 ''project.created'' ''project'' (prj_ID p)
         (first_or_empty actors) [] (s\<lparr>data := (data s)\<lparr>st_Projects := p # st_Projects (data s)\<rparr>\<rparr>)) p"
      using False by (auto simp: Store_CreateProject_def Let_def name_def vr_def p_def split_beta)
    moreover have "\<forall>v \<in> set (st_Projects (data s)). \<not> EqualFold (prj_Name v) (prj_Name p)"
      using False by (auto simp: list_ex_iff p_def)
    ultimately show thesis using created [of p] by (simp add: p_def name_def)
  qed
qed

lemma Store_CreateProject_effect: "projects_only (data s) (data (fst (Store_CreateProject e s req actors)))"
proof (cases rule: Store_CreateProject_cases [of e s req actors])
  case (created p)
  then have "fold_case (prj_Name p) \<notin> (\<lambda>p. fold_case (prj_Name p)) ` set (st_Projects (data s))"
    by (auto simp: EqualFold_def)
  with created show ?thesis by (auto simp: projects_only_def projects_ok_def suffix_ConsI)
qed simp

lemma Store_SetProjectRepository_effect:
  "projects_only (data s) (data (fst (Store_SetProjectRepository e s i req actor)))"
proof -
  obtain g err where v: "validateGitRepository req = (g, err)" by (cases "validateGitRepository req")
  show ?thesis
  proof (cases "err = None \<and> find (\<lambda>p. prj_ID p = i) (st_Projects (data s)) \<noteq> None")
    case True
    then obtain p where p: "find (\<lambda>p. prj_ID p = i) (st_Projects (data s)) = Some p" and g: "repository_ok g"
      using v validateGitRepository_ok by auto
    let ?p' = "p\<lparr>prj_Repository := Some (g\<lparr>git_SyncedAt := Some (clk e 0)\<rparr>)\<rparr>"
    let ?ps = "update_first (\<lambda>p. prj_ID p = i) (\<lambda>_. ?p') (st_Projects (data s))"
    have "distinct (map (\<lambda>p. fold_case (prj_Name p)) ?ps)" if "projects_ok (st_Projects (data s))"
      using that p by (intro distinct_map_update_first) (auto simp: projects_ok_def)
    moreover have "project_ok q" if "projects_ok (st_Projects (data s))" "q \<in> set ?ps" for q
      using set_update_first [OF that(2)] that(1) p g find_SomeD [OF p]
      by (auto simp: projects_ok_def project_ok_def)
    moreover have "map prj_ID ?ps = map prj_ID (st_Projects (data s))"
      using find_SomeD [OF p] by (intro map_update_first) simp
    then have "prj_ID ` set ?ps = prj_ID ` set (st_Projects (data s))"
      by (metis set_map)
    ultimately show ?thesis
      using True v p by (auto simp: Store_SetProjectRepository_def Let_def projects_only_def projects_ok_def suffix_ConsI)
  qed (use v in \<open>auto simp: Store_SetProjectRepository_def Let_def\<close>)
qed

lemma Store_UpsertPipelineDefinition_effect:
  "definitions_only (data s) (data (fst (Store_UpsertPipelineDefinition e s i req0 actor)))"
proof -
  obtain req err where v: "validatePipelineDefinition (map_seed e) req0 = (req, err)"
    by (cases "validatePipelineDefinition (map_seed e) req0")
  show ?thesis
  proof (cases "err = None \<and> hasProject (st_Projects (data s)) (upd_ProjectID req)")
    case False
    with v show ?thesis by (auto simp: Store_UpsertPipelineDefinition_def)
  next
    case True
    with v have ok: "definition_ok req" by (simp add: validatePipelineDefinition_iff)
    show ?thesis
    proof (cases "find (definition_matches i req) (st_Definitions (data s))")
      case None
      with True v ok show ?thesis
        by (auto simp: Store_UpsertPipelineDefinition_def Let_def definitions_only_def definitions_ok_def
            suffix_ConsI as_request_def definition_ok_def)
    next
      case (Some d)
      note found = find_SomeD [OF Some]
      have "definition_ok (as_request (d\<lparr>pd_Name := upd_Name req, pd_Version := upd_Version req,
          pd_ExecutionMode := upd_ExecutionMode req, pd_Jobs := upd_Jobs req, pd_RepositoryURL := r, pd_CommitSHA := c, pd_UpdatedAt := t\<rparr>))"
        if "definition_ok (as_request d)" for r c t
        using that ok by (simp add: as_request_def definition_ok_def)
      with True v Some found show ?thesis
        by (auto simp: Store_UpsertPipelineDefinition_def Let_def definitions_only_def definitions_ok_def
            suffix_ConsI dest!: set_update_first)
    qed
  qed
qed

lemma Store_UpsertFunction_effect:
  "functions_only (data s) (data (fst (Store_UpsertFunction e s req owner actor)))"
proof (cases "ValidateFunctionRequest req = None \<and> hasProject (st_Projects (data s)) (dfr_ProjectID req)")
  case False
  then show ?thesis by (auto simp: Store_UpsertFunction_def split: option.splits)
next
  case True
  note valid = ValidateFunctionRequest_None [OF conjunct1 [OF True]]
  show ?thesis
  proof (cases "find (\<lambda>f. fn_Name f = dfr_Name req) (st_Functions (data s))")
    case None
    then have "dfr_Name req \<notin> fn_Name ` set (st_Functions (data s))" by (auto dest: find_NoneD)
    with True None valid show ?thesis
      by (auto simp: Store_UpsertFunction_def Let_def functions_only_def functions_ok_def function_ok_def suffix_ConsI)
  next
    case (Some f)
    let ?f' = "f\<lparr>fn_Image := dfr_Image req, fn_EnvVars := dfr_EnvVars req, fn_Labels := dfr_Labels req,
        fn_Annotations := dfr_Annotations req, fn_CPU := dfr_CPU req, fn_Memory := dfr_Memory req,
        fn_Status := ''deployed'', fn_UpdatedAt := clk e 0\<rparr>"
    let ?fs = "update_first (\<lambda>f. fn_Name f = dfr_Name req) (\<lambda>_. ?f') (st_Functions (data s))"
    note found = find_SomeD [OF Some]
    have "functions_ok (st_Projects (data s)) ?fs" if "functions_ok (st_Projects (data s)) (st_Functions (data s))"
      unfolding functions_ok_def
    proof (intro conjI ballI)
      show "distinct (map fn_Name ?fs)"
        using that Some by (intro distinct_map_update_first) (auto simp: functions_ok_def)
    qed (use that found valid in \<open>auto simp: functions_ok_def function_ok_def Some dest!: set_update_first\<close>)
    with True Some show ?thesis
      by (auto simp: Store_UpsertFunction_def Let_def functions_only_def suffix_ConsI)
  qed
qed

lemma Store_DeleteFunction_effect: "functions_only (data s) (data (fst (Store_DeleteFunction e s name actor)))"
  using set_delete_first [of "\<lambda>f. fn_Name f = name" "st_Functions (data s)"]
  by (auto simp: Store_DeleteFunction_def Let_def functions_only_def functions_ok_def suffix_ConsI
      intro: distinct_map_delete_first split: option.splits)

lemmas workload_ops = Store_CreateProject_effect Store_SetProjectRepository_effect
  Store_UpsertPipelineDefinition_effect Store_UpsertFunction_effect Store_DeleteFunction_effect

end
