(* ===== verification/Models.thy ===== *)
theory Models
  imports Store_Base
begin

text \<open>
  The model registry of the file-backed repository (\<^verbatim>\<open>go/internal/store/store.go\<close>):
  registration with the evaluation gate, promotion, canary deployment, endpoint reports and
  rollback. \<open>models_ok\<close> is the invariant; its core is that a model whose accuracy failed the
  gate is never in production, not even through a rollback.
\<close>

definition Store_Models :: "Store \<Rightarrow> Model list" where
  "Store_Models s = st_Models (data s)"

definition evaluation_gate :: "f64 gomap \<Rightarrow> string" where
  "evaluation_gate metrics =
     (case map_of metrics ''accuracy'' of
        Some accuracy \<Rightarrow> if f64_less accuracy f64_0_8 then ''failed'' else ''passed''
      | None \<Rightarrow> ''passed'')"

definition Store_RegisterModel ::
  "env \<Rightarrow> Store \<Rightarrow> RegisterModelRequest \<Rightarrow> string \<Rightarrow> Store \<times> Model ret" where
  [store_ops]: "Store_RegisterModel e s req actor =
     (if \<not> hasProject (st_Projects (data s)) (rmr_ProjectID req) then (s, (zero_Model, Some ErrNotFound))
      else if rmr_Name req = [] \<or> rmr_Version req = [] \<or> rmr_ArtifactURI req = []
        then (s, (zero_Model, Some (Err ''name, version and artifact_uri are required'')))
      else if list_ex (\<lambda>v. mdl_Name v = rmr_Name req \<and> mdl_Version v = rmr_Version req) (st_Models (data s))
        then (s, (zero_Model, Some ErrConflict))
      else let m = zero_Model\<lparr>mdl_ID := new_id ''mdl'' (clk e 0), mdl_ProjectID := rmr_ProjectID req,
                     mdl_Name := rmr_Name req, mdl_Version := rmr_Version req, mdl_Stage := ''candidate'',
                     mdl_ArtifactURI := rmr_ArtifactURI req, mdl_Metrics := rmr_Metrics req,
                     mdl_GateStatus := evaluation_gate (rmr_Metrics req),
                     mdl_DeploymentStatus := ''not_deployed'', mdl_CreatedAt := clk e 1\<rparr>;
               s1 = s\<lparr>data := (data s)\<lparr>st_Models := m # st_Models (data s)\<rparr>\<rparr>
           in commit e (record_event e 2 ''model.registered'' ''model'' (mdl_ID m) actor [] s1) m)"

abbreviation set_model :: "string \<Rightarrow> Model \<Rightarrow> Store \<Rightarrow> Store" where
  "set_model modelID m s \<equiv>
     s\<lparr>data := (data s)\<lparr>st_Models := update_first (\<lambda>m. mdl_ID m = modelID) (\<lambda>_. m) (st_Models (data s))\<rparr>\<rparr>"

definition Store_PromoteModel :: "env \<Rightarrow> Store \<Rightarrow> string \<Rightarrow> string \<Rightarrow> string \<Rightarrow> Store \<times> Model ret" where
  [store_ops]: "Store_PromoteModel e s modelID stage actor =
     (if \<not> List.member [''staging'', ''production'', ''archived''] stage
        then (s, (zero_Model, Some (Err ''stage must be staging, production or archived'')))
      else case find (\<lambda>m. mdl_ID m = modelID) (st_Models (data s)) of
        None \<Rightarrow> (s, (zero_Model, Some ErrNotFound))
      | Some m \<Rightarrow>
          if stage = ''production'' \<and> mdl_GateStatus m = ''failed''
            then (s, (zero_Model, Some (Err ''model evaluation gates have not passed'')))
          else let m' = m\<lparr>mdl_PreviousStage := mdl_Stage m, mdl_Stage := stage\<rparr>
               in commit e (record_event e 0 ''model.promoted'' ''model'' modelID actor [(''stage'', AnyStr stage)]
                    (set_model modelID m' s)) m')"

definition Store_DeployModel :: "env \<Rightarrow> Store \<Rightarrow> string \<Rightarrow> int \<Rightarrow> string \<Rightarrow> Store \<times> Model ret" where
  [store_ops]: "Store_DeployModel e s modelID weight actor =
     (if weight < 0 \<or> weight > 100 then (s, (zero_Model, Some (Err ''canary_weight must be between 0 and 100'')))
      else case find (\<lambda>m. mdl_ID m = modelID) (st_Models (data s)) of
        None \<Rightarrow> (s, (zero_Model, Some ErrNotFound))
      | Some m \<Rightarrow>
          if mdl_GateStatus m \<noteq> ''passed''
            then (s, (zero_Model, Some (Err ''model evaluation gates have not passed'')))
          else let m' = m\<lparr>mdl_DeploymentStatus := ''deploying'', mdl_CanaryWeight := weight,
                          mdl_EndpointURL := ''/v1/models/'' @ mdl_Name m @ '':predict''\<rparr>
               in commit e (record_event e 0 ''model.deployed'' ''model'' modelID actor
                    [(''canary_weight'', AnyInt weight)] (set_model modelID m' s)) m')"

definition Store_SetModelEndpoint :: "env \<Rightarrow> Store \<Rightarrow> string \<Rightarrow> string \<Rightarrow> string \<Rightarrow> Store \<times> Model ret" where
  [store_ops]: "Store_SetModelEndpoint e s modelID endpoint status =
     (case find (\<lambda>m. mdl_ID m = modelID) (st_Models (data s)) of
        None \<Rightarrow> (s, (zero_Model, Some ErrNotFound))
      | Some m \<Rightarrow> (let m' = m\<lparr>mdl_EndpointURL := endpoint, mdl_DeploymentStatus := status\<rparr>
                   in commit e (set_model modelID m' s) m'))"

definition Store_RollbackModel :: "env \<Rightarrow> Store \<Rightarrow> string \<Rightarrow> string \<Rightarrow> Store \<times> Model ret" where
  [store_ops]: "Store_RollbackModel e s modelID actor =
     (case find (\<lambda>m. mdl_ID m = modelID) (st_Models (data s)) of
        None \<Rightarrow> (s, (zero_Model, Some ErrNotFound))
      | Some m \<Rightarrow>
          if mdl_PreviousStage m = [] then (s, (zero_Model, Some (Err ''no previous stage is available'')))
          else let m' = m\<lparr>mdl_Stage := mdl_PreviousStage m, mdl_PreviousStage := mdl_Stage m,
                          mdl_DeploymentStatus := ''rolled_back'', mdl_CanaryWeight := 0\<rparr>
               in commit e (record_event e 0 ''model.rolled_back'' ''model'' modelID actor [] (set_model modelID m' s)) m')"

subsection \<open>The invariant\<close>

definition model_stages :: "string set" where
  "model_stages = {''candidate'', ''staging'', ''production'', ''archived''}"

definition model_ok :: "Model \<Rightarrow> bool" where
  "model_ok m \<longleftrightarrow> mdl_GateStatus m = evaluation_gate (mdl_Metrics m) \<and>
     mdl_Stage m \<in> model_stages \<and> mdl_PreviousStage m \<in> insert [] model_stages \<and>
     (mdl_GateStatus m \<noteq> ''passed'' \<longrightarrow>
        mdl_Stage m \<noteq> ''production'' \<and> mdl_PreviousStage m \<noteq> ''production'' \<and> mdl_CanaryWeight m = 0) \<and>
     0 \<le> mdl_CanaryWeight m \<and> mdl_CanaryWeight m \<le> 100"

definition models_ok :: "Project list \<Rightarrow> Model list \<Rightarrow> bool" where
  "models_ok ps ms \<longleftrightarrow> distinct (map (\<lambda>m. (mdl_Name m, mdl_Version m)) ms) \<and>
     (\<forall>m \<in> set ms. model_ok m \<and> hasProject ps (mdl_ProjectID m))"

definition models_only :: "state \<Rightarrow> state \<Rightarrow> bool" where
  "models_only d d' \<longleftrightarrow>
     (models_ok (st_Projects d) (st_Models d) \<longrightarrow> models_ok (st_Projects d) (st_Models d')) \<and>
     suffix (st_Audit d) (st_Audit d') \<and> d' = d\<lparr>st_Models := st_Models d', st_Audit := st_Audit d'\<rparr>"

lemma models_only_refl [simp]: "models_only d d"
  by (simp add: models_only_def)

lemma evaluation_gate_values: "evaluation_gate ms = ''passed'' \<or> evaluation_gate ms = ''failed''"
  by (simp add: evaluation_gate_def split: option.splits)

lemma evaluation_gate_failed:
  "evaluation_gate ms = ''failed'' \<longleftrightarrow> (\<exists>a. map_of ms ''accuracy'' = Some a \<and> f64_less a f64_0_8)"
  by (simp add: evaluation_gate_def split: option.splits)

text \<open>The contract of an in-place update: identity and metrics stay, \<open>model_ok\<close> is kept.\<close>

lemma models_ok_update:
  assumes "models_ok ps ms" and "find (\<lambda>m. mdl_ID m = i) ms = Some m"
    and "(mdl_Name m', mdl_Version m', mdl_ProjectID m') = (mdl_Name m, mdl_Version m, mdl_ProjectID m)"
    and "model_ok m \<Longrightarrow> model_ok m'"
  shows "models_ok ps (update_first (\<lambda>m. mdl_ID m = i) (\<lambda>_. m') ms)"
  unfolding models_ok_def
proof (intro conjI ballI)
  show "distinct (map (\<lambda>m. (mdl_Name m, mdl_Version m)) (update_first (\<lambda>m. mdl_ID m = i) (\<lambda>_. m') ms))"
    using assms by (intro distinct_map_update_first) (auto simp: models_ok_def)
qed (use assms find_SomeD [OF assms(2)] in \<open>auto simp: models_ok_def dest!: set_update_first\<close>)

lemma Store_RegisterModel_effect: "models_only (data s) (data (fst (Store_RegisterModel e s req actor)))"
  using evaluation_gate_values [of "rmr_Metrics req"]
  by (auto simp: Store_RegisterModel_def Let_def models_only_def models_ok_def model_ok_def model_stages_def
      zero_Model_def list_ex_iff suffix_ConsI)

lemma model_ok_promote:
  assumes "model_ok m" "stage \<in> {''staging'', ''production'', ''archived''}"
    "\<not> (stage = ''production'' \<and> mdl_GateStatus m = ''failed'')"
  shows "model_ok (m\<lparr>mdl_PreviousStage := mdl_Stage m, mdl_Stage := stage\<rparr>)"
  using assms evaluation_gate_values [of "mdl_Metrics m"] by (auto simp: model_ok_def model_stages_def)

lemma Store_PromoteModel_effect: "models_only (data s) (data (fst (Store_PromoteModel e s i stage actor)))"
proof (cases "find (\<lambda>m. mdl_ID m = i) (st_Models (data s))")
  case (Some m)
  have "models_ok (st_Projects (data s)) (update_first (\<lambda>m. mdl_ID m = i)
      (\<lambda>_. m\<lparr>mdl_PreviousStage := mdl_Stage m, mdl_Stage := stage\<rparr>) (st_Models (data s)))"
    if "models_ok (st_Projects (data s)) (st_Models (data s))"
      "List.member [''staging'', ''production'', ''archived''] stage"
      "\<not> (stage = ''production'' \<and> mdl_GateStatus m = ''failed'')"
    using that by (intro models_ok_update [OF _ Some] model_ok_promote) auto
  with Some show ?thesis by (auto simp: Store_PromoteModel_def Let_def models_only_def suffix_ConsI)
qed (simp add: Store_PromoteModel_def)

lemma Store_DeployModel_effect: "models_only (data s) (data (fst (Store_DeployModel e s i weight actor)))"
proof (cases "find (\<lambda>m. mdl_ID m = i) (st_Models (data s))")
  case (Some m)
  have "models_ok (st_Projects (data s)) (update_first (\<lambda>m. mdl_ID m = i)
      (\<lambda>_. m\<lparr>mdl_DeploymentStatus := ds, mdl_CanaryWeight := weight, mdl_EndpointURL := url\<rparr>) (st_Models (data s)))"
    if "models_ok (st_Projects (data s)) (st_Models (data s))" "mdl_GateStatus m = ''passed''"
      "0 \<le> weight" "weight \<le> 100" for ds url
    using that by (intro models_ok_update [OF _ Some]) (auto simp: model_ok_def)
  with Some show ?thesis by (auto simp: Store_DeployModel_def Let_def models_only_def suffix_ConsI)
qed (simp add: Store_DeployModel_def)

lemma Store_SetModelEndpoint_effect: "models_only (data s) (data (fst (Store_SetModelEndpoint e s i endpoint status)))"
proof (cases "find (\<lambda>m. mdl_ID m = i) (st_Models (data s))")
  case (Some m)
  have "models_ok (st_Projects (data s)) (update_first (\<lambda>m. mdl_ID m = i)
      (\<lambda>_. m\<lparr>mdl_EndpointURL := endpoint, mdl_DeploymentStatus := status\<rparr>) (st_Models (data s)))"
    if "models_ok (st_Projects (data s)) (st_Models (data s))"
    using that by (intro models_ok_update [OF _ Some]) (auto simp: model_ok_def)
  with Some show ?thesis by (auto simp: Store_SetModelEndpoint_def Let_def models_only_def)
qed (simp add: Store_SetModelEndpoint_def)

lemma Store_RollbackModel_effect: "models_only (data s) (data (fst (Store_RollbackModel e s i actor)))"
proof (cases "find (\<lambda>m. mdl_ID m = i) (st_Models (data s))")
  case (Some m)
  have "models_ok (st_Projects (data s)) (update_first (\<lambda>m. mdl_ID m = i)
      (\<lambda>_. m\<lparr>mdl_Stage := mdl_PreviousStage m, mdl_PreviousStage := mdl_Stage m,
             mdl_DeploymentStatus := ds, mdl_CanaryWeight := 0\<rparr>) (st_Models (data s)))"
    if "models_ok (st_Projects (data s)) (st_Models (data s))" "mdl_PreviousStage m \<noteq> []" for ds
    using that by (intro models_ok_update [OF _ Some]) (auto simp: model_ok_def)
  with Some show ?thesis by (auto simp: Store_RollbackModel_def Let_def models_only_def suffix_ConsI)
qed (simp add: Store_RollbackModel_def)

lemmas model_ops = Store_RegisterModel_effect Store_PromoteModel_effect Store_DeployModel_effect
  Store_SetModelEndpoint_effect Store_RollbackModel_effect

text \<open>Rolling back twice restores the stages.\<close>

lemma Store_RollbackModel_twice:
  assumes "find (\<lambda>m. mdl_ID m = i) (st_Models (data s)) = Some m"
    and "mdl_Stage m \<noteq> []" and "mdl_PreviousStage m \<noteq> []"
  shows "\<exists>m'. find (\<lambda>m. mdl_ID m = i) (st_Models (data (fst (Store_RollbackModel e2
      (fst (Store_RollbackModel e1 s i a1)) i a2)))) = Some m' \<and>
    mdl_Stage m' = mdl_Stage m \<and> mdl_PreviousStage m' = mdl_PreviousStage m"
proof -
  have i: "mdl_ID m = i" using find_SomeD [OF assms(1)] by simp
  let ?m1 = "m\<lparr>mdl_Stage := mdl_PreviousStage m, mdl_PreviousStage := mdl_Stage m,
      mdl_DeploymentStatus := ''rolled_back'', mdl_CanaryWeight := 0\<rparr>"
  have d1: "st_Models (data (fst (Store_RollbackModel e1 s i a1))) =
      update_first (\<lambda>m. mdl_ID m = i) (\<lambda>_. ?m1) (st_Models (data s))"
    using assms by (simp add: Store_RollbackModel_def Let_def)
  have f1: "find (\<lambda>m. mdl_ID m = i) (update_first (\<lambda>m. mdl_ID m = i) (\<lambda>_. ?m1) (st_Models (data s))) = Some ?m1"
    using assms(1) i by (subst find_update_first_same) auto
  then show ?thesis
    using assms i by (subst Store_RollbackModel_def) (simp add: d1 f1 Let_def find_update_first_same)
qed

lemma Store_DeployModel_gate:
  assumes "snd (snd (Store_DeployModel e s i w who)) = None"
  shows "\<exists>m \<in> set (st_Models (data s)). mdl_ID m = i \<and> mdl_GateStatus m = ''passed''"
    and "0 \<le> w" "w \<le> 100" "mdl_CanaryWeight (fst (snd (Store_DeployModel e s i w who))) = w"
  using assms by (auto simp: Store_DeployModel_def Let_def dest!: find_SomeD split: if_splits option.splits)

end
