(* ===== verification/Registry.thy ===== *)
theory Registry
  imports Store_Base
begin

text \<open>
  The remaining registries of the file-backed repository (\<^verbatim>\<open>go/internal/store/store.go\<close>):
  agents and their traffic weights, agent sessions and traces, feature views, tools and
  connections. \<open>registry_ok\<close> collects their invariants.
\<close>

subsection \<open>Agents, sessions and traces\<close>

definition Store_Agents :: "Store \<Rightarrow> Agent list" where
  "Store_Agents s = st_Agents (data s)"

definition Store_DeployAgent :: "env \<Rightarrow> Store \<Rightarrow> DeployAgentRequest \<Rightarrow> string \<Rightarrow> Store \<times> Agent ret" where
  [store_ops]: "Store_DeployAgent e s req actor =
     (if \<not> hasProject (st_Projects (data s)) (dar_ProjectID req) then (s, (zero_Agent, Some ErrNotFound))
      else if dar_Name req = [] \<or> dar_Version req = [] \<or> dar_Image req = [] \<or> dar_GraphModule req = []
        then (s, (zero_Agent, Some (Err ''name, version, image and graph_module are required'')))
      else let a = zero_Agent\<lparr>agt_ID := new_id ''agt'' (clk e 0), agt_ProjectID := dar_ProjectID req,
                     agt_Name := dar_Name req, agt_Version := dar_Version req, agt_Image := dar_Image req,
                     agt_GraphModule := dar_GraphModule req, agt_LLMBackend := dar_LLMBackend req,
                     agt_Replicas := (if dar_Replicas req < 1 then 1 else dar_Replicas req),
                     agt_Tools := dar_Tools req, agt_Status := ''pending'', agt_CreatedAt := clk e 1\<rparr>;
               s1 = s\<lparr>data := (data s)\<lparr>st_Agents := a # st_Agents (data s)\<rparr>\<rparr>
           in commit e (record_event e 2 ''agent.deployed'' ''agent'' (agt_ID a) actor [] s1) a)"

definition Store_SetAgentTraffic :: "env \<Rightarrow> Store \<Rightarrow> string \<Rightarrow> int \<Rightarrow> string \<Rightarrow> Store \<times> Agent ret" where
  [store_ops]: "Store_SetAgentTraffic e s agentID weight actor =
     (if weight < 0 \<or> weight > 100 then (s, (zero_Agent, Some (Err ''canary_weight must be between 0 and 100'')))
      else case find (\<lambda>a. agt_ID a = agentID) (st_Agents (data s)) of
        None \<Rightarrow> (s, (zero_Agent, Some ErrNotFound))
      | Some a \<Rightarrow>
          (let a' = a\<lparr>agt_CanaryWeight := weight\<rparr>;
               s1 = s\<lparr>data := (data s)\<lparr>st_Agents := update_first (\<lambda>a. agt_ID a = agentID) (\<lambda>_. a') (st_Agents (data s))\<rparr>\<rparr>
           in commit e (record_event e 0 ''agent.traffic_updated'' ''agent'' agentID actor
                [(''canary_weight'', AnyInt weight)] s1) a'))"

definition Store_AgentSessions :: "Store \<Rightarrow> string \<Rightarrow> AgentSession list" where
  "Store_AgentSessions s agentID = filter (\<lambda>x. ses_AgentID x = agentID \<or> agentID = []) (st_Sessions (data s))"

definition Store_AgentTraces :: "Store \<Rightarrow> string \<Rightarrow> AgentTrace list" where
  "Store_AgentTraces s agentID = filter (\<lambda>x. trc_AgentID x = agentID \<or> agentID = []) (st_Traces (data s))"

definition session_matches :: "RecordTraceRequest \<Rightarrow> AgentSession \<Rightarrow> bool" where
  "session_matches req x \<longleftrightarrow> ses_ID x = rec_SessionID req \<and> ses_AgentID x = rec_AgentID req"

definition bump_session :: "time \<Rightarrow> RecordTraceRequest \<Rightarrow> AgentSession \<Rightarrow> AgentSession" where
  "bump_session now req x = x\<lparr>ses_CurrentNode := rec_CurrentNode req, ses_Status := rec_Status req,
     ses_UpdatedAt := now, ses_Turns := wrap64 (ses_Turns x + 1),
     ses_InputTokens := wrap64 (ses_InputTokens x + rec_InputTokens req),
     ses_OutputTokens := wrap64 (ses_OutputTokens x + rec_OutputTokens req),
     ses_CostUSD := f64_add (ses_CostUSD x) (rec_CostUSD req)\<rparr>"

definition new_session :: "time \<Rightarrow> RecordTraceRequest \<Rightarrow> AgentSession" where
  "new_session now req = \<lparr>ses_ID = rec_SessionID req, ses_AgentID = rec_AgentID req, ses_UserID = rec_UserID req,
     ses_Status = rec_Status req, ses_CurrentNode = rec_CurrentNode req, ses_Turns = 1,
     ses_InputTokens = rec_InputTokens req, ses_OutputTokens = rec_OutputTokens req,
     ses_CostUSD = rec_CostUSD req, ses_StartedAt = now, ses_UpdatedAt = now\<rparr>"

definition record_session :: "time \<Rightarrow> RecordTraceRequest \<Rightarrow> AgentSession list \<Rightarrow> AgentSession list" where
  "record_session now req xs =
     (if list_ex (session_matches req) xs
      then map (\<lambda>x. if session_matches req x then bump_session now req x else x) xs
      else new_session now req # xs)"

definition Store_RecordTrace :: "env \<Rightarrow> Store \<Rightarrow> RecordTraceRequest \<Rightarrow> Store \<times> AgentTrace ret" where
  [store_ops]: "Store_RecordTrace e s req =
     (if rec_AgentID req = [] \<or> rec_SessionID req = []
        then (s, (zero_AgentTrace, Some (Err ''agent_id and session_id are required'')))
      else let now = clk e 0;
               trace = \<lparr>trc_ID = new_id ''trace'' (clk e 1), trc_AgentID = rec_AgentID req,
                        trc_SessionID = rec_SessionID req, trc_Name = rec_Name req, trc_Status = rec_Status req,
                        trc_DurationMS = rec_DurationMS req,
                        trc_Tokens = wrap64 (rec_InputTokens req + rec_OutputTokens req),
                        trc_Metadata = rec_Metadata req, trc_CreatedAt = now\<rparr>;
               s1 = s\<lparr>data := (data s)\<lparr>st_Traces := trace # st_Traces (data s),
                                       st_Sessions := record_session now req (st_Sessions (data s))\<rparr>\<rparr>
           in commit e s1 trace)"

subsection \<open>Feature views\<close>

definition Store_FeatureViews :: "Store \<Rightarrow> FeatureView list" where
  "Store_FeatureViews s = st_Features (data s)"

definition Store_ApplyFeatureView ::
  "env \<Rightarrow> Store \<Rightarrow> ApplyFeatureViewRequest \<Rightarrow> string \<Rightarrow> Store \<times> FeatureView ret" where
  [store_ops]: "Store_ApplyFeatureView e s req actor =
     (if afv_Name req = [] \<or> afv_Entity req = [] \<or> afv_Fields req = []
        then (s, (zero_FeatureView, Some (Err ''name, entity and at least one field are required'')))
      else case find (\<lambda>v. fv_Name v = afv_Name req) (st_Features (data s)) of
        Some v \<Rightarrow>
          (let v' = v\<lparr>fv_Entity := afv_Entity req, fv_Fields := afv_Fields req, fv_Tags := afv_Tags req,
                      fv_Source := afv_Source req, fv_TTLSeconds := afv_TTLSeconds req\<rparr>;
               s1 = s\<lparr>data := (data s)\<lparr>st_Features :=
                      update_first (\<lambda>v. fv_Name v = afv_Name req) (\<lambda>_. v') (st_Features (data s))\<rparr>\<rparr>
           in commit e (record_event e 0 ''feature_view.applied'' ''feature_view'' (fv_ID v) actor [] s1) v')
      | None \<Rightarrow>
          (let view = zero_FeatureView\<lparr>fv_ID := new_id ''fv'' (clk e 0), fv_Name := afv_Name req,
                        fv_Entity := afv_Entity req, fv_Fields := afv_Fields req, fv_Tags := afv_Tags req,
                        fv_Source := afv_Source req, fv_TTLSeconds := afv_TTLSeconds req,
                        fv_Status := ''registered'', fv_CreatedAt := clk e 1\<rparr>;
               s1 = s\<lparr>data := (data s)\<lparr>st_Features := view # st_Features (data s)\<rparr>\<rparr>
           in commit e (record_event e 2 ''feature_view.applied'' ''feature_view'' (fv_ID view) actor [] s1) view))"

definition Store_ReportMaterialization ::
  "env \<Rightarrow> Store \<Rightarrow> string \<Rightarrow> int \<Rightarrow> string \<Rightarrow> Store \<times> FeatureView ret" where
  [store_ops]: "Store_ReportMaterialization e s name entityCount actor =
     (if entityCount < 0 then (s, (zero_FeatureView, Some (Err ''entity_count cannot be negative'')))
      else case find (\<lambda>v. fv_Name v = name) (st_Features (data s)) of
        None \<Rightarrow> (s, (zero_FeatureView, Some ErrNotFound))
      | Some v \<Rightarrow>
          (let v' = v\<lparr>fv_Status := ''materialized'', fv_OnlineEntityCount := entityCount,
                      fv_MaterializedAt := Some (clk e 0)\<rparr>;
               s1 = s\<lparr>data := (data s)\<lparr>st_Features :=
                      update_first (\<lambda>v. fv_Name v = name) (\<lambda>_. v') (st_Features (data s))\<rparr>\<rparr>
           in commit e (record_event e 1 ''feature_view.materialized'' ''feature_view'' (fv_ID v) actor
                [(''entity_count'', AnyInt entityCount)] s1) v'))"

subsection \<open>Tools and connections\<close>

definition Store_Tools :: "Store \<Rightarrow> Tool list" where
  "Store_Tools s = st_Tools (data s)"

definition Store_Connections :: "Store \<Rightarrow> Connection list" where
  "Store_Connections s = st_Connections (data s)"

definition Store_RegisterTool :: "env \<Rightarrow> Store \<Rightarrow> RegisterToolRequest \<Rightarrow> string \<Rightarrow> Store \<times> Tool ret" where
  [store_ops]: "Store_RegisterTool e s req actor =
     (if rtr_Name req = [] \<or> rtr_Version req = [] \<or> rtr_InputSchema req = []
        then (s, (zero_Tool, Some (Err ''name, version and input_schema are required'')))
      else if list_ex (\<lambda>v. tool_Name v = rtr_Name req \<and> tool_Version v = rtr_Version req) (st_Tools (data s))
        then (s, (zero_Tool, Some ErrConflict))
      else let t = \<lparr>tool_ID = new_id ''tool'' (clk e 0), tool_Name = rtr_Name req, tool_Version = rtr_Version req,
                    tool_Description = rtr_Description req, tool_Tags = rtr_Tags req,
                    tool_InputSchema = rtr_InputSchema req, tool_Status = ''ready'', tool_CreatedAt = clk e 1\<rparr>;
               s1 = s\<lparr>data := (data s)\<lparr>st_Tools := t # st_Tools (data s)\<rparr>\<rparr>
           in commit e (record_event e 2 ''tool.registered'' ''tool'' (tool_ID t) actor [] s1) t)"

definition Store_CreateConnection ::
  "env \<Rightarrow> Store \<Rightarrow> CreateConnectionRequest \<Rightarrow> string \<Rightarrow> Store \<times> Connection ret" where
  [store_ops]: "Store_CreateConnection e s req actor =
     (if ccr_Name req = [] \<or> ccr_Type req = [] \<or> ccr_SecretRef req = []
        then (s, (zero_Connection, Some (Err ''name, type and secret_ref are required'')))
      else if list_ex (\<lambda>v. EqualFold (con_Name v) (ccr_Name req)) (st_Connections (data s))
        then (s, (zero_Connection, Some ErrConflict))
      else let c = zero_Connection\<lparr>con_ID := new_id ''conn'' (clk e 0), con_Name := ccr_Name req,
                     con_Type := ccr_Type req, con_Endpoint := ccr_Endpoint req, con_SecretRef := ccr_SecretRef req,
                     con_Status := ''pending'', con_CreatedAt := clk e 1\<rparr>;
               s1 = s\<lparr>data := (data s)\<lparr>st_Connections := c # st_Connections (data s)\<rparr>\<rparr>
           in commit e (record_event e 2 ''connection.created'' ''connection'' (con_ID c) actor [] s1) c)"

definition Store_UpdateConnectionStatus ::
  "env \<Rightarrow> Store \<Rightarrow> string \<Rightarrow> string \<Rightarrow> string \<Rightarrow> string \<Rightarrow> Store \<times> Connection ret" where
  [store_ops]: "Store_UpdateConnectionStatus e s connectionID status message actor =
     (case find (\<lambda>c. con_ID c = connectionID) (st_Connections (data s)) of
        None \<Rightarrow> (s, (zero_Connection, Some ErrNotFound))
      | Some c \<Rightarrow>
          (let c' = c\<lparr>con_Status := status, con_Message := message, con_CheckedAt := Some (clk e 0)\<rparr>;
               s1 = s\<lparr>data := (data s)\<lparr>st_Connections :=
                      update_first (\<lambda>c. con_ID c = connectionID) (\<lambda>_. c') (st_Connections (data s))\<rparr>\<rparr>
           in commit e (record_event e 1 ''connection.checked'' ''connection'' connectionID actor
                [(''status'', AnyStr status)] s1) c'))"

subsection \<open>The invariant\<close>

definition agent_ok :: "Agent \<Rightarrow> bool" where
  "agent_ok a \<longleftrightarrow> 1 \<le> agt_Replicas a \<and> 0 \<le> agt_CanaryWeight a \<and> agt_CanaryWeight a \<le> 100"

definition feature_ok :: "FeatureView \<Rightarrow> bool" where
  "feature_ok v \<longleftrightarrow> fv_Entity v \<noteq> [] \<and> fv_Fields v \<noteq> [] \<and> 0 \<le> fv_OnlineEntityCount v"

definition registry_ok :: "state \<Rightarrow> bool" where
  "registry_ok d \<longleftrightarrow> (\<forall>a \<in> set (st_Agents d). agent_ok a \<and> hasProject (st_Projects d) (agt_ProjectID a)) \<and>
     distinct (map (\<lambda>x. (ses_ID x, ses_AgentID x)) (st_Sessions d)) \<and>
     distinct (map fv_Name (st_Features d)) \<and> (\<forall>v \<in> set (st_Features d). feature_ok v) \<and>
     distinct (map (\<lambda>t. (tool_Name t, tool_Version t)) (st_Tools d)) \<and>
     distinct (map (\<lambda>c. fold_case (con_Name c)) (st_Connections d))"

definition registry_only :: "state \<Rightarrow> state \<Rightarrow> bool" where
  "registry_only d d' \<longleftrightarrow> (registry_ok d \<longrightarrow> registry_ok d') \<and> suffix (st_Audit d) (st_Audit d') \<and>
     d' = d\<lparr>st_Agents := st_Agents d', st_Sessions := st_Sessions d', st_Traces := st_Traces d',
           st_Features := st_Features d', st_Tools := st_Tools d', st_Connections := st_Connections d',
           st_Audit := st_Audit d'\<rparr>"

lemma registry_only_refl [simp]: "registry_only d d"
  by (simp add: registry_only_def)

lemma Store_DeployAgent_effect: "registry_only (data s) (data (fst (Store_DeployAgent e s req actor)))"
  by (auto simp: Store_DeployAgent_def Let_def registry_only_def registry_ok_def agent_ok_def zero_Agent_def suffix_ConsI)

lemma Store_SetAgentTraffic_effect: "registry_only (data s) (data (fst (Store_SetAgentTraffic e s i weight actor)))"
  by (auto simp: Store_SetAgentTraffic_def Let_def registry_only_def registry_ok_def agent_ok_def suffix_ConsI
      dest!: set_update_first dest: find_SomeD split: option.splits)

lemma record_session_keys:
  "map (\<lambda>x. (ses_ID x, ses_AgentID x)) (record_session now req xs) =
     (if list_ex (session_matches req) xs then [] else [(rec_SessionID req, rec_AgentID req)]) @
     map (\<lambda>x. (ses_ID x, ses_AgentID x)) xs"
  by (auto simp: record_session_def new_session_def bump_session_def)

lemma Store_RecordTrace_effect: "registry_only (data s) (data (fst (Store_RecordTrace e s req)))"
proof -
  have "distinct (map (\<lambda>x. (ses_ID x, ses_AgentID x)) (record_session now req xs))"
    if "distinct (map (\<lambda>x. (ses_ID x, ses_AgentID x)) xs)" for now xs
    using that unfolding record_session_keys by (auto simp: session_matches_def list_ex_iff)
  then show ?thesis
    by (auto simp: Store_RecordTrace_def Let_def registry_only_def registry_ok_def)
qed

lemma Store_ApplyFeatureView_effect: "registry_only (data s) (data (fst (Store_ApplyFeatureView e s req actor)))"
proof (cases "find (\<lambda>v. fv_Name v = afv_Name req) (st_Features (data s))")
  case None
  then have "afv_Name req \<notin> fv_Name ` set (st_Features (data s))" by (auto dest: find_NoneD)
  with None show ?thesis
    by (auto simp: Store_ApplyFeatureView_def Let_def registry_only_def registry_ok_def feature_ok_def
        zero_FeatureView_def suffix_ConsI)
next
  case (Some v)
  have "distinct (map fv_Name (update_first (\<lambda>v. fv_Name v = afv_Name req) (\<lambda>_. v\<lparr>fv_Entity := en, fv_Fields := fs,
      fv_Tags := tg, fv_Source := sr, fv_TTLSeconds := tt\<rparr>) (st_Features (data s))))"
    if "distinct (map fv_Name (st_Features (data s)))" for en fs tg sr tt
    using that Some by (intro distinct_map_update_first) auto
  with Some find_SomeD [OF Some] show ?thesis
    by (auto simp: Store_ApplyFeatureView_def Let_def registry_only_def registry_ok_def feature_ok_def
        suffix_ConsI dest!: set_update_first)
qed

lemma Store_ReportMaterialization_effect:
  "registry_only (data s) (data (fst (Store_ReportMaterialization e s name n actor)))"
proof (cases "find (\<lambda>v. fv_Name v = name) (st_Features (data s))")
  case (Some v)
  have "distinct (map fv_Name (update_first (\<lambda>v. fv_Name v = name) (\<lambda>_. v\<lparr>fv_Status := st, fv_OnlineEntityCount := n,
      fv_MaterializedAt := t\<rparr>) (st_Features (data s))))"
    if "distinct (map fv_Name (st_Features (data s)))" for st t
    using that Some by (intro distinct_map_update_first) auto
  with Some find_SomeD [OF Some] show ?thesis
    by (auto simp: Store_ReportMaterialization_def Let_def registry_only_def registry_ok_def feature_ok_def
        suffix_ConsI dest!: set_update_first)
qed (simp add: Store_ReportMaterialization_def)

lemma Store_RegisterTool_effect: "registry_only (data s) (data (fst (Store_RegisterTool e s req actor)))"
  by (auto simp: Store_RegisterTool_def Let_def registry_only_def registry_ok_def list_ex_iff suffix_ConsI)

lemma Store_CreateConnection_effect: "registry_only (data s) (data (fst (Store_CreateConnection e s req actor)))"
  by (auto simp: Store_CreateConnection_def Let_def registry_only_def registry_ok_def EqualFold_def list_ex_iff suffix_ConsI)

lemma Store_UpdateConnectionStatus_effect:
  "registry_only (data s) (data (fst (Store_UpdateConnectionStatus e s i status message actor)))"
proof (cases "find (\<lambda>c. con_ID c = i) (st_Connections (data s))")
  case (Some c)
  have "distinct (map (\<lambda>c. fold_case (con_Name c)) (update_first (\<lambda>c. con_ID c = i) (\<lambda>_. c\<lparr>con_Status := status,
      con_Message := message, con_CheckedAt := t\<rparr>) (st_Connections (data s))))"
    if "distinct (map (\<lambda>c. fold_case (con_Name c)) (st_Connections (data s)))" for t
    using that Some by (intro distinct_map_update_first) auto
  with Some show ?thesis
    by (auto simp: Store_UpdateConnectionStatus_def Let_def registry_only_def registry_ok_def suffix_ConsI)
qed (simp add: Store_UpdateConnectionStatus_def)

lemmas registry_ops = Store_DeployAgent_effect Store_SetAgentTraffic_effect Store_RecordTrace_effect
  Store_ApplyFeatureView_effect Store_ReportMaterialization_effect Store_RegisterTool_effect
  Store_CreateConnection_effect Store_UpdateConnectionStatus_effect

subsection \<open>Session accounting\<close>

text \<open>
  Sessions and traces agree: the turns of a session count its traces, its tokens are the sum of
  theirs (both modulo \<open>2 ^ 64\<close>, as the counters wrap), and every trace has a session.
\<close>

definition session_traces :: "AgentTrace list \<Rightarrow> AgentSession \<Rightarrow> AgentTrace list" where
  "session_traces ts x = filter (\<lambda>t. trc_SessionID t = ses_ID x \<and> trc_AgentID t = ses_AgentID x) ts"

definition session_accounted :: "AgentTrace list \<Rightarrow> AgentSession \<Rightarrow> bool" where
  "session_accounted ts x \<longleftrightarrow> ses_Turns x = wrap64 (int (length (session_traces ts x))) \<and>
     wrap64 (ses_InputTokens x + ses_OutputTokens x) = wrap64 (sum_list (map trc_Tokens (session_traces ts x)))"

definition accounts_ok :: "state \<Rightarrow> bool" where
  "accounts_ok d \<longleftrightarrow> (\<forall>x \<in> set (st_Sessions d). session_accounted (st_Traces d) x) \<and>
     (\<forall>t \<in> set (st_Traces d). \<exists>x \<in> set (st_Sessions d). ses_ID x = trc_SessionID t \<and> ses_AgentID x = trc_AgentID t)"

lemma bump_accounted:
  assumes "session_accounted ts x" and "session_matches req x" and "trc_SessionID t = rec_SessionID req"
    and "trc_AgentID t = rec_AgentID req" and "trc_Tokens t = wrap64 (rec_InputTokens req + rec_OutputTokens req)"
  shows "session_accounted (t # ts) (bump_session now req x)"
proof -
  have tr: "session_traces (t # ts) (bump_session now req x) = t # session_traces ts x"
    using assms(2-4) by (simp add: session_traces_def bump_session_def session_matches_def)
  define a b S where "a = ses_InputTokens x + ses_OutputTokens x" "b = rec_InputTokens req + rec_OutputTokens req"
    and "S = sum_list (map trc_Tokens (session_traces ts x))"
  note def = this
  have "wrap64 (ses_InputTokens (bump_session now req x) + ses_OutputTokens (bump_session now req x)) = wrap64 (a + b)"
    by (simp add: bump_session_def def, rule arg_cong [of _ _ wrap64]) simp
  also have "\<dots> = wrap64 (S + b)"
    using assms(1) by (intro wrap64_add_cong) (simp add: session_accounted_def def)
  also have "\<dots> = wrap64 (sum_list (map trc_Tokens (t # session_traces ts x)))"
    using assms(5) by (simp add: def add.commute)
  finally show ?thesis
    using assms(1) by (simp add: session_accounted_def tr, simp add: bump_session_def add.commute)
qed

lemma record_accounts:
  assumes ok: "accounts_ok d" and t: "trc_SessionID t = rec_SessionID req" "trc_AgentID t = rec_AgentID req"
      "trc_Tokens t = wrap64 (rec_InputTokens req + rec_OutputTokens req)"
  shows "accounts_ok (d\<lparr>st_Traces := t # st_Traces d, st_Sessions := record_session now req (st_Sessions d)\<rparr>)"
proof -
  let ?ts = "st_Traces d" and ?xs = "st_Sessions d" and ?ys = "record_session now req (st_Sessions d)"
  have other: "session_accounted (t # ?ts) x" if "session_accounted ?ts x" "\<not> session_matches req x" for x
    using that t by (auto simp: session_accounted_def session_traces_def session_matches_def)
  have "\<forall>x \<in> set ?ys. session_accounted (t # ?ts) x"
  proof (cases "list_ex (session_matches req) ?xs")
    case True
    then show ?thesis using ok bump_accounted [OF _ _ t] other by (auto simp: record_session_def accounts_ok_def)
  next
    case False
    then have none: "\<not> session_matches req x" if "x \<in> set ?xs" for x using that by (auto simp: list_ex_iff)
    then have "session_traces ?ts (new_session now req) = []"
      using ok by (fastforce simp: accounts_ok_def session_traces_def new_session_def session_matches_def filter_empty_conv)
    then have "session_accounted (t # ?ts) (new_session now req)"
      using t wrap64_id [of 1] by (simp add: session_accounted_def session_traces_def new_session_def)
    with False ok other none show ?thesis by (simp add: record_session_def accounts_ok_def)
  qed
  moreover have keys: "(\<exists>x \<in> set ys. ses_ID x = a \<and> ses_AgentID x = b) \<longleftrightarrow> (a, b) \<in> set (map (\<lambda>x. (ses_ID x, ses_AgentID x)) ys)" for ys a b
    by auto
  have "\<forall>t \<in> set (t # ?ts). \<exists>x \<in> set ?ys. ses_ID x = trc_SessionID t \<and> ses_AgentID x = trc_AgentID t"
    using ok t unfolding accounts_ok_def keys record_session_keys
    by (auto simp: list_ex_iff session_matches_def intro: rev_image_eqI)
  ultimately show ?thesis unfolding accounts_ok_def by simp
qed

lemma Store_RecordTrace_accounts: "accounts_ok (data s) \<Longrightarrow> accounts_ok (data (fst (Store_RecordTrace e s req)))"
  by (simp add: Store_RecordTrace_def Let_def record_accounts)

lemma accounts_frame: "st_Sessions d' = st_Sessions d \<Longrightarrow> st_Traces d' = st_Traces d \<Longrightarrow> accounts_ok d \<Longrightarrow> accounts_ok d'"
  by (simp add: accounts_ok_def)

lemma registry_accounts:
  "accounts_ok (data s) \<Longrightarrow> accounts_ok (data (fst (Store_DeployAgent e s dar actor)))"
  "accounts_ok (data s) \<Longrightarrow> accounts_ok (data (fst (Store_SetAgentTraffic e s i w actor)))"
  "accounts_ok (data s) \<Longrightarrow> accounts_ok (data (fst (Store_ApplyFeatureView e s afv actor)))"
  "accounts_ok (data s) \<Longrightarrow> accounts_ok (data (fst (Store_ReportMaterialization e s nm n actor)))"
  "accounts_ok (data s) \<Longrightarrow> accounts_ok (data (fst (Store_RegisterTool e s rtr actor)))"
  "accounts_ok (data s) \<Longrightarrow> accounts_ok (data (fst (Store_CreateConnection e s ccr actor)))"
  "accounts_ok (data s) \<Longrightarrow> accounts_ok (data (fst (Store_UpdateConnectionStatus e s i status message actor)))"
  by (auto simp: store_ops Let_def accounts_ok_def split: option.splits)

end
