(* ===== verification/Access.thy ===== *)
theory Access
  imports Store_Base
begin

text \<open>
  Access administration of the file-backed repository (\<^verbatim>\<open>go/internal/store/access.go\<close> and
  the access methods of \<^verbatim>\<open>store.go\<close>): grants with resource profiles, and access requests
  with their review. Invariants: every stored grant is well formed, a subject has at most one
  pending request; a reviewed request never changes again.
\<close>

subsection \<open>Validation\<close>

definition validServices :: "string list" where
  "validServices = [''overview'', ''projects'', ''pipelines'', ''models'', ''agents'', ''features'',
     ''storage'', ''realtime'', ''catalog'', ''platform'', ''functions'', ''git'', ''workbench'', ''ide'']"

fun unique_loop :: "string set \<Rightarrow> string list \<Rightarrow> string list" where
  "unique_loop seen [] = []"
| "unique_loop seen (v # vs) =
     (let value = TrimSpace v in
      if value \<noteq> [] \<and> value \<notin> seen then value # unique_loop (insert value seen) vs
      else unique_loop seen vs)"

definition unique :: "string list \<Rightarrow> string list" where
  "unique values = unique_loop {} values"

lemma unique_loop_spec:
  "distinct (unique_loop seen vs) \<and> set (unique_loop seen vs) = TrimSpace ` set vs - {[]} - seen"
  by (induction vs arbitrary: seen) (auto simp: Let_def)

lemma unique_spec: "distinct (unique vs)" "set (unique vs) = TrimSpace ` set vs - {[]}"
  using unique_loop_spec [of "{}" vs] by (simp_all add: unique_def)

definition first_unknown :: "string list \<Rightarrow> string option" where
  "first_unknown services = find (\<lambda>service. \<not> List.member validServices service) services"

lemma first_unknown_None: "first_unknown xs = None \<longleftrightarrow> set xs \<subseteq> set validServices"
  by (auto simp: first_unknown_def find_None_iff)

definition validateAccessRequest :: "CreateAccessRequest \<Rightarrow> CreateAccessRequest ret" where
  "validateAccessRequest req0 =
     (let req = req0\<lparr>car_Reason := TrimSpace (car_Reason req0),
                     car_RequestedServices := unique (car_RequestedServices req0)\<rparr> in
      if length (car_Reason req) < 10 then (req, Some (Err ''reason must contain at least 10 characters''))
      else if car_RequestedServices req = [] then (req, Some (Err ''at least one service is required''))
      else case first_unknown (car_RequestedServices req) of
        Some service \<Rightarrow> (req, Some (Err (''unknown service: '' @ service)))
      | None \<Rightarrow> (req, None))"

definition ResourceProfiles :: "ResourceProfile list" where
  "ResourceProfiles =
    [\<lparr>rp_Name = ''starter'', rp_Label = ''Starter'',
      rp_Description = ''Notebook exploration and small development runs'',
      rp_Compute = zero_ComputeGrant\<lparr>cg_Profile := ''starter'', cg_VCPUs := 2, cg_MemoryGB := 4, cg_MaxVMs := 1,
        cg_MaxProjects := 2, cg_MaxRuns := 1, cg_MaxFunctions := 3\<rparr>, rp_StorageGB = 25\<rparr>,
     \<lparr>rp_Name = ''team'', rp_Label = ''Team'',
      rp_Description = ''Daily model development and shared pipelines'',
      rp_Compute = zero_ComputeGrant\<lparr>cg_Profile := ''team'', cg_VCPUs := 4, cg_MemoryGB := 8, cg_MaxVMs := 2,
        cg_MaxProjects := 5, cg_MaxRuns := 3, cg_MaxFunctions := 10\<rparr>, rp_StorageGB = 100\<rparr>,
     \<lparr>rp_Name = ''power'', rp_Label = ''Power'',
      rp_Description = ''Large training runs and production delivery'',
      rp_Compute = zero_ComputeGrant\<lparr>cg_Profile := ''power'', cg_VCPUs := 8, cg_MemoryGB := 16, cg_MaxVMs := 4,
        cg_MaxProjects := 10, cg_MaxRuns := 6, cg_MaxFunctions := 25\<rparr>, rp_StorageGB = 250\<rparr>,
     \<lparr>rp_Name = ''gpu'', rp_Label = ''GPU'',
      rp_Description = ''Accelerated model and generative AI development'',
      rp_Compute = zero_ComputeGrant\<lparr>cg_Profile := ''gpu'', cg_VCPUs := 8, cg_MemoryGB := 32, cg_GPUs := 1,
        cg_GPUType := ''nvidia.com/gpu'', cg_MaxVMs := 2, cg_MaxProjects := 10, cg_MaxRuns := 4,
        cg_MaxFunctions := 15\<rparr>, rp_StorageGB = 500\<rparr>,
     \<lparr>rp_Name = ''custom'', rp_Label = ''Custom'', rp_Description = ''Set each resource boundary explicitly'',
      rp_Compute = zero_ComputeGrant\<lparr>cg_Profile := ''custom''\<rparr>, rp_StorageGB = 0\<rparr>]"

definition applyResourceProfile :: "UpsertUserAccessRequest \<Rightarrow> UpsertUserAccessRequest ret" where
  "applyResourceProfile req0 =
     (let trimmed = TrimSpace (cg_Profile (uar_Compute req0));
          profile = (if trimmed = [] then ''custom'' else trimmed);
          req = (if trimmed = [] then req0\<lparr>uar_Compute := (uar_Compute req0)\<lparr>cg_Profile := ''custom''\<rparr>\<rparr> else req0)
      in case find (\<lambda>candidate. rp_Name candidate = profile) ResourceProfiles of
           Some candidate \<Rightarrow>
             (if profile \<noteq> ''custom''
              then req\<lparr>uar_Compute := rp_Compute candidate,
                       uar_Storage := (uar_Storage req)\<lparr>sg_SizeGB := rp_StorageGB candidate\<rparr>\<rparr>
              else req, None)
         | None \<Rightarrow> (req, Some (Err (''unknown resource profile: '' @ profile))))"

definition negative_limit :: "UpsertUserAccessRequest \<Rightarrow> bool" where
  "negative_limit req \<longleftrightarrow> sg_SizeGB (uar_Storage req) < 0 \<or> cg_VCPUs (uar_Compute req) < 0 \<or>
     cg_MemoryGB (uar_Compute req) < 0 \<or> cg_GPUs (uar_Compute req) < 0 \<or> cg_MaxVMs (uar_Compute req) < 0 \<or>
     cg_MaxProjects (uar_Compute req) < 0 \<or> cg_MaxRuns (uar_Compute req) < 0 \<or> cg_MaxFunctions (uar_Compute req) < 0"

definition validateAccess :: "string \<Rightarrow> UpsertUserAccessRequest \<Rightarrow> UserAccess ret" where
  "validateAccess subject0 req0 =
     (let subject = TrimSpace subject0 in
      if subject = [] then (zero_UserAccess, Some (Err ''subject is required''))
      else let role = (if uar_Role req0 = [] then ''user'' else uar_Role req0) in
      if role \<noteq> ''admin'' \<and> role \<noteq> ''user'' then (zero_UserAccess, Some (Err ''role must be admin or user''))
      else let req1 = req0\<lparr>uar_Role := role, uar_Services := unique (uar_Services req0),
                           uar_ProjectIDs := unique (uar_ProjectIDs req0),
                           uar_Storage := (uar_Storage req0)\<lparr>sg_Buckets := unique (sg_Buckets (uar_Storage req0))\<rparr>\<rparr> in
      case first_unknown (uar_Services req1) of
        Some service \<Rightarrow> (zero_UserAccess, Some (Err (''unknown service: '' @ service)))
      | None \<Rightarrow>
          (let (req, err) = applyResourceProfile req1 in
           if err \<noteq> None then (zero_UserAccess, err)
           else if negative_limit req then (zero_UserAccess, Some (Err ''resource limits cannot be negative''))
           else (\<lparr>ua_Subject = subject, ua_Email = TrimSpace (uar_Email req), ua_Role = uar_Role req,
                  ua_Services = uar_Services req, ua_ProjectIDs = uar_ProjectIDs req,
                  ua_Storage = uar_Storage req, ua_Compute = uar_Compute req, ua_Disabled = uar_Disabled req,
                  ua_CreatedAt = zero_time, ua_UpdatedAt = zero_time\<rparr>, None)))"

subsection \<open>Grants\<close>

definition Store_UserAccess :: "Store \<Rightarrow> UserAccess list" where
  "Store_UserAccess s = st_UserAccess (data s)"

definition Store_AccessFor :: "Store \<Rightarrow> string \<Rightarrow> UserAccess ret" where
  "Store_AccessFor s subject = (case find (\<lambda>a. ua_Subject a = subject) (st_UserAccess (data s)) of
     Some a \<Rightarrow> (a, None) | None \<Rightarrow> (zero_UserAccess, Some ErrNotFound))"

definition Store_UpsertUserAccess ::
  "env \<Rightarrow> Store \<Rightarrow> string \<Rightarrow> UpsertUserAccessRequest \<Rightarrow> string \<Rightarrow> Store \<times> UserAccess ret" where
  [store_ops]: "Store_UpsertUserAccess e s subject req actor =
     (let (access0, err) = validateAccess subject req in
      if err \<noteq> None then (s, (zero_UserAccess, err))
      else let now = clk e 0; access = access0\<lparr>ua_UpdatedAt := now\<rparr> in
      case find (\<lambda>a. ua_Subject a = subject) (st_UserAccess (data s)) of
        Some old \<Rightarrow>
          (let access = access\<lparr>ua_CreatedAt := ua_CreatedAt old\<rparr>;
               s1 = s\<lparr>data := (data s)\<lparr>st_UserAccess :=
                      update_first (\<lambda>a. ua_Subject a = subject) (\<lambda>_. access) (st_UserAccess (data s))\<rparr>\<rparr>
           in commit e (record_event e 1 ''access.updated'' ''user_access'' subject actor [] s1) access)
      | None \<Rightarrow>
          (let access = access\<lparr>ua_CreatedAt := now\<rparr>;
               s1 = s\<lparr>data := (data s)\<lparr>st_UserAccess := access # st_UserAccess (data s)\<rparr>\<rparr>
           in commit e (record_event e 1 ''access.created'' ''user_access'' subject actor [] s1) access))"

definition Store_DeleteUserAccess :: "env \<Rightarrow> Store \<Rightarrow> string \<Rightarrow> string \<Rightarrow> Store \<times> error option" where
  [store_ops]: "Store_DeleteUserAccess e s subject actor =
     (case find (\<lambda>a. ua_Subject a = subject) (st_UserAccess (data s)) of
        None \<Rightarrow> (s, Some ErrNotFound)
      | Some _ \<Rightarrow>
          (let s1 = s\<lparr>data := (data s)\<lparr>st_UserAccess :=
                      delete_first (\<lambda>a. ua_Subject a = subject) (st_UserAccess (data s))\<rparr>\<rparr>
           in persist e (record_event e 0 ''access.deleted'' ''user_access'' subject actor [] s1)))"

subsection \<open>Access requests\<close>

definition Store_AccessRequests :: "Store \<Rightarrow> AccessRequest list" where
  "Store_AccessRequests s = st_AccessRequests (data s)"

definition Store_AccessRequestsFor :: "Store \<Rightarrow> string \<Rightarrow> AccessRequest list" where
  "Store_AccessRequestsFor s subject = filter (\<lambda>r. ar_Subject r = subject) (st_AccessRequests (data s))"

definition Store_CreateAccessRequest ::
  "env \<Rightarrow> Store \<Rightarrow> string \<Rightarrow> string \<Rightarrow> CreateAccessRequest \<Rightarrow> Store \<times> AccessRequest ret" where
  [store_ops]: "Store_CreateAccessRequest e s subject email req0 =
     (let (req, err) = validateAccessRequest req0 in
      if err \<noteq> None then (s, (zero_AccessRequest, err))
      else if list_ex (\<lambda>r. ar_Subject r = subject \<and> ar_Status r = ''pending'') (st_AccessRequests (data s))
        then (s, (zero_AccessRequest, Some (Err ''a pending access request already exists'')))
      else let now = clk e 0;
               request = zero_AccessRequest\<lparr>ar_ID := new_id ''access-request'' (clk e 1), ar_Subject := subject,
                 ar_Email := email, ar_Reason := car_Reason req, ar_RequestedServices := car_RequestedServices req,
                 ar_Status := ''pending'', ar_CreatedAt := now, ar_UpdatedAt := now\<rparr>;
               s1 = s\<lparr>data := (data s)\<lparr>st_AccessRequests := request # st_AccessRequests (data s)\<rparr>\<rparr>
           in commit e (record_event e 2 ''access.requested'' ''access_request'' (ar_ID request) subject [] s1) request)"

definition Store_ReviewAccessRequest ::
  "env \<Rightarrow> Store \<Rightarrow> string \<Rightarrow> ReviewAccessRequest \<Rightarrow> string \<Rightarrow> Store \<times> AccessRequest ret" where
  [store_ops]: "Store_ReviewAccessRequest e s requestID req reviewer =
     (if rar_Status req \<noteq> ''approved'' \<and> rar_Status req \<noteq> ''rejected''
        then (s, (zero_AccessRequest, Some (Err ''status must be approved or rejected'')))
      else case find (\<lambda>r. ar_ID r = requestID) (st_AccessRequests (data s)) of
        None \<Rightarrow> (s, (zero_AccessRequest, Some ErrNotFound))
      | Some r \<Rightarrow>
          if ar_Status r \<noteq> ''pending''
            then (s, (zero_AccessRequest, Some (Err ''access request has already been reviewed'')))
          else let r' = r\<lparr>ar_Status := rar_Status req, ar_Reviewer := reviewer,
                          ar_ReviewNote := TrimSpace (rar_Note req), ar_UpdatedAt := clk e 0\<rparr>;
                   s1 = s\<lparr>data := (data s)\<lparr>st_AccessRequests :=
                          update_first (\<lambda>r. ar_ID r = requestID) (\<lambda>_. r') (st_AccessRequests (data s))\<rparr>\<rparr>
               in commit e (record_event e 1 (''access.request_'' @ rar_Status req) ''access_request'' requestID
                    reviewer [] s1) r')"

subsection \<open>Invariants\<close>

definition profile_applied :: "UserAccess \<Rightarrow> bool" where
  "profile_applied a \<longleftrightarrow> TrimSpace (cg_Profile (ua_Compute a)) = ''custom'' \<or>
     (\<exists>p \<in> set ResourceProfiles. ua_Compute a = rp_Compute p \<and> sg_SizeGB (ua_Storage a) = rp_StorageGB p)"

definition user_access_ok :: "UserAccess \<Rightarrow> bool" where
  "user_access_ok a \<longleftrightarrow> ua_Subject a \<noteq> [] \<and> TrimSpace (ua_Subject a) = ua_Subject a \<and>
     ua_Role a \<in> {''admin'', ''user''} \<and> distinct (ua_Services a) \<and> set (ua_Services a) \<subseteq> set validServices \<and>
     distinct (ua_ProjectIDs a) \<and> distinct (sg_Buckets (ua_Storage a)) \<and>
     0 \<le> sg_SizeGB (ua_Storage a) \<and> 0 \<le> cg_VCPUs (ua_Compute a) \<and> 0 \<le> cg_MemoryGB (ua_Compute a) \<and>
     0 \<le> cg_GPUs (ua_Compute a) \<and> 0 \<le> cg_MaxVMs (ua_Compute a) \<and> 0 \<le> cg_MaxProjects (ua_Compute a) \<and>
     0 \<le> cg_MaxRuns (ua_Compute a) \<and> 0 \<le> cg_MaxFunctions (ua_Compute a) \<and> profile_applied a"

lemma applyResourceProfile_frame:
  "uar_Email (fst (applyResourceProfile r)) = uar_Email r" "uar_Role (fst (applyResourceProfile r)) = uar_Role r"
  "uar_Services (fst (applyResourceProfile r)) = uar_Services r"
  "uar_ProjectIDs (fst (applyResourceProfile r)) = uar_ProjectIDs r"
  "sg_Buckets (uar_Storage (fst (applyResourceProfile r))) = sg_Buckets (uar_Storage r)"
  "uar_Disabled (fst (applyResourceProfile r)) = uar_Disabled r"
  by (simp_all add: applyResourceProfile_def Let_def split: option.splits)

lemma TrimSpace_custom: "TrimSpace ''custom'' = ''custom''"
  by (rule TrimSpace_slug) (simp add: slug_chars_def is_lower_alnum_def)

lemma applyResourceProfile_applied:
  assumes "snd (applyResourceProfile r) = None"
  shows "TrimSpace (cg_Profile (uar_Compute (fst (applyResourceProfile r)))) = ''custom'' \<or>
     (\<exists>p \<in> set ResourceProfiles. uar_Compute (fst (applyResourceProfile r)) = rp_Compute p \<and>
        sg_SizeGB (uar_Storage (fst (applyResourceProfile r))) = rp_StorageGB p)"
proof -
  define trimmed where "trimmed = TrimSpace (cg_Profile (uar_Compute r))"
  define profile where "profile = (if trimmed = [] then ''custom'' else trimmed)"
  obtain c where c: "find (\<lambda>candidate. rp_Name candidate = profile) ResourceProfiles = Some c"
    using assms unfolding applyResourceProfile_def Let_def trimmed_def [symmetric] profile_def [symmetric]
    by (auto split: option.splits)
  show ?thesis
  proof (cases "profile = ''custom''")
    case True
    with c show ?thesis
      by (simp add: applyResourceProfile_def Let_def trimmed_def profile_def TrimSpace_custom split: if_splits)
  next
    case False
    then have "fst (applyResourceProfile r) = (if trimmed = [] then r\<lparr>uar_Compute := (uar_Compute r)\<lparr>cg_Profile := ''custom''\<rparr>\<rparr> else r)
        \<lparr>uar_Compute := rp_Compute c, uar_Storage := (uar_Storage r)\<lparr>sg_SizeGB := rp_StorageGB c\<rparr>\<rparr>"
      using c by (simp add: applyResourceProfile_def Let_def flip: trimmed_def profile_def)
    with find_SomeD [OF c] show ?thesis by auto
  qed
qed

lemma validateAccess_ok:
  assumes "validateAccess subject req = (a, None)"
  shows "user_access_ok a" "ua_Subject a = TrimSpace subject"
proof -
  define role where "role = (if uar_Role req = [] then ''user'' else uar_Role req)"
  define r1 where "r1 = req\<lparr>uar_Role := role, uar_Services := unique (uar_Services req),
      uar_ProjectIDs := unique (uar_ProjectIDs req),
      uar_Storage := (uar_Storage req)\<lparr>sg_Buckets := unique (sg_Buckets (uar_Storage req))\<rparr>\<rparr>"
  obtain r err where ap: "applyResourceProfile r1 = (r, err)" by (cases "applyResourceProfile r1")
  have s: "TrimSpace subject \<noteq> []" and role: "role \<in> {''admin'', ''user''}"
    and sv: "set (uar_Services r1) \<subseteq> set validServices" and err: "err = None" and neg: "\<not> negative_limit r"
    and a: "a = \<lparr>ua_Subject = TrimSpace subject, ua_Email = TrimSpace (uar_Email r), ua_Role = uar_Role r,
       ua_Services = uar_Services r, ua_ProjectIDs = uar_ProjectIDs r, ua_Storage = uar_Storage r,
       ua_Compute = uar_Compute r, ua_Disabled = uar_Disabled r, ua_CreatedAt = zero_time, ua_UpdatedAt = zero_time\<rparr>"
    using assms unfolding validateAccess_def Let_def role_def [symmetric] r1_def [symmetric] ap
    by (auto simp flip: first_unknown_None split: if_splits option.splits)
  have r: "uar_Role r = role" "uar_Services r = uar_Services r1" "uar_ProjectIDs r = uar_ProjectIDs r1"
      "sg_Buckets (uar_Storage r) = sg_Buckets (uar_Storage r1)"
    using applyResourceProfile_frame [of r1] unfolding ap fst_conv by (simp_all add: r1_def)
  have "profile_applied a"
    using applyResourceProfile_applied [of r1] err by (simp add: ap a profile_applied_def)
  then show "user_access_ok a"
    using s role sv neg r unique_spec
    by (simp add: a user_access_ok_def negative_limit_def r1_def not_less)
  show "ua_Subject a = TrimSpace subject" by (simp add: a)
qed

definition pending_subjects :: "AccessRequest list \<Rightarrow> string list" where
  "pending_subjects rs = map ar_Subject (filter (\<lambda>r. ar_Status r = ''pending'') rs)"

definition request_ok :: "AccessRequest \<Rightarrow> bool" where
  "request_ok r \<longleftrightarrow> ar_Status r \<in> {''pending'', ''approved'', ''rejected''} \<and> 10 \<le> length (ar_Reason r) \<and>
     ar_RequestedServices r \<noteq> [] \<and> set (ar_RequestedServices r) \<subseteq> set validServices"

definition access_ok :: "state \<Rightarrow> bool" where
  "access_ok d \<longleftrightarrow> (\<forall>a \<in> set (st_UserAccess d). user_access_ok a) \<and>
     distinct (pending_subjects (st_AccessRequests d)) \<and>
     (\<forall>r \<in> set (st_AccessRequests d). request_ok r)"

definition access_only :: "state \<Rightarrow> state \<Rightarrow> bool" where
  "access_only d d' \<longleftrightarrow> (access_ok d \<longrightarrow> access_ok d') \<and> suffix (st_Audit d) (st_Audit d') \<and>
     (\<forall>r \<in> set (st_AccessRequests d). ar_Status r \<noteq> ''pending'' \<longrightarrow> r \<in> set (st_AccessRequests d')) \<and>
     d' = d\<lparr>st_UserAccess := st_UserAccess d', st_AccessRequests := st_AccessRequests d', st_Audit := st_Audit d'\<rparr>"

lemma access_only_refl [simp]: "access_only d d"
  by (simp add: access_only_def)

lemma user_access_ok_times [simp]:
  "user_access_ok (a\<lparr>ua_UpdatedAt := t\<rparr>) = user_access_ok a"
  "user_access_ok (a\<lparr>ua_CreatedAt := t\<rparr>) = user_access_ok a"
  by (simp_all add: user_access_ok_def profile_applied_def)

lemma Store_UpsertUserAccess_effect:
  "access_only (data s) (data (fst (Store_UpsertUserAccess e s subject req actor)))"
proof -
  obtain a err where v: "validateAccess subject req = (a, err)" by (cases "validateAccess subject req")
  show ?thesis
  proof (cases err)
    case None
    with v have "user_access_ok a" by (simp add: validateAccess_ok)
    with v None show ?thesis
      by (auto simp: Store_UpsertUserAccess_def Let_def access_only_def access_ok_def suffix_ConsI
          dest!: set_update_first split: option.splits)
  qed (simp add: v Store_UpsertUserAccess_def)
qed

lemma Store_DeleteUserAccess_effect: "access_only (data s) (data (fst (Store_DeleteUserAccess e s subject actor)))"
  using set_delete_first [of "\<lambda>a. ua_Subject a = subject" "st_UserAccess (data s)"]
  by (auto simp: Store_DeleteUserAccess_def Let_def access_only_def access_ok_def suffix_ConsI split: option.splits)

lemma validateAccessRequest_ok:
  assumes "validateAccessRequest req = (r, None)"
  shows "10 \<le> length (car_Reason r)" "car_RequestedServices r \<noteq> []" "set (car_RequestedServices r) \<subseteq> set validServices"
  using assms first_unknown_None [of "unique (car_RequestedServices req)"]
  by (auto simp: validateAccessRequest_def Let_def split: if_splits option.splits)

lemma Store_CreateAccessRequest_effect:
  "access_only (data s) (data (fst (Store_CreateAccessRequest e s subject email req0)))"
proof -
  obtain r err where v: "validateAccessRequest req0 = (r, err)" by (cases "validateAccessRequest req0")
  show ?thesis
  proof (cases err)
    case None
    with v validateAccessRequest_ok [of req0 r] show ?thesis
      by (auto simp: Store_CreateAccessRequest_def Let_def access_only_def access_ok_def request_ok_def pending_subjects_def
          list_ex_iff suffix_ConsI)
  qed (simp add: v Store_CreateAccessRequest_def)
qed

lemma pending_subjects_review:
  assumes "distinct (pending_subjects rs)" and "find P rs = Some r" and "ar_Status r' \<noteq> ''pending''"
  shows "distinct (pending_subjects (update_first P (\<lambda>_. r') rs))"
    and "set (pending_subjects (update_first P (\<lambda>_. r') rs)) \<subseteq> set (pending_subjects rs)"
  using assms by (induction rs) (auto simp: pending_subjects_def split: if_splits)

lemma Store_ReviewAccessRequest_effect:
  "access_only (data s) (data (fst (Store_ReviewAccessRequest e s i req reviewer)))"
proof (cases "find (\<lambda>r. ar_ID r = i) (st_AccessRequests (data s))")
  case (Some r)
  have keeps: "x \<in> set (update_first (\<lambda>r. ar_ID r = i) f rs)"
    if "x \<in> set rs" "ar_Status x \<noteq> ''pending''" "find (\<lambda>r. ar_ID r = i) rs = Some r" "ar_Status r = ''pending''" for x f rs
    using that by (induction rs) (auto split: if_splits)
  show ?thesis
  proof (cases "rar_Status req \<in> {''approved'', ''rejected''} \<and> ar_Status r = ''pending''")
    case True
    let ?r' = "r\<lparr>ar_Status := rar_Status req, ar_Reviewer := reviewer, ar_ReviewNote := TrimSpace (rar_Note req),
        ar_UpdatedAt := clk e 0\<rparr>"
    have "access_ok (data s) \<longrightarrow> distinct (pending_subjects (update_first (\<lambda>r. ar_ID r = i) (\<lambda>_. ?r') (st_AccessRequests (data s))))"
      using True pending_subjects_review(1) [OF _ Some, of ?r'] by (auto simp: access_ok_def)
    moreover have "request_ok r \<longrightarrow> request_ok ?r'"
      using True by (simp add: request_ok_def)
    ultimately show ?thesis
      using True Some keeps [OF _ _ Some] find_SomeD [OF Some]
      by (auto simp: Store_ReviewAccessRequest_def Let_def access_only_def access_ok_def suffix_ConsI
          dest!: set_update_first)
  qed (use Some in \<open>auto simp: Store_ReviewAccessRequest_def\<close>)
qed (simp add: Store_ReviewAccessRequest_def)

lemmas access_ops = Store_UpsertUserAccess_effect Store_DeleteUserAccess_effect
  Store_CreateAccessRequest_effect Store_ReviewAccessRequest_effect

subsection \<open>Round trip\<close>

lemma Store_UpsertUserAccess_AccessFor:
  assumes "validateAccess subject req = (a, None)" and "TrimSpace subject = subject"
  shows "\<exists>a'. Store_AccessFor (fst (Store_UpsertUserAccess e s subject req actor)) subject = (a', None) \<and>
     fst (snd (Store_UpsertUserAccess e s subject req actor)) = a' \<and> ua_UpdatedAt a' = clk e 0 \<and>
     (ua_Role a', ua_Services a', ua_ProjectIDs a', ua_Storage a', ua_Compute a', ua_Disabled a') =
     (ua_Role a, ua_Services a, ua_ProjectIDs a, ua_Storage a, ua_Compute a, ua_Disabled a)"
proof -
  have sub: "ua_Subject a = subject" using validateAccess_ok(2) [OF assms(1)] assms(2) by simp
  show ?thesis
  proof (cases "find (\<lambda>a. ua_Subject a = subject) (st_UserAccess (data s))")
    case None
    with assms(1) sub show ?thesis
      by (simp add: Store_UpsertUserAccess_def Store_AccessFor_def Let_def)
  next
    case (Some old)
    then show ?thesis
      using assms(1) sub find_update_first_same [OF Some, of "\<lambda>_. a\<lparr>ua_UpdatedAt := clk e 0, ua_CreatedAt := ua_CreatedAt old\<rparr>"]
      by (simp add: Store_UpsertUserAccess_def Store_AccessFor_def Let_def)
  qed
qed

end
