(* ===== verification/Tokens.thy ===== *)
theory Tokens
  imports Access Go_Crypto
begin

text \<open>
  API tokens of the file-backed repository (\<^verbatim>\<open>go/internal/store/tokens.go\<close>): validation,
  generation, revocation and the resolution of a presented secret. A secret is shown once;
  only its SHA-256 digest is stored.
\<close>

definition validateTokenRequest :: "CreateAPITokenRequest \<Rightarrow> CreateAPITokenRequest ret" where
  "validateTokenRequest req0 =
     (let req = req0\<lparr>ctr_Name := TrimSpace (ctr_Name req0), ctr_Services := unique (ctr_Services req0),
                     ctr_ProjectIDs := unique (ctr_ProjectIDs req0)\<rparr> in
      if length (ctr_Name req) < 3 then (req, Some (Err ''token name must contain at least 3 characters''))
      else if ctr_Services req = [] then (req, Some (Err ''at least one service scope is required''))
      else if ctr_ExpiresInDays req < 1 \<or> ctr_ExpiresInDays req > 365
        then (req, Some (Err ''expiry must be between 1 and 365 days''))
      else case find (\<lambda>service. \<not> list_ex (\<lambda>candidate. service = candidate) validServices \<or>
                        service = ''workbench'' \<or> service = ''ide'') (ctr_Services req) of
        Some service \<Rightarrow> (req, Some (Err (''invalid API service scope: '' @ service)))
      | None \<Rightarrow> (req, None))"

definition generateAPIToken :: "env \<Rightarrow> (string \<times> string \<times> string \<times> string) + error" where
  "generateAPIToken e =
     (case rand32 e of None \<Rightarrow> Inr (ErrIO ''rand'')
      | Some random \<Rightarrow> (case rand8 e of None \<Rightarrow> Inr (ErrIO ''rand'')
      | Some idRandom \<Rightarrow>
          (let idValue = ''tok-'' @ hex_EncodeToString idRandom;
               pre = ''nxs_'' @ hex_EncodeToString (take 4 idRandom);
               secret = pre @ ''_'' @ RawURLEncoding random;
               hash = hex_EncodeToString (Sum256 secret)
           in Inl (idValue, pre, secret, hash))))"

definition tokenMatches :: "APIToken \<Rightarrow> string \<Rightarrow> bool" where
  "tokenMatches stored secret \<longleftrightarrow> tok_SecretHash stored = hex_EncodeToString (Sum256 secret)"

definition Store_APITokensFor :: "Store \<Rightarrow> string \<Rightarrow> APIToken list" where
  "Store_APITokensFor s subject = filter (\<lambda>t. tok_Subject t = subject) (st_APITokens (data s))"

definition day_ns :: int where
  "day_ns = 24 * 3600 * 1000000000"

definition Store_CreateAPIToken ::
  "env \<Rightarrow> Store \<Rightarrow> string \<Rightarrow> CreateAPITokenRequest \<Rightarrow> Store \<times> CreatedAPIToken ret" where
  [store_ops]: "Store_CreateAPIToken e s subject req0 =
     (let (req, err) = validateTokenRequest req0 in
      if err \<noteq> None then (s, (zero_CreatedAPIToken, err))
      else case generateAPIToken e of
        Inr err \<Rightarrow> (s, (zero_CreatedAPIToken, Some err))
      | Inl (tokenID, pre, secret, hash) \<Rightarrow>
          (let now = clk e 0;
               token = zero_APIToken\<lparr>tok_ID := tokenID, tok_Subject := subject, tok_Name := ctr_Name req,
                 tok_Prefix := pre, tok_SecretHash := hash, tok_Services := ctr_Services req,
                 tok_ProjectIDs := ctr_ProjectIDs req, tok_CreatedAt := now,
                 tok_ExpiresAt := now + ctr_ExpiresInDays req * day_ns\<rparr>;
               s1 = s\<lparr>data := (data s)\<lparr>st_APITokens := token # st_APITokens (data s)\<rparr>\<rparr>
           in commit e (record_event e 1 ''api_token.created'' ''api_token'' (tok_ID token) subject
                [(''services'', AnyStrs (tok_Services token)), (''expires_at'', AnyTime (tok_ExpiresAt token))] s1)
                \<lparr>cat_Token = token, cat_Secret = secret\<rparr>))"

definition Store_RevokeAPIToken :: "env \<Rightarrow> Store \<Rightarrow> string \<Rightarrow> string \<Rightarrow> Store \<times> error option" where
  [store_ops]: "Store_RevokeAPIToken e s subject tokenID =
     (case find (\<lambda>t. tok_ID t = tokenID \<and> tok_Subject t = subject) (st_APITokens (data s)) of
        None \<Rightarrow> (s, Some ErrNotFound)
      | Some t \<Rightarrow>
          persist e
            (if tok_RevokedAt t = None
             then record_event e 1 ''api_token.revoked'' ''api_token'' tokenID subject []
                    (s\<lparr>data := (data s)\<lparr>st_APITokens :=
                       update_first (\<lambda>t. tok_ID t = tokenID \<and> tok_Subject t = subject)
                         (\<lambda>_. t\<lparr>tok_RevokedAt := Some (clk e 0)\<rparr>) (st_APITokens (data s))\<rparr>\<rparr>)
             else s))"

definition token_live :: "time \<Rightarrow> string \<Rightarrow> APIToken \<Rightarrow> bool" where
  "token_live now secret t \<longleftrightarrow> HasPrefix secret (tok_Prefix t @ ''_'') \<and> tok_RevokedAt t = None \<and>
     now < tok_ExpiresAt t \<and> tokenMatches t secret"

definition Store_ResolveAPIToken :: "env \<Rightarrow> Store \<Rightarrow> string \<Rightarrow> Store \<times> APIToken ret" where
  [store_ops]: "Store_ResolveAPIToken e s secret =
     (let now = clk e 0 in
      case find (token_live now secret) (st_APITokens (data s)) of
        None \<Rightarrow> (s, (zero_APIToken, Some ErrNotFound))
      | Some t \<Rightarrow>
          (let t' = t\<lparr>tok_LastUsedAt := Some now\<rparr>;
               s1 = s\<lparr>data := (data s)\<lparr>st_APITokens :=
                      update_first (token_live now secret) (\<lambda>_. t') (st_APITokens (data s))\<rparr>\<rparr>
           in (fst (persist e s1), (t', None))))"

subsection \<open>Invariants\<close>

definition token_ok :: "APIToken \<Rightarrow> bool" where
  "token_ok t \<longleftrightarrow> tok_Services t \<noteq> [] \<and> distinct (tok_Services t) \<and>
     set (tok_Services t) \<subseteq> set validServices - {''workbench'', ''ide''} \<and> 3 \<le> length (tok_Name t) \<and>
     tok_CreatedAt t + day_ns \<le> tok_ExpiresAt t \<and> tok_ExpiresAt t \<le> tok_CreatedAt t + 365 * day_ns"

text \<open>What identifies a token and never changes once it is issued.\<close>

definition token_core :: "APIToken \<Rightarrow> string \<times> string \<times> string \<times> string list \<times> string list \<times> time" where
  "token_core t = (tok_ID t, tok_Subject t, tok_SecretHash t, tok_Services t, tok_ProjectIDs t, tok_ExpiresAt t)"

text \<open>How a stored token may evolve: its core stays, and a revoked token stays as it is.\<close>

definition token_le :: "APIToken \<Rightarrow> APIToken \<Rightarrow> bool" where
  "token_le t t' \<longleftrightarrow> token_core t' = token_core t \<and> (tok_RevokedAt t \<noteq> None \<longrightarrow> t' = t)"

lemma token_le_refl [simp]: "token_le t t"
  by (simp add: token_le_def)

definition tokens_grow :: "APIToken list \<Rightarrow> APIToken list \<Rightarrow> bool" where
  "tokens_grow ts ts' \<longleftrightarrow> (\<exists>new rest. ts' = new @ rest \<and> list_all2 token_le ts rest)"

lemma tokens_grow_same: "list_all2 token_le ts ts' \<Longrightarrow> tokens_grow ts ts'"
  unfolding tokens_grow_def by (rule exI [of _ "[]"]) simp

lemma tokens_grow_refl [simp]: "tokens_grow ts ts"
  by (rule tokens_grow_same) (simp add: list.rel_refl)

lemma tokens_grow_Cons [simp]: "tokens_grow ts (t # ts)"
  unfolding tokens_grow_def by (rule exI [of _ "[t]"]) (simp add: list.rel_refl)

definition tokens_only :: "state \<Rightarrow> state \<Rightarrow> bool" where
  "tokens_only d d' \<longleftrightarrow>
     ((\<forall>t \<in> set (st_APITokens d). token_ok t) \<longrightarrow> (\<forall>t \<in> set (st_APITokens d'). token_ok t)) \<and>
     tokens_grow (st_APITokens d) (st_APITokens d') \<and>
     suffix (st_Audit d) (st_Audit d') \<and>
     d' = d\<lparr>st_APITokens := st_APITokens d', st_Audit := st_Audit d'\<rparr>"

lemma tokens_only_refl [simp]: "tokens_only d d"
  by (simp add: tokens_only_def)

lemma validateTokenRequest_ok:
  assumes "validateTokenRequest req0 = (req, None)"
  shows "ctr_Services req \<noteq> []" "distinct (ctr_Services req)"
    "set (ctr_Services req) \<subseteq> set validServices - {''workbench'', ''ide''}"
    "3 \<le> length (ctr_Name req)" "1 \<le> ctr_ExpiresInDays req" "ctr_ExpiresInDays req \<le> 365"
proof -
  let ?bad = "\<lambda>service. \<not> list_ex (\<lambda>candidate. service = candidate) validServices \<or>
      service = ''workbench'' \<or> service = ''ide''"
  have req: "req = req0\<lparr>ctr_Name := TrimSpace (ctr_Name req0), ctr_Services := unique (ctr_Services req0),
      ctr_ProjectIDs := unique (ctr_ProjectIDs req0)\<rparr>"
    and "find ?bad (ctr_Services req) = None"
    and "ctr_Services req \<noteq> []" "3 \<le> length (ctr_Name req)"
      "1 \<le> ctr_ExpiresInDays req" "ctr_ExpiresInDays req \<le> 365"
    using assms by (auto simp: validateTokenRequest_def Let_def split: if_splits option.splits)
  then show "ctr_Services req \<noteq> []" "distinct (ctr_Services req)"
    "set (ctr_Services req) \<subseteq> set validServices - {''workbench'', ''ide''}"
    "3 \<le> length (ctr_Name req)" "1 \<le> ctr_ExpiresInDays req" "ctr_ExpiresInDays req \<le> 365"
    using unique_spec(1) [of "ctr_Services req0"] by (auto simp: find_None_iff list_ex_iff)
qed

lemma Store_CreateAPIToken_cases:
  obtains (rejected) err where "Store_CreateAPIToken e s subject req0 = (s, (zero_CreatedAPIToken, Some err))"
  | (created) token secret actions where "token_ok token" "tok_Subject token = subject" "tok_RevokedAt token = None"
      "tok_CreatedAt token = clk e 0" "HasPrefix secret (tok_Prefix token @ ''_'')" "tokenMatches token secret"
      "Store_CreateAPIToken e s subject req0 =
         commit e (record_event e 1 ''api_token.created'' ''api_token'' (tok_ID token) subject actions
           (s\<lparr>data := (data s)\<lparr>st_APITokens := token # st_APITokens (data s)\<rparr>\<rparr>)) \<lparr>cat_Token = token, cat_Secret = secret\<rparr>"
proof -
  obtain req err where v: "validateTokenRequest req0 = (req, err)" by (cases "validateTokenRequest req0")
  show thesis
  proof (cases "err = None \<and> rand32 e \<noteq> None \<and> rand8 e \<noteq> None")
    case False
    then have "\<exists>err'. Store_CreateAPIToken e s subject req0 = (s, (zero_CreatedAPIToken, Some err'))"
      using v by (auto simp: Store_CreateAPIToken_def generateAPIToken_def split: option.splits)
    then show thesis using rejected by blast
  next
    case True
    then obtain r i where r: "rand32 e = Some r" and i: "rand8 e = Some i" by auto
    from True v have valid: "validateTokenRequest req0 = (req, None)" by simp
    note ok = validateTokenRequest_ok [OF valid]
    define pre where "pre = ''nxs_'' @ hex_EncodeToString (take 4 i)"
    define secret where "secret = pre @ ''_'' @ RawURLEncoding r"
    define token where "token = zero_APIToken\<lparr>tok_ID := ''tok-'' @ hex_EncodeToString i, tok_Subject := subject,
        tok_Name := ctr_Name req, tok_Prefix := pre, tok_SecretHash := hex_EncodeToString (Sum256 secret),
        tok_Services := ctr_Services req, tok_ProjectIDs := ctr_ProjectIDs req, tok_CreatedAt := clk e 0,
        tok_ExpiresAt := clk e 0 + ctr_ExpiresInDays req * day_ns\<rparr>"
    have "token_ok token"
      using ok by (simp add: token_ok_def token_def day_ns_def)
    moreover have "HasPrefix secret (tok_Prefix token @ ''_'')"
      using HasPrefix_append [of "pre @ ''_''" "RawURLEncoding r"] by (simp add: secret_def token_def)
    moreover have "tokenMatches token secret" by (simp add: tokenMatches_def token_def)
    moreover have "Store_CreateAPIToken e s subject req0 =
         commit e (record_event e 1 ''api_token.created'' ''api_token'' (tok_ID token) subject
           [(''services'', AnyStrs (tok_Services token)), (''expires_at'', AnyTime (tok_ExpiresAt token))]
           (s\<lparr>data := (data s)\<lparr>st_APITokens := token # st_APITokens (data s)\<rparr>\<rparr>)) \<lparr>cat_Token = token, cat_Secret = secret\<rparr>"
      using valid r i by (simp add: Store_CreateAPIToken_def generateAPIToken_def Let_def token_def secret_def pre_def)
    ultimately show thesis
      using created [of token secret] by (simp add: token_def zero_APIToken_def)
  qed
qed

lemma Store_CreateAPIToken_effect: "tokens_only (data s) (data (fst (Store_CreateAPIToken e s subject req)))"
proof (cases rule: Store_CreateAPIToken_cases [of e s subject req])
  case (created token secret actions)
  then show ?thesis by (auto simp: tokens_only_def suffix_ConsI)
qed simp

lemma tokens_update:
  assumes "find P (st_APITokens d) = Some x" and "tok_RevokedAt x = None"
    and "token_core (f x) = token_core x" and "token_ok x \<Longrightarrow> token_ok (f x)" and "suffix (st_Audit d) a"
  shows "tokens_only d (d\<lparr>st_APITokens := update_first P (\<lambda>_. f x) (st_APITokens d), st_Audit := a\<rparr>)"
proof -
  have "list_all2 token_le (st_APITokens d) (update_first P (\<lambda>_. f x) (st_APITokens d))"
    using assms by (intro list_all2_update_first) (auto simp: token_le_def)
  then show ?thesis
    using assms find_SomeD [OF assms(1)]
    by (auto simp: tokens_only_def dest!: set_update_first intro: tokens_grow_same)
qed

lemma Store_RevokeAPIToken_effect: "tokens_only (data s) (data (fst (Store_RevokeAPIToken e s subject i)))"
proof (cases "find (\<lambda>t. tok_ID t = i \<and> tok_Subject t = subject) (st_APITokens (data s))")
  case (Some t)
  have "tokens_only (data s) ((data s)\<lparr>st_APITokens := update_first (\<lambda>t. tok_ID t = i \<and> tok_Subject t = subject)
      (\<lambda>_. t\<lparr>tok_RevokedAt := Some (clk e 0)\<rparr>) (st_APITokens (data s)), st_Audit := a\<rparr>)"
    if "tok_RevokedAt t = None" "suffix (st_Audit (data s)) a" for a
    using that by (intro tokens_update [OF Some, of "\<lambda>t. t\<lparr>tok_RevokedAt := Some (clk e 0)\<rparr>"])
      (auto simp: token_core_def token_ok_def)
  with Some show ?thesis by (simp add: Store_RevokeAPIToken_def suffix_ConsI)
qed (simp add: Store_RevokeAPIToken_def)

lemma Store_ResolveAPIToken_effect: "tokens_only (data s) (data (fst (Store_ResolveAPIToken e s secret)))"
proof (cases "find (token_live (clk e 0) secret) (st_APITokens (data s))")
  case (Some t)
  then have "tok_RevokedAt t = None" using find_SomeD by (fastforce simp: token_live_def)
  then have "tokens_only (data s) ((data s)\<lparr>st_APITokens := update_first (token_live (clk e 0) secret)
      (\<lambda>_. t\<lparr>tok_LastUsedAt := Some (clk e 0)\<rparr>) (st_APITokens (data s)), st_Audit := st_Audit (data s)\<rparr>)"
    by (intro tokens_update [OF Some, of "\<lambda>t. t\<lparr>tok_LastUsedAt := Some (clk e 0)\<rparr>"])
      (auto simp: token_core_def token_ok_def)
  with Some show ?thesis by (simp add: Store_ResolveAPIToken_def Let_def)
qed (simp add: Store_ResolveAPIToken_def)

lemmas token_ops = Store_CreateAPIToken_effect Store_RevokeAPIToken_effect Store_ResolveAPIToken_effect

subsection \<open>Resolution\<close>

lemma Store_ResolveAPIToken_sound:
  assumes "Store_ResolveAPIToken e s secret = (s', (t, None))"
  shows "\<exists>t0 \<in> set (st_APITokens (data s)). t = t0\<lparr>tok_LastUsedAt := Some (clk e 0)\<rparr> \<and>
     tok_RevokedAt t0 = None \<and> clk e 0 < tok_ExpiresAt t0 \<and>
     tok_SecretHash t0 = hex_EncodeToString (Sum256 secret) \<and> HasPrefix secret (tok_Prefix t0 @ ''_'')"
  using assms
  by (auto simp: Store_ResolveAPIToken_def Let_def token_live_def tokenMatches_def dest!: find_SomeD split: option.splits)

lemma Store_CreateAPIToken_resolves:
  assumes "Store_CreateAPIToken e s subject req = (s', (c, err))" and "cat_Secret c \<noteq> []"
    and "clk e' 0 < clk e 0 + day_ns"
  shows "\<exists>s'' t. Store_ResolveAPIToken e' s' (cat_Secret c) = (s'', (t, None)) \<and>
     token_core t = token_core (cat_Token c) \<and> tok_Subject t = subject"
proof (cases rule: Store_CreateAPIToken_cases [of e s subject req])
  case (rejected err')
  with assms have "c = zero_CreatedAPIToken" by simp
  with assms(2) show ?thesis by (simp add: zero_CreatedAPIToken_def)
next
  case (created token secret actions)
  note eq = trans [OF created(7) [symmetric] assms(1)]
  have c: "c = \<lparr>cat_Token = token, cat_Secret = secret\<rparr>"
    using arg_cong [OF eq, of "\<lambda>r. fst (snd r)"] by simp
  have d: "st_APITokens (data s') = token # st_APITokens (data s)"
    using arg_cong [OF eq, of "\<lambda>r. st_APITokens (data (fst r))"] by simp
  have "token_live (clk e' 0) secret token"
    using created assms(3) by (simp add: token_live_def token_ok_def)
  then show ?thesis
    by (simp add: c d Store_ResolveAPIToken_def Let_def token_core_def created)
qed

lemma Store_CreateAPIToken_scopes:
  "set (tok_Services (cat_Token (fst (snd (Store_CreateAPIToken e s subject req))))) \<subseteq> TrimSpace ` set (ctr_Services req)"
  "set (tok_ProjectIDs (cat_Token (fst (snd (Store_CreateAPIToken e s subject req))))) \<subseteq> TrimSpace ` set (ctr_ProjectIDs req)"
  using unique_spec(2) [of "ctr_Services req"] unique_spec(2) [of "ctr_ProjectIDs req"]
  by (auto simp: Store_CreateAPIToken_def validateTokenRequest_def generateAPIToken_def Let_def zero_CreatedAPIToken_def
      zero_APIToken_def split: option.splits if_splits)

end
