(* ===== verification/Blog.thy ===== *)
theory Blog
  imports Access
begin

text \<open>
  Blog posts of the file-backed repository (\<^verbatim>\<open>go/internal/store/blog.go\<close>). Invariant: two
  posts with the same slug have the same identifier, slugs are slug shaped, and a published
  post has a publication time, which later edits keep.
\<close>

definition validateBlog :: "UpsertBlogPostRequest \<Rightarrow> UpsertBlogPostRequest ret" where
  "validateBlog req0 =
     (let req = req0\<lparr>ubr_Slug := slug (ubr_Slug req0), ubr_Title := TrimSpace (ubr_Title req0),
                     ubr_Summary := TrimSpace (ubr_Summary req0), ubr_Content := TrimSpace (ubr_Content req0),
                     ubr_Author := TrimSpace (ubr_Author req0), ubr_Tags := unique (ubr_Tags req0)\<rparr> in
      if length (ubr_Title req) < 5 \<or> length (ubr_Summary req) < 20 \<or> length (ubr_Content req) < 100
        then (req, Some (Err ''title, summary, and substantial content are required''))
      else let req = req\<lparr>ubr_Slug := (if ubr_Slug req = [] then slug (ubr_Title req) else ubr_Slug req),
                         ubr_Author := (if ubr_Author req = [] then ''Nexus Engineering'' else ubr_Author req),
                         ubr_Status := (if ubr_Status req = [] then ''draft'' else ubr_Status req)\<rparr> in
      if ubr_Status req \<noteq> ''draft'' \<and> ubr_Status req \<noteq> ''published''
        then (req, Some (Err ''status must be draft or published''))
      else (req, None))"

text \<open>The publication time: set by the first publication, never changed afterwards.\<close>

definition published_at :: "string \<Rightarrow> time \<Rightarrow> time option \<Rightarrow> time option" where
  "published_at status now old = (if status = ''published'' \<and> old = None then Some now else old)"

definition Store_BlogPosts :: "Store \<Rightarrow> BlogPost list" where
  "Store_BlogPosts s = st_BlogPosts (data s)"

definition Store_BlogPost :: "Store \<Rightarrow> string \<Rightarrow> BlogPost ret" where
  "Store_BlogPost s identifier =
     (case find (\<lambda>p. bp_ID p = identifier \<or> bp_Slug p = identifier) (st_BlogPosts (data s)) of
        Some p \<Rightarrow> (p, None) | None \<Rightarrow> (zero_BlogPost, Some ErrNotFound))"

definition Store_UpsertBlogPost ::
  "env \<Rightarrow> Store \<Rightarrow> string \<Rightarrow> UpsertBlogPostRequest \<Rightarrow> string \<Rightarrow> Store \<times> BlogPost ret" where
  [store_ops]: "Store_UpsertBlogPost e s postID req0 actor =
     (let (req, err) = validateBlog req0 in
      if err \<noteq> None then (s, (zero_BlogPost, err))
      else let now = clk e 0 in
      if list_ex (\<lambda>p. bp_Slug p = ubr_Slug req \<and> bp_ID p \<noteq> postID) (st_BlogPosts (data s))
        then (s, (zero_BlogPost, Some ErrConflict))
      else case find (\<lambda>p. bp_ID p = postID) (st_BlogPosts (data s)) of
        Some p \<Rightarrow>
          (let p' = p\<lparr>bp_Slug := ubr_Slug req, bp_Title := ubr_Title req, bp_Summary := ubr_Summary req,
                      bp_Content := ubr_Content req, bp_Author := ubr_Author req, bp_Tags := ubr_Tags req,
                      bp_Status := ubr_Status req, bp_UpdatedAt := now,
                      bp_PublishedAt := published_at (ubr_Status req) now (bp_PublishedAt p)\<rparr>;
               s1 = s\<lparr>data := (data s)\<lparr>st_BlogPosts :=
                      update_first (\<lambda>p. bp_ID p = postID) (\<lambda>_. p') (st_BlogPosts (data s))\<rparr>\<rparr>
           in commit e (record_event e 1 ''blog.updated'' ''blog_post'' (bp_ID p) actor
                [(''status'', AnyStr (bp_Status p'))] s1) p')
      | None \<Rightarrow>
          (let p = \<lparr>bp_ID = new_id ''blog'' (clk e 1), bp_Slug = ubr_Slug req, bp_Title = ubr_Title req,
                    bp_Summary = ubr_Summary req, bp_Content = ubr_Content req, bp_Author = ubr_Author req,
                    bp_Tags = ubr_Tags req, bp_Status = ubr_Status req, bp_CreatedAt = now, bp_UpdatedAt = now,
                    bp_PublishedAt = published_at (ubr_Status req) now None\<rparr>;
               s1 = s\<lparr>data := (data s)\<lparr>st_BlogPosts := p # st_BlogPosts (data s)\<rparr>\<rparr>
           in commit e (record_event e 2 ''blog.created'' ''blog_post'' (bp_ID p) actor
                [(''status'', AnyStr (bp_Status p))] s1) p))"

definition Store_DeleteBlogPost :: "env \<Rightarrow> Store \<Rightarrow> string \<Rightarrow> string \<Rightarrow> Store \<times> error option" where
  [store_ops]: "Store_DeleteBlogPost e s postID actor =
     (case find (\<lambda>p. bp_ID p = postID) (st_BlogPosts (data s)) of
        None \<Rightarrow> (s, Some ErrNotFound)
      | Some _ \<Rightarrow>
          (let s1 = s\<lparr>data := (data s)\<lparr>st_BlogPosts := delete_first (\<lambda>p. bp_ID p = postID) (st_BlogPosts (data s))\<rparr>\<rparr>
           in persist e (record_event e 0 ''blog.deleted'' ''blog_post'' postID actor [] s1)))"

definition post_ok :: "BlogPost \<Rightarrow> bool" where
  "post_ok p \<longleftrightarrow> slug_shaped (bp_Slug p) \<and> bp_Status p \<in> {''draft'', ''published''} \<and>
     (bp_Status p = ''published'' \<longrightarrow> bp_PublishedAt p \<noteq> None) \<and>
     5 \<le> length (bp_Title p) \<and> 20 \<le> length (bp_Summary p) \<and> 100 \<le> length (bp_Content p)"

definition posts_ok :: "BlogPost list \<Rightarrow> bool" where
  "posts_ok ps \<longleftrightarrow> (\<forall>p \<in> set ps. post_ok p) \<and>
     (\<forall>p \<in> set ps. \<forall>q \<in> set ps. bp_Slug p = bp_Slug q \<longrightarrow> bp_ID p = bp_ID q)"

definition blog_only :: "state \<Rightarrow> state \<Rightarrow> bool" where
  "blog_only d d' \<longleftrightarrow> (posts_ok (st_BlogPosts d) \<longrightarrow> posts_ok (st_BlogPosts d')) \<and>
     suffix (st_Audit d) (st_Audit d') \<and> d' = d\<lparr>st_BlogPosts := st_BlogPosts d', st_Audit := st_Audit d'\<rparr>"

lemma blog_only_refl [simp]: "blog_only d d"
  by (simp add: blog_only_def)

lemma validateBlog_ok:
  assumes "validateBlog req0 = (req, None)"
  shows "slug_shaped (ubr_Slug req)" "ubr_Status req \<in> {''draft'', ''published''}"
    "5 \<le> length (ubr_Title req)" "20 \<le> length (ubr_Summary req)" "100 \<le> length (ubr_Content req)"
  using assms by (auto simp: validateBlog_def Let_def slug_is_shaped split: if_splits)

text \<open>Replacing the first post with the identifier: the slug is free or belongs to it.\<close>

lemma posts_ok_update:
  assumes "posts_ok ps" and "find (\<lambda>p. bp_ID p = i) ps = Some p" and "post_ok p'" and "bp_ID p' = i"
    and "\<forall>q \<in> set ps. bp_Slug q = bp_Slug p' \<longrightarrow> bp_ID q = i"
  shows "posts_ok (update_first (\<lambda>p. bp_ID p = i) (\<lambda>_. p') ps)"
proof -
  have "q \<in> set ps \<or> q = p'" if "q \<in> set (update_first (\<lambda>p. bp_ID p = i) (\<lambda>_. p') ps)" for q
    using set_update_first [OF that] by auto
  with assms show ?thesis unfolding posts_ok_def by metis
qed

lemma posts_ok_new:
  assumes "posts_ok ps" and "post_ok p" and "\<forall>q \<in> set ps. bp_Slug q \<noteq> bp_Slug p"
  shows "posts_ok (p # ps)"
  unfolding posts_ok_def
proof (intro conjI ballI impI)
  fix x y assume "x \<in> set (p # ps)" "y \<in> set (p # ps)" "bp_Slug x = bp_Slug y"
  then consider "x = p" "y = p" | "x \<in> set ps" "y \<in> set ps" using assms(3) by (metis set_ConsD)
  then show "bp_ID x = bp_ID y"
    using assms(1) \<open>bp_Slug x = bp_Slug y\<close> unfolding posts_ok_def by cases blast+
next
  fix x assume "x \<in> set (p # ps)"
  then show "post_ok x" using assms(1,2) unfolding posts_ok_def by (metis set_ConsD)
qed

lemma posts_ok_subset: "posts_ok ps \<Longrightarrow> set qs \<subseteq> set ps \<Longrightarrow> posts_ok qs"
  unfolding posts_ok_def by blast

lemma blog_onlyI:
  assumes "posts_ok (st_BlogPosts d) \<Longrightarrow> posts_ok ps" and "suffix (st_Audit d) a"
  shows "blog_only d (d\<lparr>st_BlogPosts := ps, st_Audit := a\<rparr>)"
  using assms by (simp add: blog_only_def)

lemma Store_UpsertBlogPost_effect: "blog_only (data s) (data (fst (Store_UpsertBlogPost e s i req0 actor)))"
proof -
  obtain req err where v: "validateBlog req0 = (req, err)" by (cases "validateBlog req0")
  show ?thesis
  proof (cases "err = None \<and> \<not> list_ex (\<lambda>p. bp_Slug p = ubr_Slug req \<and> bp_ID p \<noteq> i) (st_BlogPosts (data s))")
    case False
    with v show ?thesis by (auto simp: Store_UpsertBlogPost_def Let_def)
  next
    case True
    then have free: "\<forall>q \<in> set (st_BlogPosts (data s)). bp_Slug q = ubr_Slug req \<longrightarrow> bp_ID q = i"
      by (auto simp: list_ex_iff)
    from True v have valid: "validateBlog req0 = (req, None)" by simp
    note ok = validateBlog_ok [OF valid]
    show ?thesis
    proof (cases "find (\<lambda>p. bp_ID p = i) (st_BlogPosts (data s))")
      case None
      then have "\<forall>q \<in> set (st_BlogPosts (data s)). bp_Slug q \<noteq> ubr_Slug req"
        using free by (auto dest: find_NoneD)
      then show ?thesis
        using True valid None ok
        by (simp add: Store_UpsertBlogPost_def Let_def)
           (intro blog_onlyI posts_ok_new, auto simp: post_ok_def published_at_def suffix_ConsI)
    next
      case (Some p)
      note found = find_SomeD [OF Some]
      let ?p' = "p\<lparr>bp_Slug := ubr_Slug req, bp_Title := ubr_Title req, bp_Summary := ubr_Summary req,
          bp_Content := ubr_Content req, bp_Author := ubr_Author req, bp_Tags := ubr_Tags req,
          bp_Status := ubr_Status req, bp_UpdatedAt := clk e 0,
          bp_PublishedAt := published_at (ubr_Status req) (clk e 0) (bp_PublishedAt p)\<rparr>"
      have "posts_ok (update_first (\<lambda>p. bp_ID p = i) (\<lambda>_. ?p') (st_BlogPosts (data s)))"
        if "posts_ok (st_BlogPosts (data s))"
        using that found ok free by (intro posts_ok_update [OF _ Some]) (auto simp: post_ok_def published_at_def)
      with True valid Some show ?thesis
        by (simp add: Store_UpsertBlogPost_def Let_def) (intro blog_onlyI, auto simp: suffix_ConsI)
    qed
  qed
qed

lemma Store_DeleteBlogPost_effect: "blog_only (data s) (data (fst (Store_DeleteBlogPost e s i actor)))"
proof (cases "find (\<lambda>p. bp_ID p = i) (st_BlogPosts (data s))")
  case (Some p)
  then show ?thesis
    by (simp add: Store_DeleteBlogPost_def Let_def)
       (intro blog_onlyI, rule posts_ok_subset, auto simp: suffix_ConsI dest: subsetD [OF set_delete_first])
qed (simp add: Store_DeleteBlogPost_def)

lemmas blog_ops = Store_UpsertBlogPost_effect Store_DeleteBlogPost_effect

end
