(* ===== verification/Store_Steps.thy ===== *)
theory Store_Steps
  imports Projects Models Registry Tokens Blog
begin

text \<open>
  The file-backed repository as a state machine: one rule of \<open>store_step\<close> for every method
  of \<open>*Store\<close> that changes state, each with an arbitrary environment and arbitrary
  arguments, so the reachable stores are those of any sequence of calls (the mutex serialises
  them). The invariants of the components are combined into \<open>store_ok\<close>, and the facts no
  later call can undo are stated as interpretations of \<open>sticky_fact\<close>.
\<close>

inductive store_step :: "Store \<Rightarrow> Store \<Rightarrow> bool" where
  create_project: "store_step s (fst (Store_CreateProject e s cpr actors))"
| set_project_repository: "store_step s (fst (Store_SetProjectRepository e s i spr actor))"
| upsert_pipeline_definition: "store_step s (fst (Store_UpsertPipelineDefinition e s i upd actor))"
| upsert_function: "store_step s (fst (Store_UpsertFunction e s dfr owner actor))"
| delete_function: "store_step s (fst (Store_DeleteFunction e s name actor))"
| submit_pipeline: "store_step s (fst (Store_SubmitPipeline e s sub actors))"
| cancel_run: "store_step s (fst (Store_CancelRun e s i actor))"
| retry_run: "store_step s (fst (Store_RetryRun e s i actor))"
| set_run_engine: "store_step s (fst (Store_SetRunEngine e s i engine))"
| update_run_step: "store_step s (fst (Store_UpdateRunStep e s i usr actor))"
| register_model: "store_step s (fst (Store_RegisterModel e s rmr actor))"
| promote_model: "store_step s (fst (Store_PromoteModel e s i stage actor))"
| deploy_model: "store_step s (fst (Store_DeployModel e s i weight actor))"
| set_model_endpoint: "store_step s (fst (Store_SetModelEndpoint e s i endpoint status))"
| rollback_model: "store_step s (fst (Store_RollbackModel e s i actor))"
| deploy_agent: "store_step s (fst (Store_DeployAgent e s dar actor))"
| set_agent_traffic: "store_step s (fst (Store_SetAgentTraffic e s i weight actor))"
| record_trace: "store_step s (fst (Store_RecordTrace e s rec))"
| apply_feature_view: "store_step s (fst (Store_ApplyFeatureView e s afv actor))"
| report_materialization: "store_step s (fst (Store_ReportMaterialization e s name n actor))"
| register_tool: "store_step s (fst (Store_RegisterTool e s rtr actor))"
| create_connection: "store_step s (fst (Store_CreateConnection e s ccr actor))"
| update_connection_status: "store_step s (fst (Store_UpdateConnectionStatus e s i status message actor))"
| upsert_user_access: "store_step s (fst (Store_UpsertUserAccess e s subject uar actor))"
| delete_user_access: "store_step s (fst (Store_DeleteUserAccess e s subject actor))"
| create_access_request: "store_step s (fst (Store_CreateAccessRequest e s subject email car))"
| review_access_request: "store_step s (fst (Store_ReviewAccessRequest e s i rar reviewer))"
| create_api_token: "store_step s (fst (Store_CreateAPIToken e s subject ctr))"
| revoke_api_token: "store_step s (fst (Store_RevokeAPIToken e s subject i))"
| resolve_api_token: "store_step s (fst (Store_ResolveAPIToken e s secret))"
| upsert_blog_post: "store_step s (fst (Store_UpsertBlogPost e s i ubr actor))"
| delete_blog_post: "store_step s (fst (Store_DeleteBlogPost e s i actor))"

text \<open>
  The start states: \<open>New\<close> in memory, on a path with no file, or on a file that cannot be
  read; all of them carry the demo project.
\<close>

definition store_start :: "Store \<Rightarrow> bool" where
  "store_start s \<longleftrightarrow> (\<exists>e dsk ps. s = Store_New e dsk ps \<and>
     (first_or_empty ps = [] \<or> read_err e \<noteq> None \<or> dsk (first_or_empty ps) = None))"

lemma store_start_data:
  "store_start s \<Longrightarrow> \<exists>t. data s = zero_state\<lparr>st_Projects := [demo_project t], st_Runs := [demo_run t]\<rparr>"
  by (auto simp: store_start_def Store_New_def load_def Let_def zero_state_def split: option.splits)

subsection \<open>Every step is a step of one component\<close>

definition component_step :: "state \<Rightarrow> state \<Rightarrow> bool" where
  "component_step d d' \<longleftrightarrow> projects_only d d' \<or> definitions_only d d' \<or> functions_only d d' \<or> runs_only d d' \<or>
     models_only d d' \<or> registry_only d d' \<or> access_only d d' \<or> tokens_only d d' \<or> blog_only d d'"

lemma store_step_component: "store_step s t \<Longrightarrow> component_step (data s) (data t)"
  by (induction rule: store_step.induct)
     (simp_all add: component_step_def workload_ops run_ops model_ops registry_ops access_ops token_ops blog_ops)

lemma component_audit: "component_step d d' \<Longrightarrow> suffix (st_Audit d) (st_Audit d')"
  by (auto simp: component_step_def projects_only_def definitions_only_def functions_only_def runs_only_def
      models_only_def registry_only_def access_only_def tokens_only_def blog_only_def)

subsection \<open>The invariant\<close>

definition store_ok :: "state \<Rightarrow> bool" where
  "store_ok d \<longleftrightarrow> projects_ok (st_Projects d) \<and> definitions_ok (st_Projects d) (st_Definitions d) \<and>
     functions_ok (st_Projects d) (st_Functions d) \<and>
     (\<forall>r \<in> set (st_Runs d). run_ok r \<and> hasProject (st_Projects d) (run_ProjectID r)) \<and>
     models_ok (st_Projects d) (st_Models d) \<and> registry_ok d \<and> access_ok d \<and>
     (\<forall>t \<in> set (st_APITokens d). token_ok t) \<and> posts_ok (st_BlogPosts d)"

lemma hasProject_mono: "prj_ID ` set ps \<subseteq> prj_ID ` set qs \<Longrightarrow> hasProject ps i \<Longrightarrow> hasProject qs i"
  by (auto simp: hasProject_iff)

lemma projects_step_ok:
  assumes "projects_only d d'" and ok: "store_ok d"
  shows "store_ok d'"
proof -
  define ps where "ps = st_Projects d'"
  have d': "d' = d\<lparr>st_Projects := ps, st_Audit := st_Audit d'\<rparr>" and "projects_ok ps"
    and sub: "prj_ID ` set (st_Projects d) \<subseteq> prj_ID ` set ps"
    using assms by (auto simp: projects_only_def store_ok_def ps_def)
  note mono = hasProject_mono [OF sub]
  have "definitions_ok ps (st_Definitions d)" "functions_ok ps (st_Functions d)" "models_ok ps (st_Models d)"
    "\<forall>r \<in> set (st_Runs d). run_ok r \<and> hasProject ps (run_ProjectID r)"
    using ok mono by (auto simp: store_ok_def definitions_ok_def functions_ok_def models_ok_def)
  moreover have "registry_ok (d\<lparr>st_Projects := ps, st_Audit := a\<rparr>)" "access_ok (d\<lparr>st_Projects := ps, st_Audit := a\<rparr>)" for a
    using ok mono by (auto simp: store_ok_def registry_ok_def access_ok_def)
  ultimately show ?thesis
    using ok \<open>projects_ok ps\<close> by (subst d') (simp add: store_ok_def)
qed

lemma run_effect_projects:
  assumes "run_effect d rs rs'" and "\<forall>r \<in> set rs. hasProject (st_Projects d) (run_ProjectID r)"
  shows "\<forall>r \<in> set rs'. hasProject (st_Projects d) (run_ProjectID r)"
proof -
  have "run_ProjectID (report_step t req r) = run_ProjectID r" for t req r
    by (simp add: report_step_def Let_def applyStepTransition_spec)
  with assms show ?thesis
    by (induction rule: run_effect.induct) (auto dest!: set_update_first find_SomeD)
qed

lemma runs_step_ok:
  assumes "runs_only d d'" and ok: "store_ok d"
  shows "store_ok d'"
proof -
  define rs where "rs = st_Runs d'"
  have d': "d' = d\<lparr>st_Runs := rs, st_Audit := st_Audit d'\<rparr>" and eff: "run_effect d (st_Runs d) rs"
    using assms by (auto simp: runs_only_def rs_def)
  have "\<forall>def \<in> set (st_Definitions d). pd_Jobs def \<noteq> []"
    using ok by (auto simp: store_ok_def definitions_ok_def definition_ok_def as_request_def)
  with run_effect_ok [OF eff] run_effect_projects [OF eff] ok
  have "\<forall>r \<in> set rs. run_ok r \<and> hasProject (st_Projects d) (run_ProjectID r)" by (auto simp: store_ok_def)
  with ok show ?thesis by (subst d') (simp add: store_ok_def registry_ok_def access_ok_def)
qed

lemma ok_unaffected [simp]:
  "registry_ok (d\<lparr>st_Audit := a\<rparr>) = registry_ok d" "access_ok (d\<lparr>st_Audit := a\<rparr>) = access_ok d"
  "registry_ok (d\<lparr>st_Definitions := x1\<rparr>) = registry_ok d" "access_ok (d\<lparr>st_Definitions := x1\<rparr>) = access_ok d"
  "registry_ok (d\<lparr>st_Functions := x2\<rparr>) = registry_ok d" "access_ok (d\<lparr>st_Functions := x2\<rparr>) = access_ok d"
  "registry_ok (d\<lparr>st_Models := x3\<rparr>) = registry_ok d" "access_ok (d\<lparr>st_Models := x3\<rparr>) = access_ok d"
  "registry_ok (d\<lparr>st_APITokens := x4\<rparr>) = registry_ok d" "access_ok (d\<lparr>st_APITokens := x4\<rparr>) = access_ok d"
  "registry_ok (d\<lparr>st_BlogPosts := x5\<rparr>) = registry_ok d" "access_ok (d\<lparr>st_BlogPosts := x5\<rparr>) = access_ok d"
  "registry_ok (d\<lparr>st_Runs := x6\<rparr>) = registry_ok d" "access_ok (d\<lparr>st_Runs := x6\<rparr>) = access_ok d"
  by (simp_all add: registry_ok_def access_ok_def)

lemma other_step_ok:
  assumes "definitions_only d d' \<or> functions_only d d' \<or> models_only d d' \<or> tokens_only d d' \<or> blog_only d d'"
    and ok: "store_ok d"
  shows "store_ok d'"
  using assms(1)
proof (elim disjE)
  assume *: "definitions_only d d'"
  have d': "d' = d\<lparr>st_Definitions := st_Definitions d', st_Audit := st_Audit d'\<rparr>" and new: "definitions_ok (st_Projects d) (st_Definitions d')"
    using * ok by (simp_all add: definitions_only_def store_ok_def)
  show ?thesis using ok new by (subst d') (simp add: store_ok_def)
next
  assume *: "functions_only d d'"
  have d': "d' = d\<lparr>st_Functions := st_Functions d', st_Audit := st_Audit d'\<rparr>" and new: "functions_ok (st_Projects d) (st_Functions d')"
    using * ok by (simp_all add: functions_only_def store_ok_def)
  show ?thesis using ok new by (subst d') (simp add: store_ok_def)
next
  assume *: "models_only d d'"
  have d': "d' = d\<lparr>st_Models := st_Models d', st_Audit := st_Audit d'\<rparr>" and new: "models_ok (st_Projects d) (st_Models d')"
    using * ok by (simp_all add: models_only_def store_ok_def)
  show ?thesis using ok new by (subst d') (simp add: store_ok_def)
next
  assume *: "tokens_only d d'"
  have d': "d' = d\<lparr>st_APITokens := st_APITokens d', st_Audit := st_Audit d'\<rparr>" and new: "\<forall>t \<in> set (st_APITokens d'). token_ok t"
    using * ok by (simp_all add: tokens_only_def store_ok_def)
  show ?thesis using ok new by (subst d') (simp add: store_ok_def)
next
  assume *: "blog_only d d'"
  have d': "d' = d\<lparr>st_BlogPosts := st_BlogPosts d', st_Audit := st_Audit d'\<rparr>" and new: "posts_ok (st_BlogPosts d')"
    using * ok by (simp_all add: blog_only_def store_ok_def)
  show ?thesis using ok new by (subst d') (simp add: store_ok_def)
qed

lemma registry_step_ok:
  assumes "registry_only d d'" and ok: "store_ok d"
  shows "store_ok d'"
proof -
  have d': "d' = d\<lparr>st_Agents := st_Agents d', st_Sessions := st_Sessions d', st_Traces := st_Traces d',
      st_Features := st_Features d', st_Tools := st_Tools d', st_Connections := st_Connections d',
      st_Audit := st_Audit d'\<rparr>" and new: "registry_ok d'"
    using assms by (simp_all add: registry_only_def store_ok_def)
  note frame = arg_cong [OF d', of st_Projects] arg_cong [OF d', of st_Definitions] arg_cong [OF d', of st_Functions]
    arg_cong [OF d', of st_Runs] arg_cong [OF d', of st_Models] arg_cong [OF d', of st_UserAccess]
    arg_cong [OF d', of st_AccessRequests] arg_cong [OF d', of st_APITokens] arg_cong [OF d', of st_BlogPosts]
  show ?thesis using ok new frame by (simp add: store_ok_def access_ok_def)
qed

lemma access_step_ok:
  assumes "access_only d d'" and ok: "store_ok d"
  shows "store_ok d'"
proof -
  have d': "d' = d\<lparr>st_UserAccess := st_UserAccess d', st_AccessRequests := st_AccessRequests d', st_Audit := st_Audit d'\<rparr>"
    and new: "access_ok d'"
    using assms by (simp_all add: access_only_def store_ok_def)
  note frame = arg_cong [OF d', of st_Projects] arg_cong [OF d', of st_Definitions] arg_cong [OF d', of st_Functions]
    arg_cong [OF d', of st_Runs] arg_cong [OF d', of st_Models] arg_cong [OF d', of st_APITokens]
    arg_cong [OF d', of st_BlogPosts] arg_cong [OF d', of st_Agents] arg_cong [OF d', of st_Sessions]
    arg_cong [OF d', of st_Features] arg_cong [OF d', of st_Tools] arg_cong [OF d', of st_Connections]
  show ?thesis using ok new frame by (simp add: store_ok_def registry_ok_def)
qed

lemma component_step_ok: "component_step d d' \<Longrightarrow> store_ok d \<Longrightarrow> store_ok d'"
  unfolding component_step_def
  using projects_step_ok runs_step_ok other_step_ok registry_step_ok access_step_ok by blast

lemma TrimSpace_demo: "TrimSpace ''Fraud detection starter'' = ''Fraud detection starter''"
  by code_simp

lemma slug_shaped_demo: "slug_shaped ''team-demo''"
  by code_simp

lemma demo_ok: "store_ok (zero_state\<lparr>st_Projects := [demo_project t], st_Runs := [demo_run t]\<rparr>)"
proof -
  have "run_ok (demo_run t)"
    by (simp add: run_ok_def demo_run_def zero_PipelineRun_def defaultSteps_def default_step_def Let_def
        validStepStatus_def step_progress_def step_done_def)
  moreover have "hasProject [demo_project t] (run_ProjectID (demo_run t))"
    by (simp add: hasProject_def demo_project_def demo_run_def)
  moreover have "project_ok (demo_project t)"
    by (simp add: project_ok_def demo_project_def TrimSpace_demo slug_shaped_demo)
  ultimately show ?thesis
    by (simp add: store_ok_def zero_state_def projects_ok_def definitions_ok_def functions_ok_def models_ok_def
        registry_ok_def access_ok_def pending_subjects_def posts_ok_def)
qed

subsection \<open>Interpretations\<close>

interpretation store_inv: transition_invariant store_start store_step "\<lambda>s. store_ok (data s)"
proof
  show "store_start s \<Longrightarrow> store_ok (data s)" for s
    using store_start_data [of s] demo_ok by auto
  show "store_step s t \<Longrightarrow> store_ok (data s) \<Longrightarrow> store_ok (data t)" for s t
    by (rule component_step_ok [OF store_step_component])
qed

interpretation audit_log: sticky_fact store_step "\<lambda>es s. suffix es (st_Audit (data s))"
proof
  show "store_step s t \<Longrightarrow> suffix k (st_Audit (data s)) \<Longrightarrow> suffix k (st_Audit (data t))" for s t k
    using component_audit [OF store_step_component, of s t] suffix_order.order_trans by blast
qed

lemmas component_defs = component_step_def projects_only_def definitions_only_def functions_only_def
  models_only_def registry_only_def access_only_def tokens_only_def blog_only_def runs_only_def

lemma component_runs:
  assumes "component_step d d'"
  shows "run_effect d (st_Runs d) (st_Runs d') \<or> st_Runs d' = st_Runs d"
  using assms unfolding component_defs
  by - (elim disjE conjE; (rule disjI1, assumption | drule arg_cong [of _ _ st_Runs], simp))

lemma component_tokens:
  assumes "component_step d d'"
  shows "tokens_grow (st_APITokens d) (st_APITokens d')"
  using assms unfolding component_defs
  by - (elim disjE conjE; (assumption | drule arg_cong [of _ _ st_APITokens], simp))

lemma component_requests:
  assumes "component_step d d'" and "r \<in> set (st_AccessRequests d)" and "ar_Status r \<noteq> ''pending''"
  shows "r \<in> set (st_AccessRequests d')"
  using assms unfolding component_defs
  by - (elim disjE conjE; (drule (1) bspec, simp | drule arg_cong [of _ _ st_AccessRequests], simp))

lemma component_projects:
  assumes "component_step d d'"
  shows "prj_ID ` set (st_Projects d) \<subseteq> prj_ID ` set (st_Projects d')"
  using assms unfolding component_defs
  by - (elim disjE conjE; (assumption | drule arg_cong [of _ _ st_Projects], simp))

interpretation finished_run: sticky_fact store_step "\<lambda>k s. run_frozen k (st_Runs (data s))"
proof
  show "run_frozen k (st_Runs (data t))" if "store_step s t" "run_frozen k (st_Runs (data s))" for s t k
    using component_runs [OF store_step_component [OF that(1)]] that(2) by (auto intro: run_effect_frozen)
qed

interpretation reviewed_request: sticky_fact store_step
  "\<lambda>r s. ar_Status r \<noteq> ''pending'' \<and> r \<in> set (st_AccessRequests (data s))"
  by unfold_locales (simp add: component_requests [OF store_step_component])

interpretation issued_project: sticky_fact store_step "\<lambda>i s. hasProject (st_Projects (data s)) i"
  by unfold_locales (rule hasProject_mono [OF component_projects [OF store_step_component]])

lemma component_accounts:
  assumes "projects_only d d' \<or> definitions_only d d' \<or> functions_only d d' \<or> runs_only d d' \<or>
     models_only d d' \<or> access_only d d' \<or> tokens_only d d' \<or> blog_only d d'" and "accounts_ok d"
  shows "accounts_ok d'"
proof (rule accounts_frame [OF _ _ assms(2)])
  show "st_Sessions d' = st_Sessions d"
    using assms(1) unfolding component_defs by - (elim disjE conjE; drule arg_cong [of _ _ st_Sessions], simp)
  show "st_Traces d' = st_Traces d"
    using assms(1) unfolding component_defs by - (elim disjE conjE; drule arg_cong [of _ _ st_Traces], simp)
qed

lemma store_step_accounts: "store_step s t \<Longrightarrow> accounts_ok (data s) \<Longrightarrow> accounts_ok (data t)"
  by (induction rule: store_step.induct)
    ((erule registry_accounts Store_RecordTrace_accounts |
      erule component_accounts [rotated], simp add: workload_ops run_ops model_ops access_ops token_ops blog_ops)+)

interpretation accounts: transition_invariant store_start store_step "\<lambda>s. accounts_ok (data s)"
proof
  show "store_start s \<Longrightarrow> accounts_ok (data s)" for s
    using store_start_data [of s] by (auto simp: accounts_ok_def zero_state_def)
qed (rule store_step_accounts)

text \<open>
  Revocation is final. \<open>avoids h\<close> is a step that does not issue a new token with the digest
  \<open>h\<close> (a fresh secret with the digest of another one is a SHA-256 collision).
\<close>

definition avoids :: "string \<Rightarrow> Store \<Rightarrow> Store \<Rightarrow> bool" where
  "avoids h s t \<longleftrightarrow> store_step s t \<and>
     length (filter (\<lambda>x. tok_SecretHash x = h) (st_APITokens (data t))) =
     length (filter (\<lambda>x. tok_SecretHash x = h) (st_APITokens (data s)))"

definition all_revoked :: "string \<Rightarrow> Store \<Rightarrow> bool" where
  "all_revoked h s \<longleftrightarrow> (\<forall>x \<in> set (st_APITokens (data s)). tok_SecretHash x = h \<longrightarrow> tok_RevokedAt x \<noteq> None)"

lemma list_all2_token_le_hash:
  "list_all2 token_le ts rest \<Longrightarrow>
     length (filter (\<lambda>x. tok_SecretHash x = h) rest) = length (filter (\<lambda>x. tok_SecretHash x = h) ts)"
  by (induction rule: list_all2_induct) (auto simp: token_le_def token_core_def)

lemma list_all2_token_le_revoked:
  "list_all2 token_le ts rest \<Longrightarrow> \<forall>x \<in> set ts. tok_SecretHash x = h \<longrightarrow> tok_RevokedAt x \<noteq> None \<Longrightarrow>
     \<forall>x \<in> set rest. tok_SecretHash x = h \<longrightarrow> tok_RevokedAt x \<noteq> None"
  by (induction rule: list_all2_induct) (auto simp: token_le_def token_core_def)

lemma avoids_revoked:
  assumes "avoids h s t" and "all_revoked h s"
  shows "all_revoked h t"
proof -
  from assms(1) have "tokens_grow (st_APITokens (data s)) (st_APITokens (data t))"
    by (auto simp: avoids_def intro: component_tokens store_step_component)
  then obtain new rest where split: "st_APITokens (data t) = new @ rest"
    and le: "list_all2 token_le (st_APITokens (data s)) rest" by (auto simp: tokens_grow_def)
  have "filter (\<lambda>x. tok_SecretHash x = h) new = []"
    using assms(1) split list_all2_token_le_hash [OF le, of h] by (simp add: avoids_def)
  then have "\<forall>x \<in> set new. tok_SecretHash x \<noteq> h" by (simp add: filter_empty_conv)
  with list_all2_token_le_revoked [OF le] assms(2) split show ?thesis by (auto simp: all_revoked_def)
qed

lemma avoids_steps: "(avoids h)\<^sup>*\<^sup>* s t \<Longrightarrow> all_revoked h s \<Longrightarrow> all_revoked h t"
  by (induction rule: rtranclp_induct) (auto intro: avoids_revoked)

end
