(* ===== verification/Auth.thy ===== *)
theory Auth
  imports Access Go_Url
begin

text \<open>
  Authentication and authorisation of \<^verbatim>\<open>go/internal/auth\<close>: the role table \<open>Allowed\<close>, the
  three middlewares (personal API tokens, OIDC, role-based access control) and their
  composition in \<^verbatim>\<open>go/cmd/gateway/main.go\<close>. A middleware is a function from the request
  and the principal found on the context so far to an \<open>outcome\<close>: pass the request on with a
  principal, or answer it. \<open>Verify\<close> is modelled after the third-party JWT library: the
  parameter \<open>jwt\<close> gives the claims of a token the library accepts under the configured
  options (issuer, audience, expiry, RS256 with a key of the JWKS).
\<close>

record Principal =
  pr_Subject :: string
  pr_Email :: string
  pr_Tenant :: string
  pr_Roles :: "string list"
  pr_Namespaces :: "string list"
  pr_Services :: "string list"
  pr_ProjectIDs :: "string list"
  pr_Disabled :: bool
  pr_Provisioned :: bool
  pr_Credential :: string

definition zero_Principal :: Principal where
  "zero_Principal = \<lparr>pr_Subject = [], pr_Email = [], pr_Tenant = [], pr_Roles = [], pr_Namespaces = [],
     pr_Services = [], pr_ProjectIDs = [], pr_Disabled = False, pr_Provisioned = False, pr_Credential = []\<rparr>"

subsection \<open>The role table\<close>

definition hasRole :: "Principal \<Rightarrow> string \<Rightarrow> bool" where
  "hasRole p expected = list_ex (\<lambda>role. role = expected) (pr_Roles p)"

definition hasService :: "string list \<Rightarrow> string \<Rightarrow> bool" where
  "hasService services expected \<longleftrightarrow> expected \<noteq> [] \<and> list_ex (\<lambda>service. service = expected) services"

definition hasAnyPrefix :: "string \<Rightarrow> string list \<Rightarrow> bool" where
  "hasAnyPrefix path pres = list_ex (\<lambda>pre. HasPrefix path pre) pres"

definition engineerWrite :: "string list" where
  "engineerWrite = [''/api/v1/projects'', ''/api/v1/pipelines'', ''/api/v1/models'', ''/api/v1/agents'',
     ''/api/v1/tools'', ''/api/v1/features'', ''/api/v1/traces'', ''/api/v1/functions'', ''/api/v1/realtime'']"

definition serviceWrite :: "string list" where
  "serviceWrite = [''/api/v1/traces'', ''/api/v1/pipelines/runs'', ''/api/v1/features'', ''/api/v1/realtime'']"

definition userWrite :: "string list" where
  "userWrite = [''/api/v1/projects'', ''/api/v1/pipelines'', ''/api/v1/models'', ''/api/v1/agents'',
     ''/api/v1/tools'', ''/api/v1/features'', ''/api/v1/traces'', ''/api/v1/functions'', ''/api/v1/realtime'']"

definition machineReportingPath :: "string \<Rightarrow> bool" where
  "machineReportingPath path \<longleftrightarrow> path = ''/api/v1/traces'' \<or>
     (HasPrefix path ''/api/v1/pipelines/runs/'' \<and> HasSuffix path ''/steps'') \<or>
     (HasPrefix path ''/api/v1/features/'' \<and> HasSuffix path ''/materialized'') \<or>
     HasPrefix path ''/api/v1/realtime/''"

definition serviceForPath :: "string \<Rightarrow> string" where
  "serviceForPath path =
     (if path = ''/api/v1/dashboard'' \<or> path = ''/api/v1/onboarding/readiness'' \<or> path = ''/api/v1/events'' then ''overview''
      else if HasPrefix path ''/api/v1/projects/'' \<and> HasSuffix path ''/repository'' then ''git''
      else if HasPrefix path ''/api/v1/projects'' then ''projects''
      else if HasPrefix path ''/api/v1/pipelines'' then ''pipelines''
      else if HasPrefix path ''/api/v1/models'' then ''models''
      else if HasPrefix path ''/api/v1/agents'' \<or> HasPrefix path ''/api/v1/traces'' then ''agents''
      else if HasPrefix path ''/api/v1/features'' then ''features''
      else if HasPrefix path ''/api/v1/storage'' then ''storage''
      else if HasPrefix path ''/api/v1/realtime'' then ''realtime''
      else if HasPrefix path ''/api/v1/catalog'' \<or> HasPrefix path ''/api/v1/tools'' \<or> HasPrefix path ''/api/v1/prompts'' then ''catalog''
      else if HasPrefix path ''/api/v1/components'' \<or> HasPrefix path ''/api/v1/connections'' then ''platform''
      else if HasPrefix path ''/api/v1/functions'' then ''functions''
      else [])"

definition is_read :: "string \<Rightarrow> bool" where
  "is_read m \<longleftrightarrow> m = ''GET'' \<or> m = ''HEAD'' \<or> m = ''OPTIONS''"

text \<open>The loop over the roles: some cases decide, the others fall through to the next role.\<close>

fun roles_allow :: "Principal \<Rightarrow> string \<Rightarrow> string \<Rightarrow> string list \<Rightarrow> bool" where
  "roles_allow p m path [] = False"
| "roles_allow p m path (role # roles) =
     (if role = ''admin'' \<or> role = ''operator'' then True
      else if role = ''user'' then
        (if path = ''/api/v1/me'' then True
         else if \<not> is_read m \<and> machineReportingPath path then False
         else pr_Provisioned p \<and> hasService (pr_Services p) (serviceForPath path) \<and>
              (is_read m \<or> hasAnyPrefix path userWrite))
      else if role = ''viewer'' \<and> is_read m then True
      else if role = ''engineer'' \<and> (is_read m \<or> hasAnyPrefix path engineerWrite) then True
      else if role = ''service'' \<and> (is_read m \<or> hasAnyPrefix path serviceWrite) then True
      else roles_allow p m path roles)"

definition Allowed :: "Principal \<Rightarrow> string \<Rightarrow> string \<Rightarrow> bool" where
  "Allowed p m path =
     (if pr_Disabled p then False
      else if HasPrefix path ''/api/v1/admin/'' then hasRole p ''admin'' \<or> hasRole p ''operator''
      else if m = ''GET'' \<and> (path = ''/api/v1/blogs'' \<or> HasPrefix path ''/api/v1/blogs/'') then True
      else if HasPrefix path ''/api/v1/settings/''
        then \<not> hasRole p ''service'' \<and> pr_Credential p \<noteq> ''api_token'' \<and> length (pr_Roles p) > 0
      else if path = ''/api/v1/access-requests'' \<and> (m = ''GET'' \<or> m = ''POST'')
        then \<not> hasRole p ''service'' \<and> length (pr_Roles p) > 0
      else roles_allow p m path (pr_Roles p))"

definition Permissions :: "Principal \<Rightarrow> (string \<times> bool) list" where
  "Permissions p = [
    (''projects_write'', Allowed p ''POST'' ''/api/v1/projects''),
    (''pipelines_write'', Allowed p ''POST'' ''/api/v1/pipelines/submit''),
    (''models_write'', Allowed p ''POST'' ''/api/v1/models''),
    (''agents_write'', Allowed p ''POST'' ''/api/v1/agents''),
    (''tools_write'', Allowed p ''POST'' ''/api/v1/tools''),
    (''features_write'', Allowed p ''POST'' ''/api/v1/features''),
    (''functions_write'', Allowed p ''POST'' ''/api/v1/functions''),
    (''git_write'', Allowed p ''PUT'' ''/api/v1/projects/example/repository''),
    (''connections_write'', Allowed p ''POST'' ''/api/v1/connections''),
    (''access_manage'', Allowed p ''PUT'' ''/api/v1/admin/users/example'')]"

subsection \<open>Requests and middlewares\<close>

record request =
  rq_Method :: string
  rq_Path :: string
  rq_URI :: string
  rq_Authorization :: string
  rq_Session :: "string option"

datatype outcome =
    Forward "Principal option"
  | Respond int string
  | Redirect string

record auth_env =
  internal_token :: string \<comment> \<open>\<open>MLAIOPS_INTERNAL_TOKEN\<close>\<close>
  local_role :: string \<comment> \<open>\<open>MLAIOPS_LOCAL_ROLE\<close>\<close>

definition bearer :: "request \<Rightarrow> string" where
  "bearer r = TrimSpace (TrimPrefix (rq_Authorization r) ''Bearer '')"

definition publicPath :: "string \<Rightarrow> string \<Rightarrow> bool" where
  "publicPath m path =
     (if m = ''GET'' \<and> (path = ''/api/v1/blogs'' \<or> HasPrefix path ''/api/v1/blogs/'') then True
      else if List.member [''/'', ''/index.html'', ''/landing.css'', ''/landing.js'', ''/api/v1/health'',
          ''/api/openapi.json'', ''/api-docs.html'', ''/api-docs.css'', ''/api-docs.js'',
          ''/blogs.html'', ''/blog.html'', ''/blog.css'', ''/blog.js''] path then True
      else HasPrefix path ''/auth/'')"

definition servicePrincipal :: "auth_env \<Rightarrow> string \<Rightarrow> Principal option" where
  "servicePrincipal ae bear =
     (if internal_token ae = [] \<or> bear \<noteq> internal_token ae then None
      else Some (zero_Principal\<lparr>pr_Subject := ''internal-service'', pr_Roles := [''service'']\<rparr>))"

definition APITokenMiddleware :: "(string \<Rightarrow> APIToken ret) \<Rightarrow> request \<Rightarrow> Principal option \<Rightarrow> outcome" where
  "APITokenMiddleware resolve r ctx =
     (if \<not> HasPrefix (bearer r) ''nxs_'' then Forward ctx
      else case resolve (bearer r) of
        (_, Some _) \<Rightarrow> Respond 401 ''invalid API token''
      | (token, None) \<Rightarrow> Forward (Some (zero_Principal\<lparr>pr_Subject := tok_Subject token, pr_Roles := [''user''],
          pr_Services := tok_Services token, pr_ProjectIDs := tok_ProjectIDs token, pr_Provisioned := True,
          pr_Credential := ''api_token''\<rparr>)))"

record Claims =
  cl_Subject :: string
  cl_Email :: string
  cl_Tenant :: string
  cl_Roles :: "string list"
  cl_Groups :: "string list"
  cl_Namespaces :: "string list"

definition Verify :: "(string \<Rightarrow> Claims option) \<Rightarrow> string \<Rightarrow> string \<Rightarrow> Principal ret" where
  "Verify jwt tenant raw =
     (case jwt raw of
        None \<Rightarrow> (zero_Principal, Some (Err ''token validation failed''))
      | Some claims \<Rightarrow>
          if tenant \<noteq> [] \<and> cl_Tenant claims \<noteq> tenant then (zero_Principal, Some (Err ''tenant mismatch''))
          else (zero_Principal\<lparr>pr_Subject := cl_Subject claims, pr_Email := cl_Email claims,
                  pr_Tenant := cl_Tenant claims,
                  pr_Roles := (if length (cl_Roles claims) = 0 then cl_Groups claims else cl_Roles claims),
                  pr_Namespaces := cl_Namespaces claims\<rparr>, None))"

text \<open>\<open>Verifier.Middleware\<close>.\<close>

definition Middleware ::
  "auth_env \<Rightarrow> (string \<Rightarrow> Principal ret) \<Rightarrow> request \<Rightarrow> Principal option \<Rightarrow> outcome" where
  "Middleware ae verify r ctx =
     (if publicPath (rq_Method r) (rq_Path r) then Forward ctx
      else if ctx \<noteq> None then Forward ctx
      else let token0 = bearer r;
               token = (if token0 = [] then (case rq_Session r of Some v \<Rightarrow> v | None \<Rightarrow> []) else token0)
           in if token = [] then
                (if \<not> HasPrefix (rq_Path r) ''/api/'' then Redirect (''/auth/login?return_to='' @ QueryEscape (rq_URI r))
                 else Respond 401 ''missing bearer token'')
              else case servicePrincipal ae token of
                Some service \<Rightarrow> Forward (Some service)
              | None \<Rightarrow> (case verify token of
                  (_, Some _) \<Rightarrow> Respond 401 ''invalid bearer token''
                | (p, None) \<Rightarrow> Forward (Some p)))"

text \<open>
  \<open>RBACWithResolver\<close>. The resolver built in \<^verbatim>\<open>httpapi.New\<close> turns the stored grant of a
  subject into roles, services, projects and the disabled flag.
\<close>

type_synonym access_resolver = "string \<Rightarrow> (string list \<times> string list \<times> string list \<times> bool) option"

definition store_resolver :: "(string \<Rightarrow> UserAccess ret) \<Rightarrow> access_resolver" where
  "store_resolver accessFor subject =
     (case accessFor subject of
        (_, Some _) \<Rightarrow> None
      | (access, None) \<Rightarrow> Some ([ua_Role access], ua_Services access, ua_ProjectIDs access, ua_Disabled access))"

definition default_principal :: "auth_env \<Rightarrow> request \<Rightarrow> Principal" where
  "default_principal ae r =
     (case servicePrincipal ae (bearer r) of
        Some service \<Rightarrow> service
      | None \<Rightarrow>
          (let role = TrimSpace (local_role ae)
           in zero_Principal\<lparr>pr_Subject := ''local-dev'', pr_Roles := [if role = [] then ''admin'' else role]\<rparr>))"

definition resolved_principal :: "access_resolver option \<Rightarrow> Principal \<Rightarrow> Principal" where
  "resolved_principal resolver p =
     (case resolver of None \<Rightarrow> p
      | Some resolve \<Rightarrow>
          if pr_Subject p \<noteq> [] \<and> \<not> hasRole p ''service'' \<and> pr_Credential p \<noteq> ''api_token'' then
            (case resolve (pr_Subject p) of
               Some (roles, services, projectIDs, disabled) \<Rightarrow>
                 p\<lparr>pr_Roles := roles, pr_Services := services, pr_ProjectIDs := projectIDs,
                   pr_Disabled := disabled, pr_Provisioned := True\<rparr>
             | None \<Rightarrow> p)
          else p)"

definition RBACWithResolver ::
  "auth_env \<Rightarrow> access_resolver option \<Rightarrow> request \<Rightarrow> Principal option \<Rightarrow> outcome" where
  "RBACWithResolver ae resolver r ctx =
     (if \<not> HasPrefix (rq_Path r) ''/api/'' \<or> rq_Path r = ''/api/v1/health'' \<or> rq_Path r = ''/api/openapi.json''
        then Forward ctx
      else let p0 = (case ctx of Some p \<Rightarrow> p | None \<Rightarrow> default_principal ae r);
               p = resolved_principal resolver p0
           in if \<not> Allowed p (rq_Method r) (rq_Path r)
              then Respond 403 ''access is not provisioned for this service''
              else Forward (Some p))"

definition cors :: "request \<Rightarrow> Principal option \<Rightarrow> outcome" where
  "cors r ctx = (if rq_Method r = ''OPTIONS'' then Respond 204 [] else Forward ctx)"

definition and_then :: "outcome \<Rightarrow> (Principal option \<Rightarrow> outcome) \<Rightarrow> outcome" where
  "and_then out next = (case out of Forward ctx \<Rightarrow> next ctx | _ \<Rightarrow> out)"

text \<open>The chain of the gateway under OIDC, up to the request multiplexer (API paths only).\<close>

definition gateway_oidc ::
  "auth_env \<Rightarrow> (string \<Rightarrow> APIToken ret) \<Rightarrow> (string \<Rightarrow> Principal ret) \<Rightarrow> access_resolver \<Rightarrow> request \<Rightarrow> outcome" where
  "gateway_oidc ae resolveToken verify resolve r =
     and_then (APITokenMiddleware resolveToken r None) (\<lambda>ctx.
     and_then (Middleware ae verify r ctx) (\<lambda>ctx.
     and_then (cors r ctx) (\<lambda>ctx. RBACWithResolver ae (Some resolve) r ctx)))"

subsection \<open>Lemmas\<close>

lemma and_then_Forward: "and_then out k = Forward c \<longleftrightarrow> (\<exists>ctx. out = Forward ctx \<and> k ctx = Forward c)"
  by (cases out) (simp_all add: and_then_def)

lemma RBAC_allowed:
  assumes "RBACWithResolver ae resolver r ctx = Forward c" and "HasPrefix (rq_Path r) ''/api/''"
    and "rq_Path r \<noteq> ''/api/v1/health''" and "rq_Path r \<noteq> ''/api/openapi.json''"
  shows "\<exists>p. c = Some p \<and> Allowed p (rq_Method r) (rq_Path r) \<and>
     p = resolved_principal resolver (case ctx of Some p \<Rightarrow> p | None \<Rightarrow> default_principal ae r)"
  using assms by (auto simp: RBACWithResolver_def Let_def split: if_splits)

lemma Allowed_not_disabled: "Allowed p m path \<Longrightarrow> \<not> pr_Disabled p"
  by (simp add: Allowed_def split: if_splits)

lemma Allowed_admin: "Allowed p m path \<Longrightarrow> HasPrefix path ''/api/v1/admin/'' \<Longrightarrow> hasRole p ''admin'' \<or> hasRole p ''operator''"
  by (simp add: Allowed_def split: if_splits)

text \<open>Without the user role the loop is a disjunction over the roles: their order is irrelevant.\<close>

definition role_grants :: "string \<Rightarrow> string \<Rightarrow> string \<Rightarrow> bool" where
  "role_grants m path role \<longleftrightarrow> role = ''admin'' \<or> role = ''operator'' \<or> role = ''viewer'' \<and> is_read m \<or>
     role = ''engineer'' \<and> (is_read m \<or> hasAnyPrefix path engineerWrite) \<or>
     role = ''service'' \<and> (is_read m \<or> hasAnyPrefix path serviceWrite)"

lemma roles_allow_no_user:
  "''user'' \<notin> set roles \<Longrightarrow> roles_allow p m path roles \<longleftrightarrow> (\<exists>role \<in> set roles. role_grants m path role)"
proof (induction roles)
  case (Cons role roles)
  then have "role \<noteq> ''user''" by auto
  then have "roles_allow p m path (role # roles) \<longleftrightarrow> role_grants m path role \<or> roles_allow p m path roles"
    unfolding roles_allow.simps role_grants_def by argo
  with Cons show ?case by (simp del: roles_allow.simps)
qed simp

lemma hasRole_iff: "hasRole p role \<longleftrightarrow> role \<in> set (pr_Roles p)"
  by (auto simp: hasRole_def list_ex_iff)

text \<open>A personal token reaches only the services it was issued for.\<close>

definition token_scope :: "string list \<Rightarrow> string \<Rightarrow> string \<Rightarrow> bool" where
  "token_scope services m path \<longleftrightarrow> \<not> HasPrefix path ''/api/v1/admin/'' \<and> \<not> HasPrefix path ''/api/v1/settings/'' \<and>
     (path = ''/api/v1/me'' \<or> m = ''GET'' \<and> (path = ''/api/v1/blogs'' \<or> HasPrefix path ''/api/v1/blogs/'') \<or>
      path = ''/api/v1/access-requests'' \<and> (m = ''GET'' \<or> m = ''POST'') \<or>
      serviceForPath path \<in> set services \<and>
      (is_read m \<or> hasAnyPrefix path userWrite \<and> \<not> machineReportingPath path))"

lemma HasPrefix_clash:
  "HasPrefix s p \<Longrightarrow> HasPrefix s q \<Longrightarrow> prefix p q \<or> prefix q p"
  unfolding HasPrefix_iff_prefix by (rule prefix_same_cases)

lemma settings_not_blogs:
  "HasPrefix path ''/api/v1/settings/'' \<Longrightarrow> path \<noteq> ''/api/v1/blogs'' \<and> \<not> HasPrefix path ''/api/v1/blogs/''"
  using HasPrefix_clash [of path "''/api/v1/settings/''" "''/api/v1/blogs/''"] by (auto simp: HasPrefix_iff_prefix)

lemma Allowed_token:
  assumes "Allowed p m path" and "pr_Roles p = [''user'']" and "pr_Credential p = ''api_token''"
  shows "token_scope (pr_Services p) m path"
  using assms settings_not_blogs [of path]
  by (auto simp: Allowed_def token_scope_def hasRole_def hasService_def list_ex_iff split: if_splits)

subsection \<open>The chain of middlewares\<close>

lemma oidc_api:
  assumes "gateway_oidc ae rt verify resolve r = Forward c" and "HasPrefix (rq_Path r) ''/api/''"
    and "rq_Path r \<noteq> ''/api/v1/health''" and "rq_Path r \<noteq> ''/api/openapi.json''"
  obtains ctx0 ctx p where "APITokenMiddleware rt r None = Forward ctx0" "Middleware ae verify r ctx0 = Forward ctx"
    "c = Some p" "Allowed p (rq_Method r) (rq_Path r)"
    "p = resolved_principal (Some resolve) (case ctx of Some p \<Rightarrow> p | None \<Rightarrow> default_principal ae r)"
proof -
  from assms(1) obtain ctx0 ctx ctx' where m: "APITokenMiddleware rt r None = Forward ctx0"
      "Middleware ae verify r ctx0 = Forward ctx" "cors r ctx = Forward ctx'"
      "RBACWithResolver ae (Some resolve) r ctx' = Forward c"
    unfolding gateway_oidc_def and_then_Forward by blast
  from m(3) have "ctx' = ctx" by (simp add: cors_def split: if_splits)
  with RBAC_allowed [OF m(4) assms(2-4)] m(1,2) that show thesis by blast
qed

lemma resolved_grant:
  assumes "p = resolved_principal (Some (store_resolver (Store_AccessFor s))) p0"
    and "Store_AccessFor s (pr_Subject p) = (a, None)"
    and "pr_Subject p \<noteq> []" and "pr_Credential p \<noteq> ''api_token''" and "\<not> hasRole p0 ''service''"
  shows "pr_Roles p = [ua_Role a] \<and> pr_Services p = ua_Services a \<and> pr_ProjectIDs p = ua_ProjectIDs a \<and> pr_Disabled p = ua_Disabled a"
proof -
  have "pr_Subject p = pr_Subject p0" "pr_Credential p = pr_Credential p0"
    using assms(1) by (auto simp: resolved_principal_def split: option.splits)
  with assms show ?thesis by (auto simp: resolved_principal_def store_resolver_def split: prod.splits)
qed

lemma admin_not_public:
  assumes "HasPrefix path ''/api/v1/admin/''"
  shows "\<not> publicPath m path" "HasPrefix path ''/api/''" "path \<noteq> ''/api/v1/health''" "path \<noteq> ''/api/openapi.json''"
proof -
  from assms obtain z where z: "path = ''/api/v1/admin/'' @ z" by (auto simp: HasPrefix_iff_prefix prefix_def)
  show "\<not> publicPath m path" "HasPrefix path ''/api/''" "path \<noteq> ''/api/v1/health''" "path \<noteq> ''/api/openapi.json''"
    by (simp_all add: z publicPath_def HasPrefix_iff_prefix)
qed

lemma token_principal:
  assumes "APITokenMiddleware rt r None = Forward ctx" and "HasPrefix (bearer r) ''nxs_''"
  obtains t where "rt (bearer r) = (t, None)" "ctx = Some (zero_Principal\<lparr>pr_Subject := tok_Subject t, pr_Roles := [''user''],
          pr_Services := tok_Services t, pr_ProjectIDs := tok_ProjectIDs t, pr_Provisioned := True,
          pr_Credential := ''api_token''\<rparr>)"
  using assms by (auto simp: APITokenMiddleware_def split: prod.splits option.splits)

lemma Middleware_keeps: "Middleware ae verify r (Some p) = Forward ctx \<Longrightarrow> ctx = Some p"
  by (simp add: Middleware_def split: if_splits)

lemma resolved_token: "pr_Credential p = ''api_token'' \<Longrightarrow> resolved_principal resolver p = p"
  by (simp add: resolved_principal_def split: option.split)

lemma resolved_service: "hasRole p ''service'' \<Longrightarrow> resolved_principal resolver p = p"
  by (simp add: resolved_principal_def split: option.split)

lemma oidc_token:
  assumes "gateway_oidc ae rt verify resolve r = Forward c" and "HasPrefix (bearer r) ''nxs_''"
    and "HasPrefix (rq_Path r) ''/api/''" and "rq_Path r \<noteq> ''/api/v1/health''" and "rq_Path r \<noteq> ''/api/openapi.json''"
  shows "\<exists>t p. rt (bearer r) = (t, None) \<and> c = Some p \<and> Allowed p (rq_Method r) (rq_Path r) \<and> pr_Roles p = [''user''] \<and>
    pr_Credential p = ''api_token'' \<and> pr_Subject p = tok_Subject t \<and> pr_Services p = tok_Services t \<and> pr_ProjectIDs p = tok_ProjectIDs t"
proof -
  obtain ctx0 ctx p where m: "APITokenMiddleware rt r None = Forward ctx0" "Middleware ae verify r ctx0 = Forward ctx"
    "c = Some p" "Allowed p (rq_Method r) (rq_Path r)"
    "p = resolved_principal (Some resolve) (case ctx of Some p \<Rightarrow> p | None \<Rightarrow> default_principal ae r)"
    using oidc_api [OF assms(1,3-5)] by metis
  obtain t where t: "rt (bearer r) = (t, None)" "ctx0 = Some (zero_Principal\<lparr>pr_Subject := tok_Subject t, pr_Roles := [''user''],
          pr_Services := tok_Services t, pr_ProjectIDs := tok_ProjectIDs t, pr_Provisioned := True,
          pr_Credential := ''api_token''\<rparr>)" using token_principal [OF m(1) assms(2)] by metis
  have "ctx = ctx0" using m(2) t(2) Middleware_keeps by blast
  then have p: "p = (zero_Principal\<lparr>pr_Subject := tok_Subject t, pr_Roles := [''user''],
          pr_Services := tok_Services t, pr_ProjectIDs := tok_ProjectIDs t, pr_Provisioned := True,
          pr_Credential := ''api_token''\<rparr>)" using m(5) t(2) by (simp add: resolved_token)
  show ?thesis using t(1) m(3,4) by (auto simp: p)
qed

lemma servicePrincipal_Some: "servicePrincipal ae t = Some p \<Longrightarrow> t = internal_token ae"
  by (simp add: servicePrincipal_def split: if_splits)

lemma Middleware_authenticates:
  assumes "Middleware ae verify r None = Forward ctx" and "\<not> publicPath (rq_Method r) (rq_Path r)"
  shows "\<exists>credential. credential \<noteq> [] \<and> (credential = bearer r \<or> rq_Session r = Some credential) \<and>
       (credential = internal_token ae \<or> snd (verify credential) = None)"
proof -
  define cred where "cred = (if bearer r = [] then (case rq_Session r of Some v \<Rightarrow> v | None \<Rightarrow> []) else bearer r)"
  have "cred \<noteq> [] \<and> (servicePrincipal ae cred \<noteq> None \<or> snd (verify cred) = None)"
    using assms unfolding Middleware_def Let_def cred_def [symmetric]
    by (cases "servicePrincipal ae cred") (auto split: if_splits prod.splits option.splits)
  moreover have "cred = bearer r \<or> rq_Session r = Some cred" if "cred \<noteq> []"
    using that by (simp add: cred_def split: if_splits option.splits)
  ultimately show ?thesis using servicePrincipal_Some by blast
qed

lemma resolved_not_service:
  assumes "p = resolved_principal resolver p0" and "\<not> hasRole p ''service''"
  shows "\<not> hasRole p0 ''service''"
  using assms resolved_service [of p0 resolver] by auto

lemma oidc_token_resolver:
  assumes "HasPrefix (bearer r) ''nxs_''" and "rt (bearer r) = (t, None)"
  shows "gateway_oidc ae rt verify resolve r = gateway_oidc ae rt verify resolve' r"
proof -
  obtain p where p: "APITokenMiddleware rt r None = Forward (Some p)" "pr_Credential p = ''api_token''"
    using assms by (simp add: APITokenMiddleware_def)
  have m: "Middleware ae verify r (Some p) = Forward (Some p)" by (simp add: Middleware_def)
  have "RBACWithResolver ae (Some resolve) r (Some p) = RBACWithResolver ae (Some resolve') r (Some p)"
    by (simp add: RBACWithResolver_def resolved_token [OF p(2)])
  then show ?thesis by (simp add: gateway_oidc_def and_then_def p(1) m cors_def)
qed

end
