(* ===== verification/Http_Access.thy ===== *)
theory Http_Access
  imports Store_Steps Auth
begin

text \<open>
  The access rules of the HTTP layer (\<^verbatim>\<open>go/internal/httpapi/access.go\<close>): which projects a
  principal may see, the filters of the list endpoints and the quota checks. The code reads the
  repository through the \<open>store.Repository\<close> interface; \<open>repository_view\<close> is what these
  functions read of it and \<open>store_view\<close> its value for the file-backed store. A Go map used
  as a set is a set; the nil map, which means "no restriction", is \<open>None\<close>.
\<close>

record repository_view =
  rv_AccessFor :: "string \<Rightarrow> UserAccess ret"
  rv_Projects :: "Project list"
  rv_Runs :: "PipelineRun list"
  rv_Definitions :: "PipelineDefinition list"
  rv_Functions :: "Function list"
  rv_Models :: "Model list"
  rv_Agents :: "Agent list"

definition store_view :: "Store \<Rightarrow> repository_view" where
  "store_view s = \<lparr>rv_AccessFor = Store_AccessFor s, rv_Projects = Store_Projects s, rv_Runs = Store_Runs s,
     rv_Definitions = Store_PipelineDefinitions s, rv_Functions = Store_Functions s,
     rv_Models = Store_Models s, rv_Agents = Store_Agents s\<rparr>"

definition privileged :: "Principal \<Rightarrow> bool" where
  "privileged p \<longleftrightarrow> List.member (pr_Roles p) ''admin'' \<or> List.member (pr_Roles p) ''operator'' \<or>
     List.member (pr_Roles p) ''service''"

definition is_user :: "Principal \<Rightarrow> bool" where
  "is_user p \<longleftrightarrow> List.member (pr_Roles p) ''user''"

text \<open>The entitlements reported by \<^verbatim>\<open>GET /api/v1/me\<close>.\<close>

definition accessFor :: "repository_view \<Rightarrow> Principal \<Rightarrow> UserAccess option" where
  "accessFor rv p =
     (if privileged p then None
      else case rv_AccessFor rv (pr_Subject p) of (_, Some _) \<Rightarrow> None | (access, None) \<Rightarrow> Some access)"

definition allowedProjectIDs :: "repository_view \<Rightarrow> Principal \<Rightarrow> string set option" where
  "allowedProjectIDs rv p =
     (if privileged p \<or> \<not> is_user p then None
      else if pr_Credential p = ''api_token'' then Some (set (pr_ProjectIDs p))
      else Some (set (pr_ProjectIDs p) \<union>
        set (map prj_ID (filter (\<lambda>project. prj_OwnerSubject project = pr_Subject p) (rv_Projects rv)))))"

definition projectAllowed :: "repository_view \<Rightarrow> Principal \<Rightarrow> string \<Rightarrow> bool" where
  "projectAllowed rv p projectID = (case allowedProjectIDs rv p of None \<Rightarrow> True | Some allowed \<Rightarrow> projectID \<in> allowed)"

definition filterProjects :: "Project list \<Rightarrow> Principal \<Rightarrow> Project list" where
  "filterProjects items p =
     (if \<not> is_user p then items
      else filter (\<lambda>item. prj_ID item \<in> set (pr_ProjectIDs p) \<or> prj_OwnerSubject item = pr_Subject p) items)"

definition filter_by_project :: "('a \<Rightarrow> string) \<Rightarrow> 'a list \<Rightarrow> string set option \<Rightarrow> 'a list" where
  "filter_by_project pid items allowed =
     (case allowed of None \<Rightarrow> items | Some ids \<Rightarrow> filter (\<lambda>item. pid item \<in> ids) items)"

definition filterRuns :: "PipelineRun list \<Rightarrow> string set option \<Rightarrow> PipelineRun list" where
  "filterRuns = filter_by_project run_ProjectID"

definition filterPipelineDefinitions :: "PipelineDefinition list \<Rightarrow> string set option \<Rightarrow> PipelineDefinition list" where
  "filterPipelineDefinitions = filter_by_project pd_ProjectID"

definition filterFunctions :: "Function list \<Rightarrow> string set option \<Rightarrow> Function list" where
  "filterFunctions = filter_by_project fn_ProjectID"

definition filterModels :: "Model list \<Rightarrow> string set option \<Rightarrow> Model list" where
  "filterModels = filter_by_project mdl_ProjectID"

definition filterAgents :: "Agent list \<Rightarrow> string set option \<Rightarrow> Agent list" where
  "filterAgents = filter_by_project agt_ProjectID"

definition modelAllowed :: "repository_view \<Rightarrow> Principal \<Rightarrow> string \<Rightarrow> bool" where
  "modelAllowed rv p modelID = (case find (\<lambda>m. mdl_ID m = modelID) (rv_Models rv) of
     Some m \<Rightarrow> projectAllowed rv p (mdl_ProjectID m) | None \<Rightarrow> False)"

definition agentAllowed :: "repository_view \<Rightarrow> Principal \<Rightarrow> string \<Rightarrow> bool" where
  "agentAllowed rv p agentID = (case find (\<lambda>a. agt_ID a = agentID) (rv_Agents rv) of
     Some a \<Rightarrow> projectAllowed rv p (agt_ProjectID a) | None \<Rightarrow> False)"

definition functionAllowed :: "repository_view \<Rightarrow> Principal \<Rightarrow> string \<Rightarrow> bool" where
  "functionAllowed rv p name = (case find (\<lambda>f. fn_Name f = name) (rv_Functions rv) of
     Some f \<Rightarrow> projectAllowed rv p (fn_ProjectID f) | None \<Rightarrow> privileged p)"

definition storageAllowed :: "repository_view \<Rightarrow> Principal \<Rightarrow> string \<Rightarrow> bool" where
  "storageAllowed rv p bucket =
     (if privileged p \<or> \<not> is_user p then True
      else case rv_AccessFor rv (pr_Subject p) of
        (_, Some _) \<Rightarrow> False
      | (access, None) \<Rightarrow>
          if sg_SizeGB (ua_Storage access) = 0 then False
          else if bucket = [] then True
          else List.member (sg_Buckets (ua_Storage access)) bucket)"

subsection \<open>Quotas\<close>

definition count_owned :: "string \<Rightarrow> Project list \<Rightarrow> nat" where
  "count_owned subject ps = length (filter (\<lambda>project. prj_OwnerSubject project = subject) ps)"

definition count_active :: "string set \<Rightarrow> PipelineRun list \<Rightarrow> nat" where
  "count_active allowed rs = length (filter (\<lambda>run. run_ProjectID run \<in> allowed \<and>
     (run_Status run = ''queued'' \<or> run_Status run = ''running'')) rs)"

definition count_functions :: "string \<Rightarrow> Function list \<Rightarrow> nat" where
  "count_functions subject fs = length (filter (\<lambda>f. fn_OwnerSubject f = subject) fs)"

definition enforceProjectQuota :: "repository_view \<Rightarrow> Principal \<Rightarrow> error option" where
  "enforceProjectQuota rv p =
     (if privileged p \<or> \<not> is_user p then None
      else let (access, err) = rv_AccessFor rv (pr_Subject p) in
        if err \<noteq> None \<or> cg_MaxProjects (ua_Compute access) = 0
          then Some (Err ''no project capacity has been provisioned'')
        else if int (count_owned (pr_Subject p) (rv_Projects rv)) \<ge> cg_MaxProjects (ua_Compute access)
          then Some (Err (''project quota reached ('' @ Itoa (cg_MaxProjects (ua_Compute access)) @ '')''))
        else None)"

definition enforceRunQuota :: "repository_view \<Rightarrow> Principal \<Rightarrow> error option" where
  "enforceRunQuota rv p =
     (if privileged p \<or> \<not> is_user p then None
      else let (access, err) = rv_AccessFor rv (pr_Subject p) in
        if err \<noteq> None \<or> cg_MaxRuns (ua_Compute access) = 0
          then Some (Err ''no concurrent run capacity has been provisioned'')
        else let allowed = (case allowedProjectIDs rv p of None \<Rightarrow> {} | Some ids \<Rightarrow> ids) in
          if int (count_active allowed (rv_Runs rv)) \<ge> cg_MaxRuns (ua_Compute access)
            then Some (Err (''concurrent run quota reached ('' @ Itoa (cg_MaxRuns (ua_Compute access)) @ '')''))
          else None)"

definition enforceFunctionQuota :: "repository_view \<Rightarrow> Principal \<Rightarrow> error option" where
  "enforceFunctionQuota rv p =
     (if privileged p \<or> \<not> is_user p then None
      else let (access, err) = rv_AccessFor rv (pr_Subject p) in
        if err \<noteq> None \<or> cg_MaxFunctions (ua_Compute access) = 0
          then Some (Err ''no function capacity has been provisioned'')
        else if int (count_functions (pr_Subject p) (rv_Functions rv)) \<ge> cg_MaxFunctions (ua_Compute access)
          then Some (Err (''function quota reached ('' @ Itoa (cg_MaxFunctions (ua_Compute access)) @ '')''))
        else None)"

definition tokenScopesAllowed :: "repository_view \<Rightarrow> Principal \<Rightarrow> string list \<Rightarrow> string list \<Rightarrow> bool" where
  "tokenScopesAllowed rv p services projectIDs =
     (if privileged p then True
      else if list_ex (\<lambda>requested. \<not> List.member (pr_Services p) requested) services then False
      else if list_ex (\<lambda>requested. \<not> projectAllowed rv p requested) projectIDs then False
      else True)"

subsection \<open>Lemmas\<close>

lemma store_view_simps [simp]:
  "rv_AccessFor (store_view s) = Store_AccessFor s" "rv_Projects (store_view s) = st_Projects (data s)"
  "rv_Runs (store_view s) = st_Runs (data s)" "rv_Definitions (store_view s) = st_Definitions (data s)"
  "rv_Functions (store_view s) = st_Functions (data s)" "rv_Models (store_view s) = st_Models (data s)"
  "rv_Agents (store_view s) = st_Agents (data s)"
  by (simp_all add: store_view_def Store_Projects_def Store_Runs_def Store_PipelineDefinitions_def
      Store_Functions_def Store_Models_def Store_Agents_def)

text \<open>The projects in the scope of a principal, as a set of identifiers.\<close>

definition scope :: "repository_view \<Rightarrow> Principal \<Rightarrow> string set" where
  "scope rv p = {i. projectAllowed rv p i}"

lemma scope_filter: "set (filter_by_project pid items (allowedProjectIDs rv p)) = {x \<in> set items. pid x \<in> scope rv p}"
  by (auto simp: filter_by_project_def scope_def projectAllowed_def split: option.splits)

lemma scope_user:
  assumes "is_user p" and "\<not> privileged p"
  shows "scope rv p = set (pr_ProjectIDs p) \<union>
    (if pr_Credential p = ''api_token'' then {}
     else {prj_ID q | q. q \<in> set (rv_Projects rv) \<and> prj_OwnerSubject q = pr_Subject p})"
  using assms by (auto simp: scope_def projectAllowed_def allowedProjectIDs_def)

text \<open>A quota in the abstract: a counter, a limit, and a creation that adds at most one.\<close>

locale guarded_creation =
  fixes count :: "'s \<Rightarrow> nat"
    and limit :: "'s \<Rightarrow> int option"
    and within :: "'s \<Rightarrow> bool"
    and create :: "'s \<Rightarrow> 'r \<Rightarrow> 's"
  assumes check: "within s \<Longrightarrow> limit s = Some n \<Longrightarrow> int (count s) < n"
    and create_count: "count (create s r) \<le> Suc (count s)"
    and create_limit: "limit (create s r) = limit s"
begin

definition guarded :: "'s \<Rightarrow> 'r \<Rightarrow> 's" where
  "guarded s r = (if within s then create s r else s)"

lemma guarded_limit: "limit (guarded s r) = limit s"
  by (simp add: guarded_def create_limit)

lemma guarded_keeps: "limit s = Some n \<Longrightarrow> int (count s) \<le> n \<Longrightarrow> int (count (guarded s r)) \<le> n"
  using check [of s n] create_count [of s r] by (simp add: guarded_def) linarith

lemma guarded_sequence:
  "limit s = Some n \<Longrightarrow> int (count s) \<le> n \<Longrightarrow> int (count (foldl guarded s rs)) \<le> n"
  by (induction rs arbitrary: s) (simp_all add: guarded_limit guarded_keeps)

end

end
