(* ===== verification/Handlers.thy ===== *)
theory Handlers
  imports Http_Access
begin

text \<open>
  The state-changing handlers of \<^verbatim>\<open>go/internal/httpapi/server.go\<close>. A handler gets the
  environments of its repository calls (\<open>es k\<close> for the \<open>k\<close>-th call), the store, the
  principal on the request context, the path value and the decoded body (\<open>None\<close> when
  \<open>decode\<close> fails), and returns the store and the response: a status with a value, or a
  status with an error code. External services are parameters: \<open>faas\<close> is the OpenFaaS
  client (\<open>None\<close> when not configured), \<open>serving\<close> the serving manager, \<open>probe\<close> the
  health request of a connection, \<open>prefect\<close> the flow engine.
\<close>

datatype 'a response = Reply int 'a | Fail int string

definition writeMutation :: "'a ret \<Rightarrow> int \<Rightarrow> 'a response" where
  "writeMutation ve success =
     (case snd ve of
        None \<Rightarrow> Reply success (fst ve)
      | Some ErrNotFound \<Rightarrow> Fail 404 ''not_found''
      | Some ErrConflict \<Rightarrow> Fail 409 ''conflict''
      | Some _ \<Rightarrow> Fail 422 ''validation_error'')"

definition writeStatus :: "error option \<Rightarrow> int \<Rightarrow> unit response" where
  "writeStatus err success = writeMutation ((), err) success"

definition actor :: "Principal \<Rightarrow> string" where
  "actor p = (if pr_Email p \<noteq> [] then pr_Email p else pr_Subject p)"

definition with_body :: "'b option \<Rightarrow> Store \<Rightarrow> ('b \<Rightarrow> Store \<times> 'a response) \<Rightarrow> Store \<times> 'a response" where
  "with_body body s k = (case body of None \<Rightarrow> (s, Fail 400 ''invalid_request'') | Some req \<Rightarrow> k req)"

definition mutate :: "Store \<times> 'a ret \<Rightarrow> int \<Rightarrow> Store \<times> 'a response" where
  "mutate sr success = (fst sr, writeMutation (snd sr) success)"

type_synonym envs = "nat \<Rightarrow> env"

subsection \<open>Access administration\<close>

definition h_upsertUserAccess ::
  "envs \<Rightarrow> Store \<Rightarrow> Principal \<Rightarrow> string \<Rightarrow> UpsertUserAccessRequest option \<Rightarrow> Store \<times> UserAccess response" where
  "h_upsertUserAccess es s p subject body = with_body body s (\<lambda>req.
     if subject = pr_Subject p \<and> (uar_Role req \<noteq> ''admin'' \<or> uar_Disabled req)
       then (s, Fail 400 ''invalid_request'')
     else mutate (Store_UpsertUserAccess (es 0) s subject req (actor p)) 200)"

definition h_deleteUserAccess :: "envs \<Rightarrow> Store \<Rightarrow> Principal \<Rightarrow> string \<Rightarrow> Store \<times> unit response" where
  "h_deleteUserAccess es s p subject =
     (if subject = pr_Subject p then (s, Fail 400 ''invalid_request'')
      else let (s1, err) = Store_DeleteUserAccess (es 0) s subject (actor p) in (s1, writeStatus err 204))"

definition h_createAccessRequest ::
  "envs \<Rightarrow> Store \<Rightarrow> Principal \<Rightarrow> CreateAccessRequest option \<Rightarrow> Store \<times> AccessRequest response" where
  "h_createAccessRequest es s p body = with_body body s (\<lambda>req.
     mutate (Store_CreateAccessRequest (es 0) s (pr_Subject p) (pr_Email p) req) 201)"

definition h_reviewAccessRequest ::
  "envs \<Rightarrow> Store \<Rightarrow> Principal \<Rightarrow> string \<Rightarrow> ReviewAccessRequest option \<Rightarrow> Store \<times> AccessRequest response" where
  "h_reviewAccessRequest es s p i body = with_body body s (\<lambda>req.
     mutate (Store_ReviewAccessRequest (es 0) s i req (actor p)) 200)"

definition h_apiTokens :: "Store \<Rightarrow> Principal \<Rightarrow> APIToken list" where
  "h_apiTokens s p = map (\<lambda>t. t\<lparr>tok_SecretHash := []\<rparr>) (Store_APITokensFor s (pr_Subject p))"

definition h_createAPIToken ::
  "envs \<Rightarrow> Store \<Rightarrow> Principal \<Rightarrow> CreateAPITokenRequest option \<Rightarrow> Store \<times> CreatedAPIToken response" where
  "h_createAPIToken es s p body = with_body body s (\<lambda>req.
     if \<not> tokenScopesAllowed (store_view s) p (ctr_Services req) (ctr_ProjectIDs req)
       then (s, Fail 403 ''invalid_scope'')
     else let (s1, (created, err)) = Store_CreateAPIToken (es 0) s (pr_Subject p) req;
              shown = created\<lparr>cat_Token := (cat_Token created)\<lparr>tok_SecretHash := []\<rparr>\<rparr>
          in (s1, writeMutation (shown, err) 201))"

definition h_revokeAPIToken :: "envs \<Rightarrow> Store \<Rightarrow> Principal \<Rightarrow> string \<Rightarrow> Store \<times> unit response" where
  "h_revokeAPIToken es s p i =
     (let (s1, err) = Store_RevokeAPIToken (es 0) s (pr_Subject p) i in (s1, writeStatus err 204))"

subsection \<open>Blog\<close>

definition h_blogPosts :: "Store \<Rightarrow> BlogPost list" where
  "h_blogPosts s = map (\<lambda>post. post\<lparr>bp_Content := []\<rparr>) (filter (\<lambda>post. bp_Status post = ''published'') (Store_BlogPosts s))"

definition h_blogPost :: "Store \<Rightarrow> string \<Rightarrow> BlogPost response" where
  "h_blogPost s slg =
     (let (post, err) = Store_BlogPost s slg in
      if err \<noteq> None \<or> bp_Status post \<noteq> ''published'' then Fail 404 ''not_found'' else Reply 200 post)"

definition h_createBlogPost ::
  "envs \<Rightarrow> Store \<Rightarrow> Principal \<Rightarrow> UpsertBlogPostRequest option \<Rightarrow> Store \<times> BlogPost response" where
  "h_createBlogPost es s p body = with_body body s (\<lambda>req.
     mutate (Store_UpsertBlogPost (es 0) s [] req (actor p)) 201)"

definition h_updateBlogPost ::
  "envs \<Rightarrow> Store \<Rightarrow> Principal \<Rightarrow> string \<Rightarrow> UpsertBlogPostRequest option \<Rightarrow> Store \<times> BlogPost response" where
  "h_updateBlogPost es s p i body = with_body body s (\<lambda>req.
     mutate (Store_UpsertBlogPost (es 0) s i req (actor p)) 200)"

definition h_deleteBlogPost :: "envs \<Rightarrow> Store \<Rightarrow> Principal \<Rightarrow> string \<Rightarrow> Store \<times> unit response" where
  "h_deleteBlogPost es s p i =
     (let (s1, err) = Store_DeleteBlogPost (es 0) s i (actor p) in (s1, writeStatus err 204))"

subsection \<open>Projects and pipeline definitions\<close>

definition h_projects :: "Store \<Rightarrow> Principal \<Rightarrow> Project list" where
  "h_projects s p = filterProjects (Store_Projects s) p"

definition hide :: "repository_view \<Rightarrow> Principal \<Rightarrow> ('a \<Rightarrow> string) \<Rightarrow> 'a ret \<Rightarrow> 'a response" where
  "hide rv p pid ie =
     (case ie of
        (item, None) \<Rightarrow> if projectAllowed rv p (pid item) then Reply 200 item else Fail 404 ''not_found''
      | (item, Some err) \<Rightarrow> writeMutation (item, Some err) 200)"

definition h_project :: "Store \<Rightarrow> Principal \<Rightarrow> string \<Rightarrow> Project response" where
  "h_project s p i = hide (store_view s) p prj_ID (Store_Project s i)"

definition h_setProjectRepository ::
  "envs \<Rightarrow> Store \<Rightarrow> Principal \<Rightarrow> string \<Rightarrow> SetProjectRepositoryRequest option \<Rightarrow> Store \<times> Project response" where
  "h_setProjectRepository es s p i body =
     (if \<not> projectAllowed (store_view s) p i then (s, Fail 404 ''not_found'')
      else with_body body s (\<lambda>req. mutate (Store_SetProjectRepository (es 0) s i req (actor p)) 200))"

text \<open>\<open>createProject\<close> in two parts: what it checks, and what it does once the checks passed.\<close>

definition createProject_check :: "Store \<Rightarrow> Principal \<Rightarrow> CreateProjectRequest option \<Rightarrow> (int \<times> string) option" where
  "createProject_check s p body =
     (if enforceProjectQuota (store_view s) p \<noteq> None then Some (403, ''quota_exceeded'')
      else case body of None \<Rightarrow> Some (400, ''invalid_request'')
      | Some req \<Rightarrow>
          if cpr_RepositoryURL req \<noteq> [] \<and> \<not> Allowed p ''PUT'' ''/api/v1/projects/new/repository''
            then Some (403, ''access_denied'') else None)"

definition createProject_apply :: "envs \<Rightarrow> Store \<Rightarrow> Principal \<Rightarrow> CreateProjectRequest \<Rightarrow> Store \<times> Project response" where
  "createProject_apply es s p req =
     (let (s1, (project, err)) = Store_CreateProject (es 0) s (req\<lparr>cpr_OwnerSubject := pr_Subject p\<rparr>) [actor p]
      in (s1, if err \<noteq> None then Fail 422 ''validation_error'' else Reply 201 project))"

definition h_createProject ::
  "envs \<Rightarrow> Store \<Rightarrow> Principal \<Rightarrow> CreateProjectRequest option \<Rightarrow> Store \<times> Project response" where
  "h_createProject es s p body =
     (case createProject_check s p body of
        Some (status, code) \<Rightarrow> (s, Fail status code)
      | None \<Rightarrow> (case body of None \<Rightarrow> (s, Fail 400 ''invalid_request'') | Some req \<Rightarrow> createProject_apply es s p req))"

definition h_pipelineDefinitions :: "Store \<Rightarrow> Principal \<Rightarrow> PipelineDefinition list" where
  "h_pipelineDefinitions s p =
     filterPipelineDefinitions (Store_PipelineDefinitions s) (allowedProjectIDs (store_view s) p)"

definition h_pipelineDefinition :: "Store \<Rightarrow> Principal \<Rightarrow> string \<Rightarrow> PipelineDefinition response" where
  "h_pipelineDefinition s p i = hide (store_view s) p pd_ProjectID (Store_PipelineDefinition s i)"

definition h_upsertPipelineDefinition ::
  "envs \<Rightarrow> Store \<Rightarrow> Principal \<Rightarrow> string \<Rightarrow> UpsertPipelineDefinitionRequest option \<Rightarrow> Store \<times> PipelineDefinition response" where
  "h_upsertPipelineDefinition es s p i body = with_body body s (\<lambda>req.
     if \<not> projectAllowed (store_view s) p (upd_ProjectID req) then (s, Fail 403 ''access_denied'')
     else let registered = set (map fn_Name (filter (\<lambda>f. fn_ProjectID f = upd_ProjectID req) (Store_Functions s))) in
     if list_ex (\<lambda>job. job_Kind job = ''function'' \<and> job_Function job \<notin> registered) (upd_Jobs req)
       then (s, Fail 422 ''validation_error'')
     else mutate (Store_UpsertPipelineDefinition (es 0) s i req (actor p)) (if i \<noteq> [] then 200 else 201))"

subsection \<open>Runs\<close>

text \<open>
  \<open>dispatchPipeline\<close>: \<open>faas\<close> says whether OpenFaaS is configured, \<open>prefect\<close> is the
  result of creating the flow run (\<open>None\<close> when \<open>PREFECT_API_URL\<close> is empty). The third
  component tells whether the function executor is started; indexing the jobs of a
  definition without jobs is a run-time panic.
\<close>

datatype dispatch = Dispatched | Executing | Panicked

definition system_fail :: "string \<Rightarrow> string \<Rightarrow> UpdateRunStepRequest" where
  "system_fail step message = \<lparr>usr_Step = step, usr_Status = ''failed'', usr_Message = message\<rparr>"

definition dispatchPipeline ::
  "envs \<Rightarrow> Store \<Rightarrow> bool \<Rightarrow> (string + string) option \<Rightarrow> PipelineRun \<Rightarrow> Store \<times> PipelineRun \<times> dispatch" where
  "dispatchPipeline es s faas prefect run =
     (if run_ExecutionMode run = ''functions'' then
        (let (definition, err) = Store_PipelineDefinition s (run_DefinitionID run) in
         if err \<noteq> None then
           (let (s1, (failed, _)) = Store_UpdateRunStep (es 0) s (run_ID run)
                  (system_fail ''load-definition'' ''resource not found'') ''system'' in (s1, failed, Dispatched))
         else if \<not> faas then
           (case pd_Jobs definition of [] \<Rightarrow> (s, run, Panicked)
            | job # _ \<Rightarrow>
                (let (s1, (failed, _)) = Store_UpdateRunStep (es 0) s (run_ID run)
                       (system_fail (job_Name job) ''OPENFAAS_URL is not configured'') ''system'' in (s1, failed, Dispatched)))
         else (s, run, Executing))
      else (case prefect of
          None \<Rightarrow> (s, run, Dispatched)
        | Some (Inr message) \<Rightarrow>
            (let (s1, (failed, _)) = Store_UpdateRunStep (es 0) s (run_ID run)
                   (system_fail ''submit-to-engine'' message) ''system'' in (s1, failed, Dispatched))
        | Some (Inl engineID) \<Rightarrow>
            (let (s1, (linked, err)) = Store_SetRunEngine (es 0) s (run_ID run) engineID
             in (s1, if err = None then linked else run, Dispatched))))"

definition h_runs :: "Store \<Rightarrow> Principal \<Rightarrow> PipelineRun list" where
  "h_runs s p = filterRuns (Store_Runs s) (allowedProjectIDs (store_view s) p)"

definition h_run :: "Store \<Rightarrow> Principal \<Rightarrow> string \<Rightarrow> PipelineRun response" where
  "h_run s p i = hide (store_view s) p run_ProjectID (Store_Run s i)"

definition run_hidden :: "Store \<Rightarrow> Principal \<Rightarrow> string \<Rightarrow> bool" where
  "run_hidden s p i = (let (run, err) = Store_Run s i in
     err \<noteq> None \<or> \<not> projectAllowed (store_view s) p (run_ProjectID run))"

text \<open>The call to the engine after a cancellation is best effort and leaves the store alone.\<close>

definition h_cancelRun :: "envs \<Rightarrow> Store \<Rightarrow> Principal \<Rightarrow> string \<Rightarrow> Store \<times> PipelineRun response" where
  "h_cancelRun es s p i =
     (if run_hidden s p i then (s, Fail 404 ''not_found'')
      else mutate (Store_CancelRun (es 0) s i (actor p)) 200)"

definition h_updateRunStep ::
  "envs \<Rightarrow> Store \<Rightarrow> Principal \<Rightarrow> string \<Rightarrow> UpdateRunStepRequest option \<Rightarrow> Store \<times> PipelineRun response" where
  "h_updateRunStep es s p i body = with_body body s (\<lambda>req.
     mutate (Store_UpdateRunStep (es 0) s i req (actor p)) 200)"

definition h_retryRun ::
  "envs \<Rightarrow> Store \<Rightarrow> bool \<Rightarrow> (string + string) option \<Rightarrow> Principal \<Rightarrow> string \<Rightarrow> Store \<times> PipelineRun response" where
  "h_retryRun es s faas prefect p i =
     (if run_hidden s p i then (s, Fail 404 ''not_found'')
      else if enforceRunQuota (store_view s) p \<noteq> None then (s, Fail 403 ''quota_exceeded'')
      else let (s1, (item, err)) = Store_RetryRun (es 0) s i (actor p) in
        if err = None then
          (let (s2, item', _) = dispatchPipeline (\<lambda>k. es (Suc k)) s1 faas prefect item in (s2, Reply 202 item'))
        else (s1, writeMutation (item, err) 202))"

definition h_submitPipeline ::
  "envs \<Rightarrow> Store \<Rightarrow> bool \<Rightarrow> (string + string) option \<Rightarrow> Principal \<Rightarrow> SubmitPipelineRequest option \<Rightarrow>
     Store \<times> PipelineRun response" where
  "h_submitPipeline es s faas prefect p body = with_body body s (\<lambda>req.
     if \<not> projectAllowed (store_view s) p (sub_ProjectID req) then (s, Fail 403 ''access_denied'')
     else if enforceRunQuota (store_view s) p \<noteq> None then (s, Fail 403 ''quota_exceeded'')
     else let (s1, (run, err)) = Store_SubmitPipeline (es 0) s req [actor p] in
       if err \<noteq> None then (s1, Fail (if err = Some ErrNotFound then 404 else 422) ''pipeline_submission_failed'')
       else let (s2, run', _) = dispatchPipeline (\<lambda>k. es (Suc k)) s1 faas prefect run in (s2, Reply 202 run'))"

subsection \<open>Functions\<close>

record faas_deployment =
  fd_Name :: string
  fd_Image :: string
  fd_EnvVars :: "string gomap"
  fd_Labels :: "string gomap"
  fd_Annotations :: "string gomap"
  fd_Limits :: "string gomap"
  fd_Requests :: "string gomap"

record faas_client =
  faas_deploy :: "faas_deployment \<Rightarrow> error option"
  faas_delete :: "string \<Rightarrow> error option"

definition deployment_of :: "DeployFunctionRequest \<Rightarrow> faas_deployment" where
  "deployment_of req =
     (let limits = (if dfr_CPU req \<noteq> [] then [(''cpu'', dfr_CPU req)] else []) @
                   (if dfr_Memory req \<noteq> [] then [(''memory'', dfr_Memory req)] else [])
      in \<lparr>fd_Name = dfr_Name req, fd_Image = dfr_Image req, fd_EnvVars = dfr_EnvVars req, fd_Labels = dfr_Labels req,
          fd_Annotations = dfr_Annotations req, fd_Limits = limits, fd_Requests = limits\<rparr>)"

text \<open>\<open>deployFunction\<close>; the third component lists the deployments sent to OpenFaaS.\<close>

definition h_deployFunction ::
  "envs \<Rightarrow> Store \<Rightarrow> faas_client option \<Rightarrow> Principal \<Rightarrow> DeployFunctionRequest option \<Rightarrow>
     Store \<times> Function response \<times> faas_deployment list" where
  "h_deployFunction es s faas p body =
     (case faas of None \<Rightarrow> (s, Fail 409 ''not_configured'', [])
      | Some client \<Rightarrow> (case body of None \<Rightarrow> (s, Fail 400 ''invalid_request'', [])
      | Some req0 \<Rightarrow>
          (let req = (if dfr_ProjectID req0 = [] \<and> privileged p then req0\<lparr>dfr_ProjectID := ''prj-demo''\<rparr> else req0) in
           if \<not> projectAllowed (store_view s) p (dfr_ProjectID req) then (s, Fail 403 ''access_denied'', [])
           else if ValidateFunctionRequest req \<noteq> None then (s, Fail 400 ''invalid_request'', [])
           else if \<not> functionAllowed (store_view s) p (dfr_Name req) \<and> enforceFunctionQuota (store_view s) p \<noteq> None
             then (s, Fail 403 ''quota_exceeded'', [])
           else if faas_deploy client (deployment_of req) \<noteq> None then (s, Fail 502 ''deploy_failed'', [deployment_of req])
           else let (s1, r) = mutate (Store_UpsertFunction (es 0) s req (pr_Subject p) (actor p)) 202
                in (s1, r, [deployment_of req]))))"

definition h_deleteFunction ::
  "envs \<Rightarrow> Store \<Rightarrow> faas_client option \<Rightarrow> Principal \<Rightarrow> string \<Rightarrow> Store \<times> unit response" where
  "h_deleteFunction es s faas p name =
     (if \<not> functionAllowed (store_view s) p name then (s, Fail 404 ''not_found'')
      else case faas of None \<Rightarrow> (s, Fail 409 ''not_configured'')
      | Some client \<Rightarrow>
          if faas_delete client name \<noteq> None then (s, Fail 502 ''delete_failed'')
          else let (s1, err) = Store_DeleteFunction (es 0) s name (actor p) in (s1, writeStatus err 204))"

subsection \<open>Models\<close>

definition h_models :: "Store \<Rightarrow> Principal \<Rightarrow> Model list" where
  "h_models s p = filterModels (Store_Models s) (allowedProjectIDs (store_view s) p)"

definition h_registerModel ::
  "envs \<Rightarrow> Store \<Rightarrow> Principal \<Rightarrow> RegisterModelRequest option \<Rightarrow> Store \<times> Model response" where
  "h_registerModel es s p body = with_body body s (\<lambda>req.
     if \<not> projectAllowed (store_view s) p (rmr_ProjectID req) then (s, Fail 403 ''access_denied'')
     else mutate (Store_RegisterModel (es 0) s req (actor p)) 201)"

definition h_promoteModel ::
  "envs \<Rightarrow> Store \<Rightarrow> Principal \<Rightarrow> string \<Rightarrow> PromoteModelRequest option \<Rightarrow> Store \<times> Model response" where
  "h_promoteModel es s p i body =
     (if \<not> modelAllowed (store_view s) p i then (s, Fail 404 ''not_found'')
      else with_body body s (\<lambda>req. mutate (Store_PromoteModel (es 0) s i (pmr_Stage req) (actor p)) 200))"

text \<open>\<open>serving\<close> is the serving manager, \<open>None\<close> when not configured; it answers with an endpoint or fails.\<close>

definition h_deployModel ::
  "envs \<Rightarrow> Store \<Rightarrow> (Model \<Rightarrow> string option) option \<Rightarrow> Principal \<Rightarrow> string \<Rightarrow> DeployModelRequest option \<Rightarrow>
     Store \<times> Model response" where
  "h_deployModel es s serving p i body =
     (if \<not> modelAllowed (store_view s) p i then (s, Fail 404 ''not_found'')
      else with_body body s (\<lambda>req.
        let (s1, (item, err)) = Store_DeployModel (es 0) s i (dmr_CanaryWeight req) (actor p) in
        if err \<noteq> None then (s1, writeMutation (item, err) 202)
        else case serving of None \<Rightarrow> (s1, Reply 202 item)
        | Some manager \<Rightarrow> (case manager item of
            None \<Rightarrow> (fst (Store_SetModelEndpoint (es 1) s1 (mdl_ID item) [] ''failed''), Fail 502 ''serving_failed'')
          | Some endpoint \<Rightarrow>
              (let (s2, (updated, err2)) = Store_SetModelEndpoint (es 1) s1 (mdl_ID item) endpoint ''serving''
               in (s2, Reply 202 (if err2 = None then updated else item))))))"

definition h_rollbackModel :: "envs \<Rightarrow> Store \<Rightarrow> Principal \<Rightarrow> string \<Rightarrow> Store \<times> Model response" where
  "h_rollbackModel es s p i =
     (if \<not> modelAllowed (store_view s) p i then (s, Fail 404 ''not_found'')
      else mutate (Store_RollbackModel (es 0) s i (actor p)) 200)"

subsection \<open>Agents, features, tools, connections\<close>

definition h_agents :: "Store \<Rightarrow> Principal \<Rightarrow> Agent list" where
  "h_agents s p = filterAgents (Store_Agents s) (allowedProjectIDs (store_view s) p)"

definition h_deployAgent ::
  "envs \<Rightarrow> Store \<Rightarrow> Principal \<Rightarrow> DeployAgentRequest option \<Rightarrow> Store \<times> Agent response" where
  "h_deployAgent es s p body = with_body body s (\<lambda>req.
     if \<not> projectAllowed (store_view s) p (dar_ProjectID req) then (s, Fail 403 ''access_denied'')
     else mutate (Store_DeployAgent (es 0) s req (actor p)) 202)"

definition h_agentTraffic ::
  "envs \<Rightarrow> Store \<Rightarrow> Principal \<Rightarrow> string \<Rightarrow> TrafficRequest option \<Rightarrow> Store \<times> Agent response" where
  "h_agentTraffic es s p i body =
     (if \<not> agentAllowed (store_view s) p i then (s, Fail 404 ''not_found'')
      else with_body body s (\<lambda>req. mutate (Store_SetAgentTraffic (es 0) s i (trf_CanaryWeight req) (actor p)) 200))"

definition h_agentSessions :: "Store \<Rightarrow> Principal \<Rightarrow> string \<Rightarrow> AgentSession list response" where
  "h_agentSessions s p i =
     (if \<not> agentAllowed (store_view s) p i then Fail 404 ''not_found'' else Reply 200 (Store_AgentSessions s i))"

definition h_agentTraces :: "Store \<Rightarrow> Principal \<Rightarrow> string \<Rightarrow> AgentTrace list response" where
  "h_agentTraces s p i =
     (if \<not> agentAllowed (store_view s) p i then Fail 404 ''not_found'' else Reply 200 (Store_AgentTraces s i))"

definition add_usage :: "AgentUsage \<Rightarrow> AgentSession \<Rightarrow> AgentUsage" where
  "add_usage u x = u\<lparr>
     usg_Active := (if ses_Status x = ''running'' then wrap64 (usg_Active u + 1) else usg_Active u),
     usg_InputTokens := wrap64 (usg_InputTokens u + ses_InputTokens x),
     usg_OutputTokens := wrap64 (usg_OutputTokens u + ses_OutputTokens x),
     usg_CostUSD := f64_add (usg_CostUSD u) (ses_CostUSD x)\<rparr>"

definition h_agentUsage :: "Store \<Rightarrow> Principal \<Rightarrow> string \<Rightarrow> AgentUsage response" where
  "h_agentUsage s p i =
     (if \<not> agentAllowed (store_view s) p i then Fail 404 ''not_found''
      else let sessions = Store_AgentSessions s i
           in Reply 200 (foldl add_usage \<lparr>usg_Sessions = int (length sessions), usg_Active = 0, usg_InputTokens = 0,
              usg_OutputTokens = 0, usg_CostUSD = 0\<rparr> sessions))"

definition h_recordTrace :: "envs \<Rightarrow> Store \<Rightarrow> RecordTraceRequest option \<Rightarrow> Store \<times> AgentTrace response" where
  "h_recordTrace es s body = with_body body s (\<lambda>req. mutate (Store_RecordTrace (es 0) s req) 201)"

definition h_applyFeatureView ::
  "envs \<Rightarrow> Store \<Rightarrow> Principal \<Rightarrow> ApplyFeatureViewRequest option \<Rightarrow> Store \<times> FeatureView response" where
  "h_applyFeatureView es s p body = with_body body s (\<lambda>req. mutate (Store_ApplyFeatureView (es 0) s req (actor p)) 201)"

definition h_reportMaterialization ::
  "envs \<Rightarrow> Store \<Rightarrow> Principal \<Rightarrow> string \<Rightarrow> MaterializationReport option \<Rightarrow> Store \<times> FeatureView response" where
  "h_reportMaterialization es s p name body = with_body body s (\<lambda>req.
     mutate (Store_ReportMaterialization (es 0) s name (mat_EntityCount req) (actor p)) 200)"

definition h_registerTool ::
  "envs \<Rightarrow> Store \<Rightarrow> Principal \<Rightarrow> RegisterToolRequest option \<Rightarrow> Store \<times> Tool response" where
  "h_registerTool es s p body = with_body body s (\<lambda>req. mutate (Store_RegisterTool (es 0) s req (actor p)) 201)"

definition h_createConnection ::
  "envs \<Rightarrow> Store \<Rightarrow> Principal \<Rightarrow> CreateConnectionRequest option \<Rightarrow> Store \<times> Connection response" where
  "h_createConnection es s p body = with_body body s (\<lambda>req. mutate (Store_CreateConnection (es 0) s req (actor p)) 201)"

text \<open>\<open>probe\<close> is the health request: an error text, or the status code and its text.\<close>

definition h_testConnection ::
  "envs \<Rightarrow> Store \<Rightarrow> (URL \<Rightarrow> string + int \<times> string) \<Rightarrow> Principal \<Rightarrow> string \<Rightarrow> Store \<times> Connection response" where
  "h_testConnection es s probe p i =
     (case find (\<lambda>c. con_ID c = i) (Store_Connections s) of
        None \<Rightarrow> (s, Fail 404 ''not_found'')
      | Some c \<Rightarrow>
          (let invalid = mutate (Store_UpdateConnectionStatus (es 0) s (con_ID c) ''unhealthy''
                 ''Endpoint must be an HTTP or HTTPS URL'' (actor p)) 200
           in case url_Parse (con_Endpoint c) of
             None \<Rightarrow> invalid
           | Some target \<Rightarrow>
               if url_Scheme target \<noteq> ''http'' \<and> url_Scheme target \<noteq> ''https'' \<or> url_Host target = [] then invalid
               else let (status, message) = (case probe target of
                          Inl err \<Rightarrow> (''unhealthy'', err)
                        | Inr (code, text) \<Rightarrow> (if code \<ge> 500 then ''unhealthy'' else ''healthy'', text))
                    in mutate (Store_UpdateConnectionStatus (es 0) s (con_ID c) status message (actor p)) 200))"

subsection \<open>Lemmas\<close>

lemma foldl_add_usage:
  "usg_Sessions (foldl add_usage u xs) = usg_Sessions u"
  "wrap64 (usg_InputTokens u) = usg_InputTokens u \<Longrightarrow>
     usg_InputTokens (foldl add_usage u xs) = wrap64 (usg_InputTokens u + sum_list (map ses_InputTokens xs))"
  "wrap64 (usg_OutputTokens u) = usg_OutputTokens u \<Longrightarrow>
     usg_OutputTokens (foldl add_usage u xs) = wrap64 (usg_OutputTokens u + sum_list (map ses_OutputTokens xs))"
  by (induction xs arbitrary: u) (simp_all add: add_usage_def add.assoc)

end
