(* ===== verification/Gateway.thy ===== *)
theory Gateway
  imports Handlers
begin

text \<open>
  The gateway as a whole: every handler reaches its final store through repository calls only
  (\<open>gateway_step\<close> refines \<open>store_step\<close>), so the invariants of the repository hold for any
  sequence of requests; a user cannot change what belongs to a project outside their scope;
  the project quota is an instance of \<open>guarded_creation\<close>.
\<close>

subsection \<open>Handlers only act through the repository\<close>

inductive gateway_step :: "Store \<Rightarrow> Store \<Rightarrow> bool" where
  "gateway_step s (fst (h_upsertUserAccess es s p subject b1))"
| "gateway_step s (fst (h_deleteUserAccess es s p subject))"
| "gateway_step s (fst (h_createAccessRequest es s p b2))"
| "gateway_step s (fst (h_reviewAccessRequest es s p i b3))"
| "gateway_step s (fst (h_createAPIToken es s p b4))"
| "gateway_step s (fst (h_revokeAPIToken es s p i))"
| "gateway_step s (fst (h_createBlogPost es s p b5))"
| "gateway_step s (fst (h_updateBlogPost es s p i b5))"
| "gateway_step s (fst (h_deleteBlogPost es s p i))"
| "gateway_step s (fst (h_createProject es s p b6))"
| "gateway_step s (fst (h_setProjectRepository es s p i b7))"
| "gateway_step s (fst (h_upsertPipelineDefinition es s p i b8))"
| "gateway_step s (fst (h_cancelRun es s p i))"
| "gateway_step s (fst (h_updateRunStep es s p i b9))"
| "gateway_step s (fst (h_retryRun es s faas prefect p i))"
| "gateway_step s (fst (h_submitPipeline es s faas prefect p b10))"
| "gateway_step s (fst (h_deployFunction es s client p b11))"
| "gateway_step s (fst (h_deleteFunction es s client p name))"
| "gateway_step s (fst (h_registerModel es s p b12))"
| "gateway_step s (fst (h_promoteModel es s p i b13))"
| "gateway_step s (fst (h_deployModel es s serving p i b14))"
| "gateway_step s (fst (h_rollbackModel es s p i))"
| "gateway_step s (fst (h_deployAgent es s p b15))"
| "gateway_step s (fst (h_agentTraffic es s p i b16))"
| "gateway_step s (fst (h_recordTrace es s b17))"
| "gateway_step s (fst (h_applyFeatureView es s p b18))"
| "gateway_step s (fst (h_reportMaterialization es s p name b19))"
| "gateway_step s (fst (h_registerTool es s p b20))"
| "gateway_step s (fst (h_createConnection es s p b21))"
| "gateway_step s (fst (h_testConnection es s probe p i))"
| resolve_token: "gateway_step s (fst (Store_ResolveAPIToken e s secret))"

lemma steps_refl: "store_step\<^sup>*\<^sup>* s s"
  by simp

lemmas store_step_steps = store_step.intros [THEN r_into_rtranclp [of store_step]]

lemma with_body_steps:
  "(\<And>req. body = Some req \<Longrightarrow> store_step\<^sup>*\<^sup>* s (fst (k req))) \<Longrightarrow> store_step\<^sup>*\<^sup>* s (fst (with_body body s k))"
  by (simp add: with_body_def split: option.split)

lemma mutate_fst [simp]: "fst (mutate sr st) = fst sr"
  by (simp add: mutate_def)

lemma dispatch_steps: "store_step\<^sup>*\<^sup>* s (fst (dispatchPipeline es s faas prefect run))"
  by (auto simp: dispatchPipeline_def split_beta Let_def intro: store_step_steps
      split: prod.splits list.splits option.splits sum.splits)

lemma fst_let_pair: "fst (let (a, b) = x in (a, f a b)) = fst x"
  by (simp add: split_beta)

lemma createProject_steps: "store_step\<^sup>*\<^sup>* s (fst (h_createProject es s p body))"
  by (auto simp: h_createProject_def createProject_apply_def split_beta intro: store_step_steps
      split: option.splits prod.splits)

lemma retryRun_steps: "store_step\<^sup>*\<^sup>* s (fst (h_retryRun es s faas prefect p i))"
  using rtranclp_trans [OF store_step_steps(8) dispatch_steps]
  by (simp add: h_retryRun_def split_beta Let_def store_step_steps)

lemma submitPipeline_steps: "store_step\<^sup>*\<^sup>* s (fst (h_submitPipeline es s faas prefect p body))"
  unfolding h_submitPipeline_def
  using rtranclp_trans [OF store_step_steps(6) dispatch_steps]
  by (intro with_body_steps) (simp add: split_beta Let_def store_step_steps)

lemma deployModel_steps: "store_step\<^sup>*\<^sup>* s (fst (h_deployModel es s serving p i body))"
  unfolding h_deployModel_def
  using rtranclp.rtrancl_into_rtrancl [OF store_step_steps(13) store_step.set_model_endpoint]
  by (simp, intro impI with_body_steps) (simp add: split_beta Let_def store_step_steps split: option.split)

lemma deployFunction_steps: "store_step\<^sup>*\<^sup>* s (fst (h_deployFunction es s client p body))"
  by (auto simp: h_deployFunction_def split_beta Let_def intro: store_step_steps split: option.splits)

lemma gateway_step_store: "gateway_step s t \<Longrightarrow> store_step\<^sup>*\<^sup>* s t"
proof (induction rule: gateway_step.induct)
qed (simp_all add: createProject_steps retryRun_steps submitPipeline_steps deployModel_steps deployFunction_steps,
  (auto simp: h_upsertUserAccess_def h_deleteUserAccess_def h_createAccessRequest_def h_reviewAccessRequest_def
    h_createAPIToken_def h_revokeAPIToken_def h_createBlogPost_def h_updateBlogPost_def h_deleteBlogPost_def
    h_setProjectRepository_def h_upsertPipelineDefinition_def h_cancelRun_def h_updateRunStep_def
    h_deleteFunction_def h_registerModel_def h_promoteModel_def h_rollbackModel_def h_deployAgent_def
    h_agentTraffic_def h_recordTrace_def h_applyFeatureView_def h_reportMaterialization_def h_registerTool_def
    h_createConnection_def h_testConnection_def split_beta Let_def
    intro!: with_body_steps intro: store_step_steps split: option.splits)+)

lemma gateway_step_inv:
  "(\<And>s t. store_step s t \<Longrightarrow> P s \<Longrightarrow> P t) \<Longrightarrow> gateway_step s t \<Longrightarrow> P s \<Longrightarrow> P t"
proof -
  assume inv: "\<And>s t. store_step s t \<Longrightarrow> P s \<Longrightarrow> P t" and "gateway_step s t" "P s"
  from gateway_step_store [OF \<open>gateway_step s t\<close>] show "P t"
    by (induction rule: rtranclp_induct) (auto intro: inv \<open>P s\<close>)
qed

interpretation gateway_inv: transition_invariant store_start gateway_step "\<lambda>s. store_ok (data s)"
  by unfold_locales (rule store_inv.init_inv, assumption, rule gateway_step_inv [OF store_inv.step_inv])

interpretation gateway_accounts: transition_invariant store_start gateway_step "\<lambda>s. accounts_ok (data s)"
  by unfold_locales (rule accounts.init_inv, assumption, rule gateway_step_inv [OF accounts.step_inv])

interpretation gateway_audit: sticky_fact gateway_step "\<lambda>es s. suffix es (st_Audit (data s))"
  by unfold_locales (rule audit_log.steps_keep [OF gateway_step_store])

interpretation gateway_runs: sticky_fact gateway_step "\<lambda>k s. run_frozen k (st_Runs (data s))"
  by unfold_locales (rule finished_run.steps_keep [OF gateway_step_store])

interpretation gateway_reviews: sticky_fact gateway_step
  "\<lambda>r s. ar_Status r \<noteq> ''pending'' \<and> r \<in> set (st_AccessRequests (data s))"
  by unfold_locales (rule reviewed_request.steps_keep [OF gateway_step_store])

subsection \<open>Isolation\<close>

definition outside :: "string set \<Rightarrow> ('a \<Rightarrow> string) \<Rightarrow> 'a list \<Rightarrow> 'a list" where
  "outside P pid xs = filter (\<lambda>x. pid x \<notin> P) xs"

lemma outside_Cons [simp]: "pid x \<in> P \<Longrightarrow> outside P pid (x # xs) = outside P pid xs"
  by (simp add: outside_def)

lemma outside_update:
  "find Q xs = Some x \<Longrightarrow> pid x \<in> P \<Longrightarrow> pid y \<in> P \<Longrightarrow>
     outside P pid (update_first Q (\<lambda>_. y) xs) = outside P pid xs"
  unfolding outside_def by (induction xs) (auto split: if_splits)

lemma outside_delete:
  "find Q xs = Some x \<Longrightarrow> pid x \<in> P \<Longrightarrow> outside P pid (delete_first Q xs) = outside P pid xs"
  unfolding outside_def by (induction xs) (auto split: if_splits)

lemma map_update_found: "find Q xs = Some x \<Longrightarrow> g y = g x \<Longrightarrow> map g (update_first Q (\<lambda>_. y) xs) = map g xs"
  by (induction xs) (auto split: if_splits)

text \<open>
  Nothing that belongs to a project outside \<open>P\<close> differs between the two states, no project
  changes its owner, and the grants and tokens are the same.
\<close>

definition ownership :: "state \<Rightarrow> (string \<times> string) list" where
  "ownership d = map (\<lambda>q. (prj_ID q, prj_OwnerSubject q)) (st_Projects d)"

definition untouched :: "string set \<Rightarrow> state \<Rightarrow> state \<Rightarrow> bool" where
  "untouched P d d' \<longleftrightarrow> outside P prj_ID (st_Projects d') = outside P prj_ID (st_Projects d) \<and>
     outside P run_ProjectID (st_Runs d') = outside P run_ProjectID (st_Runs d) \<and>
     outside P pd_ProjectID (st_Definitions d') = outside P pd_ProjectID (st_Definitions d) \<and>
     outside P fn_ProjectID (st_Functions d') = outside P fn_ProjectID (st_Functions d) \<and>
     outside P mdl_ProjectID (st_Models d') = outside P mdl_ProjectID (st_Models d) \<and>
     outside P agt_ProjectID (st_Agents d') = outside P agt_ProjectID (st_Agents d) \<and>
     ownership d' = ownership d \<and>
     st_UserAccess d' = st_UserAccess d \<and> st_APITokens d' = st_APITokens d"

lemma untouched_refl [simp]: "untouched P d d"
  by (simp add: untouched_def)

lemma untouched_trans: "untouched P d1 d2 \<Longrightarrow> untouched P d2 d3 \<Longrightarrow> untouched P d1 d3"
  by (simp add: untouched_def)

lemma report_step_project [simp]: "run_ProjectID (report_step t req r) = run_ProjectID r"
  by (simp add: report_step_def Let_def applyStepTransition_spec)

lemma run_ops_untouched:
  assumes "\<And>r. find (\<lambda>r. run_ID r = i) (st_Runs (data s)) = Some r \<Longrightarrow> run_ProjectID r \<in> P"
  shows "untouched P (data s) (data (fst (Store_CancelRun e s i who)))"
    and "untouched P (data s) (data (fst (Store_RetryRun e s i who)))"
    and "untouched P (data s) (data (fst (Store_SetRunEngine e s i engine)))"
    and "untouched P (data s) (data (fst (Store_UpdateRunStep e s i req who)))"
  using assms
  by (simp_all add: untouched_def ownership_def Store_CancelRun_def Store_RetryRun_def Store_SetRunEngine_def
      Store_UpdateRunStep_def Let_def outside_update split: option.splits)

lemma submit_untouched:
  "sub_ProjectID req \<in> P \<Longrightarrow> untouched P (data s) (data (fst (Store_SubmitPipeline e s req actors)))"
  by (simp add: untouched_def ownership_def Store_SubmitPipeline_def Let_def split: option.splits prod.splits)

lemma model_ops_untouched:
  assumes "\<And>m. find (\<lambda>m. mdl_ID m = i) (st_Models (data s)) = Some m \<Longrightarrow> mdl_ProjectID m \<in> P"
  shows "untouched P (data s) (data (fst (Store_PromoteModel e s i stage who)))"
    and "untouched P (data s) (data (fst (Store_DeployModel e s i weight who)))"
    and "untouched P (data s) (data (fst (Store_SetModelEndpoint e s i endpoint status)))"
    and "untouched P (data s) (data (fst (Store_RollbackModel e s i who)))"
  using assms
  by (simp_all add: untouched_def ownership_def Store_PromoteModel_def Store_DeployModel_def Store_SetModelEndpoint_def
      Store_RollbackModel_def Let_def outside_update split: option.splits)

lemma register_untouched:
  "rmr_ProjectID req \<in> P \<Longrightarrow> untouched P (data s) (data (fst (Store_RegisterModel e s req who)))"
  by (simp add: untouched_def ownership_def Store_RegisterModel_def Let_def)

lemma agent_ops_untouched:
  "dar_ProjectID dar \<in> P \<Longrightarrow> untouched P (data s) (data (fst (Store_DeployAgent e s dar who)))"
  "(\<And>a. find (\<lambda>a. agt_ID a = i) (st_Agents (data s)) = Some a \<Longrightarrow> agt_ProjectID a \<in> P) \<Longrightarrow>
     untouched P (data s) (data (fst (Store_SetAgentTraffic e s i weight who)))"
  by (simp_all add: untouched_def ownership_def Store_DeployAgent_def Store_SetAgentTraffic_def Let_def outside_update
      split: option.splits)

lemma function_ops_untouched:
  "dfr_ProjectID dfr \<in> P \<Longrightarrow> untouched P (data s) (data (fst (Store_UpsertFunction e s dfr owner who)))"
  "(\<And>f. find (\<lambda>f. fn_Name f = name) (st_Functions (data s)) = Some f \<Longrightarrow> fn_ProjectID f \<in> P) \<Longrightarrow>
     untouched P (data s) (data (fst (Store_DeleteFunction e s name who)))"
  by (simp_all add: untouched_def ownership_def Store_UpsertFunction_def Store_DeleteFunction_def Let_def outside_update outside_delete
      split: option.splits)

lemma repository_untouched:
  "i \<in> P \<Longrightarrow> untouched P (data s) (data (fst (Store_SetProjectRepository e s i req who)))"
proof -
  assume i: "i \<in> P"
  have "prj_ID q \<in> P" if "find (\<lambda>q. prj_ID q = i) (st_Projects (data s)) = Some q" for q
    using find_SomeD [OF that] i by simp
  then show ?thesis
    by (simp add: untouched_def ownership_def Store_SetProjectRepository_def Let_def outside_update
        map_update_found split: option.splits prod.splits)
qed

text \<open>The handlers that act on a resource of a project.\<close>

inductive scoped_step :: "Principal \<Rightarrow> Store \<Rightarrow> Store \<Rightarrow> bool" for p :: Principal where
  "scoped_step p s (fst (h_setProjectRepository es s p i b7))"
| "scoped_step p s (fst (h_cancelRun es s p i))"
| "scoped_step p s (fst (h_retryRun es s faas prefect p i))"
| "scoped_step p s (fst (h_submitPipeline es s faas prefect p b10))"
| "scoped_step p s (fst (h_deployFunction es s client p b11))"
| "scoped_step p s (fst (h_deleteFunction es s client p name))"
| "scoped_step p s (fst (h_registerModel es s p b12))"
| "scoped_step p s (fst (h_promoteModel es s p i b13))"
| "scoped_step p s (fst (h_deployModel es s serving p i b14))"
| "scoped_step p s (fst (h_rollbackModel es s p i))"
| "scoped_step p s (fst (h_deployAgent es s p b15))"
| "scoped_step p s (fst (h_agentTraffic es s p i b16))"

lemma with_body_untouched:
  "(\<And>req. body = Some req \<Longrightarrow> untouched P (data s) (data (fst (k req)))) \<Longrightarrow>
     untouched P (data s) (data (fst (with_body body s k)))"
  by (simp add: with_body_def split: option.split)

lemma in_scope: "projectAllowed rv p i \<longleftrightarrow> i \<in> scope rv p"
  by (simp add: scope_def)

lemma run_hidden_scope:
  "\<not> run_hidden s p i \<Longrightarrow> find (\<lambda>r. run_ID r = i) (st_Runs (data s)) = Some r \<Longrightarrow> run_ProjectID r \<in> scope (store_view s) p"
  by (simp add: run_hidden_def Store_Run_def in_scope)

lemma dispatch_untouched:
  assumes "find (\<lambda>r. run_ID r = run_ID run) (st_Runs (data s)) = Some run" and "run_ProjectID run \<in> P"
  shows "untouched P (data s) (data (fst (dispatchPipeline es s faas prefect run)))"
proof -
  have "run_ProjectID r \<in> P" if "find (\<lambda>r. run_ID r = run_ID run) (st_Runs (data s)) = Some r" for r
    using that assms by simp
  note ops = run_ops_untouched [OF this]
  show ?thesis
    by (auto simp: dispatchPipeline_def split_beta Let_def ops split: prod.splits list.splits option.splits sum.splits)
qed

text \<open>The run a successful submission or retry returns is the first one with its identifier.\<close>

lemma new_run_first:
  "snd (snd (Store_SubmitPipeline e s req actors)) = None \<Longrightarrow> r = fst (snd (Store_SubmitPipeline e s req actors)) \<Longrightarrow>
     find (\<lambda>x. run_ID x = run_ID r) (st_Runs (data (fst (Store_SubmitPipeline e s req actors)))) = Some r \<and>
     run_ProjectID r = sub_ProjectID req"
  by (auto simp: Store_SubmitPipeline_def Let_def split: if_splits option.splits prod.splits)

lemma retried_run_first:
  assumes "snd (snd (Store_RetryRun e s i who)) = None" and "r = fst (snd (Store_RetryRun e s i who))"
  shows "find (\<lambda>x. run_ID x = run_ID r) (st_Runs (data (fst (Store_RetryRun e s i who)))) = Some r"
    and "\<exists>q. find (\<lambda>x. run_ID x = i) (st_Runs (data s)) = Some q \<and> run_ProjectID r = run_ProjectID q"
  using assms by (auto simp: Store_RetryRun_def Let_def split: option.splits)

lemma submit_isolated: "untouched (scope (store_view s) p) (data s) (data (fst (h_submitPipeline es s faas prefect p body)))"
  unfolding h_submitPipeline_def
proof (rule with_body_untouched)
  fix req
  let ?P = "scope (store_view s) p" and ?r = "Store_SubmitPipeline (es 0) s req [actor p]"
  show "untouched ?P (data s) (data (fst (if \<not> projectAllowed (store_view s) p (sub_ProjectID req) then (s, Fail 403 ''access_denied'')
      else if enforceRunQuota (store_view s) p \<noteq> None then (s, Fail 403 ''quota_exceeded'')
      else let (s1, (run, err)) = ?r in
        if err \<noteq> None then (s1, Fail (if err = Some ErrNotFound then 404 else 422) ''pipeline_submission_failed'')
        else let (s2, run', _) = dispatchPipeline (\<lambda>k. es (Suc k)) s1 faas prefect run in (s2, Reply 202 run'))))"
  proof (cases "projectAllowed (store_view s) p (sub_ProjectID req)")
    case True
    then have P: "sub_ProjectID req \<in> ?P" by (simp add: in_scope)
    have disp: "untouched ?P (data s) (data (fst (dispatchPipeline es' (fst ?r) faas prefect (fst (snd ?r)))))"
      if "snd (snd ?r) = None" for es'
      using untouched_trans [OF submit_untouched [OF P] dispatch_untouched]
        new_run_first [OF that refl] P by simp
    show ?thesis
      using True submit_untouched [OF P] disp by (simp add: split_beta Let_def)
  qed simp
qed

lemma retry_isolated: "untouched (scope (store_view s) p) (data s) (data (fst (h_retryRun es s faas prefect p i)))"
proof (cases "run_hidden s p i")
  case False
  let ?P = "scope (store_view s) p" and ?r = "Store_RetryRun (es 0) s i (actor p)"
  note ops = run_ops_untouched(2) [OF run_hidden_scope [OF False]]
  have disp: "untouched ?P (data s) (data (fst (dispatchPipeline es' (fst ?r) faas prefect (fst (snd ?r)))))"
    if ok: "snd (snd ?r) = None" for es'
  proof -
    from retried_run_first(2) [OF ok refl] obtain q where "find (\<lambda>x. run_ID x = i) (st_Runs (data s)) = Some q"
      "run_ProjectID (fst (snd ?r)) = run_ProjectID q" by blast
    then have "run_ProjectID (fst (snd ?r)) \<in> ?P" using run_hidden_scope [OF False] by simp
    then show ?thesis
      using untouched_trans [OF ops dispatch_untouched] retried_run_first(1) [OF ok refl] by simp
  qed
  show ?thesis
    using False ops disp by (simp add: h_retryRun_def split_beta Let_def)
qed (simp add: h_retryRun_def)

lemma modelAllowed_scope:
  "modelAllowed (store_view s) p i \<Longrightarrow> find (\<lambda>m. mdl_ID m = i) (st_Models (data s)) = Some m \<Longrightarrow>
     mdl_ProjectID m \<in> scope (store_view s) p"
  by (simp add: modelAllowed_def in_scope)

lemma Store_DeployModel_ok:
  assumes "snd (snd (Store_DeployModel e s i w who)) = None"
  shows "mdl_ID (fst (snd (Store_DeployModel e s i w who))) = i"
    and "find (\<lambda>m. mdl_ID m = i) (st_Models (data (fst (Store_DeployModel e s i w who)))) =
      Some (fst (snd (Store_DeployModel e s i w who)))"
    and "\<exists>m. find (\<lambda>m. mdl_ID m = i) (st_Models (data s)) = Some m \<and>
      mdl_ProjectID (fst (snd (Store_DeployModel e s i w who))) = mdl_ProjectID m"
proof -
  from assms obtain m where f: "find (\<lambda>m. mdl_ID m = i) (st_Models (data s)) = Some m"
    by (auto simp: Store_DeployModel_def split: if_splits option.splits)
  have i: "mdl_ID m = i" using find_SomeD [OF f] by simp
  define m' where "m' = m\<lparr>mdl_DeploymentStatus := ''deploying'', mdl_CanaryWeight := w,
      mdl_EndpointURL := ''/v1/models/'' @ mdl_Name m @ '':predict''\<rparr>"
  have run: "fst (snd (Store_DeployModel e s i w who)) = m'"
    "st_Models (data (fst (Store_DeployModel e s i w who))) = update_first (\<lambda>m. mdl_ID m = i) (\<lambda>_. m') (st_Models (data s))"
    using assms f by (auto simp: Store_DeployModel_def Let_def m'_def split: if_splits)
  show "mdl_ID (fst (snd (Store_DeployModel e s i w who))) = i" by (simp add: run m'_def i)
  show "find (\<lambda>m. mdl_ID m = i) (st_Models (data (fst (Store_DeployModel e s i w who)))) =
      Some (fst (snd (Store_DeployModel e s i w who)))"
    unfolding run by (rule find_update_first_same [OF f]) (simp add: m'_def i)
  show "\<exists>m. find (\<lambda>m. mdl_ID m = i) (st_Models (data s)) = Some m \<and>
      mdl_ProjectID (fst (snd (Store_DeployModel e s i w who))) = mdl_ProjectID m"
    using f by (simp add: run m'_def)
qed

lemma deployModel_isolated: "untouched (scope (store_view s) p) (data s) (data (fst (h_deployModel es s serving p i body)))"
proof (cases "modelAllowed (store_view s) p i")
  case True
  let ?P = "scope (store_view s) p"
  note scope = modelAllowed_scope [OF True]
  note dep = model_ops_untouched(2) [OF scope]
  have ep: "untouched ?P (data s) (data (fst (Store_SetModelEndpoint (es 1) (fst (Store_DeployModel (es 0) s i w (actor p)))
      (mdl_ID (fst (snd (Store_DeployModel (es 0) s i w (actor p))))) u st)))"
    if ok: "snd (snd (Store_DeployModel (es 0) s i w (actor p))) = None" for w u st
  proof (rule untouched_trans [OF dep model_ops_untouched(3)])
    fix m assume "find (\<lambda>m. mdl_ID m = mdl_ID (fst (snd (Store_DeployModel (es 0) s i w (actor p)))))
        (st_Models (data (fst (Store_DeployModel (es 0) s i w (actor p))))) = Some m"
    with Store_DeployModel_ok [OF ok] scope show "mdl_ProjectID m \<in> ?P" by auto
  qed
  show ?thesis
    unfolding h_deployModel_def using True dep ep
    by (simp, intro with_body_untouched) (simp add: split_beta Let_def split: option.split)
qed (simp add: h_deployModel_def)

lemma deployFunction_isolated:
  "untouched (scope (store_view s) p) (data s) (data (fst (h_deployFunction es s client p body)))"
  by (auto simp: h_deployFunction_def split_beta Let_def in_scope function_ops_untouched split: option.splits)

lemma functionAllowed_scope:
  "functionAllowed (store_view s) p name \<Longrightarrow> find (\<lambda>f. fn_Name f = name) (st_Functions (data s)) = Some f \<Longrightarrow>
     fn_ProjectID f \<in> scope (store_view s) p"
  by (simp add: functionAllowed_def in_scope)

lemma agentAllowed_scope:
  "agentAllowed (store_view s) p i \<Longrightarrow> find (\<lambda>a. agt_ID a = i) (st_Agents (data s)) = Some a \<Longrightarrow>
     agt_ProjectID a \<in> scope (store_view s) p"
  by (simp add: agentAllowed_def in_scope)

lemma scoped_step_isolated: "scoped_step p s t \<Longrightarrow> untouched (scope (store_view s) p) (data s) (data t)"
proof (induction rule: scoped_step.induct)
qed (simp_all add: submit_isolated retry_isolated deployModel_isolated deployFunction_isolated,
  (auto simp: h_setProjectRepository_def h_cancelRun_def h_deleteFunction_def h_registerModel_def h_promoteModel_def
    h_rollbackModel_def h_deployAgent_def h_agentTraffic_def split_beta Let_def in_scope
    intro!: with_body_untouched repository_untouched register_untouched agent_ops_untouched(1)
    intro: run_ops_untouched(1) run_hidden_scope function_ops_untouched(2) functionAllowed_scope
      model_ops_untouched(1,4) modelAllowed_scope agent_ops_untouched(2) agentAllowed_scope
    split: option.splits)+)

text \<open>These handlers leave the scope itself alone, so the isolation extends to sequences of requests.\<close>

lemma untouched_scope: "untouched P (data s) (data t) \<Longrightarrow> scope (store_view t) p = scope (store_view s) p"
proof -
  assume "untouched P (data s) (data t)"
  then have own: "ownership (data t) = ownership (data s)" by (simp add: untouched_def)
  have owned: "set (map prj_ID (filter (\<lambda>q. prj_OwnerSubject q = u) (st_Projects d))) = {i. (i, u) \<in> set (ownership d)}" for u d
    by (auto simp: ownership_def)
  have "allowedProjectIDs (store_view t) p = allowedProjectIDs (store_view s) p"
    unfolding allowedProjectIDs_def store_view_simps owned own ..
  then show ?thesis by (simp add: scope_def projectAllowed_def)
qed

lemma scoped_steps_isolated: "(scoped_step p)\<^sup>*\<^sup>* s t \<Longrightarrow> untouched (scope (store_view s) p) (data s) (data t)"
proof (induction rule: rtranclp_induct)
  case (step t u)
  then show ?case
    using scoped_step_isolated [OF step.hyps(2)] untouched_scope [OF step.IH] untouched_trans by metis
qed simp

subsection \<open>Quotas\<close>

text \<open>The limit a grant sets for a plain user; nobody else is limited.\<close>

definition grant_limit :: "(ComputeGrant \<Rightarrow> int) \<Rightarrow> Principal \<Rightarrow> Store \<Rightarrow> int option" where
  "grant_limit field p s =
     (if privileged p \<or> \<not> is_user p then None
      else case Store_AccessFor s (pr_Subject p) of (a, None) \<Rightarrow> Some (field (ua_Compute a)) | (_, Some _) \<Rightarrow> None)"

definition create_project_request :: "Principal \<Rightarrow> Store \<Rightarrow> envs \<times> CreateProjectRequest \<Rightarrow> Store" where
  "create_project_request p s er = (case er of (es, req) \<Rightarrow>
     if cpr_RepositoryURL req \<noteq> [] \<and> \<not> Allowed p ''PUT'' ''/api/v1/projects/new/repository'' then s
     else fst (createProject_apply es s p req))"

lemma Store_CreateProject_data:
  "\<exists>ps a. data (fst (Store_CreateProject e s req actors)) = (data s)\<lparr>st_Projects := ps @ st_Projects (data s), st_Audit := a\<rparr> \<and>
     length ps \<le> 1"
proof (cases rule: Store_CreateProject_cases [of e s req actors])
  case (rejected err)
  then show ?thesis by (intro exI [of _ "[]"] exI [of _ "st_Audit (data s)"]) simp
next
  case (created p)
  then show ?thesis by (intro exI [of _ "[p]"]) auto
qed

lemma create_project_data:
  "\<exists>ps a. data (create_project_request p s er) = (data s)\<lparr>st_Projects := ps @ st_Projects (data s), st_Audit := a\<rparr> \<and> length ps \<le> 1"
proof (cases er)
  case (Pair es req)
  have same: "\<exists>ps a. data s = (data s)\<lparr>st_Projects := ps @ st_Projects (data s), st_Audit := a\<rparr> \<and> length ps \<le> 1"
    by (intro exI [of _ "[]"] exI [of _ "st_Audit (data s)"]) simp
  show ?thesis
    using Pair same Store_CreateProject_data [of "es 0" s "req\<lparr>cpr_OwnerSubject := pr_Subject p\<rparr>" "[actor p]"]
    by (simp add: create_project_request_def createProject_apply_def split_beta)
qed

interpretation project_quota: guarded_creation
  "\<lambda>s. count_owned (pr_Subject p) (st_Projects (data s))" "grant_limit cg_MaxProjects p"
  "\<lambda>s. enforceProjectQuota (store_view s) p = None" "create_project_request p" for p :: Principal
proof
  fix s n r
  show "int (count_owned (pr_Subject p) (st_Projects (data s))) < n"
    if "enforceProjectQuota (store_view s) p = None" "grant_limit cg_MaxProjects p s = Some n"
    using that by (auto simp: enforceProjectQuota_def grant_limit_def split: if_splits prod.splits option.splits)
  obtain ps a where d: "data (create_project_request p s r) = (data s)\<lparr>st_Projects := ps @ st_Projects (data s), st_Audit := a\<rparr>"
    and "length ps \<le> 1" using create_project_data by blast
  then have "length (filter (\<lambda>project. prj_OwnerSubject project = pr_Subject p) ps) \<le> 1"
    by (meson dual_order.trans length_filter_le)
  then show "count_owned (pr_Subject p) (st_Projects (data (create_project_request p s r))) \<le>
      Suc (count_owned (pr_Subject p) (st_Projects (data s)))"
    by (simp add: d count_owned_def)
  show "grant_limit cg_MaxProjects p (create_project_request p s r) = grant_limit cg_MaxProjects p s"
    by (simp add: grant_limit_def Store_AccessFor_def d)
qed

lemma h_createProject_guarded: "fst (h_createProject es s p (Some req)) = project_quota.guarded p s (es, req)"
  by (simp add: h_createProject_def createProject_check_def project_quota.guarded_def create_project_request_def)

lemma createProject_body:
  "fst (h_createProject es s p body) = (case body of None \<Rightarrow> s | Some req \<Rightarrow> project_quota.guarded p s (es, req))"
  by (cases body) (simp_all add: h_createProject_guarded, simp add: h_createProject_def createProject_check_def)

text \<open>Runs: a submission adds one active run, the dispatch can only end it.\<close>

definition active_runs :: "Principal \<Rightarrow> Store \<Rightarrow> nat" where
  "active_runs p s = count_active (case allowedProjectIDs (store_view s) p of None \<Rightarrow> {} | Some ids \<Rightarrow> ids) (st_Runs (data s))"

lemma length_filter_update_first:
  "find P xs = Some x \<Longrightarrow> (Q y \<Longrightarrow> Q x) \<Longrightarrow> length (filter Q (update_first P (\<lambda>_. y) xs)) \<le> length (filter Q xs)"
  by (induction xs) (auto split: if_splits)

lemma report_failed_inactive:
  "run_Status (report_step t (system_fail step msg) r) \<noteq> ''queued'' \<and> run_Status (report_step t (system_fail step msg) r) \<noteq> ''running''"
proof (cases "run_terminal r")
  case True
  then show ?thesis using report_step_terminal [OF True, of t "system_fail step msg"] by (auto simp: run_terminal_def)
next
  case False
  have "''failed'' \<in> set (map ps_Status (upsert_step (system_fail step msg) (run_Steps r)))"
    using upsert_has_status [of "system_fail step msg"] by (simp add: system_fail_def)
  with False show ?thesis
    by (simp add: report_step_def Let_def run_terminal_def applyStepTransition_spec run_verdict_def)
qed

lemma dispatch_active:
  "count_active A (st_Runs (data (fst (dispatchPipeline es s faas prefect run)))) \<le> count_active A (st_Runs (data s))"
proof -
  have upd: "count_active A (st_Runs (data (fst (Store_UpdateRunStep e s i (system_fail step msg) who)))) \<le> count_active A (st_Runs (data s))" for e i step msg who
    unfolding count_active_def Store_UpdateRunStep_def
    by (auto simp: Let_def report_failed_inactive intro!: length_filter_update_first split: option.splits)
  have eng: "count_active A (st_Runs (data (fst (Store_SetRunEngine e s i g)))) \<le> count_active A (st_Runs (data s))" for e i g
    unfolding count_active_def Store_SetRunEngine_def
    by (auto simp: Let_def intro!: length_filter_update_first split: option.splits)
  show ?thesis
    by (auto simp: dispatchPipeline_def split_beta Let_def upd eng split: prod.splits list.splits option.splits sum.splits)
qed

lemma runs_only_unaffected:
  "runs_only d d' \<Longrightarrow> st_Projects d' = st_Projects d \<and> st_UserAccess d' = st_UserAccess d"
  unfolding runs_only_def by (elim conjE) (drule arg_cong [of _ _ "\<lambda>d. (st_Projects d, st_UserAccess d)"], simp)

lemma dispatch_unaffected:
  "st_Projects (data (fst (dispatchPipeline es s faas prefect run))) = st_Projects (data s) \<and>
   st_UserAccess (data (fst (dispatchPipeline es s faas prefect run))) = st_UserAccess (data s)"
  using runs_only_unaffected [OF Store_UpdateRunStep_runs] runs_only_unaffected [OF Store_SetRunEngine_runs]
  by (auto simp: dispatchPipeline_def split_beta Let_def split: prod.splits list.splits option.splits sum.splits)

text \<open>The requests of a user that create a run: submissions and retries.\<close>

datatype run_request =
    Submit envs bool "(string + string) option" SubmitPipelineRequest
  | Retry envs bool "(string + string) option" string

definition dispatch_new :: "envs \<Rightarrow> bool \<Rightarrow> (string + string) option \<Rightarrow> Store \<times> PipelineRun ret \<Rightarrow> Store" where
  "dispatch_new es faas prefect x = (case x of (s1, (run, err)) \<Rightarrow>
     if err = None then fst (dispatchPipeline (\<lambda>k. es (Suc k)) s1 faas prefect run) else s1)"

fun create_run :: "Principal \<Rightarrow> Store \<Rightarrow> run_request \<Rightarrow> Store" where
  "create_run p s (Submit es faas prefect req) =
     (if \<not> projectAllowed (store_view s) p (sub_ProjectID req) then s
      else dispatch_new es faas prefect (Store_SubmitPipeline (es 0) s req [actor p]))"
| "create_run p s (Retry es faas prefect i) =
     (if run_hidden s p i then s else dispatch_new es faas prefect (Store_RetryRun (es 0) s i (actor p)))"

fun handle_run :: "Principal \<Rightarrow> Store \<Rightarrow> run_request \<Rightarrow> Store" where
  "handle_run p s (Submit es faas prefect req) = fst (h_submitPipeline es s faas prefect p (Some req))"
| "handle_run p s (Retry es faas prefect i) = fst (h_retryRun es s faas prefect p i)"

definition one_more_run :: "Store \<Rightarrow> Store \<Rightarrow> bool" where
  "one_more_run s t \<longleftrightarrow> (\<forall>A. count_active A (st_Runs (data t)) \<le> Suc (count_active A (st_Runs (data s)))) \<and>
     st_Projects (data t) = st_Projects (data s) \<and> st_UserAccess (data t) = st_UserAccess (data s)"

lemma dispatch_new_one_more:
  "one_more_run s (fst x) \<Longrightarrow> one_more_run s (dispatch_new es faas prefect x)"
  by (cases x) (auto simp: one_more_run_def dispatch_new_def dispatch_unaffected intro: order_trans [OF dispatch_active])

lemma submit_one_more: "one_more_run s (fst (Store_SubmitPipeline e s req actors))"
  using runs_only_unaffected [OF Store_SubmitPipeline_runs [of s e req actors]]
  by (auto simp: one_more_run_def count_active_def Store_SubmitPipeline_def Let_def split: option.splits prod.splits)

lemma retry_one_more: "one_more_run s (fst (Store_RetryRun e s i who))"
  using runs_only_unaffected [OF Store_RetryRun_runs [of s e i who]]
  by (auto simp: one_more_run_def count_active_def Store_RetryRun_def Let_def split: option.splits)

lemma create_run_one_more: "one_more_run s (create_run p s x)"
  by (cases x) (auto simp: submit_one_more retry_one_more dispatch_new_one_more, simp_all add: one_more_run_def)

interpretation run_quota: guarded_creation
  "active_runs p" "grant_limit cg_MaxRuns p" "\<lambda>s. enforceRunQuota (store_view s) p = None" "create_run p"
  for p :: Principal
proof
  fix s n r
  show "int (active_runs p s) < n" if "enforceRunQuota (store_view s) p = None" "grant_limit cg_MaxRuns p s = Some n"
    using that by (auto simp: enforceRunQuota_def grant_limit_def active_runs_def Let_def split: if_splits prod.splits option.splits)
  note more = create_run_one_more [of s p r, unfolded one_more_run_def]
  show "active_runs p (create_run p s r) \<le> Suc (active_runs p s)"
    using more by (simp add: active_runs_def allowedProjectIDs_def)
  show "grant_limit cg_MaxRuns p (create_run p s r) = grant_limit cg_MaxRuns p s"
    using more by (simp add: grant_limit_def Store_AccessFor_def)
qed

lemma handle_run_guarded: "handle_run p s x = run_quota.guarded p s x"
  by (cases x) (auto simp: h_submitPipeline_def h_retryRun_def with_body_def run_quota.guarded_def dispatch_new_def split_beta Let_def)

end
