(* ===== verification/Examples.thy ===== *)
theory Examples
  imports Gateway
begin

text \<open>
  Concrete inputs: an environment with a small clock, the store as \<open>New()\<close> creates it in
  memory, an administrator, a plain user with a grant, and requests. The witnesses of the
  properties and the theorems about particular behaviours are evaluated on them.
\<close>

definition ex_env :: env where
  "ex_env = \<lparr>clk = (\<lambda>k. int k), map_seed = [], rand32 = Some (replicate 32 (CHR ''a'')),
     rand8 = Some ''12345678'', marshal = (\<lambda>_. Some ''{}''), unmarshal = (\<lambda>_ d. (d, None)), read_err = None,
     mkdir_err = None, write_err = None, rename_err = None\<rparr>"

definition ex_envs :: envs where
  "ex_envs k = ex_env\<lparr>clk := (\<lambda>j. 10 * int k + int j)\<rparr>"

definition ex_store :: Store where
  "ex_store = Store_New ex_env Map.empty []"

definition ex_admin :: Principal where
  "ex_admin = zero_Principal\<lparr>pr_Subject := ''root'', pr_Roles := [''admin'']\<rparr>"

definition ex_user :: Principal where
  "ex_user = zero_Principal\<lparr>pr_Subject := ''ana'', pr_Roles := [''user''], pr_Provisioned := True,
     pr_Services := [''projects'', ''pipelines''], pr_ProjectIDs := []\<rparr>"

definition ex_project :: CreateProjectRequest where
  "ex_project = \<lparr>cpr_Name = '' Churn '', cpr_Description = [], cpr_Template = [], cpr_RepositoryURL = [],
     cpr_DefaultBranch = [], cpr_OwnerSubject = []\<rparr>"

definition ex_job :: "string \<Rightarrow> string list \<Rightarrow> PipelineJob" where
  "ex_job name deps = zero_PipelineJob\<lparr>job_Name := name, job_Kind := ''container'', job_Image := ''img'',
     job_DependsOn := deps\<rparr>"

definition ex_workflow :: UpsertPipelineDefinitionRequest where
  "ex_workflow = \<lparr>upd_ProjectID = ''prj-demo'', upd_Name = ''train'', upd_Version = ''1'', upd_ExecutionMode = [],
     upd_Jobs = [ex_job ''load'' [], ex_job ''fit'' [''load'']], upd_RepositoryURL = [], upd_CommitSHA = []\<rparr>"

definition ex_grant :: UpsertUserAccessRequest where
  "ex_grant = \<lparr>uar_Email = [], uar_Role = ''user'', uar_Services = [''projects'', ''pipelines''], uar_ProjectIDs = [],
     uar_Storage = zero_StorageGrant, uar_Compute = zero_ComputeGrant\<lparr>cg_MaxProjects := 1, cg_MaxRuns := 1\<rparr>, uar_Disabled = False\<rparr>"

definition ex_granted :: Store where
  "ex_granted = fst (h_upsertUserAccess ex_envs ex_store ex_admin ''ana'' (Some ex_grant))"

definition ex_submission :: SubmitPipelineRequest where
  "ex_submission = \<lparr>sub_ProjectID = ''prj-demo'', sub_Name = ''nightly'', sub_DefinitionID = [], sub_Parameters = []\<rparr>"

definition ex_done :: "string \<Rightarrow> UpdateRunStepRequest" where
  "ex_done step = \<lparr>usr_Step = step, usr_Status = ''succeeded'', usr_Message = []\<rparr>"

definition ex_token_request :: CreateAPITokenRequest where
  "ex_token_request = \<lparr>ctr_Name = ''laptop'', ctr_Services = [''projects''], ctr_ProjectIDs = [''prj-demo''],
     ctr_ExpiresInDays = 30\<rparr>"

definition ex_model :: RegisterModelRequest where
  "ex_model = \<lparr>rmr_ProjectID = ''prj-demo'', rmr_Name = ''churn'', rmr_Version = ''1'', rmr_ArtifactURI = ''s3://m'',
     rmr_Metrics = [(''accuracy'', 0x3FE0000000000000)]\<rparr>"

definition ex_request :: "string \<Rightarrow> string \<Rightarrow> string \<Rightarrow> request" where
  "ex_request m path auth = \<lparr>rq_Method = m, rq_Path = path, rq_URI = path, rq_Authorization = auth, rq_Session = None\<rparr>"

definition ok_reply :: "'a response \<Rightarrow> bool" where
  "ok_reply r = (case r of Reply _ _ \<Rightarrow> True | Fail _ _ \<Rightarrow> False)"

definition ex_submitted :: Store where
  "ex_submitted = fst (Store_SubmitPipeline ex_env ex_store ex_submission [])"

definition ex_registered :: Store where
  "ex_registered = fst (h_registerModel ex_envs ex_store ex_admin (Some ex_model))"

definition ex_good_model :: RegisterModelRequest where
  "ex_good_model = ex_model\<lparr>rmr_Metrics := []\<rparr>"

definition ex_servable :: Store where
  "ex_servable = fst (h_registerModel ex_envs ex_store ex_admin (Some ex_good_model))"

text \<open>Ana owns the project \<open>prj-0\<close>; the demo project, which she cannot reach, has a workflow.\<close>

definition ex_two :: Store where
  "ex_two = fst (h_createProject ex_envs ex_granted ex_user (Some ex_project))"

definition ex_shared :: Store where
  "ex_shared = fst (h_upsertPipelineDefinition ex_envs ex_two ex_admin [] (Some ex_workflow))"

definition ex_overwrite :: UpsertPipelineDefinitionRequest where
  "ex_overwrite = ex_workflow\<lparr>upd_ProjectID := ''prj-0'', upd_Jobs := [(ex_job ''load'' [])\<lparr>job_Image := ''other''\<rparr>]\<rparr>"

definition ex_function :: "string \<Rightarrow> string \<Rightarrow> DeployFunctionRequest" where
  "ex_function project img = \<lparr>dfr_ProjectID = project, dfr_Name = ''score'', dfr_Image = img, dfr_EnvVars = [],
     dfr_Labels = [], dfr_Annotations = [], dfr_CPU = [], dfr_Memory = []\<rparr>"

definition ex_faas :: faas_client where
  "ex_faas = \<lparr>faas_deploy = (\<lambda>_. None), faas_delete = (\<lambda>_. None)\<rparr>"

definition ex_with_function :: Store where
  "ex_with_function = fst (h_deployFunction ex_envs
     (fst (h_upsertUserAccess ex_envs ex_two ex_admin ''ana''
       (Some (ex_grant\<lparr>uar_Compute := zero_ComputeGrant\<lparr>cg_MaxFunctions := 1\<rparr>\<rparr>))))
     (Some ex_faas) ex_admin (Some (ex_function ''prj-demo'' ''good'')))"

definition ex_created :: "Store \<times> CreatedAPIToken ret" where
  "ex_created = Store_CreateAPIToken ex_env ex_store ''ana'' ex_token_request"

definition ex_revoked :: Store where
  "ex_revoked = fst (Store_RevokeAPIToken ex_env (fst ex_created) ''ana'' ''tok-3132333435363738'')"

text \<open>The issued token, with its digest left symbolic.\<close>

definition ex_secret :: string where
  "ex_secret = ''nxs_31323334_'' @ RawURLEncoding (replicate 32 (CHR ''a''))"

definition ex_token :: APIToken where
  "ex_token = zero_APIToken\<lparr>tok_ID := ''tok-3132333435363738'', tok_Subject := ''ana'', tok_Name := ''laptop'',
     tok_Prefix := ''nxs_31323334'', tok_SecretHash := hex_EncodeToString (Sum256 ex_secret),
     tok_Services := [''projects''], tok_ProjectIDs := [''prj-demo''], tok_CreatedAt := 0, tok_ExpiresAt := 30 * day_ns\<rparr>"

definition ex_stored_token :: APIToken where
  "ex_stored_token = zero_APIToken\<lparr>tok_Subject := ''ana'', tok_Services := [''projects''], tok_ProjectIDs := [''prj-demo'']\<rparr>"

definition ex_token_principal :: Principal where
  "ex_token_principal = zero_Principal\<lparr>pr_Subject := ''ana'', pr_Roles := [''user''], pr_Services := [''projects''],
     pr_Provisioned := True, pr_Credential := ''api_token''\<rparr>"

definition ex_auth :: auth_env where
  "ex_auth = \<lparr>internal_token = [], local_role = []\<rparr>"

definition ex_verify :: "string \<Rightarrow> Principal ret" where
  "ex_verify tok = (if tok = ''jwt-root'' then (ex_admin, None)
     else if tok = ''jwt-ana'' then (zero_Principal\<lparr>pr_Subject := ''ana''\<rparr>, None)
     else (zero_Principal, Some (Err ''token validation failed'')))"

definition ex_resolve :: "string \<Rightarrow> APIToken ret" where
  "ex_resolve secret = (if secret = ''nxs_1_x'' then (ex_stored_token, None) else (zero_APIToken, Some ErrNotFound))"

definition ex_reviewed :: Store where
  "ex_reviewed = fst (h_reviewAccessRequest ex_envs
     (fst (h_createAccessRequest ex_envs ex_store ex_user
        (Some \<lparr>car_Reason = ''need the pipelines'', car_RequestedServices = [''pipelines'']\<rparr>)))
     ex_admin ''access-request-1'' (Some \<lparr>rar_Status = ''approved'', rar_Note = []\<rparr>))"

definition ex_agent :: DeployAgentRequest where
  "ex_agent = \<lparr>dar_ProjectID = ''prj-demo'', dar_Name = ''helper'', dar_Version = ''1'', dar_Image = ''img'',
     dar_GraphModule = ''graph'', dar_LLMBackend = [], dar_Replicas = 0, dar_Tools = []\<rparr>"

definition ex_trace :: "int \<Rightarrow> RecordTraceRequest" where
  "ex_trace n = \<lparr>rec_AgentID = ''agt-0'', rec_SessionID = ''s1'', rec_UserID = [], rec_Name = ''turn'', rec_Status = ''running'',
     rec_CurrentNode = [], rec_DurationMS = 1, rec_InputTokens = n, rec_OutputTokens = 1, rec_CostUSD = 0, rec_Metadata = []\<rparr>"

definition ex_traced :: Store where
  "ex_traced = fst (h_recordTrace ex_envs (fst (h_recordTrace ex_envs
     (fst (h_deployAgent ex_envs ex_store ex_admin (Some ex_agent))) (Some (ex_trace 2)))) (Some (ex_trace 3)))"

definition ex_view :: "string \<Rightarrow> ApplyFeatureViewRequest" where
  "ex_view field = \<lparr>afv_Name = ''clicks'', afv_Entity = ''user'', afv_Fields = [\<lparr>ff_Name = field, ff_Type = ''int64''\<rparr>],
     afv_Tags = [], afv_Source = [], afv_TTLSeconds = 60\<rparr>"

definition ex_featured :: Store where
  "ex_featured = fst (Store_ApplyFeatureView ex_env ex_store (ex_view ''n'') ''root'')"

definition ex_filed :: Store where
  "ex_filed = ex_granted\<lparr>spath := ''db'', disk := [''db'' \<mapsto> ''old'']\<rparr>"

definition ex_reader :: env where
  "ex_reader = ex_env\<lparr>unmarshal := (\<lambda>raw _. (if raw = ''old'' then data ex_store else data ex_granted, None))\<rparr>"

lemma ex_user_simps [simp]:
  "pr_Subject ex_user = ''ana''" "pr_ProjectIDs ex_user = []" "pr_Credential ex_user = []" "pr_Roles ex_user = [''user'']"
  "pr_Services ex_user = [''projects'', ''pipelines'']"
  by (simp_all add: ex_user_def zero_Principal_def)

lemma ex_user_kind [simp]: "is_user ex_user" "\<not> privileged ex_user"
  by (simp_all add: is_user_def privileged_def)

lemma ex_store_start: "store_start ex_store"
  unfolding store_start_def ex_store_def
  by (intro exI [of _ ex_env] exI [of _ Map.empty] exI [of _ "[]"]) (simp add: first_or_empty_def)

lemma ex_reachable: "reachable store_start gateway_step ex_store"
  by (rule reachable.start, rule ex_store_start)

lemma ex_store_runs: "st_Runs (data ex_store) = [demo_run 0]"
  by (simp add: ex_store_def Store_New_def Let_def zero_state_def ex_env_def first_or_empty_def persist_def)

lemma ex_reach_step: "gateway_step ex_store t \<Longrightarrow> reachable store_start gateway_step t"
  by (rule reachable.next_state [OF ex_reachable])

lemma ex_granted_step: "gateway_step ex_store ex_granted"
  unfolding ex_granted_def by (rule gateway_step.intros)

lemma ex_two_reachable: "reachable store_start gateway_step ex_two"
  unfolding ex_two_def by (rule reachable.next_state [OF ex_reach_step [OF ex_granted_step]]) (rule gateway_step.intros)

lemma ex_shared_reachable: "reachable store_start gateway_step ex_shared"
  unfolding ex_shared_def by (rule reachable.next_state [OF ex_two_reachable]) (rule gateway_step.intros)

lemma ex_traced_reachable: "reachable store_start gateway_step ex_traced"
  unfolding ex_traced_def by (rule reachable.next_state, rule reachable.next_state, rule ex_reach_step) (rule gateway_step.intros)+

lemma ex_grant_access: "\<exists>a. Store_AccessFor ex_granted ''ana'' = (a, None) \<and> cg_MaxProjects (ua_Compute a) = 1"
proof -
  have "snd (Store_AccessFor ex_granted ''ana'') = None" "cg_MaxProjects (ua_Compute (fst (Store_AccessFor ex_granted ''ana''))) = 1"
    by code_simp+
  then show ?thesis by (cases "Store_AccessFor ex_granted ''ana''") simp
qed

lemma ex_two_access: "\<exists>a. Store_AccessFor ex_two ''ana'' = (a, None) \<and> cg_MaxRuns (ua_Compute a) = 1"
proof -
  have "snd (Store_AccessFor ex_two ''ana'') = None" "cg_MaxRuns (ua_Compute (fst (Store_AccessFor ex_two ''ana''))) = 1"
    by code_simp+
  then show ?thesis by (cases "Store_AccessFor ex_two ''ana''") simp
qed

lemma ex_submitted_run:
  "\<exists>r. Store_Run ex_submitted ''run-1'' = (r, None) \<and> run_Status r = ''queued'' \<and>
     run_Steps r = defaultSteps ''pending'' \<and> run_Progress r = 0 \<and> run_ExecutionMode r = ''prefect''"
proof -
  have plan: "submission_plan (data ex_store) ex_submission = Some (defaultSteps ''pending'', ''prefect'', ''nightly'')"
    by (simp add: submission_plan_def ex_submission_def)
  have prj: "hasProject (st_Projects (data ex_store)) (sub_ProjectID ex_submission)" by code_simp
  have i: "new_id ''run'' 1 = ''run-1''" by code_simp
  show ?thesis
    by (simp add: ex_submitted_def Store_Run_def Store_SubmitPipeline_def Let_def plan prj i ex_env_def)
qed

lemma ex_created_value:
  "fst (snd ex_created) = \<lparr>cat_Token = ex_token, cat_Secret = ex_secret\<rparr>" "st_APITokens (data (fst ex_created)) = [ex_token]"
proof -
  have v: "validateTokenRequest ex_token_request = (ex_token_request, None)" by code_simp
  have h: "hex_EncodeToString ''12345678'' = ''3132333435363738''" "hex_EncodeToString ''1234'' = ''31323334''" by code_simp+
  have t: "st_APITokens (data ex_store) = []"
    by (simp add: ex_store_def Store_New_def Let_def zero_state_def ex_env_def first_or_empty_def persist_def)
  have g: "generateAPIToken ex_env = Inl (''tok-3132333435363738'', ''nxs_31323334'', ex_secret, hex_EncodeToString (Sum256 ex_secret))"
    by (simp add: generateAPIToken_def ex_env_def ex_secret_def h Let_def)
  show "fst (snd ex_created) = \<lparr>cat_Token = ex_token, cat_Secret = ex_secret\<rparr>" "st_APITokens (data (fst ex_created)) = [ex_token]"
    by (simp_all add: ex_created_def Store_CreateAPIToken_def v g t Let_def,
        simp_all add: ex_token_def ex_token_request_def ex_env_def)
qed

lemma ex_created_eq: "Store_CreateAPIToken ex_env ex_store ''ana'' ex_token_request =
    (fst ex_created, (fst (snd ex_created), snd (snd ex_created)))"
  by (simp add: ex_created_def)

lemma ex_revoked_tokens: "st_APITokens (data ex_revoked) = [ex_token\<lparr>tok_RevokedAt := Some 0\<rparr>]"
  by (simp add: ex_revoked_def Store_RevokeAPIToken_def ex_created_value, simp add: ex_token_def zero_APIToken_def ex_env_def)

end
