(* ===== verification/Executor.thy ===== *)
theory Executor
  imports Runs
begin

text \<open>
  The executor of function workflows: \<^verbatim>\<open>executeFunctionPipeline\<close> of
  \<^verbatim>\<open>go/internal/httpapi/pipeline_dispatch.go\<close>, as a small-step machine.

  The main goroutine starts the ready jobs in waves and waits for each wave; every job runs
  in a goroutine of its own. A step of the machine is one atomic action: a call of the
  repository (which holds the store's mutex), a section under the executor's mutex, or one
  invocation of the function. \<open>exec_move\<close> performs the next action of the main goroutine
  (\<open>None\<close>) or of the worker with the given index; \<open>exec_run\<close> interleaves these actions
  arbitrarily with each other and with what other clients do to the repository meanwhile.

  The loop that starts a wave has no effect another goroutine can see (\<open>ready\<close> is complete
  before it begins and \<open>remaining\<close> belongs to the main goroutine), so a wave starts in one
  step. The workers of earlier waves are kept in the state as \<open>Finished\<close>.

  OpenFaaS is the parameter \<open>fc_invoke\<close>: the outcome of calling a function with a payload at
  the given attempt, a body (\<open>Inl\<close>) or the text of an error (\<open>Inr\<close>); every call returns,
  because its context expires after five minutes. \<open>encoding/json\<close> is \<open>fc_marshal\<close> and
  \<open>fc_unmarshal\<close>.
\<close>

subsection \<open>The machine\<close>

record invoke_client =
  fc_invoke :: "string \<Rightarrow> string \<Rightarrow> int \<Rightarrow> string + string"
  fc_marshal :: "gany \<Rightarrow> string option"
  fc_unmarshal :: "string \<Rightarrow> gany option"

text \<open>Where a worker stands, with its local variables.\<close>

datatype pc =
    Starting                              \<comment> \<open>about to report \<open>running\<close>\<close>
  | Reading                               \<comment> \<open>about to copy the outputs of its dependencies\<close>
  | Invoking string int string "string option"
      \<comment> \<open>at the head of the retry loop: \<open>payload\<close>, \<open>attempt\<close>, \<open>raw\<close>, \<open>err\<close>\<close>
  | Failing string                        \<comment> \<open>about to report \<open>failed\<close>\<close>
  | Marking                               \<comment> \<open>about to set \<open>failed\<close>\<close>
  | Storing string                        \<comment> \<open>about to store its output\<close>
  | Announcing string                     \<comment> \<open>about to report \<open>succeeded\<close>\<close>
  | Finished

record exec =
  x_store :: Store
  x_remaining :: "PipelineJob list"
  x_workers :: "(PipelineJob \<times> pc) list"
  x_outputs :: "string \<rightharpoonup> gany"
  x_completed :: "string set"
  x_failed :: bool
  x_returned :: bool

text \<open>The map \<open>remaining\<close>: of two jobs with one name the later entry wins.\<close>

fun jobs_by_name :: "PipelineJob list \<Rightarrow> PipelineJob list" where
  "jobs_by_name [] = []"
| "jobs_by_name (job # jobs) =
     (if job_Name job \<in> job_Name ` set jobs then jobs_by_name jobs else job # jobs_by_name jobs)"

definition exec_start :: "Store \<Rightarrow> PipelineJob list \<Rightarrow> exec" where
  "exec_start s jobs = \<lparr>x_store = s, x_remaining = jobs_by_name jobs, x_workers = [], x_outputs = Map.empty,
     x_completed = {}, x_failed = False, x_returned = False\<rparr>"

definition step_report :: "string \<Rightarrow> string \<Rightarrow> string \<Rightarrow> UpdateRunStepRequest" where
  "step_report step status message = \<lparr>usr_Step = step, usr_Status = status, usr_Message = message\<rparr>"

definition exec_report :: "env \<Rightarrow> PipelineRun \<Rightarrow> UpdateRunStepRequest \<Rightarrow> exec \<Rightarrow> exec" where
  "exec_report e run req st =
     st\<lparr>x_store := fst (Store_UpdateRunStep e (x_store st) (run_ID run) req ''system'')\<rparr>"

definition job_payload :: "invoke_client \<Rightarrow> PipelineRun \<Rightarrow> PipelineJob \<Rightarrow> (string \<rightharpoonup> gany) \<Rightarrow> string" where
  "job_payload c run job outputs =
     (let dependencies = map (\<lambda>name. (name, case outputs name of Some v \<Rightarrow> v | None \<Rightarrow> AnyNil)) (remdups (job_DependsOn job))
      in case fc_marshal c (AnyMap [(''run_id'', AnyStr (run_ID run)), (''project_id'', AnyStr (run_ProjectID run)),
             (''step'', AnyStr (job_Name job)), (''parameters'', AnyMap (run_Parameters run)),
             (''dependencies'', AnyMap dependencies)]) of Some raw \<Rightarrow> raw | None \<Rightarrow> [])"

definition worker_step :: "invoke_client \<Rightarrow> env \<Rightarrow> PipelineRun \<Rightarrow> PipelineJob \<Rightarrow> pc \<Rightarrow> exec \<Rightarrow> pc \<times> exec" where
  "worker_step c e run job pc st = (case pc of
     Starting \<Rightarrow> (Reading,
       exec_report e run (step_report (job_Name job) ''running'' (''invoking function '' @ job_Function job)) st)
   | Reading \<Rightarrow> (Invoking (job_payload c run job (x_outputs st)) 0 [] None, st)
   | Invoking payload attempt raw err \<Rightarrow>
       (if attempt \<le> job_Retries job then
          (case fc_invoke c (job_Function job) payload attempt of
             Inl body \<Rightarrow> (Storing body, st)
           | Inr message \<Rightarrow> (Invoking payload (attempt + 1) [] (Some message), st))
        else (case err of Some message \<Rightarrow> (Failing message, st) | None \<Rightarrow> (Storing raw, st)))
   | Failing message \<Rightarrow> (Marking, exec_report e run (step_report (job_Name job) ''failed'' message) st)
   | Marking \<Rightarrow> (Finished, st\<lparr>x_failed := True\<rparr>)
   | Storing raw \<Rightarrow>
       (Announcing raw,
        st\<lparr>x_outputs := (x_outputs st)(job_Name job \<mapsto> (case fc_unmarshal c raw of Some v \<Rightarrow> v | None \<Rightarrow> AnyStr raw)),
           x_completed := insert (job_Name job) (x_completed st)\<rparr>)
   | Announcing raw \<Rightarrow> (Finished,
       exec_report e run (step_report (job_Name job) ''succeeded''
         (''function '' @ job_Function job @ '' completed ('' @ Itoa (int (length raw)) @ '' bytes)'')) st)
   | Finished \<Rightarrow> (Finished, st))"

definition job_ready :: "string set \<Rightarrow> PipelineJob \<Rightarrow> bool" where
  "job_ready completed job \<longleftrightarrow> list_all (\<lambda>dependency. dependency \<in> completed) (job_DependsOn job)"

text \<open>The main goroutine, between two waves.\<close>

definition main_step :: "env \<Rightarrow> PipelineRun \<Rightarrow> exec \<Rightarrow> exec" where
  "main_step e run st =
     (if x_failed st \<or> x_remaining st = [] then st\<lparr>x_returned := True\<rparr>
      else let ready = filter (job_ready (x_completed st)) (x_remaining st) in
        if ready = [] then
          (exec_report e run (step_report ''orchestrator'' ''failed'' ''pipeline graph cannot make progress'') st)
            \<lparr>x_returned := True\<rparr>
        else st\<lparr>x_remaining := filter (\<lambda>j. \<not> job_ready (x_completed st) j) (x_remaining st),
                x_workers := x_workers st @ map (\<lambda>j. (j, Starting)) ready\<rparr>)"

definition exec_move :: "invoke_client \<Rightarrow> env \<Rightarrow> PipelineRun \<Rightarrow> nat option \<Rightarrow> exec \<Rightarrow> exec option" where
  "exec_move c e run who st =
     (if x_returned st then None
      else case who of
        None \<Rightarrow> if list_all (\<lambda>w. snd w = Finished) (x_workers st) then Some (main_step e run st) else None
      | Some i \<Rightarrow>
          if i < length (x_workers st) \<and> snd (x_workers st ! i) \<noteq> Finished then
            (let (job, pc) = x_workers st ! i; (pc', st') = worker_step c e run job pc st
             in Some (st'\<lparr>x_workers := (x_workers st)[i := (job, pc')]\<rparr>))
          else None)"

text \<open>A run of the machine, with the number of its own steps.\<close>

inductive exec_run ::
  "invoke_client \<Rightarrow> PipelineRun \<Rightarrow> (Store \<Rightarrow> Store \<Rightarrow> bool) \<Rightarrow> exec \<Rightarrow> nat \<Rightarrow> exec \<Rightarrow> bool"
  for c run other start where
  start: "exec_run c run other start 0 start"
| own: "exec_run c run other start n st \<Longrightarrow> exec_move c e run who st = Some st' \<Longrightarrow>
    exec_run c run other start (Suc n) st'"
| others: "exec_run c run other start n st \<Longrightarrow> other (x_store st) s \<Longrightarrow>
    exec_run c run other start n (st\<lparr>x_store := s\<rparr>)"

lemma jobs_by_name_distinct: "distinct (map job_Name jobs) \<Longrightarrow> jobs_by_name jobs = jobs"
  by (induction jobs) auto

lemma exec_report_frame [simp]:
  "x_remaining (exec_report e run req st) = x_remaining st" "x_workers (exec_report e run req st) = x_workers st"
  "x_outputs (exec_report e run req st) = x_outputs st" "x_completed (exec_report e run req st) = x_completed st"
  "x_failed (exec_report e run req st) = x_failed st" "x_returned (exec_report e run req st) = x_returned st"
  "x_store (exec_report e run req st) = fst (Store_UpdateRunStep e (x_store st) (run_ID run) req ''system'')"
  by (simp_all add: exec_report_def)

text \<open>The two kinds of step, for case analysis.\<close>

lemma exec_move_cases [consumes 1, case_names returns stuck wave worker]:
  assumes "exec_move c e run who st = Some st'"
  obtains "list_all (\<lambda>w. snd w = Finished) (x_workers st)" "x_failed st \<or> x_remaining st = []"
      "st' = st\<lparr>x_returned := True\<rparr>" "\<not> x_returned st"
  | "list_all (\<lambda>w. snd w = Finished) (x_workers st)" "\<not> x_failed st" "x_remaining st \<noteq> []" "\<not> x_returned st"
      "filter (job_ready (x_completed st)) (x_remaining st) = []"
      "st' = (exec_report e run (step_report ''orchestrator'' ''failed'' ''pipeline graph cannot make progress'') st)\<lparr>x_returned := True\<rparr>"
  | "list_all (\<lambda>w. snd w = Finished) (x_workers st)" "\<not> x_failed st" "\<not> x_returned st"
      "filter (job_ready (x_completed st)) (x_remaining st) \<noteq> []"
      "st' = st\<lparr>x_remaining := filter (\<lambda>j. \<not> job_ready (x_completed st) j) (x_remaining st),
         x_workers := x_workers st @ map (\<lambda>j. (j, Starting)) (filter (job_ready (x_completed st)) (x_remaining st))\<rparr>"
  | i job pc pc' st1 where "i < length (x_workers st)" "x_workers st ! i = (job, pc)" "pc \<noteq> Finished"
      "worker_step c e run job pc st = (pc', st1)" "\<not> x_returned st"
      "st' = st1\<lparr>x_workers := (x_workers st)[i := (job, pc')]\<rparr>"
proof (cases who)
  case None
  then show thesis
    using assms that(1-3) by (auto simp: exec_move_def main_step_def Let_def split: if_splits)
next
  case (Some i)
  then show thesis
    using assms that(4) by (auto simp: exec_move_def split_beta split: if_splits prod.splits)
      (metis prod.collapse)
qed

subsection \<open>Termination\<close>

definition job_cost :: "PipelineJob \<Rightarrow> nat" where
  "job_cost job = nat (job_Retries job + 1) + 6"

fun worker_cost :: "PipelineJob \<times> pc \<Rightarrow> nat" where
  "worker_cost (job, Starting) = nat (job_Retries job + 1) + 5"
| "worker_cost (job, Reading) = nat (job_Retries job + 1) + 4"
| "worker_cost (job, Invoking payload attempt raw err) = nat (job_Retries job + 1 - attempt) + 3"
| "worker_cost (job, Failing message) = 2"
| "worker_cost (job, Marking) = 1"
| "worker_cost (job, Storing raw) = 2"
| "worker_cost (job, Announcing raw) = 1"
| "worker_cost (job, Finished) = 0"

text \<open>An upper bound on the steps the machine has left.\<close>

definition exec_cost :: "exec \<Rightarrow> nat" where
  "exec_cost st = sum_list (map job_cost (x_remaining st)) + sum_list (map worker_cost (x_workers st)) +
     (if x_returned st then 0 else 1)"

lemma worker_step_frame:
  assumes "worker_step c e run job pc st = (pc', st')"
  shows "x_remaining st' = x_remaining st" "x_workers st' = x_workers st" "x_returned st' = x_returned st"
  using assms by (auto simp: worker_step_def split: pc.splits if_splits option.splits sum.splits)

lemma worker_step_cost:
  "worker_step c e run job pc st = (pc', st') \<Longrightarrow> pc \<noteq> Finished \<Longrightarrow> worker_cost (job, pc') < worker_cost (job, pc)"
  by (auto simp: worker_step_def split: pc.splits if_splits option.splits sum.splits)

lemma sum_list_update_less:
  "i < length xs \<Longrightarrow> f y < f (xs ! i) \<Longrightarrow> sum_list (map f (xs[i := y])) < (sum_list (map f xs) :: nat)"
proof (induction xs arbitrary: i)
  case (Cons x xs)
  then show ?case by (cases i) auto
qed simp

lemma sum_list_wave:
  "sum_list (map job_cost xs) = sum_list (map job_cost (filter P xs)) + sum_list (map job_cost (filter (\<lambda>j. \<not> P j) xs))"
  by (induction xs) auto

lemma wave_cost:
  "xs \<noteq> [] \<Longrightarrow> sum_list (map worker_cost (map (\<lambda>j. (j, Starting)) xs)) < sum_list (map job_cost xs)"
proof (induction xs)
  case (Cons x xs)
  then show ?case by (cases "xs = []") (auto simp: job_cost_def)
qed simp

lemma exec_move_cost:
  assumes "exec_move c e run who st = Some st'"
  shows "exec_cost st' < exec_cost st"
  using assms
proof (cases rule: exec_move_cases)
  case wave
  then show ?thesis
    using wave_cost [OF wave(4)] sum_list_wave [of "x_remaining st" "job_ready (x_completed st)"]
    by (simp add: exec_cost_def)
next
  case (worker i job pc pc' st1)
  have "sum_list (map worker_cost ((x_workers st)[i := (job, pc')])) < sum_list (map worker_cost (x_workers st))"
    using worker worker_step_cost [OF worker(4,3)] by (intro sum_list_update_less) simp_all
  then show ?thesis
    using worker worker_step_frame [OF worker(4)] by (simp add: exec_cost_def)
qed (simp_all add: exec_cost_def)

lemma exec_cost_start: "exec_cost (exec_start s jobs) \<le> 1 + sum_list (map job_cost jobs)"
proof -
  have "sum_list (map job_cost (jobs_by_name jobs)) \<le> sum_list (map job_cost jobs)" by (induction jobs) auto
  then show ?thesis by (simp add: exec_cost_def exec_start_def)
qed

lemma exec_run_cost: "exec_run c run other start n st \<Longrightarrow> n + exec_cost st \<le> exec_cost start"
proof (induction rule: exec_run.induct)
  case (own n st e who st')
  then show ?case using exec_move_cost [OF own.hyps(2)] by linarith
qed (simp_all add: exec_cost_def)

lemma exec_not_stuck: "\<not> x_returned st \<Longrightarrow> \<exists>who st'. exec_move c e run who st = Some st'"
proof (cases "list_all (\<lambda>w. snd w = Finished) (x_workers st)")
  case True
  then show "\<not> x_returned st \<Longrightarrow> ?thesis" by (intro exI [of _ None]) (simp add: exec_move_def)
next
  case False
  then obtain i where "i < length (x_workers st)" "snd (x_workers st ! i) \<noteq> Finished"
    by (auto simp: list_all_length)
  then show "\<not> x_returned st \<Longrightarrow> ?thesis"
    by (intro exI [of _ "Some i"]) (simp add: exec_move_def split_beta)
qed

text \<open>So some execution returns, whatever the environment answers.\<close>

lemma exec_returns:
  assumes "exec_run c run other start n st"
  shows "\<exists>n st. exec_run c run other start n st \<and> x_returned st"
  using assms
proof (induction "exec_cost st" arbitrary: n st rule: less_induct)
  case less
  show ?case
  proof (cases "x_returned st")
    case False
    then obtain e who st' where move: "exec_move c e run who st = Some st'" using exec_not_stuck by blast
    from less.hyps [OF exec_move_cost [OF move] exec_run.own [OF less.prems move]] show ?thesis .
  qed (use less.prems in blast)
qed

text \<open>An executable scheduler.\<close>

fun exec_schedule :: "invoke_client \<Rightarrow> PipelineRun \<Rightarrow> (env \<times> nat option) list \<Rightarrow> exec \<Rightarrow> exec option" where
  "exec_schedule c run [] st = Some st"
| "exec_schedule c run ((e, who) # moves) st =
     (case exec_move c e run who st of None \<Rightarrow> None | Some st' \<Rightarrow> exec_schedule c run moves st')"

lemma exec_schedule_run:
  "exec_schedule c run moves st = Some st' \<Longrightarrow> exec_run c run other start n st \<Longrightarrow>
     exec_run c run other start (n + length moves) st'"
proof (induction moves arbitrary: st n)
  case (Cons m moves)
  obtain e who where m: "m = (e, who)" by (cases m)
  with Cons.prems obtain st1 where "exec_move c e run who st = Some st1" "exec_schedule c run moves st1 = Some st'"
    by (auto split: option.splits)
  from Cons.IH [OF this(2) exec_run.own [OF Cons.prems(2) this(1)]] show ?case by simp
qed simp

subsection \<open>Order\<close>

text \<open>
  What the machine guarantees at every moment, whatever other clients do: the jobs are
  split between \<open>remaining\<close> and the workers; a worker runs only after all its dependencies
  are finished and their outputs stored, and sends exactly these; a worker that failed has
  used up its attempts.
\<close>

definition succeeded_dep :: "exec \<Rightarrow> string \<Rightarrow> bool" where
  "succeeded_dep st d \<longleftrightarrow> d \<in> x_completed st \<and> x_outputs st d \<noteq> None \<and>
     (\<exists>j. (j, Finished) \<in> set (x_workers st) \<and> job_Name j = d)"

definition exhausted :: "invoke_client \<Rightarrow> PipelineJob \<Rightarrow> bool" where
  "exhausted c job \<longleftrightarrow> (\<exists>payload. \<forall>k. 0 \<le> k \<and> k \<le> job_Retries job \<longrightarrow>
     (\<exists>message. fc_invoke c (job_Function job) payload k = Inr message))"

definition worker_ok :: "invoke_client \<Rightarrow> PipelineRun \<Rightarrow> exec \<Rightarrow> PipelineJob \<times> pc \<Rightarrow> bool" where
  "worker_ok c run st w \<longleftrightarrow> (case w of (job, pc) \<Rightarrow>
     (\<forall>d \<in> set (job_DependsOn job). succeeded_dep st d) \<and>
     (case pc of
        Invoking payload attempt raw err \<Rightarrow> payload = job_payload c run job (x_outputs st) \<and> 0 \<le> attempt \<and>
          (err = None \<longleftrightarrow> attempt = 0) \<and>
          (\<forall>k. 0 \<le> k \<and> k < attempt \<longrightarrow> (\<exists>message. fc_invoke c (job_Function job) payload k = Inr message))
      | Failing message \<Rightarrow> exhausted c job
      | Marking \<Rightarrow> exhausted c job
      | Announcing raw \<Rightarrow> job_Name job \<in> x_completed st
      | Finished \<Rightarrow> job_Name job \<in> x_completed st \<or> x_failed st
      | _ \<Rightarrow> True))"

definition exec_ok :: "invoke_client \<Rightarrow> PipelineRun \<Rightarrow> PipelineJob list \<Rightarrow> exec \<Rightarrow> bool" where
  "exec_ok c run jobs st \<longleftrightarrow>
     distinct (map job_Name (x_remaining st @ map fst (x_workers st))) \<and>
     set (x_remaining st @ map fst (x_workers st)) = set jobs \<and>
     (\<forall>w \<in> set (x_workers st). worker_ok c run st w) \<and>
     (\<forall>n \<in> x_completed st. x_outputs st n \<noteq> None) \<and>
     x_completed st \<subseteq> job_Name ` fst ` {w \<in> set (x_workers st). snd w = Finished \<or> (\<exists>raw. snd w = Announcing raw)} \<and>
     (x_failed st \<longrightarrow> (\<exists>job \<in> set jobs. exhausted c job)) \<and>
     (x_returned st \<longrightarrow> (\<forall>w \<in> set (x_workers st). snd w = Finished) \<and> (x_failed st \<or> x_remaining st = []))"

text \<open>A subset of an acyclic graph has a node without dependencies in it.\<close>

lemma ready_exists:
  assumes "graph_ok jobs" and "R \<subseteq> set jobs" and "R \<noteq> {}"
  shows "\<exists>j \<in> R. \<forall>d \<in> set (job_DependsOn j). d \<notin> job_Name ` R"
proof -
  let ?r = "{(job_Name j, d) | j d. j \<in> set jobs \<and> d \<in> set (job_DependsOn j)}"
  have "?r = (\<Union>j \<in> set jobs. Pair (job_Name j) ` set (job_DependsOn j))" by auto
  then have "finite ?r" by simp
  moreover have "acyclic ?r" using assms(1) by (simp add: graph_ok_def)
  ultimately have "wf (?r\<inverse>)" by (rule finite_acyclic_wf_converse)
  moreover obtain n where "n \<in> job_Name ` R" using assms(3) by auto
  ultimately obtain m where "m \<in> job_Name ` R" and least: "\<And>d. (d, m) \<in> ?r\<inverse> \<Longrightarrow> d \<notin> job_Name ` R"
    by (rule wfE_min) blast
  then obtain j where "j \<in> R" "m = job_Name j" by auto
  moreover have "d \<notin> job_Name ` R" if "d \<in> set (job_DependsOn j)" for d
    using that calculation assms(2) by (intro least) auto
  ultimately show ?thesis by blast
qed

text \<open>Neither the store nor the flag \<open>x_returned\<close> matters to the workers.\<close>

lemma worker_ok_frame [simp]:
  "worker_ok c run (st\<lparr>x_store := s\<rparr>) w = worker_ok c run st w"
  "worker_ok c run (st\<lparr>x_returned := b\<rparr>) w = worker_ok c run st w"
  by (cases w; cases "snd w"; simp add: worker_ok_def succeeded_dep_def)+

lemma exec_ok_store [simp]: "exec_ok c run jobs (st\<lparr>x_store := s\<rparr>) = exec_ok c run jobs st"
  by (simp add: exec_ok_def)

lemma exec_ok_worker_job: "exec_ok c run jobs st \<Longrightarrow> w \<in> set (x_workers st) \<Longrightarrow> fst w \<in> set jobs"
proof -
  assume "exec_ok c run jobs st" and w: "w \<in> set (x_workers st)"
  then have "set (x_remaining st @ map fst (x_workers st)) = set jobs" unfolding exec_ok_def by blast
  moreover have "fst w \<in> set (x_remaining st @ map fst (x_workers st))" using w by simp
  ultimately show ?thesis by blast
qed

lemma exec_ok_start:
  assumes "graph_ok jobs"
  shows "exec_ok c run jobs (exec_start s jobs)"
  using assms by (simp add: exec_ok_def exec_start_def graph_ok_def jobs_by_name_distinct)

text \<open>Between two waves every started job is completed, so the graph always makes progress.\<close>

lemma between_waves:
  assumes "exec_ok c run jobs st" and "list_all (\<lambda>w. snd w = Finished) (x_workers st)" and "\<not> x_failed st"
  shows "x_completed st = job_Name ` fst ` set (x_workers st)"
    and "d \<in> x_completed st \<Longrightarrow> succeeded_dep st d"
proof -
  have fin: "snd w = Finished" if "w \<in> set (x_workers st)" for w
    using assms(2) that by (simp add: list_all_iff)
  have "job_Name (fst w) \<in> x_completed st" if "w \<in> set (x_workers st)" for w
    using assms(1,3) fin [OF that] that by (cases w) (fastforce simp: exec_ok_def worker_ok_def)
  moreover have "x_completed st \<subseteq> job_Name ` fst ` {w \<in> set (x_workers st). snd w = Finished \<or> (\<exists>raw. snd w = Announcing raw)}"
    using assms(1) by (simp add: exec_ok_def)
  ultimately show eq: "x_completed st = job_Name ` fst ` set (x_workers st)" by blast
  assume d: "d \<in> x_completed st"
  then obtain j pc where "(j, pc) \<in> set (x_workers st)" "job_Name j = d" unfolding eq by auto
  with fin have "(j, Finished) \<in> set (x_workers st)" by fastforce
  with d \<open>job_Name j = d\<close> assms(1) show "succeeded_dep st d" by (auto simp: succeeded_dep_def exec_ok_def)
qed

lemma never_stuck:
  assumes "graph_ok jobs" and ok: "exec_ok c run jobs st" and fin: "list_all (\<lambda>w. snd w = Finished) (x_workers st)"
    and "\<not> x_failed st" and "x_remaining st \<noteq> []"
  shows "filter (job_ready (x_completed st)) (x_remaining st) \<noteq> []"
proof -
  have jobs: "set jobs = set (x_remaining st) \<union> fst ` set (x_workers st)"
    using ok by (simp add: exec_ok_def)
  obtain j where j: "j \<in> set (x_remaining st)" "\<forall>d \<in> set (job_DependsOn j). d \<notin> job_Name ` set (x_remaining st)"
    using ready_exists [OF assms(1), of "set (x_remaining st)"] jobs assms(5) by auto
  have "d \<in> x_completed st" if "d \<in> set (job_DependsOn j)" for d
  proof -
    have "d \<in> job_Name ` set jobs" using assms(1) that j(1) jobs by (auto simp: graph_ok_def)
    with j(2) that show ?thesis unfolding between_waves(1) [OF ok fin assms(4)] jobs by auto
  qed
  with j(1) show ?thesis by (auto simp: job_ready_def list_all_iff filter_empty_conv)
qed

text \<open>A step of one worker, seen from the others.\<close>

lemma set_list_updateE:
  assumes "w \<in> set (xs[i := y])" and "i < length xs"
  obtains "w = y" | k where "k \<noteq> i" "k < length xs" "w = xs ! k"
proof -
  from assms obtain k where "k < length xs" "w = (xs[i := y]) ! k" by (auto simp: in_set_conv_nth)
  with that assms(2) show thesis by (cases "k = i") auto
qed

lemma other_kept: "w \<in> set ws \<Longrightarrow> w \<noteq> ws ! i \<Longrightarrow> w \<in> set (ws[i := y])"
  by (metis in_set_conv_nth length_list_update nth_list_update_neq)

lemma finished_kept:
  "i < length ws \<Longrightarrow> ws ! i = (job, pc) \<Longrightarrow> pc \<noteq> Finished \<Longrightarrow> (j, Finished) \<in> set ws \<Longrightarrow> (j, Finished) \<in> set (ws[i := y])"
  by (rule other_kept) auto

lemma worker_names_distinct:
  assumes "exec_ok c run jobs st" "i < length (x_workers st)" "k < length (x_workers st)" "i \<noteq> k"
  shows "job_Name (fst (x_workers st ! i)) \<noteq> job_Name (fst (x_workers st ! k))"
  using assms nth_eq_iff_index_eq [of "map (job_Name \<circ> fst) (x_workers st)" i k]
  by (auto simp: exec_ok_def comp_def)

lemma job_payload_cong:
  "(\<And>d. d \<in> set (job_DependsOn job) \<Longrightarrow> f d = g d) \<Longrightarrow> job_payload c run job f = job_payload c run job g"
proof -
  assume eq: "\<And>d. d \<in> set (job_DependsOn job) \<Longrightarrow> f d = g d"
  have "map (\<lambda>name. (name, case f name of Some v \<Rightarrow> v | None \<Rightarrow> AnyNil)) (remdups (job_DependsOn job)) =
      map (\<lambda>name. (name, case g name of Some v \<Rightarrow> v | None \<Rightarrow> AnyNil)) (remdups (job_DependsOn job))"
    using eq by (intro map_cong) simp_all
  then show ?thesis unfolding job_payload_def Let_def by (rule arg_cong)
qed

text \<open>What a worker step changes of the shared variables.\<close>

definition shared_grow :: "PipelineJob \<Rightarrow> exec \<Rightarrow> exec \<Rightarrow> bool" where
  "shared_grow job st st1 \<longleftrightarrow> x_completed st \<subseteq> x_completed st1 \<and> x_completed st1 \<subseteq> insert (job_Name job) (x_completed st) \<and>
     (\<forall>n. n \<noteq> job_Name job \<longrightarrow> x_outputs st1 n = x_outputs st n) \<and>
     (x_outputs st (job_Name job) \<noteq> None \<longrightarrow> x_outputs st1 (job_Name job) \<noteq> None) \<and> (x_failed st \<longrightarrow> x_failed st1)"

lemma worker_step_shared: "worker_step c e run job pc st = (pc', st1) \<Longrightarrow> shared_grow job st st1"
  by (auto simp: worker_step_def shared_grow_def split: pc.splits if_splits option.splits sum.splits)

lemma succeeded_dep_step:
  assumes "succeeded_dep st d" "i < length (x_workers st)" "x_workers st ! i = (job, pc)" "pc \<noteq> Finished"
    and "shared_grow job st st1" and "x_workers st' = (x_workers st)[i := y]" "x_completed st' = x_completed st1"
    "x_outputs st' = x_outputs st1"
  shows "succeeded_dep st' d"
proof -
  from assms(1) obtain j where j: "d \<in> x_completed st" "x_outputs st d \<noteq> None" "(j, Finished) \<in> set (x_workers st)" "job_Name j = d"
    by (auto simp: succeeded_dep_def)
  have "x_outputs st1 d \<noteq> None" using j(2) assms(5) by (cases "d = job_Name job") (auto simp: shared_grow_def)
  moreover have "d \<in> x_completed st1" using j(1) assms(5) by (auto simp: shared_grow_def)
  ultimately show ?thesis
    using finished_kept [OF assms(2-4) j(3), of y] j(4) assms(6-8) by (auto simp: succeeded_dep_def)
qed

lemma other_worker_ok:
  assumes ok: "exec_ok c run jobs st" and i: "i < length (x_workers st)" "x_workers st ! i = (job, pc)" "pc \<noteq> Finished"
    and k: "k < length (x_workers st)" "k \<noteq> i"
    and grow: "shared_grow job st st1" and st': "x_workers st' = (x_workers st)[i := y]" "x_completed st' = x_completed st1"
    "x_outputs st' = x_outputs st1" "x_failed st' = x_failed st1"
  shows "worker_ok c run st' (x_workers st ! k)"
proof -
  obtain j q where jq: "x_workers st ! k = (j, q)" by (cases "x_workers st ! k")
  have old: "worker_ok c run st (j, q)"
    using ok k(1) nth_mem [OF k(1)] by (simp add: exec_ok_def jq)
  have deps: "succeeded_dep st' d" if "d \<in> set (job_DependsOn j)" for d
    using old that by (intro succeeded_dep_step [OF _ i grow st'(1-3)]) (simp add: worker_ok_def)
  have other: "x_outputs st' d = x_outputs st d" if "d \<in> set (job_DependsOn j)" for d
  proof -
    from old that obtain j' where "(j', Finished) \<in> set (x_workers st)" "job_Name j' = d"
      by (auto simp: worker_ok_def succeeded_dep_def)
    then obtain l where l: "l < length (x_workers st)" "x_workers st ! l = (j', Finished)" by (auto simp: in_set_conv_nth)
    with i have "l \<noteq> i" by auto
    then have "d \<noteq> job_Name job" using worker_names_distinct [OF ok l(1) i(1)] l(2) i(2) \<open>job_Name j' = d\<close> by simp
    then show ?thesis using grow st'(3) by (simp add: shared_grow_def)
  qed
  have "job_payload c run j (x_outputs st') = job_payload c run j (x_outputs st)"
    using other by (rule job_payload_cong)
  then show ?thesis
    using old deps grow st'(2,4) unfolding jq by (cases q) (auto simp: worker_ok_def shared_grow_def)
qed

lemma own_worker_ok:
  assumes "worker_ok c run st (job, pc)" and "worker_step c e run job pc st = (pc', st1)"
    and "\<And>d. succeeded_dep st d \<Longrightarrow> succeeded_dep st' d"
    and st': "x_completed st' = x_completed st1" "x_outputs st' = x_outputs st1" "x_failed st' = x_failed st1"
  shows "worker_ok c run st' (job, pc')"
proof -
  have deps: "\<forall>d \<in> set (job_DependsOn job). succeeded_dep st' d"
    using assms(1,3) by (simp add: worker_ok_def)
  show ?thesis
  proof (cases pc)
    case (Invoking payload attempt raw err)
    have fails: "\<exists>message. fc_invoke c (job_Function job) payload k = Inr message"
      if "0 \<le> k" "k < attempt" for k
      using assms(1) that by (auto simp: worker_ok_def Invoking)
    show ?thesis
    proof (cases "attempt \<le> job_Retries job")
      case True
      show ?thesis
      proof (cases "fc_invoke c (job_Function job) payload attempt")
        case (Inl body)
        with True Invoking assms(2) deps show ?thesis by (auto simp: worker_step_def worker_ok_def)
      next
        case (Inr m)
        then have "\<exists>message. fc_invoke c (job_Function job) payload k = Inr message"
          if "0 \<le> k" "k < attempt + 1" for k
          using that fails [of k] by (cases "k = attempt") auto
        moreover from Inr True Invoking assms(2) have "pc' = Invoking payload (attempt + 1) [] (Some m)" "st1 = st"
          by (auto simp: worker_step_def)
        moreover have "payload = job_payload c run job (x_outputs st)" "0 \<le> attempt"
          using assms(1) by (auto simp: worker_ok_def Invoking)
        ultimately show ?thesis using deps st'(2) by (simp add: worker_ok_def)
      qed
    next
      case False
      then have "exhausted c job" if "err \<noteq> None" using fails by (force simp: exhausted_def)
      with False Invoking assms(1,2) deps st' show ?thesis
        by (auto simp: worker_step_def worker_ok_def split: option.splits)
    qed
  qed (use assms(1,2) deps st' in \<open>auto simp: worker_step_def worker_ok_def\<close>)
qed

definition announced :: "exec \<Rightarrow> string set" where
  "announced st = job_Name ` fst ` {w \<in> set (x_workers st). snd w = Finished \<or> (\<exists>raw. snd w = Announcing raw)}"

text \<open>What is completed has been stored by a worker that is about to announce it or has finished.\<close>

lemma completed_announced:
  assumes old: "x_completed st \<subseteq> announced st"
    and i: "i < length (x_workers st)" "x_workers st ! i = (job, pc)" "pc \<noteq> Finished"
    and step: "worker_step c e run job pc st = (pc', st1)"
  shows "x_completed st1 \<subseteq> announced (st1\<lparr>x_workers := (x_workers st)[i := (job, pc')]\<rparr>)"
proof
  let ?st = "st1\<lparr>x_workers := (x_workers st)[i := (job, pc')]\<rparr>"
  have mem: "(job, pc') \<in> set (x_workers ?st)" using i(1) by (simp add: set_update_memI)
  fix n assume n: "n \<in> x_completed st1"
  show "n \<in> announced ?st"
  proof (cases "n \<in> x_completed st")
    case True
    with old obtain w where w: "w \<in> set (x_workers st)" "job_Name (fst w) = n" "snd w = Finished \<or> (\<exists>raw. snd w = Announcing raw)"
      by (auto simp: announced_def)
    show ?thesis
    proof (cases "w = (job, pc)")
      case True
      with w i(3) obtain raw where "pc = Announcing raw" by auto
      with step have "pc' = Finished" by (simp add: worker_step_def)
      with mem True w(2) show ?thesis
        unfolding announced_def by (intro image_eqI [of _ _ job] image_eqI [of _ _ "(job, pc')"]) auto
    next
      case False
      then have "w \<in> set (x_workers ?st)" using other_kept [OF w(1), of i "(job, pc')"] i(2) by simp
      with w(2,3) show ?thesis by (auto simp: announced_def)
    qed
  next
    case False
    with n step have "n = job_Name job" "\<exists>raw. pc' = Announcing raw"
      by (auto simp: worker_step_def split: pc.splits if_splits option.splits sum.splits)
    with mem show ?thesis
      unfolding announced_def by (intro image_eqI [of _ _ job] image_eqI [of _ _ "(job, pc')"]) auto
  qed
qed

lemma exec_ok_worker:
  assumes ok: "exec_ok c run jobs st" and i: "i < length (x_workers st)" "x_workers st ! i = (job, pc)" "pc \<noteq> Finished"
    and step: "worker_step c e run job pc st = (pc', st1)" and run: "\<not> x_returned st"
  shows "exec_ok c run jobs (st1\<lparr>x_workers := (x_workers st)[i := (job, pc')]\<rparr>)"
proof -
  let ?st = "st1\<lparr>x_workers := (x_workers st)[i := (job, pc')]\<rparr>"
  note frame = worker_step_frame [OF step] and grow = worker_step_shared [OF step]
  have fst_eq: "map fst ((x_workers st)[i := (job, pc')]) = map fst (x_workers st)"
    using i by (simp add: map_update list_update_same_conv)
  have mem: "(job, pc) \<in> set (x_workers st)" "(job, pc') \<in> set (x_workers ?st)"
    using nth_mem [OF i(1)] i by (simp_all add: set_update_memI)
  have old: "worker_ok c run st (job, pc)" using ok mem(1) by (simp add: exec_ok_def)
  have new: "worker_ok c run ?st (job, pc')"
    by (rule own_worker_ok [OF old step])
      (auto intro: succeeded_dep_step [OF _ i grow])
  have "\<forall>w \<in> set (x_workers ?st). worker_ok c run ?st w"
  proof
    fix w assume "w \<in> set (x_workers ?st)"
    then have "w \<in> set ((x_workers st)[i := (job, pc')])" by simp
    then show "worker_ok c run ?st w"
      using i(1)
      by (cases rule: set_list_updateE) (simp_all add: new other_worker_ok [OF ok i _ _ grow])
  qed
  moreover have "x_completed ?st \<subseteq> job_Name ` fst ` {w \<in> set (x_workers ?st). snd w = Finished \<or> (\<exists>raw. snd w = Announcing raw)}"
    using completed_announced [OF _ i step] ok by (simp add: announced_def exec_ok_def)
  moreover have "\<forall>n \<in> x_completed ?st. x_outputs ?st n \<noteq> None"
    using ok step by (auto simp: exec_ok_def worker_step_def split: pc.splits if_splits option.splits sum.splits)
  moreover have "x_failed ?st \<longrightarrow> (\<exists>job \<in> set jobs. exhausted c job)"
  proof
    assume "x_failed ?st"
    with step have "x_failed st \<or> pc = Marking"
      by (auto simp: worker_step_def split: pc.splits if_splits option.splits sum.splits)
    moreover have "exhausted c job" if "pc = Marking" using old that by (simp add: worker_ok_def)
    moreover have "\<exists>job \<in> set jobs. exhausted c job" if "x_failed st" using ok that unfolding exec_ok_def by blast
    ultimately show "\<exists>job \<in> set jobs. exhausted c job"
      using exec_ok_worker_job [OF ok mem(1)] by auto
  qed
  ultimately show ?thesis
    using ok frame run fst_eq by (simp add: exec_ok_def)
qed

lemma exec_move_ok:
  assumes "exec_move c e run who st = Some st'" and ok: "exec_ok c run jobs st" and graph: "graph_ok jobs"
  shows "exec_ok c run jobs st'"
  using assms(1)
proof (cases rule: exec_move_cases)
  case returns
  then show ?thesis
    using ok by (simp add: exec_ok_def list_all_iff)
next
  case stuck
  with never_stuck [OF graph ok stuck(1,2,3)] show ?thesis by simp
next
  case wave
  let ?R = "job_ready (x_completed st)"
  note fin = wave(1) and nf = wave(2)
  have dist: "distinct (map job_Name (x_remaining st' @ map fst (x_workers st')))"
  proof -
    have "mset (x_remaining st' @ map fst (x_workers st')) = mset (x_remaining st @ map fst (x_workers st))"
      using wave(5) by (simp add: comp_def)
    then have "mset (map job_Name (x_remaining st' @ map fst (x_workers st'))) =
        mset (map job_Name (x_remaining st @ map fst (x_workers st)))" by (simp only: mset_map)
    moreover have "distinct (map job_Name (x_remaining st @ map fst (x_workers st)))"
      using ok unfolding exec_ok_def by blast
    ultimately show ?thesis using mset_eq_imp_distinct_iff by blast
  qed
  have jobs: "set (x_remaining st' @ map fst (x_workers st')) = set jobs"
    using ok wave(5) by (auto simp: exec_ok_def)
  have dep: "succeeded_dep st' d" if "succeeded_dep st d" for d
    using that wave(5) by (auto simp: succeeded_dep_def)
  have "worker_ok c run st' w" if "w \<in> set (x_workers st')" for w
  proof (cases "w \<in> set (x_workers st)")
    case True
    then have "worker_ok c run st w" using ok by (simp add: exec_ok_def)
    with dep wave(5) show ?thesis by (cases w; cases "snd w"; simp add: worker_ok_def)
  next
    case False
    with that wave(5) obtain j where "w = (j, Starting)" "?R j" by auto
    then show ?thesis
      using dep between_waves(2) [OF ok fin nf] by (auto simp: worker_ok_def job_ready_def list_all_iff)
  qed
  moreover have "x_completed st' \<subseteq> job_Name ` fst ` {w \<in> set (x_workers st'). snd w = Finished \<or> (\<exists>raw. snd w = Announcing raw)}"
  proof -
    have "x_completed st \<subseteq> job_Name ` fst ` {w \<in> set (x_workers st). snd w = Finished \<or> (\<exists>raw. snd w = Announcing raw)}"
      using ok unfolding exec_ok_def by blast
    moreover have "set (x_workers st) \<subseteq> set (x_workers st')" "x_completed st' = x_completed st" using wave(5) by auto
    ultimately show ?thesis by blast
  qed
  ultimately show ?thesis
    using ok wave dist jobs by (simp add: exec_ok_def)
next
  case (worker i job pc pc' st1)
  then show ?thesis using exec_ok_worker [OF ok worker(1-5)] by simp
qed

lemma exec_run_ok:
  assumes "exec_run c run other start n st" and "exec_ok c run jobs start" and "graph_ok jobs"
  shows "exec_ok c run jobs st"
  using assms
proof (induction rule: exec_run.induct)
  case (others n st s)
  then show ?case by simp
qed (auto intro: exec_move_ok)

subsection \<open>Outcome\<close>

text \<open>The status the repository has for a step, and what reporting does to it.\<close>

definition step_status :: "PipelineRun \<Rightarrow> string \<Rightarrow> string option" where
  "step_status r name = map_option ps_Status (find (\<lambda>st. ps_Name st = name) (run_Steps r))"

lemma find_append: "find P (xs @ ys) = (case find P xs of Some x \<Rightarrow> Some x | None \<Rightarrow> find P ys)"
  by (induction xs) auto

lemma find_distinct: "distinct (map k xs) \<Longrightarrow> x \<in> set xs \<Longrightarrow> find (\<lambda>y. k y = k x) xs = Some x"
  by (induction xs) auto

lemma step_status_upsert:
  "map_option ps_Status (find (\<lambda>st. ps_Name st = n) (upsert_step req steps)) =
     (if n = usr_Step req then Some (usr_Status req)
      else map_option ps_Status (find (\<lambda>st. ps_Name st = n) steps))"
proof -
  have *: "map_option ps_Status (find (\<lambda>st. ps_Name st = n) (update_first (\<lambda>st. ps_Name st = usr_Step req)
      (\<lambda>st. if step_done (usr_Status req) then st\<lparr>ps_Status := usr_Status req, ps_Progress := 100\<rparr>
            else st\<lparr>ps_Status := usr_Status req\<rparr>) xs)) =
     (if n = usr_Step req \<and> find (\<lambda>st. ps_Name st = usr_Step req) xs \<noteq> None then Some (usr_Status req)
      else map_option ps_Status (find (\<lambda>st. ps_Name st = n) xs))" for xs
    by (induction xs) auto
  show ?thesis
    by (cases "find (\<lambda>st. ps_Name st = usr_Step req) steps") (auto simp: upsert_step_def * find_append split: option.splits)
qed

lemma report_step_live:
  assumes "\<not> run_terminal r"
  shows "step_status (report_step t req r) n = (if n = usr_Step req then Some (usr_Status req) else step_status r n)"
    and "usr_Step req \<in> set (map ps_Name (run_Steps r)) \<Longrightarrow> map ps_Name (run_Steps (report_step t req r)) = map ps_Name (run_Steps r)"
    and "run_Status (report_step t req r) \<noteq> ''cancelled''"
    and "usr_Status req = ''failed'' \<Longrightarrow> run_Status (report_step t req r) = ''failed''"
proof -
  have rep: "run_Steps (report_step t req r) = upsert_step req (run_Steps r)"
    "run_Status (report_step t req r) = run_verdict (run_Status r) (map ps_Status (upsert_step req (run_Steps r)))"
    using assms by (simp_all add: report_step_def Let_def run_terminal_def applyStepTransition_spec)
  show "step_status (report_step t req r) n = (if n = usr_Step req then Some (usr_Status req) else step_status r n)"
    unfolding step_status_def rep(1) by (rule step_status_upsert)
  show "usr_Step req \<in> set (map ps_Name (run_Steps r)) \<Longrightarrow> map ps_Name (run_Steps (report_step t req r)) = map ps_Name (run_Steps r)"
    unfolding rep(1) upsert_step_names by simp
  show "run_Status (report_step t req r) \<noteq> ''cancelled''"
    using assms unfolding rep(2) by (auto simp: run_verdict_def run_terminal_def)
  show "usr_Status req = ''failed'' \<Longrightarrow> run_Status (report_step t req r) = ''failed''"
    using upsert_has_status [of req "run_Steps r"] unfolding rep(2) by (auto simp: run_verdict_def)
qed

lemma step_status_mem:
  "distinct (map ps_Name (run_Steps r)) \<Longrightarrow> st \<in> set (run_Steps r) \<Longrightarrow> step_status r (ps_Name st) = Some (ps_Status st)"
  by (simp add: step_status_def find_distinct)

text \<open>A step nobody reports keeps a run from succeeding.\<close>

lemma pending_not_succeeded: "run_ok r \<Longrightarrow> step_status r n = Some ''pending'' \<Longrightarrow> run_Status r \<noteq> ''succeeded''"
proof -
  assume "run_ok r" and "step_status r n = Some ''pending''"
  then obtain st where "st \<in> set (run_Steps r)" "ps_Status st = ''pending''" by (auto simp: step_status_def dest: find_SomeD)
  with run_ok_status(2) [OF \<open>run_ok r\<close>] show ?thesis by (auto simp: step_done_def)
qed

lemma report_all_pending:
  assumes "Store_Run s i = (r, None)" and "run_ok r" and "step_status r n = Some ''pending''"
    and "\<forall>(e, req) \<in> set reqs. usr_Step req \<noteq> [] \<and> validStepStatus (usr_Status req) \<and> usr_Step req \<noteq> n"
  shows "\<exists>r'. Store_Run (report_all i who reqs s) i = (r', None) \<and> run_ok r' \<and> step_status r' n = Some ''pending''"
  using assms
proof (induction reqs arbitrary: s r)
  case (Cons x reqs)
  obtain e req where x: "x = (e, req)" by (cases x)
  have req: "usr_Step req \<noteq> []" "validStepStatus (usr_Status req)" "usr_Step req \<noteq> n" using Cons.prems(4) x by auto
  have "step_status (report_step (clk e 0) req r) n = Some ''pending''"
  proof (cases "run_terminal r")
    case True
    then show ?thesis using report_step_terminal [of r "clk e 0" req] Cons.prems(3) by (simp add: step_status_def)
  qed (use report_step_live(1) [of r "clk e 0" req n] req(3) Cons.prems(3) in simp)
  with Cons.IH [OF Store_UpdateRunStep_Run [OF Cons.prems(1) req(1,2), of e who]] Cons.prems(2,4) req(2) x show ?case
    by (simp add: report_step_ok report_all_def)
qed (auto simp: report_all_def)

text \<open>The status each worker has reported.\<close>

fun pc_status :: "pc \<Rightarrow> string" where
  "pc_status Starting = ''pending''"
| "pc_status Marking = ''failed''"
| "pc_status Finished = ''succeeded''"
| "pc_status _ = ''running''"

definition failure_reported :: "exec \<Rightarrow> bool" where
  "failure_reported st \<longleftrightarrow> x_failed st \<or> Marking \<in> snd ` set (x_workers st)"

definition agrees :: "exec \<Rightarrow> PipelineRun \<Rightarrow> bool" where
  "agrees st r \<longleftrightarrow> (\<forall>j \<in> set (x_remaining st). step_status r (job_Name j) = Some ''pending'') \<and>
     (\<forall>j pc. (j, pc) \<in> set (x_workers st) \<longrightarrow> step_status r (job_Name j) = Some (pc_status pc))"

definition tracks :: "PipelineRun \<Rightarrow> PipelineJob list \<Rightarrow> exec \<Rightarrow> bool" where
  "tracks run jobs st \<longleftrightarrow> (\<exists>r. Store_Run (x_store st) (run_ID run) = (r, None) \<and> run_ok r \<and>
     map ps_Name (run_Steps r) = map job_Name jobs \<and>
     (if failure_reported st then run_Status r = ''failed''
      else run_Status r \<noteq> ''cancelled'' \<and> agrees st r))"

lemma agrees_frame [simp]:
  "agrees (st\<lparr>x_store := s\<rparr>) r = agrees st r" "agrees (st\<lparr>x_returned := b\<rparr>) r = agrees st r"
  "failure_reported (st\<lparr>x_store := s\<rparr>) = failure_reported st" "failure_reported (st\<lparr>x_returned := b\<rparr>) = failure_reported st"
  by (simp_all add: agrees_def failure_reported_def)

lemma tracks_start:
  assumes "Store_Run s (run_ID run) = (r, None)" and "run_ok r" and "run_Status r = ''queued''"
    and "map ps_Name (run_Steps r) = map job_Name jobs" and "distinct (map job_Name jobs)"
  shows "tracks run jobs (exec_start s jobs)"
proof -
  have "step_status r (job_Name j) = Some ''pending''" if "j \<in> set jobs" for j
  proof -
    have "job_Name j \<in> set (map ps_Name (run_Steps r))" using that unfolding assms(4) by simp
    then obtain st where st: "st \<in> set (run_Steps r)" "ps_Name st = job_Name j" by auto
    then have "ps_Status st = ''pending''" using assms(2,3) by (auto simp: run_ok_def)
    then show ?thesis using step_status_mem [of r st] st assms(4,5) by simp
  qed
  with assms show ?thesis
    by (simp add: tracks_def agrees_def exec_start_def failure_reported_def jobs_by_name_distinct)
qed

text \<open>While nothing has failed and a worker has work to do, the run is open.\<close>

lemma tracked_open:
  assumes "run_ok r" "run_Status r \<noteq> ''cancelled''" "map ps_Name (run_Steps r) = map job_Name jobs"
    and all: "\<And>j. j \<in> set jobs \<Longrightarrow> \<exists>x. step_status r (job_Name j) = Some x \<and> x \<noteq> ''failed''"
    and one: "step_status r n = Some x" "\<not> step_done x" and "distinct (map job_Name jobs)"
  shows "\<not> run_terminal r"
proof -
  have status: "step_status r (ps_Name st) = Some (ps_Status st)" if "st \<in> set (run_Steps r)" for st
    using step_status_mem [of r st] that assms(3,7) by simp
  have "ps_Status st \<noteq> ''failed''" if "st \<in> set (run_Steps r)" for st
  proof -
    have "ps_Name st \<in> set (map job_Name jobs)" using that unfolding assms(3) [symmetric] by simp
    then obtain j where "j \<in> set jobs" "job_Name j = ps_Name st" by auto
    with all status [OF that] show ?thesis by fastforce
  qed
  moreover obtain st where "st \<in> set (run_Steps r)" "ps_Status st = x"
    using one(1) find_SomeD by (fastforce simp: step_status_def)
  ultimately show ?thesis
    using run_ok_status(2,3) [OF assms(1)] assms(2) one(2) by (auto simp: run_terminal_def)
qed

lemma exec_report_run:
  assumes "Store_Run (x_store st) (run_ID run) = (r, None)" and "job_Name job \<noteq> []"
    and "validStepStatus status"
  shows "\<exists>t. Store_Run (x_store (exec_report e run (step_report (job_Name job) status m) st)) (run_ID run) =
    (report_step t (step_report (job_Name job) status m) r, None)"
  using Store_UpdateRunStep_Run [OF assms(1), of "step_report (job_Name job) status m" e "''system''"] assms(2,3)
  by (auto simp: step_report_def)

text \<open>A worker step either reports the status of its new position or changes no status.\<close>

lemma worker_step_effect [consumes 2, case_names silent marked reported]:
  assumes "worker_step c e run job pc st = (pc', st1)" and "pc \<noteq> Finished"
  obtains "x_store st1 = x_store st" "pc_status pc' = pc_status pc" "x_failed st1 = x_failed st" "pc \<noteq> Marking" "pc' \<noteq> Marking"
  | "pc = Marking" "x_store st1 = x_store st" "x_failed st1"
  | m where "x_store st1 = x_store (exec_report e run (step_report (job_Name job) (pc_status pc') m) st)"
      "x_failed st1 = x_failed st" "pc \<noteq> Marking" "\<not> step_done (pc_status pc)" "pc_status pc' = ''failed'' \<longleftrightarrow> pc' = Marking"
      "validStepStatus (pc_status pc')"
  using assms
  by (cases pc) (auto simp: worker_step_def step_done_def validStepStatus_def split: if_splits option.splits sum.splits)

lemma failure_reported_step:
  assumes "i < length (x_workers st)" "x_workers st ! i = (job, pc)" "pc \<noteq> Marking" "x_failed st1 = x_failed st"
  shows "failure_reported (st1\<lparr>x_workers := (x_workers st)[i := (job, pc')]\<rparr>) \<longleftrightarrow> failure_reported st \<or> pc' = Marking"
proof -
  have "Marking \<in> snd ` set ((x_workers st)[i := (job, pc')]) \<longleftrightarrow> Marking \<in> snd ` set (x_workers st) \<or> pc' = Marking"
  proof
    assume "Marking \<in> snd ` set ((x_workers st)[i := (job, pc')])"
    then show "Marking \<in> snd ` set (x_workers st) \<or> pc' = Marking"
      using set_update_subset_insert [of "x_workers st" i "(job, pc')"] by auto
  next
    assume m: "Marking \<in> snd ` set (x_workers st) \<or> pc' = Marking"
    have "(job, pc') \<in> set ((x_workers st)[i := (job, pc')])" using assms(1) by (rule set_update_memI)
    moreover have "(j, Marking) \<in> set ((x_workers st)[i := (job, pc')])" if "(j, Marking) \<in> set (x_workers st)" for j
      using that assms(2,3) by (intro other_kept) auto
    ultimately show "Marking \<in> snd ` set ((x_workers st)[i := (job, pc')])"
      using m by (metis (no_types, lifting) image_iff prod.collapse snd_conv)
  qed
  with assms(4) show ?thesis by (simp add: failure_reported_def)
qed

text \<open>A change of one status follows the worker that moved.\<close>

lemma agrees_step:
  assumes ok: "exec_ok c run jobs st" and i: "i < length (x_workers st)" "x_workers st ! i = (job, pc)"
    and ag: "agrees st r" and st': "x_remaining st' = x_remaining st" "x_workers st' = (x_workers st)[i := (job, pc')]"
    and r': "\<And>n. step_status r' n = (if n = job_Name job then Some (pc_status pc') else step_status r n)"
  shows "agrees st' r'"
proof -
  have dist: "distinct (map job_Name (x_remaining st @ map fst (x_workers st)))" using ok unfolding exec_ok_def by blast
  have mem: "(job, pc) \<in> set (x_workers st)" using nth_mem [OF i(1)] i(2) by simp
  have "step_status r' (job_Name j) = Some ''pending''" if "j \<in> set (x_remaining st)" for j
    using dist that mem ag unfolding r' by (force simp: agrees_def)
  moreover have "step_status r' (job_Name j) = Some (pc_status q)"
    if "(j, q) \<in> set ((x_workers st)[i := (job, pc')])" for j q
    using that i(1)
  proof (cases rule: set_list_updateE)
    case (2 k)
    then have "job_Name j \<noteq> job_Name job" "(j, q) \<in> set (x_workers st)"
      using worker_names_distinct [OF ok i(1) 2(2)] i(2) nth_mem [OF 2(2)] by (auto simp flip: 2(3))
    then show ?thesis using ag unfolding r' by (simp add: agrees_def)
  qed (simp add: r')
  ultimately show ?thesis unfolding agrees_def st' by blast
qed

lemma agrees_open:
  assumes ok: "exec_ok c run jobs st" and ag: "agrees st r" "\<not> failure_reported st" "(job, pc) \<in> set (x_workers st)"
    and r: "run_ok r" "run_Status r \<noteq> ''cancelled''" "map ps_Name (run_Steps r) = map job_Name jobs"
    and "\<not> step_done (pc_status pc)" and "distinct (map job_Name jobs)"
  shows "\<not> run_terminal r"
proof (rule tracked_open [OF r _ _ assms(8,9)])
  show "step_status r (job_Name job) = Some (pc_status pc)" using ag by (simp add: agrees_def)
  fix j assume "j \<in> set jobs"
  moreover have "set (x_remaining st @ map fst (x_workers st)) = set jobs" using ok unfolding exec_ok_def by blast
  ultimately consider "j \<in> set (x_remaining st)" | q where "(j, q) \<in> set (x_workers st)" by fastforce
  then show "\<exists>x. step_status r (job_Name j) = Some x \<and> x \<noteq> ''failed''"
  proof cases
    case 1
    then show ?thesis using ag by (simp add: agrees_def)
  next
    case (2 q)
    then have "q \<noteq> Marking" using ag(2) by (force simp: failure_reported_def)
    then have "pc_status q \<noteq> ''failed''" by (cases q) auto
    with 2 ag(1) show ?thesis by (simp add: agrees_def)
  qed
qed

lemma tracks_worker:
  assumes ok: "exec_ok c run jobs st" and tr: "tracks run jobs st"
    and i: "i < length (x_workers st)" "x_workers st ! i = (job, pc)" "pc \<noteq> Finished"
    and step: "worker_step c e run job pc st = (pc', st1)"
    and jobs: "\<forall>j \<in> set jobs. job_Name j \<noteq> []" "distinct (map job_Name jobs)"
  shows "tracks run jobs (st1\<lparr>x_workers := (x_workers st)[i := (job, pc')]\<rparr>)"
proof -
  let ?st = "st1\<lparr>x_workers := (x_workers st)[i := (job, pc')]\<rparr>"
  have mem: "(job, pc) \<in> set (x_workers st)" using nth_mem [OF i(1)] i(2) by simp
  then have job: "job \<in> set jobs" using exec_ok_worker_job [OF ok] by fastforce
  obtain r where r: "Store_Run (x_store st) (run_ID run) = (r, None)" "run_ok r" "map ps_Name (run_Steps r) = map job_Name jobs"
    and rest: "if failure_reported st then run_Status r = ''failed'' else run_Status r \<noteq> ''cancelled'' \<and> agrees st r"
    using tr by (auto simp: tracks_def)
  have frame: "x_remaining ?st = x_remaining st" "x_workers ?st = (x_workers st)[i := (job, pc')]"
    using worker_step_frame [OF step] by simp_all
  show ?thesis
    using step i(3)
  proof (cases rule: worker_step_effect)
    case silent
    have "failure_reported ?st = failure_reported st"
      using failure_reported_step [OF i(1,2) silent(4,3)] silent(5) by simp
    moreover have "agrees ?st r" if "agrees st r"
      using that mem silent(2) by (intro agrees_step [OF ok i(1,2) that frame]) (simp add: agrees_def)
    ultimately show ?thesis using r rest silent(1) by (auto simp: tracks_def)
  next
    case marked
    then have "failure_reported st" "failure_reported ?st" using mem by (force simp: failure_reported_def)+
    then show ?thesis using r rest marked(2) by (auto simp: tracks_def)
  next
    case (reported m)
    let ?req = "step_report (job_Name job) (pc_status pc') m"
    obtain t where r': "Store_Run (x_store ?st) (run_ID run) = (report_step t ?req r, None)"
      using exec_report_run [OF r(1), of job "pc_status pc'" e m] reported(1,6) jobs(1) job by auto
    have ok': "run_ok (report_step t ?req r)" using r(2) reported(6) by (intro report_step_ok) (simp_all add: step_report_def)
    have fr: "failure_reported ?st \<longleftrightarrow> failure_reported st \<or> pc' = Marking"
      by (rule failure_reported_step [OF i(1,2) reported(3,2)])
    have names: "usr_Step ?req \<in> set (map ps_Name (run_Steps r))" using job unfolding r(3) by (simp add: step_report_def)
    show ?thesis
    proof (cases "failure_reported st")
      case True
      with rest have "run_terminal r" by (simp add: run_terminal_def)
      with report_step_terminal [of r t ?req] r' ok' r(3) rest True fr show ?thesis by (auto simp: tracks_def)
    next
      case False
      then have live: "\<not> run_terminal r"
        using rest by (intro agrees_open [OF ok _ False mem r(2) _ r(3) reported(4) jobs(2)]) auto
      have "agrees ?st (report_step t ?req r)"
        by (rule agrees_step [OF ok i(1,2) _ frame, of r])
          (use rest False report_step_live(1) [OF live, of t ?req] in \<open>simp_all add: step_report_def\<close>)
      moreover have "run_Status (report_step t ?req r) = ''failed''" if "pc' = Marking"
        using report_step_live(4) [OF live, of ?req t] that by (simp add: step_report_def)
      ultimately show ?thesis
        using r' ok' fr False report_step_live(2) [OF live names, of t] report_step_live(3) [OF live, of t ?req] r(3)
        by (auto simp: tracks_def)
    qed
  qed
qed

lemma tracks_move:
  assumes move: "exec_move c e run who st = Some st'" and ok: "exec_ok c run jobs st" and tr: "tracks run jobs st"
    and graph: "graph_ok jobs" and named: "\<forall>j \<in> set jobs. job_Name j \<noteq> []"
  shows "tracks run jobs st'"
  using move
proof (cases rule: exec_move_cases)
  case returns
  then show ?thesis using tr by (auto simp: tracks_def)
next
  case stuck
  with never_stuck [OF graph ok stuck(1,2,3)] show ?thesis by simp
next
  case wave
  have "snd ` set (map (\<lambda>j. (j, Starting)) xs) \<subseteq> {Starting}" for xs :: "PipelineJob list" by auto
  then have "failure_reported st' = failure_reported st"
    using wave(5) by (auto simp: failure_reported_def)
  moreover have "agrees st' r" if "agrees st r" for r
    using that wave(5) by (auto simp: agrees_def)
  ultimately show ?thesis using tr wave(5) by (auto simp: tracks_def)
next
  case (worker i job pc pc' st1)
  then show ?thesis using tracks_worker [OF ok tr worker(1-4) named] graph by (simp add: graph_ok_def)
qed

text \<open>
  When the machine returns, the run says what happened: either every job completed and the
  run succeeded, or a job used up its attempts and the run failed. Other clients may work on
  the repository meanwhile, as long as they leave this run alone.
\<close>

locale quiet_run =
  fixes i :: string and other :: "Store \<Rightarrow> Store \<Rightarrow> bool"
  assumes other_keeps: "other s t \<Longrightarrow> Store_Run t i = Store_Run s i"
begin

lemma exec_run_tracks:
  assumes "exec_run c run other start n st" and "run_ID run = i" and "graph_ok jobs" and "\<forall>j \<in> set jobs. job_Name j \<noteq> []"
    and "exec_ok c run jobs start" and "tracks run jobs start"
  shows "tracks run jobs st"
  using assms
proof (induction rule: exec_run.induct)
  case (own n st e who st')
  then show ?case using tracks_move [OF own.hyps(2)] exec_run_ok [OF own.hyps(1)] by blast
next
  case (others n st s)
  then have "tracks run jobs st" by blast
  then show ?case using other_keeps [OF others.hyps(2)] others.prems(1) by (auto simp: tracks_def)
qed

lemma exec_outcome:
  assumes run: "exec_run c run other (exec_start s jobs) n st" and "x_returned st"
    and jobs: "graph_ok jobs" "\<forall>j \<in> set jobs. job_Name j \<noteq> []"
    and r: "Store_Run s i = (r, None)" "run_ID run = i" "run_ok r" "run_Status r = ''queued''"
      "map ps_Name (run_Steps r) = map job_Name jobs"
  shows "\<exists>r'. Store_Run (x_store st) i = (r', None) \<and>
    (if x_failed st then run_Status r' = ''failed'' \<and> (\<exists>job \<in> set jobs. exhausted c job)
     else run_Status r' = ''succeeded'' \<and> run_Progress r' = 100 \<and> x_completed st = job_Name ` set jobs)"
proof -
  have dist: "distinct (map job_Name jobs)" using jobs(1) by (simp add: graph_ok_def)
  have ok: "exec_ok c run jobs st" by (rule exec_run_ok [OF run exec_ok_start [OF jobs(1)] jobs(1)])
  have "tracks run jobs (exec_start s jobs)"
    by (rule tracks_start) (use r dist in auto)
  from exec_run_tracks [OF run r(2) jobs exec_ok_start [OF jobs(1)] this] obtain r' where
    r': "Store_Run (x_store st) i = (r', None)" "run_ok r'" "map ps_Name (run_Steps r') = map job_Name jobs"
    and rest: "if failure_reported st then run_Status r' = ''failed'' else run_Status r' \<noteq> ''cancelled'' \<and> agrees st r'"
    by (auto simp: tracks_def r(2))
  have fin: "\<forall>w \<in> set (x_workers st). snd w = Finished" "x_failed st \<or> x_remaining st = []"
    and exh: "x_failed st \<longrightarrow> (\<exists>job \<in> set jobs. exhausted c job)"
    and all: "set (x_remaining st @ map fst (x_workers st)) = set jobs"
    using ok assms(2) unfolding exec_ok_def by blast+
  have fr: "failure_reported st \<longleftrightarrow> x_failed st" using fin(1) by (auto simp: failure_reported_def)
  show ?thesis
  proof (cases "x_failed st")
    case True
    then show ?thesis using r'(1) rest fr exh by auto
  next
    case False
    with all fin(2) have jobs_eq: "set jobs = fst ` set (x_workers st)" by simp
    have "step_done (ps_Status p)" if p: "p \<in> set (run_Steps r')" for p
    proof -
      have "ps_Name p \<in> set (map job_Name jobs)" using p unfolding r'(3) [symmetric] by simp
      then have "ps_Name p \<in> job_Name ` fst ` set (x_workers st)" unfolding set_map jobs_eq .
      then obtain w where "w \<in> set (x_workers st)" "job_Name (fst w) = ps_Name p" by force
      with fin(1) have "(fst w, Finished) \<in> set (x_workers st)" by (metis prod.collapse)
      then have "step_status r' (ps_Name p) = Some ''succeeded''"
        using rest fr False \<open>job_Name (fst w) = ps_Name p\<close> by (fastforce simp: agrees_def)
      then show ?thesis using step_status_mem [of r' p] p r'(3) dist by (simp add: step_done_def)
    qed
    then have "awaits {} r'"
      using r'(2,3) dist rest fr False run_ok_status(1,2) [OF r'(2)] by (auto simp: awaits_def)
    moreover have "x_completed st = job_Name ` set jobs"
      using between_waves(1) [OF ok _ False] fin(1) jobs_eq by (simp add: list_all_iff)
    ultimately show ?thesis using r'(1) False awaits_none by auto
  qed
qed

end

end
