(* ===== verification/Execution.thy ===== *)
theory Execution
  imports Gateway Executor
begin

text \<open>
  The executor behind the gateway: a function workflow that is submitted, dispatched and then
  executed while the gateway goes on serving requests. \<open>elsewhere\<close> are the requests that
  leave the run of the executor alone.
\<close>

definition elsewhere :: "string \<Rightarrow> Store \<Rightarrow> Store \<Rightarrow> bool" where
  "elsewhere i s t \<longleftrightarrow> gateway_step s t \<and> Store_Run t i = Store_Run s i"

interpretation quiet: quiet_run i "elsewhere i" for i
  by unfold_locales (simp add: elsewhere_def)

lemma dispatch_executing:
  "dispatchPipeline es s faas prefect run = (s', run', Executing) \<Longrightarrow> s' = s \<and> run' = run \<and> run_ExecutionMode run = ''functions''"
  by (auto simp: dispatchPipeline_def split_beta Let_def split: if_splits option.splits list.splits sum.splits)

text \<open>The run a submission for a definition creates, and where it is stored.\<close>

lemma submitted_run:
  assumes "Store_SubmitPipeline e s req actors = (s1, (run, None))" and "sub_DefinitionID req \<noteq> []"
  shows "\<exists>d. find (\<lambda>d. pd_ID d = sub_DefinitionID req) (st_Definitions (data s)) = Some d \<and>
    run_Steps run = stepsFromDefinition d \<and> run_Status run = ''queued'' \<and> run_Progress run = 0 \<and>
    run_DefinitionID run = sub_DefinitionID req \<and> Store_Run s1 (run_ID run) = (run, None) \<and>
    st_Definitions (data s1) = st_Definitions (data s)"
proof -
  obtain d where d: "find (\<lambda>d. pd_ID d = sub_DefinitionID req) (st_Definitions (data s)) = Some d"
    and plan: "submission_plan (data s) req = Some (stepsFromDefinition d, pd_ExecutionMode d,
      if TrimSpace (sub_Name req) = [] then pd_Name d else sub_Name req)"
    using assms
    by (cases "find (\<lambda>d. pd_ID d = sub_DefinitionID req) (st_Definitions (data s))")
      (auto simp: Store_SubmitPipeline_def submission_plan_def pipelineDefinitionFrom_def split: if_splits)
  have s1: "s1 = fst (Store_SubmitPipeline e s req actors)" and run: "run = fst (snd (Store_SubmitPipeline e s req actors))"
    using assms(1) by simp_all
  have "hasProject (st_Projects (data s)) (sub_ProjectID req)"
    using assms(1) by (auto simp: Store_SubmitPipeline_def split: if_splits)
  then show ?thesis
    using d plan unfolding s1 run by (simp add: Store_SubmitPipeline_def Let_def Store_Run_def)
qed

lemma stored_definition_ok:
  assumes "store_ok (data s)" and "d \<in> set (st_Definitions (data s))"
  shows "graph_ok (pd_Jobs d)" "\<forall>j \<in> set (pd_Jobs d). job_Name j \<noteq> []" "pd_Jobs d \<noteq> []"
  using assms by (auto simp: store_ok_def definitions_ok_def definition_ok_def as_request_def job_ok_def)

lemma run_ok_submitted:
  "pd_Jobs d \<noteq> [] \<Longrightarrow> run_Steps run = stepsFromDefinition d \<Longrightarrow> run_Status run = ''queued'' \<Longrightarrow> run_Progress run = 0 \<Longrightarrow> run_ok run"
  by (rule run_ok_new) (auto simp: stepsFromDefinition_def)

text \<open>A retry starts all steps of the run over, whatever they are.\<close>

lemma retried_run:
  assumes "Store_Run s i = (r, None)" and "run_ok r" and "step_status r n \<noteq> None"
    and "Store_RetryRun e s i who = (s', (again, None))"
  shows "Store_Run s' (run_ID again) = (again, None)" and "run_ok again" and "step_status again n = Some ''pending''"
proof -
  have r: "find (\<lambda>r. run_ID r = i) (st_Runs (data s)) = Some r"
    using assms(1) by (auto simp: Store_Run_def split: option.splits)
  have s': "s' = fst (Store_RetryRun e s i who)" and again: "again = fst (snd (Store_RetryRun e s i who))"
    using assms(4) by simp_all
  have steps: "run_Steps again = resetSteps (run_Steps r)" unfolding again by (simp add: Store_RetryRun_def r Let_def)
  show "Store_Run s' (run_ID again) = (again, None)"
    unfolding s' again by (simp add: Store_RetryRun_def r Let_def Store_Run_def)
  show "run_ok again"
    by (rule run_ok_reset [OF assms(2) steps]) (simp_all add: again Store_RetryRun_def r Let_def)
  have "find (\<lambda>st. ps_Name st = n) (resetSteps xs) =
      map_option (\<lambda>st. st\<lparr>ps_Status := ''pending'', ps_Progress := 0\<rparr>) (find (\<lambda>st. ps_Name st = n) xs)" for xs
    by (induction xs) (simp_all add: resetSteps_def)
  with assms(3) show "step_status again n = Some ''pending''" by (auto simp: step_status_def steps)
qed

lemma Store_UpdateRunStep_spath: "spath (fst (Store_UpdateRunStep e s i req who)) = spath s"
  by (simp add: Store_UpdateRunStep_def Let_def split: option.splits)

lemma retry_accepted:
  "Store_Run s i = (r, None) \<Longrightarrow> spath s = [] \<Longrightarrow> \<exists>s' again. Store_RetryRun e s i who = (s', (again, None))"
  by (auto simp: Store_RetryRun_def Store_Run_def Let_def commit_in_memory split: option.splits)

end
