(* ===== verification/Postgres_Base.thy ===== *)
theory Postgres_Base
  imports Runs Models Registry Tokens Blog Projects
begin

text \<open>
  The PostgreSQL repository of \<^verbatim>\<open>go/internal/store/postgres.go\<close>: the three tables of
  \<^verbatim>\<open>migrations/001_initial.sql\<close>, the statements the methods issue, and the transaction
  \<open>write\<close> every method ends with.

  A method is not atomic: it reads with one or more statements and commits a transaction
  later, and other methods run in between. It is therefore a program, a tree of atomic database
  accesses (\<open>'a prog\<close>); \<open>run_prog\<close> runs it alone, \<open>prog_step\<close> is one access of one of
  several programs running concurrently.

  A transaction is one atomic access (it locks the row it upserts and is invisible before its
  commit). The environment \<open>pgenv\<close> says which statement fails: \<open>pg_err k\<close> is the error of the
  \<open>k\<close>-th database call of the method; a commit that reports an error may have taken effect
  (\<open>pg_committed\<close>). JSON coding is a parameter, one \<open>codec\<close> per resource type. Rows with
  equal \<open>created_at\<close> are listed in the order of the table. The sequence of a table row is
  taken at commit.
\<close>

subsection \<open>Tables\<close>

record resource_row =
  rr_tenant :: string
  rr_kind :: string
  rr_id :: string
  rr_payload :: string
  rr_created :: time
  rr_updated :: time

record audit_row =
  ad_tenant :: string
  ad_event :: AuditEvent

record outbox_row =
  ob_sequence :: int
  ob_tenant :: string
  ob_id :: string
  ob_topic :: string
  ob_key :: string
  ob_payload :: string
  ob_published :: "time option"
  ob_attempts :: int
  ob_error :: "string option"

text \<open>The audit table is kept newest first, the outbox in the order of its sequence.\<close>

record db =
  db_resources :: "resource_row list"
  db_audit :: "audit_row list"
  db_outbox :: "outbox_row list"
  db_next :: int

definition empty_db :: db where
  "empty_db = \<lparr>db_resources = [], db_audit = [], db_outbox = [], db_next = 1\<rparr>"

subsection \<open>Coding\<close>

datatype 'a codec = Codec (enc: "'a \<Rightarrow> string option") (dec: "string \<Rightarrow> 'a option") (zero_of: 'a)

text \<open>What is encoded decodes to itself.\<close>

definition faithful :: "'a codec \<Rightarrow> bool" where
  "faithful c \<longleftrightarrow> (\<forall>v raw. enc c v = Some raw \<longrightarrow> dec c raw = Some v)"

record command =
  cmd_ID :: string
  cmd_Kind :: string
  cmd_Action :: string
  cmd_Resource :: string
  cmd_Actor :: string
  cmd_Tenant :: string
  cmd_OccurredAt :: time

record pgenv =
  pg_env :: env
  pg_tenant :: string
  pg_now :: time
  pg_err :: "nat \<Rightarrow> error option"
  pg_committed :: bool
  enc_event :: "AuditEvent \<Rightarrow> string option"
  enc_command :: "command \<Rightarrow> string option"
  c_project :: "Project codec"
  c_run :: "PipelineRun codec"
  c_definition :: "PipelineDefinition codec"
  c_function :: "Function codec"
  c_model :: "Model codec"
  c_agent :: "Agent codec"
  c_tool :: "Tool codec"
  c_connection :: "Connection codec"
  c_access :: "UserAccess codec"
  c_request :: "AccessRequest codec"
  c_token :: "APIToken codec"
  c_post :: "BlogPost codec"
  c_view :: "FeatureView codec"
  c_session :: "AgentSession codec"
  c_trace :: "AgentTrace codec"

abbreviation pclk :: "pgenv \<Rightarrow> nat \<Rightarrow> time" where
  "pclk p k \<equiv> clk (pg_env p) k"

subsection \<open>Programs\<close>

datatype 'a prog = Return 'a | Atomic "db \<Rightarrow> db \<times> 'a prog"

primrec run_prog :: "'a prog \<Rightarrow> db \<Rightarrow> db \<times> 'a" where
  "run_prog (Return x) = (\<lambda>d. (d, x))"
| "run_prog (Atomic f) = (\<lambda>d. case map_prod id run_prog (f d) of (d', r) \<Rightarrow> r d')"

lemma run_prog_Atomic [simp]: "run_prog (Atomic f) d = (let (d', q) = f d in run_prog q d')"
  by (simp add: split_beta)

declare run_prog.simps(2) [simp del]

text \<open>One access of one of the programs in flight.\<close>

inductive prog_step :: "db \<times> 'a prog list \<Rightarrow> db \<times> 'a prog list \<Rightarrow> bool" where
  "i < length ps \<Longrightarrow> ps ! i = Atomic f \<Longrightarrow> f d = (d', q) \<Longrightarrow> prog_step (d, ps) (d', ps[i := q])"

text \<open>An executable scheduler: the programs take their next access in the given order.\<close>

fun interleave :: "nat list \<Rightarrow> db \<times> 'a prog list \<Rightarrow> db \<times> 'a prog list" where
  "interleave [] s = s"
| "interleave (i # is) (d, ps) =
     (if i < length ps then
        (case ps ! i of Return x \<Rightarrow> interleave is (d, ps)
         | Atomic f \<Rightarrow> (let (d', q) = f d in interleave is (d', ps[i := q])))
      else interleave is (d, ps))"

lemma interleave_steps: "prog_step\<^sup>*\<^sup>* s (interleave is s)"
proof (induction "is" s rule: interleave.induct)
  case (2 i "is" d ps)
  show ?case
  proof (cases "i < length ps")
    case True
    show ?thesis
    proof (cases "ps ! i")
      case (Return x)
      with 2(1) True show ?thesis by simp
    next
      case (Atomic f)
      obtain d' q where f: "f d = (d', q)" by (cases "f d")
      then have "prog_step (d, ps) (d', ps[i := q])" using True Atomic by (rule prog_step.intros [rotated 2])
      moreover have "prog_step\<^sup>*\<^sup>* (d', ps[i := q]) (interleave is (d', ps[i := q]))"
        using 2(2) [OF True Atomic f [symmetric] refl] by simp
      ultimately show ?thesis using True Atomic f by (simp add: converse_rtranclp_into_rtranclp)
    qed
  qed (use 2(3) in simp)
qed simp

subsection \<open>Statements\<close>

definition kind_rows :: "pgenv \<Rightarrow> string \<Rightarrow> db \<Rightarrow> resource_row list" where
  "kind_rows p kind d = filter (\<lambda>r. rr_tenant r = pg_tenant p \<and> rr_kind r = kind) (db_resources d)"

definition row_of :: "pgenv \<Rightarrow> string \<Rightarrow> string \<Rightarrow> db \<Rightarrow> resource_row option" where
  "row_of p kind i d = find (\<lambda>r. rr_tenant r = pg_tenant p \<and> rr_kind r = kind \<and> rr_id r = i) (db_resources d)"

definition rows_listed :: "pgenv \<Rightarrow> 'a codec \<Rightarrow> string \<Rightarrow> db \<Rightarrow> 'a list" where
  "rows_listed p c kind d = List.map_filter (\<lambda>r. dec c (rr_payload r)) (sort_key (\<lambda>r. - rr_created r) (kind_rows p kind d))"

text \<open>\<open>list\<close>: a failing query is an empty list; rows that do not decode are skipped.\<close>

definition Pg_list :: "pgenv \<Rightarrow> nat \<Rightarrow> 'a codec \<Rightarrow> string \<Rightarrow> ('a list \<Rightarrow> 'b prog) \<Rightarrow> 'b prog" where
  "Pg_list p k c kind cont = Atomic (\<lambda>d. (d, cont (if pg_err p k \<noteq> None then [] else rows_listed p c kind d)))"

definition row_value :: "'a codec \<Rightarrow> resource_row option \<Rightarrow> 'a ret" where
  "row_value c row = (case row of None \<Rightarrow> (zero_of c, Some ErrNotFound)
     | Some r \<Rightarrow> (case dec c (rr_payload r) of None \<Rightarrow> (zero_of c, Some ErrJSON) | Some v \<Rightarrow> (v, None)))"

definition Pg_get :: "pgenv \<Rightarrow> nat \<Rightarrow> 'a codec \<Rightarrow> string \<Rightarrow> string \<Rightarrow> ('a ret \<Rightarrow> 'b prog) \<Rightarrow> 'b prog" where
  "Pg_get p k c kind i cont = Atomic (\<lambda>d. (d, cont (case pg_err p k of
     Some err \<Rightarrow> (zero_of c, Some err) | None \<Rightarrow> row_value c (row_of p kind i d))))"

definition Pg_exists :: "pgenv \<Rightarrow> nat \<Rightarrow> string \<Rightarrow> string \<Rightarrow> (bool \<Rightarrow> 'b prog) \<Rightarrow> 'b prog" where
  "Pg_exists p k kind i cont = Atomic (\<lambda>d. (d, cont (pg_err p k = None \<and> row_of p kind i d \<noteq> None)))"

definition upsert_resource :: "pgenv \<Rightarrow> string \<Rightarrow> string \<Rightarrow> string \<Rightarrow> db \<Rightarrow> db" where
  "upsert_resource p kind i payload d = d\<lparr>db_resources :=
     (case row_of p kind i d of
        Some _ \<Rightarrow> update_first (\<lambda>r. rr_tenant r = pg_tenant p \<and> rr_kind r = kind \<and> rr_id r = i)
                     (\<lambda>r. r\<lparr>rr_payload := payload, rr_updated := pg_now p\<rparr>) (db_resources d)
      | None \<Rightarrow> \<lparr>rr_tenant = pg_tenant p, rr_kind = kind, rr_id = i, rr_payload = payload,
                  rr_created = pg_now p, rr_updated = pg_now p\<rparr> # db_resources d)\<rparr>"

definition delete_resource :: "pgenv \<Rightarrow> string \<Rightarrow> string \<Rightarrow> db \<Rightarrow> db" where
  "delete_resource p kind i d = d\<lparr>db_resources :=
     filter (\<lambda>r. \<not> (rr_tenant r = pg_tenant p \<and> rr_kind r = kind \<and> rr_id r = i)) (db_resources d)\<rparr>"

text \<open>The unique identifiers of the audit and the outbox table span all tenants.\<close>

definition insert_audit :: "pgenv \<Rightarrow> AuditEvent \<Rightarrow> db \<Rightarrow> db + error" where
  "insert_audit p event d =
     (if list_ex (\<lambda>r. evt_ID (ad_event r) = evt_ID event) (db_audit d) then Inr (Err ''duplicate key'')
      else Inl (d\<lparr>db_audit := \<lparr>ad_tenant = pg_tenant p, ad_event = event\<rparr> # db_audit d\<rparr>))"

definition insert_outbox :: "pgenv \<Rightarrow> string \<Rightarrow> string \<Rightarrow> string \<Rightarrow> string option \<Rightarrow> db \<Rightarrow> db + error" where
  "insert_outbox p i topic key payload d =
     (case payload of None \<Rightarrow> Inr (Err ''null value'')
      | Some raw \<Rightarrow>
         if list_ex (\<lambda>r. ob_id r = i) (db_outbox d) then Inr (Err ''duplicate key'')
         else Inl (d\<lparr>db_outbox := db_outbox d @ [\<lparr>ob_sequence = db_next d, ob_tenant = pg_tenant p, ob_id = i,
                       ob_topic = topic, ob_key = key, ob_payload = raw, ob_published = None, ob_attempts = 0,
                       ob_error = None\<rparr>], db_next := db_next d + 1\<rparr>))"

text \<open>Sequencing of statements inside a transaction, each of which may fail.\<close>

definition statement :: "pgenv \<Rightarrow> nat \<Rightarrow> ('a \<Rightarrow> 'b + error) \<Rightarrow> 'a + error \<Rightarrow> 'b + error" where
  "statement p k f r = (case r of Inr err \<Rightarrow> Inr err
     | Inl d \<Rightarrow> (case pg_err p k of Some err \<Rightarrow> Inr err | None \<Rightarrow> f d))"

text \<open>Begin at call \<open>k\<close>, the body, commit at call \<open>k'\<close>; an error rolls everything back.\<close>

definition transaction :: "pgenv \<Rightarrow> nat \<Rightarrow> nat \<Rightarrow> (db \<Rightarrow> db + error) \<Rightarrow> db \<Rightarrow> db \<times> error option" where
  "transaction p k k' body d =
     (case pg_err p k of Some err \<Rightarrow> (d, Some err)
      | None \<Rightarrow>
         (case body d of Inr err \<Rightarrow> (d, Some err)
          | Inl d' \<Rightarrow>
             (case pg_err p k' of None \<Rightarrow> (d', None)
              | Some err \<Rightarrow> (if pg_committed p then d' else d, Some err))))"

definition topicForAction :: "string \<Rightarrow> string" where
  "topicForAction action =
     (if HasPrefix action ''pipeline.'' then ''mlaiops.pipeline.commands''
      else if HasPrefix action ''model.'' then ''mlaiops.model.commands''
      else if HasPrefix action ''agent.'' then ''mlaiops.agent.commands''
      else if HasPrefix action ''tool.'' then ''mlaiops.tool.commands''
      else if HasPrefix action ''connection.'' then ''mlaiops.connection.commands''
      else if HasPrefix action ''access.'' then ''mlaiops.workspace.commands''
      else [])"

definition actorOrAnonymous :: "string \<Rightarrow> string" where
  "actorOrAnonymous actor = (if actor = [] then ''anonymous'' else actor)"

definition pg_event :: "pgenv \<Rightarrow> nat \<Rightarrow> string \<Rightarrow> string \<Rightarrow> string \<Rightarrow> string \<Rightarrow> gany gomap \<Rightarrow> AuditEvent" where
  "pg_event p t action kind i actor metadata =
     \<lparr>evt_ID = new_id ''evt'' (pclk p t), evt_Action = action, evt_Resource = kind, evt_ResourceID = i,
      evt_Actor = actorOrAnonymous actor, evt_Metadata = metadata, evt_CreatedAt = pclk p (t + 1)\<rparr>"

text \<open>
  \<open>write\<close>, from the database call \<open>k\<close> and the clock reading \<open>t\<close>: the resource, its
  audit event, the audit event for the outbox and the command for the outbox, or nothing.
\<close>

definition write_body ::
  "pgenv \<Rightarrow> nat \<Rightarrow> nat \<Rightarrow> string \<Rightarrow> string \<Rightarrow> string option \<Rightarrow> string \<Rightarrow> string \<Rightarrow> gany gomap \<Rightarrow> db \<Rightarrow> db + error" where
  "write_body p k t kind i encoded action actor metadata d =
     (case encoded of None \<Rightarrow> Inr ErrJSON
      | Some payload \<Rightarrow>
         (let event = pg_event p t action kind i actor metadata;
              d1 = statement p (k + 1) (\<lambda>d. Inl (upsert_resource p kind i payload d)) (Inl d);
              d2 = statement p (k + 2) (insert_audit p event) d1;
              d3 = statement p (k + 3) (insert_outbox p (new_id ''out'' (pclk p (t + 2))) ''mlaiops.audit.operations'' i
                     (enc_event p event)) d2
          in if topicForAction action = [] then d3
             else case enc_command p \<lparr>cmd_ID = i, cmd_Kind = kind, cmd_Action = action, cmd_Resource = payload,
                         cmd_Actor = evt_Actor event, cmd_Tenant = pg_tenant p, cmd_OccurredAt = evt_CreatedAt event\<rparr> of
               None \<Rightarrow> (case d3 of Inl _ \<Rightarrow> Inr ErrJSON | Inr err \<Rightarrow> Inr err)
             | Some raw \<Rightarrow> statement p (k + 4) (insert_outbox p (new_id ''out'' (pclk p (t + 3))) (topicForAction action) i
                     (Some raw)) d3))"

definition Pg_write ::
  "pgenv \<Rightarrow> nat \<Rightarrow> nat \<Rightarrow> string \<Rightarrow> string \<Rightarrow> string option \<Rightarrow> string \<Rightarrow> string \<Rightarrow> gany gomap \<Rightarrow>
     (error option \<Rightarrow> 'b prog) \<Rightarrow> 'b prog" where
  "Pg_write p k t kind i encoded action actor metadata cont = Atomic (\<lambda>d.
     let (d', err) = transaction p k (k + 5) (write_body p k t kind i encoded action actor metadata) d
     in (d', cont err))"

text \<open>The common last line \<open>return value, p.write(...)\<close>.\<close>

definition Pg_put ::
  "pgenv \<Rightarrow> nat \<Rightarrow> nat \<Rightarrow> 'a codec \<Rightarrow> string \<Rightarrow> string \<Rightarrow> 'a \<Rightarrow> string \<Rightarrow> string \<Rightarrow> gany gomap \<Rightarrow> 'a ret prog" where
  "Pg_put p k t c kind i v action actor metadata =
     Pg_write p k t kind i (enc c v) action actor metadata (\<lambda>err. Return (v, err))"

end
