(* ===== verification/Postgres.thy ===== *)
theory Postgres
  imports Postgres_Base
begin

text \<open>
  The methods of \<open>*Postgres\<close> (\<^verbatim>\<open>go/internal/store/postgres.go\<close> and the last part of
  \<^verbatim>\<open>workloads.go\<close>) as programs over the tables. The arguments of \<open>Pg_list\<close>, \<open>Pg_get\<close>,
  \<open>Pg_exists\<close> and \<open>Pg_put\<close> after the environment number the database calls and the clock
  readings of the method.
\<close>

subsection \<open>Readers\<close>

definition Pg_Projects :: "pgenv \<Rightarrow> Project list prog" where
  "Pg_Projects p = Pg_list p 0 (c_project p) ''project'' Return"

definition Pg_Runs :: "pgenv \<Rightarrow> PipelineRun list prog" where
  "Pg_Runs p = Pg_list p 0 (c_run p) ''pipeline_run'' Return"

definition Pg_PipelineDefinitions :: "pgenv \<Rightarrow> PipelineDefinition list prog" where
  "Pg_PipelineDefinitions p = Pg_list p 0 (c_definition p) ''pipeline_definition'' Return"

definition Pg_Functions :: "pgenv \<Rightarrow> Function list prog" where
  "Pg_Functions p = Pg_list p 0 (c_function p) ''function'' Return"

definition Pg_Models :: "pgenv \<Rightarrow> Model list prog" where
  "Pg_Models p = Pg_list p 0 (c_model p) ''model'' Return"

definition Pg_Agents :: "pgenv \<Rightarrow> Agent list prog" where
  "Pg_Agents p = Pg_list p 0 (c_agent p) ''agent'' Return"

definition Pg_Tools :: "pgenv \<Rightarrow> Tool list prog" where
  "Pg_Tools p = Pg_list p 0 (c_tool p) ''tool'' Return"

definition Pg_Connections :: "pgenv \<Rightarrow> Connection list prog" where
  "Pg_Connections p = Pg_list p 0 (c_connection p) ''connection'' Return"

definition Pg_UserAccess :: "pgenv \<Rightarrow> UserAccess list prog" where
  "Pg_UserAccess p = Pg_list p 0 (c_access p) ''user_access'' Return"

definition Pg_AccessRequests :: "pgenv \<Rightarrow> AccessRequest list prog" where
  "Pg_AccessRequests p = Pg_list p 0 (c_request p) ''access_request'' Return"

definition Pg_AccessRequestsFor :: "pgenv \<Rightarrow> string \<Rightarrow> AccessRequest list prog" where
  "Pg_AccessRequestsFor p subject =
     Pg_list p 0 (c_request p) ''access_request'' (\<lambda>rs. Return (filter (\<lambda>r. ar_Subject r = subject) rs))"

definition Pg_APITokensFor :: "pgenv \<Rightarrow> string \<Rightarrow> APIToken list prog" where
  "Pg_APITokensFor p subject =
     Pg_list p 0 (c_token p) ''api_token'' (\<lambda>ts. Return (filter (\<lambda>t. tok_Subject t = subject) ts))"

definition Pg_BlogPosts :: "pgenv \<Rightarrow> BlogPost list prog" where
  "Pg_BlogPosts p = Pg_list p 0 (c_post p) ''blog_post'' Return"

definition Pg_FeatureViews :: "pgenv \<Rightarrow> FeatureView list prog" where
  "Pg_FeatureViews p = Pg_list p 0 (c_view p) ''feature_view'' Return"

definition Pg_AgentSessions :: "pgenv \<Rightarrow> string \<Rightarrow> AgentSession list prog" where
  "Pg_AgentSessions p agentID = Pg_list p 0 (c_session p) ''agent_session''
     (\<lambda>vs. Return (filter (\<lambda>v. agentID = [] \<or> ses_AgentID v = agentID) vs))"

definition Pg_AgentTraces :: "pgenv \<Rightarrow> string \<Rightarrow> AgentTrace list prog" where
  "Pg_AgentTraces p agentID = Pg_list p 0 (c_trace p) ''agent_trace''
     (\<lambda>vs. Return (filter (\<lambda>v. agentID = [] \<or> trc_AgentID v = agentID) vs))"

definition Pg_Run :: "pgenv \<Rightarrow> string \<Rightarrow> PipelineRun ret prog" where
  "Pg_Run p runID = Pg_get p 0 (c_run p) ''pipeline_run'' runID Return"

definition Pg_Project :: "pgenv \<Rightarrow> string \<Rightarrow> Project ret prog" where
  "Pg_Project p projectID = Pg_get p 0 (c_project p) ''project'' projectID Return"

definition Pg_PipelineDefinition :: "pgenv \<Rightarrow> string \<Rightarrow> PipelineDefinition ret prog" where
  "Pg_PipelineDefinition p definitionID = Pg_get p 0 (c_definition p) ''pipeline_definition'' definitionID Return"

definition Pg_AccessFor :: "pgenv \<Rightarrow> string \<Rightarrow> UserAccess ret prog" where
  "Pg_AccessFor p subject = Pg_get p 0 (c_access p) ''user_access'' subject Return"

text \<open>\<open>Audit\<close>: the newest 500 events of the tenant.\<close>

definition Pg_Audit :: "pgenv \<Rightarrow> AuditEvent list prog" where
  "Pg_Audit p = Atomic (\<lambda>d. (d, Return (if pg_err p 0 \<noteq> None then []
     else take 500 (map ad_event (filter (\<lambda>r. ad_tenant r = pg_tenant p) (db_audit d))))))"

subsection \<open>Blog posts\<close>

definition Pg_BlogPost_k :: "pgenv \<Rightarrow> nat \<Rightarrow> string \<Rightarrow> (BlogPost ret \<Rightarrow> 'b prog) \<Rightarrow> 'b prog" where
  "Pg_BlogPost_k p k identifier cont =
     Pg_get p k (c_post p) ''blog_post'' identifier (\<lambda>(post, err).
       if err = None then cont (post, None)
       else Pg_list p (k + 1) (c_post p) ''blog_post'' (\<lambda>posts.
         case find (\<lambda>q. bp_Slug q = identifier) posts of
           Some q \<Rightarrow> cont (q, None) | None \<Rightarrow> cont (zero_BlogPost, Some ErrNotFound)))"

definition Pg_BlogPost :: "pgenv \<Rightarrow> string \<Rightarrow> BlogPost ret prog" where
  "Pg_BlogPost p identifier = Pg_BlogPost_k p 0 identifier Return"

definition Pg_UpsertBlogPost :: "pgenv \<Rightarrow> string \<Rightarrow> UpsertBlogPostRequest \<Rightarrow> string \<Rightarrow> BlogPost ret prog" where
  "Pg_UpsertBlogPost p postID req0 actor =
     (let (req, err) = validateBlog req0 in
      if err \<noteq> None then Return (zero_BlogPost, err)
      else Pg_list p 0 (c_post p) ''blog_post'' (\<lambda>posts.
        if list_ex (\<lambda>q. bp_Slug q = ubr_Slug req \<and> bp_ID q \<noteq> postID) posts then Return (zero_BlogPost, Some ErrConflict)
        else let now = pclk p 0 in
        if postID \<noteq> [] then
          Pg_BlogPost_k p 1 postID (\<lambda>(post, err).
            if err \<noteq> None then Return (post, err)
            else let post' = post\<lparr>bp_Slug := ubr_Slug req, bp_Title := ubr_Title req, bp_Summary := ubr_Summary req,
                        bp_Content := ubr_Content req, bp_Author := ubr_Author req, bp_Tags := ubr_Tags req,
                        bp_Status := ubr_Status req, bp_UpdatedAt := now,
                        bp_PublishedAt := published_at (ubr_Status req) now (bp_PublishedAt post)\<rparr>
                 in Pg_put p 3 1 (c_post p) ''blog_post'' (bp_ID post') post' ''blog.updated'' actor
                      [(''status'', AnyStr (bp_Status post'))])
        else let post = \<lparr>bp_ID = new_id ''blog'' (pclk p 1), bp_Slug = ubr_Slug req, bp_Title = ubr_Title req,
                   bp_Summary = ubr_Summary req, bp_Content = ubr_Content req, bp_Author = ubr_Author req,
                   bp_Tags = ubr_Tags req, bp_Status = ubr_Status req, bp_CreatedAt = now, bp_UpdatedAt = now,
                   bp_PublishedAt = published_at (ubr_Status req) now None\<rparr>
             in Pg_put p 1 2 (c_post p) ''blog_post'' (bp_ID post) post ''blog.created'' actor
                  [(''status'', AnyStr (bp_Status post))]))"

text \<open>Deleting: one statement for the row, another one, outside a transaction, for the event.\<close>

definition Pg_delete ::
  "pgenv \<Rightarrow> nat \<Rightarrow> nat \<Rightarrow> string \<Rightarrow> string \<Rightarrow> (error option \<Rightarrow> error option) \<Rightarrow> string \<Rightarrow> string \<Rightarrow> error option prog" where
  "Pg_delete p k t kind i on_error action actor = Atomic (\<lambda>d.
     case pg_err p k of
       Some err \<Rightarrow> (d, Return (on_error (Some err)))
     | None \<Rightarrow>
        if row_of p kind i d = None then (d, Return (Some ErrNotFound))
        else (delete_resource p kind i d, Atomic (\<lambda>d.
          case statement p (k + 1) (insert_audit p (pg_event p t action kind i actor [])) (Inl d) of
            Inl d' \<Rightarrow> (d', Return None) | Inr err \<Rightarrow> (d, Return (Some err)))))"

definition Pg_DeleteBlogPost :: "pgenv \<Rightarrow> string \<Rightarrow> string \<Rightarrow> error option prog" where
  "Pg_DeleteBlogPost p postID actor = Pg_BlogPost_k p 0 postID (\<lambda>(post, err).
     if err \<noteq> None then Return err
     else Pg_delete p 2 0 ''blog_post'' (bp_ID post) (\<lambda>_. Some ErrNotFound) ''blog.deleted'' actor)"

subsection \<open>Tokens\<close>

definition Pg_CreateAPIToken :: "pgenv \<Rightarrow> string \<Rightarrow> CreateAPITokenRequest \<Rightarrow> CreatedAPIToken ret prog" where
  "Pg_CreateAPIToken p subject req0 =
     (let (req, err) = validateTokenRequest req0 in
      if err \<noteq> None then Return (zero_CreatedAPIToken, err)
      else case generateAPIToken (pg_env p) of
        Inr err \<Rightarrow> Return (zero_CreatedAPIToken, Some err)
      | Inl (tokenID, pre, secret, hash) \<Rightarrow>
          (let now = pclk p 0;
               token = zero_APIToken\<lparr>tok_ID := tokenID, tok_Subject := subject, tok_Name := ctr_Name req,
                 tok_Prefix := pre, tok_SecretHash := hash, tok_Services := ctr_Services req,
                 tok_ProjectIDs := ctr_ProjectIDs req, tok_CreatedAt := now,
                 tok_ExpiresAt := now + ctr_ExpiresInDays req * day_ns\<rparr>
           in Pg_write p 0 1 ''api_token'' (tok_ID token) (enc (c_token p) token) ''api_token.created'' subject
                [(''services'', AnyStrs (tok_Services token)), (''expires_at'', AnyTime (tok_ExpiresAt token))]
                (\<lambda>err. Return (\<lparr>cat_Token = token, cat_Secret = secret\<rparr>, err))))"

definition Pg_RevokeAPIToken :: "pgenv \<Rightarrow> string \<Rightarrow> string \<Rightarrow> error option prog" where
  "Pg_RevokeAPIToken p subject tokenID =
     Pg_get p 0 (c_token p) ''api_token'' tokenID (\<lambda>(token, err).
       if err \<noteq> None \<or> tok_Subject token \<noteq> subject then Return (Some ErrNotFound)
       else let token' = (if tok_RevokedAt token = None then token\<lparr>tok_RevokedAt := Some (pclk p 0)\<rparr> else token)
            in Pg_write p 1 1 ''api_token'' (tok_ID token') (enc (c_token p) token') ''api_token.revoked'' subject []
                 Return)"

definition update_payload :: "pgenv \<Rightarrow> string \<Rightarrow> string \<Rightarrow> string \<Rightarrow> db \<Rightarrow> db" where
  "update_payload p kind i payload d = d\<lparr>db_resources :=
     update_first (\<lambda>r. rr_tenant r = pg_tenant p \<and> rr_kind r = kind \<and> rr_id r = i)
       (\<lambda>r. r\<lparr>rr_payload := payload, rr_updated := pg_now p\<rparr>) (db_resources d)\<rparr>"

definition Pg_ResolveAPIToken :: "pgenv \<Rightarrow> string \<Rightarrow> APIToken ret prog" where
  "Pg_ResolveAPIToken p secret =
     (let now = pclk p 0 in
      Pg_list p 0 (c_token p) ''api_token'' (\<lambda>tokens.
        case find (token_live now secret) tokens of
          None \<Rightarrow> Return (zero_APIToken, Some ErrNotFound)
        | Some token \<Rightarrow>
            (let token' = token\<lparr>tok_LastUsedAt := Some now\<rparr> in
             case enc (c_token p) token' of
               None \<Rightarrow> Return (token', None)
             | Some payload \<Rightarrow> Atomic (\<lambda>d.
                 (if pg_err p 1 = None then update_payload p ''api_token'' (tok_ID token') payload d else d,
                  Return (token', None))))))"

subsection \<open>Access\<close>

definition Pg_CreateAccessRequest ::
  "pgenv \<Rightarrow> string \<Rightarrow> string \<Rightarrow> CreateAccessRequest \<Rightarrow> AccessRequest ret prog" where
  "Pg_CreateAccessRequest p subject email req0 =
     (let (req, err) = validateAccessRequest req0 in
      if err \<noteq> None then Return (zero_AccessRequest, err)
      else Pg_list p 0 (c_request p) ''access_request'' (\<lambda>requests.
        if list_ex (\<lambda>r. ar_Subject r = subject \<and> ar_Status r = ''pending'') requests
          then Return (zero_AccessRequest, Some (Err ''a pending access request already exists''))
        else let now = pclk p 0;
                 request = zero_AccessRequest\<lparr>ar_ID := new_id ''access-request'' (pclk p 1), ar_Subject := subject,
                   ar_Email := email, ar_Reason := car_Reason req, ar_RequestedServices := car_RequestedServices req,
                   ar_Status := ''pending'', ar_CreatedAt := now, ar_UpdatedAt := now\<rparr>
             in Pg_put p 1 2 (c_request p) ''access_request'' (ar_ID request) request ''access.requested'' subject []))"

definition Pg_ReviewAccessRequest ::
  "pgenv \<Rightarrow> string \<Rightarrow> ReviewAccessRequest \<Rightarrow> string \<Rightarrow> AccessRequest ret prog" where
  "Pg_ReviewAccessRequest p requestID req reviewer =
     (if rar_Status req \<noteq> ''approved'' \<and> rar_Status req \<noteq> ''rejected''
        then Return (zero_AccessRequest, Some (Err ''status must be approved or rejected''))
      else Pg_get p 0 (c_request p) ''access_request'' requestID (\<lambda>(request, err).
        if err \<noteq> None then Return (request, err)
        else if ar_Status request \<noteq> ''pending''
          then Return (request, Some (Err ''access request has already been reviewed''))
        else let request' = request\<lparr>ar_Status := rar_Status req, ar_Reviewer := reviewer,
                   ar_ReviewNote := TrimSpace (rar_Note req), ar_UpdatedAt := pclk p 0\<rparr>
             in Pg_put p 1 1 (c_request p) ''access_request'' (ar_ID request') request'
                  (''access.request_'' @ rar_Status req) reviewer []))"

definition Pg_UpsertUserAccess ::
  "pgenv \<Rightarrow> string \<Rightarrow> UpsertUserAccessRequest \<Rightarrow> string \<Rightarrow> UserAccess ret prog" where
  "Pg_UpsertUserAccess p subject req actor =
     (let (access, err) = validateAccess subject req in
      if err \<noteq> None then Return (zero_UserAccess, err)
      else let now = pclk p 0 in
      Pg_get p 0 (c_access p) ''user_access'' subject (\<lambda>(existing, getErr).
        let access' = access\<lparr>ua_UpdatedAt := now,
              ua_CreatedAt := (if getErr = None then ua_CreatedAt existing else now)\<rparr>
        in Pg_put p 1 1 (c_access p) ''user_access'' subject access' ''access.upserted'' actor []))"

definition delete_access_body :: "pgenv \<Rightarrow> string \<Rightarrow> string \<Rightarrow> string \<Rightarrow> db \<Rightarrow> db + error" where
  "delete_access_body p subject actor resource d =
     (let event = pg_event p 0 ''access.deleted'' ''user_access'' subject actor [];
          command = \<lparr>cmd_ID = subject, cmd_Kind = ''user_access'', cmd_Action = ''access.deleted'', cmd_Resource = resource,
            cmd_Actor = evt_Actor event, cmd_Tenant = pg_tenant p, cmd_OccurredAt = evt_CreatedAt event\<rparr>;
          d1 = statement p 1 (\<lambda>d. if row_of p ''user_access'' subject d = None then Inr ErrNotFound
                                 else Inl (delete_resource p ''user_access'' subject d)) (Inl d);
          d2 = statement p 2 (insert_audit p event) d1
      in statement p 3 (insert_outbox p (new_id ''out'' (pclk p 2)) ''mlaiops.workspace.commands'' subject
           (enc_command p command)) d2)"

text \<open>\<open>resource\<close> is the JSON text of \<open>map[string]any{"subject": subject}\<close>.\<close>

definition Pg_DeleteUserAccess :: "pgenv \<Rightarrow> string \<Rightarrow> string \<Rightarrow> string \<Rightarrow> error option prog" where
  "Pg_DeleteUserAccess p subject actor resource = Atomic (\<lambda>d.
     let (d', err) = transaction p 0 4 (delete_access_body p subject actor resource) d in (d', Return err))"

subsection \<open>Projects, workflows and functions\<close>

definition Pg_CreateProject :: "pgenv \<Rightarrow> CreateProjectRequest \<Rightarrow> string list \<Rightarrow> Project ret prog" where
  "Pg_CreateProject p req actors =
     (if length (TrimSpace (cpr_Name req)) < 3
        then Return (zero_Project, Some (Err ''name must contain at least 3 characters''))
      else let template = (if cpr_Template req = [] then ''tabular-classification'' else cpr_Template req) in
      Pg_list p 0 (c_project p) ''project'' (\<lambda>projects.
        if list_ex (\<lambda>v. EqualFold (prj_Name v) (cpr_Name req)) projects then Return (zero_Project, Some ErrConflict)
        else let project = \<lparr>prj_ID = new_id ''prj'' (pclk p 0), prj_Name = TrimSpace (cpr_Name req),
                   prj_Description = TrimSpace (cpr_Description req), prj_Template = template,
                   prj_Namespace = slug (cpr_Name req), prj_Status = ''ready'', prj_CreatedAt = pclk p 1,
                   prj_OwnerSubject = cpr_OwnerSubject req, prj_Repository = None\<rparr>;
                 (repository, err) = (if TrimSpace (cpr_RepositoryURL req) \<noteq> [] then
                    (let (g, err) = validateGitRepository \<lparr>spr_URL = cpr_RepositoryURL req,
                          spr_DefaultBranch = cpr_DefaultBranch req, spr_LastCommit = []\<rparr> in (Some g, err))
                    else (None, None))
             in if err \<noteq> None then Return (zero_Project, err)
                else Pg_put p 1 2 (c_project p) ''project'' (prj_ID project) (project\<lparr>prj_Repository := repository\<rparr>)
                       ''project.created'' (first_or_empty actors) []))"

definition Pg_SetProjectRepository ::
  "pgenv \<Rightarrow> string \<Rightarrow> SetProjectRepositoryRequest \<Rightarrow> string \<Rightarrow> Project ret prog" where
  "Pg_SetProjectRepository p projectID req actor =
     Pg_get p 0 (c_project p) ''project'' projectID (\<lambda>(project, err).
       if err \<noteq> None then Return (project, err)
       else let (repository, err) = validateGitRepository req in
         if err \<noteq> None then Return (project, err)
         else let project' = project\<lparr>prj_Repository := Some (repository\<lparr>git_SyncedAt := Some (pclk p 0)\<rparr>)\<rparr>
              in Pg_put p 1 1 (c_project p) ''project'' (prj_ID project') project' ''project.repository_updated'' actor
                   [(''provider'', AnyStr (git_Provider repository))])"

text \<open>The branch of \<open>UpsertPipelineDefinition\<close> that has found a definition to update.\<close>

definition Pg_update_definition ::
  "pgenv \<Rightarrow> nat \<Rightarrow> nat \<Rightarrow> string \<Rightarrow> UpsertPipelineDefinitionRequest \<Rightarrow> string \<Rightarrow> PipelineDefinition ret prog" where
  "Pg_update_definition p k t definitionID req actor =
     Pg_get p k (c_definition p) ''pipeline_definition'' definitionID (\<lambda>(definition, getErr).
       if getErr \<noteq> None then Return (definition, getErr)
       else let definition' = definition\<lparr>pd_Name := upd_Name req, pd_Version := upd_Version req,
                  pd_ExecutionMode := upd_ExecutionMode req, pd_Jobs := upd_Jobs req,
                  pd_RepositoryURL := upd_RepositoryURL req, pd_CommitSHA := upd_CommitSHA req, pd_UpdatedAt := pclk p t\<rparr>
            in Pg_put p (k + 1) (t + 1) (c_definition p) ''pipeline_definition'' (pd_ID definition') definition'
                 ''pipeline_definition.updated'' actor [])"

text \<open>
  The recursive call on an existing definition validates the request again; it would not end
  on a definition without an identifier, which no method stores.
\<close>

definition Pg_UpsertPipelineDefinition ::
  "pgenv \<Rightarrow> string \<Rightarrow> UpsertPipelineDefinitionRequest \<Rightarrow> string \<Rightarrow> PipelineDefinition ret prog" where
  "Pg_UpsertPipelineDefinition p definitionID req0 actor =
     (let (req, err) = validatePipelineDefinition (map_seed (pg_env p)) req0 in
      if err \<noteq> None then Return (zero_PipelineDefinition, err)
      else Pg_exists p 0 ''project'' (upd_ProjectID req) (\<lambda>present.
        if \<not> present then Return (zero_PipelineDefinition, Some ErrNotFound)
        else if definitionID \<noteq> [] then Pg_update_definition p 1 0 definitionID req actor
        else Pg_list p 1 (c_definition p) ''pipeline_definition'' (\<lambda>definitions.
          case find (\<lambda>d. pd_ProjectID d = upd_ProjectID req \<and> pd_Name d = upd_Name req \<and> pd_Version d = upd_Version req) definitions of
            Some existing \<Rightarrow>
              (let (req', err') = validatePipelineDefinition (map_seed (pg_env p)) req in
               if err' \<noteq> None then Return (zero_PipelineDefinition, err')
               else Pg_exists p 2 ''project'' (upd_ProjectID req') (\<lambda>present'.
                 if \<not> present' then Return (zero_PipelineDefinition, Some ErrNotFound)
                 else if pd_ID existing \<noteq> [] then Pg_update_definition p 3 1 (pd_ID existing) req' actor
                 else Return (zero_PipelineDefinition, Some (Err ''stack overflow''))))
          | None \<Rightarrow>
              (let now = pclk p 0;
                   definition' = \<lparr>pd_ID = new_id ''pipe'' (pclk p 1), pd_ProjectID = upd_ProjectID req, pd_Name = upd_Name req,
                    pd_Version = upd_Version req, pd_ExecutionMode = upd_ExecutionMode req, pd_Jobs = upd_Jobs req,
                    pd_RepositoryURL = upd_RepositoryURL req, pd_CommitSHA = upd_CommitSHA req,
                    pd_CreatedAt = now, pd_UpdatedAt = now\<rparr>
               in Pg_put p 2 2 (c_definition p) ''pipeline_definition'' (pd_ID definition') definition'
                    ''pipeline_definition.created'' actor []))))"

definition Pg_UpsertFunction :: "pgenv \<Rightarrow> DeployFunctionRequest \<Rightarrow> string \<Rightarrow> string \<Rightarrow> Function ret prog" where
  "Pg_UpsertFunction p req owner actor =
     (case ValidateFunctionRequest req of
        Some err \<Rightarrow> Return (zero_Function, Some err)
      | None \<Rightarrow> Pg_exists p 0 ''project'' (dfr_ProjectID req) (\<lambda>present.
          if \<not> present then Return (zero_Function, Some ErrNotFound)
          else let now = pclk p 0 in
          Pg_list p 1 (c_function p) ''function'' (\<lambda>functions.
            case find (\<lambda>f. fn_Name f = dfr_Name req) functions of
              Some f \<Rightarrow>
                if fn_ProjectID f \<noteq> dfr_ProjectID req then Return (zero_Function, Some ErrConflict)
                else let f' = f\<lparr>fn_Image := dfr_Image req, fn_EnvVars := dfr_EnvVars req, fn_Labels := dfr_Labels req,
                          fn_Annotations := dfr_Annotations req, fn_CPU := dfr_CPU req, fn_Memory := dfr_Memory req,
                          fn_Status := ''deployed'', fn_UpdatedAt := now\<rparr>
                     in Pg_put p 2 1 (c_function p) ''function'' (fn_Name f') f' ''function.updated'' actor []
            | None \<Rightarrow>
                (let f = zero_Function\<lparr>fn_Name := dfr_Name req, fn_ProjectID := dfr_ProjectID req, fn_Image := dfr_Image req,
                     fn_EnvVars := dfr_EnvVars req, fn_Labels := dfr_Labels req, fn_Annotations := dfr_Annotations req,
                     fn_CPU := dfr_CPU req, fn_Memory := dfr_Memory req, fn_OwnerSubject := owner,
                     fn_Status := ''deployed'', fn_CreatedAt := now, fn_UpdatedAt := now\<rparr>
                 in Pg_put p 2 1 (c_function p) ''function'' (fn_Name f) f ''function.deployed'' actor []))))"

definition Pg_DeleteFunction :: "pgenv \<Rightarrow> string \<Rightarrow> string \<Rightarrow> error option prog" where
  "Pg_DeleteFunction p name actor = Pg_delete p 0 0 ''function'' name id ''function.deleted'' actor"

subsection \<open>Runs\<close>

definition Pg_SubmitPipeline :: "pgenv \<Rightarrow> SubmitPipelineRequest \<Rightarrow> string list \<Rightarrow> PipelineRun ret prog" where
  "Pg_SubmitPipeline p req actors =
     (let accept = (\<lambda>steps mode name0 k.
            let name = (if TrimSpace name0 = [] then ''training-pipeline'' else name0);
                now = pclk p 0;
                run = \<lparr>run_ID = new_id ''run'' (pclk p 1), run_ProjectID = sub_ProjectID req,
                       run_Name = name, run_Status = ''queued'', run_Progress = 0,
                       run_CreatedAt = now, run_UpdatedAt = now, run_ParentRunID = [],
                       run_EngineRunID = [], run_DefinitionID = sub_DefinitionID req,
                       run_ExecutionMode = mode, run_Parameters = sub_Parameters req, run_Steps = steps,
                       run_Logs = [\<lparr>rl_Timestamp = now, rl_Step = [], rl_Level = ''info'',
                                    rl_Message = ''Run accepted by control plane''\<rparr>]\<rparr>
            in Pg_put p k 2 (c_run p) ''pipeline_run'' (run_ID run) run ''pipeline.submitted'' (first_or_empty actors) [])
      in Pg_exists p 0 ''project'' (sub_ProjectID req) (\<lambda>present.
        if \<not> present then Return (zero_PipelineRun, Some ErrNotFound)
        else if sub_DefinitionID req \<noteq> [] then
          Pg_get p 1 (c_definition p) ''pipeline_definition'' (sub_DefinitionID req) (\<lambda>(definition, err).
            if err \<noteq> None \<or> pd_ProjectID definition \<noteq> sub_ProjectID req then Return (zero_PipelineRun, Some ErrNotFound)
            else accept (stepsFromDefinition definition) (pd_ExecutionMode definition)
                   (if TrimSpace (sub_Name req) = [] then pd_Name definition else sub_Name req) 2)
        else accept (defaultSteps ''pending'') ''prefect'' (sub_Name req) 1))"

definition Pg_CancelRun :: "pgenv \<Rightarrow> string \<Rightarrow> string \<Rightarrow> PipelineRun ret prog" where
  "Pg_CancelRun p runID actor =
     Pg_get p 0 (c_run p) ''pipeline_run'' runID (\<lambda>(run, err).
       if err \<noteq> None then Return (run, err)
       else if run_Status run = ''succeeded'' \<or> run_Status run = ''failed''
         then Return (run, Some (Err ''completed runs cannot be cancelled''))
       else let run' = run\<lparr>run_Status := ''cancelled'', run_UpdatedAt := pclk p 0,
                  run_Logs := run_Logs run @ [\<lparr>rl_Timestamp = pclk p 0, rl_Step = [], rl_Level = ''warning'',
                    rl_Message = ''Run cancelled by '' @ actor\<rparr>]\<rparr>
            in Pg_put p 1 1 (c_run p) ''pipeline_run'' (run_ID run') run' ''pipeline.cancelled'' actor [])"

definition Pg_RetryRun :: "pgenv \<Rightarrow> string \<Rightarrow> string \<Rightarrow> PipelineRun ret prog" where
  "Pg_RetryRun p runID actor =
     Pg_get p 0 (c_run p) ''pipeline_run'' runID (\<lambda>(previous, err).
       if err \<noteq> None then Return (zero_PipelineRun, err)
       else let now = pclk p 0;
                run = \<lparr>run_ID = new_id ''run'' (pclk p 1), run_ProjectID = run_ProjectID previous,
                       run_Name = run_Name previous, run_Status = ''queued'', run_Progress = 0,
                       run_CreatedAt = now, run_UpdatedAt = now, run_ParentRunID = run_ID previous,
                       run_EngineRunID = [], run_DefinitionID = run_DefinitionID previous,
                       run_ExecutionMode = run_ExecutionMode previous, run_Parameters = run_Parameters previous,
                       run_Steps = resetSteps (run_Steps previous),
                       run_Logs = [\<lparr>rl_Timestamp = now, rl_Step = [], rl_Level = ''info'',
                                    rl_Message = ''Retry created from '' @ run_ID previous\<rparr>]\<rparr>
            in Pg_put p 1 2 (c_run p) ''pipeline_run'' (run_ID run) run ''pipeline.retried'' actor
                 [(''parent_run_id'', AnyStr (run_ID previous))])"

definition Pg_SetRunEngine :: "pgenv \<Rightarrow> string \<Rightarrow> string \<Rightarrow> PipelineRun ret prog" where
  "Pg_SetRunEngine p runID engineRunID =
     Pg_get p 0 (c_run p) ''pipeline_run'' runID (\<lambda>(run, err).
       if err \<noteq> None then Return (run, err)
       else let run' = run\<lparr>run_EngineRunID := engineRunID, run_UpdatedAt := pclk p 0\<rparr>
            in Pg_put p 1 1 (c_run p) ''pipeline_run'' (run_ID run') run' ''pipeline.engine_linked'' ''system''
                 [(''engine_run_id'', AnyStr engineRunID)])"

definition Pg_UpdateRunStep :: "pgenv \<Rightarrow> string \<Rightarrow> UpdateRunStepRequest \<Rightarrow> string \<Rightarrow> PipelineRun ret prog" where
  "Pg_UpdateRunStep p runID req actor =
     (if usr_Step req = [] \<or> usr_Status req = []
        then Return (zero_PipelineRun, Some (Err ''step and status are required''))
      else if \<not> validStepStatus (usr_Status req)
        then Return (zero_PipelineRun, Some (ErrQuoted ''invalid step status '' (usr_Status req)))
      else Pg_get p 0 (c_run p) ''pipeline_run'' runID (\<lambda>(run, err).
        if err \<noteq> None then Return (run, err)
        else let run' = report_step (pclk p 0) req run
             in Pg_put p 1 1 (c_run p) ''pipeline_run'' (run_ID run') run' ''pipeline.step_reported'' actor
                  [(''step'', AnyStr (usr_Step req)), (''status'', AnyStr (usr_Status req))]))"

subsection \<open>Models\<close>

definition Pg_RegisterModel :: "pgenv \<Rightarrow> RegisterModelRequest \<Rightarrow> string \<Rightarrow> Model ret prog" where
  "Pg_RegisterModel p req actor =
     Pg_exists p 0 ''project'' (rmr_ProjectID req) (\<lambda>present.
       if \<not> present then Return (zero_Model, Some ErrNotFound)
       else if rmr_Name req = [] \<or> rmr_Version req = [] \<or> rmr_ArtifactURI req = []
         then Return (zero_Model, Some (Err ''name, version and artifact_uri are required''))
       else Pg_list p 1 (c_model p) ''model'' (\<lambda>models.
         if list_ex (\<lambda>v. mdl_Name v = rmr_Name req \<and> mdl_Version v = rmr_Version req) models
           then Return (zero_Model, Some ErrConflict)
         else let m = zero_Model\<lparr>mdl_ID := new_id ''mdl'' (pclk p 0), mdl_ProjectID := rmr_ProjectID req,
                    mdl_Name := rmr_Name req, mdl_Version := rmr_Version req, mdl_Stage := ''candidate'',
                    mdl_ArtifactURI := rmr_ArtifactURI req, mdl_Metrics := rmr_Metrics req,
                    mdl_GateStatus := evaluation_gate (rmr_Metrics req),
                    mdl_DeploymentStatus := ''not_deployed'', mdl_CreatedAt := pclk p 1\<rparr>
              in Pg_put p 2 2 (c_model p) ''model'' (mdl_ID m) m ''model.registered'' actor []))"

definition Pg_PromoteModel :: "pgenv \<Rightarrow> string \<Rightarrow> string \<Rightarrow> string \<Rightarrow> Model ret prog" where
  "Pg_PromoteModel p modelID stage actor =
     (if stage \<noteq> ''staging'' \<and> stage \<noteq> ''production'' \<and> stage \<noteq> ''archived''
        then Return (zero_Model, Some (Err ''stage must be staging, production or archived''))
      else Pg_get p 0 (c_model p) ''model'' modelID (\<lambda>(m, err).
        if err \<noteq> None then Return (m, err)
        else if stage = ''production'' \<and> mdl_GateStatus m = ''failed''
          then Return (m, Some (Err ''model evaluation gates have not passed''))
        else let m' = m\<lparr>mdl_PreviousStage := mdl_Stage m, mdl_Stage := stage\<rparr>
             in Pg_put p 1 0 (c_model p) ''model'' (mdl_ID m') m' ''model.promoted'' actor [(''stage'', AnyStr stage)]))"

definition Pg_DeployModel :: "pgenv \<Rightarrow> string \<Rightarrow> int \<Rightarrow> string \<Rightarrow> Model ret prog" where
  "Pg_DeployModel p modelID weight actor =
     (if weight < 0 \<or> weight > 100 then Return (zero_Model, Some (Err ''canary_weight must be between 0 and 100''))
      else Pg_get p 0 (c_model p) ''model'' modelID (\<lambda>(m, err).
        if err \<noteq> None then Return (m, err)
        else if mdl_GateStatus m \<noteq> ''passed'' then Return (m, Some (Err ''model evaluation gates have not passed''))
        else let m' = m\<lparr>mdl_DeploymentStatus := ''deploying'', mdl_CanaryWeight := weight,
                        mdl_EndpointURL := ''/v1/models/'' @ mdl_Name m @ '':predict''\<rparr>
             in Pg_put p 1 0 (c_model p) ''model'' (mdl_ID m') m' ''model.deployed'' actor
                  [(''canary_weight'', AnyInt weight)]))"

definition Pg_SetModelEndpoint :: "pgenv \<Rightarrow> string \<Rightarrow> string \<Rightarrow> string \<Rightarrow> Model ret prog" where
  "Pg_SetModelEndpoint p modelID endpoint status =
     Pg_get p 0 (c_model p) ''model'' modelID (\<lambda>(m, err).
       if err \<noteq> None then Return (m, err)
       else let m' = m\<lparr>mdl_EndpointURL := endpoint, mdl_DeploymentStatus := status\<rparr>
            in Pg_put p 1 0 (c_model p) ''model'' (mdl_ID m') m' ''model.endpoint_updated'' ''system''
                 [(''endpoint'', AnyStr endpoint), (''status'', AnyStr status)])"

definition Pg_RollbackModel :: "pgenv \<Rightarrow> string \<Rightarrow> string \<Rightarrow> Model ret prog" where
  "Pg_RollbackModel p modelID actor =
     Pg_get p 0 (c_model p) ''model'' modelID (\<lambda>(m, err).
       if err \<noteq> None then Return (m, err)
       else if mdl_PreviousStage m = [] then Return (m, Some (Err ''no previous stage is available''))
       else let m' = m\<lparr>mdl_Stage := mdl_PreviousStage m, mdl_PreviousStage := mdl_Stage m,
                       mdl_DeploymentStatus := ''rolled_back'', mdl_CanaryWeight := 0\<rparr>
            in Pg_put p 1 0 (c_model p) ''model'' (mdl_ID m') m' ''model.rolled_back'' actor [])"

subsection \<open>Agents, tools, features and connections\<close>

definition Pg_DeployAgent :: "pgenv \<Rightarrow> DeployAgentRequest \<Rightarrow> string \<Rightarrow> Agent ret prog" where
  "Pg_DeployAgent p req actor =
     Pg_exists p 0 ''project'' (dar_ProjectID req) (\<lambda>present.
       if \<not> present then Return (zero_Agent, Some ErrNotFound)
       else if dar_Name req = [] \<or> dar_Version req = [] \<or> dar_Image req = [] \<or> dar_GraphModule req = []
         then Return (zero_Agent, Some (Err ''name, version, image and graph_module are required''))
       else let a = zero_Agent\<lparr>agt_ID := new_id ''agt'' (pclk p 0), agt_ProjectID := dar_ProjectID req,
                     agt_Name := dar_Name req, agt_Version := dar_Version req, agt_Image := dar_Image req,
                     agt_GraphModule := dar_GraphModule req, agt_LLMBackend := dar_LLMBackend req,
                     agt_Replicas := (if dar_Replicas req < 1 then 1 else dar_Replicas req),
                     agt_Tools := dar_Tools req, agt_Status := ''pending'', agt_CreatedAt := pclk p 1\<rparr>
            in Pg_put p 1 2 (c_agent p) ''agent'' (agt_ID a) a ''agent.deployed'' actor [])"

definition Pg_SetAgentTraffic :: "pgenv \<Rightarrow> string \<Rightarrow> int \<Rightarrow> string \<Rightarrow> Agent ret prog" where
  "Pg_SetAgentTraffic p agentID weight actor =
     (if weight < 0 \<or> weight > 100 then Return (zero_Agent, Some (Err ''canary_weight must be between 0 and 100''))
      else Pg_get p 0 (c_agent p) ''agent'' agentID (\<lambda>(a, err).
        if err \<noteq> None then Return (a, err)
        else let a' = a\<lparr>agt_CanaryWeight := weight\<rparr>
             in Pg_put p 1 0 (c_agent p) ''agent'' (agt_ID a') a' ''agent.traffic_updated'' actor
                  [(''canary_weight'', AnyInt weight)]))"

definition Pg_RegisterTool :: "pgenv \<Rightarrow> RegisterToolRequest \<Rightarrow> string \<Rightarrow> Tool ret prog" where
  "Pg_RegisterTool p req actor =
     (if rtr_Name req = [] \<or> rtr_Version req = [] \<or> rtr_InputSchema req = []
        then Return (zero_Tool, Some (Err ''name, version and input_schema are required''))
      else Pg_list p 0 (c_tool p) ''tool'' (\<lambda>tools.
        if list_ex (\<lambda>v. tool_Name v = rtr_Name req \<and> tool_Version v = rtr_Version req) tools
          then Return (zero_Tool, Some ErrConflict)
        else let t = \<lparr>tool_ID = new_id ''tool'' (pclk p 0), tool_Name = rtr_Name req, tool_Version = rtr_Version req,
                      tool_Description = rtr_Description req, tool_Tags = rtr_Tags req,
                      tool_InputSchema = rtr_InputSchema req, tool_Status = ''ready'', tool_CreatedAt = pclk p 1\<rparr>
             in Pg_put p 1 2 (c_tool p) ''tool'' (tool_ID t) t ''tool.registered'' actor []))"

definition Pg_ApplyFeatureView :: "pgenv \<Rightarrow> ApplyFeatureViewRequest \<Rightarrow> string \<Rightarrow> FeatureView ret prog" where
  "Pg_ApplyFeatureView p req actor =
     (if afv_Name req = [] \<or> afv_Entity req = [] \<or> afv_Fields req = []
        then Return (zero_FeatureView, Some (Err ''name, entity and at least one field are required''))
      else Pg_list p 0 (c_view p) ''feature_view'' (\<lambda>views.
        case find (\<lambda>v. fv_Name v = afv_Name req) views of
          Some v \<Rightarrow>
            (let v' = v\<lparr>fv_Entity := afv_Entity req, fv_Fields := afv_Fields req, fv_Tags := afv_Tags req,
                        fv_Source := afv_Source req, fv_TTLSeconds := afv_TTLSeconds req\<rparr>
             in Pg_put p 1 0 (c_view p) ''feature_view'' (fv_ID v') v' ''feature_view.applied'' actor [])
        | None \<Rightarrow>
            (let view = zero_FeatureView\<lparr>fv_ID := new_id ''fv'' (pclk p 0), fv_Name := afv_Name req,
                        fv_Entity := afv_Entity req, fv_Fields := afv_Fields req, fv_Tags := afv_Tags req,
                        fv_Source := afv_Source req, fv_TTLSeconds := afv_TTLSeconds req,
                        fv_Status := ''registered'', fv_CreatedAt := pclk p 1\<rparr>
             in Pg_put p 1 2 (c_view p) ''feature_view'' (fv_ID view) view ''feature_view.applied'' actor [])))"

definition Pg_ReportMaterialization :: "pgenv \<Rightarrow> string \<Rightarrow> int \<Rightarrow> string \<Rightarrow> FeatureView ret prog" where
  "Pg_ReportMaterialization p name entityCount actor =
     (if entityCount < 0 then Return (zero_FeatureView, Some (Err ''entity_count cannot be negative''))
      else Pg_list p 0 (c_view p) ''feature_view'' (\<lambda>views.
        case find (\<lambda>v. fv_Name v = name) views of
          None \<Rightarrow> Return (zero_FeatureView, Some ErrNotFound)
        | Some v \<Rightarrow>
            (let v' = v\<lparr>fv_Status := ''materialized'', fv_OnlineEntityCount := entityCount,
                        fv_MaterializedAt := Some (pclk p 0)\<rparr>
             in Pg_put p 1 1 (c_view p) ''feature_view'' (fv_ID v') v' ''feature_view.materialized'' actor
                  [(''entity_count'', AnyInt entityCount)])))"

definition Pg_CreateConnection :: "pgenv \<Rightarrow> CreateConnectionRequest \<Rightarrow> string \<Rightarrow> Connection ret prog" where
  "Pg_CreateConnection p req actor =
     (if ccr_Name req = [] \<or> ccr_Type req = [] \<or> ccr_SecretRef req = []
        then Return (zero_Connection, Some (Err ''name, type and secret_ref are required''))
      else let c = zero_Connection\<lparr>con_ID := new_id ''conn'' (pclk p 0), con_Name := ccr_Name req,
                     con_Type := ccr_Type req, con_Endpoint := ccr_Endpoint req, con_SecretRef := ccr_SecretRef req,
                     con_Status := ''pending'', con_CreatedAt := pclk p 1\<rparr>
           in Pg_put p 0 2 (c_connection p) ''connection'' (con_ID c) c ''connection.created'' actor [])"

definition Pg_UpdateConnectionStatus ::
  "pgenv \<Rightarrow> string \<Rightarrow> string \<Rightarrow> string \<Rightarrow> string \<Rightarrow> Connection ret prog" where
  "Pg_UpdateConnectionStatus p connectionID status message actor =
     Pg_get p 0 (c_connection p) ''connection'' connectionID (\<lambda>(c, err).
       if err \<noteq> None then Return (c, err)
       else let c' = c\<lparr>con_Status := status, con_Message := message, con_CheckedAt := Some (pclk p 0)\<rparr>
            in Pg_put p 1 1 (c_connection p) ''connection'' (con_ID c') c' ''connection.checked'' actor
                 [(''status'', AnyStr status)])"

text \<open>\<open>RecordTrace\<close>: two transactions, with a read of the session in between.\<close>

definition Pg_RecordTrace :: "pgenv \<Rightarrow> RecordTraceRequest \<Rightarrow> AgentTrace ret prog" where
  "Pg_RecordTrace p req =
     (if rec_AgentID req = [] \<or> rec_SessionID req = []
        then Return (zero_AgentTrace, Some (Err ''agent_id and session_id are required''))
      else let now = pclk p 0;
               trace = \<lparr>trc_ID = new_id ''trace'' (pclk p 1), trc_AgentID = rec_AgentID req,
                        trc_SessionID = rec_SessionID req, trc_Name = rec_Name req, trc_Status = rec_Status req,
                        trc_DurationMS = rec_DurationMS req,
                        trc_Tokens = wrap64 (rec_InputTokens req + rec_OutputTokens req),
                        trc_Metadata = rec_Metadata req, trc_CreatedAt = now\<rparr>;
               sessionKey = rec_AgentID req @ ''/'' @ rec_SessionID req
      in Pg_write p 0 2 ''agent_trace'' (trc_ID trace) (enc (c_trace p) trace) ''agent.trace_recorded'' ''trace-proxy'' []
        (\<lambda>err. if err \<noteq> None then Return (trace, err)
          else Pg_get p 6 (c_session p) ''agent_session'' sessionKey (\<lambda>(session0, err).
            if err \<noteq> None \<and> err \<noteq> Some ErrNotFound then Return (trace, err)
            else let session = (if err = Some ErrNotFound then
                       \<lparr>ses_ID = rec_SessionID req, ses_AgentID = rec_AgentID req, ses_UserID = rec_UserID req,
                        ses_Status = [], ses_CurrentNode = [], ses_Turns = 0, ses_InputTokens = 0, ses_OutputTokens = 0,
                        ses_CostUSD = 0, ses_StartedAt = now, ses_UpdatedAt = zero_time\<rparr>
                       else session0)
                 in Pg_write p 7 6 ''agent_session'' sessionKey (enc (c_session p) (bump_session now req session))
                      ''agent.session_updated'' ''trace-proxy'' [] (\<lambda>err. Return (trace, err)))))"

end
