(* ===== verification/Postgres_Contracts.thy ===== *)
theory Postgres_Contracts
  imports Postgres
begin

text \<open>
  What every database access of every method of the PostgreSQL repository respects, whatever
  runs concurrently. A contract is a relation between the database before and after one
  access. The locale \<open>write_contract\<close> covers the methods whose only change is \<open>write\<close>,
  \<open>access_contract\<close> adds the deletions and the token bookkeeping; a contract has to be
  checked for the transactions only and then holds of all methods. Interpretations:
  transactions are all-or-nothing with their audit trail, rows of other tenants are
  untouched, and the tables keep their keys while the logs only grow.
\<close>

subsection \<open>Accesses of a program\<close>

primrec every :: "(db \<Rightarrow> db \<Rightarrow> bool) \<Rightarrow> 'a prog \<Rightarrow> bool" where
  "every P (Return x) = True"
| "every P (Atomic f) = (\<forall>d. P d (fst (f d)) \<and> snd (map_prod id (every P) (f d)))"

lemma every_Atomic [simp]: "every P (Atomic f) \<longleftrightarrow> (\<forall>d. P d (fst (f d)) \<and> every P (snd (f d)))"
  by simp

declare every.simps(2) [simp del]

lemma every_mono: "every P q \<Longrightarrow> (\<And>d d'. P d d' \<Longrightarrow> Q d d') \<Longrightarrow> every Q q"
  by (induction q) (auto, metis prod.collapse range_eqI snds.intros)

lemma every_step:
  assumes "prog_step (d, ps) (d', ps')" and "\<And>q. q \<in> set ps \<Longrightarrow> every P q"
  shows "P d d'" and "\<And>q. q \<in> set ps' \<Longrightarrow> every P q"
proof -
  from assms(1) obtain i f q where i: "i < length ps" "ps ! i = Atomic f" "f d = (d', q)" "ps' = ps[i := q]"
    by (cases rule: prog_step.cases) auto
  then have "every P (Atomic f)" using assms(2) nth_mem by metis
  then have q: "P d d'" "every P q" using i(3) by (metis every_Atomic fst_conv snd_conv)+
  then show "P d d'" by simp
  fix q' assume "q' \<in> set ps'"
  then have "q' = q \<or> q' \<in> set ps" using set_update_subset_insert [of ps i q] i(4) by auto
  then show "every P q'" using q assms(2) by auto
qed

lemma every_steps:
  assumes "prog_step\<^sup>*\<^sup>* s t" and "\<And>q. q \<in> set (snd s) \<Longrightarrow> every P q"
    and "\<And>d. P d d" and "\<And>d d' d''. P d d' \<Longrightarrow> P d' d'' \<Longrightarrow> P d d''"
  shows "P (fst s) (fst t)"
proof -
  from assms(1) have "P (fst s) (fst t) \<and> (\<forall>q \<in> set (snd t). every P q)"
  proof (induction rule: rtranclp_induct)
    case base
    then show ?case using assms(2,3) by simp
  next
    case (step t u)
    then have "prog_step (fst t, snd t) (fst u, snd u)" "\<And>q. q \<in> set (snd t) \<Longrightarrow> every P q" by auto
    note every_step [OF this]
    with step.IH assms(4) show ?case by blast
  qed
  then show ?thesis by simp
qed

subsection \<open>Contracts\<close>

locale write_contract =
  fixes p :: pgenv and P :: "db \<Rightarrow> db \<Rightarrow> bool"
  assumes keeps: "P d d"
    and writes: "P d (fst (transaction p k (k + 5) (write_body p k t kind i encoded action actor metadata) d))"
begin

lemma list_ok: "(\<And>vs. every P (cont vs)) \<Longrightarrow> every P (Pg_list p k c kind cont)"
  by (simp add: Pg_list_def keeps)

lemma get_ok: "(\<And>v err. every P (cont (v, err))) \<Longrightarrow> every P (Pg_get p k c kind i cont)"
  by (simp add: Pg_get_def keeps) (metis prod.collapse)

lemma exists_ok: "(\<And>b. every P (cont b)) \<Longrightarrow> every P (Pg_exists p k kind i cont)"
  by (simp add: Pg_exists_def keeps)

lemma write_ok: "(\<And>err. every P (cont err)) \<Longrightarrow> every P (Pg_write p k t kind i encoded action actor metadata cont)"
  using writes by (simp add: Pg_write_def split_beta)

lemma put_ok: "every P (Pg_put p k t c kind i v action actor metadata)"
  by (simp add: Pg_put_def write_ok)

lemmas accesses = list_ok get_ok exists_ok write_ok put_ok

text \<open>The readers and the methods that change the database with \<open>write\<close> only.\<close>

lemma readers:
  "every P (Pg_Projects p)" "every P (Pg_Runs p)" "every P (Pg_PipelineDefinitions p)" "every P (Pg_Functions p)"
  "every P (Pg_Models p)" "every P (Pg_Agents p)" "every P (Pg_Tools p)" "every P (Pg_Connections p)"
  "every P (Pg_UserAccess p)" "every P (Pg_AccessRequests p)" "every P (Pg_AccessRequestsFor p sub)"
  "every P (Pg_APITokensFor p sub)" "every P (Pg_BlogPosts p)" "every P (Pg_FeatureViews p)"
  "every P (Pg_AgentSessions p a)" "every P (Pg_AgentTraces p a)" "every P (Pg_Run p i)" "every P (Pg_Project p i)"
  "every P (Pg_PipelineDefinition p i)" "every P (Pg_AccessFor p sub)" "every P (Pg_Audit p)"
  by (simp_all add: Pg_Projects_def Pg_Runs_def Pg_PipelineDefinitions_def Pg_Functions_def Pg_Models_def
      Pg_Agents_def Pg_Tools_def Pg_Connections_def Pg_UserAccess_def Pg_AccessRequests_def Pg_AccessRequestsFor_def
      Pg_APITokensFor_def Pg_BlogPosts_def Pg_FeatureViews_def Pg_AgentSessions_def Pg_AgentTraces_def Pg_Run_def
      Pg_Project_def Pg_PipelineDefinition_def Pg_AccessFor_def Pg_Audit_def accesses keeps)

lemma BlogPost_k_ok: "(\<And>r. every P (cont r)) \<Longrightarrow> every P (Pg_BlogPost_k p k i cont)"
  by (simp add: Pg_BlogPost_k_def accesses split: option.splits)

lemma blog_writers: "every P (Pg_BlogPost p i)" "every P (Pg_UpsertBlogPost p i breq actor)"
  by (simp_all add: Pg_BlogPost_def Pg_UpsertBlogPost_def BlogPost_k_ok accesses Let_def split_beta)

lemma token_writers: "every P (Pg_CreateAPIToken p sub treq)" "every P (Pg_RevokeAPIToken p sub i)"
  by (simp_all add: Pg_CreateAPIToken_def Pg_RevokeAPIToken_def accesses Let_def split_beta split: sum.splits)

lemma access_writers:
  "every P (Pg_CreateAccessRequest p sub email creq)" "every P (Pg_ReviewAccessRequest p i rreq actor)"
  "every P (Pg_UpsertUserAccess p sub ureq actor)"
  by (simp_all add: Pg_CreateAccessRequest_def Pg_ReviewAccessRequest_def Pg_UpsertUserAccess_def accesses Let_def split_beta)

lemma update_definition_ok: "every P (Pg_update_definition p k t i req actor)"
  by (simp add: Pg_update_definition_def accesses Let_def)

lemma project_writers:
  "every P (Pg_CreateProject p preq actors)" "every P (Pg_SetProjectRepository p i greq actor)"
  "every P (Pg_UpsertPipelineDefinition p i dreq actor)" "every P (Pg_UpsertFunction p freq owner actor)"
  by (simp_all add: Pg_CreateProject_def Pg_SetProjectRepository_def Pg_UpsertPipelineDefinition_def
      Pg_UpsertFunction_def update_definition_ok accesses Let_def split_beta split: option.splits)

lemma run_writers:
  "every P (Pg_SubmitPipeline p sreq actors)" "every P (Pg_CancelRun p i actor)" "every P (Pg_RetryRun p i actor)"
  "every P (Pg_SetRunEngine p i g)" "every P (Pg_UpdateRunStep p i usreq actor)"
  by (simp_all add: Pg_SubmitPipeline_def Pg_CancelRun_def Pg_RetryRun_def Pg_SetRunEngine_def Pg_UpdateRunStep_def
      accesses Let_def)

lemma model_writers:
  "every P (Pg_RegisterModel p mreq actor)" "every P (Pg_PromoteModel p i stage actor)"
  "every P (Pg_DeployModel p i weight actor)" "every P (Pg_SetModelEndpoint p i endpoint status)"
  "every P (Pg_RollbackModel p i actor)"
  by (simp_all add: Pg_RegisterModel_def Pg_PromoteModel_def Pg_DeployModel_def Pg_SetModelEndpoint_def
      Pg_RollbackModel_def accesses Let_def)

lemma registry_writers:
  "every P (Pg_DeployAgent p areq actor)" "every P (Pg_SetAgentTraffic p i weight actor)"
  "every P (Pg_RegisterTool p toolreq actor)" "every P (Pg_ApplyFeatureView p vreq actor)"
  "every P (Pg_ReportMaterialization p name n actor)" "every P (Pg_CreateConnection p cnreq actor)"
  "every P (Pg_UpdateConnectionStatus p i status message actor)" "every P (Pg_RecordTrace p rec)"
  by (simp_all add: Pg_DeployAgent_def Pg_SetAgentTraffic_def Pg_RegisterTool_def Pg_ApplyFeatureView_def
      Pg_ReportMaterialization_def Pg_CreateConnection_def Pg_UpdateConnectionStatus_def Pg_RecordTrace_def
      accesses Let_def split: option.splits)

lemmas writers = readers blog_writers token_writers access_writers project_writers run_writers model_writers registry_writers

end

text \<open>The remaining changes: deletions and the last use of a token.\<close>

locale access_contract = write_contract +
  assumes deletes: "P d (delete_resource p kind i d)"
    and appends: "insert_audit p event d = Inl d' \<Longrightarrow> P d d'"
    and deletes_access: "P d (fst (transaction p 0 4 (delete_access_body p sub actor resource) d))"
    and touches: "P d (update_payload p kind i payload d)"
begin

lemma delete_ok: "every P (Pg_delete p k t kind i on_error action actor)"
proof -
  have "P d (fst (case statement p (k + 1) (insert_audit p event) (Inl d) of
      Inl d' \<Rightarrow> (d', Return None) | Inr err \<Rightarrow> (d, Return (Some err))))" for d event
    by (auto simp: statement_def keeps appends split: option.splits sum.splits)
  moreover have "every P (snd (case x of Inl d' \<Rightarrow> (d', Return None) | Inr err \<Rightarrow> (d, Return (Some err))))" for x d
    by (cases x) simp_all
  ultimately show ?thesis
    by (auto simp: Pg_delete_def keeps deletes split: option.splits)
qed

lemma deleters:
  "every P (Pg_DeleteBlogPost p i actor)" "every P (Pg_DeleteFunction p i actor)"
  "every P (Pg_DeleteUserAccess p sub actor resource)" "every P (Pg_ResolveAPIToken p secret)"
  by (simp_all add: Pg_DeleteBlogPost_def Pg_DeleteFunction_def Pg_DeleteUserAccess_def Pg_ResolveAPIToken_def
      BlogPost_k_ok delete_ok deletes_access touches keeps accesses Let_def split_beta split: option.splits)

end

subsection \<open>A transaction happens completely or not at all\<close>

text \<open>
  The complete change: one resource row, its audit event, and in the outbox that event
  followed by the command for the topic of the action, if there is one.
\<close>

definition audited_change :: "pgenv \<Rightarrow> db \<Rightarrow> db \<Rightarrow> bool" where
  "audited_change p d d' \<longleftrightarrow> (\<exists>kind i payload event rows.
     d' = (upsert_resource p kind i payload d)\<lparr>
            db_audit := \<lparr>ad_tenant = pg_tenant p, ad_event = event\<rparr> # db_audit d,
            db_outbox := db_outbox d @ rows, db_next := db_next d + int (length rows)\<rparr> \<and>
     evt_Resource event = kind \<and> evt_ResourceID event = i \<and>
     map ob_topic rows = ''mlaiops.audit.operations'' #
       (if topicForAction (evt_Action event) = [] then [] else [topicForAction (evt_Action event)]) \<and>
     enc_event p event = Some (ob_payload (hd rows)) \<and>
     (\<forall>r \<in> set rows. ob_tenant r = pg_tenant p \<and> ob_key r = i \<and> ob_published r = None))"

definition all_or_nothing :: "pgenv \<Rightarrow> db \<Rightarrow> db \<Rightarrow> bool" where
  "all_or_nothing p d d' \<longleftrightarrow> d' = d \<or> audited_change p d d'"

lemma upsert_resource_frame [simp]:
  "db_audit (upsert_resource p kind i payload d) = db_audit d" "db_outbox (upsert_resource p kind i payload d) = db_outbox d"
  "db_next (upsert_resource p kind i payload d) = db_next d"
  by (simp_all add: upsert_resource_def)

lemma statement_Inl: "statement p k f r = Inl d' \<longleftrightarrow> (\<exists>d. r = Inl d \<and> pg_err p k = None \<and> f d = Inl d')"
  by (auto simp: statement_def split: sum.splits option.splits)

text \<open>The body of \<open>write\<close>, when all its statements succeed.\<close>

lemma write_body_Inl:
  assumes "write_body p k t kind i encoded action actor metadata d = Inl d'"
  shows "\<exists>payload d1 d2. encoded = Some payload \<and>
    insert_audit p (pg_event p t action kind i actor metadata) (upsert_resource p kind i payload d) = Inl d1 \<and>
    insert_outbox p (new_id ''out'' (pclk p (t + 2))) ''mlaiops.audit.operations'' i
      (enc_event p (pg_event p t action kind i actor metadata)) d1 = Inl d2 \<and>
    (if topicForAction action = [] then d' = d2
     else \<exists>raw. insert_outbox p (new_id ''out'' (pclk p (t + 3))) (topicForAction action) i (Some raw) d2 = Inl d')"
  using assms
  by (auto simp: write_body_def Let_def statement_Inl split: option.splits if_splits sum.splits)

lemma write_body_audited:
  assumes "write_body p k t kind i encoded action actor metadata d = Inl d'"
  shows "audited_change p d d'"
proof -
  let ?event = "pg_event p t action kind i actor metadata"
  from write_body_Inl [OF assms] obtain payload d1 d2 where
    d1: "insert_audit p ?event (upsert_resource p kind i payload d) = Inl d1"
    and d2: "insert_outbox p (new_id ''out'' (pclk p (t + 2))) ''mlaiops.audit.operations'' i (enc_event p ?event) d1 = Inl d2"
    and d': "if topicForAction action = [] then d' = d2
      else \<exists>raw. insert_outbox p (new_id ''out'' (pclk p (t + 3))) (topicForAction action) i (Some raw) d2 = Inl d'"
    by blast
  obtain raw where raw: "enc_event p ?event = Some raw" using d2 by (auto simp: insert_outbox_def split: option.splits)
  define row where "row j topic raw n = \<lparr>ob_sequence = n, ob_tenant = pg_tenant p, ob_id = j, ob_topic = topic, ob_key = i,
    ob_payload = raw, ob_published = None, ob_attempts = 0, ob_error = None\<rparr>" for j topic raw n
  have d1_eq: "d1 = (upsert_resource p kind i payload d)\<lparr>db_audit := \<lparr>ad_tenant = pg_tenant p, ad_event = ?event\<rparr> # db_audit d\<rparr>"
    using d1 by (simp add: insert_audit_def split: if_splits)
  have d2_eq: "d2 = d1\<lparr>db_outbox := db_outbox d @ [row (new_id ''out'' (pclk p (t + 2))) ''mlaiops.audit.operations'' raw (db_next d)],
      db_next := db_next d + 1\<rparr>"
    using d2 raw by (simp add: insert_outbox_def row_def d1_eq split: if_splits)
  have ev: "evt_Resource ?event = kind" "evt_ResourceID ?event = i" "evt_Action ?event = action"
    by (simp_all add: pg_event_def)
  show ?thesis
  proof (cases "topicForAction action = []")
    case True
    with d' d1_eq d2_eq raw ev show ?thesis
      unfolding audited_change_def
      by (intro exI [of _ kind] exI [of _ i] exI [of _ payload] exI [of _ ?event]
          exI [of _ "[row (new_id ''out'' (pclk p (t + 2))) ''mlaiops.audit.operations'' raw (db_next d)]"]) (simp add: row_def)
  next
    case False
    with d' obtain raw' where "insert_outbox p (new_id ''out'' (pclk p (t + 3))) (topicForAction action) i (Some raw') d2 = Inl d'"
      by auto
    then have "d' = d2\<lparr>db_outbox := db_outbox d2 @ [row (new_id ''out'' (pclk p (t + 3))) (topicForAction action) raw' (db_next d + 1)],
        db_next := 2 + db_next d\<rparr>"
      by (auto simp: insert_outbox_def row_def d2_eq split: if_splits)
    with False d1_eq d2_eq raw ev show ?thesis
      unfolding audited_change_def
      by (intro exI [of _ kind] exI [of _ i] exI [of _ payload] exI [of _ ?event]
          exI [of _ "[row (new_id ''out'' (pclk p (t + 2))) ''mlaiops.audit.operations'' raw (db_next d),
            row (new_id ''out'' (pclk p (t + 3))) (topicForAction action) raw' (db_next d + 1)]"]) (simp add: row_def add.commute)
  qed
qed

lemma transaction_cases:
  "fst (transaction p k k' body d) = d \<or> (\<exists>d'. body d = Inl d' \<and> fst (transaction p k k' body d) = d')"
  by (auto simp: transaction_def split: option.splits sum.splits)

lemma transaction_ok:
  "transaction p k k' body d = (d', None) \<longleftrightarrow> pg_err p k = None \<and> body d = Inl d' \<and> pg_err p k' = None"
  by (auto simp: transaction_def split: option.splits sum.splits)

interpretation audited: write_contract p "all_or_nothing p" for p
proof
  show "all_or_nothing p d d" for d by (simp add: all_or_nothing_def)
  show "all_or_nothing p d (fst (transaction p k (k + 5) (write_body p k t kind i encoded action actor metadata) d))"
    for d k t kind i encoded action actor metadata
    using transaction_cases [of p k "k + 5" "write_body p k t kind i encoded action actor metadata" d]
    by (auto simp: all_or_nothing_def dest: write_body_audited)
qed

subsection \<open>Contracts from the statements\<close>

text \<open>The body of \<open>DeleteUserAccess\<close>, when all its statements succeed.\<close>

lemma delete_access_Inl:
  assumes "delete_access_body p sub actor resource d = Inl d'"
  shows "\<exists>d1 j raw.
    insert_audit p (pg_event p 0 ''access.deleted'' ''user_access'' sub actor []) (delete_resource p ''user_access'' sub d) = Inl d1 \<and>
    insert_outbox p j ''mlaiops.workspace.commands'' sub raw d1 = Inl d'"
  using assms by (auto simp: delete_access_body_def Let_def statement_Inl split: if_splits)

text \<open>A reflexive and transitive relation need only be checked for the single statements.\<close>

locale statement_contract =
  fixes p :: pgenv and P :: "db \<Rightarrow> db \<Rightarrow> bool"
  assumes refl: "P d d" and trans: "P d d' \<Longrightarrow> P d' d'' \<Longrightarrow> P d d''"
    and upserts: "P d (upsert_resource p kind i payload d)"
    and deletes_row: "P d (delete_resource p kind i d)"
    and audits: "insert_audit p event d = Inl d' \<Longrightarrow> P d d'"
    and sends: "insert_outbox p j topic key raw d = Inl d' \<Longrightarrow> P d d'"
    and touches_row: "P d (update_payload p kind i payload d)"
begin

lemma write_body_keeps:
  assumes "write_body p k t kind i encoded action actor metadata d = Inl d'"
  shows "P d d'"
proof -
  let ?event = "pg_event p t action kind i actor metadata"
  from write_body_Inl [OF assms] obtain payload d1 d2 where
    d1: "insert_audit p ?event (upsert_resource p kind i payload d) = Inl d1"
    and d2: "insert_outbox p (new_id ''out'' (pclk p (t + 2))) ''mlaiops.audit.operations'' i (enc_event p ?event) d1 = Inl d2"
    and d': "if topicForAction action = [] then d' = d2
      else \<exists>raw. insert_outbox p (new_id ''out'' (pclk p (t + 3))) (topicForAction action) i (Some raw) d2 = Inl d'"
    by blast
  have "P d d2" using trans [OF trans [OF upserts audits [OF d1]] sends [OF d2]] .
  moreover have "P d2 d'" using d' sends refl by (auto split: if_splits)
  ultimately show ?thesis by (rule trans)
qed

lemma delete_access_keeps: "delete_access_body p sub actor resource d = Inl d' \<Longrightarrow> P d d'"
  using delete_access_Inl trans [OF trans [OF deletes_row audits] sends] by blast

end

sublocale statement_contract \<subseteq> access_contract p P
proof
  show "P d (fst (transaction p k (k + 5) (write_body p k t kind i encoded action actor metadata) d))"
    for d k t kind i encoded action actor metadata
    using transaction_cases [of p k "k + 5" "write_body p k t kind i encoded action actor metadata" d]
      write_body_keeps refl by metis
  show "P d (fst (transaction p 0 4 (delete_access_body p sub actor resource) d))" for d sub actor resource
    using transaction_cases [of p 0 4 "delete_access_body p sub actor resource" d] delete_access_keeps refl by metis
qed (auto intro: refl deletes_row audits touches_row)

subsection \<open>Tenants\<close>

definition other_tenants :: "pgenv \<Rightarrow> db \<Rightarrow> db \<Rightarrow> bool" where
  "other_tenants p d d' \<longleftrightarrow>
     filter (\<lambda>r. rr_tenant r \<noteq> pg_tenant p) (db_resources d') = filter (\<lambda>r. rr_tenant r \<noteq> pg_tenant p) (db_resources d) \<and>
     filter (\<lambda>r. ad_tenant r \<noteq> pg_tenant p) (db_audit d') = filter (\<lambda>r. ad_tenant r \<noteq> pg_tenant p) (db_audit d) \<and>
     filter (\<lambda>r. ob_tenant r \<noteq> pg_tenant p) (db_outbox d') = filter (\<lambda>r. ob_tenant r \<noteq> pg_tenant p) (db_outbox d)"

lemma filter_update_first_out:
  "(\<And>x. P x \<Longrightarrow> \<not> Q x \<and> \<not> Q (f x)) \<Longrightarrow> filter Q (update_first P f xs) = filter Q xs"
  by (induction xs) auto

lemma other_rows_updated:
  "filter (\<lambda>r. rr_tenant r \<noteq> pg_tenant p)
     (update_first (\<lambda>r. rr_tenant r = pg_tenant p \<and> rr_kind r = kind \<and> rr_id r = i)
       (\<lambda>r. r\<lparr>rr_payload := payload, rr_updated := pg_now p\<rparr>) xs) = filter (\<lambda>r. rr_tenant r \<noteq> pg_tenant p) xs"
  by (rule filter_update_first_out) simp

interpretation tenants: statement_contract p "other_tenants p" for p
proof
  show "other_tenants p d (delete_resource p kind i d)" for d kind i
    by (auto simp: other_tenants_def delete_resource_def intro: filter_cong)
qed (auto simp: other_tenants_def upsert_resource_def update_payload_def insert_audit_def insert_outbox_def other_rows_updated
    split: option.splits if_splits)

subsection \<open>Keys and logs\<close>

definition db_ok :: "db \<Rightarrow> bool" where
  "db_ok d \<longleftrightarrow> distinct (map (\<lambda>r. (rr_tenant r, rr_kind r, rr_id r)) (db_resources d)) \<and>
     distinct (map (\<lambda>r. evt_ID (ad_event r)) (db_audit d)) \<and> distinct (map ob_id (db_outbox d)) \<and>
     sorted_wrt (<) (map ob_sequence (db_outbox d)) \<and> (\<forall>r \<in> set (db_outbox d). ob_sequence r < db_next d)"

definition logs_grow :: "db \<Rightarrow> db \<Rightarrow> bool" where
  "logs_grow d d' \<longleftrightarrow> (db_ok d \<longrightarrow> db_ok d') \<and> suffix (db_audit d) (db_audit d') \<and> prefix (db_outbox d) (db_outbox d')"

lemma map_update_first_key: "(\<And>x. k (f x) = k x) \<Longrightarrow> map k (update_first P f xs) = map k xs"
  by (induction xs) auto

lemma logs_grow_upsert: "logs_grow d (upsert_resource p kind i payload d)"
proof -
  have "\<forall>r \<in> set (db_resources d). (rr_tenant r, rr_kind r, rr_id r) \<noteq> (pg_tenant p, kind, i)" if "row_of p kind i d = None"
    using that by (auto simp: row_of_def dest: find_NoneD)
  then show ?thesis
    by (force simp: logs_grow_def db_ok_def upsert_resource_def map_update_first_key split: option.splits)
qed

lemma logs_grow_inserts:
  "insert_audit p event d = Inl d' \<Longrightarrow> logs_grow d d'"
  "insert_outbox p j topic key payload d = Inl d' \<Longrightarrow> logs_grow d d'"
  by (force simp: logs_grow_def db_ok_def insert_audit_def insert_outbox_def list_ex_iff suffix_ConsI sorted_wrt_append
      split: if_splits option.splits)+

interpretation logs: statement_contract p logs_grow for p
proof
  show "logs_grow d d" for d by (simp add: logs_grow_def)
  show "logs_grow d d' \<Longrightarrow> logs_grow d' d'' \<Longrightarrow> logs_grow d d''" for d d' d''
    by (auto simp: logs_grow_def intro: suffix_order.trans prefix_order.trans)
  show "logs_grow d (delete_resource p kind i d)" for d kind i
    by (simp add: logs_grow_def db_ok_def delete_resource_def distinct_map_filter)
  show "logs_grow d (update_payload p kind i payload d)" for d kind i payload
    by (simp add: logs_grow_def db_ok_def update_payload_def map_update_first_key)
qed (rule logs_grow_upsert logs_grow_inserts; assumption?)+

subsection \<open>All methods\<close>

text \<open>The methods of the repository, started; their results are forgotten.\<close>

abbreviation started :: "'a prog \<Rightarrow> unit prog" where
  "started q \<equiv> map_prog (\<lambda>_. ()) q"

lemma every_map: "every P (map_prog f q) \<longleftrightarrow> every P q"
  by (induction q) (simp_all add: every.simps(2), metis prod.collapse prod_set_simps(2) rangeI singletonI)

inductive pg_writer :: "pgenv \<Rightarrow> unit prog \<Rightarrow> bool" for p where
  "pg_writer p (started (Pg_UpsertBlogPost p i ubr actor))"
| "pg_writer p (started (Pg_CreateAPIToken p sub ctr))"
| "pg_writer p (started (Pg_RevokeAPIToken p sub i))"
| "pg_writer p (started (Pg_CreateAccessRequest p sub email car))"
| "pg_writer p (started (Pg_ReviewAccessRequest p i rar reviewer))"
| "pg_writer p (started (Pg_UpsertUserAccess p sub uar actor))"
| "pg_writer p (started (Pg_CreateProject p cpr actors))"
| "pg_writer p (started (Pg_SetProjectRepository p i spr actor))"
| "pg_writer p (started (Pg_UpsertPipelineDefinition p i upd actor))"
| "pg_writer p (started (Pg_UpsertFunction p dfr owner actor))"
| "pg_writer p (started (Pg_SubmitPipeline p sreq actors))"
| "pg_writer p (started (Pg_CancelRun p i actor))"
| "pg_writer p (started (Pg_RetryRun p i actor))"
| "pg_writer p (started (Pg_SetRunEngine p i g))"
| "pg_writer p (started (Pg_UpdateRunStep p i usr actor))"
| "pg_writer p (started (Pg_RegisterModel p rmr actor))"
| "pg_writer p (started (Pg_PromoteModel p i stage actor))"
| "pg_writer p (started (Pg_DeployModel p i weight actor))"
| "pg_writer p (started (Pg_SetModelEndpoint p i ep status))"
| "pg_writer p (started (Pg_RollbackModel p i actor))"
| "pg_writer p (started (Pg_DeployAgent p dar actor))"
| "pg_writer p (started (Pg_SetAgentTraffic p i weight actor))"
| "pg_writer p (started (Pg_RegisterTool p rtr actor))"
| "pg_writer p (started (Pg_ApplyFeatureView p afv actor))"
| "pg_writer p (started (Pg_ReportMaterialization p name n actor))"
| "pg_writer p (started (Pg_CreateConnection p ccr actor))"
| "pg_writer p (started (Pg_UpdateConnectionStatus p i status message actor))"
| "pg_writer p (started (Pg_RecordTrace p trec))"

inductive pg_method :: "pgenv \<Rightarrow> unit prog \<Rightarrow> bool" for p where
  writer: "pg_writer p q \<Longrightarrow> pg_method p q"
| delete_post: "pg_method p (started (Pg_DeleteBlogPost p i actor))"
| delete_function: "pg_method p (started (Pg_DeleteFunction p name actor))"
| delete_access: "pg_method p (started (Pg_DeleteUserAccess p sub actor resource))"
| resolve: "pg_method p (started (Pg_ResolveAPIToken p secret))"

lemma pg_writer_audited: "pg_writer p q \<Longrightarrow> every (all_or_nothing p) q"
  by (induction rule: pg_writer.induct) (simp_all add: every_map audited.writers)

lemma pg_method_tenants: "pg_method p q \<Longrightarrow> every (other_tenants p) q"
proof (induction rule: pg_method.induct)
  case (writer q)
  then show ?case by (induction rule: pg_writer.induct) (simp_all add: every_map tenants.writers)
qed (simp_all add: every_map tenants.deleters)

lemma pg_method_logs: "pg_method p q \<Longrightarrow> every logs_grow q"
proof (induction rule: pg_method.induct)
  case (writer q)
  then show ?case by (induction rule: pg_writer.induct) (simp_all add: every_map logs.writers)
qed (simp_all add: every_map logs.deleters)

lemma every_steps_keep:
  assumes "prog_step\<^sup>*\<^sup>* s t" and "\<And>q. q \<in> set (snd s) \<Longrightarrow> every P q" and "q \<in> set (snd t)"
  shows "every P q"
  using assms
proof (induction arbitrary: q rule: rtranclp_induct)
  case (step t u)
  then have "prog_step (fst t, snd t) (fst u, snd u)" by simp
  from every_step(2) [OF this, of P] step show ?case by blast
qed simp

end
