(* ===== verification/Outbox.thy ===== *)
theory Outbox
  imports Postgres_Contracts
begin

text \<open>
  The transactional outbox: \<open>PendingOutbox\<close>, \<open>MarkPublished\<close> and \<open>MarkFailed\<close> of
  \<^verbatim>\<open>go/internal/store/postgres.go\<close> and \<open>OutboxWorker.Flush\<close> of \<^verbatim>\<open>outbox.go\<close>.

  The publisher is the parameter \<open>publish\<close>: the outcome of the \<open>n\<close>-th publication of the
  flush. A flush is a program whose result is the list of messages the publisher accepted and
  the error it returns. The ticker of \<open>Run\<close> only decides when flushes happen;
  \<open>flushes\<close> is a sequence of them.
\<close>

record outbox_worker =
  ow_publish :: "nat \<Rightarrow> string \<Rightarrow> gany \<Rightarrow> error option"
  ow_decode :: "string \<Rightarrow> gany option"
  ow_error_text :: "error \<Rightarrow> string"

definition NewOutboxWorker_interval :: "int \<Rightarrow> int" where
  "NewOutboxWorker_interval interval = (if interval \<le> 0 then 1000000000 else interval)"

definition pending :: "string \<Rightarrow> db \<Rightarrow> outbox_row list" where
  "pending tenant d = filter (\<lambda>r. ob_tenant r = tenant \<and> ob_published r = None) (db_outbox d)"

definition PendingOutbox :: "pgenv \<Rightarrow> nat \<Rightarrow> db \<Rightarrow> outbox_row list" where
  "PendingOutbox p limit d = take limit (pending (pg_tenant p) d)"

definition update_outbox :: "pgenv \<Rightarrow> int \<Rightarrow> (outbox_row \<Rightarrow> outbox_row) \<Rightarrow> db \<Rightarrow> db" where
  "update_outbox p sequence f d = d\<lparr>db_outbox :=
     map (\<lambda>r. if ob_tenant r = pg_tenant p \<and> ob_sequence r = sequence then f r else r) (db_outbox d)\<rparr>"

definition MarkPublished :: "pgenv \<Rightarrow> int \<Rightarrow> db \<Rightarrow> db" where
  "MarkPublished p sequence = update_outbox p sequence
     (\<lambda>r. r\<lparr>ob_published := Some (pg_now p), ob_attempts := ob_attempts r + 1, ob_error := None\<rparr>)"

definition MarkFailed :: "pgenv \<Rightarrow> int \<Rightarrow> string \<Rightarrow> db \<Rightarrow> db" where
  "MarkFailed p sequence message = update_outbox p sequence
     (\<lambda>r. r\<lparr>ob_attempts := ob_attempts r + 1, ob_error := Some message\<rparr>)"

text \<open>The loop of \<open>Flush\<close>: \<open>k\<close> counts the database calls, \<open>n\<close> the publications.\<close>

fun flush_loop ::
  "pgenv \<Rightarrow> outbox_worker \<Rightarrow> nat \<Rightarrow> nat \<Rightarrow> outbox_row list \<Rightarrow> outbox_row list \<Rightarrow> (outbox_row list \<times> error option) prog" where
  "flush_loop p w k n [] sent = Return (sent, None)"
| "flush_loop p w k n (event # events) sent =
     (case ow_decode w (ob_payload event) of
        None \<Rightarrow> Atomic (\<lambda>d.
          (if pg_err p k = None then MarkFailed p (ob_sequence event) (ow_error_text w ErrJSON) d else d,
           flush_loop p w (k + 1) n events sent))
      | Some payload \<Rightarrow>
         (case ow_publish w n (ob_topic event) payload of
            Some err \<Rightarrow> Atomic (\<lambda>d.
              (if pg_err p k = None then MarkFailed p (ob_sequence event) (ow_error_text w err) d else d,
               flush_loop p w (k + 1) (n + 1) events sent))
          | None \<Rightarrow> Atomic (\<lambda>d.
              (case pg_err p k of
                 Some err \<Rightarrow> (d, Return (sent @ [event], Some err))
               | None \<Rightarrow> (MarkPublished p (ob_sequence event) d,
                   flush_loop p w (k + 1) (n + 1) events (sent @ [event]))))))"

definition Flush :: "pgenv \<Rightarrow> outbox_worker \<Rightarrow> (outbox_row list \<times> error option) prog" where
  "Flush p w = Atomic (\<lambda>d. (d, case pg_err p 0 of
     Some err \<Rightarrow> Return ([], Some err) | None \<Rightarrow> flush_loop p w 1 0 (PendingOutbox p 100 d) []))"

fun flushes :: "(pgenv \<times> outbox_worker) list \<Rightarrow> db \<Rightarrow> db \<times> outbox_row list" where
  "flushes [] d = (d, [])"
| "flushes ((p, w) # runs) d =
     (let (d1, (sent, _)) = run_prog (Flush p w) d; (d2, more) = flushes runs d1 in (d2, sent @ more))"

subsection \<open>What a flush does to the table\<close>

text \<open>A mark changes one row, and only its delivery columns.\<close>

definition same_message :: "outbox_row \<Rightarrow> outbox_row \<Rightarrow> bool" where
  "same_message r r' \<longleftrightarrow> ob_sequence r' = ob_sequence r \<and> ob_tenant r' = ob_tenant r \<and> ob_id r' = ob_id r \<and>
     ob_topic r' = ob_topic r \<and> ob_key r' = ob_key r \<and> ob_payload r' = ob_payload r \<and>
     (ob_published r \<noteq> None \<longrightarrow> ob_published r' \<noteq> None)"

definition marked :: "db \<Rightarrow> db \<Rightarrow> bool" where
  "marked d d' \<longleftrightarrow> db_resources d' = db_resources d \<and> db_audit d' = db_audit d \<and> db_next d' = db_next d \<and>
     list_all2 same_message (db_outbox d) (db_outbox d')"

lemma marked_refl [simp]: "marked d d"
  by (simp add: marked_def same_message_def list.rel_refl)

lemma same_message_trans: "same_message r r' \<Longrightarrow> same_message r' r'' \<Longrightarrow> same_message r r''"
  by (auto simp: same_message_def)

lemma marked_trans: "marked d d' \<Longrightarrow> marked d' d'' \<Longrightarrow> marked d d''"
  by (auto simp: marked_def intro: list_all2_trans [OF same_message_trans])

lemma marked_marks: "marked d (MarkPublished p n d)" "marked d (MarkFailed p n m d)"
  by (auto simp: marked_def MarkPublished_def MarkFailed_def update_outbox_def same_message_def list_all2_map2 list.rel_refl)

lemma flush_loop_marked: "marked d (fst (run_prog (flush_loop p w k n events sent) d))"
proof (induction events arbitrary: k n sent d)
  case (Cons event events)
  note marks = marked_trans [OF marked_marks(1) Cons.IH] marked_trans [OF marked_marks(2) Cons.IH]
  show ?case by (auto simp: Cons.IH marks split: option.splits)
qed simp

lemma Flush_marked: "marked d (fst (run_prog (Flush p w) d))"
  by (simp add: Flush_def flush_loop_marked split: option.splits)

lemma list_all2_map_eq: "list_all2 R xs ys \<Longrightarrow> (\<And>x y. R x y \<Longrightarrow> f y = f x) \<Longrightarrow> map f ys = map f xs"
  by (induction rule: list_all2_induct) auto

lemma marked_ok: "marked d d' \<Longrightarrow> db_ok d \<Longrightarrow> db_ok d'"
proof -
  assume m: "marked d d'" and ok: "db_ok d"
  from m have all: "list_all2 same_message (db_outbox d) (db_outbox d')" by (simp add: marked_def)
  then have "map ob_id (db_outbox d') = map ob_id (db_outbox d)" "map ob_sequence (db_outbox d') = map ob_sequence (db_outbox d)"
    by (rule list_all2_map_eq, simp add: same_message_def)+
  moreover from this(2) have "ob_sequence ` set (db_outbox d') = ob_sequence ` set (db_outbox d)" by (metis set_map)
  then have "\<forall>r \<in> set (db_outbox d'). ob_sequence r < n" if "\<forall>r \<in> set (db_outbox d). ob_sequence r < n" for n
    using that by (metis imageE imageI)
  ultimately show ?thesis using ok m by (simp add: db_ok_def marked_def)
qed

text \<open>The effect of the marks on what is pending.\<close>

lemma pending_published:
  "pending (pg_tenant p) (MarkPublished p n d) = filter (\<lambda>r. ob_sequence r \<noteq> n) (pending (pg_tenant p) d)"
proof -
  have "filter (\<lambda>r. ob_tenant r = t \<and> ob_published r = None)
      (map (\<lambda>r. if ob_tenant r = t \<and> ob_sequence r = n
         then r\<lparr>ob_published := Some u, ob_attempts := ob_attempts r + 1, ob_error := None\<rparr> else r) rows) =
    filter (\<lambda>r. ob_sequence r \<noteq> n) (filter (\<lambda>r. ob_tenant r = t \<and> ob_published r = None) rows)" for t u rows
    by (induction rows) auto
  then show ?thesis by (simp add: pending_def MarkPublished_def update_outbox_def)
qed

definition with_failure :: "int \<Rightarrow> string \<Rightarrow> outbox_row \<Rightarrow> outbox_row" where
  "with_failure n m r = (if ob_sequence r = n then r\<lparr>ob_attempts := ob_attempts r + 1, ob_error := Some m\<rparr> else r)"

lemma pending_failed:
  "pending (pg_tenant p) (MarkFailed p n m d) = map (with_failure n m) (pending (pg_tenant p) d)"
proof -
  have "filter (\<lambda>r. ob_tenant r = t \<and> ob_published r = None)
      (map (\<lambda>r. if ob_tenant r = t \<and> ob_sequence r = n then r\<lparr>ob_attempts := ob_attempts r + 1, ob_error := Some m\<rparr> else r) rows) =
    map (with_failure n m) (filter (\<lambda>r. ob_tenant r = t \<and> ob_published r = None) rows)" for t rows
    by (induction rows) (auto simp: with_failure_def)
  then show ?thesis by (simp add: pending_def MarkFailed_def update_outbox_def)
qed

subsection \<open>Nothing is lost\<close>

text \<open>
  A row becomes published only after the publisher accepted its message, and the messages
  are handed over in the order of the sequence.
\<close>

definition delivered :: "string \<Rightarrow> int set \<Rightarrow> outbox_row \<Rightarrow> outbox_row \<Rightarrow> bool" where
  "delivered tenant S r r' \<longleftrightarrow> same_message r r' \<and>
     (ob_published r = None \<and> ob_published r' \<noteq> None \<longrightarrow> ob_tenant r = tenant \<and> ob_sequence r \<in> S)"

lemma delivered_trans:
  "delivered t S r r' \<Longrightarrow> delivered t S' r' r'' \<Longrightarrow> S \<subseteq> S'' \<Longrightarrow> S' \<subseteq> S'' \<Longrightarrow> delivered t S'' r r''"
  by (auto simp: delivered_def same_message_def)

lemma delivered_marks:
  "list_all2 (delivered (pg_tenant p) {n}) (db_outbox d) (db_outbox (MarkPublished p n d))"
  "list_all2 (delivered (pg_tenant p) {}) (db_outbox d) (db_outbox (MarkFailed p n m d))"
  by (auto simp: delivered_def MarkPublished_def MarkFailed_def update_outbox_def same_message_def list_all2_map2
      intro!: list.rel_refl_strong)

lemma delivered_same: "list_all2 (delivered t S) xs xs"
proof (rule list.rel_refl)
  show "delivered t S r r" for r by (cases "ob_published r") (simp_all add: delivered_def same_message_def)
qed

lemma flush_loop_delivers:
  "\<exists>new. fst (snd (run_prog (flush_loop p w k n events sent) d)) = sent @ new \<and> subseq new events \<and>
     (\<forall>e \<in> set new. \<exists>v i. ow_decode w (ob_payload e) = Some v \<and> ow_publish w i (ob_topic e) v = None) \<and>
     list_all2 (delivered (pg_tenant p) (ob_sequence ` set new)) (db_outbox d)
       (db_outbox (fst (run_prog (flush_loop p w k n events sent) d)))"
proof (induction events arbitrary: k n sent d)
  case Nil
  show ?case by (intro exI [of _ "[]"]) (simp add: delivered_same)
next
  case (Cons event events)
  have skip: ?case if "run_prog (flush_loop p w k n (event # events) sent) d = run_prog (flush_loop p w k' n' events sent) d1"
    and "list_all2 (delivered (pg_tenant p) {}) (db_outbox d) (db_outbox d1)" for k' n' d1
  proof -
    obtain new where new: "fst (snd (run_prog (flush_loop p w k' n' events sent) d1)) = sent @ new" "subseq new events"
      "\<forall>e \<in> set new. \<exists>v i. ow_decode w (ob_payload e) = Some v \<and> ow_publish w i (ob_topic e) v = None"
      "list_all2 (delivered (pg_tenant p) (ob_sequence ` set new)) (db_outbox d1) (db_outbox (fst (run_prog (flush_loop p w k' n' events sent) d1)))"
      using Cons.IH by blast
    have "list_all2 (delivered (pg_tenant p) (ob_sequence ` set new)) (db_outbox d) (db_outbox (fst (run_prog (flush_loop p w k' n' events sent) d1)))"
      by (rule list_all2_trans [OF _ that(2) new(4)]) (auto intro: delivered_trans)
    with new show ?thesis unfolding that(1) by (intro exI [of _ new]) auto
  qed
  show ?case
  proof (cases "\<exists>v. ow_decode w (ob_payload event) = Some v \<and> ow_publish w n (ob_topic event) v = None")
    case False
    then show ?thesis
    proof (cases "ow_decode w (ob_payload event)")
      case None
      then show ?thesis
        by (intro skip [of "k + 1" n "if pg_err p k = None then MarkFailed p (ob_sequence event) (ow_error_text w ErrJSON) d else d"])
          (auto simp: delivered_marks(2) delivered_same)
    next
      case (Some v)
      with False obtain err where "ow_publish w n (ob_topic event) v = Some err" by auto
      with Some show ?thesis
        by (intro skip [of "k + 1" "n + 1" "if pg_err p k = None then MarkFailed p (ob_sequence event) (ow_error_text w err) d else d"])
          (auto simp: delivered_marks(2) delivered_same)
    qed
  next
    case True
    then obtain v where v: "ow_decode w (ob_payload event) = Some v" "ow_publish w n (ob_topic event) v = None" by blast
    show ?thesis
    proof (cases "pg_err p k")
      case None
      let ?d = "MarkPublished p (ob_sequence event) d"
      obtain new where new: "fst (snd (run_prog (flush_loop p w (k + 1) (n + 1) events (sent @ [event])) ?d)) = (sent @ [event]) @ new"
        "subseq new events" "\<forall>e \<in> set new. \<exists>v i. ow_decode w (ob_payload e) = Some v \<and> ow_publish w i (ob_topic e) v = None"
        "list_all2 (delivered (pg_tenant p) (ob_sequence ` set new)) (db_outbox ?d)
           (db_outbox (fst (run_prog (flush_loop p w (k + 1) (n + 1) events (sent @ [event])) ?d)))"
        using Cons.IH by blast
      have "list_all2 (delivered (pg_tenant p) (ob_sequence ` set (event # new))) (db_outbox d)
           (db_outbox (fst (run_prog (flush_loop p w (k + 1) (n + 1) events (sent @ [event])) ?d)))"
        by (rule list_all2_trans [OF _ delivered_marks(1) [of p "ob_sequence event"] new(4)]) (auto intro: delivered_trans)
      with new v None show ?thesis by (intro exI [of _ "event # new"]) auto
    next
      case (Some err)
      with v show ?thesis by (intro exI [of _ "[event]"]) (auto simp: delivered_same)
    qed
  qed
qed

lemma Flush_delivers:
  "\<exists>new. fst (snd (run_prog (Flush p w) d)) = new \<and> subseq new (take 100 (pending (pg_tenant p) d)) \<and>
     (\<forall>e \<in> set new. \<exists>v i. ow_decode w (ob_payload e) = Some v \<and> ow_publish w i (ob_topic e) v = None) \<and>
     list_all2 (delivered (pg_tenant p) (ob_sequence ` set new)) (db_outbox d) (db_outbox (fst (run_prog (Flush p w) d)))"
proof (cases "pg_err p 0")
  case None
  with flush_loop_delivers [of p w 1 0 "PendingOutbox p 100 d" "[]" d] show ?thesis
    by (simp add: Flush_def PendingOutbox_def)
qed (simp add: Flush_def delivered_same)

subsection \<open>The outbox drains\<close>

definition healthy :: "pgenv \<Rightarrow> outbox_worker \<Rightarrow> outbox_row \<Rightarrow> bool" where
  "healthy p w r \<longleftrightarrow> (\<exists>v. ow_decode w (ob_payload r) = Some v \<and> (\<forall>n. ow_publish w n (ob_topic r) v = None)) \<and>
     (\<forall>k. pg_err p k = None)"

lemma flush_loop_drains:
  "\<forall>r \<in> set events. healthy p w r \<Longrightarrow>
     pending (pg_tenant p) (fst (run_prog (flush_loop p w k n events sent) d)) =
       filter (\<lambda>r. ob_sequence r \<notin> ob_sequence ` set events) (pending (pg_tenant p) d) \<and>
     snd (run_prog (flush_loop p w k n events sent) d) = (sent @ events, None)"
proof (induction events arbitrary: k n sent d)
  case (Cons event events)
  then obtain v where "ow_decode w (ob_payload event) = Some v" "\<forall>n. ow_publish w n (ob_topic event) v = None"
    "\<forall>k. pg_err p k = None" by (auto simp: healthy_def)
  with Cons show ?case by (auto simp: pending_published intro: filter_cong)
qed simp

lemma filter_not_taken:
  "distinct (map f xs) \<Longrightarrow> filter (\<lambda>x. f x \<notin> f ` set (take n xs)) xs = drop n xs"
proof (induction xs arbitrary: n)
  case (Cons x xs)
  show ?case
  proof (cases n)
    case 0
    then show ?thesis by simp
  next
    case (Suc m)
    have "f y \<noteq> f x" if "y \<in> set xs" for y using Cons.prems that by (force simp: image_iff)
    then have "filter (\<lambda>y. f y \<notin> f ` set (take n (x # xs))) (x # xs) = filter (\<lambda>y. f y \<notin> f ` set (take m xs)) xs"
      using Suc by (auto intro!: filter_cong)
    with Cons Suc show ?thesis by simp
  qed
qed simp

lemma pending_distinct: "db_ok d \<Longrightarrow> distinct (map ob_sequence (pending t d))"
proof -
  assume "db_ok d"
  then have "distinct (map ob_sequence (db_outbox d))" by (simp add: db_ok_def strict_sorted_iff)
  then show ?thesis by (simp add: pending_def distinct_map_filter)
qed

lemma Flush_drains:
  assumes "db_ok d" and "\<forall>r \<in> set (pending (pg_tenant p) d). healthy p w r" and "pending (pg_tenant p) d \<noteq> []"
  shows "pending (pg_tenant p) (fst (run_prog (Flush p w) d)) = drop 100 (pending (pg_tenant p) d)"
    and "snd (run_prog (Flush p w) d) = (take 100 (pending (pg_tenant p) d), None)"
proof -
  let ?events = "take 100 (pending (pg_tenant p) d)"
  have h: "\<forall>r \<in> set ?events. healthy p w r" using assms(2) by (meson in_set_takeD)
  have "\<forall>k. pg_err p k = None" using assms(2,3) by (cases "pending (pg_tenant p) d") (auto simp: healthy_def)
  then have run: "run_prog (Flush p w) d = run_prog (flush_loop p w 1 0 ?events []) d"
    by (simp add: Flush_def PendingOutbox_def)
  show "pending (pg_tenant p) (fst (run_prog (Flush p w) d)) = drop 100 (pending (pg_tenant p) d)"
    using flush_loop_drains [OF h, of 1 0 "[]" d] filter_not_taken [OF pending_distinct [OF assms(1)]] by (simp add: run)
  show "snd (run_prog (Flush p w) d) = (?events, None)"
    using flush_loop_drains [OF h, of 1 0 "[]" d] by (simp add: run)
qed

text \<open>Flush after flush, a hundred messages at a time.\<close>

lemma flushes_drain:
  assumes "db_ok d" and "\<forall>(p, w) \<in> set runs. pg_tenant p = t \<and> (\<forall>r \<in> set (pending t d). healthy p w r)"
  shows "pending t (fst (flushes runs d)) = drop (100 * length runs) (pending t d) \<and>
    snd (flushes runs d) = take (100 * length runs) (pending t d)"
  using assms
proof (induction runs arbitrary: d)
  case (Cons run runs)
  obtain p w where run: "run = (p, w)" by (cases run)
  have t: "pg_tenant p = t" and h: "\<forall>r \<in> set (pending t d). healthy p w r" using Cons.prems(2) run by auto
  have one: "pending t (fst (run_prog (Flush p w) d)) = drop 100 (pending t d) \<and>
      fst (snd (run_prog (Flush p w) d)) = take 100 (pending t d)"
  proof (cases "pending t d = []")
    case True
    then show ?thesis by (simp add: Flush_def PendingOutbox_def t split: option.splits)
  next
    case False
    with Flush_drains [OF Cons.prems(1), of p w] h t show ?thesis by simp
  qed
  have "db_ok (fst (run_prog (Flush p w) d))" using marked_ok [OF Flush_marked Cons.prems(1)] .
  moreover have "\<forall>(p', w') \<in> set runs. pg_tenant p' = t \<and>
      (\<forall>r \<in> set (pending t (fst (run_prog (Flush p w) d))). healthy p' w' r)"
    using Cons.prems(2) one in_set_dropD by fastforce
  ultimately show ?case
    using Cons.IH [of "fst (run_prog (Flush p w) d)"] one
    by (simp add: run split_beta Let_def take_add [symmetric] add.commute)
qed simp

subsection \<open>A hundred rejected messages block the rest\<close>

definition poison :: "outbox_worker \<Rightarrow> outbox_row \<Rightarrow> bool" where
  "poison w r \<longleftrightarrow> (case ow_decode w (ob_payload r) of None \<Rightarrow> True | Some v \<Rightarrow> \<forall>n. ow_publish w n (ob_topic r) v \<noteq> None)"

lemma flush_loop_poison:
  "\<forall>r \<in> set events. poison w r \<Longrightarrow> fst (snd (run_prog (flush_loop p w k n events sent) d)) = sent \<and>
     map (\<lambda>r. (ob_sequence r, ob_topic r, ob_payload r)) (pending (pg_tenant p) (fst (run_prog (flush_loop p w k n events sent) d))) =
       map (\<lambda>r. (ob_sequence r, ob_topic r, ob_payload r)) (pending (pg_tenant p) d)"
proof (induction events arbitrary: k n sent d)
  case (Cons event events)
  have same: "map (\<lambda>r. (ob_sequence r, ob_topic r, ob_payload r)) (pending (pg_tenant p) (MarkFailed p s m d)) =
      map (\<lambda>r. (ob_sequence r, ob_topic r, ob_payload r)) (pending (pg_tenant p) d)" for s m d
    by (simp add: pending_failed with_failure_def)
  show ?case
  proof (cases "ow_decode w (ob_payload event)")
    case None
    with Cons show ?thesis by (simp add: same)
  next
    case (Some v)
    with Cons.prems obtain err where "ow_publish w n (ob_topic event) v = Some err" by (auto simp: poison_def)
    with Some Cons show ?thesis by (simp add: same)
  qed
qed simp

lemma poison_cong: "ob_topic r' = ob_topic r \<Longrightarrow> ob_payload r' = ob_payload r \<Longrightarrow> poison w r' = poison w r"
  by (simp add: poison_def split: option.splits)

lemma flushes_blocked:
  assumes "\<forall>(p, w) \<in> set runs. pg_tenant p = t \<and> (\<forall>r \<in> set (take 100 (pending t d)). poison w r)"
  shows "snd (flushes runs d) = []"
  using assms
proof (induction runs arbitrary: d)
  case (Cons run runs)
  obtain p w where run: "run = (p, w)" by (cases run)
  let ?key = "\<lambda>r. (ob_sequence r, ob_topic r, ob_payload r)" and ?d = "fst (run_prog (Flush p w) d)"
  have t: "pg_tenant p = t" and poisoned: "\<forall>r \<in> set (take 100 (pending t d)). poison w r" using Cons.prems run by auto
  from flush_loop_poison [OF poisoned, of p 1 0 "[]" d] have
    none: "fst (snd (run_prog (Flush p w) d)) = []" and same: "map ?key (pending t ?d) = map ?key (pending t d)"
    by (auto simp: Flush_def PendingOutbox_def t split: option.splits)
  have keys: "?key ` set (take 100 (pending t ?d)) = ?key ` set (take 100 (pending t d))"
    using arg_cong [OF same, of "\<lambda>xs. set (take 100 xs)"] by (simp add: take_map)
  have "\<exists>r' \<in> set (take 100 (pending t d)). ob_topic r' = ob_topic r \<and> ob_payload r' = ob_payload r"
    if "r \<in> set (take 100 (pending t ?d))" for r
  proof -
    have "?key r \<in> ?key ` set (take 100 (pending t d))" using that unfolding keys [symmetric] by blast
    then show ?thesis by force
  qed
  then have step: "poison w' r" if "\<forall>r \<in> set (take 100 (pending t d)). poison w' r" "r \<in> set (take 100 (pending t ?d))" for w' r
    using that poison_cong by metis
  have "\<forall>(p', w') \<in> set runs. pg_tenant p' = t \<and> (\<forall>r \<in> set (take 100 (pending t ?d)). poison w' r)"
    using Cons.prems step by auto
  from Cons.IH [OF this] none show ?case by (simp add: run split_beta Let_def)
qed simp

end
