(* ===== verification/Postgres_Refinement.thy ===== *)
theory Postgres_Refinement
  imports Postgres_Contracts Store_Steps
begin

text \<open>
  The PostgreSQL repository refines the file-backed one, method by method, as long as its
  methods run one at a time and the database accepts their statements: the tables of a tenant
  represent the lists of the state (\<open>abs_state\<close>), and every method has the result and the
  effect of the corresponding method of \<open>*Store\<close> in some environment. The audit logs are
  not compared: the PostgreSQL repository records more events.
\<close>

subsection \<open>Rows of one kind as a list of values\<close>

definition keyed :: "pgenv \<Rightarrow> 'a codec \<Rightarrow> string \<Rightarrow> ('a \<Rightarrow> string) \<Rightarrow> db \<Rightarrow> bool" where
  "keyed p c kind key d \<longleftrightarrow> distinct (map rr_id (kind_rows p kind d)) \<and>
     (\<forall>r \<in> set (kind_rows p kind d). rr_created r \<le> pg_now p \<and> (\<exists>v. dec c (rr_payload r) = Some v \<and> key v = rr_id r))"

definition row_val :: "'a codec \<Rightarrow> resource_row \<Rightarrow> 'a" where
  "row_val c r = the (dec c (rr_payload r))"

lemma map_filter_total: "(\<And>x. x \<in> set xs \<Longrightarrow> f x \<noteq> None) \<Longrightarrow> List.map_filter f xs = map (\<lambda>x. the (f x)) xs"
proof (induction xs)
  case (Cons x xs)
  then have "f x \<noteq> None" "List.map_filter f xs = map (\<lambda>x. the (f x)) xs" by simp_all
  then show ?case by (auto simp: List.map_filter_simps)
qed (simp add: List.map_filter_simps)

lemma rows_listed_map:
  "keyed p c kind key d \<Longrightarrow> rows_listed p c kind d = map (row_val c) (sort_key (\<lambda>r. - rr_created r) (kind_rows p kind d))"
  unfolding rows_listed_def row_val_def by (rule map_filter_total) (auto simp: keyed_def)

lemma row_val_key: "keyed p c kind key d \<Longrightarrow> r \<in> set (kind_rows p kind d) \<Longrightarrow> key (row_val c r) = rr_id r"
  by (auto simp: keyed_def row_val_def)

lemma rows_listed_keys:
  assumes "keyed p c kind key d"
  shows "map key (rows_listed p c kind d) = map rr_id (sort_key (\<lambda>r. - rr_created r) (kind_rows p kind d))"
  using row_val_key [OF assms] by (simp add: rows_listed_map [OF assms])

lemma rows_listed_distinct:
  assumes "keyed p c kind key d"
  shows "distinct (map key (rows_listed p c kind d))"
proof -
  have "mset (map rr_id (sort_key (\<lambda>r. - rr_created r) (kind_rows p kind d))) = mset (map rr_id (kind_rows p kind d))"
    by simp
  then show ?thesis
    unfolding rows_listed_keys [OF assms] using assms by (metis keyed_def mset_eq_imp_distinct_iff)
qed

lemma row_of_kind: "row_of p kind i d = find (\<lambda>r. rr_id r = i) (kind_rows p kind d)"
proof -
  have "find (\<lambda>r. P r \<and> Q r) xs = find Q (filter P xs)" for P Q :: "resource_row \<Rightarrow> bool" and xs
    by (induction xs) auto
  from this [of "\<lambda>r. rr_tenant r = pg_tenant p \<and> rr_kind r = kind" "\<lambda>r. rr_id r = i"] show ?thesis
    by (simp add: row_of_def kind_rows_def conj_assoc)
qed

text \<open>A \<open>get\<close> finds the listed value with that key.\<close>

lemma find_unique: "distinct (map f xs) \<Longrightarrow> find (\<lambda>x. f x = i) xs = Some x \<longleftrightarrow> x \<in> set xs \<and> f x = i"
  by (induction xs) auto

lemma row_value_find:
  assumes "keyed p c kind key d"
  shows "row_value c (row_of p kind i d) =
    (case find (\<lambda>v. key v = i) (rows_listed p c kind d) of None \<Rightarrow> (zero_of c, Some ErrNotFound) | Some v \<Rightarrow> (v, None))"
proof (cases "row_of p kind i d")
  case None
  then have "i \<notin> rr_id ` set (kind_rows p kind d)" by (auto simp: row_of_kind dest: find_NoneD)
  moreover have "key ` set (rows_listed p c kind d) = rr_id ` set (kind_rows p kind d)"
    using rows_listed_keys [OF assms] by (metis set_map set_sort)
  ultimately have "find (\<lambda>v. key v = i) (rows_listed p c kind d) = None" by (auto simp: find_None_iff)
  with None show ?thesis by (simp add: row_value_def)
next
  case (Some r)
  then have r: "r \<in> set (kind_rows p kind d)" "rr_id r = i" by (auto simp: row_of_kind dest: find_SomeD)
  then have "row_val c r \<in> set (rows_listed p c kind d)" by (simp add: rows_listed_map [OF assms])
  with r assms have "find (\<lambda>v. key v = i) (rows_listed p c kind d) = Some (row_val c r)"
    by (simp add: find_unique [OF rows_listed_distinct [OF assms]] row_val_key)
  moreover have "dec c (rr_payload r) = Some (row_val c r)" using assms r by (auto simp: keyed_def row_val_def)
  ultimately show ?thesis using Some by (simp add: row_value_def)
qed

lemma row_of_present:
  assumes "keyed p c kind key d"
  shows "row_of p kind i d \<noteq> None \<longleftrightarrow> i \<in> key ` set (rows_listed p c kind d)"
proof -
  have "key ` set (rows_listed p c kind d) = rr_id ` set (kind_rows p kind d)"
    using rows_listed_keys [OF assms] by (metis set_map set_sort)
  moreover have "row_of p kind i d = None \<longleftrightarrow> i \<notin> rr_id ` set (kind_rows p kind d)"
    by (auto simp: row_of_kind find_None_iff)
  ultimately show ?thesis by simp
qed

subsection \<open>An upsert as an update of the list\<close>

lemma kind_rows_upsert_other:
  "kind' \<noteq> kind \<Longrightarrow> kind_rows p kind' (upsert_resource p kind i raw d) = kind_rows p kind' d"
proof -
  assume "kind' \<noteq> kind"
  then have "filter (\<lambda>r. rr_tenant r = pg_tenant p \<and> rr_kind r = kind')
      (update_first (\<lambda>r. rr_tenant r = pg_tenant p \<and> rr_kind r = kind \<and> rr_id r = i)
        (\<lambda>r. r\<lparr>rr_payload := raw, rr_updated := pg_now p\<rparr>) rows) =
    filter (\<lambda>r. rr_tenant r = pg_tenant p \<and> rr_kind r = kind') rows" for rows
    by (intro filter_update_first_out) auto
  with \<open>kind' \<noteq> kind\<close> show ?thesis by (auto simp: kind_rows_def upsert_resource_def split: option.splits)
qed

lemma kind_rows_upsert_same:
  "kind_rows p kind (upsert_resource p kind i raw d) =
     (case row_of p kind i d of
        Some _ \<Rightarrow> update_first (\<lambda>r. rr_id r = i) (\<lambda>r. r\<lparr>rr_payload := raw, rr_updated := pg_now p\<rparr>) (kind_rows p kind d)
      | None \<Rightarrow> \<lparr>rr_tenant = pg_tenant p, rr_kind = kind, rr_id = i, rr_payload = raw,
                  rr_created = pg_now p, rr_updated = pg_now p\<rparr> # kind_rows p kind d)"
proof -
  have "filter (\<lambda>r. rr_tenant r = t \<and> rr_kind r = kind)
      (update_first (\<lambda>r. rr_tenant r = t \<and> rr_kind r = kind \<and> rr_id r = i) (\<lambda>r. r\<lparr>rr_payload := raw, rr_updated := u\<rparr>) rows) =
    update_first (\<lambda>r. rr_id r = i) (\<lambda>r. r\<lparr>rr_payload := raw, rr_updated := u\<rparr>)
      (filter (\<lambda>r. rr_tenant r = t \<and> rr_kind r = kind) rows)" for t u rows
    by (induction rows) auto
  then show ?thesis by (auto simp: kind_rows_def upsert_resource_def split: option.splits)
qed

lemma update_first_as_map:
  "distinct (map k xs) \<Longrightarrow> update_first (\<lambda>x. k x = i) f xs = map (\<lambda>x. if k x = i then f x else x) xs"
proof (induction xs)
  case (Cons x xs)
  show ?case
  proof (cases "k x = i")
    case True
    have "k y \<noteq> i" if "y \<in> set xs" for y using Cons.prems True that by (force simp: image_iff)
    with True show ?thesis by (simp add: map_idI)
  qed (use Cons in simp)
qed simp

lemma sort_key_map: "(\<And>x. f (h x) = f x) \<Longrightarrow> sort_key f (map h xs) = map h (sort_key f xs)"
proof (induction xs)
  case (Cons x xs)
  have "insort_key f (h x) (map h ys) = map h (insort_key f x ys)" for ys
    by (induction ys) (simp_all add: Cons.prems)
  with Cons show ?case by simp
qed simp

lemma insort_key_front: "(\<And>y. y \<in> set ys \<Longrightarrow> f x \<le> f y) \<Longrightarrow> insort_key f x ys = x # ys"
  by (cases ys) auto

lemma upsert_listed:
  assumes k: "keyed p c kind key d" and raw: "dec c raw = Some v" and key: "key v = i"
  shows "keyed p c kind key (upsert_resource p kind i raw d)" (is ?keyed)
    and "rows_listed p c kind (upsert_resource p kind i raw d) =
      (if find (\<lambda>v. key v = i) (rows_listed p c kind d) = None then v # rows_listed p c kind d
       else update_first (\<lambda>v. key v = i) (\<lambda>_. v) (rows_listed p c kind d))" (is ?listed)
proof -
  let ?d = "upsert_resource p kind i raw d" and ?f = "\<lambda>r. - rr_created r"
  let ?h = "\<lambda>r. if rr_id r = i then r\<lparr>rr_payload := raw, rr_updated := pg_now p\<rparr> else r"
  let ?new = "\<lparr>rr_tenant = pg_tenant p, rr_kind = kind, rr_id = i, rr_payload = raw, rr_created = pg_now p, rr_updated = pg_now p\<rparr>"
  have dist: "distinct (map rr_id (kind_rows p kind d))" using k by (simp add: keyed_def)
  have none: "row_of p kind i d = None \<longleftrightarrow> find (\<lambda>v. key v = i) (rows_listed p c kind d) = None"
    using row_of_present [OF k, of i] by (auto simp: find_None_iff image_iff)
  have "?keyed \<and> ?listed"
  proof (cases "row_of p kind i d")
    case None
    then have rows: "kind_rows p kind ?d = ?new # kind_rows p kind d" by (simp add: kind_rows_upsert_same)
    have "i \<notin> rr_id ` set (kind_rows p kind d)" using None by (auto simp: row_of_kind dest: find_NoneD)
    then have keyed: ?keyed using k raw key by (auto simp: keyed_def rows)
    have "sort_key ?f (kind_rows p kind ?d) = ?new # sort_key ?f (kind_rows p kind d)"
      unfolding rows sort_key_simps using k by (intro insort_key_front) (auto simp: keyed_def)
    then have ?listed using None none raw by (simp add: rows_listed_map [OF keyed] rows_listed_map [OF k] row_val_def)
    with keyed show ?thesis ..
  next
    case (Some r0)
    then have rows: "kind_rows p kind ?d = map ?h (kind_rows p kind d)"
      by (simp add: kind_rows_upsert_same update_first_as_map [OF dist])
    have id: "rr_id (?h r) = rr_id r" "rr_created (?h r) = rr_created r" for r by simp_all
    have "map rr_id (map ?h (kind_rows p kind d)) = map rr_id (kind_rows p kind d)" by (simp add: id cong: map_cong)
    with dist have "distinct (map rr_id (map ?h (kind_rows p kind d)))" by (simp only:)
    moreover have "\<forall>r \<in> set (map ?h (kind_rows p kind d)). rr_created r \<le> pg_now p \<and>
        (\<exists>v. dec c (rr_payload r) = Some v \<and> key v = rr_id r)"
      using k raw key by (auto simp: keyed_def)
    ultimately have keyed: ?keyed unfolding keyed_def rows ..
    have "sort_key ?f (kind_rows p kind ?d) = map ?h (sort_key ?f (kind_rows p kind d))"
      unfolding rows by (rule sort_key_map) (simp add: id)
    then have "rows_listed p c kind ?d = map (\<lambda>r. row_val c (?h r)) (sort_key ?f (kind_rows p kind d))"
      by (simp add: rows_listed_map [OF keyed])
    also have "\<dots> = map (\<lambda>r. if key (row_val c r) = i then v else row_val c r) (sort_key ?f (kind_rows p kind d))"
      using raw by (intro map_cong) (auto simp: row_val_key [OF k] row_val_def [of c "_\<lparr>rr_payload := raw, rr_updated := pg_now p\<rparr>"])
    also have "\<dots> = map (\<lambda>x. if key x = i then v else x) (rows_listed p c kind d)"
      by (simp add: rows_listed_map [OF k])
    also have "\<dots> = update_first (\<lambda>v. key v = i) (\<lambda>_. v) (rows_listed p c kind d)"
      by (rule update_first_as_map [OF rows_listed_distinct [OF k], symmetric])
    finally show ?thesis using keyed none Some by auto
  qed
  then show ?keyed and ?listed by simp_all
qed

subsection \<open>The state the tables represent\<close>

definition session_key :: "AgentSession \<Rightarrow> string" where
  "session_key x = ses_AgentID x @ ''/'' @ ses_ID x"

definition abs_state :: "pgenv \<Rightarrow> db \<Rightarrow> state" where
  "abs_state p d = \<lparr>
     st_UserAccess = rows_listed p (c_access p) ''user_access'' d,
     st_AccessRequests = rows_listed p (c_request p) ''access_request'' d,
     st_APITokens = rows_listed p (c_token p) ''api_token'' d,
     st_BlogPosts = rows_listed p (c_post p) ''blog_post'' d,
     st_Projects = rows_listed p (c_project p) ''project'' d,
     st_Runs = rows_listed p (c_run p) ''pipeline_run'' d,
     st_Definitions = rows_listed p (c_definition p) ''pipeline_definition'' d,
     st_Functions = rows_listed p (c_function p) ''function'' d,
     st_Models = rows_listed p (c_model p) ''model'' d,
     st_Agents = rows_listed p (c_agent p) ''agent'' d,
     st_Tools = rows_listed p (c_tool p) ''tool'' d,
     st_Connections = rows_listed p (c_connection p) ''connection'' d,
     st_Audit = [],
     st_Sessions = rows_listed p (c_session p) ''agent_session'' d,
     st_Traces = rows_listed p (c_trace p) ''agent_trace'' d,
     st_Features = rows_listed p (c_view p) ''feature_view'' d\<rparr>"

definition tables_ok :: "pgenv \<Rightarrow> db \<Rightarrow> bool" where
  "tables_ok p d \<longleftrightarrow>
     keyed p (c_access p) ''user_access'' ua_Subject d \<and> keyed p (c_request p) ''access_request'' ar_ID d \<and>
     keyed p (c_token p) ''api_token'' tok_ID d \<and> keyed p (c_post p) ''blog_post'' bp_ID d \<and>
     keyed p (c_project p) ''project'' prj_ID d \<and> keyed p (c_run p) ''pipeline_run'' run_ID d \<and>
     keyed p (c_definition p) ''pipeline_definition'' pd_ID d \<and> keyed p (c_function p) ''function'' fn_Name d \<and>
     keyed p (c_model p) ''model'' mdl_ID d \<and> keyed p (c_agent p) ''agent'' agt_ID d \<and>
     keyed p (c_tool p) ''tool'' tool_ID d \<and> keyed p (c_connection p) ''connection'' con_ID d \<and>
     keyed p (c_session p) ''agent_session'' session_key d \<and> keyed p (c_trace p) ''agent_trace'' trc_ID d \<and>
     keyed p (c_view p) ''feature_view'' fv_ID d"

text \<open>The store a database stands for: in memory, with any audit log.\<close>

definition represents :: "pgenv \<Rightarrow> db \<Rightarrow> Store \<Rightarrow> bool" where
  "represents p d s \<longleftrightarrow> tables_ok p d \<and> spath s = [] \<and> (data s)\<lparr>st_Audit := []\<rparr> = abs_state p d"

text \<open>The database answers, values survive JSON, and the identifiers taken from the clock are new.\<close>

definition codecs_ok :: "pgenv \<Rightarrow> bool" where
  "codecs_ok p \<longleftrightarrow> faithful (c_project p) \<and> faithful (c_run p) \<and> faithful (c_definition p) \<and> faithful (c_function p) \<and>
     faithful (c_model p) \<and> faithful (c_agent p) \<and> faithful (c_tool p) \<and> faithful (c_connection p) \<and>
     faithful (c_access p) \<and> faithful (c_request p) \<and> faithful (c_token p) \<and> faithful (c_post p) \<and>
     faithful (c_view p) \<and> faithful (c_session p) \<and> faithful (c_trace p)"

definition ready :: "pgenv \<Rightarrow> db \<Rightarrow> bool" where
  "ready p d \<longleftrightarrow> (\<forall>k. pg_err p k = None) \<and> codecs_ok p \<and>
     (\<forall>event. enc_event p event \<noteq> None) \<and> (\<forall>command. enc_command p command \<noteq> None) \<and>
     (\<forall>t. \<forall>r \<in> set (db_audit d). evt_ID (ad_event r) \<noteq> new_id ''evt'' (pclk p t)) \<and>
     (\<forall>t. \<forall>r \<in> set (db_outbox d). ob_id r \<noteq> new_id ''out'' (pclk p t)) \<and>
     (\<forall>t. new_id ''out'' (pclk p t) \<noteq> new_id ''out'' (pclk p (t + 1))) \<and>
     (\<forall>t pre. \<forall>r \<in> set (db_resources d). rr_id r \<noteq> new_id pre (pclk p t))"

text \<open>A \<open>write\<close> of a ready database commits.\<close>

lemma write_ready:
  assumes "ready p d" and "encoded = Some raw"
  shows "\<exists>d'. transaction p k (k + 5) (write_body p k t kind i encoded action actor metadata) d = (d', None) \<and>
    db_resources d' = db_resources (upsert_resource p kind i raw d)"
proof -
  have q: "pg_err p j = None" for j using assms(1) by (simp add: ready_def)
  have "enc_event p (pg_event p t action kind i actor metadata) \<noteq> None" using assms(1) unfolding ready_def by blast
  then obtain ev where ev: "enc_event p (pg_event p t action kind i actor metadata) = Some ev" by blast
  obtain cmd where cmd: "enc_command p \<lparr>cmd_ID = i, cmd_Kind = kind, cmd_Action = action, cmd_Resource = raw,
      cmd_Actor = evt_Actor (pg_event p t action kind i actor metadata), cmd_Tenant = pg_tenant p,
      cmd_OccurredAt = evt_CreatedAt (pg_event p t action kind i actor metadata)\<rparr> = Some cmd"
    using assms(1) unfolding ready_def by (metis not_None_eq)
  have "new_id ''out'' (pclk p (t + 2)) \<noteq> new_id ''out'' (pclk p (t + 2 + 1))" using assms(1) unfolding ready_def by blast
  moreover have "t + 2 + 1 = t + 3" by simp
  ultimately have next_id: "new_id ''out'' (pclk p (t + 2)) \<noteq> new_id ''out'' (pclk p (t + 3))" by (simp add: numeral_3_eq_3)
  have fresh: "\<not> list_ex (\<lambda>r. evt_ID (ad_event r) = new_id ''evt'' (pclk p t)) (db_audit d)"
    "\<not> list_ex (\<lambda>r. ob_id r = new_id ''out'' (pclk p u)) (db_outbox d)" for u
    using assms(1) by (auto simp: ready_def list_ex_iff)
  have body: "\<exists>d'. write_body p k t kind i encoded action actor metadata d = Inl d' \<and>
      db_resources d' = db_resources (upsert_resource p kind i raw d)"
    using fresh ev cmd next_id
    by (simp add: write_body_def assms(2) Let_def statement_def q insert_audit_def insert_outbox_def pg_event_def list_ex_iff)
  then show ?thesis by (auto simp: transaction_ok q)
qed

definition put_by :: "('a \<Rightarrow> string) \<Rightarrow> 'a \<Rightarrow> 'a list \<Rightarrow> 'a list" where
  "put_by key v xs = (if find (\<lambda>x. key x = key v) xs = None then v # xs else update_first (\<lambda>x. key x = key v) (\<lambda>_. v) xs)"

lemma keyed_frame:
  "kind_rows p kind d' = kind_rows p kind d \<Longrightarrow> keyed p c kind key d' = keyed p c kind key d"
  "kind_rows p kind d' = kind_rows p kind d \<Longrightarrow> rows_listed p c kind d' = rows_listed p c kind d"
  by (simp_all add: keyed_def rows_listed_def)

text \<open>What a committed write changes: one row of one kind.\<close>

definition wrote :: "pgenv \<Rightarrow> 'a codec \<Rightarrow> string \<Rightarrow> ('a \<Rightarrow> string) \<Rightarrow> 'a \<Rightarrow> db \<Rightarrow> db \<Rightarrow> bool" where
  "wrote p c kind key v d d' \<longleftrightarrow> keyed p c kind key d' \<and> rows_listed p c kind d' = put_by key v (rows_listed p c kind d) \<and>
     (\<forall>kind'. kind' \<noteq> kind \<longrightarrow> kind_rows p kind' d' = kind_rows p kind' d)"

lemma put_wrote:
  assumes "ready p d" and "faithful c" and "keyed p c kind key d" and "key v = i" and "enc c v = Some raw0"
  shows "\<exists>d'. run_prog (Pg_put p k t c kind i v action actor metadata) d = (d', (v, None)) \<and> wrote p c kind key v d d'"
proof -
  obtain raw where raw: "enc c v = Some raw" "dec c raw = Some v" using assms(2,5) unfolding faithful_def by blast
  obtain d' where d': "transaction p k (k + 5) (write_body p k t kind i (enc c v) action actor metadata) d = (d', None)"
    "db_resources d' = db_resources (upsert_resource p kind i raw d)"
    using write_ready [OF assms(1) raw(1)] by blast
  have rows: "kind_rows p kind' d' = kind_rows p kind' (upsert_resource p kind i raw d)" for kind'
    by (simp add: kind_rows_def d'(2))
  have "wrote p c kind key v d d'"
    using upsert_listed [OF assms(3) raw(2) assms(4)] kind_rows_upsert_other [of _ kind p i raw d] assms(4)
    by (simp add: wrote_def keyed_frame [OF rows] rows put_by_def)
  with d' show ?thesis by (simp add: Pg_put_def Pg_write_def)
qed

lemma wrote_run: "wrote p (c_run p) ''pipeline_run'' run_ID v d d' \<Longrightarrow> tables_ok p d \<Longrightarrow>
    tables_ok p d' \<and> abs_state p d' = (abs_state p d)\<lparr>st_Runs := put_by run_ID v (st_Runs (abs_state p d))\<rparr>"
  by (simp add: abs_state_def tables_ok_def wrote_def keyed_frame [of p _ d' d])

lemma wrote_model: "wrote p (c_model p) ''model'' mdl_ID v d d' \<Longrightarrow> tables_ok p d \<Longrightarrow>
    tables_ok p d' \<and> abs_state p d' = (abs_state p d)\<lparr>st_Models := put_by mdl_ID v (st_Models (abs_state p d))\<rparr>"
  by (simp add: abs_state_def tables_ok_def wrote_def keyed_frame [of p _ d' d])

lemma wrote_agent: "wrote p (c_agent p) ''agent'' agt_ID v d d' \<Longrightarrow> tables_ok p d \<Longrightarrow>
    tables_ok p d' \<and> abs_state p d' = (abs_state p d)\<lparr>st_Agents := put_by agt_ID v (st_Agents (abs_state p d))\<rparr>"
  by (simp add: abs_state_def tables_ok_def wrote_def keyed_frame [of p _ d' d])

lemma wrote_request: "wrote p (c_request p) ''access_request'' ar_ID v d d' \<Longrightarrow> tables_ok p d \<Longrightarrow>
    tables_ok p d' \<and> abs_state p d' = (abs_state p d)\<lparr>st_AccessRequests := put_by ar_ID v (st_AccessRequests (abs_state p d))\<rparr>"
  by (simp add: abs_state_def tables_ok_def wrote_def keyed_frame [of p _ d' d])

lemma wrote_connection: "wrote p (c_connection p) ''connection'' con_ID v d d' \<Longrightarrow> tables_ok p d \<Longrightarrow>
    tables_ok p d' \<and> abs_state p d' = (abs_state p d)\<lparr>st_Connections := put_by con_ID v (st_Connections (abs_state p d))\<rparr>"
  by (simp add: abs_state_def tables_ok_def wrote_def keyed_frame [of p _ d' d])

lemma wrote_tool: "wrote p (c_tool p) ''tool'' tool_ID v d d' \<Longrightarrow> tables_ok p d \<Longrightarrow>
    tables_ok p d' \<and> abs_state p d' = (abs_state p d)\<lparr>st_Tools := put_by tool_ID v (st_Tools (abs_state p d))\<rparr>"
  by (simp add: abs_state_def tables_ok_def wrote_def keyed_frame [of p _ d' d])

lemma wrote_project: "wrote p (c_project p) ''project'' prj_ID v d d' \<Longrightarrow> tables_ok p d \<Longrightarrow>
    tables_ok p d' \<and> abs_state p d' = (abs_state p d)\<lparr>st_Projects := put_by prj_ID v (st_Projects (abs_state p d))\<rparr>"
  by (simp add: abs_state_def tables_ok_def wrote_def keyed_frame [of p _ d' d])

subsection \<open>Simulation\<close>

text \<open>
  \<open>simulated\<close> relates the outcome of a method here to an outcome of the file-backed store: the
  same error, the same value on success, and states that correspond; a value JSON refuses to
  encode changes nothing.
\<close>

definition simulated :: "pgenv \<Rightarrow> db \<Rightarrow> db \<times> 'a ret \<Rightarrow> Store \<times> 'a ret \<Rightarrow> bool" where
  "simulated p d x y \<longleftrightarrow>
     represents p (fst x) (fst y) \<and> snd (snd x) = snd (snd y) \<and> (snd (snd x) = None \<longrightarrow> fst (snd x) = fst (snd y)) \<or>
     fst x = d \<and> snd (snd x) = Some ErrJSON"

lemma run_get:
  "ready p d \<Longrightarrow> keyed p c kind key d \<Longrightarrow> run_prog (Pg_get p k c kind i cont) d =
     run_prog (cont (case find (\<lambda>v. key v = i) (rows_listed p c kind d) of
       None \<Rightarrow> (zero_of c, Some ErrNotFound) | Some v \<Rightarrow> (v, None))) d"
  by (simp add: Pg_get_def ready_def row_value_find)

lemma run_list: "ready p d \<Longrightarrow> run_prog (Pg_list p k c kind cont) d = run_prog (cont (rows_listed p c kind d)) d"
  by (simp add: Pg_list_def ready_def)

lemma run_exists:
  "ready p d \<Longrightarrow> keyed p c kind key d \<Longrightarrow>
     run_prog (Pg_exists p k kind i cont) d = run_prog (cont (i \<in> key ` set (rows_listed p c kind d))) d"
  by (simp add: Pg_exists_def ready_def row_of_present del: not_None_eq)

lemma represents_tables:
  assumes "represents p d s"
  shows "rows_listed p (c_run p) ''pipeline_run'' d = st_Runs (data s)" "keyed p (c_run p) ''pipeline_run'' run_ID d"
    "rows_listed p (c_model p) ''model'' d = st_Models (data s)" "keyed p (c_model p) ''model'' mdl_ID d"
    "rows_listed p (c_agent p) ''agent'' d = st_Agents (data s)" "keyed p (c_agent p) ''agent'' agt_ID d"
    "rows_listed p (c_request p) ''access_request'' d = st_AccessRequests (data s)" "keyed p (c_request p) ''access_request'' ar_ID d"
    "rows_listed p (c_connection p) ''connection'' d = st_Connections (data s)" "keyed p (c_connection p) ''connection'' con_ID d"
    "rows_listed p (c_tool p) ''tool'' d = st_Tools (data s)" "keyed p (c_tool p) ''tool'' tool_ID d"
    "rows_listed p (c_project p) ''project'' d = st_Projects (data s)" "keyed p (c_project p) ''project'' prj_ID d"
    "rows_listed p (c_definition p) ''pipeline_definition'' d = st_Definitions (data s)"
    "keyed p (c_definition p) ''pipeline_definition'' pd_ID d"
proof -
  from assms have "(data s)\<lparr>st_Audit := []\<rparr> = abs_state p d" by (simp add: represents_def)
  from arg_cong [OF this, of st_Runs] arg_cong [OF this, of st_Models] arg_cong [OF this, of st_Agents]
    arg_cong [OF this, of st_AccessRequests] arg_cong [OF this, of st_Connections] arg_cong [OF this, of st_Tools]
    arg_cong [OF this, of st_Projects] arg_cong [OF this, of st_Definitions]
  show "rows_listed p (c_run p) ''pipeline_run'' d = st_Runs (data s)" "rows_listed p (c_model p) ''model'' d = st_Models (data s)"
    "rows_listed p (c_agent p) ''agent'' d = st_Agents (data s)"
    "rows_listed p (c_request p) ''access_request'' d = st_AccessRequests (data s)"
    "rows_listed p (c_connection p) ''connection'' d = st_Connections (data s)"
    "rows_listed p (c_tool p) ''tool'' d = st_Tools (data s)" "rows_listed p (c_project p) ''project'' d = st_Projects (data s)"
    "rows_listed p (c_definition p) ''pipeline_definition'' d = st_Definitions (data s)"
    by (simp_all add: abs_state_def)
  from assms show "keyed p (c_run p) ''pipeline_run'' run_ID d" "keyed p (c_model p) ''model'' mdl_ID d"
    "keyed p (c_agent p) ''agent'' agt_ID d" "keyed p (c_request p) ''access_request'' ar_ID d"
    "keyed p (c_connection p) ''connection'' con_ID d" "keyed p (c_tool p) ''tool'' tool_ID d"
    "keyed p (c_project p) ''project'' prj_ID d" "keyed p (c_definition p) ''pipeline_definition'' pd_ID d"
    by (simp_all add: represents_def tables_ok_def)
qed

text \<open>The last line of a method, for the kinds of resource in turn.\<close>

lemma put_simulated:
  assumes "ready p d" and "faithful c" and "keyed p c kind key d" and "key v = i" and "spath s' = []"
    and "\<And>d'. wrote p c kind key v d d' \<Longrightarrow> tables_ok p d' \<and> abs_state p d' = (data s')\<lparr>st_Audit := []\<rparr>"
  shows "simulated p d (run_prog (Pg_put p k t c kind i v action actor metadata) d) (s', (v, None))"
proof (cases "enc c v")
  case None
  moreover have "pg_err p k = None" using assms(1) by (simp add: ready_def)
  ultimately show ?thesis
    by (simp add: simulated_def Pg_put_def Pg_write_def transaction_def write_body_def)
next
  case (Some raw)
  obtain d' where d': "run_prog (Pg_put p k t c kind i v action actor metadata) d = (d', (v, None))" "wrote p c kind key v d d'"
    using put_wrote [OF assms(1-4) Some] by blast
  then show ?thesis using assms(5,6) by (simp add: simulated_def represents_def)
qed

lemma codecs_faithful:
  assumes "ready p d"
  shows "faithful (c_run p)" "faithful (c_model p)" "faithful (c_agent p)" "faithful (c_request p)" "faithful (c_connection p)"
    "faithful (c_tool p)" "faithful (c_project p)"
  using assms by (simp_all add: ready_def codecs_ok_def)

lemma represents_abs:
  assumes "represents p d s"
  shows "tables_ok p d" "abs_state p d = (data s)\<lparr>st_Audit := []\<rparr>"
  using assms by (simp_all add: represents_def)

lemma put_run:
  assumes "represents p d s" and "ready p d" and "run_ID v = i" and "spath s' = []"
    and "(data s')\<lparr>st_Audit := []\<rparr> = (data s)\<lparr>st_Audit := [], st_Runs := put_by run_ID v (st_Runs (data s))\<rparr>"
  shows "simulated p d (run_prog (Pg_put p k t (c_run p) ''pipeline_run'' i v action actor metadata) d) (s', (v, None))"
  using wrote_run [OF _ represents_abs(1) [OF assms(1)], of v]
  by (intro put_simulated [OF assms(2) codecs_faithful(1) [OF assms(2)] represents_tables(2) [OF assms(1)] assms(3,4)])
    (simp add: represents_abs(2) [OF assms(1)] assms(5))

lemma put_model:
  assumes "represents p d s" and "ready p d" and "mdl_ID v = i" and "spath s' = []"
    and "(data s')\<lparr>st_Audit := []\<rparr> = (data s)\<lparr>st_Audit := [], st_Models := put_by mdl_ID v (st_Models (data s))\<rparr>"
  shows "simulated p d (run_prog (Pg_put p k t (c_model p) ''model'' i v action actor metadata) d) (s', (v, None))"
  using wrote_model [OF _ represents_abs(1) [OF assms(1)], of v]
  by (intro put_simulated [OF assms(2) codecs_faithful(2) [OF assms(2)] represents_tables(4) [OF assms(1)] assms(3,4)])
    (simp add: represents_abs(2) [OF assms(1)] assms(5))

lemma put_agent:
  assumes "represents p d s" and "ready p d" and "agt_ID v = i" and "spath s' = []"
    and "(data s')\<lparr>st_Audit := []\<rparr> = (data s)\<lparr>st_Audit := [], st_Agents := put_by agt_ID v (st_Agents (data s))\<rparr>"
  shows "simulated p d (run_prog (Pg_put p k t (c_agent p) ''agent'' i v action actor metadata) d) (s', (v, None))"
  using wrote_agent [OF _ represents_abs(1) [OF assms(1)], of v]
  by (intro put_simulated [OF assms(2) codecs_faithful(3) [OF assms(2)] represents_tables(6) [OF assms(1)] assms(3,4)])
    (simp add: represents_abs(2) [OF assms(1)] assms(5))

lemma put_request:
  assumes "represents p d s" and "ready p d" and "ar_ID v = i" and "spath s' = []"
    and "(data s')\<lparr>st_Audit := []\<rparr> = (data s)\<lparr>st_Audit := [], st_AccessRequests := put_by ar_ID v (st_AccessRequests (data s))\<rparr>"
  shows "simulated p d (run_prog (Pg_put p k t (c_request p) ''access_request'' i v action actor metadata) d) (s', (v, None))"
  using wrote_request [OF _ represents_abs(1) [OF assms(1)], of v]
  by (intro put_simulated [OF assms(2) codecs_faithful(4) [OF assms(2)] represents_tables(8) [OF assms(1)] assms(3,4)])
    (simp add: represents_abs(2) [OF assms(1)] assms(5))

lemma put_connection:
  assumes "represents p d s" and "ready p d" and "con_ID v = i" and "spath s' = []"
    and "(data s')\<lparr>st_Audit := []\<rparr> = (data s)\<lparr>st_Audit := [], st_Connections := put_by con_ID v (st_Connections (data s))\<rparr>"
  shows "simulated p d (run_prog (Pg_put p k t (c_connection p) ''connection'' i v action actor metadata) d) (s', (v, None))"
  using wrote_connection [OF _ represents_abs(1) [OF assms(1)], of v]
  by (intro put_simulated [OF assms(2) codecs_faithful(5) [OF assms(2)] represents_tables(10) [OF assms(1)] assms(3,4)])
    (simp add: represents_abs(2) [OF assms(1)] assms(5))

lemma put_tool:
  assumes "represents p d s" and "ready p d" and "tool_ID v = i" and "spath s' = []"
    and "(data s')\<lparr>st_Audit := []\<rparr> = (data s)\<lparr>st_Audit := [], st_Tools := put_by tool_ID v (st_Tools (data s))\<rparr>"
  shows "simulated p d (run_prog (Pg_put p k t (c_tool p) ''tool'' i v action actor metadata) d) (s', (v, None))"
  using wrote_tool [OF _ represents_abs(1) [OF assms(1)], of v]
  by (intro put_simulated [OF assms(2) codecs_faithful(6) [OF assms(2)] represents_tables(12) [OF assms(1)] assms(3,4)])
    (simp add: represents_abs(2) [OF assms(1)] assms(5))

lemma put_project:
  assumes "represents p d s" and "ready p d" and "prj_ID v = i" and "spath s' = []"
    and "(data s')\<lparr>st_Audit := []\<rparr> = (data s)\<lparr>st_Audit := [], st_Projects := put_by prj_ID v (st_Projects (data s))\<rparr>"
  shows "simulated p d (run_prog (Pg_put p k t (c_project p) ''project'' i v action actor metadata) d) (s', (v, None))"
  using wrote_project [OF _ represents_abs(1) [OF assms(1)], of v]
  by (intro put_simulated [OF assms(2) codecs_faithful(7) [OF assms(2)] represents_tables(14) [OF assms(1)] assms(3,4)])
    (simp add: represents_abs(2) [OF assms(1)] assms(5))

lemma put_by_new:
  assumes "ready p d" and "keyed p c kind key d" and "key v = new_id pre (pclk p t)"
  shows "put_by key v (rows_listed p c kind d) = v # rows_listed p c kind d"
proof -
  have "row_of p kind (new_id pre (pclk p t)) d = None"
    using assms(1) by (auto simp: row_of_def ready_def find_None_iff)
  then have "new_id pre (pclk p t) \<notin> key ` set (rows_listed p c kind d)" using row_of_present [OF assms(2)] by blast
  then have "find (\<lambda>x. key x = key v) (rows_listed p c kind d) = None" using assms(3) by (force simp: find_None_iff)
  then show ?thesis by (simp add: put_by_def)
qed

lemma put_by_old: "find (\<lambda>x. key x = i) xs = Some y \<Longrightarrow> key v = i \<Longrightarrow> put_by key v xs = update_first (\<lambda>x. key x = i) (\<lambda>_. v) xs"
  by (simp add: put_by_def)

lemma unchanged: "represents p d s \<Longrightarrow> simulated p d (d, (v, Some err)) (s, (w, Some err))"
  by (simp add: simulated_def)

lemma represents_memory: "represents p d s \<Longrightarrow> spath s = []"
  by (simp add: represents_def)

subsection \<open>Runs\<close>

text \<open>
  \<open>CancelRun\<close> reads the clock once here and twice in the file-backed store, whose environment
  is therefore one with a still clock.
\<close>

lemma run_calls_refine:
  assumes rep: "represents p d s" and rdy: "ready p d"
  shows "simulated p d (run_prog (Pg_CancelRun p i actor) d) (Store_CancelRun ((pg_env p)\<lparr>clk := \<lambda>_. pclk p 0\<rparr>) s i actor)"
      (is ?cancel)
    and "simulated p d (run_prog (Pg_SetRunEngine p i g) d) (Store_SetRunEngine (pg_env p) s i g)" (is ?link)
    and "simulated p d (run_prog (Pg_UpdateRunStep p i req actor) d) (Store_UpdateRunStep (pg_env p) s i req actor)" (is ?report)
    and "simulated p d (run_prog (Pg_RetryRun p i actor) d) (Store_RetryRun (pg_env p) s i actor)" (is ?retry)
proof -
  note defs = Pg_CancelRun_def Store_CancelRun_def Pg_SetRunEngine_def Store_SetRunEngine_def Pg_UpdateRunStep_def
    Store_UpdateRunStep_def Pg_RetryRun_def Store_RetryRun_def Let_def
  note eval = run_get [OF rdy represents_tables(2) [OF rep]] represents_tables(1) [OF rep] unchanged rep
    represents_memory [OF rep] commit_in_memory
  note new = put_by_new [OF rdy represents_tables(2) [OF rep], unfolded represents_tables(1) [OF rep]]
  have "?cancel \<and> ?link \<and> ?report \<and> ?retry"
  proof (cases "find (\<lambda>r. run_ID r = i) (st_Runs (data s))")
    case None
    then show ?thesis by (simp add: defs eval)
  next
    case (Some r)
    have "run_ID r = i" using find_SomeD [OF Some] by simp
    with Some show ?thesis
      by (auto simp: defs eval new put_by_old [OF Some] intro!: put_run [OF rep rdy])
  qed
  then show ?cancel ?link ?report ?retry by blast+
qed

text \<open>A submission, with a name that has no white space around it.\<close>

lemma submit_refines:
  assumes rep: "represents p d s" and rdy: "ready p d" and trim: "TrimSpace (sub_Name req) = sub_Name req"
    and defs: "\<forall>def \<in> set (st_Definitions (data s)). TrimSpace (pd_Name def) = pd_Name def"
  shows "simulated p d (run_prog (Pg_SubmitPipeline p req actors) d) (Store_SubmitPipeline (pg_env p) s req actors)"
proof -
  have project: "hasProject (st_Projects (data s)) i \<longleftrightarrow> i \<in> prj_ID ` set (rows_listed p (c_project p) ''project'' d)" for i
    by (simp add: represents_tables(13) [OF rep] hasProject_iff)
  note eval = run_exists [OF rdy represents_tables(14) [OF rep]] run_get [OF rdy represents_tables(16) [OF rep]]
    represents_tables(15) [OF rep] unchanged rep represents_memory [OF rep] commit_in_memory project
  note new = put_by_new [OF rdy represents_tables(2) [OF rep], unfolded represents_tables(1) [OF rep]]
  have train: "TrimSpace ''training-pipeline'' = ''training-pipeline''"
    by (rule TrimSpace_slug) (simp add: slug_chars_def is_lower_alnum_def)
  show ?thesis
  proof (cases "sub_DefinitionID req = []")
    case True
    then show ?thesis
      using trim train
      by (auto simp: Pg_SubmitPipeline_def Store_SubmitPipeline_def submission_plan_def Let_def eval new intro!: put_run [OF rep rdy])
  next
    case False
    show ?thesis
    proof (cases "find (\<lambda>def. pd_ID def = sub_DefinitionID req) (st_Definitions (data s))")
      case None
      with False show ?thesis
        by (simp add: Pg_SubmitPipeline_def Store_SubmitPipeline_def submission_plan_def pipelineDefinitionFrom_def Let_def eval)
    next
      case (Some def)
      have "TrimSpace (pd_Name def) = pd_Name def" using find_SomeD [OF Some] defs by blast
      with Some False show ?thesis
        using trim train
        by (auto simp: Pg_SubmitPipeline_def Store_SubmitPipeline_def submission_plan_def pipelineDefinitionFrom_def Let_def
            eval new intro!: put_run [OF rep rdy])
    qed
  qed
qed

subsection \<open>Models\<close>

lemma model_calls_refine:
  assumes rep: "represents p d s" and rdy: "ready p d"
  shows "simulated p d (run_prog (Pg_PromoteModel p i stage actor) d) (Store_PromoteModel (pg_env p) s i stage actor)" (is ?promote)
    and "simulated p d (run_prog (Pg_DeployModel p i weight actor) d) (Store_DeployModel (pg_env p) s i weight actor)" (is ?deploy)
    and "simulated p d (run_prog (Pg_SetModelEndpoint p i endpoint status) d) (Store_SetModelEndpoint (pg_env p) s i endpoint status)"
      (is ?endpoint)
    and "simulated p d (run_prog (Pg_RollbackModel p i actor) d) (Store_RollbackModel (pg_env p) s i actor)" (is ?rollback)
proof -
  note defs = Pg_PromoteModel_def Store_PromoteModel_def Pg_DeployModel_def Store_DeployModel_def Pg_SetModelEndpoint_def
    Store_SetModelEndpoint_def Pg_RollbackModel_def Store_RollbackModel_def Let_def
  note eval = run_get [OF rdy represents_tables(4) [OF rep]] represents_tables(3) [OF rep] unchanged rep
    represents_memory [OF rep] commit_in_memory
  have "?promote \<and> ?deploy \<and> ?endpoint \<and> ?rollback"
  proof (cases "find (\<lambda>m. mdl_ID m = i) (st_Models (data s))")
    case None
    then show ?thesis by (simp add: defs eval)
  next
    case (Some m)
    have "mdl_ID m = i" using find_SomeD [OF Some] by simp
    note found = Some this
    have ?promote using found by (auto simp: defs eval put_by_old [OF Some] intro!: put_model [OF rep rdy])
    moreover have ?deploy using found by (auto simp: defs eval put_by_old [OF Some] intro!: put_model [OF rep rdy])
    moreover have ?endpoint using found by (auto simp: defs eval put_by_old [OF Some] intro!: put_model [OF rep rdy])
    moreover have ?rollback using found by (auto simp: defs eval put_by_old [OF Some] intro!: put_model [OF rep rdy])
    ultimately show ?thesis by blast
  qed
  then show ?promote ?deploy ?endpoint ?rollback by blast+
qed

lemma register_model_refines:
  assumes rep: "represents p d s" and rdy: "ready p d"
  shows "simulated p d (run_prog (Pg_RegisterModel p req actor) d) (Store_RegisterModel (pg_env p) s req actor)"
proof -
  have project: "hasProject (st_Projects (data s)) i \<longleftrightarrow> i \<in> prj_ID ` set (rows_listed p (c_project p) ''project'' d)" for i
    by (simp add: represents_tables(13) [OF rep] hasProject_iff)
  note eval = run_exists [OF rdy represents_tables(14) [OF rep]] run_list [OF rdy] represents_tables(3) [OF rep]
    unchanged rep represents_memory [OF rep] commit_in_memory project
  note new = put_by_new [OF rdy represents_tables(4) [OF rep], unfolded represents_tables(3) [OF rep]]
  show ?thesis
    by (auto simp: Pg_RegisterModel_def Store_RegisterModel_def Let_def eval new intro!: put_model [OF rep rdy])
qed

subsection \<open>Agents, tools, connections, access requests and projects\<close>

lemma agent_calls_refine:
  assumes rep: "represents p d s" and rdy: "ready p d"
  shows "simulated p d (run_prog (Pg_DeployAgent p req actor) d) (Store_DeployAgent (pg_env p) s req actor)"
    and "simulated p d (run_prog (Pg_SetAgentTraffic p i weight actor) d) (Store_SetAgentTraffic (pg_env p) s i weight actor)"
proof -
  have project: "hasProject (st_Projects (data s)) i \<longleftrightarrow> i \<in> prj_ID ` set (rows_listed p (c_project p) ''project'' d)" for i
    by (simp add: represents_tables(13) [OF rep] hasProject_iff)
  note eval = run_exists [OF rdy represents_tables(14) [OF rep]] run_get [OF rdy represents_tables(6) [OF rep]]
    represents_tables(5) [OF rep] unchanged rep represents_memory [OF rep] commit_in_memory project
  note new = put_by_new [OF rdy represents_tables(6) [OF rep], unfolded represents_tables(5) [OF rep]]
  show "simulated p d (run_prog (Pg_DeployAgent p req actor) d) (Store_DeployAgent (pg_env p) s req actor)"
    by (auto simp: Pg_DeployAgent_def Store_DeployAgent_def Let_def eval new intro!: put_agent [OF rep rdy])
  show "simulated p d (run_prog (Pg_SetAgentTraffic p i weight actor) d) (Store_SetAgentTraffic (pg_env p) s i weight actor)"
  proof (cases "find (\<lambda>x. agt_ID x = i) (st_Agents (data s))")
    case (Some x)
    have "agt_ID x = i" using find_SomeD [OF Some] by simp
    with Some show ?thesis
      by (auto simp: Pg_SetAgentTraffic_def Store_SetAgentTraffic_def Let_def eval put_by_old [OF Some] intro!: put_agent [OF rep rdy])
  qed (simp add: Pg_SetAgentTraffic_def Store_SetAgentTraffic_def eval)
qed

lemma tool_and_connection_calls_refine:
  assumes rep: "represents p d s" and rdy: "ready p d"
  shows "simulated p d (run_prog (Pg_RegisterTool p req actor) d) (Store_RegisterTool (pg_env p) s req actor)"
    and "simulated p d (run_prog (Pg_UpdateConnectionStatus p i status message actor) d)
      (Store_UpdateConnectionStatus (pg_env p) s i status message actor)"
proof -
  note eval = run_list [OF rdy] run_get [OF rdy represents_tables(10) [OF rep]] represents_tables(9,11) [OF rep]
    unchanged rep represents_memory [OF rep] commit_in_memory
  note new = put_by_new [OF rdy represents_tables(12) [OF rep], unfolded represents_tables(11) [OF rep]]
  show "simulated p d (run_prog (Pg_RegisterTool p req actor) d) (Store_RegisterTool (pg_env p) s req actor)"
    by (auto simp: Pg_RegisterTool_def Store_RegisterTool_def Let_def eval new intro!: put_tool [OF rep rdy])
  show "simulated p d (run_prog (Pg_UpdateConnectionStatus p i status message actor) d)
      (Store_UpdateConnectionStatus (pg_env p) s i status message actor)"
  proof (cases "find (\<lambda>x. con_ID x = i) (st_Connections (data s))")
    case (Some x)
    have "con_ID x = i" using find_SomeD [OF Some] by simp
    with Some show ?thesis
      by (auto simp: Pg_UpdateConnectionStatus_def Store_UpdateConnectionStatus_def Let_def eval put_by_old [OF Some] intro!: put_connection [OF rep rdy])
  qed (simp add: Pg_UpdateConnectionStatus_def Store_UpdateConnectionStatus_def eval)
qed

lemma request_calls_refine:
  assumes rep: "represents p d s" and rdy: "ready p d"
  shows "simulated p d (run_prog (Pg_CreateAccessRequest p sub email req) d) (Store_CreateAccessRequest (pg_env p) s sub email req)"
    and "simulated p d (run_prog (Pg_ReviewAccessRequest p i rreq reviewer) d) (Store_ReviewAccessRequest (pg_env p) s i rreq reviewer)"
proof -
  note eval = run_list [OF rdy] run_get [OF rdy represents_tables(8) [OF rep]] represents_tables(7) [OF rep]
    unchanged rep represents_memory [OF rep] commit_in_memory
  note new = put_by_new [OF rdy represents_tables(8) [OF rep], unfolded represents_tables(7) [OF rep]]
  show "simulated p d (run_prog (Pg_CreateAccessRequest p sub email req) d) (Store_CreateAccessRequest (pg_env p) s sub email req)"
    by (auto simp: Pg_CreateAccessRequest_def Store_CreateAccessRequest_def Let_def eval new split_beta
        intro!: put_request [OF rep rdy])
  show "simulated p d (run_prog (Pg_ReviewAccessRequest p i rreq reviewer) d) (Store_ReviewAccessRequest (pg_env p) s i rreq reviewer)"
  proof (cases "find (\<lambda>x. ar_ID x = i) (st_AccessRequests (data s))")
    case (Some x)
    have "ar_ID x = i" using find_SomeD [OF Some] by simp
    with Some show ?thesis
      by (auto simp: Pg_ReviewAccessRequest_def Store_ReviewAccessRequest_def Let_def eval put_by_old [OF Some] intro!: put_request [OF rep rdy])
  qed (simp add: Pg_ReviewAccessRequest_def Store_ReviewAccessRequest_def eval)
qed

lemma create_project_refines:
  assumes rep: "represents p d s" and rdy: "ready p d" and trim: "TrimSpace (cpr_Name req) = cpr_Name req"
  shows "simulated p d (run_prog (Pg_CreateProject p req actors) d) (Store_CreateProject (pg_env p) s req actors)"
proof -
  note eval = run_list [OF rdy] represents_tables(13) [OF rep] unchanged rep represents_memory [OF rep] commit_in_memory
  note new = put_by_new [OF rdy represents_tables(14) [OF rep], unfolded represents_tables(13) [OF rep]]
  show ?thesis
    using trim
    by (auto simp: Pg_CreateProject_def Store_CreateProject_def Let_def eval new split_beta intro!: put_project [OF rep rdy])
qed

subsection \<open>Serial executions\<close>

text \<open>One call after the other, each with an environment of the same tenant, later in time.\<close>

inductive pg_call :: "pgenv \<Rightarrow> db \<Rightarrow> db \<Rightarrow> bool" for p d where
  cancel: "pg_call p d (fst (run_prog (Pg_CancelRun p i actor) d))"
| link: "pg_call p d (fst (run_prog (Pg_SetRunEngine p i g) d))"
| report: "pg_call p d (fst (run_prog (Pg_UpdateRunStep p i usr actor) d))"
| retry: "pg_call p d (fst (run_prog (Pg_RetryRun p i actor) d))"
| promote: "pg_call p d (fst (run_prog (Pg_PromoteModel p i stage actor) d))"
| deploy: "pg_call p d (fst (run_prog (Pg_DeployModel p i weight actor) d))"
| endpoint: "pg_call p d (fst (run_prog (Pg_SetModelEndpoint p i ep status) d))"
| rollback: "pg_call p d (fst (run_prog (Pg_RollbackModel p i actor) d))"
| register: "pg_call p d (fst (run_prog (Pg_RegisterModel p rmr actor) d))"
| agent: "pg_call p d (fst (run_prog (Pg_DeployAgent p dar actor) d))"
| traffic: "pg_call p d (fst (run_prog (Pg_SetAgentTraffic p i weight actor) d))"
| tool: "pg_call p d (fst (run_prog (Pg_RegisterTool p rtr actor) d))"
| checked: "pg_call p d (fst (run_prog (Pg_UpdateConnectionStatus p i status message actor) d))"
| request: "pg_call p d (fst (run_prog (Pg_CreateAccessRequest p sub email car) d))"
| review: "pg_call p d (fst (run_prog (Pg_ReviewAccessRequest p i rar reviewer) d))"
| project: "TrimSpace (cpr_Name cpr) = cpr_Name cpr \<Longrightarrow> pg_call p d (fst (run_prog (Pg_CreateProject p cpr actors) d))"

definition later :: "pgenv \<Rightarrow> pgenv \<Rightarrow> bool" where
  "later p q \<longleftrightarrow> pg_now p \<le> pg_now q \<and> pg_tenant q = pg_tenant p \<and> c_project q = c_project p \<and> c_run q = c_run p \<and>
     c_definition q = c_definition p \<and> c_function q = c_function p \<and> c_model q = c_model p \<and> c_agent q = c_agent p \<and>
     c_tool q = c_tool p \<and> c_connection q = c_connection p \<and> c_access q = c_access p \<and> c_request q = c_request p \<and>
     c_token q = c_token p \<and> c_post q = c_post p \<and> c_view q = c_view p \<and> c_session q = c_session p \<and> c_trace q = c_trace p"

inductive pg_serial :: "pgenv \<Rightarrow> db \<Rightarrow> pgenv \<Rightarrow> db \<Rightarrow> bool" for p d where
  start: "pg_serial p d p d"
| call: "pg_serial p d q d' \<Longrightarrow> later q q' \<Longrightarrow> ready q' d' \<Longrightarrow> pg_call q' d' d'' \<Longrightarrow> pg_serial p d q' d''"

lemma simulated_step:
  assumes "simulated p d x y" and "represents p d s" and "store_step s (fst y)"
  shows "\<exists>s'. store_step\<^sup>*\<^sup>* s s' \<and> represents p (fst x) s'"
  using assms by (auto simp: simulated_def)

lemma pg_call_refines:
  assumes "pg_call p d d'" and rep: "represents p d s" and rdy: "ready p d"
  shows "\<exists>s'. store_step\<^sup>*\<^sup>* s s' \<and> represents p d' s'"
  using assms(1)
proof cases
  case project
  then show ?thesis
    using simulated_step [OF create_project_refines [OF rep rdy] rep] by (metis store_step.create_project)
qed (auto intro: store_step.intros
    intro!: simulated_step [OF run_calls_refine(1) [OF rep rdy] rep] simulated_step [OF run_calls_refine(2) [OF rep rdy] rep]
      simulated_step [OF run_calls_refine(3) [OF rep rdy] rep] simulated_step [OF run_calls_refine(4) [OF rep rdy] rep]
      simulated_step [OF model_calls_refine(1) [OF rep rdy] rep] simulated_step [OF model_calls_refine(2) [OF rep rdy] rep]
      simulated_step [OF model_calls_refine(3) [OF rep rdy] rep] simulated_step [OF model_calls_refine(4) [OF rep rdy] rep]
      simulated_step [OF register_model_refines [OF rep rdy] rep]
      simulated_step [OF agent_calls_refine(1) [OF rep rdy] rep] simulated_step [OF agent_calls_refine(2) [OF rep rdy] rep]
      simulated_step [OF tool_and_connection_calls_refine(1) [OF rep rdy] rep]
      simulated_step [OF tool_and_connection_calls_refine(2) [OF rep rdy] rep]
      simulated_step [OF request_calls_refine(1) [OF rep rdy] rep] simulated_step [OF request_calls_refine(2) [OF rep rdy] rep])

lemma represents_later: "represents p d s \<Longrightarrow> later p q \<Longrightarrow> represents q d s"
proof -
  assume rep: "represents p d s" and l: "later p q"
  have rows: "kind_rows q kind d = kind_rows p kind d" for kind using l by (simp add: kind_rows_def later_def)
  show ?thesis
    using rep l by (simp add: represents_def tables_ok_def abs_state_def later_def rows_listed_def rows keyed_def)
      (meson order_trans)
qed

lemma pg_serial_refines:
  assumes "pg_serial p d q d'" and "represents p d s"
  shows "\<exists>s'. store_step\<^sup>*\<^sup>* s s' \<and> represents q d' s'"
  using assms
proof (induction rule: pg_serial.induct)
  case (call q d' q' d'')
  then obtain s1 where s1: "store_step\<^sup>*\<^sup>* s s1" "represents q d' s1" by blast
  from pg_call_refines [OF call.hyps(4) represents_later [OF s1(2) call.hyps(2)] call.hyps(3)] s1(1) show ?case
    by (meson rtranclp_trans)
qed auto

end
