(* ===== verification/Postgres_Races.thy ===== *)
theory Postgres_Races
  imports Postgres_Contracts
begin

text \<open>
  What concurrency costs the PostgreSQL repository: its methods read a row, change the value
  and write it back without a lock or a version check, so a change committed in between is
  overwritten. The file-backed store holds its mutex during the whole method and is not
  affected.
\<close>

lemma find_update_same:
  "find P xs = Some x \<Longrightarrow> (\<And>x. P x \<Longrightarrow> P (f x)) \<Longrightarrow> find P (update_first P f xs) = Some (f x)"
  by (induction xs) auto

lemma row_of_upsert: "\<exists>r. row_of p kind i (upsert_resource p kind i raw d) = Some r \<and> rr_payload r = raw"
proof (cases "row_of p kind i d")
  case None
  then show ?thesis by (simp add: row_of_def upsert_resource_def)
next
  case (Some r)
  then show ?thesis
    unfolding row_of_def upsert_resource_def by (simp add: find_update_same)
qed

text \<open>A committed write is what the next reader sees.\<close>

lemma write_then_get:
  assumes "transaction p k k' (write_body p k t kind i (enc c v) action actor metadata) d = (d', None)" and "faithful c"
  shows "row_value c (row_of p kind i d') = (v, None)"
proof -
  from assms(1) have "write_body p k t kind i (enc c v) action actor metadata d = Inl d'" by (simp add: transaction_ok)
  from write_body_Inl [OF this] obtain raw d1 d2 where raw: "enc c v = Some raw"
    and d1: "insert_audit p (pg_event p t action kind i actor metadata) (upsert_resource p kind i raw d) = Inl d1"
    and d2: "insert_outbox p (new_id ''out'' (pclk p (t + 2))) ''mlaiops.audit.operations'' i
      (enc_event p (pg_event p t action kind i actor metadata)) d1 = Inl d2"
    and d': "if topicForAction action = [] then d' = d2
      else \<exists>raw. insert_outbox p (new_id ''out'' (pclk p (t + 3))) (topicForAction action) i (Some raw) d2 = Inl d'"
    by blast
  have "db_resources d' = db_resources (upsert_resource p kind i raw d)"
    using d1 d2 d' by (auto simp: insert_audit_def insert_outbox_def split: if_splits option.splits)
  then have "row_of p kind i d' = row_of p kind i (upsert_resource p kind i raw d)" by (simp add: row_of_def)
  then show ?thesis
    using row_of_upsert [of p kind i raw d] raw assms(2) by (auto simp: row_value_def faithful_def)
qed

subsection \<open>A cancellation overwritten by a step report\<close>

text \<open>The report reads the run, the cancellation reads and commits, the report commits.\<close>

lemma cancel_lost:
  assumes same: "pg_tenant q = pg_tenant p" "c_run q = c_run p" and codec: "faithful (c_run p)"
    and r: "row_value (c_run p) (row_of p ''pipeline_run'' i d) = (r, None)" "run_ID r = i" "\<not> run_terminal r"
    and req: "usr_Step req \<noteq> []" "validStepStatus (usr_Status req)" and quiet: "pg_err p 0 = None" "pg_err q 0 = None"
    and run: "interleave [1, 0, 0, 1] (d, [Pg_CancelRun q i actor, Pg_UpdateRunStep p i req who]) =
      (d', [Return (c, None), Return (u, None)])"
  shows "run_Status c = ''cancelled'' \<and> run_prog (Pg_Run p i) d' = (d', (u, None)) \<and> run_Status u \<noteq> ''cancelled''"
proof -
  have st: "usr_Status req \<noteq> []" using req(2) by (auto simp: validStepStatus_def)
  have live: "run_Status r \<noteq> ''succeeded''" "run_Status r \<noteq> ''failed''" "run_Status r \<noteq> ''cancelled''"
    using r(3) by (auto simp: run_terminal_def)
  have row: "row_of q ''pipeline_run'' i d = row_of p ''pipeline_run'' i d" by (simp add: row_of_def same)
  let ?c = "r\<lparr>run_Status := ''cancelled'', run_UpdatedAt := pclk q 0, run_Logs := run_Logs r @
    [\<lparr>rl_Timestamp = pclk q 0, rl_Step = [], rl_Level = ''warning'', rl_Message = ''Run cancelled by '' @ actor\<rparr>]\<rparr>"
  let ?u = "report_step (pclk p 0) req r"
  let ?w1 = "transaction q 1 6 (write_body q 1 1 ''pipeline_run'' i (enc (c_run p) ?c) ''pipeline.cancelled'' actor [])"
  let ?w2 = "transaction p 1 6 (write_body p 1 1 ''pipeline_run'' i (enc (c_run p) ?u) ''pipeline.step_reported'' who
    [(''step'', AnyStr (usr_Step req)), (''status'', AnyStr (usr_Status req))])"
  have "interleave [1, 0, 0, 1] (d, [Pg_CancelRun q i actor, Pg_UpdateRunStep p i req who]) =
      (let (d1, e1) = ?w1 d; (d2, e2) = ?w2 d1 in (d2, [Return (?c, e1), Return (?u, e2)]))"
    using req st r row same live quiet
    by (simp add: Pg_CancelRun_def Pg_UpdateRunStep_def Pg_get_def Pg_put_def Pg_write_def split_beta Let_def)
  with run obtain d1 where w: "?w1 d = (d1, None)" "?w2 d1 = (d', None)" "c = ?c" "u = ?u"
    by (auto simp: split_beta Let_def prod_eq_iff)
  have "row_value (c_run p) (row_of p ''pipeline_run'' i d') = (u, None)"
    using write_then_get [OF w(2) codec] w(4) by simp
  moreover have "run_Status ?u \<noteq> ''cancelled''"
    using r(3) live by (auto simp: report_step_def Let_def run_terminal_def applyStepTransition_spec run_verdict_def)
  ultimately show ?thesis using w(3,4) quiet by (simp add: Pg_Run_def Pg_get_def)
qed

subsection \<open>A revocation overwritten by the last use of the token\<close>

lemma row_of_update_payload:
  assumes "row_of p kind i d = Some r"
  shows "row_of p kind i (update_payload p kind i raw d) = Some (r\<lparr>rr_payload := raw, rr_updated := pg_now p\<rparr>)"
  using assms unfolding row_of_def update_payload_def by (simp add: find_update_same)

text \<open>The resolution lists the tokens, the revocation reads and commits, the resolution stores the time of use.\<close>

lemma revocation_lost:
  assumes same: "pg_tenant q = pg_tenant p" "c_token q = c_token p" and codec: "faithful (c_token p)"
    and t: "find (token_live (pclk p 0) secret) (rows_listed p (c_token p) ''api_token'' d) = Some t"
    and row: "row_value (c_token p) (row_of p ''api_token'' (tok_ID t) d) = (t, None)"
    and quiet: "\<And>k. pg_err p k = None" "pg_err q 0 = None" and coded: "enc (c_token p) (t\<lparr>tok_LastUsedAt := Some (pclk p 0)\<rparr>) \<noteq> None"
    and run: "interleave [1, 0, 0] (d, [map_prog (\<lambda>r. r) (Pg_RevokeAPIToken q (tok_Subject t) (tok_ID t)),
        map_prog snd (Pg_ResolveAPIToken p secret)]) = (d1, [Return None, rest])"
  shows "\<exists>revoked. row_value (c_token p) (row_of p ''api_token'' (tok_ID t) d1) = (revoked, None) \<and> tok_RevokedAt revoked \<noteq> None"
    and "row_value (c_token p) (row_of p ''api_token'' (tok_ID t) (fst (interleave [1] (d1, [Return None, rest])))) =
      (t\<lparr>tok_LastUsedAt := Some (pclk p 0)\<rparr>, None)"
    and "tok_RevokedAt t = None"
proof -
  let ?i = "tok_ID t"
  let ?t = "t\<lparr>tok_RevokedAt := Some (pclk q 0)\<rparr>" and ?used = "t\<lparr>tok_LastUsedAt := Some (pclk p 0)\<rparr>"
  show open_t: "tok_RevokedAt t = None" using find_SomeD [OF t] by (simp add: token_live_def)
  have rows: "row_of q kind j x = row_of p kind j x" for kind j x by (simp add: row_of_def same)
  obtain raw where raw: "enc (c_token p) ?used = Some raw" using coded by blast
  let ?w = "transaction q 1 6 (write_body q 1 1 ''api_token'' ?i (enc (c_token p) ?t) ''api_token.revoked'' (tok_Subject t) [])"
  have "interleave [1, 0, 0] (d, [map_prog (\<lambda>r. r) (Pg_RevokeAPIToken q (tok_Subject t) ?i), map_prog snd (Pg_ResolveAPIToken p secret)]) =
      (let (d1, e1) = ?w d in (d1, [Return e1,
         Atomic (\<lambda>d. (update_payload p ''api_token'' ?i raw d, Return None))]))"
    using t row quiet open_t raw same
    by (simp add: Pg_RevokeAPIToken_def Pg_ResolveAPIToken_def Pg_get_def Pg_list_def Pg_write_def split_beta Let_def rows comp_def)
  with run have w: "?w d = (d1, None)" and rest: "rest = Atomic (\<lambda>d. (update_payload p ''api_token'' ?i raw d, Return None))"
    by (auto simp: split_beta Let_def prod_eq_iff)
  from write_then_get [OF w codec] have get: "row_value (c_token p) (row_of p ''api_token'' ?i d1) = (?t, None)"
    by (simp add: rows)
  then show "\<exists>revoked. row_value (c_token p) (row_of p ''api_token'' ?i d1) = (revoked, None) \<and> tok_RevokedAt revoked \<noteq> None"
    by simp
  from get obtain r1 where "row_of p ''api_token'' ?i d1 = Some r1"
    by (auto simp: row_value_def split: option.splits)
  from row_of_update_payload [OF this, of raw] raw codec
  show "row_value (c_token p) (row_of p ''api_token'' ?i (fst (interleave [1] (d1, [Return None, rest])))) = (?used, None)"
    by (simp add: rest row_value_def faithful_def)
qed

end
