(* ===== verification/Dispatcher.thy ===== *)
theory Dispatcher
  imports Api Go_Crypto
begin

text \<open>
  The integration worker: \<^verbatim>\<open>go/internal/integrations/dispatcher.go\<close> and the loop of
  \<^verbatim>\<open>go/cmd/integration-worker/main.go\<close>. It turns the lifecycle commands of the outbox into
  Kubernetes custom resources.

  The Kubernetes API server is a parameter: \<open>kube_answers\<close> holds its answers to the calls of
  one dispatch, and \<open>Dispatch\<close> returns the calls it makes with its error. \<open>encoding/json\<close> is the
  parameter \<open>dispatch_json\<close>; a JSON number in a value of type \<open>any\<close> is a \<open>float64\<close>.
\<close>

subsection \<open>Values of type \<open>any\<close>\<close>

definition any_field :: "gany gomap \<Rightarrow> string \<Rightarrow> gany" where
  "any_field m k = (case map_of m k of Some v \<Rightarrow> v | None \<Rightarrow> AnyNil)"

definition any_string :: "gany \<Rightarrow> string" where
  "any_string v = (case v of AnyStr s \<Rightarrow> s | _ \<Rightarrow> [])"

definition any_map :: "gany \<Rightarrow> gany gomap" where
  "any_map v = (case v of AnyMap m \<Rightarrow> m | _ \<Rightarrow> [])"

text \<open>
  The conversion \<open>int64(number)\<close> drops the fraction. Outside the range of \<open>int64\<close> the
  language leaves the result open; the amd64 and arm64 compilers differ there.
\<close>

definition f64_trunc :: "f64 \<Rightarrow> int" where
  "f64_trunc w = (let n = f64_scaled w in if n < 0 then - (- n div 2 ^ 1074) else n div 2 ^ 1074)"

definition f64_to_int64 :: "(f64 \<Rightarrow> int) \<Rightarrow> f64 \<Rightarrow> int" where
  "f64_to_int64 outside w =
     (if f64_finite w \<and> - (2 ^ 63) \<le> f64_trunc w \<and> f64_trunc w < 2 ^ 63 then f64_trunc w else outside w)"

definition integer :: "(f64 \<Rightarrow> int) \<Rightarrow> gany \<Rightarrow> int" where
  "integer outside v = (case v of AnyFloat w \<Rightarrow> f64_to_int64 outside w | AnyInt n \<Rightarrow> n | _ \<Rightarrow> 0)"

definition toolRefs :: "gany \<Rightarrow> gany" where
  "toolRefs v = AnyList (case v of AnyList items \<Rightarrow>
     map (\<lambda>item. AnyMap [(''name'', item), (''version'', AnyStr ''latest'')]) items | _ \<Rightarrow> [])"

subsection \<open>Names\<close>

text \<open>Every run of bytes outside \<open>[a-z0-9]\<close> becomes one dash.\<close>

fun dash_runs :: "bool \<Rightarrow> string \<Rightarrow> string" where
  "dash_runs inside [] = []"
| "dash_runs inside (c # cs) =
     (if is_lower_alnum c then c # dash_runs False cs
      else if inside then dash_runs True cs
      else CHR ''-'' # dash_runs True cs)"

definition dnsName :: "string \<Rightarrow> string \<Rightarrow> string" where
  "dnsName name0 fallback =
     (let name = (if name0 = [] then fallback else name0);
          raw = ToLower name;
          value0 = TrimByte (CHR ''-'') (dash_runs False raw);
          value = (if value0 = [] then ''resource'' else value0)
      in if length value \<le> 63 then value
         else TrimByte (CHR ''-'') (take 54 value) @ ''-'' @ take 8 (hex_EncodeToString (Sum256 raw)))"

subsection \<open>Commands\<close>

record LifecycleCommand =
  lc_ID :: string
  lc_Kind :: string
  lc_Action :: string
  lc_Resource :: string
  lc_Tenant :: string

record KafkaRecord =
  kr_Topic :: string
  kr_Key :: string
  kr_Value :: string

record dispatch_json =
  dj_command :: "string \<Rightarrow> LifecycleCommand option"
  dj_resource :: "string \<Rightarrow> gany gomap option"
  dj_outside :: "f64 \<Rightarrow> int"

record custom_resource =
  cr_Kind :: string
  cr_Name :: string
  cr_Namespace :: string
  cr_Labels :: "string gomap"
  cr_Spec :: "gany gomap"
  cr_ResourceVersion :: string

datatype kube_error = KubeNotFound | KubeAlreadyExists | KubeConflict | KubeError string

datatype kube_call = KubeGet string string | KubeCreate string custom_resource
  | KubeUpdate string custom_resource | KubeDelete string string

record kube_answers =
  ka_get :: "string + kube_error"
  ka_create :: "kube_error option"
  ka_update :: "kube_error option"
  ka_delete :: "kube_error option"

datatype dispatch_error = BadJSON | Unsupported string | Refused kube_error

text \<open>
  The switch on the kind: \<open>Inl None\<close> is the early return for model commands other than
  promotions, otherwise plural, kind, name and specification of the custom resource.
\<close>

definition workspace_spec :: "(f64 \<Rightarrow> int) \<Rightarrow> gany gomap \<Rightarrow> gany gomap" where
  "workspace_spec outside resource =
     (let compute = any_map (any_field resource ''compute''); storage = any_map (any_field resource ''storage'');
          n = (\<lambda>m k. AnyInt (integer outside (any_field m k)))
      in [(''subject'', any_field resource ''subject''), (''services'', any_field resource ''services''),
          (''disabled'', any_field resource ''disabled''),
          (''compute'', AnyMap [(''vcpus'', n compute ''vcpus''), (''memoryGB'', n compute ''memory_gb''), (''gpus'', n compute ''gpus''),
             (''gpuType'', any_field compute ''gpu_type''), (''maxVMs'', n compute ''max_vms'')]),
          (''storageGB'', n storage ''size_gb'')])"

definition lifecycle_target ::
  "(f64 \<Rightarrow> int) \<Rightarrow> LifecycleCommand \<Rightarrow> gany gomap \<Rightarrow> (string \<times> string \<times> string \<times> gany gomap) option + dispatch_error" where
  "lifecycle_target outside command resource =
     (let name0 = any_string (any_field resource ''name'');
          name = (if name0 = [] then lc_ID command else name0);
          field = any_field resource
      in if lc_Kind command = ''pipeline_run'' then
           Inl (Some (''nexuspipelineruns'', ''NexusPipelineRun'', name,
             [(''pipelineRef'', field ''name''), (''parameters'', AnyMap [(''project_id'', field ''project_id'')])]))
         else if lc_Kind command = ''model'' then
           (if lc_Action command \<noteq> ''model.promoted'' then Inl None
            else Inl (Some (''nexusmodelpromotions'', ''NexusModelPromotion'', name,
              [(''modelName'', field ''name''), (''version'', field ''version''), (''targetStage'', field ''stage'')])))
         else if lc_Kind command = ''agent'' then
           Inl (Some (''nexusagents'', ''NexusAgent'', name,
             [(''version'', field ''version''), (''image'', field ''image''), (''graphModule'', field ''graph_module''),
              (''replicas'', AnyMap [(''min'', field ''replicas''), (''max'', field ''replicas'')]),
              (''llm'', AnyMap [(''backend'', field ''llm_backend'')]), (''tools'', toolRefs (field ''tools'')),
              (''trafficPolicy'', AnyMap [(''canaryWeight'', field ''canary_weight'')])]))
         else if lc_Kind command = ''tool'' then
           Inl (Some (''nexustools'', ''NexusTool'', name,
             [(''version'', field ''version''), (''description'', field ''description''), (''tags'', field ''tags''),
              (''inputSchema'', field ''input_schema'')]))
         else if lc_Kind command = ''connection'' then
           Inl (Some (''nexusconnections'', ''NexusConnection'', name,
             [(''type'', field ''type''), (''endpoint'', field ''endpoint''),
              (''secretRef'', AnyMap [(''name'', field ''secret_ref'')])]))
         else if lc_Kind command = ''user_access'' then
           Inl (Some (''nexusworkspaces'', ''NexusWorkspace'', ''workspace-'' @ lc_ID command, workspace_spec outside resource))
         else Inr (Unsupported (lc_Kind command)))"

definition lifecycle_object :: "string \<Rightarrow> LifecycleCommand \<Rightarrow> string \<times> string \<times> string \<times> gany gomap \<Rightarrow> custom_resource" where
  "lifecycle_object namespace command = (\<lambda>(plural, kind, name, spec).
     \<lparr>cr_Kind = kind, cr_Name = dnsName name (lc_ID command), cr_Namespace = namespace,
      cr_Labels = [(''mlaiops.io/tenant'', lc_Tenant command), (''mlaiops.io/resource-id'', lc_ID command)],
      cr_Spec = spec, cr_ResourceVersion = []\<rparr>)"

definition refused :: "kube_error option \<Rightarrow> dispatch_error option" where
  "refused err = map_option Refused err"

definition apply_object ::
  "kube_answers \<Rightarrow> string \<Rightarrow> custom_resource \<Rightarrow> kube_call list \<times> dispatch_error option" where
  "apply_object a plural obj =
     (case ka_get a of
        Inr KubeNotFound \<Rightarrow> ([KubeGet plural (cr_Name obj), KubeCreate plural obj], refused (ka_create a))
      | Inr err \<Rightarrow> ([KubeGet plural (cr_Name obj)], Some (Refused err))
      | Inl version \<Rightarrow>
          ([KubeGet plural (cr_Name obj), KubeUpdate plural (obj\<lparr>cr_ResourceVersion := version\<rparr>)], refused (ka_update a)))"

definition Dispatch ::
  "dispatch_json \<Rightarrow> string \<Rightarrow> kube_answers \<Rightarrow> KafkaRecord \<Rightarrow> kube_call list \<times> dispatch_error option" where
  "Dispatch j namespace a record =
     (case dj_command j (kr_Value record) of None \<Rightarrow> ([], Some BadJSON)
      | Some command \<Rightarrow>
     (case dj_resource j (lc_Resource command) of None \<Rightarrow> ([], Some BadJSON)
      | Some resource \<Rightarrow>
     (case lifecycle_target (dj_outside j) command resource of
        Inr err \<Rightarrow> ([], Some err)
      | Inl None \<Rightarrow> ([], None)
      | Inl (Some target) \<Rightarrow>
          (let obj = lifecycle_object namespace command target; plural = fst target in
           if lc_Kind command = ''user_access'' \<and> lc_Action command = ''access.deleted'' then
             ([KubeDelete plural (cr_Name obj)],
              if ka_delete a = Some KubeNotFound then None else refused (ka_delete a))
           else apply_object a plural obj))))"

text \<open>
  The worker: the topics it subscribes to, and a poll. Errors are logged and dropped, the
  offsets are committed automatically.
\<close>

definition worker_topics :: "string list" where
  "worker_topics = [''mlaiops.pipeline.commands'', ''mlaiops.model.commands'', ''mlaiops.agent.commands'',
     ''mlaiops.tool.commands'', ''mlaiops.connection.commands'', ''mlaiops.workspace.commands'']"

definition process_poll ::
  "dispatch_json \<Rightarrow> string \<Rightarrow> (kube_answers \<times> KafkaRecord) list \<Rightarrow> kube_call list \<times> (string \<times> dispatch_error) list" where
  "process_poll j namespace records =
     (concat (map (\<lambda>(a, r). fst (Dispatch j namespace a r)) records),
      concat (map (\<lambda>(a, r). case snd (Dispatch j namespace a r) of None \<Rightarrow> [] | Some err \<Rightarrow> [(kr_Topic r, err)]) records))"

subsection \<open>Names are DNS labels\<close>

definition dns_label :: "string \<Rightarrow> bool" where
  "dns_label s \<longleftrightarrow> s \<noteq> [] \<and> length s \<le> 63 \<and> is_lower_alnum (hd s) \<and> is_lower_alnum (last s) \<and>
     (\<forall>c \<in> set s. is_lower_alnum c \<or> c = CHR ''-'')"

lemma TrimByte_set: "set (TrimByte c s) \<subseteq> set s"
  by (auto simp: TrimByte_def dest!: set_dropWhileD)

lemma TrimByte_length: "length (TrimByte c s) \<le> length s"
proof -
  have "length (dropWhile P (rev xs)) \<le> length xs" for P and xs :: string
    using length_dropWhile_le [of P "rev xs"] by simp
  from order_trans [OF this length_dropWhile_le] show ?thesis by (simp add: TrimByte_def)
qed

lemma TrimByte_Nil: "TrimByte c s = [] \<longleftrightarrow> (\<forall>x \<in> set s. x = c)"
proof -
  have "(\<forall>x \<in> set (dropWhile (\<lambda>x. x = c) s). x = c) \<longleftrightarrow> (\<forall>x \<in> set s. x = c)" by (induction s) auto
  then show ?thesis by (simp add: TrimByte_def dropWhile_eq_Nil_conv)
qed

lemma TrimByte_ends:
  assumes "TrimByte c s \<noteq> []"
  shows "hd (TrimByte c s) \<noteq> c" and "last (TrimByte c s) \<noteq> c"
proof -
  let ?t = "dropWhile (\<lambda>x. x = c) s"
  have t: "?t \<noteq> []"
  proof
    assume "?t = []"
    then have "TrimByte c s = []" unfolding TrimByte_def by (simp only: rev.simps dropWhile.simps)
    with assms show False by simp
  qed
  have r: "dropWhile (\<lambda>x. x = c) (rev ?t) \<noteq> []" using assms by (simp add: TrimByte_def)
  show "last (TrimByte c s) \<noteq> c"
    using hd_dropWhile [OF r] unfolding TrimByte_def by (simp add: last_rev)
  obtain pre where "rev ?t = pre @ dropWhile (\<lambda>x. x = c) (rev ?t)" by (metis takeWhile_dropWhile_id)
  then have "?t = TrimByte c s @ rev pre" unfolding TrimByte_def by (metis rev_append rev_rev_ident)
  then have "hd (TrimByte c s) = hd ?t" using assms by (metis hd_append2)
  then show "hd (TrimByte c s) \<noteq> c" using hd_dropWhile [OF t] by simp
qed

lemma dash_runs_chars: "c \<in> set (dash_runs b s) \<Longrightarrow> is_lower_alnum c \<or> c = CHR ''-''"
  by (induction b s rule: dash_runs.induct) (auto split: if_splits)

text \<open>A digest has 32 bytes.\<close>

lemma length_sha_round [simp]: "length (sha_round v kw) = length v"
  by (induction v kw rule: sha_round.induct) (simp_all add: Let_def)

lemma length_sha_blocks: "length h = 8 \<Longrightarrow> length (sha_blocks h ws) = 8"
proof (induction h ws rule: sha_blocks.induct)
  case (1 h ws)
  have "length (foldl sha_round h xs) = length h" for xs by (induction xs arbitrary: h) simp_all
  then have "length (sha_block h (take 16 ws)) = 8" using "1.prems" by (simp add: sha_block_def)
  with 1 show ?case by (subst sha_blocks.simps) simp
qed

lemma length_Sum256: "length (Sum256 s) = 32"
proof -
  have "length (concat (map (\<lambda>w. map (f w) [0..<4]) ws)) = 4 * length ws" for f :: "32 word \<Rightarrow> nat \<Rightarrow> char" and ws
    by (induction ws) simp_all
  then show ?thesis by (simp add: Sum256_def length_sha_blocks sha_init_def)
qed

lemma hex_chars: "c \<in> set (hex_EncodeToString s) \<Longrightarrow> is_lower_alnum c"
proof -
  have "is_lower_alnum (hex_digit n)" for n
  proof -
    have "n mod 16 < 16" by simp
    moreover have "\<forall>k < 16. is_lower_alnum (''0123456789abcdef'' ! k)" by code_simp
    ultimately show ?thesis by (simp add: hex_digit_def)
  qed
  then show "c \<in> set (hex_EncodeToString s) \<Longrightarrow> is_lower_alnum c"
    by (auto simp: hex_EncodeToString_def Let_def)
qed

lemma dns_label_trimmed:
  assumes "\<forall>c \<in> set s. is_lower_alnum c \<or> c = CHR ''-''" and "TrimByte (CHR ''-'') s \<noteq> []" and "length s \<le> 63"
  shows "dns_label (TrimByte (CHR ''-'') s)"
proof -
  let ?t = "TrimByte (CHR ''-'') s"
  have chars: "\<forall>c \<in> set ?t. is_lower_alnum c \<or> c = CHR ''-''" using assms(1) TrimByte_set by blast
  have "is_lower_alnum (hd ?t)" "is_lower_alnum (last ?t)"
    using chars TrimByte_ends [OF assms(2)] assms(2) hd_in_set last_in_set by blast+
  with assms chars TrimByte_length [of "CHR ''-''" s] show ?thesis by (simp add: dns_label_def)
qed

lemma dnsName_label: "dns_label (dnsName name fallback)"
proof -
  define raw where "raw = ToLower (if name = [] then fallback else name)"
  define value0 where "value0 = TrimByte (CHR ''-'') (dash_runs False raw)"
  define val where "val = (if value0 = [] then ''resource'' else value0)"
  have eq: "dnsName name fallback = (if length val \<le> 63 then val
      else TrimByte (CHR ''-'') (take 54 val) @ ''-'' @ take 8 (hex_EncodeToString (Sum256 raw)))"
    by (simp add: dnsName_def raw_def value0_def val_def Let_def)
  have chars: "\<forall>c \<in> set val. is_lower_alnum c \<or> c = CHR ''-''"
  proof (cases "value0 = []")
    case True
    moreover have "\<forall>c \<in> set ''resource''. is_lower_alnum c" by code_simp
    ultimately show ?thesis by (simp add: val_def)
  next
    case False
    then show ?thesis using TrimByte_set [of "CHR ''-''" "dash_runs False raw"] dash_runs_chars by (auto simp: val_def value0_def)
  qed
  have ends: "val \<noteq> []" "hd val \<noteq> CHR ''-''" "last val \<noteq> CHR ''-''"
    using TrimByte_ends [of "CHR ''-''" "dash_runs False raw"] by (auto simp: val_def value0_def)
  show ?thesis
  proof (cases "length val \<le> 63")
    case True
    then show ?thesis
      using chars ends hd_in_set [OF ends(1)] last_in_set [OF ends(1)] by (auto simp: eq dns_label_def)
  next
    case False
    let ?t = "TrimByte (CHR ''-'') (take 54 val)" and ?h = "take 8 (hex_EncodeToString (Sum256 raw))"
    have first: "take 54 val \<noteq> []" "hd (take 54 val) \<noteq> CHR ''-''" using ends by simp_all
    then have "?t \<noteq> []" using hd_in_set [OF first(1)] by (metis TrimByte_Nil)
    moreover have "\<forall>c \<in> set (take 54 val). is_lower_alnum c \<or> c = CHR ''-''" using chars in_set_takeD by metis
    ultimately have t: "dns_label ?t" by (intro dns_label_trimmed) simp_all
    have len: "length ?t \<le> 54" using TrimByte_length [of "CHR ''-''" "take 54 val"] by simp
    have h: "length ?h = 8" "\<forall>c \<in> set ?h. is_lower_alnum c"
      using hex_chars set_take_subset [of 8 "hex_EncodeToString (Sum256 raw)"] by (auto simp: length_Sum256)
    have "?h \<noteq> []" using h(1) by (metis list.size(3) zero_neq_numeral)
    then have "is_lower_alnum (last ?h)" using h(2) last_in_set by blast
    with t len h \<open>?h \<noteq> []\<close> False show ?thesis by (auto simp: eq dns_label_def)
  qed
qed

subsection \<open>Numbers survive JSON\<close>

text \<open>The \<open>float64\<close> a JSON decoder makes of the digits of an integer.\<close>

definition f64_of_int :: "int \<Rightarrow> f64" where
  "f64_of_int n = f64_pack (n < 0) (f64_round_mag (\<bar>n\<bar> * 2 ^ 1074))"

lemma bit_length_bounds: "0 < n \<Longrightarrow> 2 ^ (bit_length n - 1) \<le> n \<and> n < 2 ^ bit_length n \<and> 0 < bit_length n"
proof (induction n rule: bit_length.induct)
  case (1 n)
  have eq: "bit_length n = Suc (bit_length (n div 2))" using 1(2) by (subst bit_length.simps) simp
  show ?case
  proof (cases "n = 1")
    case True
    then have "bit_length n = 1" using eq by (simp add: bit_length.simps)
    with True show ?thesis by simp
  next
    case False
    with 1(2) have "0 < n div 2" "\<not> n \<le> 0" by auto
    then have ih: "2 ^ (bit_length (n div 2) - 1) \<le> n div 2" "n div 2 < 2 ^ bit_length (n div 2)" "0 < bit_length (n div 2)"
      using 1(1) by blast+
    have "2 * (2 :: int) ^ (bit_length (n div 2) - 1) = 2 ^ bit_length (n div 2)"
      using ih(3) by (metis Suc_diff_1 power_Suc)
    moreover have "2 * (n div 2) \<le> n" "n < 2 * (n div 2) + 2" by presburger+
    ultimately have "2 ^ bit_length (n div 2) \<le> n" "n < 2 * 2 ^ bit_length (n div 2)" using ih by linarith+
    then show ?thesis unfolding eq by simp
  qed
qed

lemma bit_length_le: "0 < n \<Longrightarrow> n < 2 ^ k \<Longrightarrow> bit_length n \<le> k"
proof (rule ccontr)
  assume n: "0 < n" "n < 2 ^ k" and "\<not> bit_length n \<le> k"
  then have "(2 :: int) ^ k \<le> 2 ^ (bit_length n - 1)" by (intro power_increasing) auto
  with n bit_length_bounds [OF n(1)] show False by linarith
qed

text \<open>A multiple of a high power of two with few leading bits is represented exactly.\<close>

lemma f64_exact:
  assumes "0 < N" and "bit_length N = 53 + sh" and "2 ^ sh dvd N" and "sh < 2045"
  shows "0 \<le> f64_round_mag N" "f64_round_mag N < f64_inf_mag" "f64_scaled (f64_pack neg (f64_round_mag N)) = (if neg then - N else N)"
proof -
  define q where "q = N div 2 ^ sh"
  have N: "N = q * 2 ^ sh" using assms(3) by (simp add: q_def)
  have pow: "(2 :: int) ^ (53 + sh - 1) = 2 ^ 52 * 2 ^ sh" "(2 :: int) ^ (53 + sh) = 2 ^ 53 * 2 ^ sh"
    by (simp_all add: power_add)
  have "2 ^ (53 + sh - 1) \<le> N" "N < 2 ^ (53 + sh)" using bit_length_bounds [OF assms(1)] unfolding assms(2) by blast+
  then have "2 ^ 52 * 2 ^ sh \<le> q * 2 ^ sh" "q * 2 ^ sh < 2 ^ 53 * 2 ^ sh" by (simp_all only: pow N [symmetric])
  then have q: "2 ^ 52 \<le> q" "q < 2 ^ 53" by simp_all
  have small: "int sh * 2 ^ 52 + q \<le> f64_inf_mag" using q(2) assms(4) by (simp add: f64_inf_mag_def)
  have mod0: "N mod 2 ^ sh = 0" using assms(3) by simp
  have mag: "f64_round_mag N = int sh * 2 ^ 52 + q"
  proof (cases "N < 2 ^ 53")
    case True
    then have "bit_length N \<le> 53" using bit_length_le [OF assms(1)] by simp
    then have "sh = 0" using assms(2) by simp
    with True N show ?thesis by (simp add: f64_round_mag_def)
  next
    case False
    then show ?thesis
      using small by (simp add: f64_round_mag_def assms(2) Let_def q_def [symmetric] mod0)
  qed
  have m: "0 \<le> int sh * 2 ^ 52 + q" "int sh * 2 ^ 52 + q < 2 ^ 63" using q assms(4) by simp_all
  show "0 \<le> f64_round_mag N" "f64_round_mag N < f64_inf_mag"
    using q assms(4) by (simp_all add: mag f64_inf_mag_def)
  have parts: "(int sh * 2 ^ 52 + q) div 2 ^ 52 = int sh + 1" "(int sh * 2 ^ 52 + q) mod 2 ^ 52 = q - 2 ^ 52"
  proof -
    have "int sh * 2 ^ 52 + q = (int sh + 1) * 2 ^ 52 + (q - 2 ^ 52)" by (simp add: algebra_simps)
    moreover have "0 \<le> q - 2 ^ 52" "q - 2 ^ 52 < 2 ^ 52" using q by simp_all
    ultimately show "(int sh * 2 ^ 52 + q) div 2 ^ 52 = int sh + 1" "(int sh * 2 ^ 52 + q) mod 2 ^ 52 = q - 2 ^ 52"
      by (metis add.commute div_mult_self3 div_pos_pos_trivial add_0 zero_neq_numeral power_eq_0_iff,
          metis mod_mult_self3 mod_pos_pos_trivial)
  qed
  show "f64_scaled (f64_pack neg (f64_round_mag N)) = (if neg then - N else N)"
    unfolding mag f64_scaled_def Let_def f64_mag_pack [OF m] f64_neg_pack [OF m] parts by (simp add: N)
qed

lemma bit_length_shift: "0 < n \<Longrightarrow> bit_length (n * 2 ^ k) = bit_length n + k"
proof (induction k)
  case (Suc k)
  have "0 < n * 2 ^ Suc k" using Suc.prems by simp
  then have "bit_length (n * 2 ^ Suc k) = Suc (bit_length (n * 2 ^ Suc k div 2))" by (subst bit_length.simps) simp
  with Suc show ?case by simp
qed simp

lemma f64_of_int_scaled:
  assumes "\<bar>n\<bar> < 2 ^ 53"
  shows "f64_finite (f64_of_int n)" and "f64_scaled (f64_of_int n) = n * 2 ^ 1074"
proof -
  have "f64_finite (f64_of_int n) \<and> f64_scaled (f64_of_int n) = n * 2 ^ 1074"
  proof (cases "n = 0")
    case True
    then show ?thesis by (simp add: f64_of_int_def f64_round_mag_def f64_finite_def f64_scaled_def f64_mag_pack f64_neg_pack f64_inf_mag_def)
  next
    case False
    let ?N = "\<bar>n\<bar> * 2 ^ 1074" and ?sh = "bit_length \<bar>n\<bar> + 1021"
    have pos: "0 < \<bar>n\<bar>" using False by simp
    have bl: "bit_length \<bar>n\<bar> \<le> 53" using bit_length_le [OF pos assms] .
    have len: "bit_length ?N = 53 + ?sh" unfolding bit_length_shift [OF pos] by simp
    have "(2 :: int) ^ ?sh dvd 2 ^ 1074" using bl by (intro le_imp_power_dvd) simp
    then have dvd: "2 ^ ?sh dvd ?N" by (rule dvd_mult)
    have "0 < ?N" using pos by simp
    note exact = f64_exact [OF this len dvd]
    have sh: "?sh < 2045" using bl by simp
    have "f64_mag (f64_of_int n) = f64_round_mag ?N"
      unfolding f64_of_int_def using exact(1,2) [OF sh] by (intro f64_mag_pack) (auto simp: f64_inf_mag_def)
    then have "f64_finite (f64_of_int n)" using exact(2) [OF sh] by (simp add: f64_finite_def)
    moreover have "f64_scaled (f64_of_int n) = n * 2 ^ 1074"
      unfolding f64_of_int_def exact(3) [OF sh] by (simp add: abs_if)
    ultimately show ?thesis by simp
  qed
  then show "f64_finite (f64_of_int n)" and "f64_scaled (f64_of_int n) = n * 2 ^ 1074" by simp_all
qed

lemma integer_of_int:
  assumes "\<bar>n\<bar> < 2 ^ 53"
  shows "integer outside (AnyFloat (f64_of_int n)) = n"
proof -
  have "f64_trunc (f64_of_int n) = n"
    unfolding f64_trunc_def f64_of_int_scaled(2) [OF assms] Let_def
    by (cases "n < 0") (simp_all add: mult_less_0_iff del: power_numeral, simp_all add: minus_mult_left del: mult_minus_left)
  with assms f64_of_int_scaled(1) [OF assms] show ?thesis by (simp add: integer_def f64_to_int64_def abs_less_iff)
qed

end
