(* ===== verification/Delivery.thy ===== *)
theory Delivery
  imports Outbox Dispatcher
begin

text \<open>
  From a stored change to the cluster: the command a transaction of the PostgreSQL repository
  leaves in the outbox, and what the integration worker makes of it. Between them lies the
  message broker; \<open>carry\<close> is what becomes of the text of a message on the way.
\<close>

subsection \<open>The command of a transaction\<close>

definition command_of :: "pgenv \<Rightarrow> nat \<Rightarrow> string \<Rightarrow> string \<Rightarrow> string \<Rightarrow> string \<Rightarrow> string \<Rightarrow> command" where
  "command_of p t kind i payload action who = \<lparr>cmd_ID = i, cmd_Kind = kind, cmd_Action = action, cmd_Resource = payload,
     cmd_Actor = actorOrAnonymous who, cmd_Tenant = pg_tenant p, cmd_OccurredAt = pclk p (t + 1)\<rparr>"

lemma write_command:
  assumes "write_body p k t kind i encoded action who metadata d = Inl d'" and "topicForAction action \<noteq> []"
  shows "\<exists>payload raw row. encoded = Some payload \<and> enc_command p (command_of p t kind i payload action who) = Some raw \<and>
    last (db_outbox d') = row \<and> db_outbox d' \<noteq> [] \<and> ob_payload row = raw \<and> ob_topic row = topicForAction action \<and>
    ob_tenant row = pg_tenant p \<and> ob_published row = None"
  using assms
  by (auto simp: write_body_def Let_def statement_Inl insert_outbox_def pg_event_def command_of_def
      split: option.splits sum.splits if_splits)

text \<open>Every topic of a command is one the worker reads.\<close>

lemma topicForAction_read: "topicForAction action \<noteq> [] \<Longrightarrow> topicForAction action \<in> set worker_topics"
  by (auto simp: topicForAction_def worker_topics_def split: if_splits)

subsection \<open>Redelivery\<close>

lemma lifecycle_object_shape:
  "dns_label (cr_Name (lifecycle_object namespace command target))" "cr_Namespace (lifecycle_object namespace command target) = namespace"
  by (cases target; simp add: lifecycle_object_def dnsName_label)+

text \<open>
  The objects of the cluster, by plural and name. The server answers from them, and a call that
  it accepts changes them; it may give every object a new resource version.
\<close>

type_synonym cluster = "string \<times> string \<rightharpoonup> custom_resource"

definition honest :: "cluster \<Rightarrow> kube_answers \<Rightarrow> kube_call list \<Rightarrow> bool" where
  "honest K a calls = list_all (\<lambda>c. case c of
      KubeGet plural n \<Rightarrow> ka_get a = (case K (plural, n) of None \<Rightarrow> Inr KubeNotFound | Some obj \<Rightarrow> Inl (cr_ResourceVersion obj))
    | KubeCreate plural obj \<Rightarrow> ka_create a = None
    | KubeUpdate plural obj \<Rightarrow> ka_update a = None
    | KubeDelete plural n \<Rightarrow> ka_delete a = (if K (plural, n) = None then Some KubeNotFound else None)) calls"

definition store_call :: "cluster \<Rightarrow> kube_call \<Rightarrow> cluster" where
  "store_call K c = (case c of KubeGet plural n \<Rightarrow> K | KubeCreate plural obj \<Rightarrow> K((plural, cr_Name obj) \<mapsto> obj)
     | KubeUpdate plural obj \<Rightarrow> K((plural, cr_Name obj) \<mapsto> obj) | KubeDelete plural n \<Rightarrow> K((plural, n) := None))"

definition unversioned :: "cluster \<Rightarrow> cluster" where
  "unversioned K = (\<lambda>k. map_option (\<lambda>obj. obj\<lparr>cr_ResourceVersion := []\<rparr>) (K k))"

lemma unversioned_upd [simp]:
  "unversioned (K(k \<mapsto> obj)) = (unversioned K)(k \<mapsto> obj\<lparr>cr_ResourceVersion := []\<rparr>)" "unversioned (K(k := None)) = (unversioned K)(k := None)"
  by (auto simp: unversioned_def)

text \<open>What a dispatch leaves in a cluster that answers: it does not depend on what was there.\<close>

definition delivered_as :: "string \<times> string \<Rightarrow> custom_resource option \<Rightarrow> cluster \<Rightarrow> cluster \<Rightarrow> bool" where
  "delivered_as k obj K K' \<longleftrightarrow> unversioned K' = (unversioned K)(k := obj)"

lemma Dispatch_delivers:
  "(\<forall>a. fst (Dispatch j namespace a r) = []) \<or>
   (\<exists>plural n obj. dns_label n \<and> (\<forall>K a. honest K a (fst (Dispatch j namespace a r)) \<longrightarrow>
      delivered_as (plural, n) obj K (foldl store_call K (fst (Dispatch j namespace a r)))))"
proof (cases "\<exists>command resource target. dj_command j (kr_Value r) = Some command \<and> dj_resource j (lc_Resource command) = Some resource \<and>
    lifecycle_target (dj_outside j) command resource = Inl (Some target)")
  case False
  have "fst (Dispatch j namespace a r) = []" for a
    using False by (auto simp: Dispatch_def split: option.splits sum.splits)
  then show ?thesis by blast
next
  case True
  then obtain command resource target where t: "dj_command j (kr_Value r) = Some command" "dj_resource j (lc_Resource command) = Some resource"
    "lifecycle_target (dj_outside j) command resource = Inl (Some target)" by blast
  let ?obj = "lifecycle_object namespace command target"
  have v: "?obj\<lparr>cr_ResourceVersion := []\<rparr> = ?obj" by (cases target) (simp add: lifecycle_object_def)
  let ?final = "if lc_Kind command = ''user_access'' \<and> lc_Action command = ''access.deleted'' then None else Some ?obj"
  have "delivered_as (fst target, cr_Name ?obj) ?final K (foldl store_call K (fst (Dispatch j namespace a r)))"
    if "honest K a (fst (Dispatch j namespace a r))" for K a
    using that
    by (auto simp: Dispatch_def t Let_def delivered_as_def store_call_def apply_object_def honest_def v
        split: sum.splits kube_error.splits option.splits if_splits)
  then show ?thesis using lifecycle_object_shape(1) by blast
qed

text \<open>A record that is delivered again changes nothing, and other objects are never touched.\<close>

lemma redelivery:
  assumes "honest K a (fst (Dispatch j namespace a r))" and "unversioned K1 = unversioned (foldl store_call K (fst (Dispatch j namespace a r)))"
    and "honest K1 b (fst (Dispatch j namespace b r))"
  shows "unversioned (foldl store_call K1 (fst (Dispatch j namespace b r))) = unversioned K1"
    and "\<exists>k. dns_label (snd k) \<and> (\<forall>k'. k' \<noteq> k \<longrightarrow> unversioned K1 k' = unversioned K k')"
proof -
  have label: "dns_label ''resource''" by code_simp
  from Dispatch_delivers [of j namespace r]
  have "unversioned (foldl store_call K1 (fst (Dispatch j namespace b r))) = unversioned K1 \<and>
    (\<exists>k. dns_label (snd k) \<and> (\<forall>k'. k' \<noteq> k \<longrightarrow> unversioned K1 k' = unversioned K k'))"
  proof (elim disjE exE conjE)
    assume "\<forall>a. fst (Dispatch j namespace a r) = []"
    then show ?thesis using assms(2) label by (metis foldl_Nil snd_conv)
  next
    fix plural n obj
    assume d: "dns_label n" "\<forall>K a. honest K a (fst (Dispatch j namespace a r)) \<longrightarrow>
      delivered_as (plural, n) obj K (foldl store_call K (fst (Dispatch j namespace a r)))"
    then have "unversioned K1 = (unversioned K)((plural, n) := obj)" using assms(1,2) by (simp add: delivered_as_def)
    moreover have "unversioned (foldl store_call K1 (fst (Dispatch j namespace b r))) = (unversioned K1)((plural, n) := obj)"
      using d(2) assms(3) by (simp add: delivered_as_def)
    ultimately show ?thesis using d(1) by (auto intro!: exI [of _ "(plural, n)"])
  qed
  then show "unversioned (foldl store_call K1 (fst (Dispatch j namespace b r))) = unversioned K1"
    and "\<exists>k. dns_label (snd k) \<and> (\<forall>k'. k' \<noteq> k \<longrightarrow> unversioned K1 k' = unversioned K k')" by blast+
qed

subsection \<open>A grant on its way to the cluster\<close>

text \<open>
  The JSON object of a grant as a \<open>map[string]any\<close>: the tags of \<open>api.UserAccess\<close>, numbers as
  \<open>float64\<close>; \<open>ts\<close> are the texts of its two times. Zero values of fields tagged
  \<open>omitempty\<close> are absent.
\<close>

definition json_int :: "int \<Rightarrow> gany" where
  "json_int n = AnyFloat (f64_of_int n)"

definition json_strings :: "string list \<Rightarrow> gany" where
  "json_strings xs = AnyList (map AnyStr xs)"

definition compute_json :: "ComputeGrant \<Rightarrow> gany gomap" where
  "compute_json c =
     (if cg_Profile c = [] then [] else [(''profile'', AnyStr (cg_Profile c))]) @
     [(''vcpus'', json_int (cg_VCPUs c)), (''memory_gb'', json_int (cg_MemoryGB c))] @
     (if cg_GPUs c = 0 then [] else [(''gpus'', json_int (cg_GPUs c))]) @
     (if cg_GPUType c = [] then [] else [(''gpu_type'', AnyStr (cg_GPUType c))]) @
     [(''max_vms'', json_int (cg_MaxVMs c)), (''max_projects'', json_int (cg_MaxProjects c)),
      (''max_concurrent_runs'', json_int (cg_MaxRuns c)), (''max_functions'', json_int (cg_MaxFunctions c))]"

definition access_json :: "string \<times> string \<Rightarrow> UserAccess \<Rightarrow> gany gomap" where
  "access_json ts a =
     [(''subject'', AnyStr (ua_Subject a)), (''email'', AnyStr (ua_Email a)), (''role'', AnyStr (ua_Role a)),
      (''services'', json_strings (ua_Services a))] @
     (if ua_ProjectIDs a = [] then [] else [(''project_ids'', json_strings (ua_ProjectIDs a))]) @
     [(''storage'', AnyMap ((''size_gb'', json_int (sg_SizeGB (ua_Storage a))) #
         (if sg_Buckets (ua_Storage a) = [] then [] else [(''buckets'', json_strings (sg_Buckets (ua_Storage a)))]))),
      (''compute'', AnyMap (compute_json (ua_Compute a))), (''disabled'', AnyBool (ua_Disabled a)),
      (''created_at'', AnyStr (fst ts)), (''updated_at'', AnyStr (snd ts))]"

definition workspace_of :: "UserAccess \<Rightarrow> gany gomap" where
  "workspace_of a = [(''subject'', AnyStr (ua_Subject a)), (''services'', json_strings (ua_Services a)),
     (''disabled'', AnyBool (ua_Disabled a)),
     (''compute'', AnyMap [(''vcpus'', AnyInt (cg_VCPUs (ua_Compute a))), (''memoryGB'', AnyInt (cg_MemoryGB (ua_Compute a))),
        (''gpus'', AnyInt (cg_GPUs (ua_Compute a))),
        (''gpuType'', if cg_GPUType (ua_Compute a) = [] then AnyNil else AnyStr (cg_GPUType (ua_Compute a))),
        (''maxVMs'', AnyInt (cg_MaxVMs (ua_Compute a)))]),
     (''storageGB'', AnyInt (sg_SizeGB (ua_Storage a)))]"

definition exact_grant :: "UserAccess \<Rightarrow> bool" where
  "exact_grant a \<longleftrightarrow> \<bar>cg_VCPUs (ua_Compute a)\<bar> < 2 ^ 53 \<and> \<bar>cg_MemoryGB (ua_Compute a)\<bar> < 2 ^ 53 \<and>
     \<bar>cg_GPUs (ua_Compute a)\<bar> < 2 ^ 53 \<and> \<bar>cg_MaxVMs (ua_Compute a)\<bar> < 2 ^ 53 \<and> \<bar>sg_SizeGB (ua_Storage a)\<bar> < 2 ^ 53"

lemma workspace_spec_grant: "exact_grant a \<Longrightarrow> workspace_spec outside (access_json ts a) = workspace_of a"
proof -
  assume a: "exact_grant a"
  have "integer outside (json_int n) = n" if "\<bar>n\<bar> < 2 ^ 53" for n using integer_of_int [OF that] by (simp add: json_int_def)
  with a show ?thesis
    by (simp add: workspace_spec_def workspace_of_def access_json_def compute_json_def any_field_def any_map_def exact_grant_def Let_def)
      (simp add: integer_def)
qed

lemma upsert_access_written:
  assumes "run_prog (Pg_UpsertUserAccess p sub req who) d = (d', (access, None))"
  shows "\<exists>k. write_body p k 1 ''user_access'' sub (enc (c_access p) access) ''access.upserted'' who [] d = Inl d'"
proof -
  obtain v where v: "validateAccess sub req = (v, None)"
    using assms by (cases "validateAccess sub req") (auto simp: Pg_UpsertUserAccess_def split: if_splits)
  show ?thesis
    using assms
    by (auto simp: Pg_UpsertUserAccess_def v Let_def Pg_get_def Pg_put_def Pg_write_def split_beta
        prod_eq_iff transaction_def split: option.splits sum.splits if_splits)
qed

text \<open>What the coding of commands and grants has to keep on the way through the broker.\<close>

definition carried :: "pgenv \<Rightarrow> dispatch_json \<Rightarrow> (string \<Rightarrow> string) \<Rightarrow> string \<times> string \<Rightarrow> bool" where
  "carried p j carry ts \<longleftrightarrow> (\<forall>c raw. enc_command p c = Some raw \<longrightarrow> (\<exists>res.
     dj_command j (carry raw) = Some \<lparr>lc_ID = cmd_ID c, lc_Kind = cmd_Kind c, lc_Action = cmd_Action c, lc_Resource = res,
       lc_Tenant = cmd_Tenant c\<rparr> \<and>
     (\<forall>a. enc (c_access p) a = Some (cmd_Resource c) \<longrightarrow> dj_resource j res = Some (access_json ts a))))"

lemma grant_dispatched:
  assumes "run_prog (Pg_UpsertUserAccess p sub req who) d = (d', (access, None))" and "carried p j carry ts" and "exact_grant access"
  shows "\<exists>row obj. last (db_outbox d') = row \<and> ob_tenant row = pg_tenant p \<and> ob_published row = None \<and>
    ob_topic row \<in> set worker_topics \<and> cr_Kind obj = ''NexusWorkspace'' \<and> cr_Name obj = dnsName (''workspace-'' @ sub) sub \<and>
    cr_Namespace obj = namespace \<and> cr_Spec obj = workspace_of access \<and>
    (\<forall>a key. Dispatch j namespace a \<lparr>kr_Topic = ob_topic row, kr_Key = key, kr_Value = carry (ob_payload row)\<rparr> =
       apply_object a ''nexusworkspaces'' obj)"
proof -
  obtain k where w: "write_body p k 1 ''user_access'' sub (enc (c_access p) access) ''access.upserted'' who [] d = Inl d'"
    using upsert_access_written [OF assms(1)] by blast
  have topic: "topicForAction ''access.upserted'' = ''mlaiops.workspace.commands''"
    by (simp add: topicForAction_def HasPrefix_def)
  obtain payload raw row where row: "enc (c_access p) access = Some payload"
      "enc_command p (command_of p 1 ''user_access'' sub payload ''access.upserted'' who) = Some raw"
      "last (db_outbox d') = row" "ob_payload row = raw" "ob_topic row = ''mlaiops.workspace.commands''"
      "ob_tenant row = pg_tenant p" "ob_published row = None"
    using write_command [OF w] by (auto simp: topic)
  obtain res where res: "dj_command j (carry raw) = Some \<lparr>lc_ID = sub, lc_Kind = ''user_access'', lc_Action = ''access.upserted'',
      lc_Resource = res, lc_Tenant = pg_tenant p\<rparr>" "dj_resource j res = Some (access_json ts access)"
    using assms(2) row(1,2) unfolding carried_def by (fastforce simp: command_of_def)
  let ?command = "\<lparr>lc_ID = sub, lc_Kind = ''user_access'', lc_Action = ''access.upserted'', lc_Resource = res, lc_Tenant = pg_tenant p\<rparr>"
  let ?obj = "lifecycle_object namespace ?command (''nexusworkspaces'', ''NexusWorkspace'', ''workspace-'' @ sub, workspace_of access)"
  have "Dispatch j namespace a \<lparr>kr_Topic = ob_topic row, kr_Key = key, kr_Value = carry (ob_payload row)\<rparr> =
      apply_object a ''nexusworkspaces'' ?obj" for a key
    by (simp add: Dispatch_def row(4) res lifecycle_target_def workspace_spec_grant [OF assms(3)] Let_def)
  then show ?thesis
    using row(3,5-7) by (intro exI [of _ row] exI [of _ ?obj]) (simp add: lifecycle_object_def worker_topics_def)
qed

subsection \<open>Commands nobody can execute\<close>

text \<open>
  Access requests, traces and sessions are written with actions whose topics the worker reads,
  but their kinds are not among those it knows.
\<close>

lemma unsupported_command:
  assumes "dj_command j (kr_Value r) = Some command" and "dj_resource j (lc_Resource command) \<noteq> None"
    and "lc_Kind command \<in> {''access_request'', ''agent_trace'', ''agent_session''}"
  shows "Dispatch j namespace a r = ([], Some (Unsupported (lc_Kind command)))"
  using assms by (auto simp: Dispatch_def lifecycle_target_def Let_def)

text \<open>Two subjects that differ in punctuation share one workspace.\<close>

lemma workspace_collision: "dnsName ''workspace-ana.lee'' ''ana.lee'' = dnsName ''workspace-ana-lee'' ''ana-lee''"
  by code_simp

end
