(* ===== verification/Operator.thy ===== *)
theory Operator
  imports Dispatcher
begin

text \<open>
  The Kubernetes operator: \<^verbatim>\<open>go/internal/operator\<close> on the custom resources of
  \<^verbatim>\<open>go/pkg/kube/v1alpha1/types.go\<close>.

  A reconciliation reads one custom resource and brings the objects it owns in line with it.
  The API server is a parameter: a record holds its answers to the calls of one reconciliation,
  and the reconciler returns the writes it requests, in order, with its result. For
  \<open>controllerutil.CreateOrUpdate\<close> the answer holds what the mutate function reads of the
  existing object, and the write holds the fields it sets. Of the metadata the model has what the
  code reads; owner references and the conditions other than \<open>Ready\<close> are left out. CPU is in
  milli-units, memory and storage in bytes. The environment of a container comes from a Go map and
  has no order.
\<close>

subsection \<open>Custom resources\<close>

record ready_condition =
  rc_Status :: bool
  rc_Reason :: string
  rc_Message :: string

record ReplicaSpec =
  rep_Min :: int
  rep_Max :: int

record TrafficPolicy =
  tp_CanaryWeight :: int
  tp_StableRef :: string

record NexusAgentSpec =
  nas_Version :: string
  nas_Image :: string
  nas_GraphModule :: string
  nas_Replicas :: ReplicaSpec
  nas_LLMBackend :: string
  nas_LangfuseProject :: string
  nas_TrafficPolicy :: TrafficPolicy

record NexusAgentStatus =
  nat_Phase :: string
  nat_ReadyReplicas :: int
  nat_ObservedGeneration :: int
  nat_Ready :: "ready_condition option"

record NexusAgent =
  na_Name :: string
  na_Namespace :: string
  na_Generation :: int
  na_Deleted :: bool
  na_Finalizers :: "string list"
  na_Spec :: NexusAgentSpec
  na_Status :: NexusAgentStatus

record WorkspaceComputeSpec =
  wc_VCPUs :: int
  wc_MemoryGB :: int
  wc_GPUs :: int
  wc_GPUType :: string
  wc_MaxVMs :: int

record NexusWorkspaceSpec =
  nws_Subject :: string
  nws_Services :: "string list"
  nws_Compute :: WorkspaceComputeSpec
  nws_StorageGB :: int
  nws_Disabled :: bool

record NexusWorkspaceStatus =
  nwt_Phase :: string
  nwt_ReadyReplicas :: int
  nwt_WorkbenchURL :: string
  nwt_IDEURL :: string
  nwt_ObservedGeneration :: int
  nwt_Ready :: "ready_condition option"

record NexusWorkspace =
  nw_Name :: string
  nw_Namespace :: string
  nw_Generation :: int
  nw_Spec :: NexusWorkspaceSpec
  nw_Status :: NexusWorkspaceStatus

record NexusPipelineRun =
  npr_Name :: string
  npr_PipelineRef :: string
  npr_Parameters :: "string gomap"
  npr_Phase :: string
  npr_WorkflowRef :: string
  npr_StartedAt :: "time option"
  npr_Message :: string

record NexusModelPromotion =
  nmp_Namespace :: string
  nmp_ModelName :: string
  nmp_Version :: string
  nmp_TargetStage :: string
  nmp_Phase :: string
  nmp_Message :: string
  nmp_InferenceServiceRef :: string

subsection \<open>Plans for agents\<close>

record AgentSpec =
  as_Name :: string
  as_Namespace :: string
  as_Version :: string
  as_Image :: string
  as_GraphModule :: string
  as_MinReplicas :: int
  as_MaxReplicas :: int
  as_LLMBackend :: string
  as_LangfuseProject :: string
  as_CanaryWeight :: int
  as_StableRef :: string

record Container =
  ct_Name :: string
  ct_Image :: string
  ct_Port :: int
  ct_Env :: "string gomap"

record AgentWorkload =
  aw_Name :: string
  aw_Namespace :: string
  aw_Labels :: "string gomap"
  aw_Replicas :: int
  aw_Containers :: "Container list"
  aw_Annotations :: "string gomap"

record TrafficRoute =
  tr_StableDestination :: string
  tr_CanaryDestination :: string
  tr_StableWeight :: int
  tr_CanaryWeight :: int

record AgentPlan =
  ap_Workload :: AgentWorkload
  ap_Traffic :: TrafficRoute

text \<open>\<open>strings.NewReplacer\<close> with one-byte patterns that all become a dash.\<close>

definition dash_for :: "char set \<Rightarrow> string \<Rightarrow> string" where
  "dash_for cs s = map (\<lambda>c. if c \<in> cs then CHR ''-'' else c) s"

definition sanitizeVersion :: "string \<Rightarrow> string" where
  "sanitizeVersion version = TrimByte (CHR ''-'') (dash_for {CHR ''.'', CHR ''_''} (ToLower version))"

definition dnsLabel :: "string \<Rightarrow> string" where
  "dnsLabel s = TrimByte (CHR ''-'') (ToLower (dash_for {CHR ''.'', CHR ''_'', CHR ''/''} s))"

definition ReconcileAgent :: "AgentSpec \<Rightarrow> AgentPlan + error" where
  "ReconcileAgent spec =
     (if TrimSpace (as_Name spec) = [] \<or> TrimSpace (as_Namespace spec) = [] then Inr (Err ''name and namespace are required'')
      else if as_Image spec = [] \<or> as_Version spec = [] \<or> as_GraphModule spec = []
        then Inr (Err ''image, version and graph module are required'')
      else if as_CanaryWeight spec < 0 \<or> 100 < as_CanaryWeight spec
        then Inr (Err ''canary weight must be between 0 and 100'')
      else let minimum = (if as_MinReplicas spec < 1 then 1 else as_MinReplicas spec) in
      if as_MaxReplicas spec < minimum
        then Inr (Err ''max replicas must be greater than or equal to min replicas'')
      else let name = as_Name spec @ ''-'' @ sanitizeVersion (as_Version spec);
               labels = [(''app.kubernetes.io/name'', as_Name spec), (''app.kubernetes.io/component'', ''agent''),
                 (''app.kubernetes.io/managed-by'', ''mlaiops-operator''), (''mlaiops.io/version'', as_Version spec)];
               environment = [(''MLAIOPS_AGENT_NAME'', as_Name spec), (''MLAIOPS_AGENT_VERSION'', as_Version spec),
                 (''MLAIOPS_GRAPH_MODULE'', as_GraphModule spec), (''MLAIOPS_LLM_BACKEND'', as_LLMBackend spec),
                 (''MLAIOPS_LANGFUSE_PROJECT'', as_LangfuseProject spec), (''OPENAI_BASE_URL'', ''http://localhost:8081/v1'')];
               workload = \<lparr>aw_Name = name, aw_Namespace = as_Namespace spec, aw_Labels = labels, aw_Replicas = minimum,
                 aw_Containers = [\<lparr>ct_Name = ''agent'', ct_Image = as_Image spec, ct_Port = 8000, ct_Env = environment\<rparr>,
                   \<lparr>ct_Name = ''trace-proxy'', ct_Image = ''ghcr.io/mlaiops/trace-proxy:latest'', ct_Port = 8081,
                    ct_Env = [(''MLAIOPS_AGENT_NAME'', as_Name spec)]\<rparr>],
                 aw_Annotations = [(''mlaiops.io/inject-trace-proxy'', ''true'')]\<rparr>
           in Inl \<lparr>ap_Workload = workload, ap_Traffic =
                (if as_StableRef spec = [] then
                   \<lparr>tr_StableDestination = name, tr_CanaryDestination = name, tr_StableWeight = 100, tr_CanaryWeight = 0\<rparr>
                 else \<lparr>tr_StableDestination = as_StableRef spec, tr_CanaryDestination = name,
                        tr_StableWeight = 100 - as_CanaryWeight spec, tr_CanaryWeight = as_CanaryWeight spec\<rparr>)\<rparr>)"

subsection \<open>The agent controller\<close>

definition agentFinalizer :: string where
  "agentFinalizer = ''mlaiops.io/agent-cleanup''"

text \<open>The fields of the Deployment and the Service that the controllers set.\<close>

record kcontainer =
  kc_Name :: string
  kc_Image :: string
  kc_Port :: int
  kc_Env :: "string gomap"
  kc_Secret :: "(string \<times> string \<times> string) option" \<comment> \<open>variable, secret and key\<close>
  kc_CPU :: "int option"
  kc_Memory :: "int option"
  kc_GPU :: "(string \<times> int) option"
  kc_NoEscalation :: bool
  kc_NonRoot :: bool
  kc_ReadOnly :: bool

record kdeployment =
  kd_Name :: string
  kd_Namespace :: string
  kd_Labels :: "string gomap"
  kd_Replicas :: int
  kd_Selector :: "string gomap"
  kd_TemplateLabels :: "string gomap"
  kd_Containers :: "kcontainer list"
  kd_Claim :: string

record kservice =
  ks_Name :: string
  ks_Namespace :: string
  ks_Selector :: "string gomap"
  ks_Ports :: "(string \<times> int \<times> int) list"

record agent_answers =
  aa_get :: "NexusAgent + kube_error"
  aa_update :: "kube_error option"
  aa_deployment :: "int + kube_error" \<comment> \<open>the ready replicas of the object\<close>
  aa_service :: "kube_error option"
  aa_status :: "kube_error option"

datatype agent_write = UpdateAgent NexusAgent | ApplyAgentDeployment kdeployment | ApplyAgentService kservice
  | UpdateAgentStatus NexusAgent

datatype operator_error = InvalidSpec error | ApiError kube_error | EngineError error

definition agent_spec :: "NexusAgent \<Rightarrow> AgentSpec" where
  "agent_spec a = \<lparr>as_Name = na_Name a, as_Namespace = na_Namespace a, as_Version = nas_Version (na_Spec a),
     as_Image = nas_Image (na_Spec a), as_GraphModule = nas_GraphModule (na_Spec a),
     as_MinReplicas = rep_Min (nas_Replicas (na_Spec a)), as_MaxReplicas = rep_Max (nas_Replicas (na_Spec a)),
     as_LLMBackend = nas_LLMBackend (na_Spec a), as_LangfuseProject = nas_LangfuseProject (na_Spec a),
     as_CanaryWeight = tp_CanaryWeight (nas_TrafficPolicy (na_Spec a)), as_StableRef = tp_StableRef (nas_TrafficPolicy (na_Spec a))\<rparr>"

definition hardened :: "string \<Rightarrow> string \<Rightarrow> int \<Rightarrow> string gomap \<Rightarrow> kcontainer" where
  "hardened name img port environment = \<lparr>kc_Name = name, kc_Image = img, kc_Port = port, kc_Env = environment, kc_Secret = None,
     kc_CPU = None, kc_Memory = None, kc_GPU = None, kc_NoEscalation = True, kc_NonRoot = True, kc_ReadOnly = True\<rparr>"

definition agent_deployment :: "NexusAgent \<Rightarrow> AgentPlan \<Rightarrow> kdeployment" where
  "agent_deployment a plan =
     (let w = ap_Workload plan; agent_container = aw_Containers w ! 0; proxy = aw_Containers w ! 1;
          selector = [(''mlaiops.io/agent'', na_Name a), (''mlaiops.io/version'', nas_Version (na_Spec a))]
      in \<lparr>kd_Name = aw_Name w, kd_Namespace = na_Namespace a, kd_Labels = aw_Labels w, kd_Replicas = aw_Replicas w,
          kd_Selector = selector, kd_TemplateLabels = selector,
          kd_Containers = [hardened ''agent'' (nas_Image (na_Spec a)) 8000 (ct_Env agent_container),
            hardened ''trace-proxy'' (ct_Image proxy) 8081 (ct_Env proxy)],
          kd_Claim = []\<rparr>)"

definition Reconcile_agent :: "agent_answers \<Rightarrow> agent_write list \<times> operator_error option" where
  "Reconcile_agent ans =
     (case aa_get ans of
        Inr KubeNotFound \<Rightarrow> ([], None)
      | Inr err \<Rightarrow> ([], Some (ApiError err))
      | Inl a \<Rightarrow>
         if na_Deleted a then
           (if agentFinalizer \<in> set (na_Finalizers a) then
              ([UpdateAgent (a\<lparr>na_Finalizers := filter (\<lambda>f. f \<noteq> agentFinalizer) (na_Finalizers a)\<rparr>)],
               map_option ApiError (aa_update ans))
            else ([], None))
         else let fresh = agentFinalizer \<notin> set (na_Finalizers a);
                  a1 = (if fresh then a\<lparr>na_Finalizers := na_Finalizers a @ [agentFinalizer]\<rparr> else a);
                  w0 = (if fresh then [UpdateAgent a1] else []) in
         if fresh \<and> aa_update ans \<noteq> None then (w0, map_option ApiError (aa_update ans))
         else case ReconcileAgent (agent_spec a1) of
           Inr err \<Rightarrow> (w0 @ [UpdateAgentStatus (a1\<lparr>na_Status := (na_Status a1)\<lparr>nat_Phase := ''Failed'',
               nat_Ready := Some \<lparr>rc_Status = False, rc_Reason = ''InvalidSpec'', rc_Message = (case err of Err m \<Rightarrow> m | _ \<Rightarrow> [])\<rparr>\<rparr>\<rparr>)],
             Some (InvalidSpec err))
         | Inl plan \<Rightarrow>
             (let dep = agent_deployment a1 plan; w1 = w0 @ [ApplyAgentDeployment dep] in
              case aa_deployment ans of Inr err \<Rightarrow> (w1, Some (ApiError err))
              | Inl ready \<Rightarrow>
                  (let w2 = w1 @ [ApplyAgentService \<lparr>ks_Name = kd_Name dep, ks_Namespace = na_Namespace a1,
                         ks_Selector = kd_Selector dep, ks_Ports = [(''http'', 80, 8000)]\<rparr>] in
                   if aa_service ans \<noteq> None then (w2, map_option ApiError (aa_service ans))
                   else (w2 @ [UpdateAgentStatus (a1\<lparr>na_Status := (na_Status a1)\<lparr>nat_Phase := ''Ready'', nat_ReadyReplicas := ready,
                           nat_ObservedGeneration := na_Generation a1, nat_Ready := Some \<lparr>rc_Status = True,
                             rc_Reason = ''WorkloadReconciled'', rc_Message = ''Deployment '' @ kd_Name dep @ '' reconciled''\<rparr>\<rparr>\<rparr>)],
                         if aa_status ans = Some KubeConflict then None else map_option ApiError (aa_status ans)))))"

subsection \<open>The controllers of pipeline runs and model promotions\<close>

record pipeline_answers =
  pa_get :: "NexusPipelineRun + kube_error"
  pa_now :: time
  pa_submit :: "gany gomap + error"
  pa_error_text :: "error \<Rightarrow> string"
  pa_first :: "kube_error option"  \<comment> \<open>of the status update before the submission, ignored\<close>
  pa_failed :: "kube_error option" \<comment> \<open>of the status update after a failed submission, ignored\<close>
  pa_status :: "kube_error option" \<comment> \<open>of the status update after a successful one\<close>

datatype pipeline_write = UpdateRunStatus NexusPipelineRun | SubmitToKFP string string string "string gomap"

definition stringValue :: "gany gomap \<Rightarrow> string list \<Rightarrow> string" where
  "stringValue values keys = (case List.map_filter (\<lambda>k. case map_of values k of Some (AnyStr s) \<Rightarrow> Some s | _ \<Rightarrow> None) keys of
     [] \<Rightarrow> [] | s # _ \<Rightarrow> s)"

text \<open>The boolean of the result tells whether the request is queued again after ten seconds.\<close>

definition Reconcile_pipeline :: "string \<Rightarrow> pipeline_answers \<Rightarrow> pipeline_write list \<times> bool \<times> operator_error option" where
  "Reconcile_pipeline experiment ans =
     (case pa_get ans of
        Inr KubeNotFound \<Rightarrow> ([], False, None)
      | Inr err \<Rightarrow> ([], False, Some (ApiError err))
      | Inl run \<Rightarrow>
         if npr_WorkflowRef run \<noteq> [] \<or> npr_Phase run = ''Succeeded'' then ([], False, None)
         else let run1 = run\<lparr>npr_Phase := ''Submitting'', npr_StartedAt := Some (pa_now ans)\<rparr>;
                  w = [UpdateRunStatus run1, SubmitToKFP experiment (npr_PipelineRef run1) (npr_Name run1) (npr_Parameters run1)]
         in case pa_submit ans of
           Inr err \<Rightarrow> (w @ [UpdateRunStatus (run1\<lparr>npr_Phase := ''Failed'', npr_Message := pa_error_text ans err\<rparr>)], True, Some (EngineError err))
         | Inl result \<Rightarrow>
             (w @ [UpdateRunStatus (run1\<lparr>npr_Phase := ''Running'',
                 npr_WorkflowRef := stringValue result [''run_id'', ''runId'', ''id''], npr_Message := ''Submitted to KFP''\<rparr>)],
              False, map_option ApiError (pa_status ans)))"

record promotion_answers =
  ma_get :: "NexusModelPromotion + kube_error"
  ma_transition :: "error option"
  ma_error_text :: "error \<Rightarrow> string"
  ma_create :: "kube_error option"
  ma_status :: "kube_error option"

datatype promotion_write = UpdatePromotionStatus NexusModelPromotion | TransitionStage string string string
  | CreateInferenceService string string string

text \<open>
  \<open>strings.ToUpper(string(s[0])) + s[1:]\<close>: the conversion takes the first byte for a code point
  up to U+00FF, whose upper case is encoded in UTF-8.
\<close>

definition upper_latin1 :: "nat \<Rightarrow> nat" where
  "upper_latin1 n =
     (if 97 \<le> n \<and> n \<le> 122 \<or> 224 \<le> n \<and> n \<le> 254 \<and> n \<noteq> 247 then n - 32
      else if n = 181 then 924 else if n = 255 then 376 else n)"

definition utf8_short :: "nat \<Rightarrow> string" where
  "utf8_short n = (if n < 128 then [char_of n] else [char_of (192 + n div 64), char_of (128 + n mod 64)])"

definition title_stage :: "string \<Rightarrow> string" where
  "title_stage s = utf8_short (upper_latin1 (of_char (hd s))) @ tl s"

definition Reconcile_promotion :: "promotion_answers \<Rightarrow> promotion_write list \<times> bool \<times> operator_error option" where
  "Reconcile_promotion ans =
     (case ma_get ans of
        Inr KubeNotFound \<Rightarrow> ([], False, None)
      | Inr err \<Rightarrow> ([], False, Some (ApiError err))
      | Inl m \<Rightarrow>
         if nmp_Phase m = ''Succeeded'' then ([], False, None)
         else if nmp_TargetStage m = [] then
           ([UpdatePromotionStatus (m\<lparr>nmp_Phase := ''Failed'', nmp_Message := ''targetStage is required''\<rparr>)], False,
            Some (EngineError (Err ''targetStage is required'')))
         else let w = [TransitionStage (nmp_ModelName m) (nmp_Version m) (title_stage (nmp_TargetStage m))] in
         if ma_transition ans \<noteq> None then
           (w @ [UpdatePromotionStatus (m\<lparr>nmp_Phase := ''Failed'', nmp_Message := ma_error_text ans (the (ma_transition ans))\<rparr>)], True,
            map_option EngineError (ma_transition ans))
         else let name = dnsLabel (nmp_ModelName m @ ''-'' @ nmp_Version m);
                  w1 = w @ [CreateInferenceService name (nmp_Namespace m) (''models:/'' @ nmp_ModelName m @ ''/'' @ nmp_Version m)] in
         if ma_create ans \<noteq> None \<and> ma_create ans \<noteq> Some KubeAlreadyExists then (w1, False, map_option ApiError (ma_create ans))
         else (w1 @ [UpdatePromotionStatus (m\<lparr>nmp_Phase := ''Succeeded'',
                 nmp_Message := ''MLflow stage transitioned and KServe resource created'', nmp_InferenceServiceRef := name\<rparr>)],
               False, map_option ApiError (ma_status ans)))"

subsection \<open>Plans are sound\<close>

definition agent_acceptable :: "AgentSpec \<Rightarrow> bool" where
  "agent_acceptable spec \<longleftrightarrow>
     TrimSpace (as_Name spec) \<noteq> [] \<and> TrimSpace (as_Namespace spec) \<noteq> [] \<and> as_Image spec \<noteq> [] \<and> as_Version spec \<noteq> [] \<and>
     as_GraphModule spec \<noteq> [] \<and> 0 \<le> as_CanaryWeight spec \<and> as_CanaryWeight spec \<le> 100 \<and>
     max 1 (as_MinReplicas spec) \<le> as_MaxReplicas spec"

lemma ReconcileAgent_accepts: "(\<exists>plan. ReconcileAgent spec = Inl plan) \<longleftrightarrow> agent_acceptable spec"
  by (auto simp: ReconcileAgent_def agent_acceptable_def Let_def)

lemma ReconcileAgent_plan:
  assumes "ReconcileAgent spec = Inl plan"
  shows "0 \<le> tr_StableWeight (ap_Traffic plan)" "0 \<le> tr_CanaryWeight (ap_Traffic plan)"
    "tr_StableWeight (ap_Traffic plan) + tr_CanaryWeight (ap_Traffic plan) = 100"
    "tr_StableDestination (ap_Traffic plan) \<noteq> []"
    "1 \<le> aw_Replicas (ap_Workload plan)" "aw_Replicas (ap_Workload plan) \<le> as_MaxReplicas spec"
    "aw_Replicas (ap_Workload plan) = max 1 (as_MinReplicas spec)"
    "map ct_Name (aw_Containers (ap_Workload plan)) = [''agent'', ''trace-proxy'']"
    "map_of (ct_Env (aw_Containers (ap_Workload plan) ! 0)) ''OPENAI_BASE_URL'' = Some ''http://localhost:8081/v1''"
    "ct_Port (aw_Containers (ap_Workload plan) ! 1) = 8081"
  using assms by (auto simp: ReconcileAgent_def Let_def split: if_splits)

text \<open>What a reconciliation of an agent writes.\<close>

definition deployments :: "agent_write list \<Rightarrow> kdeployment list" where
  "deployments ws = List.map_filter (\<lambda>w. case w of ApplyAgentDeployment d \<Rightarrow> Some d | _ \<Rightarrow> None) ws"

lemma agent_workload_writes:
  assumes "dep \<in> set (deployments (fst (Reconcile_agent ans)))"
  shows "\<exists>a plan. aa_get ans = Inl a \<and> \<not> na_Deleted a \<and> ReconcileAgent (agent_spec a) = Inl plan \<and> dep = agent_deployment a plan \<and>
    (agentFinalizer \<in> set (na_Finalizers a) \<or> aa_update ans = None \<and>
       hd (fst (Reconcile_agent ans)) = UpdateAgent (a\<lparr>na_Finalizers := na_Finalizers a @ [agentFinalizer]\<rparr>))"
proof -
  have same: "agent_spec (a\<lparr>na_Finalizers := f\<rparr>) = agent_spec a" "agent_deployment (a\<lparr>na_Finalizers := f\<rparr>) plan = agent_deployment a plan"
    for a f plan by (simp_all add: agent_spec_def agent_deployment_def)
  from assms show ?thesis
    by (auto simp: Reconcile_agent_def deployments_def List.map_filter_simps Let_def same
        split: sum.splits kube_error.splits if_splits)
qed

subsection \<open>Runs are submitted once\<close>

text \<open>
  The stored run after a reconciliation, and the number of submissions the engine accepted: a
  status update takes effect when the server answers without an error.
\<close>

definition pipeline_round :: "string \<Rightarrow> NexusPipelineRun \<times> nat \<Rightarrow> pipeline_answers \<Rightarrow> NexusPipelineRun \<times> nat" where
  "pipeline_round experiment = (\<lambda>(run, n) ans.
     let ws = fst (Reconcile_pipeline experiment (ans\<lparr>pa_get := Inl run\<rparr>));
         updates = List.map_filter (\<lambda>w. case w of UpdateRunStatus r \<Rightarrow> Some r | _ \<Rightarrow> None) ws;
         answers = [pa_first ans, case pa_submit ans of Inl _ \<Rightarrow> pa_status ans | Inr _ \<Rightarrow> pa_failed ans];
         submitted = list_ex (\<lambda>w. case w of SubmitToKFP _ _ _ _ \<Rightarrow> True | _ \<Rightarrow> False) ws
     in (foldl (\<lambda>s (r, err). if err = None then r else s) run (zip updates answers),
         if submitted \<and> isl (pa_submit ans) then n + 1 else n))"

lemma pipeline_round_started:
  "npr_WorkflowRef run \<noteq> [] \<or> npr_Phase run = ''Succeeded'' \<Longrightarrow> pipeline_round experiment (run, n) ans = (run, n)"
  by (simp add: pipeline_round_def Reconcile_pipeline_def List.map_filter_simps Let_def)

lemma pipeline_rounds_started: "npr_WorkflowRef run \<noteq> [] \<Longrightarrow> foldl (pipeline_round experiment) (run, n) anss = (run, n)"
  by (induction anss) (simp_all add: pipeline_round_started)

lemma pipeline_rounds_once:
  assumes "\<And>ans result. ans \<in> set anss \<Longrightarrow> pa_submit ans = Inl result \<Longrightarrow>
      pa_status ans = None \<and> stringValue result [''run_id'', ''runId'', ''id''] \<noteq> []"
  shows "snd (foldl (pipeline_round experiment) (run, n) anss) \<le> n + 1"
  using assms
proof (induction anss arbitrary: run)
  case (Cons ans anss)
  show ?case
  proof (cases "snd (pipeline_round experiment (run, n) ans) = n")
    case True
    then obtain run' where "pipeline_round experiment (run, n) ans = (run', n)" by (metis prod.collapse)
    moreover have "snd (foldl (pipeline_round experiment) (run', n) anss) \<le> n + 1" by (rule Cons.IH) (use Cons.prems in auto)
    ultimately show ?thesis by simp
  next
    case False
    then obtain result where result: "pa_submit ans = Inl result"
      by (cases "pa_submit ans") (auto simp: pipeline_round_def split_beta Let_def split: if_splits)
    then have ok: "pa_status ans = None" "stringValue result [''run_id'', ''runId'', ''id''] \<noteq> []" using Cons.prems by auto
    have "\<not> (npr_WorkflowRef run \<noteq> [] \<or> npr_Phase run = ''Succeeded'')"
      using False pipeline_round_started [of run "experiment" n ans] by (metis snd_conv)
    then obtain run' where "pipeline_round experiment (run, n) ans = (run', n + 1)" "npr_WorkflowRef run' \<noteq> []"
      using ok result by (simp add: pipeline_round_def Reconcile_pipeline_def Let_def List.map_filter_simps)
    then show ?thesis by (simp add: pipeline_rounds_started)
  qed
qed simp

text \<open>A promotion that succeeded is never executed again, whatever its specification says by then.\<close>

lemma promotion_finished: "ma_get ans = Inl m \<Longrightarrow> nmp_Phase m = ''Succeeded'' \<Longrightarrow> Reconcile_promotion ans = ([], False, None)"
  by (simp add: Reconcile_promotion_def)

end
