(* ===== verification/Workspaces.thy ===== *)
theory Workspaces
  imports Operator
begin

text \<open>
  The workspace controller, \<^verbatim>\<open>go/internal/operator/workspace_controller.go\<close>: a grant becomes one
  pod with a notebook and an IDE that share a volume and split the granted resources.
\<close>

record workspace_config =
  cfg_WorkbenchImage :: string
  cfg_IDEImage :: string
  cfg_GatewayURL :: string
  cfg_FeatureURL :: string
  cfg_StorageURL :: string
  cfg_MLflowURL :: string
  cfg_PrefectURL :: string
  cfg_LangfuseURL :: string
  cfg_KafkaRESTURL :: string
  cfg_StorageClass :: string

record kclaim =
  kl_Name :: string
  kl_Namespace :: string
  kl_Labels :: "string gomap"
  kl_Request :: int
  kl_Class :: "string option" \<comment> \<open>\<open>None\<close>: left as it is\<close>

record ksecret =
  kx_Name :: string
  kx_Namespace :: string
  kx_Token :: string

text \<open>
  What the mutate functions read: the storage request of the existing claim (\<open>None\<close> when it has
  none), the token of the existing secret (empty when there is none), the ready replicas.
\<close>

record workspace_answers =
  wa_get :: "NexusWorkspace + kube_error"
  wa_claim_request :: "int option"
  wa_claim :: "kube_error option"
  wa_token :: string
  wa_random :: "string option" \<comment> \<open>24 bytes of \<open>crypto/rand\<close>\<close>
  wa_secret :: "kube_error option"
  wa_deployment :: "int + kube_error"
  wa_service :: "kube_error option"
  wa_delete :: "kube_error option"
  wa_status :: "kube_error option"

datatype workspace_write = ApplyClaim kclaim | ApplySecret ksecret | ApplyDeployment kdeployment | ApplyService kservice
  | DeleteService string string | UpdateWorkspaceStatus NexusWorkspace

definition granted_services :: "NexusWorkspace \<Rightarrow> string list" where
  "granted_services w = filter (\<lambda>service. service \<in> set (nws_Services (nw_Spec w))) [''workbench'', ''ide'']"

definition workspace_environment :: "workspace_config \<Rightarrow> NexusWorkspace \<Rightarrow> string gomap" where
  "workspace_environment r w = [(''MLAIOPS_URL'', cfg_GatewayURL r), (''MLAIOPS_FEATURE_GATEWAY_URL'', cfg_FeatureURL r),
     (''MLAIOPS_STORAGE_PROXY_URL'', cfg_StorageURL r), (''MLFLOW_TRACKING_URI'', cfg_MLflowURL r),
     (''PREFECT_API_URL'', cfg_PrefectURL r), (''LANGFUSE_HOST'', cfg_LangfuseURL r), (''KAFKA_REST_URL'', cfg_KafkaRESTURL r),
     (''NEXUS_SUBJECT'', nws_Subject (nw_Spec w)), (''NEXUS_WORKSPACE'', ''/workspace'')]"

text \<open>Requests and limits are equal. The divisions are Go's, of non-negative \<open>int64\<close> values.\<close>

definition workspace_container :: "workspace_config \<Rightarrow> NexusWorkspace \<Rightarrow> string \<Rightarrow> nat \<Rightarrow> string \<Rightarrow> kcontainer" where
  "workspace_container r w secret n service =
     (let compute = nws_Compute (nw_Spec w); bench = (service = ''workbench'') in
      \<lparr>kc_Name = service, kc_Image = (if service = ''ide'' then cfg_IDEImage r else cfg_WorkbenchImage r),
       kc_Port = (if service = ''ide'' then 8080 else 8888),
       kc_Env = workspace_environment r w @ (if bench then [(''S3_MOUNT_OPTIONAL'', ''true'')] else []),
       kc_Secret = Some (if bench then ''JUPYTER_TOKEN'' else ''PASSWORD'', secret, ''token''),
       kc_CPU = Some (wc_VCPUs compute * 1000 div int n), kc_Memory = Some (wc_MemoryGB compute * 2 ^ 30 div int n),
       kc_GPU = (if bench \<and> 0 < wc_GPUs compute
         then Some (if wc_GPUType compute = [] then ''nvidia.com/gpu'' else wc_GPUType compute, wc_GPUs compute) else None),
       kc_NoEscalation = True, kc_NonRoot = True, kc_ReadOnly = False\<rparr>)"

definition containers :: "workspace_config \<Rightarrow> NexusWorkspace \<Rightarrow> string \<Rightarrow> kcontainer list" where
  "containers r w secret =
     (let services = granted_services w in map (workspace_container r w secret (length services)) services)"

definition workspacePorts :: "string list \<Rightarrow> (string \<times> int \<times> int) list" where
  "workspacePorts services = (if ''workbench'' \<in> set services then [(''workbench'', 8888, 8888)] else []) @
     (if ''ide'' \<in> set services then [(''ide'', 8080, 8080)] else [])"

definition workspace_labels :: "NexusWorkspace \<Rightarrow> string gomap" where
  "workspace_labels w = [(''app.kubernetes.io/name'', nw_Name w), (''app.kubernetes.io/component'', ''workspace''),
     (''app.kubernetes.io/managed-by'', ''mlaiops-operator''), (''mlaiops.io/workspace'', nw_Name w)]"

definition workspace_claim :: "workspace_config \<Rightarrow> workspace_answers \<Rightarrow> NexusWorkspace \<Rightarrow> kclaim" where
  "workspace_claim r ans w =
     (let requested = nws_StorageGB (nw_Spec w) * 2 ^ 30 in
      \<lparr>kl_Name = nw_Name w, kl_Namespace = nw_Namespace w, kl_Labels = workspace_labels w,
       kl_Request = (case wa_claim_request ans of None \<Rightarrow> requested
         | Some current \<Rightarrow> if current < requested then requested else current),
       kl_Class = (if cfg_StorageClass r \<noteq> [] then Some (cfg_StorageClass r) else None)\<rparr>)"

definition workspace_token :: "workspace_answers \<Rightarrow> string option" where
  "workspace_token ans = (if wa_token ans \<noteq> [] then Some (wa_token ans) else map_option RawURLEncoding (wa_random ans))"

definition workspace_deployment :: "workspace_config \<Rightarrow> NexusWorkspace \<Rightarrow> kdeployment" where
  "workspace_deployment r w =
     (let cs = containers r w (nw_Name w @ ''-auth'') in
      \<lparr>kd_Name = nw_Name w, kd_Namespace = nw_Namespace w, kd_Labels = workspace_labels w,
       kd_Replicas = (if nws_Disabled (nw_Spec w) \<or> cs = [] then 0 else 1),
       kd_Selector = [(''mlaiops.io/workspace'', nw_Name w)], kd_TemplateLabels = workspace_labels w,
       kd_Containers = cs, kd_Claim = nw_Name w\<rparr>)"

definition workspace_url :: "NexusWorkspace \<Rightarrow> string \<Rightarrow> string \<Rightarrow> string" where
  "workspace_url w service port = (if service \<in> set (nws_Services (nw_Spec w))
     then ''http://'' @ nw_Name w @ ''.'' @ nw_Namespace w @ ''.svc:'' @ port else [])"

definition workspace_status :: "NexusWorkspace \<Rightarrow> int \<Rightarrow> NexusWorkspace" where
  "workspace_status w ready = w\<lparr>nw_Status := (nw_Status w)\<lparr>
     nwt_Phase := (if nws_Disabled (nw_Spec w) then ''Suspended'' else ''Ready''), nwt_ReadyReplicas := ready,
     nwt_ObservedGeneration := nw_Generation w, nwt_WorkbenchURL := workspace_url w ''workbench'' ''8888'',
     nwt_IDEURL := workspace_url w ''ide'' ''8080'',
     nwt_Ready := Some \<lparr>rc_Status = True, rc_Reason = ''WorkspaceReconciled'',
       rc_Message = ''Persistent workspace and assigned services reconciled''\<rparr>\<rparr>\<rparr>"

definition workspace_failed :: "NexusWorkspace \<Rightarrow> NexusWorkspace" where
  "workspace_failed w = w\<lparr>nw_Status := (nw_Status w)\<lparr>nwt_Phase := ''Failed'',
     nwt_Ready := Some \<lparr>rc_Status = False, rc_Reason = ''InvalidSpec'',
       rc_Message = ''subject, vcpus, memoryGB and storageGB must be positive''\<rparr>\<rparr>\<rparr>"

definition Reconcile_workspace :: "workspace_config \<Rightarrow> workspace_answers \<Rightarrow> workspace_write list \<times> operator_error option" where
  "Reconcile_workspace r ans =
     (case wa_get ans of
        Inr KubeNotFound \<Rightarrow> ([], None)
      | Inr err \<Rightarrow> ([], Some (ApiError err))
      | Inl w \<Rightarrow>
         if nws_Subject (nw_Spec w) = [] \<or> wc_VCPUs (nws_Compute (nw_Spec w)) < 1 \<or> wc_MemoryGB (nws_Compute (nw_Spec w)) < 1 \<or>
            nws_StorageGB (nw_Spec w) < 1
           then ([UpdateWorkspaceStatus (workspace_failed w)],
                 Some (InvalidSpec (Err ''subject, vcpus, memoryGB and storageGB must be positive'')))
         else let w1 = [ApplyClaim (workspace_claim r ans w)] in
         if wa_claim ans \<noteq> None then (w1, map_option ApiError (wa_claim ans))
         else case workspace_token ans of None \<Rightarrow> (w1, Some (EngineError (ErrIO ''rand'')))
         | Some token \<Rightarrow>
             (let w2 = w1 @ [ApplySecret \<lparr>kx_Name = nw_Name w @ ''-auth'', kx_Namespace = nw_Namespace w, kx_Token = token\<rparr>] in
              if wa_secret ans \<noteq> None then (w2, map_option ApiError (wa_secret ans))
              else let dep = workspace_deployment r w; w3 = w2 @ [ApplyDeployment dep] in
              case wa_deployment ans of Inr err \<Rightarrow> (w3, Some (ApiError err))
              | Inl ready \<Rightarrow>
                  (let some = (kd_Containers dep \<noteq> []);
                       w4 = w3 @ [if some then ApplyService \<lparr>ks_Name = nw_Name w, ks_Namespace = nw_Namespace w,
                              ks_Selector = kd_Selector dep, ks_Ports = workspacePorts (nws_Services (nw_Spec w))\<rparr>
                            else DeleteService (nw_Name w) (nw_Namespace w)];
                       failed = (if some then wa_service ans else if wa_delete ans = Some KubeNotFound then None else wa_delete ans)
                   in if failed \<noteq> None then (w4, map_option ApiError failed)
                      else (w4 @ [UpdateWorkspaceStatus (workspace_status w ready)],
                            if wa_status ans = Some KubeConflict then None else map_option ApiError (wa_status ans)))))"

subsection \<open>The grant bounds the pod\<close>

lemma granted_services_cases:
  "granted_services w \<in> {[], [''workbench''], [''ide''], [''workbench'', ''ide'']}"
  by (auto simp: granted_services_def)

lemma split_bound: "0 \<le> x \<Longrightarrow> int n * (x div int n) \<le> x"
proof (cases "n = 0")
  case False
  then have "0 \<le> x mod int n" by simp
  with mult_div_mod_eq [of "int n" x] show ?thesis by linarith
qed simp

definition total :: "(kcontainer \<Rightarrow> int option) \<Rightarrow> kcontainer list \<Rightarrow> int" where
  "total f cs = sum_list (map (\<lambda>c. case f c of Some n \<Rightarrow> n | None \<Rightarrow> 0) cs)"

lemma sum_list_const_int: "sum_list (map (\<lambda>x. c) xs) = int (length xs) * c"
  by (induction xs) (simp_all add: algebra_simps)

lemma containers_bounded:
  assumes "0 \<le> wc_VCPUs (nws_Compute (nw_Spec w))" and "0 \<le> wc_MemoryGB (nws_Compute (nw_Spec w))"
  shows "total kc_CPU (containers r w secret) \<le> 1000 * wc_VCPUs (nws_Compute (nw_Spec w))"
    and "total kc_Memory (containers r w secret) \<le> 2 ^ 30 * wc_MemoryGB (nws_Compute (nw_Spec w))"
    and "total (\<lambda>c. map_option snd (kc_GPU c)) (containers r w secret) \<le> max 0 (wc_GPUs (nws_Compute (nw_Spec w)))"
proof -
  let ?n = "length (granted_services w)"
  have "total kc_CPU (containers r w secret) = int ?n * (wc_VCPUs (nws_Compute (nw_Spec w)) * 1000 div int ?n)"
    by (simp add: total_def containers_def workspace_container_def Let_def comp_def sum_list_const_int)
  then show "total kc_CPU (containers r w secret) \<le> 1000 * wc_VCPUs (nws_Compute (nw_Spec w))"
    using split_bound [of "wc_VCPUs (nws_Compute (nw_Spec w)) * 1000" ?n] assms(1) by simp
  have "total kc_Memory (containers r w secret) = int ?n * (wc_MemoryGB (nws_Compute (nw_Spec w)) * 2 ^ 30 div int ?n)"
    by (simp add: total_def containers_def workspace_container_def Let_def comp_def sum_list_const_int)
  then show "total kc_Memory (containers r w secret) \<le> 2 ^ 30 * wc_MemoryGB (nws_Compute (nw_Spec w))"
    using split_bound [of "wc_MemoryGB (nws_Compute (nw_Spec w)) * 2 ^ 30" ?n] assms(2) by simp
  show "total (\<lambda>c. map_option snd (kc_GPU c)) (containers r w secret) \<le> max 0 (wc_GPUs (nws_Compute (nw_Spec w)))"
    using granted_services_cases [of w]
    by (auto simp: total_def containers_def workspace_container_def Let_def)
qed

subsection \<open>What a reconciliation writes\<close>

text \<open>The only Deployment, claim and secret a reconciliation asks for.\<close>

lemma workspace_writes:
  assumes "x \<in> set (fst (Reconcile_workspace r ans))"
  obtains w where "wa_get ans = Inl w"
    "case x of ApplyClaim c \<Rightarrow> c = workspace_claim r ans w
     | ApplySecret k \<Rightarrow> workspace_token ans = Some (kx_Token k) \<and> kx_Name k = nw_Name w @ ''-auth'' \<and> kx_Namespace k = nw_Namespace w
     | ApplyDeployment d \<Rightarrow> d = workspace_deployment r w \<and> 1 \<le> wc_VCPUs (nws_Compute (nw_Spec w)) \<and> 1 \<le> wc_MemoryGB (nws_Compute (nw_Spec w))
     | ApplyService k \<Rightarrow> ks_Name k = nw_Name w \<and> ks_Namespace k = nw_Namespace w \<and> granted_services w \<noteq> []
     | DeleteService n ns \<Rightarrow> n = nw_Name w \<and> ns = nw_Namespace w \<and> granted_services w = []
     | UpdateWorkspaceStatus s \<Rightarrow> s = workspace_failed w \<or> (\<exists>ready. s = workspace_status w ready)"
proof -
  have none: "kd_Containers (workspace_deployment r w) = [] \<longleftrightarrow> granted_services w = []" for w
    by (simp add: workspace_deployment_def containers_def Let_def)
  show thesis
  proof (cases "wa_get ans")
    case (Inr err)
    then show thesis using assms by (cases err) (simp_all add: Reconcile_workspace_def)
  next
    case (Inl w)
    show thesis
      by (rule that [OF Inl]) (use assms Inl in \<open>auto simp: Reconcile_workspace_def Let_def none split: if_splits option.splits sum.splits\<close>)
  qed
qed

lemma workspace_replicas:
  "kd_Replicas (workspace_deployment r w) = (if nws_Disabled (nw_Spec w) \<or> granted_services w = [] then 0 else 1)"
  by (simp add: workspace_deployment_def containers_def Let_def)

text \<open>A reconciliation without a failing call ends with a status that reports the generation it saw.\<close>

definition answered :: "workspace_answers \<Rightarrow> bool" where
  "answered ans \<longleftrightarrow> wa_claim ans = None \<and> workspace_token ans \<noteq> None \<and> wa_secret ans = None \<and> isl (wa_deployment ans) \<and>
     wa_service ans = None \<and> wa_delete ans \<in> {None, Some KubeNotFound} \<and> wa_status ans = None"

definition positive_spec :: "NexusWorkspaceSpec \<Rightarrow> bool" where
  "positive_spec spec \<longleftrightarrow> nws_Subject spec \<noteq> [] \<and> 1 \<le> wc_VCPUs (nws_Compute spec) \<and> 1 \<le> wc_MemoryGB (nws_Compute spec) \<and> 1 \<le> nws_StorageGB spec"

lemma workspace_completes:
  assumes "wa_get ans = Inl w" and "positive_spec (nw_Spec w)" and "answered ans"
  shows "snd (Reconcile_workspace r ans) = None \<and>
    last (fst (Reconcile_workspace r ans)) = UpdateWorkspaceStatus (workspace_status w (projl (wa_deployment ans))) \<and>
    ApplyDeployment (workspace_deployment r w) \<in> set (fst (Reconcile_workspace r ans))"
  using assms by (auto simp: Reconcile_workspace_def Let_def answered_def positive_spec_def isl_def)

text \<open>
  A specification that is not positive is refused before the Deployment is touched, also when the
  workspace is suspended: its pod keeps running.
\<close>

lemma workspace_refused:
  "wa_get ans = Inl w \<Longrightarrow> \<not> positive_spec (nw_Spec w) \<Longrightarrow>
    fst (Reconcile_workspace r ans) = [UpdateWorkspaceStatus (workspace_failed w)] \<and> snd (Reconcile_workspace r ans) \<noteq> None"
  by (auto simp: Reconcile_workspace_def positive_spec_def)

end
