(* ===== verification/Clients.thy ===== *)
theory Clients
  imports Api Go_Url
begin

text \<open>
  The HTTP clients of the platform: \<^verbatim>\<open>go/internal/integrations/client.go\<close> and
  \<^verbatim>\<open>kafka_consumer.go\<close>.

  The network is the parameter \<open>web_do\<close>, the response or the error of a request;
  \<open>encoding/json\<close> is \<open>web_marshal\<close> and \<open>web_decode\<close>, which decodes the first value of
  a body. A method returns the requests it sends, in order, and its results. Reading a body is
  limited to the first bytes, as \<open>io.LimitReader\<close> does.
\<close>

record http_request =
  hq_Method :: string
  hq_URL :: string
  hq_Headers :: "string gomap"
  hq_BasicAuth :: "(string \<times> string) option"
  hq_Body :: "string option"

record http_response =
  hr_Status :: int
  hr_StatusText :: string
  hr_Body :: string
  hr_CallID :: string

record web =
  web_do :: "http_request \<Rightarrow> http_response + error"
  web_marshal :: "gany \<Rightarrow> string option"
  web_decode :: "string \<Rightarrow> gany option"

record Client =
  cl_BaseURL :: string
  cl_Token :: string

type_synonym 'a sent = "http_request list \<times> 'a \<times> error option"

definition New :: "string \<Rightarrow> string \<Rightarrow> Client" where
  "New baseURL token = \<lparr>cl_BaseURL = TrimRightByte (CHR ''/'') baseURL, cl_Token = token\<rparr>"

definition success :: "int \<Rightarrow> bool" where
  "success status \<longleftrightarrow> 200 \<le> status \<and> status < 300"

definition body_limit :: nat where
  "body_limit = 4194304"

text \<open>\<open>Client.JSON\<close>; \<open>output\<close> tells whether the caller passes a destination for the answer.\<close>

definition JSON :: "web \<Rightarrow> Client \<Rightarrow> string \<Rightarrow> string \<Rightarrow> gany option \<Rightarrow> bool \<Rightarrow> gany sent" where
  "JSON w c meth path input output =
     (if cl_BaseURL c = [] then ([], AnyNil, Some (Err ''integration base URL is not configured''))
      else case (case input of None \<Rightarrow> Some None | Some v \<Rightarrow> map_option Some (web_marshal w v)) of
        None \<Rightarrow> ([], AnyNil, Some ErrJSON)
      | Some body \<Rightarrow>
          (if url_Parse (cl_BaseURL c @ path) = None then ([], AnyNil, Some (Err ''invalid URL''))
           else let request = \<lparr>hq_Method = meth, hq_URL = cl_BaseURL c @ path,
                      hq_Headers = (''Content-Type'', ''application/json'') #
                        (if cl_Token c \<noteq> [] then [(''Authorization'', ''Bearer '' @ cl_Token c)] else []),
                      hq_BasicAuth = None, hq_Body = body\<rparr>
                in ([request],
                  case web_do w request of
                    Inr err \<Rightarrow> (AnyNil, Some err)
                  | Inl response \<Rightarrow>
                      if \<not> success (hr_Status response) then
                        (AnyNil, Some (Err (''integration returned '' @ Itoa (hr_Status response) @ '': '' @ TrimSpace (take 4096 (hr_Body response)))))
                      else if \<not> output \<or> hr_Status response = 204 then (AnyNil, None)
                      else (case web_decode w (take body_limit (hr_Body response)) of
                          None \<Rightarrow> (AnyNil, Some ErrJSON) | Some v \<Rightarrow> (v, None)))))"

definition reply_field :: "gany \<Rightarrow> string \<Rightarrow> string" where
  "reply_field v k = (case v of AnyMap m \<Rightarrow> (case map_of m k of Some (AnyStr s) \<Rightarrow> s | _ \<Rightarrow> []) | _ \<Rightarrow> [])"

subsection \<open>Pipelines, models and traces\<close>

text \<open>\<open>KFP.Submit\<close>: the inputs come from a Go map in any order.\<close>

definition KFP_Submit :: "web \<Rightarrow> Client \<Rightarrow> string \<Rightarrow> string \<Rightarrow> string \<Rightarrow> string gomap \<Rightarrow> gany sent" where
  "KFP_Submit w c experimentID pipelineVersionID name parameters =
     JSON w c ''POST'' ''/apis/v2beta1/runs'' (Some (AnyMap [(''display_name'', AnyStr name), (''experiment_id'', AnyStr experimentID),
       (''pipeline_version_reference'', AnyMap [(''pipeline_version_id'', AnyStr pipelineVersionID)]),
       (''runtime_config'', AnyMap [(''parameters'',
          AnyList (map (\<lambda>(k, v). AnyMap [(''name'', AnyStr k), (''value'', AnyStr v)]) parameters))])])) True"

definition MLflow_TransitionStage :: "web \<Rightarrow> Client \<Rightarrow> string \<Rightarrow> string \<Rightarrow> string \<Rightarrow> gany sent" where
  "MLflow_TransitionStage w c name version stage =
     JSON w c ''POST'' ''/api/2.0/mlflow/model-versions/transition-stage'' (Some (AnyMap [(''name'', AnyStr name),
       (''version'', AnyStr version), (''stage'', AnyStr stage), (''archive_existing_versions'', AnyBool (stage = ''Production''))])) True"

definition Langfuse_Ingest :: "web \<Rightarrow> Client \<Rightarrow> gany gomap list \<Rightarrow> gany sent" where
  "Langfuse_Ingest w c batch =
     JSON w c ''POST'' ''/api/public/ingestion'' (Some (AnyMap [(''batch'', AnyList (map AnyMap batch))])) True"

definition NewPrefect :: "string \<Rightarrow> string \<Rightarrow> Client" where
  "NewPrefect baseURL token = New (TrimSuffix (TrimRightByte (CHR ''/'') baseURL) ''/api'') token"

definition CreateFlowRun :: "web \<Rightarrow> Client \<Rightarrow> string \<Rightarrow> string \<Rightarrow> string \<Rightarrow> gany gomap \<Rightarrow> string sent" where
  "CreateFlowRun w c flowName deploymentName runName parameters =
     (let (sent1, deployment, err1) = JSON w c ''GET'' (''/api/deployments/name/'' @ PathEscape flowName @ ''/'' @ PathEscape deploymentName)
            None True in
      if err1 \<noteq> None then (sent1, [], Some (Err (''prefect deployment '' @ flowName @ ''/'' @ deploymentName @ '' not found'')))
      else let (sent2, flowRun, err2) = JSON w c ''POST'' (''/api/deployments/'' @ reply_field deployment ''id'' @ ''/create_flow_run'')
             (Some (AnyMap [(''name'', AnyStr runName), (''parameters'', AnyMap parameters)])) True in
      if err2 \<noteq> None then (sent1 @ sent2, [], err2)
      else if reply_field flowRun ''id'' = [] then (sent1 @ sent2, [], Some (Err ''prefect did not return a flow run id''))
      else (sent1 @ sent2, reply_field flowRun ''id'', None))"

definition CancelFlowRun :: "web \<Rightarrow> Client \<Rightarrow> string \<Rightarrow> gany sent" where
  "CancelFlowRun w c flowRunID =
     JSON w c ''POST'' (''/api/flow_runs/'' @ PathEscape flowRunID @ ''/set_state'')
       (Some (AnyMap [(''state'', AnyMap [(''type'', AnyStr ''CANCELLING''), (''name'', AnyStr ''Cancelling'')])])) True"

subsection \<open>OpenFaaS\<close>

record OpenFaaS =
  of_client :: Client
  of_user :: string
  of_password :: string

definition NewOpenFaaS :: "string \<Rightarrow> string \<Rightarrow> string \<Rightarrow> OpenFaaS" where
  "NewOpenFaaS baseURL user password = \<lparr>of_client = New baseURL [], of_user = user, of_password = password\<rparr>"

definition OpenFaaS_request :: "web \<Rightarrow> OpenFaaS \<Rightarrow> string \<Rightarrow> string \<Rightarrow> string option \<Rightarrow> http_request list \<times> (http_response + error)" where
  "OpenFaaS_request w o1 meth path body =
     (if cl_BaseURL (of_client o1) = [] then ([], Inr (Err ''openfaas base URL is not configured''))
      else if url_Parse (cl_BaseURL (of_client o1) @ path) = None then ([], Inr (Err ''invalid URL''))
      else let request = \<lparr>hq_Method = meth, hq_URL = cl_BaseURL (of_client o1) @ path,
                 hq_Headers = (if body \<noteq> None then [(''Content-Type'', ''application/json'')] else []),
                 hq_BasicAuth = (if of_user o1 \<noteq> [] then Some (of_user o1, of_password o1) else None), hq_Body = body\<rparr>
           in ([request], web_do w request))"

definition checked :: "http_response + error \<Rightarrow> string + error" where
  "checked r = (case r of Inr err \<Rightarrow> Inr err
     | Inl response \<Rightarrow>
        (let raw = take body_limit (hr_Body response) in
         if \<not> success (hr_Status response)
           then Inr (Err (''openfaas returned '' @ Itoa (hr_Status response) @ '': '' @ TrimSpace raw))
         else Inl raw))"

record deployed_function =
  df_Name :: string
  df_Image :: string
  df_EnvVars :: "string gomap"
  df_Labels :: "string gomap"
  df_Annotations :: "string gomap"
  df_Limits :: "string gomap"
  df_Requests :: "string gomap"

definition any_strings :: "string gomap \<Rightarrow> gany" where
  "any_strings m = AnyMap (map (\<lambda>(k, v). (k, AnyStr v)) m)"

definition call_system :: "web \<Rightarrow> OpenFaaS \<Rightarrow> string \<Rightarrow> gany \<Rightarrow> http_request list \<times> error option" where
  "call_system w o1 meth payload =
     (case web_marshal w payload of None \<Rightarrow> ([], Some ErrJSON)
      | Some raw \<Rightarrow>
          (let (sent, r) = OpenFaaS_request w o1 meth ''/system/functions'' (Some raw)
           in (sent, case checked r of Inl _ \<Rightarrow> None | Inr err \<Rightarrow> Some err)))"

definition DeployFunction :: "web \<Rightarrow> OpenFaaS \<Rightarrow> deployed_function \<Rightarrow> http_request list \<times> error option" where
  "DeployFunction w o1 f =
     (if df_Name f = [] \<or> df_Image f = [] then ([], Some (Err ''function name and image are required''))
      else call_system w o1 ''PUT'' (AnyMap [(''service'', AnyStr (df_Name f)), (''image'', AnyStr (df_Image f)),
        (''envVars'', any_strings (df_EnvVars f)), (''labels'', any_strings (df_Labels f)),
        (''annotations'', any_strings (df_Annotations f)), (''limits'', any_strings (df_Limits f)),
        (''requests'', any_strings (df_Requests f))]))"

definition DeleteFunction :: "web \<Rightarrow> OpenFaaS \<Rightarrow> string \<Rightarrow> http_request list \<times> error option" where
  "DeleteFunction w o1 name =
     (if name = [] then ([], Some (Err ''function name is required''))
      else call_system w o1 ''DELETE'' (AnyMap [(''functionName'', AnyStr name)]))"

record listed_function =
  lf_Name :: string
  lf_Image :: string
  lf_Replicas :: int
  lf_Labels :: "string gomap"

text \<open>\<open>decode\<close> is \<open>json.Unmarshal\<close> into the list of structs with these fields.\<close>

definition ListFunctions ::
  "web \<Rightarrow> (string \<Rightarrow> listed_function list option) \<Rightarrow> OpenFaaS \<Rightarrow> http_request list \<times> (listed_function list + error)" where
  "ListFunctions w decode o1 =
     (let (sent, r) = OpenFaaS_request w o1 ''GET'' ''/system/functions'' None in
      (sent, case checked r of Inr err \<Rightarrow> Inr err
        | Inl raw \<Rightarrow> (case decode raw of None \<Rightarrow> Inr ErrJSON | Some listed \<Rightarrow> Inl listed)))"

definition Invoke :: "web \<Rightarrow> OpenFaaS \<Rightarrow> string \<Rightarrow> string \<Rightarrow> http_request list \<times> (string + error)" where
  "Invoke w o1 name payload =
     (if name = [] then ([], Inr (Err ''function name is required''))
      else let (sent, r) = OpenFaaS_request w o1 ''POST'' (''/function/'' @ PathEscape name) (Some payload)
           in (sent, checked r))"

definition InvokeAsync :: "web \<Rightarrow> OpenFaaS \<Rightarrow> string \<Rightarrow> string \<Rightarrow> http_request list \<times> (string + error)" where
  "InvokeAsync w o1 name payload =
     (if name = [] then ([], Inr (Err ''function name is required''))
      else let (sent, r) = OpenFaaS_request w o1 ''POST'' (''/async-function/'' @ PathEscape name) (Some payload) in
        (sent, case r of Inr err \<Rightarrow> Inr err
          | Inl response \<Rightarrow> (case checked (Inl response) of Inr err \<Rightarrow> Inr err | Inl _ \<Rightarrow> Inl (hr_CallID response))))"

subsection \<open>Kafka\<close>

definition KafkaREST_Publish :: "web \<Rightarrow> Client \<Rightarrow> string \<Rightarrow> gany \<Rightarrow> gany sent" where
  "KafkaREST_Publish w c topic event =
     (if topic = [] then ([], AnyNil, Some (Err ''topic is required''))
      else JSON w c ''POST'' (''/topics/'' @ PathEscape topic)
        (Some (AnyMap [(''records'', AnyList [AnyMap [(''value'', event)]])])) True)"

record KafkaConsumer =
  kco_restURL :: string
  kco_baseURI :: string
  kco_group :: string
  kco_instance :: string

definition NewKafkaConsumer :: "string \<Rightarrow> string \<Rightarrow> string \<Rightarrow> KafkaConsumer" where
  "NewKafkaConsumer restURL grp inst = \<lparr>kco_restURL = TrimRightByte (CHR ''/'') restURL, kco_baseURI = [], kco_group = grp, kco_instance = inst\<rparr>"

definition Kafka_request :: "web \<Rightarrow> string \<Rightarrow> string \<Rightarrow> gany option \<Rightarrow> bool \<Rightarrow> gany sent" where
  "Kafka_request w meth endpoint input output =
     (case (case input of None \<Rightarrow> Some [] | Some v \<Rightarrow> web_marshal w v) of
        None \<Rightarrow> ([], AnyNil, Some ErrJSON)
      | Some body \<Rightarrow>
          (if url_Parse endpoint = None then ([], AnyNil, Some (Err ''invalid URL''))
           else let request = \<lparr>hq_Method = meth, hq_URL = endpoint,
                      hq_Headers = [(''Content-Type'', ''application/vnd.kafka.v2+json''), (''Accept'', ''application/vnd.kafka.json.v2+json'')],
                      hq_BasicAuth = None, hq_Body = Some body\<rparr>
                in ([request],
                  case web_do w request of
                    Inr err \<Rightarrow> (AnyNil, Some err)
                  | Inl response \<Rightarrow>
                      if \<not> success (hr_Status response) then (AnyNil, Some (Err (''Kafka REST returned '' @ Itoa (hr_Status response))))
                      else if \<not> output \<or> hr_Status response = 204 then (AnyNil, None)
                      else (case web_decode w (hr_Body response) of None \<Rightarrow> (AnyNil, Some ErrJSON) | Some v \<Rightarrow> (v, None)))))"

definition Kafka_Connect :: "web \<Rightarrow> KafkaConsumer \<Rightarrow> string list \<Rightarrow> http_request list \<times> KafkaConsumer \<times> error option" where
  "Kafka_Connect w c topics =
     (let (sent1, response, err1) = Kafka_request w ''POST'' (kco_restURL c @ ''/consumers/'' @ kco_group c)
            (Some (AnyMap [(''name'', AnyStr (kco_instance c)), (''format'', AnyStr ''json''),
              (''auto.offset.reset'', AnyStr ''earliest''), (''auto.commit.enable'', AnyStr ''true'')])) True in
      if err1 \<noteq> None then (sent1, c, err1)
      else let c1 = c\<lparr>kco_baseURI := reply_field response ''base_uri''\<rparr> in
      if kco_baseURI c1 = [] then (sent1, c1, Some (Err ''Kafka REST consumer did not return base_uri''))
      else let (sent2, _, err2) = Kafka_request w ''POST'' (kco_baseURI c1 @ ''/subscription'')
             (Some (AnyMap [(''topics'', AnyList (map AnyStr topics))])) False
           in (sent1 @ sent2, c1, err2))"

definition Kafka_Poll :: "web \<Rightarrow> KafkaConsumer \<Rightarrow> gany sent" where
  "Kafka_Poll w c = (if kco_baseURI c = [] then ([], AnyNil, Some (Err ''consumer is not connected''))
     else Kafka_request w ''GET'' (kco_baseURI c @ ''/records'') None True)"

definition Kafka_Close :: "web \<Rightarrow> KafkaConsumer \<Rightarrow> http_request list \<times> error option" where
  "Kafka_Close w c = (if kco_baseURI c = [] then ([], None)
     else let (sent, _, err) = Kafka_request w ''DELETE'' (kco_baseURI c) None False in (sent, err))"

subsection \<open>Requests\<close>

text \<open>The credentials of a client go to its own base URL only, and an empty base URL sends nothing.\<close>

lemma JSON_sent:
  "fst (JSON w c meth path input output) = [] \<or>
   (\<exists>rq. fst (JSON w c meth path input output) = [rq] \<and> cl_BaseURL c \<noteq> [] \<and> hq_URL rq = cl_BaseURL c @ path \<and> hq_Method rq = meth \<and>
      map_of (hq_Headers rq) ''Authorization'' = (if cl_Token c = [] then None else Some (''Bearer '' @ cl_Token c)))"
  by (auto simp: JSON_def Let_def split: option.splits)

lemma checked_ok: "checked r = Inl raw \<longleftrightarrow> (\<exists>resp. r = Inl resp \<and> success (hr_Status resp) \<and> raw = take body_limit (hr_Body resp))"
  by (auto simp: checked_def Let_def split: sum.splits)

lemma Invoke_sent:
  assumes "rq \<in> set (fst (Invoke w o1 name payload))"
  shows "hq_URL rq = cl_BaseURL (of_client o1) @ ''/function/'' @ PathEscape name" and "hq_Body rq = Some payload" and "hq_Method rq = ''POST''"
    and "hq_BasicAuth rq = (if of_user o1 = [] then None else Some (of_user o1, of_password o1))"
  using assms by (auto simp: Invoke_def OpenFaaS_request_def Let_def split: if_splits)

text \<open>The base URL of Prefect, with or without the suffix and slashes, gives the same client.\<close>

lemma TrimRightByte_append: "TrimRightByte c (s @ [c]) = TrimRightByte c s"
  by (simp add: TrimRightByte_def)

lemma TrimRightByte_api: "TrimRightByte (CHR ''/'') (s @ ''/api'') = s @ ''/api''"
  by (simp add: TrimRightByte_def)

lemma NewPrefect_api:
  "NewPrefect (s @ ''/'') tok = NewPrefect s tok"
  "\<not> HasSuffix (TrimRightByte (CHR ''/'') s) ''/api'' \<Longrightarrow> NewPrefect (s @ ''/api'') tok = NewPrefect s tok"
proof -
  show "NewPrefect (s @ ''/'') tok = NewPrefect s tok" by (simp add: NewPrefect_def TrimRightByte_append)
  assume "\<not> HasSuffix (TrimRightByte (CHR ''/'') s) ''/api''"
  moreover have "TrimRightByte (CHR ''/'') (TrimRightByte (CHR ''/'') s) = TrimRightByte (CHR ''/'') s"
    by (simp add: TrimRightByte_def)
  ultimately show "NewPrefect (s @ ''/api'') tok = NewPrefect s tok"
    by (simp add: NewPrefect_def TrimRightByte_api TrimSuffix_def HasSuffix_def New_def)
qed

end
