(* ===== verification/Backend_Examples.thy ===== *)
theory Backend_Examples
  imports Examples Execution Outbox Postgres_Refinement Postgres_Races Delivery Workspaces Clients
begin

text \<open>
  Concrete inputs for the function executor and the PostgreSQL repository: a function workflow
  with two jobs whose first attempts fail, a database with one run and one token, JSON coding
  given by a table, and two environments with clocks that do not collide.
\<close>

subsection \<open>A function workflow\<close>

definition ex_call :: "string \<Rightarrow> string list \<Rightarrow> PipelineJob" where
  "ex_call name deps = zero_PipelineJob\<lparr>job_Name := name, job_Kind := ''function'', job_Function := ''score'',
     job_DependsOn := deps, job_Retries := 1\<rparr>"

definition ex_calls :: "PipelineJob list" where
  "ex_calls = [ex_call ''fit'' [''load''], ex_call ''load'' []]"

text \<open>The first attempt of every invocation fails, the second succeeds.\<close>

definition ex_client :: invoke_client where
  "ex_client = \<lparr>fc_invoke = (\<lambda>_ _ k. if k = 0 then Inr ''timeout'' else Inl ''ok''), fc_marshal = (\<lambda>_. Some ''{}''),
     fc_unmarshal = (\<lambda>_. None)\<rparr>"

definition ex_run :: PipelineRun where
  "ex_run = zero_PipelineRun\<lparr>run_ID := ''run-1'', run_Status := ''queued'',
     run_Steps := stepsFromDefinition (zero_PipelineDefinition\<lparr>pd_Jobs := ex_calls\<rparr>)\<rparr>"

definition ex_exec :: exec where
  "ex_exec = exec_start (ex_store\<lparr>data := (data ex_store)\<lparr>st_Runs := [ex_run]\<rparr>\<rparr>) ex_calls"

text \<open>The first wave: the main goroutine starts \<open>load\<close>, which runs to its end.\<close>

definition ex_waves :: "(env \<times> nat option) list" where
  "ex_waves = map (Pair ex_env) ([None] @ replicate 6 (Some 0) @ [None, Some 1])"

definition ex_functions :: UpsertPipelineDefinitionRequest where
  "ex_functions = \<lparr>upd_ProjectID = ''prj-demo'', upd_Name = ''score'', upd_Version = ''1'', upd_ExecutionMode = ''functions'',
     upd_Jobs = ex_calls, upd_RepositoryURL = [], upd_CommitSHA = []\<rparr>"

definition ex_composed :: Store where
  "ex_composed = fst (h_upsertPipelineDefinition ex_envs
     (fst (h_deployFunction ex_envs ex_store (Some ex_faas) ex_admin (Some (ex_function ''prj-demo'' ''good''))))
     ex_admin [] (Some ex_functions))"

lemma ex_composed_reachable: "reachable store_start gateway_step ex_composed"
  unfolding ex_composed_def by (rule reachable.next_state, rule ex_reach_step) (rule gateway_step.intros)+

lemma ex_graph_ok: "graph_ok ex_calls"
proof -
  have "{(job_Name j, d) | j d. j \<in> set ex_calls \<and> d \<in> set (job_DependsOn j)} \<subseteq> {(''fit'', ''load'')}"
    by (auto simp: ex_calls_def ex_call_def zero_PipelineJob_def)
  moreover have "acyclic {(''fit'', ''load'')}" by (auto simp: acyclic_insert wf_acyclic)
  ultimately have "acyclic {(job_Name j, d) | j d. j \<in> set ex_calls \<and> d \<in> set (job_DependsOn j)}"
    by (rule acyclic_subset [rotated])
  then show ?thesis unfolding graph_ok_def by (simp add: ex_calls_def ex_call_def)
qed

subsection \<open>A database\<close>

definition ex_codec :: "(string \<times> 'a) list \<Rightarrow> 'a \<Rightarrow> 'a codec" where
  "ex_codec xs zero = Codec (\<lambda>v. map_of (map prod.swap xs) v) (map_of xs) zero"

lemma ex_codec_faithful: "distinct (map fst xs) \<Longrightarrow> faithful (ex_codec xs zero)"
  by (force simp: faithful_def ex_codec_def dest!: map_of_SomeD)

definition ex_pg_run :: PipelineRun where
  "ex_pg_run = zero_PipelineRun\<lparr>run_ID := ''r1'', run_Status := ''running'',
     run_Steps := [\<lparr>ps_Name = ''load'', ps_Status = ''running'', ps_Image = [], ps_DependsOn = [], ps_Progress = 0\<rparr>]\<rparr>"

definition ex_cancelled :: PipelineRun where
  "ex_cancelled = ex_pg_run\<lparr>run_Status := ''cancelled'', run_UpdatedAt := 8, run_Logs :=
     [\<lparr>rl_Timestamp = 8, rl_Step = [], rl_Level = ''warning'', rl_Message = ''Run cancelled by ana''\<rparr>]\<rparr>"

definition ex_reported :: PipelineRun where
  "ex_reported = report_step 6 (ex_done ''load'') ex_pg_run"

definition ex_pg :: pgenv where
  "ex_pg = \<lparr>pg_env = ex_env\<lparr>clk := (\<lambda>t. if even t then 6 else 5)\<rparr>, pg_tenant = ''acme'', pg_now = 3, pg_err = (\<lambda>_. None),
     pg_committed = False, enc_event = (\<lambda>_. Some ''event''), enc_command = (\<lambda>_. Some ''command''),
     c_project = ex_codec [] zero_Project,
     c_run = ex_codec [(''a'', ex_pg_run), (''b'', ex_cancelled), (''c'', ex_reported)] zero_PipelineRun,
     c_definition = ex_codec [] zero_PipelineDefinition, c_function = ex_codec [] zero_Function,
     c_model = ex_codec [] zero_Model, c_agent = ex_codec [] zero_Agent, c_tool = ex_codec [] zero_Tool,
     c_connection = ex_codec [] zero_Connection, c_access = ex_codec [] zero_UserAccess,
     c_request = ex_codec [] zero_AccessRequest,
     c_token = ex_codec [] zero_APIToken,
     c_post = ex_codec [] zero_BlogPost, c_view = ex_codec [] zero_FeatureView,
     c_session = ex_codec [] zero_AgentSession, c_trace = ex_codec [] zero_AgentTrace\<rparr>"

definition ex_pg_later :: pgenv where
  "ex_pg_later = ex_pg\<lparr>pg_env := ex_env\<lparr>clk := (\<lambda>t. if even t then 8 else 7)\<rparr>\<rparr>"

definition ex_db :: db where
  "ex_db = empty_db\<lparr>db_resources := [\<lparr>rr_tenant = ''acme'', rr_kind = ''pipeline_run'', rr_id = ''r1'', rr_payload = ''a'',
     rr_created = 1, rr_updated = 1\<rparr>]\<rparr>"


definition ex_token_codec :: "APIToken codec" where
  "ex_token_codec = ex_codec [(''t'', ex_token), (''r'', ex_token\<lparr>tok_RevokedAt := Some 8\<rparr>),
     (''u'', ex_token\<lparr>tok_LastUsedAt := Some 6\<rparr>)] zero_APIToken"

definition ex_token_db :: db where
  "ex_token_db = empty_db\<lparr>db_resources := [\<lparr>rr_tenant = ''acme'', rr_kind = ''api_token'', rr_id = tok_ID ex_token,
     rr_payload = ''t'', rr_created = 1, rr_updated = 1\<rparr>]\<rparr>"

definition ex_pg_store :: Store where
  "ex_pg_store = \<lparr>spath = [], data = abs_state ex_pg ex_db, disk = Map.empty\<rparr>"

lemma new_id_dash: "CHR ''-'' \<in> set (new_id pre t)"
  by (simp add: new_id_def)

lemma ex_ids: "new_id ''out'' 5 = ''out-5''" "new_id ''out'' 6 = ''out-6''" "new_id ''out'' 7 = ''out-7''" "new_id ''out'' 8 = ''out-8''"
  "new_id ''evt'' 5 = ''evt-5''" "new_id ''evt'' 6 = ''evt-6''" "new_id ''evt'' 7 = ''evt-7''" "new_id ''evt'' 8 = ''evt-8''"
  by code_simp+

lemma ex_codecs_ok: "codecs_ok ex_pg"
  by (simp add: codecs_ok_def ex_pg_def ex_codec_faithful)

lemma ex_ready: "ready ex_pg ex_db"
proof -
  have "rr_id r \<noteq> new_id pre (pclk ex_pg t)" if "r \<in> set (db_resources ex_db)" for r t pre
  proof
    assume "rr_id r = new_id pre (pclk ex_pg t)"
    moreover have "CHR ''-'' \<notin> set (rr_id r)" using that by (simp add: ex_db_def)
    ultimately show False using new_id_dash [of pre "pclk ex_pg t"] by simp
  qed
  then show ?thesis
    using ex_codecs_ok by (simp add: ready_def) (simp add: ex_pg_def ex_db_def empty_db_def ex_ids)
qed

lemma ex_represents: "represents ex_pg ex_db ex_pg_store"
proof -
  have rows: "kind_rows ex_pg kind ex_db = (if kind = ''pipeline_run'' then db_resources ex_db else [])" for kind
    by (simp add: kind_rows_def ex_pg_def ex_db_def)
  have "tables_ok ex_pg ex_db"
    by (simp add: tables_ok_def keyed_def rows) (simp add: ex_pg_def ex_db_def ex_codec_def ex_pg_run_def)
  moreover have "st_Audit (abs_state ex_pg ex_db) = []" by (simp add: abs_state_def)
  ultimately show ?thesis by (simp add: represents_def ex_pg_store_def abs_state_def)
qed

lemma ex_later: "later ex_pg ex_pg_later" "pg_tenant ex_pg = ''acme''"
  by (simp_all add: later_def ex_pg_later_def ex_pg_def)

lemma ex_ready_later: "ready ex_pg_later ex_db"
proof -
  have "rr_id r \<noteq> new_id pre (pclk ex_pg_later t)" if "r \<in> set (db_resources ex_db)" for r t pre
  proof
    assume "rr_id r = new_id pre (pclk ex_pg_later t)"
    moreover have "CHR ''-'' \<notin> set (rr_id r)" using that by (simp add: ex_db_def)
    ultimately show False using new_id_dash [of pre "pclk ex_pg_later t"] by simp
  qed
  then show ?thesis
    using ex_codecs_ok by (simp add: ready_def codecs_ok_def) (simp add: ex_pg_later_def ex_pg_def ex_db_def empty_db_def ex_ids)
qed

lemma ex_db_ok: "db_ok ex_db"
  by (simp add: db_ok_def ex_db_def empty_db_def)

text \<open>The owner revokes the token while a lookup is in flight.\<close>

lemma ex_revocation:
  defines "p \<equiv> ex_pg\<lparr>c_token := ex_token_codec\<rparr>" and "q \<equiv> ex_pg_later\<lparr>c_token := ex_token_codec\<rparr>"
  shows "find (token_live (pclk p 0) ex_secret) (rows_listed p (c_token p) ''api_token'' ex_token_db) = Some ex_token"
    and "row_value (c_token p) (row_of p ''api_token'' (tok_ID ex_token) ex_token_db) = (ex_token, None)"
    and "enc (c_token p) (ex_token\<lparr>tok_LastUsedAt := Some (pclk p 0)\<rparr>) \<noteq> None"
    and "\<exists>d1 rest. interleave [1, 0, 0] (ex_token_db, [map_prog (\<lambda>r. r) (Pg_RevokeAPIToken q (tok_Subject ex_token) (tok_ID ex_token)),
        map_prog snd (Pg_ResolveAPIToken p ex_secret)]) = (d1, [Return None, rest])"
proof -
  have codec: "c_token p = ex_token_codec" "c_token q = ex_token_codec" by (simp_all add: p_def q_def)
  have env: "pclk p 0 = 6" "pclk q 0 = 8" "pg_tenant p = ''acme''" "pg_tenant q = ''acme''" "pg_err p k = None" "pg_err q k = None" for k
    by (simp_all add: p_def q_def ex_pg_later_def ex_pg_def)
  have dec: "dec ex_token_codec ''t'' = Some ex_token" by (simp add: ex_token_codec_def ex_codec_def)
  have enc: "enc ex_token_codec (ex_token\<lparr>tok_LastUsedAt := Some 6\<rparr>) = Some ''u''"
    "enc ex_token_codec (ex_token\<lparr>tok_RevokedAt := Some 8\<rparr>) = Some ''r''"
    by (simp_all add: ex_token_codec_def ex_codec_def, simp_all add: ex_token_def zero_APIToken_def)
  have rows: "rows_listed p ex_token_codec ''api_token'' ex_token_db = [ex_token]"
    by (simp add: rows_listed_def kind_rows_def ex_token_db_def env dec List.map_filter_simps)
  have live: "token_live 6 ex_secret ex_token"
    by (simp add: token_live_def tokenMatches_def ex_token_def zero_APIToken_def HasPrefix_def ex_secret_def day_ns_def)
  show find: "find (token_live (pclk p 0) ex_secret) (rows_listed p (c_token p) ''api_token'' ex_token_db) = Some ex_token"
    by (simp add: codec rows live env)
  show row: "row_value (c_token p) (row_of p ''api_token'' (tok_ID ex_token) ex_token_db) = (ex_token, None)"
    by (simp add: row_value_def row_of_def ex_token_db_def env codec dec)
  show "enc (c_token p) (ex_token\<lparr>tok_LastUsedAt := Some (pclk p 0)\<rparr>) \<noteq> None" by (simp add: codec env enc)
  have rowq: "row_value ex_token_codec (row_of q ''api_token'' (tok_ID ex_token) ex_token_db) = (ex_token, None)"
    using row by (simp add: row_of_def env codec)
  have "\<exists>d1. transaction q 1 6 (write_body q 1 1 ''api_token'' (tok_ID ex_token) (Some ''r'') ''api_token.revoked'' (tok_Subject ex_token) [])
      ex_token_db = (d1, None)"
    by (simp add: transaction_def write_body_def env Let_def statement_def insert_audit_def insert_outbox_def upsert_resource_def
        ex_token_db_def empty_db_def topicForAction_def HasPrefix_def) (simp add: q_def ex_pg_later_def ex_pg_def)
  then obtain d1 where d1: "transaction q 1 6 (write_body q 1 1 ''api_token'' (tok_ID ex_token) (Some ''r'') ''api_token.revoked''
      (tok_Subject ex_token) []) ex_token_db = (d1, None)" by blast
  have unrevoked: "tok_RevokedAt ex_token = None" by (simp add: ex_token_def zero_APIToken_def)
  show "\<exists>d1 rest. interleave [1, 0, 0] (ex_token_db, [map_prog (\<lambda>r. r) (Pg_RevokeAPIToken q (tok_Subject ex_token) (tok_ID ex_token)),
        map_prog snd (Pg_ResolveAPIToken p ex_secret)]) = (d1, [Return None, rest])"
    by (simp add: Pg_RevokeAPIToken_def Pg_ResolveAPIToken_def Pg_get_def Pg_list_def Pg_write_def split_beta Let_def comp_def
        codec rows live env rowq enc d1 [simplified] unrevoked)
qed

text \<open>The values programs have returned.\<close>

definition returned :: "'a prog \<Rightarrow> 'a option" where
  "returned q = (case q of Return x \<Rightarrow> Some x | Atomic f \<Rightarrow> None)"

lemma returned_Some: "returned q = Some x \<longleftrightarrow> q = Return x"
  by (cases q) (auto simp: returned_def)

subsection \<open>An outbox\<close>

definition ex_message :: "nat \<Rightarrow> outbox_row" where
  "ex_message n = \<lparr>ob_sequence = int n, ob_tenant = ''acme'', ob_id = replicate n (CHR ''x''), ob_topic = ''mlaiops.audit.operations'',
     ob_key = [], ob_payload = (if n < 100 then ''bad'' else ''good''), ob_published = None, ob_attempts = 0, ob_error = None\<rparr>"

definition ex_outbox :: "nat \<Rightarrow> nat \<Rightarrow> db" where
  "ex_outbox i j = empty_db\<lparr>db_outbox := map ex_message [i..<j], db_next := int j\<rparr>"

text \<open>A broker that accepts everything, and a decoder that refuses \<open>bad\<close>.\<close>

definition ex_worker :: outbox_worker where
  "ex_worker = \<lparr>ow_publish = (\<lambda>_ _ _. None), ow_decode = (\<lambda>raw. if raw = ''bad'' then None else Some AnyNil),
     ow_error_text = (\<lambda>_. ''invalid'')\<rparr>"

lemma ex_outbox_ok: "db_ok (ex_outbox i j)"
  by (auto simp: db_ok_def ex_outbox_def empty_db_def ex_message_def distinct_map inj_on_def sorted_wrt_map strict_sorted_iff
      replicate_eq_replicate)

lemma ex_outbox_pending: "pending ''acme'' (ex_outbox i j) = map ex_message [i..<j]"
  by (simp add: pending_def ex_outbox_def ex_message_def filter_True)

end
