(* ===== verification/Provisioning.thy ===== *)
theory Provisioning
  imports Delivery Workspaces
begin

text \<open>
  From a grant to a pod: the repository stores a grant, the outbox carries the command, the
  integration worker writes the custom resource and the operator reconciles it. This theory
  joins the four models. What the API server stores for the worker it hands to the operator
  as JSON, which is decoded by the tags of \<^verbatim>\<open>go/pkg/kube/v1alpha1/types.go\<close>.
\<close>

subsection \<open>Decoding the custom resource\<close>

text \<open>\<open>null\<close> leaves the zero value; a value of another type or out of range is an error.\<close>

definition decode_int32 :: "gany \<Rightarrow> int option" where
  "decode_int32 v = (case v of AnyNil \<Rightarrow> Some 0
     | AnyInt n \<Rightarrow> if - (2 ^ 31) \<le> n \<and> n < 2 ^ 31 then Some n else None | _ \<Rightarrow> None)"

definition decode_string :: "gany \<Rightarrow> string option" where
  "decode_string v = (case v of AnyNil \<Rightarrow> Some [] | AnyStr s \<Rightarrow> Some s | _ \<Rightarrow> None)"

definition decode_bool :: "gany \<Rightarrow> bool option" where
  "decode_bool v = (case v of AnyNil \<Rightarrow> Some False | AnyBool b \<Rightarrow> Some b | _ \<Rightarrow> None)"

definition decode_strings :: "gany \<Rightarrow> string list option" where
  "decode_strings v = (case v of AnyNil \<Rightarrow> Some [] | AnyList vs \<Rightarrow> those (map decode_string vs) | _ \<Rightarrow> None)"

definition decode_compute :: "gany gomap \<Rightarrow> WorkspaceComputeSpec option" where
  "decode_compute m =
     (case (decode_int32 (any_field m ''vcpus''), decode_int32 (any_field m ''memoryGB''), decode_int32 (any_field m ''gpus''),
            decode_string (any_field m ''gpuType''), decode_int32 (any_field m ''maxVMs'')) of
        (Some v, Some g, Some n, Some t, Some x) \<Rightarrow>
          Some \<lparr>wc_VCPUs = v, wc_MemoryGB = g, wc_GPUs = n, wc_GPUType = t, wc_MaxVMs = x\<rparr>
      | _ \<Rightarrow> None)"

definition decode_workspace :: "gany gomap \<Rightarrow> NexusWorkspaceSpec option" where
  "decode_workspace m =
     (case (decode_string (any_field m ''subject''), decode_strings (any_field m ''services''),
            decode_compute (any_map (any_field m ''compute'')), decode_int32 (any_field m ''storageGB''),
            decode_bool (any_field m ''disabled'')) of
        (Some s, Some xs, Some c, Some g, Some b) \<Rightarrow>
          Some \<lparr>nws_Subject = s, nws_Services = xs, nws_Compute = c, nws_StorageGB = g, nws_Disabled = b\<rparr>
      | _ \<Rightarrow> None)"

subsection \<open>A grant arrives unchanged\<close>

definition granted_spec :: "UserAccess \<Rightarrow> NexusWorkspaceSpec" where
  "granted_spec a = \<lparr>nws_Subject = ua_Subject a, nws_Services = ua_Services a,
     nws_Compute = \<lparr>wc_VCPUs = cg_VCPUs (ua_Compute a), wc_MemoryGB = cg_MemoryGB (ua_Compute a), wc_GPUs = cg_GPUs (ua_Compute a),
       wc_GPUType = cg_GPUType (ua_Compute a), wc_MaxVMs = cg_MaxVMs (ua_Compute a)\<rparr>,
     nws_StorageGB = sg_SizeGB (ua_Storage a), nws_Disabled = ua_Disabled a\<rparr>"

text \<open>The limits of the grant fit into the 32 bits the custom resource has for them.\<close>

definition small_grant :: "UserAccess \<Rightarrow> bool" where
  "small_grant a \<longleftrightarrow> (\<forall>n \<in> {cg_VCPUs (ua_Compute a), cg_MemoryGB (ua_Compute a), cg_GPUs (ua_Compute a), cg_MaxVMs (ua_Compute a),
     sg_SizeGB (ua_Storage a)}. - (2 ^ 31) \<le> n \<and> n < 2 ^ 31)"

lemma small_exact: "small_grant a \<Longrightarrow> exact_grant a"
  by (auto simp: small_grant_def exact_grant_def)

lemma those_map_Some: "those (map (\<lambda>x. Some (f x)) xs) = Some (map f xs)"
  by (induction xs) simp_all

lemma decode_json_strings [simp]: "decode_strings (json_strings xs) = Some xs"
  using those_map_Some [of "\<lambda>x. x" xs] by (simp add: decode_strings_def json_strings_def decode_string_def comp_def)

lemma decode_workspace_of: "small_grant a \<Longrightarrow> decode_workspace (workspace_of a) = Some (granted_spec a)"
  by (auto simp: decode_workspace_def workspace_of_def granted_spec_def any_field_def any_map_def decode_compute_def
      decode_int32_def decode_string_def decode_bool_def small_grant_def)

subsection \<open>The pod of a grant\<close>

text \<open>What the grant allows a Deployment to be.\<close>

definition within_grant :: "UserAccess \<Rightarrow> kdeployment \<Rightarrow> bool" where
  "within_grant a dep \<longleftrightarrow>
     kd_Replicas dep = (if ua_Disabled a \<or> set (ua_Services a) \<inter> {''workbench'', ''ide''} = {} then 0 else 1) \<and>
     total kc_CPU (kd_Containers dep) \<le> 1000 * cg_VCPUs (ua_Compute a) \<and>
     total kc_Memory (kd_Containers dep) \<le> 2 ^ 30 * cg_MemoryGB (ua_Compute a) \<and>
     total (\<lambda>c. map_option snd (kc_GPU c)) (kd_Containers dep) \<le> max 0 (cg_GPUs (ua_Compute a)) \<and>
     kc_Name ` set (kd_Containers dep) \<subseteq> set (ua_Services a)"

lemma granted_services_empty: "granted_services w = [] \<longleftrightarrow> set (nws_Services (nw_Spec w)) \<inter> {''workbench'', ''ide''} = {}"
  by (auto simp: granted_services_def)

lemma workspace_within_grant:
  assumes "ApplyDeployment dep \<in> set (fst (Reconcile_workspace r ans))" and "wa_get ans = Inl w" and "nw_Spec w = granted_spec a"
  shows "within_grant a dep"
proof -
  from workspace_writes [OF assms(1)] assms(2)
  have dep: "dep = workspace_deployment r w" "1 \<le> wc_VCPUs (nws_Compute (nw_Spec w))" "1 \<le> wc_MemoryGB (nws_Compute (nw_Spec w))"
    by auto
  have cs: "kd_Containers dep = containers r w (nw_Name w @ ''-auth'')" by (simp add: dep workspace_deployment_def Let_def)
  have "kc_Name ` set (kd_Containers dep) \<subseteq> set (nws_Services (nw_Spec w))"
  proof -
    have "kc_Name (workspace_container r w secret n service) = service" for secret n service by (simp add: workspace_container_def Let_def)
    then have "kc_Name ` set (kd_Containers dep) = set (granted_services w)" by (simp add: cs containers_def Let_def image_image)
    then show ?thesis by (simp only: granted_services_def set_filter) blast
  qed
  moreover have "kd_Replicas dep = (if nws_Disabled (nw_Spec w) \<or> set (nws_Services (nw_Spec w)) \<inter> {''workbench'', ''ide''} = {} then 0 else 1)"
    unfolding dep(1) workspace_replicas granted_services_empty ..
  ultimately show ?thesis
    using containers_bounded [of w r "nw_Name w @ ''-auth''"] dep(2,3) by (simp add: within_grant_def cs assms(3) granted_spec_def)
qed

text \<open>A claim never asks for less than it has, and a secret that exists is kept.\<close>

lemma workspace_keeps_data:
  assumes "x \<in> set (fst (Reconcile_workspace r ans))"
  shows "case x of ApplyClaim c \<Rightarrow> (\<forall>current. wa_claim_request ans = Some current \<longrightarrow> current \<le> kl_Request c)
    | ApplySecret k \<Rightarrow> wa_token ans \<noteq> [] \<longrightarrow> kx_Token k = wa_token ans
    | _ \<Rightarrow> True"
  using assms
  by (rule workspace_writes) (auto simp: workspace_claim_def workspace_token_def Let_def split: workspace_write.splits if_splits)

end
