(* ===== verification/Sessions.thy ===== *)
theory Sessions
  imports Auth Go_Crypto
begin

text \<open>
  Browser sessions: the OIDC code flow of \<^verbatim>\<open>go/internal/auth/session.go\<close> and the local login of
  \<^verbatim>\<open>go/internal/auth/local_session.go\<close>.

  The identity provider is a parameter (\<open>se_exchange\<close>, the ID token the \<open>oauth2\<close> library
  gets for a code, and \<open>se_verify\<close>), as are the random bytes. A reply is the cookies it sets
  and its answer. A browser is the map of its cookies; \<open>http.SetCookie\<close> drops the bytes a
  cookie must not have.
\<close>

subsection \<open>Where a login returns to\<close>

definition safeReturnTo :: "string \<Rightarrow> string" where
  "safeReturnTo v =
     (if v = [] then ''/console.html''
      else case url_Parse v of
        None \<Rightarrow> ''/console.html''
      | Some parsed \<Rightarrow>
          if IsAbs parsed \<or> url_Host parsed \<noteq> [] \<or> \<not> HasPrefix (url_Path parsed) ''/'' \<or> HasPrefix (url_Path parsed) ''//''
          then ''/console.html'' else RequestURI parsed)"

subsection \<open>Cookies\<close>

record set_cookie =
  sc_Name :: string
  sc_Value :: string
  sc_MaxAge :: int
  sc_HttpOnly :: bool
  sc_Secure :: bool

datatype session_answer = Denied int string | RedirectTo string

type_synonym reply = "set_cookie list \<times> session_answer"
type_synonym browser = "string \<rightharpoonup> string"

definition cookie_byte :: "char \<Rightarrow> bool" where
  "cookie_byte c \<longleftrightarrow> 32 \<le> byte c \<and> byte c < 127 \<and> c \<noteq> CHR 0x22 \<and> c \<noteq> CHR '';'' \<and> c \<noteq> CHR 0x5C"

definition keep_cookie :: "browser \<Rightarrow> set_cookie \<Rightarrow> browser" where
  "keep_cookie b c = (if sc_MaxAge c < 0 then b(sc_Name c := None) else b(sc_Name c \<mapsto> filter cookie_byte (sc_Value c)))"

definition browse :: "browser \<Rightarrow> reply \<Rightarrow> browser" where
  "browse b rep = foldl keep_cookie b (fst rep)"

definition SessionCookieName :: string where "SessionCookieName = ''nexus_session''"
definition stateCookieName :: string where "stateCookieName = ''nexus_oauth_state''"
definition returnCookieName :: string where "returnCookieName = ''nexus_return_to''"

subsection \<open>The session manager\<close>

record SessionConfig =
  sf_ClientID :: string
  sf_ClientSecret :: string
  sf_AuthURL :: string
  sf_TokenURL :: string
  sf_RedirectURL :: string
  sf_Secure :: bool

record session_env =
  se_rand :: "string option"
  se_auth_url :: "string \<Rightarrow> string"
  se_exchange :: "string \<Rightarrow> gany option"
  se_verify :: "string \<Rightarrow> Principal ret"

definition NewSessionManager :: "SessionConfig \<Rightarrow> SessionConfig + error" where
  "NewSessionManager config =
     (if sf_ClientID config = [] \<or> sf_ClientSecret config = [] \<or> sf_AuthURL config = [] \<or> sf_TokenURL config = [] \<or> sf_RedirectURL config = []
      then Inr (Err ''OIDC browser session configuration is incomplete'') else Inl config)"

definition setCookie :: "SessionConfig \<Rightarrow> string \<Rightarrow> string \<Rightarrow> int \<Rightarrow> set_cookie" where
  "setCookie s name v ttl = \<lparr>sc_Name = name, sc_Value = v, sc_MaxAge = ttl, sc_HttpOnly = True, sc_Secure = sf_Secure s\<rparr>"

definition clearCookie :: "SessionConfig \<Rightarrow> string \<Rightarrow> set_cookie" where
  "clearCookie s name = \<lparr>sc_Name = name, sc_Value = [], sc_MaxAge = - 1, sc_HttpOnly = True, sc_Secure = sf_Secure s\<rparr>"

definition randomToken :: "string option \<Rightarrow> string option" where
  "randomToken rand = map_option RawURLEncoding rand"

definition login :: "SessionConfig \<Rightarrow> session_env \<Rightarrow> string \<Rightarrow> reply" where
  "login s se query =
     (case randomToken (se_rand se) of
        None \<Rightarrow> ([], Denied 500 ''could not start login'')
      | Some state \<Rightarrow>
          ([setCookie s stateCookieName state 600,
            setCookie s returnCookieName (safeReturnTo (query_get query ''return_to'')) 600],
           RedirectTo (se_auth_url se state)))"

definition callback :: "SessionConfig \<Rightarrow> session_env \<Rightarrow> browser \<Rightarrow> string \<Rightarrow> reply" where
  "callback s se cookies query =
     (case cookies stateCookieName of
        None \<Rightarrow> ([], Denied 400 ''invalid login state'')
      | Some state \<Rightarrow>
         if state = [] \<or> state \<noteq> query_get query ''state'' then ([], Denied 400 ''invalid login state'')
         else if query_get query ''error'' \<noteq> [] then ([], Denied 401 ''identity provider rejected login'')
         else case se_exchange se (query_get query ''code'') of
           None \<Rightarrow> ([], Denied 401 ''login token exchange failed'')
         | Some extra \<Rightarrow>
             (let rawIDToken = (case extra of AnyStr t \<Rightarrow> t | _ \<Rightarrow> []) in
              if rawIDToken = [] then ([], Denied 401 ''identity provider returned no ID token'')
              else if snd (se_verify se rawIDToken) \<noteq> None then ([], Denied 401 ''identity token validation failed'')
              else ([setCookie s SessionCookieName rawIDToken (8 * 3600), clearCookie s stateCookieName, clearCookie s returnCookieName],
                    RedirectTo (case cookies returnCookieName of Some v \<Rightarrow> safeReturnTo v | None \<Rightarrow> ''/console.html''))))"

definition logout :: "SessionConfig \<Rightarrow> reply" where
  "logout s = ([clearCookie s SessionCookieName], RedirectTo ''/'')"

text \<open>The handler; \<open>None\<close> passes the request on.\<close>

definition SessionHandler :: "SessionConfig \<Rightarrow> session_env \<Rightarrow> browser \<Rightarrow> string \<Rightarrow> string \<Rightarrow> reply option" where
  "SessionHandler s se cookies path query =
     (if path = ''/auth/login'' then Some (login s se query)
      else if path = ''/auth/callback'' then Some (callback s se cookies query)
      else if path = ''/auth/logout'' then Some (logout s)
      else None)"

subsection \<open>Local sessions\<close>

record LocalSessionManager =
  lm_username :: string
  lm_password :: string
  lm_sessions :: "string \<rightharpoonup> time"

definition NewLocalSessionManager :: "string \<Rightarrow> string \<Rightarrow> LocalSessionManager" where
  "NewLocalSessionManager username password = \<lparr>lm_username = username, lm_password = password, lm_sessions = Map.empty\<rparr>"

definition localSessionCookie :: string where "localSessionCookie = ''nexus_local_session''"

definition session_ns :: int where "session_ns = 8 * 3600 * 1000000000"

text \<open>\<open>form\<close> is the parsed form of the request, \<open>None\<close> when it cannot be parsed.\<close>

definition local_login ::
  "LocalSessionManager \<Rightarrow> string option \<Rightarrow> time \<Rightarrow> (string \<Rightarrow> string) option \<Rightarrow> LocalSessionManager \<times> reply" where
  "local_login s rand now form =
     (case form of
        None \<Rightarrow> (s, ([], RedirectTo ''/login.html?error=invalid''))
      | Some v \<Rightarrow>
         if v ''username'' \<noteq> lm_username s \<or> v ''password'' \<noteq> lm_password s then (s, ([], RedirectTo ''/login.html?error=invalid''))
         else case randomToken rand of
           None \<Rightarrow> (s, ([], Denied 500 ''could not create session''))
         | Some token \<Rightarrow>
             (s\<lparr>lm_sessions := (lm_sessions s)(token \<mapsto> now + session_ns)\<rparr>,
              ([\<lparr>sc_Name = localSessionCookie, sc_Value = token, sc_MaxAge = 8 * 3600, sc_HttpOnly = True, sc_Secure = False\<rparr>],
               RedirectTo (safeReturnTo (v ''return_to'')))))"

definition local_logout :: "LocalSessionManager \<Rightarrow> browser \<Rightarrow> LocalSessionManager \<times> reply" where
  "local_logout s cookies =
     (case cookies localSessionCookie of None \<Rightarrow> s | Some token \<Rightarrow> s\<lparr>lm_sessions := (lm_sessions s)(token := None)\<rparr>,
      ([\<lparr>sc_Name = localSessionCookie, sc_Value = [], sc_MaxAge = - 1, sc_HttpOnly = True, sc_Secure = False\<rparr>], RedirectTo ''/''))"

definition authenticated :: "LocalSessionManager \<Rightarrow> time \<Rightarrow> browser \<Rightarrow> bool" where
  "authenticated s now cookies =
     (case cookies localSessionCookie of None \<Rightarrow> False
      | Some token \<Rightarrow> (case lm_sessions s token of None \<Rightarrow> False | Some expires \<Rightarrow> \<not> expires < now))"

definition localConsolePath :: "string \<Rightarrow> bool" where
  "localConsolePath path \<longleftrightarrow> path = ''/console.html'' \<or> path = ''/app.js'' \<or> path = ''/styles.css''"

definition LocalHandler ::
  "LocalSessionManager \<Rightarrow> string option \<Rightarrow> time \<Rightarrow> (string \<Rightarrow> string) option \<Rightarrow> browser \<Rightarrow> request \<Rightarrow> LocalSessionManager \<times> reply option" where
  "LocalHandler s rand now form cookies r =
     (if rq_Path r = ''/auth/local/login'' \<and> rq_Method r = ''POST'' then map_prod id Some (local_login s rand now form)
      else if rq_Path r = ''/auth/logout'' then map_prod id Some (local_logout s cookies)
      else if localConsolePath (rq_Path r) \<and> \<not> authenticated s now cookies
        then (s, Some ([], RedirectTo (''/login.html?return_to='' @ QueryEscape (rq_URI r))))
      else (s, None))"

subsection \<open>Targets stay on the site\<close>

text \<open>
  A browser resolves a target against the current page: one that starts with a single slash, not
  followed by a slash or backslash, or with an escaped slash, has no host of its own. Control
  bytes would end the header.
\<close>

definition local_target :: "string \<Rightarrow> bool" where
  "local_target t \<longleftrightarrow> (HasPrefix t ''/'' \<and> \<not> HasPrefix t ''//'' \<and> \<not> HasPrefix t [CHR ''/'', CHR 0x5C] \<or>
     HasPrefix t ''%2F'' \<or> HasPrefix t ''%2f'') \<and> list_all (\<lambda>c. 32 \<le> byte c \<and> byte c \<noteq> 127) t"

definition accepted_url :: "URL \<Rightarrow> bool" where
  "accepted_url u \<longleftrightarrow> \<not> IsAbs u \<and> url_Host u = [] \<and> HasPrefix (url_Path u) ''/'' \<and> \<not> HasPrefix (url_Path u) ''//''"

lemma safeReturnTo_cases:
  "safeReturnTo v = ''/console.html'' \<or> (\<exists>u. url_Parse v = Some u \<and> accepted_url u \<and> safeReturnTo v = RequestURI u)"
  by (auto simp: safeReturnTo_def accepted_url_def split: option.splits)

definition plain :: "char \<Rightarrow> bool" where
  "plain c \<longleftrightarrow> 32 \<le> byte c \<and> byte c \<noteq> 127 \<and> c \<noteq> CHR ''#''"

lemma plain_mark [simp]: "plain (CHR ''?'')"
  by code_simp

lemma Cut_parts: "set (fst (Cut d s)) \<subseteq> set s" "set (snd (Cut d s)) \<subseteq> set s" "d \<notin> set (fst (Cut d s))"
  by (auto simp: Cut_def dest: set_takeWhileD set_dropWhileD in_set_dropD)

lemma getScheme_rest: "getScheme raw pre s = Some (sch, rest) \<Longrightarrow> set s \<subseteq> set raw \<Longrightarrow> set rest \<subseteq> set raw"
  by (induction raw pre s rule: getScheme.induct) (auto split: if_splits)

lemma setPath_Some:
  assumes "setPath u p = Some u'"
  shows "url_Scheme u' = url_Scheme u" "url_Opaque u' = url_Opaque u" "url_Host u' = url_Host u" "url_RawQuery u' = url_RawQuery u"
    "url_ForceQuery u' = url_ForceQuery u" "unescape encodePath p = Some (url_Path u')"
    "url_RawPath u' = (if p = escape path_safe (url_Path u') then [] else p)"
  using assms by (auto simp: setPath_def)

lemma parse_local:
  assumes "parse raw = Some u" and "accepted_url u" and "CHR ''#'' \<notin> set raw"
  shows "url_Opaque u = []" and "\<forall>c \<in> set (url_RawQuery u). plain c"
    and "HasPrefix (url_RawPath u) ''%'' \<Longrightarrow> CHR '':'' \<notin> set (fst (Cut (CHR ''/'') (url_RawPath u)))"
proof -
  have scheme: "url_Scheme u = []" using assms(2) by (simp add: accepted_url_def IsAbs_def)
  have star: "raw \<noteq> ''*''" using assms(1,2) by (auto simp: parse_def accepted_url_def HasPrefix_def zero_URL_def split: if_splits)
  have ctl: "\<forall>c \<in> set raw. plain c"
    using assms(1,3) by (auto simp: parse_def plain_def list_ex_iff split: if_splits)
  obtain scheme0 rest0 where g: "getScheme raw [] raw = Some (scheme0, rest0)"
    using assms(1) star by (auto simp: parse_def split: if_splits option.splits)
  have rest0: "set rest0 \<subseteq> set raw" using getScheme_rest [OF g] by simp
  obtain rest query where c: "Cut (CHR ''?'') rest0 = (rest, query)" by (cases "Cut (CHR ''?'') rest0")
  have query: "set query \<subseteq> set raw" using Cut_parts(2) [of "CHR ''?''" rest0] c rest0 by auto
  let ?u = "zero_URL\<lparr>url_Scheme := ToLower scheme0, url_ForceQuery := (rest0 = rest @ ''?''), url_RawQuery := query\<rparr>"
  have "u = ?u\<lparr>url_Opaque := rest\<rparr> \<and> ToLower scheme0 \<noteq> [] \<or>
    (\<exists>usr host authority. setPath (?u\<lparr>url_User := usr, url_Host := host\<rparr>) (dropWhile (\<lambda>x. x \<noteq> CHR ''/'') authority) = Some u) \<or>
    setPath ?u rest = Some u \<and> (\<not> HasPrefix rest ''/'' \<longrightarrow> \<not> has_byte (CHR '':'') (fst (Cut (CHR ''/'') rest)))"
    using assms(1) star g c by (auto simp: parse_def Let_def split: if_splits option.splits)
  then consider (opaque) "url_Scheme u \<noteq> []"
    | (authority) usr host authority where "setPath (?u\<lparr>url_User := usr, url_Host := host\<rparr>) (dropWhile (\<lambda>x. x \<noteq> CHR ''/'') authority) = Some u"
    | (path) "setPath ?u rest = Some u" "\<not> HasPrefix rest ''/'' \<longrightarrow> \<not> has_byte (CHR '':'') (fst (Cut (CHR ''/'') rest))"
    by auto
  then have "url_Opaque u = [] \<and> url_RawQuery u = query \<and>
    (HasPrefix (url_RawPath u) ''%'' \<longrightarrow> CHR '':'' \<notin> set (fst (Cut (CHR ''/'') (url_RawPath u))))"
  proof cases
    case opaque
    with scheme show ?thesis by simp
  next
    case authority
    have "\<not> HasPrefix (dropWhile (\<lambda>x. x \<noteq> CHR ''/'') authority) ''%''" by (induction authority) (simp_all add: HasPrefix_def)
    then show ?thesis using setPath_Some [OF authority] by (auto simp: zero_URL_def HasPrefix_def)
  next
    case path
    then show ?thesis
      using setPath_Some [OF path(1)] by (auto simp: zero_URL_def HasPrefix_def has_byte_def list_ex_iff split: if_splits)
  qed
  then show "url_Opaque u = []" and "\<forall>c \<in> set (url_RawQuery u). plain c"
    and "HasPrefix (url_RawPath u) ''%'' \<Longrightarrow> CHR '':'' \<notin> set (fst (Cut (CHR ''/'') (url_RawPath u)))"
    using query ctl by auto
qed

lemma url_Parse_local:
  assumes "url_Parse v = Some u" and "accepted_url u"
  shows "url_Opaque u = []" and "\<forall>c \<in> set (url_RawQuery u). plain c"
    and "HasPrefix (url_RawPath u) ''%'' \<Longrightarrow> CHR '':'' \<notin> set (fst (Cut (CHR ''/'') (url_RawPath u)))"
proof -
  obtain u0 where u0: "parse (fst (Cut (CHR ''#'') v)) = Some u0" "u = u0 \<or> (\<exists>f. u = u0\<lparr>url_Fragment := f\<rparr>)"
    using assms(1) by (auto simp: url_Parse_def Let_def split: option.splits if_splits prod.splits)
  then have "accepted_url u0" using assms(2) by (auto simp: accepted_url_def IsAbs_def)
  note facts = parse_local [OF u0(1) this Cut_parts(3)]
  show "url_Opaque u = []" and "\<forall>c \<in> set (url_RawQuery u). plain c"
    and "HasPrefix (url_RawPath u) ''%'' \<Longrightarrow> CHR '':'' \<notin> set (fst (Cut (CHR ''/'') (url_RawPath u)))"
    using facts u0(2) by auto
qed

text \<open>The bytes of an escaped path.\<close>

lemma encoded_char:
  assumes "path_safe c \<or> List.member (''!()*[]%'' @ [CHR 0x27]) c"
  shows "plain c" and "c \<noteq> CHR ''?''" and "c \<noteq> CHR 0x5C"
proof -
  have "c \<in> set (''-_.~$&+,/:;=@!()*[]%'' @ [CHR 0x27]) \<or> 48 \<le> byte c \<and> byte c \<le> 57 \<or> 65 \<le> byte c \<and> byte c \<le> 90 \<or> 97 \<le> byte c \<and> byte c \<le> 122"
    using assms unfolding path_safe_def unreserved_def is_alpha_def is_digit_def byte_def Let_def List.member_iff by auto
  then have "plain c \<and> c \<noteq> CHR ''?'' \<and> c \<noteq> CHR 0x5C"
  proof
    assume "c \<in> set (''-_.~$&+,/:;=@!()*[]%'' @ [CHR 0x27])"
    then show ?thesis by (auto simp: plain_def byte_def)
  next
    assume r: "48 \<le> byte c \<and> byte c \<le> 57 \<or> 65 \<le> byte c \<and> byte c \<le> 90 \<or> 97 \<le> byte c \<and> byte c \<le> 122"
    have "byte (CHR ''#'') = 35" "byte (CHR ''?'') = 63" "byte (CHR 0x5C) = 92" by (simp_all add: byte_def)
    with r show ?thesis unfolding plain_def by fastforce
  qed
  then show "plain c" and "c \<noteq> CHR ''?''" and "c \<noteq> CHR 0x5C" by simp_all
qed

lemma byte_eq: "byte c = n \<Longrightarrow> c = char_of n"
  by (auto simp: byte_def)

lemma hex_slash:
  assumes "hex_val h = Some x" and "hex_val l = Some y" and "char_of (16 * x + y) = CHR ''/''"
  shows "h = CHR ''2''" and "l = CHR ''F'' \<or> l = CHR ''f''"
proof -
  have le: "x \<le> 15" "y \<le> 15" using assms(1,2) by (auto simp: Let_def split: if_splits)
  have "of_char (char_of (16 * x + y) :: char) = (47 :: nat)" unfolding assms(3) by simp
  then have "16 * x + y = 47" using le by simp
  then have "x = 2" "y = 15" using le by presburger+
  then have "byte h = 50" "byte l = 70 \<or> byte l = 102" using assms(1,2) by (auto simp: Let_def split: if_splits)
  then show "h = CHR ''2''" and "l = CHR ''F'' \<or> l = CHR ''f''"
    using byte_eq [of h] byte_eq [of l] by (auto simp: char_of_eval)
qed

lemma unescape_first:
  assumes "unescape encodePath e = Some (CHR ''/'' # p)"
  shows "HasPrefix e ''%2F'' \<or> HasPrefix e ''%2f'' \<or> (\<exists>e'. e = CHR ''/'' # e' \<and> unescape encodePath e' = Some p)"
proof (cases e)
  case (Cons c cs)
  show ?thesis
  proof (cases "c = CHR ''%''")
    case True
    then obtain h l rest x y where r: "cs = h # l # rest" "hex_val h = Some x" "hex_val l = Some y" "char_of (16 * x + y) = CHR ''/''"
      using assms Cons by (auto simp: Let_def split: list.splits option.splits simp del: hex_val.simps)
    with hex_slash [OF r(2-4)] show ?thesis using True Cons by (auto simp: HasPrefix_def)
  next
    case False
    then show ?thesis using assms Cons by (auto split: option.splits)
  qed
qed (use assms in simp)

lemma EscapedPath_shape:
  assumes "accepted_url u"
  defines "e \<equiv> EscapedPath u"
  shows "unescape encodePath e = Some (url_Path u)" and "\<forall>c \<in> set e. plain c \<and> c \<noteq> CHR ''?'' \<and> c \<noteq> CHR 0x5C"
    and "HasPrefix e ''/'' \<and> \<not> HasPrefix e ''//'' \<or> HasPrefix e ''%2F'' \<or> HasPrefix e ''%2f''"
    and "e = escape path_safe (url_Path u) \<or> e = url_RawPath u \<and> validEncoded e"
proof -
  obtain p where p: "url_Path u = CHR ''/'' # p" "\<not> HasPrefix p ''/''"
    using assms(1) by (cases "url_Path u") (auto simp: accepted_url_def HasPrefix_def)
  have star: "url_Path u \<noteq> ''*''" by (simp add: p)
  show e: "e = escape path_safe (url_Path u) \<or> e = url_RawPath u \<and> validEncoded e"
    by (auto simp: e_def EscapedPath_def star)
  show un: "unescape encodePath e = Some (url_Path u)"
    by (auto simp: e_def EscapedPath_def star unescape_escape)
  have "path_safe c \<or> List.member (''!()*[]%'' @ [CHR 0x27]) c" if "c \<in> set e" for c
    using e
  proof
    assume "e = escape path_safe (url_Path u)"
    then show ?thesis using escape_set [of c path_safe "url_Path u"] that by (auto simp: path_safe_def List.member_iff)
  next
    assume "e = url_RawPath u \<and> validEncoded e"
    then show ?thesis using that by (auto simp: validEncoded_def list_all_iff)
  qed
  then show "\<forall>c \<in> set e. plain c \<and> c \<noteq> CHR ''?'' \<and> c \<noteq> CHR 0x5C" using encoded_char by blast
  have "\<not> HasPrefix e' ''/''" if "unescape encodePath e' = Some p" for e'
  proof
    assume "HasPrefix e' ''/''"
    then obtain r where "e' = CHR ''/'' # r" by (cases e') (auto simp: HasPrefix_def)
    then have "HasPrefix p ''/''" using that by (auto simp: HasPrefix_def)
    with p(2) show False ..
  qed
  then show "HasPrefix e ''/'' \<and> \<not> HasPrefix e ''//'' \<or> HasPrefix e ''%2F'' \<or> HasPrefix e ''%2f''"
    using unescape_first [OF un [unfolded p(1)]] by (auto simp: HasPrefix_def)
qed

definition query_part :: "URL \<Rightarrow> string" where
  "query_part u = (if url_ForceQuery u \<or> url_RawQuery u \<noteq> [] then ''?'' @ url_RawQuery u else [])"

lemma RequestURI_local:
  assumes "url_Parse v = Some u" and "accepted_url u"
  shows "RequestURI u = EscapedPath u @ query_part u"
proof -
  have "EscapedPath u \<noteq> []" using EscapedPath_shape(3) [OF assms(2)] by (auto simp: HasPrefix_def)
  then show ?thesis by (simp add: RequestURI_def query_part_def url_Parse_local(1) [OF assms] Let_def)
qed

lemma HasPrefix_append_either: "HasPrefix a p \<Longrightarrow> HasPrefix (a @ b) p"
proof -
  assume "HasPrefix a p"
  then have "take (length p) a = p" by (simp add: HasPrefix_def)
  moreover from this have "length p \<le> length a" by (metis length_take min.cobounded1)
  ultimately show ?thesis by (simp add: HasPrefix_def)
qed

lemma safeReturnTo_local: "local_target (safeReturnTo v)"
proof (rule disjE [OF safeReturnTo_cases [of v]])
  assume "safeReturnTo v = ''/console.html''"
  moreover have "local_target ''/console.html''" by code_simp
  ultimately show ?thesis by simp
next
  assume "\<exists>u. url_Parse v = Some u \<and> accepted_url u \<and> safeReturnTo v = RequestURI u"
  then obtain u where u: "url_Parse v = Some u" "accepted_url u" "safeReturnTo v = RequestURI u" by blast
  let ?e = "EscapedPath u"
  note shape = EscapedPath_shape [OF u(2)]
  have uri: "safeReturnTo v = ?e @ query_part u" using RequestURI_local [OF u(1,2)] u(3) by simp
  have "set (query_part u) \<subseteq> insert (CHR ''?'') (set (url_RawQuery u))" by (auto simp: query_part_def)
  then have "\<forall>c \<in> set (query_part u). plain c" using url_Parse_local(2) [OF u(1,2)] plain_mark by blast
  with shape(2) have chars: "\<forall>c \<in> set (safeReturnTo v). plain c" unfolding uri by auto
  have "HasPrefix (safeReturnTo v) ''/'' \<and> \<not> HasPrefix (safeReturnTo v) ''//'' \<and> \<not> HasPrefix (safeReturnTo v) [CHR ''/'', CHR 0x5C] \<or>
     HasPrefix (safeReturnTo v) ''%2F'' \<or> HasPrefix (safeReturnTo v) ''%2f''"
    using shape(3)
  proof (elim disjE conjE)
    assume e: "HasPrefix ?e ''/''" "\<not> HasPrefix ?e ''//''"
    then obtain r where r: "?e = CHR ''/'' # r" by (cases ?e) (auto simp: HasPrefix_def)
    show ?thesis
    proof (cases r)
      case Nil
      then show ?thesis unfolding uri r by (simp add: HasPrefix_def query_part_def)
    next
      case (Cons c cs)
      then have "c \<noteq> CHR ''/''" "c \<noteq> CHR 0x5C" using e(2) shape(2) r by (auto simp: HasPrefix_def)
      then show ?thesis unfolding uri r Cons by (simp add: HasPrefix_def)
    qed
  qed (simp_all add: uri HasPrefix_append_either)
  with chars show ?thesis by (simp add: local_target_def list_all_iff plain_def)
qed

text \<open>A target is kept by a second check.\<close>

lemma getScheme_none: "c = CHR ''/'' \<or> c = CHR ''%'' \<Longrightarrow> getScheme raw [] (c # cs) = Some ([], raw)"
proof -
  have "\<not> is_alpha (CHR ''/'')" "\<not> is_digit (CHR ''/'')" "\<not> is_alpha (CHR ''%'')" "\<not> is_digit (CHR ''%'')" by code_simp+
  then show "c = CHR ''/'' \<or> c = CHR ''%'' \<Longrightarrow> getScheme raw [] (c # cs) = Some ([], raw)" by (auto simp: List.member_iff)
qed

lemma Cut_append: "d \<notin> set a \<Longrightarrow> Cut d (a @ d # b) = (a, b)" and Cut_none: "d \<notin> set a \<Longrightarrow> Cut d a = (a, [])"
  by (induction a) (auto simp: Cut_def)

lemma url_Parse_relative:
  assumes "\<forall>c \<in> set e. plain c \<and> c \<noteq> CHR ''?''" and "\<forall>c \<in> set q. plain c"
    and first: "HasPrefix e ''/'' \<and> \<not> HasPrefix e ''//'' \<or> HasPrefix e ''%'' \<and> CHR '':'' \<notin> set (fst (Cut (CHR ''/'') e))"
  shows "url_Parse (e @ (if f \<or> q \<noteq> [] then ''?'' @ q else [])) =
    setPath (zero_URL\<lparr>url_ForceQuery := (f \<and> q = []), url_RawQuery := q\<rparr>) e"
proof -
  let ?raw = "e @ (if f \<or> q \<noteq> [] then ''?'' @ q else [])"
  have "set ?raw \<subseteq> insert (CHR ''?'') (set e \<union> set q)" by auto
  then have raw: "\<forall>c \<in> set ?raw. plain c" using assms(1,2) plain_mark by blast
  have hash: "CHR ''#'' \<notin> set ?raw" using raw plain_def by blast
  have "\<not> (byte c < 32 \<or> byte c = 127)" if "c \<in> set ?raw" for c using raw that plain_def [of c] by fastforce
  then have ctl: "\<not> list_ex (\<lambda>c. byte c < 32 \<or> byte c = 127) ?raw" unfolding list_ex_iff by blast
  obtain c cs where e: "e = c # cs" "c = CHR ''/'' \<or> c = CHR ''%''" using first by (cases e) (auto simp: HasPrefix_def)
  have star: "?raw \<noteq> ''*''" using e by auto
  have scheme: "getScheme ?raw [] ?raw = Some ([], ?raw)" using getScheme_none [OF e(2), of ?raw "tl ?raw"] e(1) by simp
  have "CHR ''?'' \<notin> set e" using assms(1) by blast
  then have cut: "Cut (CHR ''?'') ?raw = (e, q)" using Cut_append [of "CHR ''?''" e q] Cut_none [of "CHR ''?''" e] by auto
  have force: "?raw = e @ ''?'' \<longleftrightarrow> f \<and> q = []" by auto
  have lower: "ToLower [] = []" by code_simp
  have "HasPrefix e ''/'' \<or> \<not> has_byte (CHR '':'') (fst (Cut (CHR ''/'') e))"
    using first by (auto simp: has_byte_def list_ex_iff)
  moreover have "\<not> HasPrefix e ''//''" using first e by (auto simp: HasPrefix_def)
  moreover have "zero_URL\<lparr>url_Scheme := [], url_ForceQuery := b, url_RawQuery := q\<rparr> = zero_URL\<lparr>url_ForceQuery := b, url_RawQuery := q\<rparr>" for b
    by (simp add: zero_URL_def)
  ultimately have "parse ?raw = setPath (zero_URL\<lparr>url_ForceQuery := (f \<and> q = []), url_RawQuery := q\<rparr>) e"
    unfolding parse_def Let_def using ctl star scheme by (simp only: if_False option.case prod.case cut force lower) auto
  then show ?thesis
    unfolding url_Parse_def Cut_none [OF hash] by (simp split: option.splits)
qed

lemma safeReturnTo_RequestURI:
  assumes u: "url_Parse v = Some u" "accepted_url u"
  shows "safeReturnTo (RequestURI u) = RequestURI u"
proof -
  let ?e = "EscapedPath u" and ?q = "url_RawQuery u" and ?f = "url_ForceQuery u"
  note shape = EscapedPath_shape [OF u(2)] and local = url_Parse_local [OF u]
  have first: "HasPrefix ?e ''/'' \<and> \<not> HasPrefix ?e ''//'' \<or> HasPrefix ?e ''%'' \<and> CHR '':'' \<notin> set (fst (Cut (CHR ''/'') ?e))"
  proof (cases "HasPrefix ?e ''/''")
    case True
    then have "\<not> HasPrefix ?e ''%2F'' \<and> \<not> HasPrefix ?e ''%2f''" by (cases ?e) (auto simp: HasPrefix_def)
    with shape(3) True show ?thesis by blast
  next
    case False
    then have pc: "HasPrefix ?e ''%''" using shape(3) by (cases ?e) (auto simp: HasPrefix_def)
    obtain p where "url_Path u = CHR ''/'' # p" using u(2) by (cases "url_Path u") (auto simp: accepted_url_def HasPrefix_def)
    moreover have "path_safe (CHR ''/'')" by code_simp
    ultimately have "HasPrefix (escape path_safe (url_Path u)) ''/''" by (simp add: escape_def HasPrefix_def)
    with False shape(4) have "?e = url_RawPath u" by metis
    with pc local(3) show ?thesis by metis
  qed
  have uri: "RequestURI u = ?e @ (if ?f \<or> ?q \<noteq> [] then ''?'' @ ?q else [])"
    using RequestURI_local [OF u] by (simp add: query_part_def)
  define u' where "u' = zero_URL\<lparr>url_ForceQuery := (?f \<and> ?q = []), url_RawQuery := ?q, url_Path := url_Path u,
     url_RawPath := (if ?e = escape path_safe (url_Path u) then [] else ?e)\<rparr>"
  have parse: "url_Parse (RequestURI u) = Some u'"
    unfolding uri using url_Parse_relative [OF _ local(2) first, of ?f] shape(2)
    by (simp add: setPath_def shape(1) u'_def zero_URL_def)
  have acc: "accepted_url u'" using u(2) by (simp add: accepted_url_def u'_def IsAbs_def zero_URL_def)
  have "url_Path u \<noteq> ''*''" "?e \<noteq> []" using u(2) shape(3) by (auto simp: accepted_url_def HasPrefix_def)
  then have "EscapedPath u' = ?e"
    using shape(1,4) unfolding EscapedPath_def [of u'] by (auto simp: u'_def zero_URL_def)
  moreover have "query_part u' = query_part u" by (simp add: query_part_def u'_def zero_URL_def)
  ultimately have same: "RequestURI u' = RequestURI u" using RequestURI_local [OF parse acc] RequestURI_local [OF u] by simp
  have "RequestURI u \<noteq> []" using uri \<open>?e \<noteq> []\<close> by simp
  then show ?thesis using parse acc same by (auto simp: safeReturnTo_def accepted_url_def)
qed

lemma safeReturnTo_idem: "safeReturnTo (safeReturnTo v) = safeReturnTo v"
proof (rule disjE [OF safeReturnTo_cases [of v]])
  assume "safeReturnTo v = ''/console.html''"
  moreover have "safeReturnTo ''/console.html'' = ''/console.html''" by code_simp
  ultimately show ?thesis by simp
qed (auto simp: safeReturnTo_RequestURI)

subsection \<open>The code flow\<close>

lemma cookie_names [simp]: "SessionCookieName \<noteq> stateCookieName" "SessionCookieName \<noteq> returnCookieName" "stateCookieName \<noteq> returnCookieName"
  "stateCookieName \<noteq> SessionCookieName" "returnCookieName \<noteq> SessionCookieName" "returnCookieName \<noteq> stateCookieName"
  by (simp_all add: SessionCookieName_def stateCookieName_def returnCookieName_def)

text \<open>A callback that sets anything answers the login that the browser started, with a verified token.\<close>

lemma callback_sets:
  assumes "callback s se b query = (cookies, ans)" and "cookies \<noteq> []"
  obtains t where "b stateCookieName = Some (query_get query ''state'')" "query_get query ''state'' \<noteq> []"
    "se_exchange se (query_get query ''code'') = Some (AnyStr t)" "snd (se_verify se t) = None"
    "cookies = [setCookie s SessionCookieName t (8 * 3600), clearCookie s stateCookieName, clearCookie s returnCookieName]"
    "ans = RedirectTo (case b returnCookieName of Some v \<Rightarrow> safeReturnTo v | None \<Rightarrow> ''/console.html'')"
  using assms by (auto simp: callback_def Let_def split: option.splits if_splits gany.splits)

lemma callback_targets: "snd (callback s se b query) = RedirectTo t \<Longrightarrow> local_target t"
proof -
  have "local_target ''/console.html''" by code_simp
  then show "snd (callback s se b query) = RedirectTo t \<Longrightarrow> local_target t"
    using safeReturnTo_local by (auto simp: callback_def Let_def split: option.splits if_splits gany.splits)
qed

text \<open>The state cookie is used up: the same callback is refused afterwards.\<close>

lemma callback_once:
  assumes "fst (callback s se b query) \<noteq> []"
  shows "callback s se' (browse b (callback s se b query)) query' = ([], Denied 400 ''invalid login state'')"
proof -
  obtain cookies ans where c: "callback s se b query = (cookies, ans)" by (cases "callback s se b query")
  then have "cookies \<noteq> []" using assms by simp
  then obtain t where "cookies = [setCookie s SessionCookieName t (8 * 3600), clearCookie s stateCookieName, clearCookie s returnCookieName]"
    by (rule callback_sets [OF c])
  then have "browse b (cookies, ans) stateCookieName = None" by (simp add: browse_def keep_cookie_def setCookie_def clearCookie_def)
  with c show ?thesis by (simp add: callback_def [of s se' "browse b (cookies, ans)"])
qed

lemma login_browser:
  assumes "se_rand se = Some r"
  shows "browse b (login s se query) stateCookieName = Some (filter cookie_byte (RawURLEncoding r))"
    and "browse b (login s se query) returnCookieName = Some (filter cookie_byte (safeReturnTo (query_get query ''return_to'')))"
    and "browse b (login s se query) SessionCookieName = b SessionCookieName"
  using assms by (simp_all add: login_def randomToken_def browse_def keep_cookie_def setCookie_def)

lemma b64_cookie: "c \<in> set (RawURLEncoding r) \<Longrightarrow> cookie_byte c"
proof -
  let ?alphabet = "''ABCDEFGHIJKLMNOPQRSTUVWXYZabcdefghijklmnopqrstuvwxyz0123456789-_''"
  have "list_all cookie_byte ?alphabet" by code_simp
  moreover have "n mod 64 < length ?alphabet" for n by simp
  ultimately have digit: "cookie_byte (b64_digit n)" for n unfolding b64_digit_def list_all_length by blast
  have "\<forall>c \<in> set (b64_encode ns). cookie_byte c" for ns by (induction ns rule: b64_encode.induct) (simp_all add: digit)
  then show "c \<in> set (RawURLEncoding r) \<Longrightarrow> cookie_byte c" by (simp add: RawURLEncoding_def)
qed

lemma b64_Nil: "RawURLEncoding r = [] \<longleftrightarrow> r = []"
  by (cases "map of_char r :: nat list" rule: b64_encode.cases) (auto simp: RawURLEncoding_def)

text \<open>
  A login started at a page ends at that page: the middleware sends the browser to the login with
  the page as parameter, the login keeps it in a cookie, and the callback returns there.
\<close>

lemma return_kept:
  assumes page: "safeReturnTo page = page" "\<forall>c \<in> set page. cookie_byte c"
    and rand: "se_rand se = Some r" "r \<noteq> []"
    and provider: "query_get q ''state'' = RawURLEncoding r" "query_get q ''error'' = []"
      "se_exchange se (query_get q ''code'') = Some (AnyStr t)" "t \<noteq> []" "snd (se_verify se t) = None"
    and b1: "b1 = browse b (login s se (''return_to='' @ QueryEscape page))"
  shows "snd (callback s se b1 q) = RedirectTo page" and "browse b1 (callback s se b1 q) SessionCookieName = Some (filter cookie_byte t)"
proof -
  have "list_all unreserved ''return_to''" by code_simp
  then have "query_get (''return_to='' @ QueryEscape page) ''return_to'' = page"
    using query_get_single [of "''return_to''" page] by (simp add: list_all_iff)
  with page have ret: "b1 returnCookieName = Some page"
    using login_browser(2) [OF rand(1), of b s] by (simp add: b1 filter_id_conv)
  have "filter cookie_byte (RawURLEncoding r) = RawURLEncoding r" using b64_cookie by (auto simp: filter_id_conv)
  then have state: "b1 stateCookieName = Some (RawURLEncoding r)" using login_browser(1) [OF rand(1), of b s] by (simp add: b1)
  have c: "callback s se b1 q = ([setCookie s SessionCookieName t (8 * 3600), clearCookie s stateCookieName, clearCookie s returnCookieName], RedirectTo page)"
    using provider rand(2) by (simp add: callback_def state ret b64_Nil page(1) Let_def)
  show "snd (callback s se b1 q) = RedirectTo page" by (simp add: c)
  show "browse b1 (callback s se b1 q) SessionCookieName = Some (filter cookie_byte t)"
    by (simp add: c browse_def keep_cookie_def setCookie_def clearCookie_def)
qed

subsection \<open>The life of a local session\<close>

datatype local_op = LocalLogin "string option" time "(string \<Rightarrow> string) option" | LocalLogout browser

definition local_step :: "LocalSessionManager \<Rightarrow> local_op \<Rightarrow> LocalSessionManager" where
  "local_step s op = (case op of LocalLogin rand now form \<Rightarrow> fst (local_login s rand now form) | LocalLogout cookies \<Rightarrow> fst (local_logout s cookies))"

definition right_credentials :: "string \<Rightarrow> string \<Rightarrow> (string \<Rightarrow> string) option \<Rightarrow> bool" where
  "right_credentials u p form \<longleftrightarrow> (\<exists>v. form = Some v \<and> v ''username'' = u \<and> v ''password'' = p)"

definition touches :: "string \<Rightarrow> string \<Rightarrow> string \<Rightarrow> local_op \<Rightarrow> bool" where
  "touches u p token op = (case op of LocalLogin rand now form \<Rightarrow> right_credentials u p form \<and> randomToken rand = Some token
     | LocalLogout cookies \<Rightarrow> cookies localSessionCookie = Some token)"

lemma touches_login: "touches u p token (LocalLogin rand now form) \<longleftrightarrow> right_credentials u p form \<and> randomToken rand = Some token"
  by (simp add: touches_def)

lemma local_step_credentials [simp]: "lm_username (local_step s op) = lm_username s" "lm_password (local_step s op) = lm_password s"
  by (auto simp: local_step_def local_login_def local_logout_def split: local_op.splits option.splits)

lemma local_step_session:
  "lm_sessions (local_step s op) token =
     (if touches (lm_username s) (lm_password s) token op
      then (case op of LocalLogin rand now form \<Rightarrow> Some (now + session_ns) | LocalLogout cookies \<Rightarrow> None) else lm_sessions s token)"
  by (auto simp: local_step_def local_login_def local_logout_def touches_def right_credentials_def split: local_op.splits option.splits)

lemma snoc_split:
  "ops @ [op] = pre @ x # post \<longleftrightarrow> post = [] \<and> pre = ops \<and> x = op \<or> (\<exists>post'. post = post' @ [op] \<and> ops = pre @ x # post')"
  by (cases post rule: rev_cases) auto

text \<open>The token was issued, expires then, and was not touched again.\<close>

definition issued :: "string \<Rightarrow> string \<Rightarrow> string \<Rightarrow> time \<Rightarrow> local_op list \<Rightarrow> bool" where
  "issued u p token expires ops \<longleftrightarrow>
     (\<exists>pre rand now form post. ops = pre @ LocalLogin rand now form # post \<and> touches u p token (LocalLogin rand now form) \<and>
        expires = now + session_ns \<and> \<not> list_ex (touches u p token) post)"

lemma issued_snoc:
  "issued u p token expires (ops @ [op]) \<longleftrightarrow>
     (if touches u p token op then \<exists>rand now form. op = LocalLogin rand now form \<and> expires = now + session_ns
      else issued u p token expires ops)" (is "?l \<longleftrightarrow> ?r")
proof
  assume ?l
  then obtain pre rand now form post where h: "ops @ [op] = pre @ LocalLogin rand now form # post"
    "touches u p token (LocalLogin rand now form)" "expires = now + session_ns" "\<not> list_ex (touches u p token) post"
    unfolding issued_def by blast
  from h(1) show ?r unfolding snoc_split
  proof (elim disjE conjE exE)
    assume "LocalLogin rand now form = op"
    with h(2,3) show ?r by auto
  next
    fix post'
    assume "post = post' @ [op]" "ops = pre @ LocalLogin rand now form # post'"
    with h(2-4) show ?r unfolding issued_def by auto
  qed
next
  assume r: ?r
  show ?l
  proof (cases "touches u p token op")
    case True
    with r obtain rand now form where "op = LocalLogin rand now form" "expires = now + session_ns" by auto
    with True show ?l unfolding issued_def by (intro exI [of _ ops] exI [of _ rand] exI [of _ now] exI [of _ form] exI [of _ "[]"]) simp
  next
    case False
    with r obtain pre rand now form post where "ops = pre @ LocalLogin rand now form # post" "touches u p token (LocalLogin rand now form)"
      "expires = now + session_ns" "\<not> list_ex (touches u p token) post" unfolding issued_def by auto
    with False show ?l unfolding issued_def
      by (intro exI [of _ pre] exI [of _ rand] exI [of _ now] exI [of _ form] exI [of _ "post @ [op]"]) simp
  qed
qed

lemma local_session_history:
  "lm_sessions (foldl local_step (NewLocalSessionManager u p) ops) token = Some expires \<longleftrightarrow> issued u p token expires ops"
proof (induction ops rule: rev_induct)
  case (snoc op ops)
  have cred: "lm_username (foldl local_step s ops) = lm_username s" "lm_password (foldl local_step s ops) = lm_password s" for s
    by (induction ops arbitrary: s) simp_all
  have "lm_username (foldl local_step (NewLocalSessionManager u p) ops) = u" "lm_password (foldl local_step (NewLocalSessionManager u p) ops) = p"
    by (simp_all add: cred NewLocalSessionManager_def)
  with snoc show ?case by (auto simp: local_step_session issued_snoc split: local_op.splits)
qed (simp add: NewLocalSessionManager_def issued_def)

lemma authenticated_history:
  "authenticated (foldl local_step (NewLocalSessionManager u p) ops) now cookies \<longleftrightarrow>
     (\<exists>token expires. cookies localSessionCookie = Some token \<and> issued u p token expires ops \<and> now \<le> expires)"
  by (auto simp: authenticated_def local_session_history [symmetric] split: option.splits)

subsection \<open>Inside the gateway\<close>

text \<open>The chain of \<^verbatim>\<open>cmd/gateway/main.go\<close> without an OIDC issuer; \<open>None\<close>: the local handler answers.\<close>

definition gateway_local ::
  "auth_env \<Rightarrow> (string \<Rightarrow> APIToken ret) \<Rightarrow> access_resolver \<Rightarrow> LocalSessionManager \<Rightarrow> string option \<Rightarrow> time \<Rightarrow> (string \<Rightarrow> string) option \<Rightarrow>
    browser \<Rightarrow> request \<Rightarrow> outcome option" where
  "gateway_local ae resolveToken resolve s rand now form cookies r =
     (case APITokenMiddleware resolveToken r None of
        Forward ctx \<Rightarrow> (case LocalHandler s rand now form cookies r of
            (_, Some _) \<Rightarrow> None
          | (_, None) \<Rightarrow> Some (and_then (cors r ctx) (\<lambda>ctx. RBACWithResolver ae (Some resolve) r ctx)))
      | out \<Rightarrow> Some out)"

text \<open>The session cookie of a completed login identifies the requests that follow.\<close>

lemma session_forwarded:
  assumes "\<not> publicPath (rq_Method r) (rq_Path r)" and "bearer r = []" and "rq_Session r = Some t" and "t \<noteq> []"
    and "servicePrincipal ae t = None" and "snd (verify t) = None"
  shows "Middleware ae verify r None = Forward (Some (fst (verify t)))"
  using assms by (cases "verify t") (simp add: Middleware_def)

text \<open>
  The local login guards three static files only: an API request without any credential is served
  as the local administrator whatever sessions there are.
\<close>

lemma local_api_unguarded:
  assumes "HasPrefix (rq_Path r) ''/api/''" and "bearer r = []" and "rq_Method r \<noteq> ''OPTIONS''" and "internal_token ae = []"
    and "TrimSpace (local_role ae) = []" and "resolve ''local-dev'' = None"
  shows "gateway_local ae rt resolve s rand now form cookies r = Some (Forward c) \<Longrightarrow>
      c = None \<or> c = Some (zero_Principal\<lparr>pr_Subject := ''local-dev'', pr_Roles := [''admin'']\<rparr>)"
    and "LocalHandler s rand now form cookies r = (s, None)"
proof -
  have path: "rq_Path r \<noteq> ''/auth/local/login''" "rq_Path r \<noteq> ''/auth/logout''" "\<not> localConsolePath (rq_Path r)"
    using assms(1) by (auto simp: HasPrefix_def localConsolePath_def)
  show l: "LocalHandler s rand now form cookies r = (s, None)" by (simp add: LocalHandler_def path)
  have tok: "APITokenMiddleware rt r None = Forward None" using assms(2) by (simp add: APITokenMiddleware_def HasPrefix_def)
  have p: "default_principal ae r = zero_Principal\<lparr>pr_Subject := ''local-dev'', pr_Roles := [''admin'']\<rparr>"
    using assms by (simp add: default_principal_def servicePrincipal_def)
  have q: "resolved_principal (Some resolve) (zero_Principal\<lparr>pr_Subject := ''local-dev'', pr_Roles := [''admin'']\<rparr>) =
      zero_Principal\<lparr>pr_Subject := ''local-dev'', pr_Roles := [''admin'']\<rparr>"
    using assms(6) by (simp add: resolved_principal_def)
  show "gateway_local ae rt resolve s rand now form cookies r = Some (Forward c) \<Longrightarrow>
      c = None \<or> c = Some (zero_Principal\<lparr>pr_Subject := ''local-dev'', pr_Roles := [''admin'']\<rparr>)"
    by (auto simp: gateway_local_def tok l cors_def and_then_def RBACWithResolver_def p q Let_def split: if_splits)
qed

end
