(* ===== verification/Go_Fmt.thy ===== *)
theory Go_Fmt
  imports Api "HOL-Library.Char_ord" "HOL-Library.List_Lexorder"
begin

text \<open>
  What the code uses of Go's \<^verbatim>\<open>fmt\<close>: the verb \<open>%v\<close> on values that come from JSON. A number
  is a \<open>float64\<close> and is printed with the shortest digits that read back as the same number,
  with an exponent below \<open>1e-04\<close> and from \<open>1e+06\<close> on.
\<close>

subsection \<open>Shortest digits\<close>

text \<open>
  In units of \<open>2 ^ (- 1074)\<close>: the distance to the next value, and the decimal exponent \<open>dp\<close> of
  a positive value \<open>n\<close>, which lies between \<open>10 ^ (dp - 1)\<close> and \<open>10 ^ dp\<close>.
\<close>

definition f64_ulp :: "f64 \<Rightarrow> int" where
  "f64_ulp w = 2 ^ nat (max (f64_mag w div 2 ^ 52) 1 - 1)"

definition dec_point :: "int \<Rightarrow> int" where
  "dec_point n =
     (if 2 ^ 1074 \<le> n then int (length (Itoa (n div 2 ^ 1074)))
      else case find (\<lambda>z. 2 ^ 1074 \<le> n * 10 ^ (z + 1)) [0..<330] of Some z \<Rightarrow> - int z | None \<Rightarrow> 0)"

text \<open>
  The value cut after \<open>k\<close> digits, down or up, when one of the two is in the interval of the
  numbers that round to \<open>w\<close>; the bounds belong to the interval when the mantissa is even.
\<close>

definition cut_digits :: "f64 \<Rightarrow> nat \<Rightarrow> int option" where
  "cut_digits w k =
     (let n = \<bar>f64_scaled w\<bar>; u = f64_ulp w; dp = dec_point n;
          low = 4 * n - (if f64_mag w mod 2 ^ 52 = 0 \<and> 2 ^ 53 \<le> f64_mag w then u else 2 * u);
          high = 4 * n + 2 * u;
          within = (\<lambda>a b. a < b \<or> even (f64_mag w) \<and> a = b);
          num = 10 ^ nat (int k - dp); den = 2 ^ 1074 * 10 ^ nat (dp - int k);
          t = n * num div den; r = n * num mod den;
          down = within (low * num) (4 * t * den); up = within (4 * (t + 1) * den) (high * num)
      in if down \<and> up then Some (if den < 2 * r \<or> 2 * r = den \<and> odd t then t + 1 else t)
         else if down then Some t
         else if up then Some (t + 1)
         else None)"

text \<open>The digits, without trailing zeros, and the position of the decimal point.\<close>

definition shortest_digits :: "f64 \<Rightarrow> string \<times> int" where
  "shortest_digits w =
     (case find (\<lambda>k. cut_digits w k \<noteq> None) [1..<18] of
        None \<Rightarrow> ([], 0)
      | Some k \<Rightarrow>
          (let d = Itoa (the (cut_digits w k))
           in (TrimRightByte (CHR ''0'') d, dec_point \<bar>f64_scaled w\<bar> + int (length d) - int k)))"

subsection \<open>Printing\<close>

definition exponent_text :: "int \<Rightarrow> string" where
  "exponent_text e = (if e < 0 then ''-'' else ''+'') @ (if \<bar>e\<bar> < 10 then ''0'' else []) @ Itoa \<bar>e\<bar>"

definition fmt_e :: "string \<Rightarrow> int \<Rightarrow> string" where
  "fmt_e ds dp = take 1 ds @ (if 1 < length ds then ''.'' @ drop 1 ds else []) @ ''e'' @ exponent_text (dp - 1)"

definition fmt_f :: "string \<Rightarrow> int \<Rightarrow> string" where
  "fmt_f ds dp =
     (let whole = (if 0 < dp then take (nat dp) ds @ replicate (nat dp - length ds) (CHR ''0'') else ''0'');
          frac = (if 0 \<le> dp then drop (nat dp) ds else replicate (nat (- dp)) (CHR ''0'') @ ds)
      in if frac = [] then whole else whole @ ''.'' @ frac)"

definition fmt_g :: "f64 \<Rightarrow> string" where
  "fmt_g w =
     (if f64_is_nan w then ''NaN''
      else let sign = (if f64_neg w then ''-'' else []) in
      if \<not> f64_finite w then (if f64_neg w then ''-Inf'' else ''+Inf'')
      else if f64_scaled w = 0 then sign @ ''0''
      else let (ds, dp) = shortest_digits w
           in sign @ (if dp - 1 < - 4 \<or> 6 \<le> dp - 1 then fmt_e ds dp else fmt_f ds dp))"

text \<open>\<open>%v\<close> of a decoded JSON value; maps are printed with their keys in order.\<close>

fun join :: "string \<Rightarrow> string list \<Rightarrow> string" where
  "join sep [] = []"
| "join sep [s] = s"
| "join sep (s # t # ss) = s @ sep @ join sep (t # ss)"

primrec fmt_v :: "gany \<Rightarrow> string" where
  "fmt_v AnyNil = ''<nil>''"
| "fmt_v (AnyBool b) = (if b then ''true'' else ''false'')"
| "fmt_v (AnyInt n) = Itoa n"
| "fmt_v (AnyFloat w) = fmt_g w"
| "fmt_v (AnyStr s) = s"
| "fmt_v (AnyTime t) = []" \<comment> \<open>not a JSON value\<close>
| "fmt_v (AnyStrs ss) = ''['' @ join '' '' ss @ '']''"
| "fmt_v (AnyList vs) = ''['' @ join '' '' (map fmt_v vs) @ '']''"
| "fmt_v (AnyMap kvs) = ''map['' @ join '' '' (map (\<lambda>(k, v). k @ '':'' @ v) (sort_key fst (map (map_prod id fmt_v) kvs))) @ '']''"

end
