(* ===== verification/Features.thy ===== *)
theory Features
  imports Go_Fmt Clients Dispatcher
begin

text \<open>
  The feature gateway: \<^verbatim>\<open>go/internal/feature\<close> and the handlers of \<^verbatim>\<open>go/cmd/feature-gateway/main.go\<close>.

  The interface \<open>Store\<close> of the online stores is the locale \<open>feature_store\<close>, interpreted for the
  store in memory and for Redis. \<open>Lookup\<close> is written against the interface, as in the code.
  The Redis server keeps texts by key; JSON coding and failing calls are part of its state.
\<close>

record feature_request =
  fq_FeatureService :: string
  fq_Entities :: "gany gomap list"

record feature_result =
  fr_Values :: "gany gomap"
  fr_Statuses :: "string gomap"

subsection \<open>Entities\<close>

definition EntityKey :: "gany gomap \<Rightarrow> string + error" where
  "EntityKey entity =
     (case entity of
        [(k, v)] \<Rightarrow> if k = [] \<or> v = AnyNil then Inr (Err ''entity identifier cannot be empty'') else Inl (k @ ''='' @ fmt_v v)
      | _ \<Rightarrow> Inr (Err ''each entity must contain exactly one identifier''))"

definition found_row :: "gany gomap option \<Rightarrow> feature_result" where
  "found_row found = (case found of
      None \<Rightarrow> \<lparr>fr_Values = [], fr_Statuses = [(''entity'', ''NOT_FOUND'')]\<rparr>
    | Some vs \<Rightarrow> \<lparr>fr_Values = vs, fr_Statuses = map (\<lambda>(n, _). (n, ''PRESENT'')) vs\<rparr>)"

text \<open>\<open>Lookup\<close> stops at the first entity without a key.\<close>

fun lookup_rows :: "(string \<Rightarrow> gany gomap option) \<Rightarrow> gany gomap list \<Rightarrow> feature_result list + error" where
  "lookup_rows get [] = Inl []"
| "lookup_rows get (e # es) =
     (case EntityKey e of Inr err \<Rightarrow> Inr err
      | Inl k \<Rightarrow> (case lookup_rows get es of Inr err \<Rightarrow> Inr err | Inl rows \<Rightarrow> Inl (found_row (get k) # rows)))"

lemma lookup_rows_Inl:
  "lookup_rows g es = Inl rows \<longleftrightarrow> list_all (\<lambda>e. isl (EntityKey e)) es \<and> rows = map (\<lambda>e. found_row (g (projl (EntityKey e)))) es"
proof (induction es arbitrary: rows)
  case (Cons e es)
  show ?case
  proof (cases "EntityKey e")
    case (Inl k)
    then show ?thesis using Cons by (cases "lookup_rows g es") auto
  qed simp
qed auto

lemma lookup_rows_all: "list_all (\<lambda>e. isl (EntityKey e)) es \<Longrightarrow> lookup_rows g es = Inl (map (\<lambda>e. found_row (g (projl (EntityKey e)))) es)"
  using lookup_rows_Inl by blast

definition Lookup :: "('s \<Rightarrow> string \<Rightarrow> string \<Rightarrow> gany gomap option) \<Rightarrow> 's \<Rightarrow> feature_request \<Rightarrow> feature_result list + error" where
  "Lookup get s request =
     (if fq_FeatureService request = [] \<or> fq_Entities request = []
      then Inr (Err ''feature_service and at least one entity are required'')
      else lookup_rows (get s (fq_FeatureService request)) (fq_Entities request))"

subsection \<open>The interface of an online store\<close>

text \<open>
  \<open>address\<close> tells which pairs of service and entity share a document, \<open>storable\<close> when a write
  takes effect.
\<close>

locale feature_store =
  fixes get :: "'s \<Rightarrow> string \<Rightarrow> string \<Rightarrow> gany gomap option"
    and put :: "'s \<Rightarrow> string \<Rightarrow> string \<Rightarrow> gany gomap \<Rightarrow> 's"
    and address :: "string \<Rightarrow> string \<Rightarrow> 'k"
    and storable :: "'s \<Rightarrow> gany gomap \<Rightarrow> bool"
  assumes get_put: "storable s v \<Longrightarrow> get (put s a k v) a' k' = (if address a k = address a' k' then Some v else get s a' k')"
    and storable_put: "storable (put s a k v) w = storable s w"
begin

lemma lookup_put:
  assumes "storable s v"
  shows "lookup_rows (get (put s a k v) a) es = Inl rows \<longleftrightarrow> list_all (\<lambda>e. isl (EntityKey e)) es \<and>
    rows = map (\<lambda>e. found_row (if address a k = address a (projl (EntityKey e)) then Some v else get s a (projl (EntityKey e)))) es"
  unfolding lookup_rows_Inl get_put [OF assms] ..

text \<open>The last write to a document wins, whatever the order of writes to other documents.\<close>

lemma puts:
  assumes "\<forall>(a, k, v) \<in> set ws. storable s v"
  shows "get (foldl (\<lambda>s (a, k, v). put s a k v) s ws) a' k' =
    (case find (\<lambda>(a, k, v). address a k = address a' k') (rev ws) of Some (a, k, v) \<Rightarrow> Some v | None \<Rightarrow> get s a' k')"
  using assms
proof (induction ws rule: rev_induct)
  case (snoc w ws)
  obtain a k v where w: "w = (a, k, v)" by (cases w)
  have "storable (foldl (\<lambda>s (a, k, v). put s a k v) s ws') x = storable s x" for x ws' and s
    by (induction ws' arbitrary: s) (auto simp: storable_put split: prod.splits)
  then have "storable (foldl (\<lambda>s (a, k, v). put s a k v) s ws) v" using snoc.prems w by simp
  from get_put [OF this] show ?case using snoc w by simp
qed simp

end

subsection \<open>The store in memory\<close>

type_synonym MemoryStore = "string \<rightharpoonup> (string \<rightharpoonup> gany gomap)"

definition NewMemoryStore :: MemoryStore where
  "NewMemoryStore = Map.empty"

definition Memory_Get :: "MemoryStore \<Rightarrow> string \<Rightarrow> string \<Rightarrow> gany gomap option" where
  "Memory_Get s service k = (case s service of None \<Rightarrow> None | Some m \<Rightarrow> m k)"

definition Memory_Put :: "MemoryStore \<Rightarrow> string \<Rightarrow> string \<Rightarrow> gany gomap \<Rightarrow> MemoryStore" where
  "Memory_Put s service k values =
     (let m = (case s service of None \<Rightarrow> Map.empty | Some m \<Rightarrow> m) in s(service \<mapsto> m(k \<mapsto> values)))"

interpretation memory: feature_store Memory_Get Memory_Put Pair "\<lambda>s v. True"
  by unfold_locales (auto simp: Memory_Get_def Memory_Put_def Let_def split: option.splits)

subsection \<open>Redis\<close>

record RedisStore =
  rd_data :: "string \<rightharpoonup> string"
  rd_marshal :: "gany gomap \<Rightarrow> string option"
  rd_unmarshal :: "string \<Rightarrow> gany gomap option"
  rd_reachable :: bool

definition redis_key :: "string \<Rightarrow> string \<Rightarrow> string" where
  "redis_key service entityKey = ''mlaiops:features:'' @ service @ '':'' @ entityKey"

definition Redis_Get :: "RedisStore \<Rightarrow> string \<Rightarrow> string \<Rightarrow> gany gomap option" where
  "Redis_Get s service entityKey =
     (if \<not> rd_reachable s then None
      else case rd_data s (redis_key service entityKey) of None \<Rightarrow> None | Some raw \<Rightarrow> rd_unmarshal s raw)"

definition Redis_Put :: "RedisStore \<Rightarrow> string \<Rightarrow> string \<Rightarrow> gany gomap \<Rightarrow> RedisStore" where
  "Redis_Put s service entityKey values =
     (case rd_marshal s values of None \<Rightarrow> s
      | Some raw \<Rightarrow> if rd_reachable s then s\<lparr>rd_data := (rd_data s)(redis_key service entityKey \<mapsto> raw)\<rparr> else s)"

definition redis_storable :: "RedisStore \<Rightarrow> gany gomap \<Rightarrow> bool" where
  "redis_storable s v \<longleftrightarrow> rd_reachable s \<and> (\<exists>raw. rd_marshal s v = Some raw \<and> rd_unmarshal s raw = Some v)"

interpretation redis: feature_store Redis_Get Redis_Put redis_key redis_storable
  by unfold_locales (auto simp: Redis_Get_def Redis_Put_def redis_storable_def split: option.splits)

text \<open>The keys are unambiguous only for services without a colon.\<close>

lemma append_sep_eq: "d \<notin> set a \<Longrightarrow> d \<notin> set b \<Longrightarrow> a @ d # x = b @ d # y \<longleftrightarrow> a = b \<and> x = y"
proof (induction a arbitrary: b)
  case Nil
  then show ?case by (cases b) auto
next
  case (Cons c a)
  then show ?case by (cases b) auto
qed

lemma redis_key_inj:
  "CHR '':'' \<notin> set a \<Longrightarrow> CHR '':'' \<notin> set b \<Longrightarrow> redis_key a k = redis_key b k' \<longleftrightarrow> a = b \<and> k = k'"
  by (simp add: redis_key_def append_sep_eq)

lemma redis_key_ambiguous: "redis_key ''a:b'' ''c'' = redis_key ''a'' ''b:c''"
  by (simp add: redis_key_def)

subsection \<open>Feast\<close>

record feast_column =
  fc_Values :: "gany list"
  fc_Statuses :: "string list"

record feast_response =
  fe_FeatureNames :: "string list"
  fe_Results :: "feast_column list"

definition add_column :: "string \<times> gany \<Rightarrow> gany list gomap \<Rightarrow> gany list gomap" where
  "add_column kv cols = (case map_of cols (fst kv) of
      None \<Rightarrow> cols @ [(fst kv, [snd kv])]
    | Some vs \<Rightarrow> map (\<lambda>(k, ws). (k, if k = fst kv then ws @ [snd kv] else ws)) cols)"

fun feast_columns :: "gany list gomap \<Rightarrow> gany gomap list \<Rightarrow> gany list gomap + error" where
  "feast_columns cols [] = Inl cols"
| "feast_columns cols (e # es) =
     (case EntityKey e of Inr err \<Rightarrow> Inr err | Inl _ \<Rightarrow> feast_columns (foldl (\<lambda>c kv. add_column kv c) cols e) es)"

definition set_entry :: "'v gomap \<Rightarrow> string \<times> 'v \<Rightarrow> 'v gomap" where
  "set_entry m kv = filter (\<lambda>e. fst e \<noteq> fst kv) m @ [kv]"

definition feast_row :: "feast_response \<Rightarrow> nat \<Rightarrow> feature_result" where
  "feast_row d i =
     (let cols = zip (fe_FeatureNames d) (fe_Results d) in
      \<lparr>fr_Values = foldl set_entry [] (List.map_filter (\<lambda>(n, c). if i < length (fc_Values c) then Some (n, fc_Values c ! i) else None) cols),
       fr_Statuses = foldl set_entry [] (List.map_filter (\<lambda>(n, c). if i < length (fc_Statuses c) then Some (n, fc_Statuses c ! i) else None) cols)\<rparr>)"

text \<open>\<open>decode\<close> is \<open>json.Decoder.Decode\<close> into the response; marshalling errors are ignored by the code.\<close>

definition Feast_Lookup ::
  "web \<Rightarrow> (string \<Rightarrow> feast_response option) \<Rightarrow> string \<Rightarrow> feature_request \<Rightarrow> http_request list \<times> (feature_result list + error)" where
  "Feast_Lookup w decode baseURL request =
     (if fq_FeatureService request = [] \<or> fq_Entities request = []
      then ([], Inr (Err ''feature_service and at least one entity are required''))
      else case feast_columns [] (fq_Entities request) of Inr err \<Rightarrow> ([], Inr err)
      | Inl entities \<Rightarrow>
          (let body = (case web_marshal w (AnyMap [(''feature_service'', AnyStr (fq_FeatureService request)),
                 (''entities'', AnyMap (map (\<lambda>(k, vs). (k, AnyList vs)) entities))]) of Some raw \<Rightarrow> raw | None \<Rightarrow> []) in
           if url_Parse (baseURL @ ''/get-online-features'') = None then ([], Inr (Err ''invalid URL''))
           else let rq = \<lparr>hq_Method = ''POST'', hq_URL = baseURL @ ''/get-online-features'', hq_Headers = [(''Content-Type'', ''application/json'')],
                     hq_BasicAuth = None, hq_Body = Some body\<rparr>
           in ([rq], case web_do w rq of
                Inr err \<Rightarrow> Inr (Err ''feast server unreachable'')
              | Inl response \<Rightarrow>
                 if hr_Status response \<noteq> 200 then Inr (Err (''feast server returned '' @ hr_StatusText response))
                 else case decode (hr_Body response) of None \<Rightarrow> Inr (Err ''invalid feast response'')
                 | Some d \<Rightarrow>
                    if length (fe_Results d) \<noteq> length (fe_FeatureNames d)
                    then Inr (Err ''feast response feature names and results are misaligned'')
                    else Inl (map (feast_row d) [0..<length (fq_Entities request)]))))"

subsection \<open>The handlers\<close>

definition authorized :: "string \<Rightarrow> string \<Rightarrow> bool" where
  "authorized token authorization \<longleftrightarrow> token = [] \<or> authorization = ''Bearer '' @ token"

text \<open>The write of the materializer; \<open>None\<close> as body: not decodable. In Feast mode there is no store.\<close>

definition h_put_features ::
  "('s \<Rightarrow> string \<Rightarrow> string \<Rightarrow> gany gomap \<Rightarrow> 's) option \<Rightarrow> string \<Rightarrow> 's \<Rightarrow> string \<Rightarrow> string \<Rightarrow> string \<Rightarrow> gany gomap option \<Rightarrow> 's \<times> int" where
  "h_put_features put token s authorization service entity body =
     (if \<not> authorized token authorization then (s, 401)
      else case put of None \<Rightarrow> (s, 501)
      | Some p \<Rightarrow> (case body of None \<Rightarrow> (s, 400) | Some values \<Rightarrow> (p s service entity values, 204)))"

definition h_get_features :: "(feature_request \<Rightarrow> feature_result list + error) \<Rightarrow> feature_request option \<Rightarrow> int \<times> feature_result list" where
  "h_get_features lookup body =
     (case body of None \<Rightarrow> (400, [])
      | Some request \<Rightarrow> (case lookup request of Inr err \<Rightarrow> (422, []) | Inl rows \<Rightarrow> (200, rows)))"

subsection \<open>Sequences of writes\<close>

type_synonym feature_write = "string \<times> string \<times> gany gomap"

definition materialize ::
  "('s \<Rightarrow> string \<Rightarrow> string \<Rightarrow> gany gomap \<Rightarrow> 's) \<Rightarrow> string \<Rightarrow> string \<Rightarrow> 's \<Rightarrow> feature_write list \<Rightarrow> 's" where
  "materialize put token authorization s ws =
     foldl (\<lambda>s (service, entity, values). fst (h_put_features (Some put) token s authorization service entity (Some values))) s ws"

definition last_written :: "feature_write list \<Rightarrow> string \<Rightarrow> string \<Rightarrow> gany gomap option" where
  "last_written ws service k = map_option (snd \<circ> snd) (find (\<lambda>(a, k', v). a = service \<and> k' = k) (rev ws))"

lemma materialize_foldl: "authorized token auth \<Longrightarrow> materialize put token auth s ws = foldl (\<lambda>s (a, k, v). put s a k v) s ws"
  by (simp add: materialize_def h_put_features_def)

lemma option_third: "d = None \<Longrightarrow> (case x of Some (a, k, v) \<Rightarrow> Some v | None \<Rightarrow> d) = map_option (snd \<circ> snd) x"
  by (auto split: option.splits)

lemma memory_materialized: "authorized token auth \<Longrightarrow> Memory_Get (materialize Memory_Put token auth NewMemoryStore ws) service k = last_written ws service k"
proof -
  have "(\<lambda>(a, k', v :: gany gomap). (a, k') = (service, k)) = (\<lambda>(a, k', v). a = service \<and> k' = k)" by auto
  moreover have "Memory_Get NewMemoryStore service k = None" by (simp add: Memory_Get_def NewMemoryStore_def)
  ultimately show "Memory_Get (materialize Memory_Put token auth NewMemoryStore ws) service k = last_written ws service k" if "authorized token auth"
    using that memory.puts [of ws NewMemoryStore service k] by (simp add: materialize_foldl option_third last_written_def)
qed

lemma redis_materialized:
  assumes "authorized token auth" "rd_data s = Map.empty" "\<forall>(a, k, v) \<in> set ws. redis_storable s v"
    and "CHR '':'' \<notin> set service" "\<forall>(a, k, v) \<in> set ws. CHR '':'' \<notin> set a"
  shows "Redis_Get (materialize Redis_Put token auth s ws) service k = last_written ws service k"
proof -
  have "find (\<lambda>(a, k', v). redis_key a k' = redis_key service k) (rev ws) = find (\<lambda>(a, k', v). a = service \<and> k' = k) (rev ws)"
    by (rule find_cong [OF refl]) (use assms(4,5) in \<open>auto simp: redis_key_inj\<close>)
  moreover have "Redis_Get s service k = None" by (simp add: Redis_Get_def assms(2))
  ultimately show ?thesis
    using redis.puts [OF assms(3), of service k] assms(1) by (simp add: materialize_foldl option_third last_written_def)
qed

subsection \<open>Feast answers like a store\<close>

definition entity_of :: "string \<Rightarrow> gany \<Rightarrow> gany gomap" where
  "entity_of k v = [(k, v)]"

lemma feast_columns_step: "k \<noteq> [] \<Longrightarrow> \<forall>v \<in> set vs. v \<noteq> AnyNil \<Longrightarrow> feast_columns [(k, ws)] (map (entity_of k) vs) = Inl [(k, ws @ vs)]"
  by (induction vs arbitrary: ws) (simp_all add: entity_of_def EntityKey_def add_column_def)

lemma feast_columns_same:
  assumes "k \<noteq> []" and "\<forall>v \<in> set vs. v \<noteq> AnyNil" and "vs \<noteq> []"
  shows "feast_columns [] (map (entity_of k) vs) = Inl [(k, vs)]"
proof -
  obtain v rest where vs: "vs = v # rest" using assms(3) by (cases vs) auto
  then show ?thesis
    using feast_columns_step [OF assms(1), of rest "[v]"] assms(1,2) by (simp add: entity_of_def EntityKey_def add_column_def)
qed

lemma set_entries_distinct: "distinct (map fst (m @ kvs)) \<Longrightarrow> foldl set_entry m kvs = m @ kvs"
proof (induction kvs arbitrary: m)
  case (Cons kv kvs)
  then have "fst kv \<notin> fst ` set m" by simp
  then have "\<forall>e \<in> set m. fst e \<noteq> fst kv" by (metis imageI)
  then have "set_entry m kv = m @ [kv]" by (simp add: set_entry_def filter_id_conv)
  with Cons show ?case by simp
qed simp

text \<open>A response with one column per feature, and its transposition.\<close>

definition columns_of :: "string list \<Rightarrow> (string \<Rightarrow> 'e \<Rightarrow> gany) \<Rightarrow> 'e list \<Rightarrow> feast_response" where
  "columns_of names f vs = \<lparr>fe_FeatureNames = names,
     fe_Results = map (\<lambda>n. \<lparr>fc_Values = map (f n) vs, fc_Statuses = replicate (length vs) ''PRESENT''\<rparr>) names\<rparr>"

lemma feast_row_columns:
  assumes "distinct names" and "i < length vs"
  shows "feast_row (columns_of names f vs) i = found_row (Some (map (\<lambda>n. (n, f n (vs ! i))) names))"
proof -
  let ?res = "\<lambda>n. \<lparr>fc_Values = map (f n) vs, fc_Statuses = replicate (length vs) ''PRESENT''\<rparr>"
  have mf: "List.map_filter (\<lambda>(n, c). Some (n, g c)) (zip names (map ?res names)) = map (\<lambda>n. (n, g (?res n))) names" for g :: "feast_column \<Rightarrow> 'x"
    by (induction names) (simp_all add: List.map_filter_simps)
  have zc: "List.map_filter (\<lambda>(n, c). if i < len c then Some (n, g c) else None) (zip names (map ?res names)) =
      List.map_filter (\<lambda>(n, c). Some (n, g c)) (zip names (map ?res names))" if "\<And>n. i < len (?res n)" for len and g :: "feast_column \<Rightarrow> 'x"
    using that by (induction names) (simp_all add: List.map_filter_simps)
  have d: "distinct (map fst ([] @ map (\<lambda>n. (n, h n)) names))" for h :: "string \<Rightarrow> 'x" using assms(1) by (simp add: comp_def)
  have v: "List.map_filter (\<lambda>(n, c). if i < length (fc_Values c) then Some (n, fc_Values c ! i) else None) (zip names (map ?res names)) =
      map (\<lambda>n. (n, f n (vs ! i))) names"
    using zc [of "\<lambda>c. length (fc_Values c)" "\<lambda>c. fc_Values c ! i"] mf [of "\<lambda>c. fc_Values c ! i"] assms(2) by simp
  have st: "List.map_filter (\<lambda>(n, c). if i < length (fc_Statuses c) then Some (n, fc_Statuses c ! i) else None) (zip names (map ?res names)) =
      map (\<lambda>n. (n, ''PRESENT'')) names"
    using zc [of "\<lambda>c. length (fc_Statuses c)" "\<lambda>c. fc_Statuses c ! i"] mf [of "\<lambda>c. fc_Statuses c ! i"] assms(2) by simp
  show ?thesis
    unfolding feast_row_def columns_of_def Let_def feast_response.select_convs v st
    using set_entries_distinct [OF d, of "\<lambda>n. f n (vs ! i)"] set_entries_distinct [OF d, of "\<lambda>n. ''PRESENT''"]
    by (simp add: found_row_def comp_def)
qed

text \<open>
  When Feast has the features that an online store holds for entities of one kind, both modes of
  the gateway give the same answer.
\<close>

lemma modes_agree:
  assumes "k \<noteq> []" and "\<forall>v \<in> set vs. v \<noteq> AnyNil" and "vs \<noteq> []" and "service \<noteq> []" and "distinct names"
    and stored: "\<forall>v \<in> set vs. get s service (k @ ''='' @ fmt_v v) = Some (map (\<lambda>n. (n, f n v)) names)"
    and url: "url_Parse (base @ ''/get-online-features'') \<noteq> None"
    and answer: "\<And>rq. web_do w rq = Inl response" "hr_Status response = 200" "decode (hr_Body response) = Some (columns_of names f vs)"
  shows "snd (Feast_Lookup w decode base \<lparr>fq_FeatureService = service, fq_Entities = map (entity_of k) vs\<rparr>) =
    Lookup get s \<lparr>fq_FeatureService = service, fq_Entities = map (entity_of k) vs\<rparr>"
proof -
  have key: "EntityKey (entity_of k v) = Inl (k @ ''='' @ fmt_v v)" if "v \<in> set vs" for v
    using that assms(1,2) by (simp add: EntityKey_def entity_of_def)
  have "map (feast_row (columns_of names f vs)) [0..<length vs] = map (\<lambda>v. found_row (Some (map (\<lambda>n. (n, f n v)) names))) vs"
    by (rule nth_equalityI) (simp_all add: feast_row_columns [OF assms(5)])
  also have "\<dots> = map (\<lambda>e. found_row (get s service (projl (EntityKey e)))) (map (entity_of k) vs)"
    using stored key by simp
  finally have "Lookup get s \<lparr>fq_FeatureService = service, fq_Entities = map (entity_of k) vs\<rparr> =
      Inl (map (feast_row (columns_of names f vs)) [0..<length vs])"
    using assms(3,4) key by (simp add: Lookup_def lookup_rows_Inl list_all_iff)
  moreover have "length (fe_Results (columns_of names f vs)) = length (fe_FeatureNames (columns_of names f vs))"
    by (simp add: columns_of_def)
  ultimately show ?thesis
    using assms(3,4) url answer feast_columns_same [OF assms(1-3)] by (simp add: Feast_Lookup_def Let_def)
qed

subsection \<open>Divergences\<close>

text \<open>
  Two entities with different identifiers become two columns of one row, which Feast reads as one
  entity; the second row of the answer is then empty.
\<close>

lemma feast_mixed_entities:
  assumes "k \<noteq> k'" "k \<noteq> []" "k' \<noteq> []" "v \<noteq> AnyNil" "v' \<noteq> AnyNil"
  shows "feast_columns [] [[(k, v)], [(k', v')]] = Inl [(k, [v]), (k', [v'])]"
    and "feast_row (columns_of names f [x]) 1 = \<lparr>fr_Values = [], fr_Statuses = []\<rparr>"
proof -
  show "feast_columns [] [[(k, v)], [(k', v')]] = Inl [(k, [v]), (k', [v'])]"
    using assms by (simp add: EntityKey_def add_column_def)
  let ?cols = "zip names (map (\<lambda>n. \<lparr>fc_Values = [f n x], fc_Statuses = [''PRESENT'']\<rparr>) names)"
  have "List.map_filter (\<lambda>(n, c). if 1 < length (fc_Values c) then Some (n, fc_Values c ! 1) else None) ?cols = []"
    "List.map_filter (\<lambda>(n, c). if 1 < length (fc_Statuses c) then Some (n, fc_Statuses c ! 1) else None) ?cols = []"
    by (induction names) (simp_all add: List.map_filter_simps)
  then show "feast_row (columns_of names f [x]) 1 = \<lparr>fr_Values = [], fr_Statuses = []\<rparr>"
    by (simp add: feast_row_def columns_of_def Let_def del: One_nat_def)
qed

text \<open>
  The number 1000000 of a JSON request is printed as \<open>1e+06\<close>, while the materializer writes the
  identifier as it is: features of such entities are stored but not found.
\<close>

lemma million: "f64_mag 0x412E848000000000 = 0x412E848000000000" "f64_neg 0x412E848000000000 = False" "f64_scaled 0x412E848000000000 = 1000000 * 2 ^ 1074"
  by (simp_all add: f64_mag_def f64_neg_def f64_scaled_def Let_def)
lemma million_point: "dec_point (1000000 * 2 ^ 1074) = 7"
proof -
  have "Itoa 1000000 = ''1000000''" by (simp add: Itoa_def dec_nat.simps char_of_eval)
  moreover have "(1000000 * 2 ^ 1074) div 2 ^ 1074 = (1000000 :: int)" by (rule nonzero_mult_div_cancel_right) simp
  moreover have "(2 :: int) ^ 1074 \<le> 1000000 * 2 ^ 1074" by simp
  ultimately show ?thesis unfolding dec_point_def by simp
qed
lemma million_cut: "cut_digits 0x412E848000000000 1 = Some 1"
proof -
  have a: "\<bar>1000000 * 2 ^ 1074\<bar> = (1000000 * 2 ^ 1074 :: int)" by simp
  show ?thesis unfolding cut_digits_def f64_ulp_def million a million_point Let_def by simp
qed
lemma million_text: "fmt_g 0x412E848000000000 = ''1e+06''"
proof -
  have find: "find (\<lambda>k. cut_digits 0x412E848000000000 k \<noteq> None) [1..<18] = Some 1"
    by (subst upt_conv_Cons) (simp_all add: million_cut [simplified])
  have itoa: "Itoa 1 = ''1''" "Itoa 6 = ''6''" by (simp_all add: Itoa_def dec_nat.simps char_of_eval)
  have "\<bar>1000000 * 2 ^ 1074\<bar> = (1000000 * 2 ^ 1074 :: int)" by simp
  then have "shortest_digits 0x412E848000000000 = (''1'', 7)"
    unfolding shortest_digits_def find option.case million_cut option.sel itoa Let_def million million_point by (simp only: million_point) (simp add: TrimRightByte_def)
  moreover have "f64_scaled 0x412E848000000000 \<noteq> 0" unfolding million by simp
  ultimately show ?thesis
    unfolding fmt_g_def f64_is_nan_def f64_finite_def million(1,2) f64_inf_mag_def Let_def
    by (simp add: fmt_e_def exponent_text_def itoa)
qed

lemma large_identifier_missed:
  "Lookup Memory_Get (Memory_Put NewMemoryStore ''svc'' ''entity_id=1000000'' v)
     \<lparr>fq_FeatureService = ''svc'', fq_Entities = [[(''entity_id'', AnyFloat 0x412E848000000000)]]\<rparr> = Inl [found_row None]"
  by (simp add: Lookup_def EntityKey_def million_text Memory_Get_def Memory_Put_def NewMemoryStore_def)

end
