(* ===== verification/Storage.thy ===== *)
theory Storage
  imports Go_Fmt Go_Crypto Clients Http_Access "HOL-Library.Sublist"
begin

text \<open>
  Object storage: the request signing of \<^verbatim>\<open>go/internal/storage/presign.go\<close>, the browser of
  \<^verbatim>\<open>browse.go\<close>, the handlers of \<^verbatim>\<open>go/cmd/storage-proxy/main.go\<close> and the gateway's
  \<open>storageProxy\<close>. A signed URL is the \<open>URL\<close> record whose text the code returns. The
  network and the XML decoder are parameters.
\<close>

unbundle bit_operations_syntax

subsection \<open>HMAC\<close>

definition hmac_pad :: "string \<Rightarrow> nat \<Rightarrow> string" where
  "hmac_pad key n = map (\<lambda>c. char_of (of_char c XOR n)) (key @ replicate (64 - length key) (char_of (0 :: nat)))"

definition hmacSHA :: "string \<Rightarrow> string \<Rightarrow> string" where
  "hmacSHA key v = (let k = (if 64 < length key then Sum256 key else key) in Sum256 (hmac_pad k 92 @ Sum256 (hmac_pad k 54 @ v)))"

subsection \<open>Times\<close>

text \<open>The layouts \<open>20060102\<close> and \<open>20060102T150405Z\<close> of a time in UTC, given in nanoseconds.\<close>

definition civil :: "int \<Rightarrow> int \<times> int \<times> int" where
  "civil days =
     (let z = days + 719468; era = z div 146097; doe = z mod 146097;
          yoe = (doe - doe div 1460 + doe div 36524 - doe div 146096) div 365;
          doy = doe - (365 * yoe + yoe div 4 - yoe div 100);
          mp = (5 * doy + 2) div 153; d = doy - (153 * mp + 2) div 5 + 1;
          m = (if mp < 10 then mp + 3 else mp - 9)
      in (yoe + era * 400 + (if m \<le> 2 then 1 else 0), m, d))"

definition padded :: "nat \<Rightarrow> int \<Rightarrow> string" where
  "padded w n = (let s = Itoa n in replicate (w - length s) (CHR ''0'') @ s)"

definition date_text :: "time \<Rightarrow> string" where
  "date_text t = (let (y, m, d) = civil (t div (86400 * 1000000000)) in padded 4 y @ padded 2 m @ padded 2 d)"

definition timestamp_text :: "time \<Rightarrow> string" where
  "timestamp_text t = (let s = t div 1000000000 mod 86400 in
     date_text t @ ''T'' @ padded 2 (s div 3600) @ padded 2 (s mod 3600 div 60) @ padded 2 (s mod 60) @ ''Z'')"

subsection \<open>Queries\<close>

type_synonym query_values = "string list gomap"

definition add_value :: "query_values \<Rightarrow> string \<times> string \<Rightarrow> query_values" where
  "add_value m kv = (if map_of m (fst kv) = None then m @ [(fst kv, [snd kv])]
     else map (\<lambda>(k, vs). (k, if k = fst kv then vs @ [snd kv] else vs)) m)"

definition url_Query :: "URL \<Rightarrow> query_values" where
  "url_Query u = foldl add_value [] (query_pairs (url_RawQuery u))"

definition set_value :: "query_values \<Rightarrow> string \<Rightarrow> string \<Rightarrow> query_values" where
  "set_value m k v = filter (\<lambda>e. fst e \<noteq> k) m @ [(k, [v])]"

definition plus20 :: "string \<Rightarrow> string" where
  "plus20 s = concat (map (\<lambda>c. if c = CHR ''+'' then ''%20'' else [c]) s)"

definition encode_pair :: "string \<times> string \<Rightarrow> string" where
  "encode_pair kv = QueryEscape (fst kv) @ ''='' @ plus20 (QueryEscape (snd kv))"

definition sorted_pairs :: "query_values \<Rightarrow> (string \<times> string) list" where
  "sorted_pairs m = concat (map (\<lambda>k. map (Pair k) (sort (case map_of m k of Some vs \<Rightarrow> vs | None \<Rightarrow> []))) (sort (map fst m)))"

definition encodeQuery :: "query_values \<Rightarrow> string" where
  "encodeQuery m = join ''&'' (map encode_pair (sorted_pairs m))"

subsection \<open>Paths\<close>

text \<open>\<open>path.Join\<close> below the root: empty and dot segments are dropped, a double dot takes one back.\<close>

definition clean_step :: "string list \<Rightarrow> string \<Rightarrow> string list" where
  "clean_step stack s = (if s = [] \<or> s = ''.'' then stack else if s = ''..'' then butlast stack else stack @ [s])"

definition join_root :: "string list \<Rightarrow> string" where
  "join_root parts = ''/'' @ join ''/'' (foldl clean_step [] (concat (map (split_on (CHR ''/'')) parts)))"

definition Contains :: "string \<Rightarrow> string \<Rightarrow> bool" where
  "Contains s t = list_ex (\<lambda>u. HasPrefix u t) (suffixes s)"

subsection \<open>Signing\<close>

record storage_config =
  sc_Endpoint :: string
  sc_Region :: string
  sc_AccessKey :: string
  sc_SecretKey :: string

record storage_request =
  sr_Bucket :: string
  sr_Key :: string
  sr_Operation :: string
  sr_TTLSeconds :: int

definition scope_text :: "string \<Rightarrow> string \<Rightarrow> string" where
  "scope_text date region = date @ ''/'' @ region @ ''/s3/aws4_request''"

definition signature :: "string \<Rightarrow> string \<Rightarrow> string \<Rightarrow> string \<Rightarrow> string \<Rightarrow> string \<Rightarrow> string \<Rightarrow> string \<Rightarrow> string" where
  "signature secret region date timestamp meth path query host =
     (let canonical = join [CHR 0x0A] [meth, path, query, ''host:'' @ host @ [CHR 0x0A], ''host'', ''UNSIGNED-PAYLOAD''];
          toSign = ''AWS4-HMAC-SHA256'' @ [CHR 0x0A] @ timestamp @ [CHR 0x0A] @ scope_text date region @ [CHR 0x0A] @ hex_EncodeToString (Sum256 canonical);
          key = hmacSHA (hmacSHA (hmacSHA (hmacSHA (''AWS4'' @ secret) date) region) ''s3'') ''aws4_request''
      in hex_EncodeToString (hmacSHA key toSign))"

definition signed_values :: "storage_config \<Rightarrow> string \<Rightarrow> time \<Rightarrow> string \<Rightarrow> query_values \<Rightarrow> query_values" where
  "signed_values config region now ttl query =
     set_value (set_value (set_value (set_value (set_value query ''X-Amz-Algorithm'' ''AWS4-HMAC-SHA256'')
       ''X-Amz-Credential'' (sc_AccessKey config @ ''/'' @ scope_text (date_text now) region))
       ''X-Amz-Date'' (timestamp_text now)) ''X-Amz-Expires'' ttl) ''X-Amz-SignedHeaders'' ''host''"

definition sign_url :: "storage_config \<Rightarrow> string \<Rightarrow> time \<Rightarrow> string \<Rightarrow> URL \<Rightarrow> query_values \<Rightarrow> URL" where
  "sign_url config ttl now meth endpoint query =
     (let region = (if sc_Region config = [] then ''us-east-1'' else sc_Region config);
          values = signed_values config region now ttl query;
          sig = signature (sc_SecretKey config) region (date_text now) (timestamp_text now) meth (EscapedPath endpoint) (encodeQuery values) (url_Host endpoint)
      in endpoint\<lparr>url_RawQuery := encodeQuery (set_value values ''X-Amz-Signature'' sig)\<rparr>)"

text \<open>\<open>strings.ToUpper\<close> as far as it decides the two comparisons: only ASCII letters become \<open>GET\<close> or \<open>PUT\<close>.\<close>

definition upper_operation :: "string \<Rightarrow> string" where
  "upper_operation s = map (\<lambda>c. if 97 \<le> byte c \<and> byte c \<le> 122 then char_of (byte c - 32) else c) s"

definition Presign :: "storage_config \<Rightarrow> storage_request \<Rightarrow> time \<Rightarrow> URL + error" where
  "Presign config request now =
     (if sc_Endpoint config = [] \<or> sc_AccessKey config = [] \<or> sc_SecretKey config = []
        then Inr (Err ''storage endpoint and credentials must be configured'')
      else if sr_Bucket request = [] \<or> sr_Key request = [] \<or> has_byte (CHR ''/'') (sr_Bucket request) \<or> Contains (sr_Key request) ''..''
        then Inr (Err ''valid bucket and key are required'')
      else let meth = upper_operation (sr_Operation request) in
      if meth \<noteq> ''GET'' \<and> meth \<noteq> ''PUT'' then Inr (Err ''operation must be GET or PUT'')
      else let ttl = (if sr_TTLSeconds request \<le> 0 then 300 else sr_TTLSeconds request) in
      if 900 < ttl then Inr (Err ''ttl_seconds cannot exceed 900'')
      else case url_Parse (sc_Endpoint config) of None \<Rightarrow> Inr (Err ''invalid URL'')
      | Some endpoint \<Rightarrow>
          Inl (sign_url config (Itoa ttl) now meth
            (endpoint\<lparr>url_Path := join_root [url_Path endpoint, sr_Bucket request, sr_Key request]\<rparr>) (url_Query endpoint)))"

subsection \<open>The browser\<close>

definition signedURL :: "storage_config \<Rightarrow> string \<Rightarrow> string \<Rightarrow> query_values \<Rightarrow> time \<Rightarrow> URL + error" where
  "signedURL config meth rawPath query now =
     (if sc_Endpoint config = [] \<or> sc_AccessKey config = [] \<or> sc_SecretKey config = []
        then Inr (Err ''storage endpoint and credentials must be configured'')
      else case url_Parse (sc_Endpoint config) of None \<Rightarrow> Inr (Err ''invalid URL'')
      | Some endpoint \<Rightarrow> Inl (sign_url config ''300'' now meth (endpoint\<lparr>url_Path := rawPath\<rparr>) query))"

record object_response =
  or_StatusCode :: int
  or_Status :: string
  or_Body :: string
  or_ContentType :: string
  or_ContentLength :: int

record object_store =
  os_do :: "URL \<Rightarrow> object_response + error"
  os_buckets :: "string \<Rightarrow> (string \<times> string) list option"
  os_objects :: "string \<Rightarrow> ((string \<times> int \<times> string) list \<times> string list) option"

definition browser_get :: "storage_config \<Rightarrow> object_store \<Rightarrow> time \<Rightarrow> string \<Rightarrow> query_values \<Rightarrow> URL list \<times> (object_response + error)" where
  "browser_get config os now rawPath query =
     (case signedURL config ''GET'' rawPath query now of Inr err \<Rightarrow> ([], Inr err)
      | Inl u \<Rightarrow> ([u], case os_do os u of
          Inr err \<Rightarrow> Inr (Err ''object store unreachable'')
        | Inl response \<Rightarrow> if or_StatusCode response \<noteq> 200 \<and> or_StatusCode response \<noteq> 206
            then Inr (Err (''object store returned '' @ or_Status response @ '': '' @ TrimSpace (take 2048 (or_Body response))))
            else Inl response))"

definition ListBuckets :: "storage_config \<Rightarrow> object_store \<Rightarrow> time \<Rightarrow> URL list \<times> ((string \<times> string) list + error)" where
  "ListBuckets config os now =
     (let (sent, r) = browser_get config os now ''/'' [] in
      (sent, case r of Inr err \<Rightarrow> Inr err
        | Inl response \<Rightarrow> (case os_buckets os (or_Body response) of None \<Rightarrow> Inr (Err ''invalid bucket listing'') | Some bs \<Rightarrow> Inl bs)))"

record Listing =
  li_Bucket :: string
  li_Prefix :: string
  li_Objects :: "(string \<times> int \<times> string) list"
  li_Prefixes :: "string list"

definition ListObjects :: "storage_config \<Rightarrow> object_store \<Rightarrow> time \<Rightarrow> string \<Rightarrow> string \<Rightarrow> URL list \<times> (Listing + error)" where
  "ListObjects config os now bucket pre =
     (if bucket = [] \<or> has_byte (CHR ''/'') bucket then ([], Inr (Err ''valid bucket is required''))
      else let query = [(''list-type'', [''2'']), (''delimiter'', [''/'']), (''max-keys'', [''500''])] @ (if pre = [] then [] else [(''prefix'', [pre])]);
               (sent, r) = browser_get config os now (''/'' @ bucket) query in
        (sent, case r of Inr err \<Rightarrow> Inr err
          | Inl response \<Rightarrow> (case os_objects os (or_Body response) of None \<Rightarrow> Inr (Err ''invalid object listing'')
            | Some (objects, common) \<Rightarrow> Inl \<lparr>li_Bucket = bucket, li_Prefix = pre, li_Objects = objects, li_Prefixes = common\<rparr>)))"

record Preview =
  pv_Bucket :: string
  pv_Key :: string
  pv_ContentType :: string
  pv_Size :: int
  pv_Truncated :: bool
  pv_Content :: string

definition PreviewObject :: "storage_config \<Rightarrow> object_store \<Rightarrow> int \<Rightarrow> time \<Rightarrow> string \<Rightarrow> string \<Rightarrow> URL list \<times> (Preview + error)" where
  "PreviewObject config os previewLimit now bucket key =
     (if bucket = [] \<or> key = [] \<or> Contains key ''..'' then ([], Inr (Err ''valid bucket and key are required''))
      else let limit = nat (if previewLimit \<le> 0 then 65536 else previewLimit);
               (sent, r) = browser_get config os now (''/'' @ bucket @ ''/'' @ key) [] in
        (sent, case r of Inr err \<Rightarrow> Inr err
          | Inl response \<Rightarrow>
              (let content = take (limit + 1) (or_Body response) in
               Inl \<lparr>pv_Bucket = bucket, pv_Key = key, pv_ContentType = or_ContentType response, pv_Size = or_ContentLength response,
                    pv_Truncated = (limit < length content), pv_Content = take limit content\<rparr>)))"

subsection \<open>The proxies\<close>

text \<open>
  The handlers of the storage proxy, by path: the URLs they request from the object store, the
  status and the body. \<open>token\<close> is \<open>MLAIOPS_INTERNAL_TOKEN\<close>.
\<close>

datatype storage_body = SB_error | SB_buckets "(string \<times> string) list" | SB_listing Listing | SB_preview Preview

definition internal_caller :: "string \<Rightarrow> string \<Rightarrow> bool" where
  "internal_caller token authorization \<longleftrightarrow> token = [] \<or> authorization = ''Bearer '' @ token"

definition storage_reply :: "('a \<Rightarrow> storage_body) \<Rightarrow> URL list \<times> ('a + error) \<Rightarrow> URL list \<times> int \<times> storage_body" where
  "storage_reply body r = (fst r, case snd r of Inl a \<Rightarrow> (200, body a) | Inr _ \<Rightarrow> (502, SB_error))"

definition proxy_read ::
  "storage_config \<Rightarrow> object_store \<Rightarrow> string \<Rightarrow> time \<Rightarrow> string \<Rightarrow> string \<Rightarrow> string \<Rightarrow> URL list \<times> int \<times> storage_body" where
  "proxy_read config os token now authorization path query =
     (if \<not> internal_caller token authorization then ([], 401, SB_error)
      else if path = ''/buckets'' then storage_reply SB_buckets (ListBuckets config os now)
      else if path = ''/objects'' then storage_reply SB_listing (ListObjects config os now (query_get query ''bucket'') (query_get query ''prefix''))
      else storage_reply SB_preview (PreviewObject config os 65536 now (query_get query ''bucket'') (query_get query ''key'')))"

text \<open>The answer to a presign request: the URL and the \<open>expires_in\<close> the handler reports.\<close>

definition proxy_presign ::
  "storage_config \<Rightarrow> string \<Rightarrow> time \<Rightarrow> string \<Rightarrow> storage_request option \<Rightarrow> int \<times> (URL \<times> int) option" where
  "proxy_presign config token now authorization body =
     (if \<not> internal_caller token authorization then (401, None)
      else case body of None \<Rightarrow> (400, None)
      | Some request \<Rightarrow> (case Presign config request now of Inr err \<Rightarrow> (422, None) | Inl u \<Rightarrow> (200, Some (u, sr_TTLSeconds request))))"

text \<open>
  \<open>storageProxy\<close> of the gateway, for the three paths it is registered with: the check, then the
  request to the storage proxy (\<open>reached\<close> unless the network fails) with the query as it is and
  the internal token. The bucket list is filtered for plain users. The first result is what the
  object store is asked for.
\<close>

definition visible_buckets :: "repository_view \<Rightarrow> Principal \<Rightarrow> (string \<times> string) list \<Rightarrow> (string \<times> string) list" where
  "visible_buckets rv p buckets = filter (\<lambda>b. List.member (sg_Buckets (ua_Storage (fst (rv_AccessFor rv (pr_Subject p))))) (fst b)) buckets"

definition storageProxy ::
  "storage_config \<Rightarrow> object_store \<Rightarrow> string \<Rightarrow> bool \<Rightarrow> time \<Rightarrow> repository_view \<Rightarrow> Principal \<Rightarrow> string \<Rightarrow> string \<Rightarrow>
     URL list \<times> int \<times> storage_body" where
  "storageProxy config os token reached now rv p path query =
     (if \<not> storageAllowed rv p (query_get query ''bucket'') then ([], 403, SB_error)
      else if \<not> reached then ([], 502, SB_error)
      else case proxy_read config os token now (if token = [] then [] else ''Bearer '' @ token) path query of
        (sent, status, body) \<Rightarrow>
          if path = ''/buckets'' \<and> is_user p
            then (sent, status, SB_buckets (case body of SB_buckets bs \<Rightarrow> visible_buckets rv p bs | _ \<Rightarrow> []))
          else (sent, status, body))"

subsection \<open>A signed URL is accepted\<close>

text \<open>
  The check of the object store, from the URL it receives: the signature of the request without
  the parameter that carries it, for the time and the scope the request names.
\<close>

definition store_accepts :: "string \<Rightarrow> string \<Rightarrow> string \<Rightarrow> URL \<Rightarrow> bool" where
  "store_accepts secret region meth u =
     (let pairs = query_pairs (url_RawQuery u);
          unsigned = filter (\<lambda>kv. fst kv \<noteq> ''X-Amz-Signature'') pairs
      in case map_of pairs ''X-Amz-Date'' of None \<Rightarrow> False
         | Some timestamp \<Rightarrow>
             map_of pairs ''X-Amz-Signature'' = Some (signature secret region (takeWhile (\<lambda>c. c \<noteq> CHR ''T'') timestamp) timestamp meth
               (EscapedPath u) (join ''&'' (map encode_pair unsigned)) (url_Host u)))"

lemma no_unreserved: "\<not> unreserved (CHR ''&'')" "\<not> unreserved (CHR '';'')" "\<not> unreserved (CHR ''='')" "\<not> unreserved (CHR ''+'')" "\<not> unreserved (CHR '' '')"
  by code_simp+

lemma plus20_QueryEscape: "plus20 (QueryEscape v) = escape unreserved v"
proof (induction v)
  case (Cons c v)
  have hex: "upper_hex n \<noteq> CHR ''+''" "upper_hex n \<noteq> CHR '' ''" for n using upper_hex_unreserved [of n] no_unreserved by metis+
  have space: "upper_hex (byte (CHR '' '') div 16) = CHR ''2''" "upper_hex (byte (CHR '' '')) = CHR ''0''" by code_simp+
  have q: "QueryEscape (c # v) = (if unreserved c then [c] else if c = CHR '' '' then ''+''
      else [CHR ''%'', upper_hex (byte c div 16), upper_hex (byte c)]) @ QueryEscape v"
    using no_unreserved(5) hex by (auto simp: QueryEscape_def escape_def)
  have p: "plus20 (a @ b) = plus20 a @ plus20 b" for a b by (simp add: plus20_def)
  have e: "escape unreserved (c # v) = (if unreserved c then [c] else [CHR ''%'', upper_hex (byte c div 16), upper_hex (byte c)]) @ escape unreserved v"
    by (simp add: escape_def)
  show ?case unfolding q p e Cons.IH using hex space no_unreserved by (auto simp: plus20_def)
qed (simp add: plus20_def QueryEscape_def escape_def)

lemma escape_unreserved_set: "c \<in> set (escape unreserved s) \<Longrightarrow> unreserved c \<or> c = CHR ''%''"
  using escape_set by blast

lemma plus20_unescape: "QueryUnescape (escape unreserved v) = Some v"
proof -
  have "c \<noteq> CHR ''+''" if "c \<in> set (escape unreserved v)" for c using escape_unreserved_set [OF that] no_unreserved(4) by auto
  then have "map (\<lambda>c. if c = CHR ''+'' then CHR '' '' else c) (escape unreserved v) = escape unreserved v" by (intro map_idI) auto
  then show ?thesis by (simp add: QueryUnescape_def unescape_escape)
qed

lemma query_pair_encode: "query_pair (encode_pair (k, v)) = Some (k, v)" "CHR ''&'' \<notin> set (encode_pair (k, v))"
proof -
  have e: "encode_pair (k, v) = QueryEscape k @ ''='' @ escape unreserved v" by (simp add: encode_pair_def plus20_QueryEscape)
  have chars: "c \<noteq> CHR ''&''" "c \<noteq> CHR '';''" if "c \<in> set (encode_pair (k, v))" for c
    using that no_unreserved QueryEscape_set [of c k] escape_unreserved_set [of c v] unfolding e by auto
  have "c \<noteq> CHR ''=''" if "c \<in> set (QueryEscape k)" for c using QueryEscape_set [OF that] no_unreserved(3) by auto
  then have cut: "Cut (CHR ''='') (encode_pair (k, v)) = (QueryEscape k, escape unreserved v)"
    unfolding e by (simp add: Cut_def takeWhile_append2 dropWhile_append2)
  have "\<not> has_byte (CHR '';'') (encode_pair (k, v))" using chars(2) unfolding has_byte_def list_ex_iff by metis
  then show "query_pair (encode_pair (k, v)) = Some (k, v)"
    unfolding query_pair_def cut by (simp add: e QueryUnescape_QueryEscape plus20_unescape)
  show "CHR ''&'' \<notin> set (encode_pair (k, v))" using chars(1) by blast
qed

lemma split_on_join: "xs \<noteq> [] \<Longrightarrow> \<forall>x \<in> set xs. d \<notin> set x \<Longrightarrow> split_on d (join [d] xs) = xs"
proof (induction "[d]" xs rule: join.induct)
  case (2 s)
  then show ?case by (simp add: split_on_none)
next
  case (3 s t ss)
  have "split_on d (s @ d # r) = s # split_on d r" if "d \<notin> set s" for s r
    using that by (induction s) auto
  with 3 show ?case by simp
qed simp

text \<open>Reading back what was written.\<close>

lemma query_pairs_encode: "query_pairs (join ''&'' (map encode_pair ps)) = ps"
proof (cases "ps = []")
  case False
  have "split_on (CHR ''&'') (join ''&'' (map encode_pair ps)) = map encode_pair ps"
    by (rule split_on_join) (use False query_pair_encode(2) in auto)
  moreover have "List.map_filter query_pair (map encode_pair ps) = ps"
    using query_pair_encode(1) by (induction ps) (auto simp: List.map_filter_simps)
  ultimately show ?thesis by (simp add: query_pairs_def)
qed (simp add: query_pairs_def query_pair_def List.map_filter_simps)

lemma set_value_of: "map_of (set_value m k v) x = (if x = k then Some [v] else map_of m x)"
proof -
  have "map_of (filter (\<lambda>e. fst e \<noteq> k) m) x = (if x = k then None else map_of m x)" by (induction m) auto
  then show ?thesis by (auto simp: set_value_def map_add_def split: option.splits)
qed

lemma sorted_pairs_without:
  assumes "k \<notin> fst ` set m"
  shows "filter (\<lambda>kv. fst kv \<noteq> k) (sorted_pairs (set_value m k v)) = sorted_pairs m"
proof -
  have fm: "filter (\<lambda>e. fst e \<noteq> k) m = m" using assms by (metis (mono_tags, lifting) filter_True imageI)
  have keys: "filter (\<lambda>x. x \<noteq> k) (sort (map fst (set_value m k v))) = sort (map fst m)"
  proof -
    have "filter (\<lambda>x. x \<noteq> k) (map fst m) = map fst m" using assms by (induction m) auto
    then show ?thesis unfolding filter_sort set_value_def fm by simp
  qed
  let ?vals = "\<lambda>x. sort (case map_of (set_value m k v) x of Some vs \<Rightarrow> vs | None \<Rightarrow> [])"
  have "filter (\<lambda>kv. fst kv \<noteq> k) (concat (map (\<lambda>x. map (Pair x) (?vals x)) ks)) =
      concat (map (\<lambda>x. map (Pair x) (?vals x)) (filter (\<lambda>x. x \<noteq> k) ks))" for ks
    by (induction ks) (auto simp: filter_map comp_def filter_empty_conv)
  then have "filter (\<lambda>kv. fst kv \<noteq> k) (sorted_pairs (set_value m k v)) = concat (map (\<lambda>x. map (Pair x) (?vals x)) (sort (map fst m)))"
    by (simp add: sorted_pairs_def keys)
  also have "\<dots> = sorted_pairs m"
    unfolding sorted_pairs_def using assms by (intro arg_cong [of _ _ concat] map_cong) (auto simp: set_value_of)
  finally show ?thesis .
qed

lemma sorted_pairs_of: "map_of m k = Some [v] \<Longrightarrow> map_of (sorted_pairs m) k = Some v"
proof -
  assume m: "map_of m k = Some [v]"
  let ?vals = "\<lambda>x. sort (case map_of m x of Some vs \<Rightarrow> vs | None \<Rightarrow> [])"
  have none: "x \<noteq> k \<Longrightarrow> map_of (map (Pair x) vs) k = None" for x and vs :: "string list" by (induction vs) auto
  have "k \<in> set ks \<Longrightarrow> map_of (concat (map (\<lambda>x. map (Pair x) (?vals x)) ks)) k = Some v" for ks
  proof (induction ks)
    case (Cons x ks)
    show ?case
    proof (cases "x = k")
      case True
      then show ?thesis by (simp add: m)
    next
      case False
      with Cons show ?thesis by (simp add: none map_add_def)
    qed
  qed simp
  moreover have "k \<in> set (sort (map fst m))" using m map_of_SomeD [of m k] by force
  ultimately show "map_of (sorted_pairs m) k = Some v" by (simp only: sorted_pairs_def)
qed

lemma digit_not_T: "\<not> is_digit (CHR ''T'')"
  by code_simp

lemma date_no_T: "CHR ''T'' \<notin> set (date_text now)"
proof -
  have "CHR ''T'' \<notin> set (padded w n)" for w n
    using dec_nat_digits digit_not_T by (auto simp: padded_def Itoa_def Let_def)
  then show ?thesis by (simp add: date_text_def split_beta Let_def)
qed

lemma timestamp_date: "takeWhile (\<lambda>c. c \<noteq> CHR ''T'') (timestamp_text now) = date_text now"
proof -
  have "\<forall>c \<in> set (date_text now). c \<noteq> CHR ''T''" using date_no_T by metis
  then show ?thesis by (simp add: timestamp_text_def Let_def takeWhile_append2)
qed

lemma url_Query_empty: "url_RawQuery u = [] \<Longrightarrow> url_Query u = []"
  by (simp add: url_Query_def query_pairs_def query_pair_def List.map_filter_simps)

lemma set_value_keys: "fst ` set (set_value m k v) \<subseteq> insert k (fst ` set m)"
  by (auto simp: set_value_def)

text \<open>Of a signed URL the store computes the same signature, and the parameters are as they were set.\<close>

lemma sign_url_accepted:
  assumes "''X-Amz-Signature'' \<notin> fst ` set query" and u0: "u = sign_url config ttl now meth endpoint query"
  shows "store_accepts (sc_SecretKey config) (if sc_Region config = [] then ''us-east-1'' else sc_Region config) meth u"
    and "map_of (query_pairs (url_RawQuery u)) ''X-Amz-Expires'' = Some ttl"
    and "url_Path u = url_Path endpoint" "url_Host u = url_Host endpoint" "url_Scheme u = url_Scheme endpoint"
proof -
  define region where "region = (if sc_Region config = [] then ''us-east-1'' else sc_Region config)"
  define vals where "vals = signed_values config region now ttl query"
  define sig where "sig = signature (sc_SecretKey config) region (date_text now) (timestamp_text now) meth (EscapedPath endpoint) (encodeQuery vals) (url_Host endpoint)"
  have u: "u = endpoint\<lparr>url_RawQuery := encodeQuery (set_value vals ''X-Amz-Signature'' sig)\<rparr>"
    by (simp add: u0 sign_url_def region_def [symmetric] vals_def [symmetric] sig_def [symmetric] Let_def)
  have fresh: "''X-Amz-Signature'' \<notin> fst ` set vals"
    using assms(1) unfolding vals_def signed_values_def by (auto simp: set_value_def)
  have pairs: "query_pairs (url_RawQuery u) = sorted_pairs (set_value vals ''X-Amz-Signature'' sig)"
    by (simp add: u encodeQuery_def query_pairs_encode)
  have value_of: "map_of (query_pairs (url_RawQuery u)) k = Some v" if "map_of (set_value vals ''X-Amz-Signature'' sig) k = Some [v]" for k v
    unfolding pairs by (rule sorted_pairs_of [OF that])
  show "map_of (query_pairs (url_RawQuery u)) ''X-Amz-Expires'' = Some ttl"
    by (rule value_of) (simp add: set_value_of vals_def signed_values_def)
  have "map_of (query_pairs (url_RawQuery u)) ''X-Amz-Date'' = Some (timestamp_text now)"
    by (rule value_of) (simp add: set_value_of vals_def signed_values_def)
  moreover have "map_of (query_pairs (url_RawQuery u)) ''X-Amz-Signature'' = Some sig"
    by (rule value_of) (simp add: set_value_of)
  moreover have "join ''&'' (map encode_pair (filter (\<lambda>kv. fst kv \<noteq> ''X-Amz-Signature'') (query_pairs (url_RawQuery u)))) = encodeQuery vals"
    unfolding pairs sorted_pairs_without [OF fresh] encodeQuery_def ..
  moreover have "EscapedPath u = EscapedPath endpoint" "url_Host u = url_Host endpoint" by (simp_all add: u EscapedPath_def)
  ultimately show "store_accepts (sc_SecretKey config) (if sc_Region config = [] then ''us-east-1'' else sc_Region config) meth u"
    unfolding store_accepts_def region_def [symmetric] by (simp add: timestamp_date sig_def Let_def)
  show "url_Path u = url_Path endpoint" "url_Host u = url_Host endpoint" "url_Scheme u = url_Scheme endpoint" by (simp_all add: u)
qed

subsection \<open>What a plain user reaches\<close>

text \<open>The requests of the three reads: at most one, a signed \<open>GET\<close> of the path the bucket and the key give.\<close>

lemma browser_get_sent:
  assumes "u \<in> set (fst (browser_get config os now rawPath query))"
  shows "url_Path u = rawPath" and "fst (browser_get config os now rawPath query) = [u]"
proof -
  have s: "url_Path (sign_url c ttl n meth e q) = url_Path e" for c ttl n meth q and e :: URL
    by (simp add: sign_url_def Let_def)
  show "url_Path u = rawPath" "fst (browser_get config os now rawPath query) = [u]"
    using assms by (auto simp: browser_get_def signedURL_def s split: sum.splits option.splits if_splits)
qed

lemma proxy_read_sent:
  assumes "u \<in> set (fst (proxy_read config os token now authorization path query))"
  shows "internal_caller token authorization"
    and "if path = ''/buckets'' then url_Path u = ''/''
      else query_get query ''bucket'' \<noteq> [] \<and>
        (if path = ''/objects'' then url_Path u = ''/'' @ query_get query ''bucket''
         else url_Path u = ''/'' @ query_get query ''bucket'' @ ''/'' @ query_get query ''key'' \<and> \<not> Contains (query_get query ''key'') ''..'')"
  using assms browser_get_sent(1)
  by (fastforce simp: proxy_read_def storage_reply_def ListBuckets_def ListObjects_def PreviewObject_def Let_def split_beta split: if_splits)+

subsection \<open>What a presigned URL names\<close>

lemma join_split: "join [d] (split_on d s) = s"
proof (induction s)
  case (Cons c s)
  obtain x xs where x: "split_on d s = x # xs" by (cases "split_on d s") (auto elim: split_on.elims split: if_splits list.splits)
  with Cons show ?case by (cases xs) auto
qed simp

definition plain_segment :: "string \<Rightarrow> bool" where
  "plain_segment s \<longleftrightarrow> s \<noteq> [] \<and> s \<noteq> ''.'' \<and> s \<noteq> ''..''"

lemma clean_plain: "list_all plain_segment segs \<Longrightarrow> foldl clean_step stack segs = stack @ segs"
  by (induction segs arbitrary: stack) (simp_all add: clean_step_def plain_segment_def)

lemma join_root_plain:
  assumes "base = [] \<or> base = ''/''" and "plain_segment bucket" "\<not> has_byte (CHR ''/'') bucket" "list_all plain_segment (split_on (CHR ''/'') key)"
  shows "join_root [base, bucket, key] = ''/'' @ bucket @ ''/'' @ key"
proof -
  have b: "split_on (CHR ''/'') bucket = [bucket]" using assms(3) by (intro split_on_none) (simp add: has_byte_def list_ex_iff)
  have "foldl clean_step [] (concat (map (split_on (CHR ''/'')) [base, bucket, key])) = bucket # split_on (CHR ''/'') key"
    using assms(1) clean_plain [of "bucket # split_on (CHR ''/'') key" "[]"] assms(2,4) by (auto simp: b clean_step_def)
  moreover have "split_on (CHR ''/'') key \<noteq> []" by (cases key) (auto split: list.splits)
  ultimately show ?thesis unfolding join_root_def
    using join_split [of "CHR ''/''" key] by (cases "split_on (CHR ''/'') key") auto
qed

text \<open>Signed is only what was checked: the method, the validity, the place, and a signature the store accepts.\<close>

lemma Presign_signed:
  assumes "Presign config request now = Inl u"
  obtains endpoint ttl where "url_Parse (sc_Endpoint config) = Some endpoint"
    and "u = sign_url config (Itoa ttl) now (upper_operation (sr_Operation request))
      (endpoint\<lparr>url_Path := join_root [url_Path endpoint, sr_Bucket request, sr_Key request]\<rparr>) (url_Query endpoint)"
    and "upper_operation (sr_Operation request) \<in> {''GET'', ''PUT''}" and "1 \<le> ttl" "ttl \<le> 900"
    and "0 < sr_TTLSeconds request \<Longrightarrow> ttl = sr_TTLSeconds request" "sr_TTLSeconds request \<le> 0 \<Longrightarrow> ttl = 300"
    and "sr_Bucket request \<noteq> []" "\<not> has_byte (CHR ''/'') (sr_Bucket request)" "\<not> Contains (sr_Key request) ''..''"
  using assms by (auto simp: Presign_def Let_def split: if_splits option.splits intro: that)

end
