(* ===== verification/Cluster_Examples.thy ===== *)
theory Cluster_Examples
  imports Backend_Examples Provisioning Clients Sessions Features Storage
begin

text \<open>
  Concrete inputs for the integration worker, the operator and the clients: a grant with a
  notebook and an IDE, and the JSON coding of the one command it gives rise to.
\<close>

definition ex_ws_request :: UpsertUserAccessRequest where
  "ex_ws_request = \<lparr>uar_Email = [], uar_Role = ''user'', uar_Services = [''workbench'', ''ide''], uar_ProjectIDs = [],
     uar_Storage = \<lparr>sg_SizeGB = 20, sg_Buckets = []\<rparr>,
     uar_Compute = zero_ComputeGrant\<lparr>cg_Profile := ''custom'', cg_VCPUs := 3, cg_MemoryGB := 8, cg_GPUs := 1\<rparr>, uar_Disabled = False\<rparr>"

definition ex_ws_access :: UserAccess where
  "ex_ws_access = (fst (validateAccess ''ana'' ex_ws_request))\<lparr>ua_UpdatedAt := 6, ua_CreatedAt := 6\<rparr>"

definition ex_ws_command :: command where
  "ex_ws_command = \<lparr>cmd_ID = ''ana'', cmd_Kind = ''user_access'', cmd_Action = ''access.upserted'', cmd_Resource = ''grant'',
     cmd_Actor = ''root'', cmd_Tenant = ''acme'', cmd_OccurredAt = 6\<rparr>"

definition ex_ws_pg :: pgenv where
  "ex_ws_pg = ex_pg\<lparr>c_access := ex_codec [(''grant'', ex_ws_access)] zero_UserAccess,
     enc_command := (\<lambda>c. if c = ex_ws_command then Some ''command'' else None)\<rparr>"

definition ex_ws_json :: dispatch_json where
  "ex_ws_json = \<lparr>dj_command = (\<lambda>s. if s = ''command'' then Some \<lparr>lc_ID = ''ana'', lc_Kind = ''user_access'', lc_Action = ''access.upserted'',
       lc_Resource = ''grant'', lc_Tenant = ''acme''\<rparr> else None),
     dj_resource = (\<lambda>s. if s = ''grant'' then Some (access_json (''t'', ''t'') ex_ws_access) else None), dj_outside = (\<lambda>_. 0)\<rparr>"

lemma ex_ws_carried: "carried ex_ws_pg ex_ws_json (\<lambda>s. s) (''t'', ''t'')"
  by (auto simp: carried_def ex_ws_pg_def ex_ws_json_def ex_codec_def ex_ws_command_def split: if_splits)

lemma ex_ws_values: "snd (validateAccess ''ana'' ex_ws_request) = None" "small_grant ex_ws_access"
  "positive_spec (granted_spec ex_ws_access)" "\<not> ua_Disabled ex_ws_access" "ua_Services ex_ws_access = [''workbench'', ''ide'']"
  by code_simp+

lemma ex_ws_upserted:
  "\<exists>d'. run_prog (Pg_UpsertUserAccess ex_ws_pg ''ana'' ex_ws_request ''root'') empty_db = (d', (ex_ws_access, None))"
proof -
  have v: "validateAccess ''ana'' ex_ws_request = (fst (validateAccess ''ana'' ex_ws_request), None)"
    using ex_ws_values(1) by (metis prod.collapse)
  have env: "pclk ex_ws_pg 0 = 6" "pclk ex_ws_pg (Suc (Suc 0)) = 6" "pclk ex_ws_pg (Suc (Suc (Suc 0))) = 5" "pclk ex_ws_pg 4 = 6" "pg_err ex_ws_pg k = None" "pg_tenant ex_ws_pg = ''acme''" "enc_event ex_ws_pg e = Some ''event''"
    "enc (c_access ex_ws_pg) ex_ws_access = Some ''grant''" 
    "enc_command ex_ws_pg \<lparr>cmd_ID = ''ana'', cmd_Kind = ''user_access'', cmd_Action = ''access.upserted'', cmd_Resource = ''grant'',
      cmd_Actor = ''root'', cmd_Tenant = ''acme'', cmd_OccurredAt = 6\<rparr> = Some ''command''" for k e
    by (simp_all add: ex_ws_pg_def ex_pg_def ex_codec_def ex_ws_command_def)
  have a: "(fst (validateAccess ''ana'' ex_ws_request))\<lparr>ua_UpdatedAt := 6, ua_CreatedAt := 6\<rparr> = ex_ws_access" by (simp add: ex_ws_access_def)
  have "actorOrAnonymous ''root'' = ''root''" by code_simp
  then show ?thesis
    by (subst Pg_UpsertUserAccess_def, subst v)
      (simp add: env Let_def Pg_get_def row_of_def kind_rows_def empty_db_def row_value_def Pg_put_def Pg_write_def a
        transaction_def write_body_def statement_def insert_audit_def insert_outbox_def upsert_resource_def topicForAction_def HasPrefix_def pg_event_def ex_ids)
qed

text \<open>The record of this command, in a cluster without the workspace and in one that has it.\<close>

definition ex_ws_record :: KafkaRecord where
  "ex_ws_record = \<lparr>kr_Topic = ''mlaiops.workspace.commands'', kr_Key = [], kr_Value = ''command''\<rparr>"

definition ex_absent :: kube_answers where
  "ex_absent = \<lparr>ka_get = Inr KubeNotFound, ka_create = None, ka_update = None, ka_delete = None\<rparr>"

definition ex_again :: kube_answers where
  "ex_again = ex_absent\<lparr>ka_get := Inl []\<rparr>"

lemma ex_ws_dispatched:
  "\<exists>obj. cr_Name obj = ''workspace-ana'' \<and> cr_ResourceVersion obj = [] \<and>
     fst (Dispatch ex_ws_json ''default'' ex_absent ex_ws_record) = [KubeGet ''nexusworkspaces'' ''workspace-ana'', KubeCreate ''nexusworkspaces'' obj] \<and>
     fst (Dispatch ex_ws_json ''default'' ex_again ex_ws_record) = [KubeGet ''nexusworkspaces'' ''workspace-ana'', KubeUpdate ''nexusworkspaces'' obj] \<and>
     ka_get ex_absent = Inr KubeNotFound \<and> ka_get ex_again = Inl [] \<and> ka_create ex_absent = None \<and> ka_update ex_again = None"
proof -
  have name: "dnsName ''workspace-ana'' ''ana'' = ''workspace-ana''" by code_simp
  show ?thesis
    by (simp add: Dispatch_def ex_ws_record_def ex_ws_json_def lifecycle_target_def lifecycle_object_def apply_object_def ex_absent_def ex_again_def
        Let_def name)
qed

text \<open>A pipeline run whose first submission is refused.\<close>

definition ex_kube_run :: NexusPipelineRun where
  "ex_kube_run = \<lparr>npr_Name = ''train'', npr_PipelineRef = ''train'', npr_Parameters = [], npr_Phase = [], npr_WorkflowRef = [],
     npr_StartedAt = None, npr_Message = []\<rparr>"

definition ex_submission_taken :: pipeline_answers where
  "ex_submission_taken = \<lparr>pa_get = Inl ex_kube_run, pa_now = 7, pa_submit = Inl [(''run_id'', AnyStr ''k1'')], pa_error_text = (\<lambda>_. []),
     pa_first = None, pa_failed = None, pa_status = None\<rparr>"

definition ex_submission_refused :: pipeline_answers where
  "ex_submission_refused = ex_submission_taken\<lparr>pa_submit := Inr (Err ''down'')\<rparr>"

text \<open>A network without an answer.\<close>

definition ex_web :: web where
  "ex_web = \<lparr>web_do = (\<lambda>_. Inr (Err ''timeout'')), web_marshal = (\<lambda>_. Some ''{}''), web_decode = (\<lambda>_. None)\<rparr>"

lemma ex_invocation: "\<exists>rq. fst (Invoke ex_web (NewOpenFaaS ''http://faas/'' ''u'' ''p'') ''../system?x'' ''{}'') = [rq]"
proof -
  have "cl_BaseURL (of_client (NewOpenFaaS ''http://faas/'' ''u'' ''p'')) = ''http://faas''" by code_simp
  moreover have "url_Parse (''http://faas'' @ ''/function/'' @ PathEscape ''../system?x'') \<noteq> None" by code_simp
  ultimately show ?thesis by (simp add: Invoke_def OpenFaaS_request_def Let_def)
qed

text \<open>A browser that logs in through the identity provider from a page of the console.\<close>

definition ex_session_config :: SessionConfig where
  "ex_session_config = \<lparr>sf_ClientID = ''nexus'', sf_ClientSecret = ''s'', sf_AuthURL = ''https://idp/auth'', sf_TokenURL = ''https://idp/token'',
     sf_RedirectURL = ''https://nexus/auth/callback'', sf_Secure = True\<rparr>"

definition ex_session_env :: session_env where
  "ex_session_env = \<lparr>se_rand = Some ''abc'', se_auth_url = (\<lambda>s. ''https://idp/auth?state='' @ s),
     se_exchange = (\<lambda>c. if c = ''code1'' then Some (AnyStr ''jwt'') else None),
     se_verify = (\<lambda>t. if t = ''jwt'' then (zero_Principal\<lparr>pr_Subject := ''ana''\<rparr>, None) else (zero_Principal, Some (Err ''bad'')))\<rparr>"

definition ex_page :: string where
  "ex_page = ''/console.html?view=runs''"

definition ex_callback_query :: string where
  "ex_callback_query = ''state=YWJj&code=code1''"

lemma ex_session_values: "safeReturnTo ex_page = ex_page" "list_all cookie_byte ex_page" "RawURLEncoding ''abc'' = ''YWJj''"
  "query_get ex_callback_query ''state'' = ''YWJj''" "query_get ex_callback_query ''error'' = []" "query_get ex_callback_query ''code'' = ''code1''"
  by code_simp+

definition ex_page_request :: request where
  "ex_page_request = \<lparr>rq_Method = ''GET'', rq_Path = ''/console.html'', rq_URI = ex_page, rq_Authorization = [], rq_Session = Some ''jwt''\<rparr>"

lemma ex_page_private: "\<not> publicPath (rq_Method ex_page_request) (rq_Path ex_page_request)" "bearer ex_page_request = []"
  "rq_Session ex_page_request = Some ''jwt''" "filter cookie_byte ''jwt'' = ''jwt''"
  by code_simp+

text \<open>An object store, and a user with one bucket.\<close>

definition ex_storage :: storage_config where
  "ex_storage = \<lparr>sc_Endpoint = ''http://minio:9000'', sc_Region = [], sc_AccessKey = ''key'', sc_SecretKey = ''secret''\<rparr>"

definition ex_endpoint :: URL where
  "ex_endpoint = the (url_Parse ''http://minio:9000'')"

lemma ex_storage_endpoint: "url_Parse (sc_Endpoint ex_storage) = Some ex_endpoint" "url_RawQuery ex_endpoint = []" "url_Path ex_endpoint \<in> {[], ''/''}"
  by code_simp+

definition ex_object :: storage_request where
  "ex_object = \<lparr>sr_Bucket = ''data'', sr_Key = ''a/b.csv'', sr_Operation = ''get'', sr_TTLSeconds = 0\<rparr>"

lemma ex_object_plain: "plain_segment (sr_Bucket ex_object)" "list_all plain_segment (split_on (CHR ''/'') (sr_Key ex_object))"
  "upper_operation (sr_Operation ex_object) = ''GET''" "sr_Bucket ex_object = ''data''" "sr_Key ex_object = ''a/b.csv''"
  by code_simp+

lemma ex_presigned: "\<exists>u. Presign ex_storage ex_object 0 = Inl u"
proof -
  have "\<not> has_byte (CHR ''/'') (sr_Bucket ex_object)" "\<not> Contains (sr_Key ex_object) ''..''" by code_simp+
  then show ?thesis using ex_storage_endpoint(1) ex_object_plain by (simp add: Presign_def ex_storage_def Let_def) (simp add: ex_object_def)
qed

definition ex_objects :: object_store where
  "ex_objects = \<lparr>os_do = (\<lambda>_. Inl \<lparr>or_StatusCode = 200, or_Status = ''200 OK'', or_Body = ''<xml/>'', or_ContentType = ''application/xml'', or_ContentLength = 6\<rparr>),
     os_buckets = (\<lambda>_. Some []), os_objects = (\<lambda>_. Some ([], []))\<rparr>"

definition ex_storage_user :: UserAccess where
  "ex_storage_user = ex_ws_access\<lparr>ua_Storage := \<lparr>sg_SizeGB = 20, sg_Buckets = [''data'']\<rparr>\<rparr>"

definition ex_storage_view :: repository_view where
  "ex_storage_view = (store_view ex_store)\<lparr>rv_AccessFor := (\<lambda>_. (ex_storage_user, None))\<rparr>"

lemma ex_storage_access: "rv_AccessFor ex_storage_view (pr_Subject ex_user) = (ex_storage_user, None)"
  by (simp add: ex_storage_view_def)

lemma ex_storage_grant: "sg_Buckets (ua_Storage ex_storage_user) = [''data'']" "sg_SizeGB (ua_Storage ex_storage_user) = 20"
  by (simp_all add: ex_storage_user_def)

lemma ex_storage_asked:
  "\<exists>u st body. storageProxy ex_storage ex_objects ''tok'' True 0 ex_storage_view ex_user ''/objects'' ''bucket=data'' = ([u], st, body)"
proof -
  have q: "query_get ''bucket=data'' ''bucket'' = ''data''" "\<not> has_byte (CHR ''/'') ''data''" by code_simp+
  have "storageAllowed ex_storage_view ex_user ''data''" by (simp add: storageAllowed_def ex_storage_access [simplified] ex_storage_grant)
  then show ?thesis
    using ex_storage_endpoint(1) by (simp add: storageProxy_def q proxy_read_def internal_caller_def ListObjects_def browser_get_def signedURL_def
      ex_storage_def storage_reply_def Let_def split_beta)
qed

text \<open>A Redis server that keeps one document.\<close>

definition ex_features :: "gany gomap" where
  "ex_features = [(''clicks'', AnyInt 3)]"

definition ex_redis :: RedisStore where
  "ex_redis = \<lparr>rd_data = Map.empty, rd_marshal = (\<lambda>v. if v = ex_features then Some ''doc'' else None),
     rd_unmarshal = (\<lambda>raw. if raw = ''doc'' then Some ex_features else None), rd_reachable = True\<rparr>"

lemma ex_redis_storable: "redis_storable ex_redis ex_features"
  by (simp add: redis_storable_def ex_redis_def)

end
