(* ===== verification/Serving.thy ===== *)
theory Serving
  imports Clients Gateway
begin

text \<open>
  Model serving: \<^verbatim>\<open>go/internal/serving/manager.go\<close>, the handlers of
  \<^verbatim>\<open>go/cmd/serving-manager/main.go\<close>, and the gateway's calls of them (\<open>requestServing\<close>, the
  undeployment of \<open>rollbackModel\<close>).

  The Docker engine is the parameter \<open>en_do\<close>, a state machine over HTTP requests, with the
  decoders of its answers. What the manager relies on is the predicate \<open>docker_serves\<close>: the
  documented effect of its answers on the containers, by name.
\<close>

subsection \<open>The manager\<close>

record Manager =
  mg_APIVersion :: string
  mg_BaseURL :: string
  mg_SocketPath :: string
  mg_Image :: string
  mg_Network :: string
  mg_Env :: "string list"
  mg_Port :: int

record serving_deployment =
  sd_Name :: string
  sd_ArtifactURI :: string
  sd_Endpoint :: string
  sd_State :: string

definition NewManager :: "string \<Rightarrow> string \<Rightarrow> string list \<Rightarrow> Manager" where
  "NewManager img network env1 = \<lparr>mg_APIVersion = [], mg_BaseURL = [], mg_SocketPath = ''/var/run/docker.sock'', mg_Image = img,
     mg_Network = network, mg_Env = env1, mg_Port = 5001\<rparr>"

text \<open>The configuration of \<^verbatim>\<open>cmd/serving-manager\<close> from the environment, where an unset variable is empty.\<close>

definition getenv :: "(string \<Rightarrow> string) \<Rightarrow> string \<Rightarrow> string \<Rightarrow> string" where
  "getenv os key fallback = (if os key \<noteq> [] then os key else fallback)"

definition configured_manager :: "(string \<Rightarrow> string) \<Rightarrow> Manager" where
  "configured_manager os =
     (let env1 = List.map_filter (\<lambda>key. if os key \<noteq> [] then Some (key @ ''='' @ os key) else None)
            [''MLFLOW_TRACKING_URI'', ''MLFLOW_S3_ENDPOINT_URL'', ''AWS_ACCESS_KEY_ID'', ''AWS_SECRET_ACCESS_KEY''];
          m = NewManager (getenv os ''SERVE_IMAGE'' ''mlaiops-mlflow'') (getenv os ''PLATFORM_NETWORK'' ''mlaiops_default'') env1
      in m\<lparr>mg_SocketPath := getenv os ''DOCKER_SOCKET'' (mg_SocketPath m), mg_BaseURL := getenv os ''DOCKER_HOST_URL'' (mg_BaseURL m),
           mg_APIVersion := os ''DOCKER_API_VERSION''\<rparr>)"

record 'd engine =
  en_do :: "'d \<Rightarrow> http_request \<Rightarrow> 'd \<times> (http_response + error)"
  en_marshal :: "gany \<Rightarrow> string option"
  en_created :: "string \<Rightarrow> string option"
  en_listed :: "string \<Rightarrow> (string gomap \<times> string) list option"

text \<open>\<open>do\<close>: the status, and the body when it is there to be decoded. The status is 0 without an answer.\<close>

definition docker_base :: "Manager \<Rightarrow> string" where
  "docker_base m = (if mg_BaseURL m = [] then ''http://docker'' else mg_BaseURL m) @ (if mg_APIVersion m \<noteq> [] then ''/'' @ mg_APIVersion m else [])"

definition docker_request :: "Manager \<Rightarrow> string \<Rightarrow> string \<Rightarrow> string option \<Rightarrow> http_request" where
  "docker_request m meth path body = \<lparr>hq_Method = meth, hq_URL = docker_base m @ path,
     hq_Headers = (if body \<noteq> None then [(''Content-Type'', ''application/json'')] else []), hq_BasicAuth = None, hq_Body = body\<rparr>"

definition read_limit :: nat where
  "read_limit = 1048576"

definition docker_do :: "Manager \<Rightarrow> 'd engine \<Rightarrow> 'd \<Rightarrow> string \<Rightarrow> string \<Rightarrow> gany option \<Rightarrow> 'd \<times> int \<times> (string option + error)" where
  "docker_do m e d meth path input =
     (case (case input of None \<Rightarrow> Some None | Some v \<Rightarrow> map_option Some (en_marshal e v)) of
        None \<Rightarrow> (d, 0, Inr ErrJSON)
      | Some body \<Rightarrow>
          if url_Parse (docker_base m @ path) = None then (d, 0, Inr (Err ''invalid URL''))
          else case en_do e d (docker_request m meth path body) of
            (d', Inr err) \<Rightarrow> (d', 0, Inr (Err ''docker engine unreachable''))
          | (d', Inl response) \<Rightarrow>
              (let raw = take read_limit (hr_Body response) in
               (d', hr_Status response,
                if 400 \<le> hr_Status response \<and> hr_Status response \<noteq> 404
                  then Inr (Err (''docker engine returned '' @ hr_StatusText response @ '': '' @ TrimSpace raw))
                else if raw \<noteq> [] \<and> hr_Status response < 300 then Inl (Some raw) else Inl None)))"

definition containerName :: "string \<Rightarrow> string" where
  "containerName deployment = ''mlaiops-serve-'' @ deployment"

definition remove_path :: "string \<Rightarrow> string" where
  "remove_path container = ''/containers/'' @ PathEscape container @ ''?force=true''"

definition create_path :: "string \<Rightarrow> string" where
  "create_path container = ''/containers/create?name='' @ QueryEscape container"

definition start_path :: "string \<Rightarrow> string" where
  "start_path ident = ''/containers/'' @ ident @ ''/start''"

definition list_path :: string where
  "list_path = ''/containers/json?all=true&filters='' @ QueryEscape ''{\"label\":[\"mlaiops.serving=true\"]}''"

definition Undeploy :: "Manager \<Rightarrow> 'd engine \<Rightarrow> 'd \<Rightarrow> string \<Rightarrow> 'd \<times> error option" where
  "Undeploy m e d name =
     (case docker_do m e d ''DELETE'' (remove_path (containerName name)) None of
        (d', status, r) \<Rightarrow> (d', if status = 404 then None else (case r of Inl _ \<Rightarrow> None | Inr err \<Rightarrow> Some err)))"

definition serving_labels :: "string \<Rightarrow> string \<Rightarrow> string gomap" where
  "serving_labels name artifactURI = [(''mlaiops.serving'', ''true''), (''mlaiops.model'', name), (''mlaiops.artifact'', artifactURI)]"

definition serving_container :: "Manager \<Rightarrow> string \<Rightarrow> string \<Rightarrow> gany" where
  "serving_container m name artifactURI = AnyMap [(''Image'', AnyStr (mg_Image m)),
     (''Cmd'', AnyList (map AnyStr [''mlflow'', ''models'', ''serve'', ''-m'', artifactURI, ''-h'', ''0.0.0.0'', ''-p'', Itoa (mg_Port m), ''--env-manager'', ''local''])),
     (''Env'', AnyList (map AnyStr (mg_Env m))),
     (''Labels'', AnyMap (map (\<lambda>(k, v). (k, AnyStr v)) (serving_labels name artifactURI))),
     (''HostConfig'', AnyMap [(''NetworkMode'', AnyStr (mg_Network m)), (''RestartPolicy'', AnyMap [(''Name'', AnyStr ''unless-stopped'')])])]"

definition serving_endpoint :: "Manager \<Rightarrow> string \<Rightarrow> string" where
  "serving_endpoint m name = ''http://'' @ containerName name @ '':'' @ Itoa (mg_Port m)"

definition Deploy :: "Manager \<Rightarrow> 'd engine \<Rightarrow> 'd \<Rightarrow> string \<Rightarrow> string \<Rightarrow> 'd \<times> (string + error)" where
  "Deploy m e d name artifactURI =
     (if name = [] \<or> artifactURI = [] then (d, Inr (Err ''name and artifact_uri are required''))
      else if mg_Image m = [] then (d, Inr (Err ''serving image is not configured''))
      else let d1 = fst (Undeploy m e d name) in
      case docker_do m e d1 ''POST'' (create_path (containerName name)) (Some (serving_container m name artifactURI)) of
        (d2, _, Inr err) \<Rightarrow> (d2, Inr err)
      | (d2, _, Inl out) \<Rightarrow>
          (case (case out of None \<Rightarrow> Some [] | Some raw \<Rightarrow> en_created e raw) of
             None \<Rightarrow> (d2, Inr ErrJSON)
           | Some ident \<Rightarrow>
               (case docker_do m e d2 ''POST'' (start_path ident) None of
                  (d3, _, Inr err) \<Rightarrow> (d3, Inr err)
                | (d3, _, Inl _) \<Rightarrow> (d3, Inl (serving_endpoint m name)))))"

definition label_of :: "string gomap \<Rightarrow> string \<Rightarrow> string" where
  "label_of labels k = (case map_of labels k of Some v \<Rightarrow> v | None \<Rightarrow> [])"

definition deployment_of_container :: "Manager \<Rightarrow> string gomap \<times> string \<Rightarrow> serving_deployment" where
  "deployment_of_container m c = (let name = label_of (fst c) ''mlaiops.model'' in
     \<lparr>sd_Name = name, sd_ArtifactURI = label_of (fst c) ''mlaiops.artifact'', sd_Endpoint = serving_endpoint m name, sd_State = snd c\<rparr>)"

definition List_deployments :: "Manager \<Rightarrow> 'd engine \<Rightarrow> 'd \<Rightarrow> 'd \<times> (serving_deployment list + error)" where
  "List_deployments m e d =
     (case docker_do m e d ''GET'' list_path None of
        (d', _, Inr err) \<Rightarrow> (d', Inr err)
      | (d', _, Inl None) \<Rightarrow> (d', Inl [])
      | (d', _, Inl (Some raw)) \<Rightarrow>
          (d', case en_listed e raw of None \<Rightarrow> Inr ErrJSON | Some cs \<Rightarrow> Inl (map (deployment_of_container m) cs)))"

subsection \<open>The serving manager's handlers\<close>

definition serving_authorized :: "string \<Rightarrow> string \<Rightarrow> bool" where
  "serving_authorized token authorization \<longleftrightarrow> token = [] \<or> TrimPrefix authorization ''Bearer '' = token"

definition h_deployments :: "Manager \<Rightarrow> 'd engine \<Rightarrow> 'd \<Rightarrow> string \<Rightarrow> string \<Rightarrow> 'd \<times> int \<times> serving_deployment list" where
  "h_deployments m e d token authorization =
     (if \<not> serving_authorized token authorization then (d, 401, [])
      else case List_deployments m e d of (d', Inr _) \<Rightarrow> (d', 502, []) | (d', Inl ds) \<Rightarrow> (d', 200, ds))"

text \<open>The body is the name and the artifact, \<open>None\<close> when it cannot be decoded; the answer carries the endpoint.\<close>

definition h_deploy :: "Manager \<Rightarrow> 'd engine \<Rightarrow> 'd \<Rightarrow> string \<Rightarrow> string \<Rightarrow> (string \<times> string) option \<Rightarrow> 'd \<times> int \<times> string" where
  "h_deploy m e d token authorization body =
     (if \<not> serving_authorized token authorization then (d, 401, [])
      else case body of None \<Rightarrow> (d, 400, [])
      | Some (name, artifactURI) \<Rightarrow>
          (case Deploy m e d name artifactURI of (d', Inr _) \<Rightarrow> (d', 422, []) | (d', Inl endpoint) \<Rightarrow> (d', 201, endpoint)))"

definition h_undeploy :: "Manager \<Rightarrow> 'd engine \<Rightarrow> 'd \<Rightarrow> string \<Rightarrow> string \<Rightarrow> string \<Rightarrow> 'd \<times> int" where
  "h_undeploy m e d token authorization name =
     (if \<not> serving_authorized token authorization then (d, 401)
      else case Undeploy m e d name of (d', Some _) \<Rightarrow> (d', 502) | (d', None) \<Rightarrow> (d', 204))"

subsection \<open>The gateway's calls\<close>

definition internal_headers :: "string \<Rightarrow> string gomap" where
  "internal_headers token = (if token \<noteq> [] then [(''Authorization'', ''Bearer '' @ token)] else [])"

definition endpoint_field :: "gany \<Rightarrow> string option" where
  "endpoint_field v = (case v of
      AnyMap m \<Rightarrow> (case map_of m ''endpoint'' of None \<Rightarrow> Some [] | Some AnyNil \<Rightarrow> Some [] | Some (AnyStr s) \<Rightarrow> Some s | _ \<Rightarrow> None)
    | AnyNil \<Rightarrow> Some [] | _ \<Rightarrow> None)"

definition requestServing :: "web \<Rightarrow> string \<Rightarrow> string \<Rightarrow> Model \<Rightarrow> http_request list \<times> (string + error)" where
  "requestServing w token managerURL model =
     (let body = (case web_marshal w (AnyMap [(''name'', AnyStr (mdl_Name model)), (''artifact_uri'', AnyStr (mdl_ArtifactURI model))]) of
            Some raw \<Rightarrow> raw | None \<Rightarrow> []);
          target = TrimRightByte (CHR ''/'') managerURL @ ''/deployments'' in
      if url_Parse target = None then ([], Inr (Err ''invalid URL''))
      else let rq = \<lparr>hq_Method = ''POST'', hq_URL = target, hq_Headers = (''Content-Type'', ''application/json'') # internal_headers token,
                 hq_BasicAuth = None, hq_Body = Some body\<rparr>
      in ([rq], case web_do w rq of Inr err \<Rightarrow> Inr err
          | Inl response \<Rightarrow>
              if 300 \<le> hr_Status response then Inr (Err (''serving manager: '' @ TrimSpace (take 2048 (hr_Body response))))
              else case Option.bind (web_decode w (hr_Body response)) endpoint_field of None \<Rightarrow> Inr ErrJSON | Some endpoint \<Rightarrow> Inl endpoint))"

definition undeploy_request :: "string \<Rightarrow> string \<Rightarrow> Model \<Rightarrow> http_request list" where
  "undeploy_request token managerURL item =
     (let target = TrimRightByte (CHR ''/'') managerURL @ ''/deployments/'' @ PathEscape (mdl_Name item) in
      if managerURL = [] \<or> url_Parse target = None then []
      else [\<lparr>hq_Method = ''DELETE'', hq_URL = target, hq_Headers = internal_headers token, hq_BasicAuth = None, hq_Body = None\<rparr>])"

text \<open>The handlers with these calls: what they send to the serving manager.\<close>

definition deployModel_served ::
  "envs \<Rightarrow> Store \<Rightarrow> web \<Rightarrow> string \<Rightarrow> string \<Rightarrow> Principal \<Rightarrow> string \<Rightarrow> DeployModelRequest option \<Rightarrow> http_request list \<times> Store \<times> Model response" where
  "deployModel_served es s w token managerURL p i body =
     (let manager = (if managerURL = [] then None
            else Some (\<lambda>item. case snd (requestServing w token managerURL item) of Inl endpoint \<Rightarrow> Some endpoint | Inr _ \<Rightarrow> None));
          asked = (if \<not> modelAllowed (store_view s) p i then []
            else case body of None \<Rightarrow> []
            | Some req \<Rightarrow> (case Store_DeployModel (es 0) s i (dmr_CanaryWeight req) (actor p) of
                (_, (item, err)) \<Rightarrow> if err \<noteq> None \<or> managerURL = [] then [] else fst (requestServing w token managerURL item)))
      in (asked, h_deployModel es s manager p i body))"

definition rollbackModel_served ::
  "envs \<Rightarrow> Store \<Rightarrow> string \<Rightarrow> string \<Rightarrow> Principal \<Rightarrow> string \<Rightarrow> http_request list \<times> Store \<times> Model response" where
  "rollbackModel_served es s token managerURL p i =
     (let (s', r) = h_rollbackModel es s p i in
      (case r of Reply _ item \<Rightarrow> undeploy_request token managerURL item | Fail _ _ \<Rightarrow> [], s', r))"

subsection \<open>What the Docker engine promises\<close>

record container =
  ct_ID :: string
  ct_Config :: gany
  ct_Running :: bool

type_synonym containers = "string \<rightharpoonup> container"

definition container_labels :: "container \<Rightarrow> string gomap" where
  "container_labels c = (case ct_Config c of AnyMap m \<Rightarrow>
      (case map_of m ''Labels'' of Some (AnyMap ls) \<Rightarrow> List.map_filter (\<lambda>(k, v). case v of AnyStr t \<Rightarrow> Some (k, t) | _ \<Rightarrow> None) ls | _ \<Rightarrow> [])
    | _ \<Rightarrow> [])"

text \<open>A removal, a creation and a start, answered with a status or lost on the network.\<close>

definition removed :: "containers \<Rightarrow> string \<Rightarrow> http_response + error \<Rightarrow> containers \<Rightarrow> bool" where
  "removed K n r K' \<longleftrightarrow> (case r of
      Inl response \<Rightarrow> hr_Status response < 400 \<and> K' = K(n := None) \<or>
        400 \<le> hr_Status response \<and> K' = K \<and> (hr_Status response = 404 \<longrightarrow> K n = None)
    | Inr _ \<Rightarrow> K' = K \<or> K' = K(n := None))"

definition created :: "'d engine \<Rightarrow> containers \<Rightarrow> string \<Rightarrow> gany \<Rightarrow> http_response + error \<Rightarrow> containers \<Rightarrow> bool" where
  "created e K n config r K' \<longleftrightarrow> (case r of
      Inl response \<Rightarrow> hr_Status response < 300 \<and> hr_Body response \<noteq> [] \<and> K n = None \<and>
          (\<exists>ident. en_created e (take read_limit (hr_Body response)) = Some ident \<and> (\<forall>c \<in> ran K. ct_ID c \<noteq> ident) \<and>
             K' = K(n \<mapsto> \<lparr>ct_ID = ident, ct_Config = config, ct_Running = False\<rparr>)) \<or>
        400 \<le> hr_Status response \<and> K' = K
    | Inr _ \<Rightarrow> K' = K \<or> K n = None \<and> (\<exists>ident. K' = K(n \<mapsto> \<lparr>ct_ID = ident, ct_Config = config, ct_Running = False\<rparr>)))"

definition started :: "containers \<Rightarrow> string \<Rightarrow> http_response + error \<Rightarrow> containers \<Rightarrow> bool" where
  "started K ident r K' \<longleftrightarrow>
     (let up = (\<exists>n c. K n = Some c \<and> ct_ID c = ident \<and> K' = K(n \<mapsto> c\<lparr>ct_Running := True\<rparr>)) in
      case r of
        Inl response \<Rightarrow> hr_Status response < 400 \<and> up \<or>
          400 \<le> hr_Status response \<and> K' = K \<and> (hr_Status response = 404 \<longrightarrow> (\<forall>c \<in> ran K. ct_ID c \<noteq> ident))
      | Inr _ \<Rightarrow> K' = K \<or> up)"

definition docker_serves :: "Manager \<Rightarrow> 'd engine \<Rightarrow> ('d \<Rightarrow> containers) \<Rightarrow> bool" where
  "docker_serves m e view \<longleftrightarrow>
     (\<forall>d n d' r. en_do e d (docker_request m ''DELETE'' (remove_path n) None) = (d', r) \<longrightarrow> removed (view d) n r (view d')) \<and>
     (\<forall>d n config raw d' r. en_marshal e config = Some raw \<and> en_do e d (docker_request m ''POST'' (create_path n) (Some raw)) = (d', r) \<longrightarrow>
        created e (view d) n config r (view d')) \<and>
     (\<forall>d ident d' r. en_do e d (docker_request m ''POST'' (start_path ident) None) = (d', r) \<longrightarrow> started (view d) ident r (view d')) \<and>
     (\<forall>d. \<forall>c \<in> ran (view d). ct_ID c \<noteq> [])"

text \<open>A creation is answered with 404 when the image is not there.\<close>

definition image_present :: "Manager \<Rightarrow> 'd engine \<Rightarrow> bool" where
  "image_present m e \<longleftrightarrow>
     (\<forall>d n raw d' response. en_do e d (docker_request m ''POST'' (create_path n) (Some raw)) = (d', Inl response) \<longrightarrow> hr_Status response \<noteq> 404)"

subsection \<open>Deployments are replaced\<close>

text \<open>A call fails before it is sent, or its result is read off the answer.\<close>

definition answer_result :: "http_response + error \<Rightarrow> int \<times> (string option + error) \<Rightarrow> bool" where
  "answer_result answer sr \<longleftrightarrow> (case answer of
      Inr _ \<Rightarrow> fst sr = 0 \<and> \<not> isl (snd sr)
    | Inl response \<Rightarrow> fst sr = hr_Status response \<and> (isl (snd sr) \<longleftrightarrow> hr_Status response < 400 \<or> hr_Status response = 404) \<and>
        (isl (snd sr) \<longrightarrow> projl (snd sr) = (if take read_limit (hr_Body response) \<noteq> [] \<and> hr_Status response < 300
           then Some (take read_limit (hr_Body response)) else None)))"

lemma docker_do_answer:
  assumes "docker_do m e d meth path input = (d', sr)"
  shows "d' = d \<and> fst sr = 0 \<and> \<not> isl (snd sr) \<or>
    (\<exists>body answer. body = (case input of None \<Rightarrow> None | Some v \<Rightarrow> en_marshal e v) \<and> (input \<noteq> None \<longrightarrow> body \<noteq> None) \<and>
       en_do e d (docker_request m meth path body) = (d', answer) \<and> answer_result answer sr)"
proof (cases "input \<noteq> None \<and> (case input of None \<Rightarrow> None | Some v \<Rightarrow> en_marshal e v) = None \<or> url_Parse (docker_base m @ path) = None")
  case True
  then show ?thesis using assms by (auto simp: docker_do_def split: option.splits)
next
  case False
  define body where "body = (case input of None \<Rightarrow> None | Some v \<Rightarrow> en_marshal e v)"
  obtain d'' answer where a: "en_do e d (docker_request m meth path body) = (d'', answer)" by fastforce
  have "(case input of None \<Rightarrow> Some None | Some v \<Rightarrow> map_option Some (en_marshal e v)) = Some body"
    using False by (auto simp: body_def split: option.splits)
  with False a assms have "d' = d'' \<and> answer_result answer sr"
    by (cases answer) (auto simp: docker_do_def answer_result_def Let_def split: if_splits)
  with a False show ?thesis unfolding body_def by blast
qed

lemma docker_servesD:
  assumes "docker_serves m e view"
  shows "en_do e d (docker_request m ''DELETE'' (remove_path n) None) = (d', r) \<Longrightarrow> removed (view d) n r (view d')"
    and "en_marshal e config = Some raw \<Longrightarrow> en_do e d (docker_request m ''POST'' (create_path n) (Some raw)) = (d', r) \<Longrightarrow>
      created e (view d) n config r (view d')"
    and "en_do e d (docker_request m ''POST'' (start_path ident) None) = (d', r) \<Longrightarrow> started (view d) ident r (view d')"
    and "view d n = Some c \<Longrightarrow> ct_ID c \<noteq> []"
  using assms ranI [of "view d" n c] unfolding docker_serves_def by blast+

definition not_sent :: "'d \<Rightarrow> 'd \<Rightarrow> int \<times> (string option + error) \<Rightarrow> bool" where
  "not_sent d d' sr \<longleftrightarrow> d' = d \<and> fst sr = 0 \<and> \<not> isl (snd sr)"

lemma remove_call:
  assumes "docker_serves m e view" "docker_do m e d ''DELETE'' (remove_path n) None = (d', sr)"
  shows "not_sent d d' sr \<or> (\<exists>r. removed (view d) n r (view d') \<and> answer_result r sr)"
  using docker_do_answer [OF assms(2)] docker_servesD(1) [OF assms(1)] by (auto simp: not_sent_def)

lemma create_call:
  assumes "docker_serves m e view" "docker_do m e d ''POST'' (create_path n) (Some config) = (d', sr)"
  shows "not_sent d d' sr \<or> (\<exists>r raw. created e (view d) n config r (view d') \<and> answer_result r sr \<and>
    en_do e d (docker_request m ''POST'' (create_path n) (Some raw)) = (d', r))"
  using docker_do_answer [OF assms(2)] docker_servesD(2) [OF assms(1)] by (fastforce simp: not_sent_def)

lemma start_call:
  assumes "docker_serves m e view" "docker_do m e d ''POST'' (start_path ident) None = (d', sr)"
  shows "not_sent d d' sr \<or> (\<exists>r. started (view d) ident r (view d') \<and> answer_result r sr)"
  using docker_do_answer [OF assms(2)] docker_servesD(3) [OF assms(1)] by (auto simp: not_sent_def)

lemma Undeploy_effect:
  assumes "docker_serves m e view" and "Undeploy m e d name = (d', err)"
  shows "view d' = view d \<or> view d' = (view d)(containerName name := None)"
    and "err = None \<Longrightarrow> view d' (containerName name) = None"
proof -
  let ?n = "containerName name"
  obtain sr where call: "docker_do m e d ''DELETE'' (remove_path ?n) None = (d', sr)" and err: "err = None \<Longrightarrow> fst sr = 404 \<or> isl (snd sr)"
    using assms(2) by (auto simp: Undeploy_def split: prod.splits sum.splits if_splits)
  from remove_call [OF assms(1) call] err show "view d' = view d \<or> view d' = (view d)(?n := None)" "err = None \<Longrightarrow> view d' ?n = None"
    by (auto simp: not_sent_def removed_def answer_result_def split: sum.splits)
qed

text \<open>The creation and the start of a container, given the engine after the removal.\<close>

definition served :: "Manager \<Rightarrow> string \<Rightarrow> string \<Rightarrow> container option \<Rightarrow> bool" where
  "served m name artifactURI c \<longleftrightarrow> (\<exists>ident. c = Some \<lparr>ct_ID = ident, ct_Config = serving_container m name artifactURI, ct_Running = True\<rparr>)"

text \<open>What the creation leaves, given that its answer did not fail: the new container with the identifier read from the answer, or a missing image.\<close>

lemma create_result:
  assumes "created e K n config r K'" and "answer_result r sr" and "isl (snd sr)"
    and "(case projl (snd sr) of None \<Rightarrow> Some [] | Some raw \<Rightarrow> en_created e raw) = Some ident"
  shows "K' n = Some \<lparr>ct_ID = ident, ct_Config = config, ct_Running = False\<rparr> \<and> (\<forall>n' c. n' \<noteq> n \<and> K' n' = Some c \<longrightarrow> ct_ID c \<noteq> ident) \<or>
    fst sr = 404 \<and> (\<exists>response. r = Inl response \<and> hr_Status response = 404) \<and> K' = K \<and> ident = []"
proof -
  obtain response where r: "r = Inl response" using assms(2,3) by (cases r) (auto simp: answer_result_def)
  have rl: "0 < read_limit" by (simp add: read_limit_def)
  show ?thesis
  proof (cases "hr_Status response < 300")
    case True
    then obtain ident' where i: "en_created e (take read_limit (hr_Body response)) = Some ident'" "hr_Body response \<noteq> []" "K n = None"
        "\<forall>c \<in> ran K. ct_ID c \<noteq> ident'" "K' = K(n \<mapsto> \<lparr>ct_ID = ident', ct_Config = config, ct_Running = False\<rparr>)"
      using assms(1) by (auto simp: created_def r)
    then have "ident = ident'" using assms(2-4) True by (auto simp: answer_result_def r rl)
    with i ranI [of K] show ?thesis by (auto simp: ran_def)
  next
    case False
    with assms show ?thesis by (auto simp: created_def answer_result_def r)
  qed
qed

lemma created_frame: "created e K n config r K' \<Longrightarrow> n' \<noteq> n \<Longrightarrow> K' n' = K n'"
  by (auto simp: created_def split: sum.splits)

lemma started_frame: "started K ident r K' \<Longrightarrow> (\<And>c. K n = Some c \<Longrightarrow> ct_ID c \<noteq> ident) \<Longrightarrow> K' n = K n"
  by (auto simp: started_def Let_def split: sum.splits)

lemma Deploy_calls:
  assumes "Deploy m e d name artifactURI = (d', r)" and "n = containerName name"
  obtains (refused) err where "d' = d" "r = Inr err"
  | (not_created) d1 sr err where "d1 = fst (Undeploy m e d name)" "docker_do m e d1 ''POST'' (create_path n) (Some (serving_container m name artifactURI)) = (d', sr)"
      "r = Inr err"
  | (called) d1 d2 sr2 ident sr3 where "d1 = fst (Undeploy m e d name)"
      "docker_do m e d1 ''POST'' (create_path n) (Some (serving_container m name artifactURI)) = (d2, sr2)" "isl (snd sr2)"
      "(case projl (snd sr2) of None \<Rightarrow> Some [] | Some raw \<Rightarrow> en_created e raw) = Some ident"
      "docker_do m e d2 ''POST'' (start_path ident) None = (d', sr3)"
      "\<And>endpoint. r = Inl endpoint \<Longrightarrow> isl (snd sr3) \<and> endpoint = serving_endpoint m name"
proof (cases "name = [] \<or> artifactURI = [] \<or> mg_Image m = []")
  case True
  then show thesis using assms(1) refused by (auto simp: Deploy_def split: if_splits)
next
  case False
  define d1 where "d1 = fst (Undeploy m e d name)"
  obtain d2 st2 r2 where c: "docker_do m e d1 ''POST'' (create_path n) (Some (serving_container m name artifactURI)) = (d2, st2, r2)"
    by (cases "docker_do m e d1 ''POST'' (create_path n) (Some (serving_container m name artifactURI))")
  have D: "Deploy m e d name artifactURI = (case r2 of Inr err \<Rightarrow> (d2, Inr err) | Inl out \<Rightarrow>
      (case (case out of None \<Rightarrow> Some [] | Some raw \<Rightarrow> en_created e raw) of None \<Rightarrow> (d2, Inr ErrJSON)
       | Some ident \<Rightarrow> (case docker_do m e d2 ''POST'' (start_path ident) None of
            (d3, _, Inr err) \<Rightarrow> (d3, Inr err) | (d3, _, Inl _) \<Rightarrow> (d3, Inl (serving_endpoint m name)))))"
    using False c assms(2) by (simp add: Deploy_def Let_def d1_def)
  show thesis
  proof (cases r2)
    case (Inr err)
    then show thesis using D assms(1) c by (intro not_created [OF d1_def]) auto
  next
    case (Inl out)
    show thesis
    proof (cases "case out of None \<Rightarrow> Some [] | Some raw \<Rightarrow> en_created e raw")
      case None
      then show thesis using D Inl assms(1) c by (intro not_created [OF d1_def]) auto
    next
      case (Some ident)
      obtain d3 st3 r3 where s3: "docker_do m e d2 ''POST'' (start_path ident) None = (d3, st3, r3)" by (cases "docker_do m e d2 ''POST'' (start_path ident) None")
      have "Deploy m e d name artifactURI = (d3, case r3 of Inr err \<Rightarrow> Inr err | Inl _ \<Rightarrow> Inl (serving_endpoint m name))"
        using D Inl Some s3 by (simp split: sum.splits)
      with assms(1) have "d' = d3" "\<And>endpoint. r = Inl endpoint \<Longrightarrow> isl r3 \<and> endpoint = serving_endpoint m name" by (auto split: sum.splits)
      then show thesis using called [OF d1_def c _ _ _ ] Inl Some s3 by auto
    qed
  qed
qed

text \<open>A deployment touches only its own container; when it reports an endpoint and the image is there, this container runs the artifact.\<close>

lemma Deploy_effect:
  assumes "docker_serves m e view" and "Deploy m e d name artifactURI = (d', r)"
  shows "n \<noteq> containerName name \<Longrightarrow> view d' n = view d n"
    and "r = Inl endpoint \<Longrightarrow> image_present m e \<Longrightarrow> endpoint = serving_endpoint m name \<and> served m name artifactURI (view d' (containerName name))"
proof -
  let ?n = "containerName name"
  have undeployed: "n \<noteq> ?n \<Longrightarrow> view (fst (Undeploy m e d name)) n = view d n" for n
    using Undeploy_effect(1) [OF assms(1), of d name "fst (Undeploy m e d name)" "snd (Undeploy m e d name)"] by auto
  show "view d' n = view d n" if n: "n \<noteq> ?n" for n
  proof (rule Deploy_calls [OF assms(2) refl])
    fix d1 sr err
    assume d1: "d1 = fst (Undeploy m e d name)" and "docker_do m e d1 ''POST'' (create_path ?n) (Some (serving_container m name artifactURI)) = (d', sr)"
    from create_call [OF assms(1) this(2)] show ?thesis using created_frame n undeployed d1 by (metis not_sent_def)
  next
    fix d1 d2 sr2 ident sr3
    assume d1: "d1 = fst (Undeploy m e d name)"
      and c: "docker_do m e d1 ''POST'' (create_path ?n) (Some (serving_container m name artifactURI)) = (d2, sr2)" "isl (snd sr2)"
      and i: "(case projl (snd sr2) of None \<Rightarrow> Some [] | Some raw \<Rightarrow> en_created e raw) = Some ident"
      and s: "docker_do m e d2 ''POST'' (start_path ident) None = (d', sr3)"
    obtain r2 where cr: "created e (view d1) ?n (serving_container m name artifactURI) r2 (view d2)" "answer_result r2 sr2"
      using create_call [OF assms(1) c(1)] c(2) by (auto simp: not_sent_def)
    have "view d2 n = view d n" using created_frame [OF cr(1) n] undeployed [OF n] d1 by simp
    moreover have "ct_ID x \<noteq> ident" if "view d2 n = Some x" for x
      using create_result [OF cr c(2) i] n that docker_servesD(4) [OF assms(1) that] by auto
    ultimately show ?thesis using start_call [OF assms(1) s] started_frame by (metis not_sent_def)
  qed simp
  show "endpoint = serving_endpoint m name \<and> served m name artifactURI (view d' ?n)" if r: "r = Inl endpoint" and img: "image_present m e"
  proof (rule Deploy_calls [OF assms(2) refl])
    fix d1 d2 sr2 ident sr3
    assume c: "docker_do m e d1 ''POST'' (create_path ?n) (Some (serving_container m name artifactURI)) = (d2, sr2)" "isl (snd sr2)"
      and i: "(case projl (snd sr2) of None \<Rightarrow> Some [] | Some raw \<Rightarrow> en_created e raw) = Some ident"
      and s: "docker_do m e d2 ''POST'' (start_path ident) None = (d', sr3)"
      and ok: "\<And>endpoint. r = Inl endpoint \<Longrightarrow> isl (snd sr3) \<and> endpoint = serving_endpoint m name"
    obtain r2 raw where cr: "created e (view d1) ?n (serving_container m name artifactURI) r2 (view d2)" "answer_result r2 sr2"
        "en_do e d1 (docker_request m ''POST'' (create_path ?n) (Some raw)) = (d2, r2)"
      using create_call [OF assms(1) c(1)] c(2) by (auto simp: not_sent_def)
    have new: "view d2 ?n = Some \<lparr>ct_ID = ident, ct_Config = serving_container m name artifactURI, ct_Running = False\<rparr>"
        "\<And>n' c. n' \<noteq> ?n \<Longrightarrow> view d2 n' = Some c \<Longrightarrow> ct_ID c \<noteq> ident"
      using create_result [OF cr(1,2) c(2) i] img cr(3) unfolding image_present_def by blast+
    have "isl (snd sr3)" using ok r by blast
    then obtain r3 where "started (view d2) ident r3 (view d')" "answer_result r3 sr3"
      using start_call [OF assms(1) s] by (auto simp: not_sent_def)
    moreover have "\<exists>c \<in> ran (view d2). ct_ID c = ident" using new(1) by (auto simp: ran_def)
    ultimately obtain k x where k: "view d2 k = Some x" "ct_ID x = ident" "view d' = (view d2)(k \<mapsto> x\<lparr>ct_Running := True\<rparr>)"
      using \<open>isl (snd sr3)\<close> by (auto simp: started_def answer_result_def Let_def split: sum.splits)
    then have "k = ?n" using new(2) by blast
    with k new(1) show ?thesis using ok r by (auto simp: served_def)
  qed (use r in auto)
qed

text \<open>
  A missing image is not noticed: the engine's answers 404 to the creation and to the start count
  as success, and the endpoint of a container that does not exist is reported.
\<close>

lemma missing_image_reported:
  assumes "name \<noteq> []" "artifactURI \<noteq> []" "mg_Image m \<noteq> []" and "en_marshal e (serving_container m name artifactURI) \<noteq> None"
    and "\<forall>d rq. \<exists>response. en_do e d rq = (d, Inl response) \<and> hr_Status response = 404"
    and "url_Parse (docker_base m @ create_path (containerName name)) \<noteq> None" "url_Parse (docker_base m @ start_path []) \<noteq> None"
  shows "Deploy m e d name artifactURI = (d, Inl (serving_endpoint m name))"
proof -
  obtain ans where ans: "\<And>d rq. en_do e d rq = (d, Inl (ans d rq))" "\<And>d rq. hr_Status (ans d rq) = 404"
    using assms(5) by metis
  have do: "\<exists>st. docker_do m e x meth path input = (x, st, Inl None)"
    if "url_Parse (docker_base m @ path) \<noteq> None" "case input of None \<Rightarrow> True | Some v \<Rightarrow> en_marshal e v \<noteq> None" for x meth path input
    using that by (cases input) (auto simp: docker_do_def ans Let_def)
  have "fst (Undeploy m e d name) = d"
    by (simp add: Undeploy_def docker_do_def ans Let_def)
  then show ?thesis
    using assms(1-4) do [OF assms(6), of "Some (serving_container m name artifactURI)" d "''POST''"] do [OF assms(7), of None d "''POST''"]
    by (auto simp: Deploy_def Let_def)
qed

text \<open>The container is named after the model alone: two models of one name take it from each other, whatever their versions and projects are.\<close>

lemma serving_shared_by_name:
  assumes "docker_serves m e view" "image_present m e"
    and "Deploy m e d name uri1 = (d1, Inl endpoint1)" "Deploy m e d1 name uri2 = (d2, Inl endpoint2)" "uri1 \<noteq> uri2"
  shows "endpoint1 = endpoint2" and "served m name uri2 (view d2 (containerName name))" and "\<not> served m name uri1 (view d2 (containerName name))"
proof -
  note first = Deploy_effect(2) [OF assms(1,3) refl assms(2)] and second = Deploy_effect(2) [OF assms(1,4) refl assms(2)]
  show "endpoint1 = endpoint2" "served m name uri2 (view d2 (containerName name))" using first second by simp_all
  with assms(5) show "\<not> served m name uri1 (view d2 (containerName name))" by (auto simp: served_def serving_container_def)
qed

subsection \<open>A served model\<close>

lemma endpoint_untrimmed: "TrimRightByte (CHR ''/'') (serving_endpoint m name) = serving_endpoint m name"
proof -
  have "is_digit c \<Longrightarrow> c \<noteq> CHR ''/''" for c by (auto simp: is_digit_def)
  then have "TrimRightByte (CHR ''/'') (s @ dec_nat n) = s @ dec_nat n" for s n
    using dec_nat_digits [of "last (dec_nat n)" n] dec_nat.simps [of n]
    by (cases "dec_nat n" rule: rev_cases) (auto simp: TrimRightByte_def split: if_splits)
  from this [of "''http://'' @ containerName name @ '':''"] this [of "''http://'' @ containerName name @ '':-''"] show ?thesis
    by (simp add: serving_endpoint_def Itoa_def)
qed

text \<open>
  The gateway's web, with the serving manager at the base URL: an answer to a deployment request is
  the handler's, unless it is lost, and the two sides agree on the JSON of the requests and the
  answers.
\<close>

definition deployment_json :: "string \<Rightarrow> string \<Rightarrow> gany" where
  "deployment_json name artifactURI = AnyMap [(''name'', AnyStr name), (''artifact_uri'', AnyStr artifactURI)]"

definition authorization_of :: "http_request \<Rightarrow> string" where
  "authorization_of rq = (case map_of (hq_Headers rq) ''Authorization'' of Some v \<Rightarrow> v | None \<Rightarrow> [])"

definition serving_web :: "web \<Rightarrow> (string \<Rightarrow> (string \<times> string) option) \<Rightarrow> Manager \<Rightarrow> 'd engine \<Rightarrow> 'd \<Rightarrow> string \<Rightarrow> string \<Rightarrow> bool" where
  "serving_web w decode m e d token managerURL \<longleftrightarrow>
     (\<forall>rq response. hq_Method rq = ''POST'' \<and> hq_URL rq = TrimRightByte (CHR ''/'') managerURL @ ''/deployments'' \<and> web_do w rq = Inl response \<longrightarrow>
        (case h_deploy m e d token (authorization_of rq) (Option.bind (hq_Body rq) decode) of (_, status, endpoint) \<Rightarrow>
           hr_Status response = status \<and> (status = 201 \<longrightarrow> Option.bind (web_decode w (hr_Body response)) endpoint_field = Some endpoint))) \<and>
     (\<forall>name artifactURI. \<exists>raw. web_marshal w (deployment_json name artifactURI) = Some raw \<and> decode raw = Some (name, artifactURI))"

lemma TrimPrefix_append: "TrimPrefix (pre @ s) pre = s"
  by (simp add: TrimPrefix_def HasPrefix_iff_prefix)

lemma requestServing_deployed:
  assumes "serving_web w decode m e d token managerURL" and "snd (requestServing w token managerURL model) = Inl endpoint"
  shows "snd (Deploy m e d (mdl_Name model) (mdl_ArtifactURI model)) = Inl endpoint"
proof -
  let ?target = "TrimRightByte (CHR ''/'') managerURL @ ''/deployments''"
  obtain raw where raw: "web_marshal w (deployment_json (mdl_Name model) (mdl_ArtifactURI model)) = Some raw"
      "decode raw = Some (mdl_Name model, mdl_ArtifactURI model)"
    using assms(1) unfolding serving_web_def by blast
  let ?rq = "\<lparr>hq_Method = ''POST'', hq_URL = ?target, hq_Headers = (''Content-Type'', ''application/json'') # internal_headers token,
      hq_BasicAuth = None, hq_Body = Some raw\<rparr>"
  have auth: "serving_authorized token (authorization_of ?rq)"
    by (simp add: serving_authorized_def authorization_of_def internal_headers_def TrimPrefix_append [of "''Bearer ''", simplified])
  obtain response where r: "web_do w ?rq = Inl response" "\<not> 300 \<le> hr_Status response"
      "Option.bind (web_decode w (hr_Body response)) endpoint_field = Some endpoint"
    using assms(2) raw(1) by (auto simp: requestServing_def deployment_json_def Let_def split: if_splits sum.splits option.splits)
  have "case h_deploy m e d token (authorization_of ?rq) (Option.bind (hq_Body ?rq) decode) of (_, status, endpoint) \<Rightarrow>
      hr_Status response = status \<and> (status = 201 \<longrightarrow> Option.bind (web_decode w (hr_Body response)) endpoint_field = Some endpoint)"
    using assms(1) [unfolded serving_web_def, THEN conjunct1, THEN spec, of ?rq, THEN spec, of response] r(1) by simp
  then show ?thesis using auth r(2,3) raw(2)
    by (auto simp: h_deploy_def split: prod.splits sum.splits)
qed

lemma deployModel_recorded:
  assumes "h_deployModel es s (Some manager) p i (Some req) = (s', Reply st item)"
  obtains model endpoint where "manager model = Some endpoint" "mdl_ID model = i" "mdl_GateStatus model = ''passed''"
    "find (\<lambda>m. mdl_ID m = i) (st_Models (data s')) = Some (model\<lparr>mdl_EndpointURL := endpoint, mdl_DeploymentStatus := ''serving''\<rparr>)"
proof -
  let ?d = "Store_DeployModel (es 0) s i (dmr_CanaryWeight req) (actor p)"
  obtain endpoint where ok: "snd (snd ?d) = None" and e: "manager (fst (snd ?d)) = Some endpoint"
    and s': "s' = fst (Store_SetModelEndpoint (es 1) (fst ?d) (mdl_ID (fst (snd ?d))) endpoint ''serving'')"
    using assms by (auto simp: h_deployModel_def with_body_def split_beta Let_def writeMutation_def split: if_splits option.splits error.splits)
  note dep = Store_DeployModel_ok [OF ok]
  have "mdl_GateStatus (fst (snd ?d)) = ''passed''"
    using ok by (auto simp: Store_DeployModel_def Let_def split: if_splits option.splits)
  moreover have "find (\<lambda>m. mdl_ID m = i) (st_Models (data s')) = Some ((fst (snd ?d))\<lparr>mdl_EndpointURL := endpoint, mdl_DeploymentStatus := ''serving''\<rparr>)"
    using find_update_first_same [OF dep(2), of "\<lambda>_. (fst (snd ?d))\<lparr>mdl_EndpointURL := endpoint, mdl_DeploymentStatus := ''serving''\<rparr>"] dep(1,2)
    by (simp add: s' Store_SetModelEndpoint_def Let_def)
  ultimately show thesis using that [OF e dep(1)] by blast
qed

end
