(* ===== verification/Proxies.thy ===== *)
theory Proxies
  imports Clients Gateway
begin

text \<open>
  The handlers of \<^verbatim>\<open>go/internal/httpapi/server.go\<close> that forward a request to another service:
  predictions, agent turns, function calls, the function list and the prompt library. A handler
  returns the requests it sends and its answer; the body is \<open>None\<close> when it cannot be read.
\<close>

definition payload_limit :: nat where
  "payload_limit = 1048576"

text \<open>The answer of the service is passed on with its status.\<close>

definition pass_on :: "web \<Rightarrow> string \<Rightarrow> http_request \<Rightarrow> http_request list \<times> string response" where
  "pass_on w unreachable rq =
     (if url_Parse (hq_URL rq) = None then ([], Fail 502 unreachable)
      else ([rq], case web_do w rq of Inr _ \<Rightarrow> Fail 502 unreachable | Inl response \<Rightarrow> Reply (hr_Status response) (hr_Body response)))"

definition h_predictModel :: "web \<Rightarrow> Store \<Rightarrow> Principal \<Rightarrow> string \<Rightarrow> string option \<Rightarrow> http_request list \<times> string response" where
  "h_predictModel w s p i body =
     (if \<not> modelAllowed (store_view s) p i then ([], Fail 404 ''not_found'')
      else case find (\<lambda>m. mdl_ID m = i) (Store_Models s) of
        None \<Rightarrow> ([], Fail 404 ''not_found'')
      | Some model \<Rightarrow>
          if mdl_EndpointURL model = [] \<or> \<not> HasPrefix (mdl_EndpointURL model) ''http'' then ([], Fail 409 ''not_serving'')
          else case body of None \<Rightarrow> ([], Fail 400 ''invalid_request'')
          | Some raw \<Rightarrow> pass_on w ''endpoint_unreachable''
              \<lparr>hq_Method = ''POST'', hq_URL = TrimRightByte (CHR ''/'') (mdl_EndpointURL model) @ ''/invocations'',
               hq_Headers = [(''Content-Type'', ''application/json'')], hq_BasicAuth = None, hq_Body = Some (take payload_limit raw)\<rparr>)"

definition invoke_json :: "InvokeAgentRequest \<Rightarrow> gany" where
  "invoke_json req = AnyMap ((''message'', AnyStr (inv_Message req)) #
     (if inv_SessionID req = [] then [] else [(''session_id'', AnyStr (inv_SessionID req))]) @
     (if inv_UserID req = [] then [] else [(''user_id'', AnyStr (inv_UserID req))]))"

text \<open>\<open>runtime\<close> is \<open>AGENT_RUNTIME_URL\<close>.\<close>

definition h_invokeAgent :: "web \<Rightarrow> string \<Rightarrow> Store \<Rightarrow> Principal \<Rightarrow> string \<Rightarrow> InvokeAgentRequest option \<Rightarrow> http_request list \<times> string response" where
  "h_invokeAgent w runtime s p i body =
     (if \<not> agentAllowed (store_view s) p i then ([], Fail 404 ''not_found'')
      else case find (\<lambda>a. agt_ID a = i) (Store_Agents s) of
        None \<Rightarrow> ([], Fail 404 ''not_found'')
      | Some agent \<Rightarrow>
          (case body of None \<Rightarrow> ([], Fail 400 ''invalid_request'')
           | Some req \<Rightarrow>
               if TrimSpace (inv_Message req) = [] then ([], Fail 422 ''validation_error'')
               else pass_on w ''runtime_unreachable''
                 \<lparr>hq_Method = ''POST'', hq_URL = TrimRightByte (CHR ''/'') (if runtime = [] then ''http://localhost:9000'' else runtime) @ ''/invoke'',
                  hq_Headers = [(''Content-Type'', ''application/json''), (''X-MLAIOps-Agent-ID'', agt_ID agent), (''X-MLAIOps-Agent-Name'', agt_Name agent)],
                  hq_BasicAuth = None, hq_Body = Some (case web_marshal w (invoke_json req) of Some raw \<Rightarrow> raw | None \<Rightarrow> [])\<rparr>))"

subsection \<open>Functions\<close>

text \<open>The client is \<open>None\<close> when \<open>OPENFAAS_URL\<close> is not set.\<close>

definition openfaas :: "string \<Rightarrow> string \<Rightarrow> string \<Rightarrow> OpenFaaS option" where
  "openfaas base user password = (if base = [] then None else Some (NewOpenFaaS base user password))"

definition h_invokeFunction ::
  "web \<Rightarrow> OpenFaaS option \<Rightarrow> Store \<Rightarrow> Principal \<Rightarrow> string \<Rightarrow> string option \<Rightarrow> http_request list \<times> string response" where
  "h_invokeFunction w client s p name body =
     (case client of None \<Rightarrow> ([], Fail 409 ''not_configured'')
      | Some c \<Rightarrow>
          if \<not> functionAllowed (store_view s) p name then ([], Fail 404 ''not_found'')
          else case body of None \<Rightarrow> ([], Fail 400 ''invalid_request'')
          | Some raw \<Rightarrow> map_prod id (\<lambda>r. case r of Inl result \<Rightarrow> Reply 200 result | Inr _ \<Rightarrow> Fail 502 ''invoke_failed'') (Invoke w c name (take payload_limit raw)))"

definition h_invokeFunctionAsync ::
  "web \<Rightarrow> OpenFaaS option \<Rightarrow> Store \<Rightarrow> Principal \<Rightarrow> string \<Rightarrow> string option \<Rightarrow> http_request list \<times> string response" where
  "h_invokeFunctionAsync w client s p name body =
     (case client of None \<Rightarrow> ([], Fail 409 ''not_configured'')
      | Some c \<Rightarrow>
          if \<not> functionAllowed (store_view s) p name then ([], Fail 404 ''not_found'')
          else case body of None \<Rightarrow> ([], Fail 400 ''invalid_request'')
          | Some raw \<Rightarrow> map_prod id (\<lambda>r. case r of Inl callID \<Rightarrow> Reply 202 callID | Inr _ \<Rightarrow> Fail 502 ''invoke_failed'') (InvokeAsync w c name (take payload_limit raw)))"

definition by_name :: "listed_function list \<Rightarrow> listed_function gomap" where
  "by_name live = foldl (\<lambda>m item. filter (\<lambda>e. fst e \<noteq> lf_Name item) m @ [(lf_Name item, item)]) [] live"

fun merge_live :: "listed_function gomap \<Rightarrow> Function list \<Rightarrow> Function list \<times> listed_function gomap" where
  "merge_live live [] = ([], live)"
| "merge_live live (f # fs) =
     (case map_of live (fn_Name f) of
        Some item \<Rightarrow> map_prod ((#) (f\<lparr>fn_Replicas := lf_Replicas item, fn_Status := ''deployed''\<rparr>)) id
          (merge_live (filter (\<lambda>e. fst e \<noteq> fn_Name f) live) fs)
      | None \<Rightarrow> map_prod ((#) (f\<lparr>fn_Status := ''missing''\<rparr>)) id (merge_live live fs))"

definition unmanaged :: "listed_function \<Rightarrow> Function" where
  "unmanaged item = zero_Function\<lparr>fn_Name := lf_Name item, fn_Image := lf_Image item, fn_Replicas := lf_Replicas item, fn_Status := ''unmanaged''\<rparr>"

text \<open>\<open>seed\<close> is the order in which the map of the remaining functions is ranged over.\<close>

definition h_functions ::
  "web \<Rightarrow> (string \<Rightarrow> listed_function list option) \<Rightarrow> OpenFaaS option \<Rightarrow> nat list \<Rightarrow> Store \<Rightarrow> Principal \<Rightarrow>
     http_request list \<times> (bool \<times> Function list) response" where
  "h_functions w decode client seed s p =
     (let persisted = filterFunctions (Store_Functions s) (allowedProjectIDs (store_view s) p) in
      case client of None \<Rightarrow> ([], Reply 200 (False, persisted))
      | Some c \<Rightarrow> map_prod id (\<lambda>r. case r of
            Inr _ \<Rightarrow> Fail 502 ''openfaas_unreachable''
          | Inl live \<Rightarrow> (let (merged, rest) = merge_live (by_name live) persisted in
              Reply 200 (True, merged @ (if privileged p then map (unmanaged \<circ> snd) (range_order seed rest) else []))))
          (ListFunctions w decode c))"

subsection \<open>Prompts\<close>

definition h_prompts ::
  "web \<Rightarrow> (string \<Rightarrow> gany list option) \<Rightarrow> string \<Rightarrow> string \<Rightarrow> string \<Rightarrow> http_request list \<times> (bool \<times> gany list) response" where
  "h_prompts w decode base public secret =
     (if base = [] \<or> public = [] \<or> secret = [] then ([], Reply 200 (False, []))
      else let target = TrimRightByte (CHR ''/'') base @ ''/api/public/v2/prompts'' in
      if url_Parse target = None then ([], Fail 502 ''langfuse_unreachable'')
      else let rq = \<lparr>hq_Method = ''GET'', hq_URL = target, hq_Headers = [], hq_BasicAuth = Some (public, secret), hq_Body = None\<rparr>
      in ([rq], case web_do w rq of Inr _ \<Rightarrow> Fail 502 ''langfuse_unreachable''
          | Inl response \<Rightarrow> if hr_Status response \<noteq> 200 then Fail 502 ''langfuse_error''
              else case decode (hr_Body response) of None \<Rightarrow> Fail 502 ''langfuse_error'' | Some items \<Rightarrow> Reply 200 (True, items)))"

subsection \<open>What is forwarded\<close>

lemma pass_on_sent: "rq' \<in> set (fst (pass_on w u rq)) \<Longrightarrow> rq' = rq"
  by (simp add: pass_on_def split: if_splits)

lemma predictModel_sent:
  assumes "rq \<in> set (fst (h_predictModel w s p i body))"
  obtains model where "find (\<lambda>m. mdl_ID m = i) (st_Models (data s)) = Some model" "mdl_ProjectID model \<in> scope (store_view s) p"
    "hq_URL rq = TrimRightByte (CHR ''/'') (mdl_EndpointURL model) @ ''/invocations''" "HasPrefix (mdl_EndpointURL model) ''http''"
proof -
  have allowed: "modelAllowed (store_view s) p i" using assms by (simp add: h_predictModel_def split: if_splits)
  then obtain model where m: "find (\<lambda>m. mdl_ID m = i) (st_Models (data s)) = Some model"
    by (auto simp: modelAllowed_def store_view_simps split: option.splits)
  show thesis
    by (rule that [OF m modelAllowed_scope [OF allowed m]])
      (use assms m allowed in \<open>auto simp: h_predictModel_def Store_Models_def dest!: pass_on_sent split: if_splits option.splits\<close>)
qed

lemma invokeAgent_sent:
  assumes "rq \<in> set (fst (h_invokeAgent w runtime s p i body))"
  obtains agent where "find (\<lambda>a. agt_ID a = i) (st_Agents (data s)) = Some agent" "agt_ProjectID agent \<in> scope (store_view s) p"
    "map_of (hq_Headers rq) ''X-MLAIOps-Agent-ID'' = Some i"
proof -
  have allowed: "agentAllowed (store_view s) p i" using assms by (simp add: h_invokeAgent_def split: if_splits)
  then obtain agent where a: "find (\<lambda>a. agt_ID a = i) (st_Agents (data s)) = Some agent"
    by (auto simp: agentAllowed_def store_view_simps split: option.splits)
  show thesis
    by (rule that [OF a agentAllowed_scope [OF allowed a]])
      (use assms a allowed find_SomeD [OF a] in \<open>auto simp: h_invokeAgent_def Store_Agents_def dest!: pass_on_sent split: if_splits option.splits\<close>)
qed

lemma invokeFunction_sent:
  assumes "rq \<in> set (fst (h_invokeFunction w client s p name body)) \<union> set (fst (h_invokeFunctionAsync w client s p name body))" and "\<not> privileged p"
  obtains f where "find (\<lambda>f. fn_Name f = name) (st_Functions (data s)) = Some f" "fn_ProjectID f \<in> scope (store_view s) p"
proof -
  have allowed: "functionAllowed (store_view s) p name"
    using assms(1) by (auto simp: h_invokeFunction_def h_invokeFunctionAsync_def split: if_splits option.splits)
  then obtain f where f: "find (\<lambda>f. fn_Name f = name) (st_Functions (data s)) = Some f"
    using assms(2) by (auto simp: functionAllowed_def store_view_simps split: option.splits)
  show thesis by (rule that [OF f functionAllowed_scope [OF allowed f]])
qed

text \<open>The list shows the stored functions in scope with their live state, and unmanaged ones only to privileged callers.\<close>

lemma merge_live_stored: "map (\<lambda>f. (fn_Name f, fn_ProjectID f)) (fst (merge_live live fs)) = map (\<lambda>f. (fn_Name f, fn_ProjectID f)) fs"
  by (induction live fs rule: merge_live.induct) (auto split: option.splits)

lemma map_of_filter_other: "k \<noteq> k' \<Longrightarrow> map_of (filter (\<lambda>e. fst e \<noteq> k) m) k' = map_of m k'"
  by (induction m) auto

lemma merge_live_status:
  "distinct (map fn_Name fs) \<Longrightarrow> f \<in> set (fst (merge_live live fs)) \<Longrightarrow>
     fn_Status f = (if map_of live (fn_Name f) = None then ''missing'' else ''deployed'')"
proof (induction live fs rule: merge_live.induct)
  case (2 live g fs)
  have names: "map fn_Name (fst (merge_live l fs)) = map fn_Name fs" for l
    using arg_cong [OF merge_live_stored [of l fs], of "map fst"] by (simp add: comp_def)
  have rest: "fn_Name f \<noteq> fn_Name g" if "f \<in> set (fst (merge_live l fs))" for l
  proof -
    have "fn_Name f \<in> set (map fn_Name fs)" unfolding names [of l, symmetric] using that by simp
    with 2(3) show ?thesis by auto
  qed
  show ?case
  proof (cases "map_of live (fn_Name g)")
    case None
    with 2 show ?thesis by auto
  next
    case (Some item)
    then have "f = g\<lparr>fn_Replicas := lf_Replicas item, fn_Status := ''deployed''\<rparr> \<or> f \<in> set (fst (merge_live (filter (\<lambda>e. fst e \<noteq> fn_Name g) live) fs))"
      using 2(4) by simp
    then show ?thesis
    proof
      assume f: "f \<in> set (fst (merge_live (filter (\<lambda>e. fst e \<noteq> fn_Name g) live) fs))"
      with 2(2) [OF Some _ f] 2(3) rest [OF f] show ?thesis by (simp add: map_of_filter_other)
    qed (simp add: Some)
  qed
qed simp

lemma functions_listed:
  assumes "snd (h_functions w dec client seed s p) = Reply 200 (live, fs)" and "\<not> privileged p" and "f \<in> set fs"
  shows "\<exists>x \<in> set (st_Functions (data s)). fn_Name x = fn_Name f \<and> fn_ProjectID x = fn_ProjectID f \<and> fn_ProjectID f \<in> scope (store_view s) p"
proof -
  let ?persisted = "filterFunctions (Store_Functions s) (allowedProjectIDs (store_view s) p)"
  have "fs = ?persisted \<or> (\<exists>l. fs = fst (merge_live l ?persisted))"
    using assms(1,2) by (auto simp: h_functions_def Let_def map_prod_def split: option.splits sum.splits prod.splits) (metis fst_conv)
  then have "(fn_Name f, fn_ProjectID f) \<in> set (map (\<lambda>f. (fn_Name f, fn_ProjectID f)) ?persisted)"
    using assms(3) by (metis (mono_tags, lifting) image_eqI list.set_map merge_live_stored)
  then show ?thesis by (auto simp: filterFunctions_def scope_filter Store_Functions_def)
qed

end
