(* ===== verification/Console.thy ===== *)
theory Console
  imports Storage Gateway
begin

text \<open>
  What the console reads: \<^verbatim>\<open>go/internal/platform/catalog.go\<close> (component health and the catalog) and
  the handlers of \<^verbatim>\<open>go/internal/httpapi/server.go\<close> for the dashboard, the onboarding checklist,
  the event stream and the live statistics of stream processing.
\<close>

subsection \<open>Component health\<close>

record componentSpec =
  cs_name :: string
  cs_category :: string
  cs_description :: string
  cs_types :: "string list"

definition componentSpecs :: "componentSpec list" where
  "componentSpecs = map (\<lambda>(n, c, d, ts). \<lparr>cs_name = n, cs_category = c, cs_description = d, cs_types = ts\<rparr>)
     [(''Pipeline Engine'', ''Orchestration'', ''Prefect (Compose) or Kubeflow Pipelines (Kubernetes)'', [''prefect'', ''kfp'', ''kubeflow'']),
      (''Experiment Tracker'', ''ML lifecycle'', ''MLflow with PostgreSQL and S3 artifacts'', [''mlflow'']),
      (''Feature Store'', ''Data'', ''Feast definitions with Redis online serving'', [''feast'', ''redis'']),
      (''Object Store'', ''Storage'', ''MinIO or an external S3-compatible store'', [''s3'', ''minio'']),
      (''Inference Engine'', ''Serving'', ''MLflow model serving (Compose) or KServe (Kubernetes)'', [''serving'', ''kserve'']),
      (''Agent Observability'', ''Agentic AI'', ''Langfuse for traces, prompts, and evaluations'', [''langfuse'']),
      (''Streaming Broker'', ''Events'', ''Apache Kafka lifecycle and trace topics'', [''kafka'']),
      (''Kubernetes'', ''Control plane'', ''Cluster for operator-managed workloads'', [''kubernetes''])]"

text \<open>The loop over the types of a component, which stops at the first healthy one.\<close>

fun component_status :: "string set \<Rightarrow> string set \<Rightarrow> string \<Rightarrow> string list \<Rightarrow> string" where
  "component_status healthy configured status [] = status"
| "component_status healthy configured status (t # ts) =
     (if t \<in> healthy then ''healthy''
      else component_status healthy configured (if t \<in> configured then ''unhealthy'' else status) ts)"

definition Components :: "Connection list \<Rightarrow> Component list" where
  "Components connections =
     (let healthy = set (map con_Type (filter (\<lambda>c. con_Status c = ''healthy'') connections)); configured = set (map con_Type connections) in
      \<lparr>cmp_Name = ''API Gateway'', cmp_Category = ''Control plane'', cmp_Status = ''healthy'',
       cmp_Description = ''Go REST gateway and unified platform contract'', cmp_URL = []\<rparr> #
      map (\<lambda>spec. \<lparr>cmp_Name = cs_name spec, cmp_Category = cs_category spec,
        cmp_Status = component_status healthy configured ''not_configured'' (cs_types spec),
        cmp_Description = cs_description spec, cmp_URL = []\<rparr>) componentSpecs)"

subsection \<open>The catalog\<close>

text \<open>\<open>%.3g\<close>: three significant digits, rounded to even, without trailing zeros.\<close>

definition three_digits :: "f64 \<Rightarrow> string \<times> int" where
  "three_digits w =
     (let n = \<bar>f64_scaled w\<bar>; dp = dec_point n; num = 10 ^ nat (3 - dp); den = 2 ^ 1074 * 10 ^ nat (dp - 3);
          t = n * num div den; r = n * num mod den;
          d = Itoa (if den < 2 * r \<or> 2 * r = den \<and> odd t then t + 1 else t)
      in (TrimRightByte (CHR ''0'') d, dp + int (length d) - 3))"

definition fmt_g3 :: "f64 \<Rightarrow> string" where
  "fmt_g3 w =
     (if f64_is_nan w then ''NaN''
      else let sign = (if f64_neg w then ''-'' else []) in
      if \<not> f64_finite w then (if f64_neg w then ''-Inf'' else ''+Inf'')
      else if f64_scaled w = 0 then sign @ ''0''
      else let (ds, dp) = three_digits w; eprec = (if length ds < 3 \<and> dp \<le> int (length ds) then int (length ds) else 3)
           in sign @ (if dp - 1 < - 4 \<or> eprec \<le> dp - 1 then fmt_e ds dp else fmt_f ds dp))"

text \<open>\<open>CatalogSource\<close> is the four lists; \<open>order\<close> is the order in which the metrics of a model are ranged over.\<close>

definition model_item :: "(Model \<Rightarrow> nat list) \<Rightarrow> Model \<Rightarrow> CatalogItem" where
  "model_item order m = \<lparr>ci_Name = mdl_Name m, ci_Version = mdl_Version m, ci_Status = (if mdl_Stage m = [] then ''registered'' else mdl_Stage m),
     ci_Kind = ''model'', ci_Metadata = map (\<lambda>(n, v). n @ '' '' @ fmt_g3 v) (range_order (order m) (mdl_Metrics m))\<rparr>"

definition feature_item :: "FeatureView \<Rightarrow> CatalogItem" where
  "feature_item v = \<lparr>ci_Name = fv_Name v, ci_Version = fv_Entity v, ci_Status = fv_Status v, ci_Kind = ''feature'',
     ci_Metadata = [Itoa (int (length (fv_Fields v))) @ '' fields''] @
       (if 0 < fv_TTLSeconds v then [''TTL '' @ Itoa (fv_TTLSeconds v) @ ''s''] else []) @
       (if 0 < fv_OnlineEntityCount v then [Itoa (fv_OnlineEntityCount v) @ '' entities online''] else [])\<rparr>"

definition agent_item :: "Agent \<Rightarrow> CatalogItem" where
  "agent_item a = \<lparr>ci_Name = agt_Name a, ci_Version = agt_Version a, ci_Status = agt_Status a, ci_Kind = ''agent'',
     ci_Metadata = [agt_LLMBackend a, Itoa (int (length (agt_Tools a))) @ '' tools'']\<rparr>"

definition tool_item :: "Tool \<Rightarrow> CatalogItem" where
  "tool_item t = \<lparr>ci_Name = tool_Name t, ci_Version = tool_Version t, ci_Status = tool_Status t, ci_Kind = ''tool'', ci_Metadata = tool_Tags t\<rparr>"

definition Catalog :: "(Model \<Rightarrow> nat list) \<Rightarrow> Model list \<Rightarrow> FeatureView list \<Rightarrow> Agent list \<Rightarrow> Tool list \<Rightarrow> CatalogItem list" where
  "Catalog order models views agents tools =
     map (model_item order) models @ map feature_item views @ map agent_item agents @ map tool_item tools"

definition scopedCatalog :: "(Model \<Rightarrow> nat list) \<Rightarrow> Store \<Rightarrow> string set option \<Rightarrow> CatalogItem list" where
  "scopedCatalog order s allowed =
     Catalog order (filterModels (Store_Models s) allowed) (Store_FeatureViews s) (filterAgents (Store_Agents s) allowed) (Store_Tools s)"

definition h_catalog :: "(Model \<Rightarrow> nat list) \<Rightarrow> Store \<Rightarrow> Principal \<Rightarrow> string \<Rightarrow> CatalogItem list" where
  "h_catalog order s p query =
     (let items = scopedCatalog order s (allowedProjectIDs (store_view s) p); kind = query_get query ''kind'' in
      if kind = [] then items else filter (\<lambda>item. ci_Kind item = kind) items)"

definition h_components :: "Store \<Rightarrow> Component list" where
  "h_components s = Components (Store_Connections s)"

subsection \<open>Listings\<close>

text \<open>\<open>api.Page\<close>, and the answer of \<open>me\<close>: what the console renders is what the role table allows. A request without a principal is refused.\<close>

record 'a Page =
  pg_Items :: "'a list"
  pg_Total :: int

definition page_of :: "'a list \<Rightarrow> 'a Page" where
  "page_of items = \<lparr>pg_Items = items, pg_Total = int (length items)\<rparr>"

record me_answer =
  me_subject :: string
  me_email :: string
  me_roles :: "string list"
  me_mode :: string
  me_permissions :: "(string \<times> bool) list"
  me_services :: "string list"
  me_project_ids :: "string list"
  me_provisioned :: bool
  me_entitlements :: "UserAccess option"

definition h_me :: "string \<Rightarrow> Store \<Rightarrow> Principal option \<Rightarrow> me_answer response" where
  "h_me issuer s caller = (case caller of
      None \<Rightarrow> Fail 401 ''unauthenticated''
    | Some p \<Rightarrow> Reply 200 \<lparr>me_subject = pr_Subject p, me_email = pr_Email p, me_roles = pr_Roles p,
        me_mode = (if issuer \<noteq> [] then ''oidc'' else ''local''), me_permissions = Permissions p, me_services = pr_Services p,
        me_project_ids = pr_ProjectIDs p, me_provisioned = pr_Provisioned p, me_entitlements = accessFor (store_view s) p\<rparr>)"

definition h_userAccess :: "Store \<Rightarrow> UserAccess list" where
  "h_userAccess s = Store_UserAccess s"

definition h_resourceProfiles :: "ResourceProfile Page" where
  "h_resourceProfiles = page_of ResourceProfiles"

definition h_myAccessRequests :: "Store \<Rightarrow> Principal \<Rightarrow> AccessRequest Page" where
  "h_myAccessRequests s p = page_of (Store_AccessRequestsFor s (pr_Subject p))"

definition h_accessRequests :: "Store \<Rightarrow> AccessRequest Page" where
  "h_accessRequests s = page_of (Store_AccessRequests s)"

definition h_adminBlogPosts :: "Store \<Rightarrow> BlogPost Page" where
  "h_adminBlogPosts s = page_of (Store_BlogPosts s)"

definition h_features :: "Store \<Rightarrow> FeatureView Page" where
  "h_features s = page_of (Store_FeatureViews s)"

definition h_tools :: "Store \<Rightarrow> Tool Page" where
  "h_tools s = page_of (Store_Tools s)"

definition h_connections :: "Store \<Rightarrow> Connection Page" where
  "h_connections s = page_of (Store_Connections s)"

definition h_audit :: "Store \<Rightarrow> AuditEvent Page" where
  "h_audit s = page_of (st_Audit (data s))"

definition h_health :: "string gomap" where
  "h_health = [(''status'', ''ok''), (''service'', ''mlaiops-gateway''), (''version'', ''0.1.0'')]"

text \<open>The first post of the blog, added when the gateway starts; its static text is a parameter.\<close>

definition seed_slug :: string where
  "seed_slug = ''mounting-s3-as-a-filesystem-in-jupyter''"

definition seed_post :: "string \<Rightarrow> UpsertBlogPostRequest" where
  "seed_post content = \<lparr>ubr_Slug = seed_slug, ubr_Title = ''Mounting S3 as a filesystem inside Jupyter'',
     ubr_Summary = ''A production-minded guide to making object storage feel local in notebooks with S3FS, FUSE, containers, permissions, health checks, and honest operational trade-offs.'',
     ubr_Content = content, ubr_Author = ''Nexus Engineering'', ubr_Tags = [''Jupyter'', ''S3'', ''Infrastructure'', ''MLOps''], ubr_Status = ''published''\<rparr>"

definition ensureSeedBlog :: "env \<Rightarrow> string \<Rightarrow> Store \<Rightarrow> Store" where
  "ensureSeedBlog e content s =
     (if list_ex (\<lambda>post. bp_Slug post = seed_slug) (Store_BlogPosts s) then s
      else fst (Store_UpsertBlogPost e s [] (seed_post content) ''system''))"

subsection \<open>Readiness and the dashboard\<close>

definition choose_status :: "bool \<Rightarrow> string \<Rightarrow> string \<Rightarrow> string" where
  "choose_status b yes no = (if b then yes else no)"

definition readinessFor :: "Store \<Rightarrow> Readiness" where
  "readinessFor s =
     (let healthy = set (map con_Type (filter (\<lambda>c. con_Status c = ''healthy'') (Store_Connections s)));
          items = map (\<lambda>(k, l, b, d, a). \<lparr>ri_Key = k, ri_Label = l, ri_Status = choose_status b ''ready'' ''pending'', ri_Description = d, ri_Action = a\<rparr>)
            [(''workspace'', ''Create a workspace'', Store_Projects s \<noteq> [], ''A project namespace and defaults are available.'', ''projects''),
             (''kubernetes'', ''Connect Kubernetes'', ''kubernetes'' \<in> healthy, ''Required to schedule pipelines and serving workloads.'', ''platform''),
             (''tracking'', ''Connect MLflow'', ''mlflow'' \<in> healthy, ''Tracks experiments, artifacts and model versions.'', ''platform''),
             (''storage'', ''Connect object storage'', ''s3'' \<in> healthy \<or> ''minio'' \<in> healthy, ''Stores datasets, models and pipeline artifacts.'', ''platform''),
             (''events'', ''Connect Kafka'', ''kafka'' \<in> healthy, ''Carries durable lifecycle and audit events.'', ''platform'')];
          ready = length (filter (\<lambda>item. ri_Status item = ''ready'') items)
      in \<lparr>rdy_Percent = int ready * 100 div int (length items), rdy_Ready = (ready = length items), rdy_Items = items\<rparr>)"

definition h_dashboard :: "Store \<Rightarrow> Principal \<Rightarrow> Dashboard" where
  "h_dashboard s p =
     (let projects = filterProjects (Store_Projects s) p; runs = filterRuns (Store_Runs s) (allowedProjectIDs (store_view s) p);
          components = Components (Store_Connections s)
      in \<lparr>dsh_Projects = int (length projects),
          dsh_ActiveRuns = int (length (filter (\<lambda>r. run_Status r = ''running'' \<or> run_Status r = ''queued'') runs)),
          dsh_Healthy = int (length (filter (\<lambda>c. cmp_Status c = ''healthy'') components)), dsh_Total = int (length components),
          dsh_RecentRuns = (if 5 < length runs then take 5 runs else runs), dsh_OnboardingPct = rdy_Percent (readinessFor s)\<rparr>)"

subsection \<open>The event stream\<close>

text \<open>The layout \<open>time.RFC3339Nano\<close> of a time in UTC: the fraction of a second loses its trailing zeros.\<close>

definition rfc3339 :: "time \<Rightarrow> string" where
  "rfc3339 t = (let (y, m, d) = civil (t div (86400 * 1000000000)); s = t div 1000000000 mod 86400 in
     padded 4 y @ ''-'' @ padded 2 m @ ''-'' @ padded 2 d @ ''T'' @ padded 2 (s div 3600) @ '':'' @ padded 2 (s mod 3600 div 60) @ '':'' @ padded 2 (s mod 60))"

definition RFC3339Nano :: "time \<Rightarrow> string" where
  "RFC3339Nano t = (let ns = t mod 1000000000 in
     rfc3339 t @ (if ns = 0 then [] else ''.'' @ TrimRightByte (CHR ''0'') (padded 9 ns)) @ ''Z'')"

definition latest :: "time list \<Rightarrow> string" where
  "latest ts = foldl (\<lambda>best t. if best < RFC3339Nano t then RFC3339Nano t else best) [] ts"

type_synonym realtime = "gany gomap gomap"

record digest =
  dg_runs :: int
  dg_active_runs :: int
  dg_latest_run :: string
  dg_sessions :: int
  dg_latest_session :: string
  dg_models :: int
  dg_agents :: int
  dg_connections :: int
  dg_features :: int
  dg_realtime_events :: f64

definition realtime_sum :: "(string \<times> gany gomap) list \<Rightarrow> f64" where
  "realtime_sum stats = foldl (\<lambda>acc (demo, m). case map_of m ''events'' of Some (AnyFloat x) \<Rightarrow> f64_add acc x | _ \<Rightarrow> acc) 0 stats"

text \<open>\<open>seed\<close> is the order in which the statistics are ranged over.\<close>

definition Server_digest :: "nat list \<Rightarrow> Store \<Rightarrow> realtime \<Rightarrow> digest" where
  "Server_digest seed s rt =
     \<lparr>dg_runs = int (length (Store_Runs s)),
      dg_active_runs = int (length (filter (\<lambda>r. run_Status r = ''running'' \<or> run_Status r = ''queued'') (Store_Runs s))),
      dg_latest_run = latest (map run_UpdatedAt (Store_Runs s)),
      dg_sessions = int (length (Store_AgentSessions s [])),
      dg_latest_session = latest (map ses_UpdatedAt (Store_AgentSessions s [])),
      dg_models = int (length (Store_Models s)), dg_agents = int (length (Store_Agents s)),
      dg_connections = int (length (Store_Connections s)), dg_features = int (length (Store_FeatureViews s)),
      dg_realtime_events = realtime_sum (range_order seed rt)\<rparr>"

text \<open>
  One connection of the stream: a digest at once and one per tick, until the client leaves, a
  write fails or a digest cannot be encoded. A tick carries the order of the ranged map, the
  store and the statistics it finds, and whether the write succeeds.
\<close>

type_synonym tick = "nat list \<times> Store \<times> realtime \<times> bool"

fun events_stream :: "(digest \<Rightarrow> string option) \<Rightarrow> tick list \<Rightarrow> string list" where
  "events_stream encode [] = []"
| "events_stream encode ((seed, s, rt, written) # ticks) =
     (case encode (Server_digest seed s rt) of None \<Rightarrow> []
      | Some raw \<Rightarrow> if \<not> written then [] else (''data: '' @ raw @ [CHR 0x0A, CHR 0x0A]) # events_stream encode ticks)"

text \<open>\<open>flusher\<close>: whether the response writer can stream.\<close>

definition h_events :: "bool \<Rightarrow> (digest \<Rightarrow> string option) \<Rightarrow> tick list \<Rightarrow> string list response" where
  "h_events flusher encode ticks = (if \<not> flusher then Fail 500 ''streaming_unsupported'' else Reply 200 (events_stream encode ticks))"

subsection \<open>Live statistics\<close>

definition h_realtimeStats :: "realtime \<Rightarrow> realtime" where
  "h_realtimeStats rt = rt"

text \<open>A report; the body \<open>null\<close> decodes to a nil map, into which the handler's assignment panics: \<open>None\<close>.\<close>

definition put_key :: "'v gomap \<Rightarrow> string \<Rightarrow> 'v \<Rightarrow> 'v gomap" where
  "put_key m k v = filter (\<lambda>e. fst e \<noteq> k) m @ [(k, v)]"

datatype map_body = Undecodable | NullBody | Body "gany gomap"

definition h_reportRealtime :: "realtime \<Rightarrow> time \<Rightarrow> string \<Rightarrow> map_body \<Rightarrow> (realtime \<times> unit response) option" where
  "h_reportRealtime rt now demo body =
     (case body of
        Undecodable \<Rightarrow> Some (rt, Fail 400 ''invalid_request'')
      | NullBody \<Rightarrow> None
      | Body payload \<Rightarrow> Some (put_key rt demo (put_key payload ''updated_at'' (AnyStr (rfc3339 now @ ''Z''))), Reply 200 ()))"

subsection \<open>Properties\<close>

text \<open>A component is healthy exactly when a checked connection of one of its types is, and not configured exactly when there is none.\<close>

lemma component_status_spec:
  "component_status H C st ts =
     (if \<exists>t \<in> set ts. t \<in> H then ''healthy'' else if \<exists>t \<in> set ts. t \<in> C then ''unhealthy'' else st)"
  by (induction ts arbitrary: st) auto

lemma Components_length: "length (Components cs) = 9"
  by (simp add: Components_def componentSpecs_def Let_def)

lemma filterRuns_scope: "r \<in> set (filterRuns rs allowed) \<Longrightarrow> r \<in> set rs \<and> (\<forall>ids. allowed = Some ids \<longrightarrow> run_ProjectID r \<in> ids)"
  by (auto simp: filterRuns_def filter_by_project_def split: option.splits)

text \<open>The dashboard and the catalog show a caller nothing of projects out of scope; tools and feature views belong to no project.\<close>

lemma dashboard_scoped: "r \<in> set (dsh_RecentRuns (h_dashboard s p)) \<Longrightarrow> r \<in> set (st_Runs (data s)) \<and> run_ProjectID r \<in> scope (store_view s) p"
proof -
  assume "r \<in> set (dsh_RecentRuns (h_dashboard s p))"
  then have "r \<in> set (filterRuns (Store_Runs s) (allowedProjectIDs (store_view s) p))"
    by (auto simp: h_dashboard_def Let_def dest: in_set_takeD split: if_splits)
  then show ?thesis by (auto simp: filterRuns_def scope_filter Store_Runs_def)
qed

lemma catalog_scoped:
  assumes "item \<in> set (h_catalog order s p query)"
  shows "(\<exists>x \<in> set (st_Models (data s)). mdl_ProjectID x \<in> scope (store_view s) p \<and> item = model_item order x) \<or>
    (\<exists>x \<in> set (st_Agents (data s)). agt_ProjectID x \<in> scope (store_view s) p \<and> item = agent_item x) \<or>
    item \<in> feature_item ` set (st_Features (data s)) \<or> item \<in> tool_item ` set (st_Tools (data s))"
proof -
  have "item \<in> set (scopedCatalog order s (allowedProjectIDs (store_view s) p))" using assms by (auto simp: h_catalog_def Let_def split: if_splits)
  then show ?thesis
    by (auto simp: scopedCatalog_def Catalog_def filterModels_def filterAgents_def scope_filter Store_Models_def Store_Agents_def
        Store_FeatureViews_def Store_Tools_def)
qed

text \<open>The percentage of the readiness check is one, and full exactly when everything is ready.\<close>

lemma readiness_percent: "rdy_Percent (readinessFor s) \<in> {0..100}" "rdy_Ready (readinessFor s) \<longleftrightarrow> rdy_Percent (readinessFor s) = 100"
proof -
  define items where "items = rdy_Items (readinessFor s)"
  define ready where "ready = length (filter (\<lambda>item. ri_Status item = ''ready'') items)"
  have five: "length items = 5" by (simp add: items_def readinessFor_def Let_def)
  have r: "rdy_Percent (readinessFor s) = int ready * 100 div 5" "rdy_Ready (readinessFor s) \<longleftrightarrow> ready = 5"
    using five unfolding ready_def items_def by (simp_all add: readinessFor_def Let_def)
  have "ready \<le> 5" using five length_filter_le [of _ items] unfolding ready_def by metis
  then show "rdy_Percent (readinessFor s) \<in> {0..100}" "rdy_Ready (readinessFor s) \<longleftrightarrow> rdy_Percent (readinessFor s) = 100" unfolding r by auto
qed

text \<open>A second start finds the first post.\<close>

lemma seed_slug_slug: "slug seed_slug = seed_slug" "seed_slug \<noteq> []"
  by code_simp+

lemma seed_post_valid:
  assumes "100 \<le> length (TrimSpace content)"
  obtains req where "validateBlog (seed_post content) = (req, None)" "ubr_Slug req = seed_slug"
proof -
  have "5 \<le> length (TrimSpace (ubr_Title (seed_post content)))" "20 \<le> length (TrimSpace (ubr_Summary (seed_post content)))"
    by (simp_all add: seed_post_def, code_simp+)
  then show thesis using assms that by (fastforce simp: validateBlog_def Let_def seed_post_def seed_slug_slug)
qed

lemma ensureSeedBlog_once:
  assumes "100 \<le> length (TrimSpace content)"
  shows "ensureSeedBlog e' content (ensureSeedBlog e content s) = ensureSeedBlog e content s"
proof (cases "list_ex (\<lambda>post. bp_Slug post = seed_slug) (Store_BlogPosts s)")
  case True
  then show ?thesis by (simp add: ensureSeedBlog_def)
next
  case False
  obtain req where v: "validateBlog (seed_post content) = (req, None)" "ubr_Slug req = seed_slug" by (rule seed_post_valid [OF assms])
  have free: "\<not> list_ex (\<lambda>p. bp_Slug p = seed_slug \<and> bp_ID p \<noteq> []) (Store_BlogPosts s)" using False by (auto simp: list_ex_iff)
  have "list_ex (\<lambda>post. bp_Slug post = seed_slug) (Store_BlogPosts (fst (Store_UpsertBlogPost e s [] (seed_post content) ''system'')))"
  proof (cases "find (\<lambda>p. bp_ID p = []) (st_BlogPosts (data s))")
    case None
    with v free show ?thesis by (simp add: Store_UpsertBlogPost_def Let_def Store_BlogPosts_def)
  next
    case (Some p)
    with v free show ?thesis
      by (auto simp: Store_UpsertBlogPost_def Let_def Store_BlogPosts_def list_ex_iff intro!: bexI [OF _ update_first_mem [OF Some]])
  qed
  then show ?thesis by (simp add: ensureSeedBlog_def)
qed

text \<open>The texts of two times are not ordered like the times, so that an update can go unnoticed: a fraction that ends earlier sorts behind.\<close>

lemma rfc3339_epoch: "0 \<le> t \<Longrightarrow> t < 1000000000 \<Longrightarrow> rfc3339 t = ''1970-01-01T00:00:00''"
proof -
  have itoa: "Itoa 1970 = ''1970''" "Itoa 1 = ''1''" "Itoa 0 = ''0''" by (simp_all add: Itoa_def dec_nat.simps char_of_eval)
  assume "0 \<le> t" "t < 1000000000"
  then have "t div (86400 * 1000000000) = 0" "t div 1000000000 = 0" by simp_all
  moreover have "civil 0 = (1970, 1, 1)" by code_simp
  moreover have "padded 4 1970 = ''1970''" "padded 2 1 = ''01''" "padded 2 0 = ''00''" by (simp_all add: padded_def itoa Let_def)
  ultimately show "rfc3339 t = ''1970-01-01T00:00:00''" by (simp add: rfc3339_def Let_def)
qed

lemma rfc3339_texts:
  "RFC3339Nano 50000000 = ''1970-01-01T00:00:00.05Z''" "RFC3339Nano 100000000 = ''1970-01-01T00:00:00.1Z''" "RFC3339Nano 120000000 = ''1970-01-01T00:00:00.12Z''"
proof -
  have "Itoa 50000000 = ''50000000''" "Itoa 100000000 = ''100000000''" "Itoa 120000000 = ''120000000''"
    by (simp_all add: Itoa_def dec_nat.simps char_of_eval)
  then have "padded 9 50000000 = ''050000000''" "padded 9 100000000 = ''100000000''" "padded 9 120000000 = ''120000000''"
    by (simp_all add: padded_def Let_def)
  then show "RFC3339Nano 50000000 = ''1970-01-01T00:00:00.05Z''" "RFC3339Nano 100000000 = ''1970-01-01T00:00:00.1Z''" "RFC3339Nano 120000000 = ''1970-01-01T00:00:00.12Z''"
    by (simp_all add: RFC3339Nano_def rfc3339_epoch TrimRightByte_def Let_def)
qed

lemma digest_misses_update: "latest [100000000, 50000000] = latest [100000000, 120000000]"
proof -
  have "\<not> ''1970-01-01T00:00:00.1Z'' < ''1970-01-01T00:00:00.05Z''" "\<not> ''1970-01-01T00:00:00.1Z'' < ''1970-01-01T00:00:00.12Z''" by code_simp+
  then show ?thesis by (simp add: latest_def rfc3339_texts)
qed

end
