(* ===== verification/Metrics.thy ===== *)
theory Metrics
  imports Console Clients Features
begin

text \<open>
  The metrics collector: \<^verbatim>\<open>go/internal/metrics\<close> and \<open>parseTargets\<close> of
  \<^verbatim>\<open>go/cmd/metrics-collector/main.go\<close>. The network is the parameter of \<open>Clients\<close>; the JSON
  decoders of the gateway's answers and \<open>strconv.Quote\<close> (the verb \<open>%q\<close>) are parameters too.
\<close>

subsection \<open>Health of the components\<close>

record Collector =
  co_targets :: "string gomap"
  co_up :: "string \<rightharpoonup> f64"
  co_checked :: "string \<rightharpoonup> time"

definition NewCollector :: "string gomap \<Rightarrow> Collector" where
  "NewCollector targets = \<lparr>co_targets = targets, co_up = Map.empty, co_checked = Map.empty\<rparr>"

definition get_request :: "string \<Rightarrow> string gomap \<Rightarrow> http_request" where
  "get_request target headers = \<lparr>hq_Method = ''GET'', hq_URL = target, hq_Headers = headers, hq_BasicAuth = None, hq_Body = None\<rparr>"

definition probe :: "web \<Rightarrow> string \<Rightarrow> f64" where
  "probe w endpoint =
     (if url_Parse endpoint = None then f64_of_int 0
      else case web_do w (get_request endpoint []) of
        Inr _ \<Rightarrow> f64_of_int 0
      | Inl response \<Rightarrow> if 200 \<le> hr_Status response \<and> hr_Status response < 300 then f64_of_int 1 else f64_of_int 0)"

text \<open>The targets are a Go map, ranged over in the order of \<open>seed\<close>; \<open>now\<close> is the time each check ends.\<close>

definition Collector_Poll :: "web \<Rightarrow> (string \<Rightarrow> time) \<Rightarrow> nat list \<Rightarrow> Collector \<Rightarrow> Collector" where
  "Collector_Poll w now seed c =
     foldl (\<lambda>c (name, endpoint). c\<lparr>co_up := (co_up c)(name \<mapsto> probe w endpoint), co_checked := (co_checked c)(name \<mapsto> now name)\<rparr>)
       c (range_order seed (co_targets c))"

definition newline :: string where "newline = [CHR 0x0A]"

text \<open>The Unix time of a \<open>time.Time\<close>, and of its zero value.\<close>

definition unix_seconds :: "time option \<Rightarrow> int" where
  "unix_seconds t = (case t of Some t \<Rightarrow> t div 1000000000 | None \<Rightarrow> - 62135596800)"

definition Collector_Prometheus :: "(string \<Rightarrow> string) \<Rightarrow> Collector \<Rightarrow> string" where
  "Collector_Prometheus quote c =
     (let names = sort (map fst (co_targets c)) in
      ''# HELP mlaiops_component_up Whether a platform component health endpoint is reachable.'' @ newline @
      ''# TYPE mlaiops_component_up gauge'' @ newline @
      concat (map (\<lambda>name. ''mlaiops_component_up{component='' @ quote name @ ''} '' @
        fmt_g (case co_up c name of Some x \<Rightarrow> x | None \<Rightarrow> f64_of_int 0) @ newline) names) @
      ''# HELP mlaiops_component_last_check_timestamp_seconds Last component health check.'' @ newline @
      ''# TYPE mlaiops_component_last_check_timestamp_seconds gauge'' @ newline @
      concat (map (\<lambda>name. ''mlaiops_component_last_check_timestamp_seconds{component='' @ quote name @ ''} '' @
        Itoa (unix_seconds (co_checked c name)) @ newline) names))"

definition parseTargets :: "string \<Rightarrow> string gomap" where
  "parseTargets raw =
     (if raw = [] then [(''gateway'', ''http://mlaiops-gateway:8080/api/v1/health'')]
      else foldl (\<lambda>m item. if has_byte (CHR ''='') item
             then (let (k, v) = Cut (CHR ''='') item in put_key m (TrimSpace k) (TrimSpace v)) else m) [] (split_on (CHR '','') raw))"

subsection \<open>Platform metrics\<close>

record PlatformCollector =
  pl_GatewayURL :: string
  pl_Token :: string
  pl_metrics :: "f64 gomap"
  pl_scraped :: "time option"

definition NewPlatformCollector :: "string \<Rightarrow> string \<Rightarrow> PlatformCollector" where
  "NewPlatformCollector gatewayURL token =
     \<lparr>pl_GatewayURL = TrimRightByte (CHR ''/'') gatewayURL, pl_Token = token, pl_metrics = [], pl_scraped = None\<rparr>"

record usage_answer =
  ug_Sessions :: int
  ug_Active :: int
  ug_InputTokens :: f64
  ug_OutputTokens :: f64
  ug_CostUSD :: f64

record gateway_answers =
  ga_agents :: "string \<Rightarrow> string list option"
  ga_usage :: "string \<Rightarrow> usage_answer option"
  ga_runs :: "string \<Rightarrow> string list option"
  ga_realtime :: "string \<Rightarrow> (string \<times> gany gomap) list option"

definition answer_limit :: nat where
  "answer_limit = 4194304"

definition platform_get :: "web \<Rightarrow> PlatformCollector \<Rightarrow> string \<Rightarrow> (string \<Rightarrow> 'a option) \<Rightarrow> 'a + error" where
  "platform_get w p path decode =
     (let target = pl_GatewayURL p @ path in
      if url_Parse target = None then Inr (Err ''invalid URL'')
      else case web_do w (get_request target (if pl_Token p \<noteq> [] then [(''Authorization'', ''Bearer '' @ pl_Token p)] else [])) of
        Inr err \<Rightarrow> Inr err
      | Inl response \<Rightarrow>
          if hr_Status response \<noteq> 200 then Inr (Err (''gateway returned '' @ hr_StatusText response @ '' for '' @ path))
          else case decode (take answer_limit (hr_Body response)) of None \<Rightarrow> Inr ErrJSON | Some v \<Rightarrow> Inl v)"

definition agent_metrics :: "(string \<Rightarrow> string) \<Rightarrow> web \<Rightarrow> gateway_answers \<Rightarrow> PlatformCollector \<Rightarrow> f64 gomap \<Rightarrow> string \<Rightarrow> f64 gomap" where
  "agent_metrics quote w ga p collected agent =
     (case platform_get w p (''/api/v1/agents/'' @ agent @ ''/usage'') (ga_usage ga) of
        Inr _ \<Rightarrow> collected
      | Inl usage \<Rightarrow>
          (let label = ''{agent='' @ quote agent @ ''}'' in
           foldl (\<lambda>m (k, v). put_key m k v) collected
             [(''mlaiops_agent_active_sessions'' @ label, f64_of_int (ug_Active usage)),
              (''mlaiops_agent_sessions_total'' @ label, f64_of_int (ug_Sessions usage)),
              (''mlaiops_llm_tokens_used_total{agent='' @ quote agent @ '',type='' @ quote ''input'' @ ''}'', ug_InputTokens usage),
              (''mlaiops_llm_tokens_used_total{agent='' @ quote agent @ '',type='' @ quote ''output'' @ ''}'', ug_OutputTokens usage),
              (''mlaiops_llm_cost_usd_total'' @ label, ug_CostUSD usage)]))"

definition status_counts :: "string list \<Rightarrow> f64 gomap" where
  "status_counts runs = foldl (\<lambda>m st. put_key m st (f64_add (case map_of m st of Some x \<Rightarrow> x | None \<Rightarrow> f64_of_int 0) (f64_of_int 1))) [] runs"

definition run_metric :: "(string \<Rightarrow> string) \<Rightarrow> string \<Rightarrow> string" where
  "run_metric quote status = ''mlaiops_pipeline_runs_total{status='' @ quote status @ ''}''"

definition put_float :: "f64 gomap \<Rightarrow> string \<Rightarrow> gany option \<Rightarrow> f64 gomap" where
  "put_float m k v = (case v of Some (AnyFloat x) \<Rightarrow> put_key m k x | _ \<Rightarrow> m)"

definition demo_metrics :: "(string \<Rightarrow> string) \<Rightarrow> f64 gomap \<Rightarrow> string \<times> gany gomap \<Rightarrow> f64 gomap" where
  "demo_metrics quote collected demo_stats =
     (let label = ''{demo='' @ quote (fst demo_stats) @ ''}''; stats = map_of (snd demo_stats) in
      put_float (put_float (put_float collected (''mlaiops_realtime_events_total'' @ label) (stats ''events''))
        (''mlaiops_realtime_avg_latency_ms'' @ label) (stats ''avg_latency_ms'')) (''mlaiops_realtime_flagged_total'' @ label) (stats ''flagged''))"

text \<open>The counts of the runs and the demos come from Go maps; \<open>seeds\<close> gives their orders. \<open>Poll\<close> never fails.\<close>

definition Platform_Poll ::
  "(string \<Rightarrow> string) \<Rightarrow> web \<Rightarrow> gateway_answers \<Rightarrow> time \<Rightarrow> nat list \<times> nat list \<Rightarrow> PlatformCollector \<Rightarrow> PlatformCollector" where
  "Platform_Poll quote w ga now seeds p =
     (if pl_GatewayURL p = [] then p
      else let c1 = (case platform_get w p ''/api/v1/agents'' (ga_agents ga) of Inr _ \<Rightarrow> [] | Inl agents \<Rightarrow> foldl (agent_metrics quote w ga p) [] agents);
               c2 = (case platform_get w p ''/api/v1/pipelines/runs'' (ga_runs ga) of Inr _ \<Rightarrow> c1
                 | Inl runs \<Rightarrow> foldl (\<lambda>m (st, n). put_key m (run_metric quote st) n) c1 (range_order (fst seeds) (status_counts runs)));
               c3 = (case platform_get w p ''/api/v1/realtime'' (ga_realtime ga) of Inr _ \<Rightarrow> c2
                 | Inl demos \<Rightarrow> foldl (demo_metrics quote) c2 (range_order (snd seeds) demos))
           in p\<lparr>pl_metrics := c3, pl_scraped := Some now\<rparr>)"

definition Platform_Prometheus :: "PlatformCollector \<Rightarrow> string" where
  "Platform_Prometheus p =
     ''# Platform metrics aggregated from control-plane state.'' @ newline @
     concat (map (\<lambda>k. k @ '' '' @ fmt_g (the (map_of (pl_metrics p) k)) @ newline) (sort (map fst (pl_metrics p)))) @
     (case pl_scraped p of None \<Rightarrow> [] | Some t \<Rightarrow> ''mlaiops_platform_last_scrape_timestamp_seconds '' @ Itoa (t div 1000000000) @ newline)"

text \<open>A tick of \<^verbatim>\<open>cmd/metrics-collector\<close>, and the page it serves.\<close>

definition metrics_tick ::
  "(string \<Rightarrow> string) \<Rightarrow> web \<Rightarrow> gateway_answers \<Rightarrow> (string \<Rightarrow> time) \<Rightarrow> time \<Rightarrow> nat list \<Rightarrow> nat list \<times> nat list \<Rightarrow>
     Collector \<times> PlatformCollector \<Rightarrow> Collector \<times> PlatformCollector" where
  "metrics_tick quote w ga ends now seed seeds cp = (Collector_Poll w ends seed (fst cp), Platform_Poll quote w ga now seeds (snd cp))"

definition metrics_page :: "(string \<Rightarrow> string) \<Rightarrow> Collector \<times> PlatformCollector \<Rightarrow> string" where
  "metrics_page quote cp = Collector_Prometheus quote (fst cp) @ Platform_Prometheus (snd cp)"

subsection \<open>What is measured\<close>

lemma f64_add_ints:
  assumes "0 \<le> a" "0 < b" "a + b < 2 ^ 53"
  shows "f64_add (f64_of_int a) (f64_of_int b) = f64_of_int (a + b)"
proof -
  have small: "\<bar>a\<bar> < 2 ^ 53" "\<bar>b\<bar> < 2 ^ 53" using assms by simp_all
  note f = f64_of_int_scaled [OF small(1)] f64_of_int_scaled [OF small(2)]
  have nan: "\<not> f64_is_nan (f64_of_int a)" "\<not> f64_is_nan (f64_of_int b)" using f(1,3) by (auto simp: f64_is_nan_def f64_finite_def)
  have sum: "a * 2 ^ 1074 + b * 2 ^ 1074 = (a + b) * (2 :: int) ^ 1074" by (simp only: distrib_right)
  have scale: "\<bar>(a + b) * K\<bar> = \<bar>a + b\<bar> * K" "(a + b) * K < 0 \<longleftrightarrow> a + b < 0" if "0 < K" for K :: int
    using that by (simp_all add: abs_mult mult_less_0_iff)
  have "f64_add (f64_of_int a) (f64_of_int b) = f64_pack ((a + b) * 2 ^ 1074 < 0) (f64_round_mag \<bar>(a + b) * 2 ^ 1074\<bar>)"
    unfolding f64_add_def using nan f assms(1,2) by (simp only: sum Let_def) (simp add: add_nonneg_eq_0_iff)
  moreover have "\<bar>(a + b) * 2 ^ 1074\<bar> = \<bar>a + b\<bar> * (2 :: int) ^ 1074" "(a + b) * 2 ^ 1074 < (0 :: int) \<longleftrightarrow> a + b < 0"
    using scale [of "2 ^ 1074"] by simp_all
  ultimately show ?thesis by (simp only: f64_of_int_def)
qed

lemma map_of_put_key: "map_of (put_key m k v) x = (if x = k then Some v else map_of m x)"
proof -
  have "map_of (filter (\<lambda>e. fst e \<noteq> k) m) x = (if x = k then None else map_of m x)" by (induction m) auto
  then show ?thesis by (auto simp: put_key_def map_add_def split: option.splits)
qed

lemma distinct_put_key: "distinct (map fst m) \<Longrightarrow> distinct (map fst (put_key m k v))"
  by (auto simp: put_key_def distinct_map_filter)

text \<open>Writes to a map whose keys come from an injective function.\<close>

lemma map_of_put_keys:
  "map_of (foldl (\<lambda>m (x, v). put_key m (f x) v) m kvs) k =
     (case find (\<lambda>(x, v). f x = k) (rev kvs) of Some (x, v) \<Rightarrow> Some v | None \<Rightarrow> map_of m k)"
  by (induction kvs rule: rev_induct) (auto simp: map_of_put_key)

lemma status_counts_spec:
  assumes "int (length runs) < 2 ^ 53"
  shows "map_of (status_counts runs) st = (if st \<in> set runs then Some (f64_of_int (int (count_list runs st))) else None)"
    and "distinct (map fst (status_counts runs))"
proof -
  have "map_of (status_counts runs) st = (if st \<in> set runs then Some (f64_of_int (int (count_list runs st))) else None) \<and> distinct (map fst (status_counts runs))" for st
    using assms
  proof (induction runs arbitrary: st rule: rev_induct)
    case (snoc r runs)
    let ?m = "status_counts runs"
    have step: "status_counts (runs @ [r]) = put_key ?m r (f64_add (case map_of ?m r of Some x \<Rightarrow> x | None \<Rightarrow> f64_of_int 0) (f64_of_int 1))"
      by (simp add: status_counts_def)
    have "int (length runs) < 2 ^ 53" using snoc.prems by simp
    note IH = snoc.IH [OF this]
    have "int (count_list runs r) \<le> int (length runs)" by (simp add: count_le_length)
    then have "f64_add (f64_of_int (int (count_list runs r))) (f64_of_int 1) = f64_of_int (int (count_list runs r) + 1)"
      using snoc.prems by (intro f64_add_ints) auto
    moreover have "(case map_of ?m r of Some x \<Rightarrow> x | None \<Rightarrow> f64_of_int 0) = f64_of_int (int (count_list runs r))"
      using IH [of r] by (auto simp: count_list_0_iff)
    ultimately show ?case using IH [of st] IH [of r] by (auto simp: step map_of_put_key distinct_put_key add.commute)
  qed (simp add: status_counts_def)
  then show "map_of (status_counts runs) st = (if st \<in> set runs then Some (f64_of_int (int (count_list runs st))) else None)"
    "distinct (map fst (status_counts runs))" by blast+
qed

lemma mset_range_order: "mset (range_order seed xs) = mset xs"
proof (induction seed xs rule: range_order.induct)
  case (1 seed xs)
  show ?case
  proof (cases "xs = []")
    case False
    define i where "i = pick seed (length xs)"
    have "i < length xs" using False by (simp add: i_def pick_less)
    then have "mset xs = add_mset (xs ! i) (mset (take i xs @ drop (Suc i) xs))"
      by (metis id_take_nth_drop mset.simps(2) mset_append union_mset_add_mset_right)
    moreover have "mset (range_order (tl seed) (take i xs @ drop (Suc i) xs)) = mset (take i xs @ drop (Suc i) xs)"
      by (rule 1 [OF False i_def])
    ultimately show ?thesis using False by (simp add: range_order.simps [of seed xs] Let_def i_def)
  qed simp
qed

lemma find_key:
  assumes "distinct (map fst kvs)" and "inj f"
  shows "find (\<lambda>(x, v). f x = f k) kvs = map_option (Pair k) (map_of kvs k)"
  using assms by (induction kvs) (auto simp: inj_eq)

text \<open>A Go map that is copied, entry by entry and in any order, is copied.\<close>

lemma copied_entries:
  assumes "distinct (map fst kvs)" and "inj f"
  shows "map_of (foldl (\<lambda>m (x, v). put_key m (f x) v) m (range_order seed kvs)) (f k) = (case map_of kvs k of Some v \<Rightarrow> Some v | None \<Rightarrow> map_of m (f k))"
proof -
  let ?o = "range_order seed kvs"
  have "mset (map fst ?o) = mset (map fst kvs)" by (simp add: mset_range_order)
  then have d: "distinct (map fst ?o)" using assms(1) by (metis mset_eq_imp_distinct_iff)
  have same: "map_of ?o = map_of kvs" using assms(1) d by (simp add: map_of_inject_set)
  have "distinct (map fst (rev ?o))" using d by (simp add: rev_map [symmetric])
  moreover have "map_of (rev ?o) = map_of ?o" using d calculation by (simp only: map_of_inject_set set_rev)
  ultimately show ?thesis unfolding map_of_put_keys using find_key [OF _ assms(2), of "rev ?o" k] same by (auto split: option.splits)
qed

lemma map_of_put_float: "k \<noteq> x \<Longrightarrow> map_of (put_float m k v) x = map_of m x"
  by (auto simp: put_float_def map_of_put_key split: option.split gany.split)

lemma run_metric_frame:
  "map_of (demo_metrics quote m d) (run_metric quote st) = map_of m (run_metric quote st)"
  "map_of (agent_metrics quote w ga p m agent) (run_metric quote st) = map_of m (run_metric quote st)"
  by (simp_all add: demo_metrics_def agent_metrics_def run_metric_def map_of_put_float map_of_put_key Let_def split: sum.split)

lemma foldl_frame: "(\<And>m x. map_of (g m x) k = map_of m k) \<Longrightarrow> map_of (foldl g m xs) k = map_of m k"
  by (induction xs arbitrary: m) auto

text \<open>The counts of a poll are those of the runs the gateway lists, whatever was collected before.\<close>

lemma Platform_Poll_runs:
  assumes "pl_GatewayURL p \<noteq> []" and "platform_get w p ''/api/v1/pipelines/runs'' (ga_runs ga) = Inl runs"
    and "inj quote" and "int (length runs) < 2 ^ 53"
  shows "map_of (pl_metrics (Platform_Poll quote w ga now seeds p)) (run_metric quote st) =
    (if st \<in> set runs then Some (f64_of_int (int (count_list runs st))) else None)"
proof -
  have inj: "inj (run_metric quote)" using assms(3) by (auto simp: inj_def run_metric_def)
  define c1 where "c1 = (case platform_get w p ''/api/v1/agents'' (ga_agents ga) of Inr _ \<Rightarrow> [] | Inl agents \<Rightarrow> foldl (agent_metrics quote w ga p) [] agents)"
  have c1: "map_of c1 (run_metric quote st) = None"
    unfolding c1_def by (simp add: foldl_frame [OF run_metric_frame(2)] split: sum.splits)
  have "map_of (pl_metrics (Platform_Poll quote w ga now seeds p)) (run_metric quote st) =
      map_of (foldl (\<lambda>m (st, n). put_key m (run_metric quote st) n) c1 (range_order (fst seeds) (status_counts runs))) (run_metric quote st)"
    using assms(1,2) by (simp add: Platform_Poll_def c1_def [symmetric] foldl_frame [OF run_metric_frame(1)] Let_def split: sum.split)
  also have "\<dots> = map_of (status_counts runs) st"
    using copied_entries [OF status_counts_spec(2) [OF assms(4)] inj] c1 by (auto split: option.splits)
  finally show ?thesis using status_counts_spec(1) [OF assms(4)] by simp
qed

lemma platform_get_old: "platform_get w (p\<lparr>pl_metrics := old, pl_scraped := t\<rparr>) path decode = platform_get w p path decode"
  by (simp add: platform_get_def Let_def)

lemma Platform_Poll_fresh:
  assumes "pl_GatewayURL p \<noteq> []"
  shows "Platform_Poll quote w ga now seeds (p\<lparr>pl_metrics := old, pl_scraped := t\<rparr>) = Platform_Poll quote w ga now seeds p"
proof -
  have agents: "agent_metrics quote w ga (p\<lparr>pl_metrics := old, pl_scraped := t\<rparr>) = agent_metrics quote w ga p"
    by (intro ext) (simp only: agent_metrics_def platform_get_old)
  show ?thesis unfolding Platform_Poll_def platform_get_old agents using assms by simp
qed

lemma Collector_Poll_up:
  assumes "distinct (map fst (co_targets c))" and "(name, endpoint) \<in> set (co_targets c)"
  shows "co_up (Collector_Poll w now seed c) name = Some (probe w endpoint)"
proof -
  let ?step = "\<lambda>c (name, endpoint). c\<lparr>co_up := (co_up c)(name \<mapsto> probe w endpoint), co_checked := (co_checked c)(name \<mapsto> now name)\<rparr>"
  have fold: "co_up (foldl ?step c' ts) name = (case find (\<lambda>(n, e). n = name) (rev ts) of Some (n, e) \<Rightarrow> Some (probe w e) | None \<Rightarrow> co_up c' name)" for c' ts
    by (induction ts rule: rev_induct) auto
  have "find (\<lambda>(n, e). n = name) (rev (range_order seed (co_targets c))) = Some (name, endpoint)"
  proof -
    have "mset (map fst (rev (range_order seed (co_targets c)))) = mset (map fst (co_targets c))" by (simp add: mset_range_order)
    then have d: "distinct (map fst (rev (range_order seed (co_targets c))))" using assms(1) by (metis mset_eq_imp_distinct_iff)
    then have "map_of (rev (range_order seed (co_targets c))) name = Some endpoint" using assms(2) by simp
    with find_key [OF d, of id name] show ?thesis by simp
  qed
  then show ?thesis unfolding Collector_Poll_def fold by simp
qed

end
