(* ===== verification/Tracing.thy ===== *)
theory Tracing
  imports Metrics
begin

text \<open>
  The trace proxy in front of a language model: \<^verbatim>\<open>go/internal/traceproxy/proxy.go\<close> and the choice
  of the sink in \<^verbatim>\<open>go/cmd/trace-proxy/main.go\<close>. The reverse proxy of the standard library is the
  parameter \<open>forward\<close>: the written it writes for a request, in order.
\<close>

record trace_event =
  te_Agent :: string
  te_Version :: string
  te_SessionID :: string
  te_Model :: string
  te_StatusCode :: int
  te_DurationMS :: int
  te_CreatedAt :: time

definition event_json :: "trace_event \<Rightarrow> gany" where
  "event_json ev = AnyMap ([(''agent'', AnyStr (te_Agent ev)), (''version'', AnyStr (te_Version ev)), (''session_id'', AnyStr (te_SessionID ev))] @
     (if te_Model ev = [] then [] else [(''model'', AnyStr (te_Model ev))]) @
     [(''status_code'', AnyInt (te_StatusCode ev)), (''duration_ms'', AnyInt (te_DurationMS ev)), (''created_at'', AnyTime (te_CreatedAt ev))])"

datatype sink = HTTPSink string string | KafkaRESTSink string

definition marshalled :: "web \<Rightarrow> gany \<Rightarrow> string" where
  "marshalled w v = (case web_marshal w v of Some raw \<Rightarrow> raw | None \<Rightarrow> [])"

definition sink_post :: "string \<Rightarrow> string gomap \<Rightarrow> string \<Rightarrow> http_request list" where
  "sink_post target headers body =
     (if target = [] \<or> url_Parse target = None then []
      else [\<lparr>hq_Method = ''POST'', hq_URL = target, hq_Headers = headers, hq_BasicAuth = None, hq_Body = Some body\<rparr>])"

text \<open>\<open>Emit\<close> of the two sinks: the request sent; the answer is discarded.\<close>

fun Emit :: "web \<Rightarrow> sink \<Rightarrow> trace_event \<Rightarrow> http_request list" where
  "Emit w (HTTPSink target token) ev =
     sink_post target ((''Content-Type'', ''application/json'') # (if token \<noteq> [] then [(''Authorization'', ''Bearer '' @ token)] else []))
       (marshalled w (event_json ev))"
| "Emit w (KafkaRESTSink target) ev =
     sink_post target [(''Content-Type'', ''application/vnd.kafka.json.v2+json'')]
       (marshalled w (AnyMap [(''records'', AnyList [AnyMap [(''value'', event_json ev)]])]))"

definition configured_sink :: "string \<Rightarrow> string \<Rightarrow> string \<Rightarrow> sink" where
  "configured_sink format target token = (if format = ''kafka-rest'' then KafkaRESTSink target else HTTPSink target token)"

record traced_request =
  tr_Path :: string
  tr_Headers :: "string gomap"

definition director :: "string \<Rightarrow> string \<Rightarrow> traced_request \<Rightarrow> traced_request" where
  "director agent version r =
     r\<lparr>tr_Headers := put_key (put_key (tr_Headers r) ''X-MLAIOps-Agent'' agent) ''X-MLAIOps-Agent-Version'' version\<rparr>"

text \<open>\<open>statusRecorder\<close>: the last status written, 200 when none is.\<close>

definition recorded_status :: "int list \<Rightarrow> int" where
  "recorded_status written = foldl (\<lambda>_ st. st) 200 written"

text \<open>The handler: the request passed on and the event, \<open>None\<close> for the health check.\<close>

definition trace_handler ::
  "string \<Rightarrow> string \<Rightarrow> (traced_request \<Rightarrow> int list) \<Rightarrow> time \<Rightarrow> time \<Rightarrow> traced_request \<Rightarrow> (traced_request \<times> trace_event) option" where
  "trace_handler agent version forward start finish r =
     (if tr_Path r = ''/healthz'' then None
      else Some (director agent version r,
        \<lparr>te_Agent = agent, te_Version = version, te_SessionID = (case map_of (tr_Headers r) ''X-Session-ID'' of Some v \<Rightarrow> v | None \<Rightarrow> []),
         te_Model = [], te_StatusCode = recorded_status (forward (director agent version r)),
         te_DurationMS = (finish - start) div 1000000, te_CreatedAt = finish\<rparr>))"

text \<open>A client cannot pose as another agent, and every request passed on leaves one event with the status the client was given.\<close>

lemma director_headers:
  "map_of (tr_Headers (director agent version r)) k =
     (if k = ''X-MLAIOps-Agent-Version'' then Some version else if k = ''X-MLAIOps-Agent'' then Some agent else map_of (tr_Headers r) k)"
  by (simp add: director_def map_of_put_key)

lemma director_path: "tr_Path (director agent version r) = tr_Path r"
  by (simp add: director_def)

lemma recorded_status_last: "recorded_status written = (if written = [] then 200 else last written)"
  by (induction written rule: rev_induct) (simp_all add: recorded_status_def)

lemma Emit_once: "length (Emit w dest ev) \<le> 1"
  by (cases dest) (simp_all add: sink_post_def)

lemma traced:
  assumes "trace_handler agent version forward start finish r = Some (passed, ev)"
  shows "map_of (tr_Headers passed) ''X-MLAIOps-Agent'' = Some agent" and "te_Agent ev = agent" "te_Version ev = version"
    and "forward passed \<noteq> [] \<Longrightarrow> te_StatusCode ev = last (forward passed)" and "tr_Path passed = tr_Path r"
  using assms by (auto simp: trace_handler_def director_headers director_path recorded_status_last split: if_splits)

end
