(* ===== verification/Keys.thy ===== *)
theory Keys
  imports Auth Go_Crypto
begin

text \<open>
  The signing keys of the identity provider: \<open>Verifier.key\<close>, \<open>Verifier.refresh\<close> and their use
  in \<open>Verifier.Verify\<close> of \<^verbatim>\<open>go/internal/auth/auth.go\<close>. The JWT library is a parameter: the
  header of a token, and its claims when the signature and the registered claims are valid for a
  key at a time. So is the answer of the JWKS endpoint, decoded or an error.
\<close>

subsection \<open>Decoding base64\<close>

definition b64_val :: "char \<Rightarrow> nat option" where
  "b64_val c = find (\<lambda>n. b64_digit n = c) [0..<64]"

fun b64_decode :: "nat list \<Rightarrow> nat list option" where
  "b64_decode [] = Some []"
| "b64_decode [a] = None"
| "b64_decode [a, b] = Some [(a * 4 + b div 16) mod 256]"
| "b64_decode [a, b, c] = Some [(a * 4 + b div 16) mod 256, (b * 16 + c div 4) mod 256]"
| "b64_decode (a # b # c # d # rest) =
     map_option ((@) [(a * 4 + b div 16) mod 256, (b * 16 + c div 4) mod 256, (c * 64 + d) mod 256]) (b64_decode rest)"

text \<open>Line breaks are skipped; the bits left over at the end are not checked.\<close>

definition RawURL_bytes :: "string \<Rightarrow> nat list option" where
  "RawURL_bytes s = Option.bind (those (map b64_val (filter (\<lambda>c. c \<noteq> CHR 0x0A \<and> c \<noteq> CHR 0x0D) s))) b64_decode"

subsection \<open>The key cache\<close>

record rsa_key =
  rk_N :: nat
  rk_E :: int

record jwk =
  jk_KID :: string
  jk_KTY :: string
  jk_N :: string
  jk_E :: string

definition usable_key :: "jwk \<Rightarrow> rsa_key option" where
  "usable_key item =
     (if jk_KTY item \<noteq> ''RSA'' then None
      else case RawURL_bytes (jk_N item) of None \<Rightarrow> None
      | Some modulus \<Rightarrow> (case RawURL_bytes (jk_E item) of None \<Rightarrow> None
        | Some exponent \<Rightarrow> Some \<lparr>rk_N = foldl (\<lambda>n b. n * 256 + b) 0 modulus,
            rk_E = foldl (\<lambda>e b. wrap64 (wrap64 (e * 256) + int b)) 0 exponent\<rparr>))"

definition document_keys :: "jwk list \<Rightarrow> string \<rightharpoonup> rsa_key" where
  "document_keys doc = foldl (\<lambda>m item. case usable_key item of None \<Rightarrow> m | Some k \<Rightarrow> m(jk_KID item \<mapsto> k)) Map.empty doc"

record Verifier =
  vf_keys :: "string \<rightharpoonup> rsa_key"
  vf_expires :: "time option"

definition NewVerifier :: Verifier where
  "NewVerifier = \<lparr>vf_keys = Map.empty, vf_expires = None\<rparr>"

definition key_ttl :: int where "key_ttl = 600 * 1000000000"

text \<open>A call of \<open>key\<close>: the time it looks, what the endpoint would answer, and when the answer is stored.\<close>

record key_call =
  kc_kid :: string
  kc_now :: time
  kc_answer :: "jwk list + error"
  kc_stored :: time

definition refresh :: "Verifier \<Rightarrow> key_call \<Rightarrow> Verifier \<times> error option" where
  "refresh v c =
     (case kc_answer c of Inr err \<Rightarrow> (v, Some err)
      | Inl doc \<Rightarrow> if list_all (\<lambda>item. usable_key item = None) doc then (v, Some (Err ''JWKS contained no usable RSA keys''))
          else (v\<lparr>vf_keys := document_keys doc, vf_expires := Some (kc_stored c + key_ttl)\<rparr>, None))"

definition Verifier_key :: "Verifier \<Rightarrow> key_call \<Rightarrow> Verifier \<times> (rsa_key + error)" where
  "Verifier_key v c =
     (let valid = (case vf_expires v of None \<Rightarrow> False | Some t \<Rightarrow> kc_now c < t) in
      case (vf_keys v (kc_kid c), valid) of
        (Some k, True) \<Rightarrow> (v, Inl k)
      | _ \<Rightarrow> (case refresh v c of
            (v', Some err) \<Rightarrow> (v', Inr err)
          | (v', None) \<Rightarrow> (v', case vf_keys v' (kc_kid c) of None \<Rightarrow> Inr (Err ''signing key not found'') | Some k \<Rightarrow> Inl k)))"

subsection \<open>Verification\<close>

record jwt_lib =
  jl_header :: "string \<Rightarrow> (string \<times> string) option"
  jl_claims :: "string \<Rightarrow> rsa_key \<Rightarrow> time \<Rightarrow> Claims option"

text \<open>\<open>c\<close> is the call with the identifier of the token's header.\<close>

definition parse_claims :: "jwt_lib \<Rightarrow> Verifier \<Rightarrow> key_call \<Rightarrow> string \<Rightarrow> Verifier \<times> Claims option" where
  "parse_claims lib v c raw =
     (case jl_header lib raw of None \<Rightarrow> (v, None)
      | Some (alg, kid) \<Rightarrow>
          if alg \<noteq> ''RS256'' then (v, None)
          else case Verifier_key v (c\<lparr>kc_kid := kid\<rparr>) of
            (v', Inr _) \<Rightarrow> (v', None)
          | (v', Inl k) \<Rightarrow> (v', jl_claims lib raw k (kc_stored c)))"

definition Verifier_Verify :: "jwt_lib \<Rightarrow> Verifier \<Rightarrow> key_call \<Rightarrow> string \<Rightarrow> string \<Rightarrow> Verifier \<times> Principal ret" where
  "Verifier_Verify lib v c tenant raw = (let (v', claims) = parse_claims lib v c raw in (v', Verify (\<lambda>_. claims) tenant raw))"

fun verifications :: "jwt_lib \<Rightarrow> Verifier \<Rightarrow> (key_call \<times> string) list \<Rightarrow> Verifier" where
  "verifications lib v [] = v"
| "verifications lib v ((c, raw) # calls) = verifications lib (fst (parse_claims lib v c raw)) calls"

subsection \<open>Keys are fresh\<close>

text \<open>The documents a call offers, with the time they are stored; the cache holds one of the documents offered so far.\<close>

definition offered :: "key_call \<Rightarrow> (time \<times> jwk list) set" where
  "offered c = (case kc_answer c of Inl doc \<Rightarrow> {(kc_stored c, doc)} | Inr _ \<Rightarrow> {})"

definition cached :: "Verifier \<Rightarrow> (time \<times> jwk list) set \<Rightarrow> bool" where
  "cached v docs \<longleftrightarrow> v = NewVerifier \<or> (\<exists>(t, doc) \<in> docs. vf_keys v = document_keys doc \<and> vf_expires v = Some (t + key_ttl))"

lemma cached_mono: "cached v A \<Longrightarrow> A \<subseteq> B \<Longrightarrow> cached v B"
  by (auto simp: cached_def)

lemma Verifier_key_cases:
  assumes "Verifier_key v c = (v', r)"
  obtains (kept) "v' = v" "\<And>k. r = Inl k \<Longrightarrow> vf_keys v (kc_kid c) = Some k \<and> (\<exists>t. vf_expires v = Some t \<and> kc_now c < t)"
  | (fetched) doc where "kc_answer c = Inl doc" "v' = v\<lparr>vf_keys := document_keys doc, vf_expires := Some (kc_stored c + key_ttl)\<rparr>"
      "\<And>k. r = Inl k \<Longrightarrow> document_keys doc (kc_kid c) = Some k"
  using assms by (auto simp: Verifier_key_def refresh_def Let_def split: option.splits bool.splits sum.splits if_splits)

lemma Verifier_key_cached:
  assumes "cached v docs"
  shows "cached (fst (Verifier_key v c)) (docs \<union> offered c)"
proof (cases "Verifier_key v c")
  case (Pair v' r)
  then show ?thesis
    by (rule Verifier_key_cases) (use assms Pair in \<open>auto simp: cached_def offered_def\<close>)
qed

lemma Verifier_key_fresh:
  assumes "cached v docs" and "Verifier_key v c = (v', Inl k)" and "kc_now c \<le> kc_stored c"
  shows "\<exists>(t, doc) \<in> docs \<union> offered c. document_keys doc (kc_kid c) = Some k \<and> kc_now c < t + key_ttl"
  using assms(2)
proof (rule Verifier_key_cases)
  assume "\<And>k'. Inl k = Inl k' \<Longrightarrow> vf_keys v (kc_kid c) = Some k' \<and> (\<exists>t. vf_expires v = Some t \<and> kc_now c < t)"
  then show ?thesis using assms(1) by (fastforce simp: cached_def NewVerifier_def)
next
  fix doc assume "kc_answer c = Inl doc" "\<And>k'. Inl k = Inl k' \<Longrightarrow> document_keys doc (kc_kid c) = Some k'"
  then show ?thesis using assms(3) by (auto simp: key_ttl_def offered_def)
qed

lemma offered_kid [simp]: "offered (c\<lparr>kc_kid := kid\<rparr>) = offered c"
  by (simp add: offered_def split: sum.split)

lemma parse_claims_cached:
  assumes "cached v docs"
  shows "cached (fst (parse_claims lib v c raw)) (docs \<union> offered c)"
proof -
  have "cached (fst (Verifier_key v (c\<lparr>kc_kid := kid\<rparr>))) (docs \<union> offered c)" for kid
    using Verifier_key_cached [OF assms, of "c\<lparr>kc_kid := kid\<rparr>"] by simp
  then have "cached v' (docs \<union> offered c)" if "Verifier_key v (c\<lparr>kc_kid := kid\<rparr>) = (v', r)" for kid v' r
    using that by (metis fst_conv)
  with cached_mono [OF assms, of "docs \<union> offered c"] show ?thesis
    by (auto simp: parse_claims_def split: option.splits prod.splits sum.splits)
qed

lemma verifications_cached: "cached v docs \<Longrightarrow> cached (verifications lib v calls) (docs \<union> (\<Union>(c, raw) \<in> set calls. offered c))"
proof (induction calls arbitrary: v docs)
  case (Cons x calls)
  obtain c raw where x: "x = (c, raw)" by (cases x)
  from Cons.IH [OF parse_claims_cached [OF Cons.prems]] show ?case by (simp add: x Un_assoc)
qed simp

lemma parse_claims_key:
  assumes "parse_claims lib v c raw = (v', Some claims)" and "cached v docs" and "kc_now c \<le> kc_stored c"
  shows "\<exists>kid k t doc. jl_header lib raw = Some (''RS256'', kid) \<and> jl_claims lib raw k (kc_stored c) = Some claims \<and>
    (t, doc) \<in> docs \<union> offered c \<and> document_keys doc kid = Some k \<and> kc_now c < t + key_ttl"
proof -
  obtain kid k v1 where k: "jl_header lib raw = Some (''RS256'', kid)" "Verifier_key v (c\<lparr>kc_kid := kid\<rparr>) = (v1, Inl k)" "jl_claims lib raw k (kc_stored c) = Some claims"
    using assms(1) by (auto simp: parse_claims_def split: option.splits prod.splits sum.splits if_splits)
  obtain t doc where "(t, doc) \<in> docs \<union> offered c" "document_keys doc kid = Some k" "kc_now c < t + key_ttl"
    using Verifier_key_fresh [OF assms(2) k(2)] assms(3) by auto
  with k(1,3) show ?thesis by blast
qed

subsection \<open>Encoded numbers\<close>

lemma b64_val_digit: "b64_val (b64_digit n) = Some (n mod 64)"
proof -
  have "list_all (\<lambda>n. b64_val (b64_digit n) = Some n) [0..<64]" by code_simp
  then have "b64_val (b64_digit n) = Some n" if "n < 64" for n using that by (simp add: list_all_iff)
  from this [of "n mod 64"] show ?thesis by (simp add: b64_digit_def)
qed

text \<open>The bytes of a group from its digits.\<close>

lemma mod_digit: "0 < k \<Longrightarrow> q < k \<Longrightarrow> (a * k + q) mod (k * m) = k * (a mod m) + (q :: nat)"
  by (simp add: mod_mult2_eq)

lemma group_byte: "x < 256 \<Longrightarrow> (256 * y + x) mod 256 = (x :: nat)"
  by simp

lemma b64_first:
  assumes "(a :: nat) < 256" "q < 16"
  shows "(a div 4 mod 64 * 4 + (a * 16 + q) mod 64 div 16) mod 256 = a"
proof -
  have "(a * 16 + q) mod 64 = 16 * (a mod 4) + q" using mod_digit [of 16 q a 4] assms(2) by simp
  then have 1: "(a * 16 + q) mod 64 div 16 = a mod 4" using assms(2) by simp
  have 2: "a div 4 mod 64 = a div 4" using assms(1) by simp
  show ?thesis unfolding 1 2 div_mult_mod_eq using assms(1) by (rule mod_less)
qed

lemma b64_second:
  assumes "(b :: nat) < 256" "q < 4"
  shows "((a * 16 + b div 16) mod 64 * 16 + (b * 4 + q) mod 64 div 4) mod 256 = b"
proof -
  have "b div 16 < 16" using assms(1) by simp
  then have 1: "(a * 16 + b div 16) mod 64 = 16 * (a mod 4) + b div 16" using mod_digit [of 16 "b div 16" a 4] by simp
  have "(b * 4 + q) mod 64 = 4 * (b mod 16) + q" using mod_digit [of 4 q b 16] assms(2) by simp
  then have 2: "(b * 4 + q) mod 64 div 4 = b mod 16" using assms(2) by simp
  have "(16 * x + h) * 16 + l = 256 * x + (h * 16 + l)" for x h l :: nat by simp
  then show ?thesis unfolding 1 2 div_mult_mod_eq using group_byte [OF assms(1)] by (simp only: div_mult_mod_eq)
qed

lemma b64_third:
  assumes "(c :: nat) < 256"
  shows "((b * 4 + c div 64) mod 64 * 64 + c mod 64) mod 256 = c"
proof -
  have "c div 64 < 4" using assms by simp
  then have 1: "(b * 4 + c div 64) mod 64 = 4 * (b mod 16) + c div 64" using mod_digit [of 4 "c div 64" b 16] by simp
  have "(4 * x + h) * 64 + l = 256 * x + (h * 64 + l)" for x h l :: nat by simp
  then show ?thesis unfolding 1 using group_byte [OF assms] by (simp only: div_mult_mod_eq)
qed

lemma b64_round_trip:
  "list_all (\<lambda>n. n < 256) ns \<Longrightarrow> Option.bind (those (map b64_val (b64_encode ns))) b64_decode = Some ns"
proof (induction ns rule: b64_encode.induct)
  case (4 a b c rest)
  then obtain vs where vs: "those (map b64_val (b64_encode rest)) = Some vs" "b64_decode vs = Some rest"
    by (auto simp: bind_eq_Some_conv)
  have "a < 256" "b < 256" "c < 256" using 4(2) by simp_all
  then have m: "(a div 4 mod 64 * 4 + (a * 16 + b div 16) mod 64 div 16) mod 256 = a"
      "((a * 16 + b div 16) mod 64 * 16 + (b * 4 + c div 64) mod 64 div 4) mod 256 = b" "((b * 4 + c div 64) mod 64 * 64 + c mod 64) mod 256 = c"
    by (intro b64_first b64_second b64_third; simp)+
  have "map b64_val (b64_encode (a # b # c # rest)) =
      [Some (a div 4 mod 64), Some ((a * 16 + b div 16) mod 64), Some ((b * 4 + c div 64) mod 64), Some (c mod 64)] @ map b64_val (b64_encode rest)"
    by (simp add: b64_val_digit)
  then have "those (map b64_val (b64_encode (a # b # c # rest))) =
      Some (a div 4 mod 64 # (a * 16 + b div 16) mod 64 # (b * 4 + c div 64) mod 64 # c mod 64 # vs)" by (simp add: vs(1))
  then show ?case using vs(2) m by (simp only: Option.bind.bind_lunit b64_decode.simps) simp
next
  case (2 a)
  then have m: "(a div 4 mod 64 * 4 + (a * 16) mod 64 div 16) mod 256 = a" using b64_first [of a 0] by simp
  have "those (map b64_val (b64_encode [a])) = Some [a div 4 mod 64, a * 16 mod 64]" by (simp add: b64_val_digit)
  then show ?case using m by (simp only: Option.bind.bind_lunit b64_decode.simps)
next
  case (3 a b)
  then have "a < 256" "b < 256" by simp_all
  then have m: "(a div 4 mod 64 * 4 + (a * 16 + b div 16) mod 64 div 16) mod 256 = a" "((a * 16 + b div 16) mod 64 * 16 + b * 4 mod 64 div 4) mod 256 = b"
    using b64_first [of a "b div 16"] b64_second [of b 0 a] by simp_all
  have "those (map b64_val (b64_encode [a, b])) = Some [a div 4 mod 64, (a * 16 + b div 16) mod 64, b * 4 mod 64]" by (simp add: b64_val_digit)
  then show ?case using m by (simp only: Option.bind.bind_lunit b64_decode.simps)
qed simp

text \<open>What was encoded is decoded.\<close>

lemma RawURL_bytes_encode: "list_all (\<lambda>n. n < 256) ns \<Longrightarrow> RawURL_bytes (b64_encode ns) = Some ns"
proof -
  have "list_all (\<lambda>n. b64_digit n \<noteq> CHR 0x0A \<and> b64_digit n \<noteq> CHR 0x0D) [0..<64]" by code_simp
  then have plain: "b64_digit n \<noteq> CHR 0x0A \<and> b64_digit n \<noteq> CHR 0x0D" if "n < 64" for n using that by (simp add: list_all_iff)
  have "b64_digit n \<noteq> CHR 0x0A \<and> b64_digit n \<noteq> CHR 0x0D" for n using plain [of "n mod 64"] by (simp add: b64_digit_def)
  then have "filter (\<lambda>c. c \<noteq> CHR 0x0A \<and> c \<noteq> CHR 0x0D) (b64_encode ns) = b64_encode ns"
    by (induction ns rule: b64_encode.induct) simp_all
  then show "list_all (\<lambda>n. n < 256) ns \<Longrightarrow> RawURL_bytes (b64_encode ns) = Some ns" by (simp add: RawURL_bytes_def b64_round_trip)
qed

end
