(* ===== verification/Routes.thy ===== *)
theory Routes
  imports Auth
begin

text \<open>
  The routes of \<^verbatim>\<open>go/internal/httpapi/server.go\<close> and which of them a principal reaches. A path is
  given by its decoded segments; \<open>http.ServeMux\<close> matches them one by one, a wildcard any
  non-empty segment, while the role table sees the decoded path as one text. A path that needs
  cleaning is redirected, other paths go to the static files.
\<close>

subsection \<open>The route table\<close>

type_synonym route = "string \<times> string \<times> string"

definition routes :: "route list" where
  "routes =
     [(''GET'', ''/api/v1/health'', ''health''),
      (''GET'', ''/api/v1/me'', ''me''),
      (''GET'', ''/api/v1/admin/users'', ''userAccess''),
      (''GET'', ''/api/v1/admin/resource-profiles'', ''resourceProfiles''),
      (''PUT'', ''/api/v1/admin/users/{subject}'', ''upsertUserAccess''),
      (''DELETE'', ''/api/v1/admin/users/{subject}'', ''deleteUserAccess''),
      (''GET'', ''/api/v1/access-requests'', ''myAccessRequests''),
      (''POST'', ''/api/v1/access-requests'', ''createAccessRequest''),
      (''GET'', ''/api/v1/admin/access-requests'', ''accessRequests''),
      (''PATCH'', ''/api/v1/admin/access-requests/{id}'', ''reviewAccessRequest''),
      (''GET'', ''/api/v1/settings/tokens'', ''apiTokens''),
      (''POST'', ''/api/v1/settings/tokens'', ''createAPIToken''),
      (''DELETE'', ''/api/v1/settings/tokens/{id}'', ''revokeAPIToken''),
      (''GET'', ''/api/v1/blogs'', ''blogPosts''),
      (''GET'', ''/api/v1/blogs/{slug}'', ''blogPost''),
      (''GET'', ''/api/v1/admin/blogs'', ''adminBlogPosts''),
      (''POST'', ''/api/v1/admin/blogs'', ''createBlogPost''),
      (''PUT'', ''/api/v1/admin/blogs/{id}'', ''updateBlogPost''),
      (''DELETE'', ''/api/v1/admin/blogs/{id}'', ''deleteBlogPost''),
      (''GET'', ''/api/v1/dashboard'', ''dashboard''),
      (''GET'', ''/api/v1/onboarding/readiness'', ''readiness''),
      (''GET'', ''/api/v1/projects'', ''projects''),
      (''POST'', ''/api/v1/projects'', ''createProject''),
      (''GET'', ''/api/v1/projects/{id}'', ''project''),
      (''PUT'', ''/api/v1/projects/{id}/repository'', ''setProjectRepository''),
      (''GET'', ''/api/v1/pipelines/definitions'', ''pipelineDefinitions''),
      (''POST'', ''/api/v1/pipelines/definitions'', ''upsertPipelineDefinition''),
      (''GET'', ''/api/v1/pipelines/definitions/{id}'', ''pipelineDefinition''),
      (''PUT'', ''/api/v1/pipelines/definitions/{id}'', ''upsertPipelineDefinition''),
      (''GET'', ''/api/v1/pipelines/runs'', ''runs''),
      (''POST'', ''/api/v1/pipelines/submit'', ''submitPipeline''),
      (''GET'', ''/api/v1/pipelines/runs/{id}'', ''run''),
      (''POST'', ''/api/v1/pipelines/runs/{id}/cancel'', ''cancelRun''),
      (''POST'', ''/api/v1/pipelines/runs/{id}/retry'', ''retryRun''),
      (''POST'', ''/api/v1/pipelines/runs/{id}/steps'', ''updateRunStep''),
      (''GET'', ''/api/v1/components'', ''components''),
      (''GET'', ''/api/v1/catalog'', ''catalog''),
      (''GET'', ''/api/v1/features'', ''features''),
      (''POST'', ''/api/v1/features'', ''applyFeatureView''),
      (''POST'', ''/api/v1/features/{name}/materialized'', ''reportMaterialization''),
      (''GET'', ''/api/v1/storage/buckets'', ''storageProxy/buckets''),
      (''GET'', ''/api/v1/storage/objects'', ''storageProxy/objects''),
      (''GET'', ''/api/v1/storage/object'', ''storageProxy/object''),
      (''GET'', ''/api/v1/prompts'', ''prompts''),
      (''GET'', ''/api/v1/events'', ''events''),
      (''GET'', ''/api/v1/realtime'', ''realtimeStats''),
      (''POST'', ''/api/v1/realtime/{demo}'', ''reportRealtime''),
      (''GET'', ''/api/v1/functions'', ''functions''),
      (''POST'', ''/api/v1/functions'', ''deployFunction''),
      (''DELETE'', ''/api/v1/functions/{name}'', ''deleteFunction''),
      (''POST'', ''/api/v1/functions/{name}/invoke'', ''invokeFunction''),
      (''POST'', ''/api/v1/functions/{name}/invoke-async'', ''invokeFunctionAsync''),
      (''GET'', ''/api/v1/models'', ''models''),
      (''POST'', ''/api/v1/models'', ''registerModel''),
      (''POST'', ''/api/v1/models/{id}/promote'', ''promoteModel''),
      (''POST'', ''/api/v1/models/{id}/deploy'', ''deployModel''),
      (''POST'', ''/api/v1/models/{id}/rollback'', ''rollbackModel''),
      (''POST'', ''/api/v1/models/{id}/predict'', ''predictModel''),
      (''GET'', ''/api/v1/agents'', ''agents''),
      (''POST'', ''/api/v1/agents'', ''deployAgent''),
      (''PUT'', ''/api/v1/agents/{id}/traffic'', ''agentTraffic''),
      (''POST'', ''/api/v1/agents/{id}/invoke'', ''invokeAgent''),
      (''GET'', ''/api/v1/agents/{id}/sessions'', ''agentSessions''),
      (''GET'', ''/api/v1/agents/{id}/traces'', ''agentTraces''),
      (''GET'', ''/api/v1/agents/{id}/usage'', ''agentUsage''),
      (''POST'', ''/api/v1/traces'', ''recordTrace''),
      (''GET'', ''/api/v1/tools'', ''tools''),
      (''POST'', ''/api/v1/tools'', ''registerTool''),
      (''GET'', ''/api/v1/connections'', ''connections''),
      (''POST'', ''/api/v1/connections'', ''createConnection''),
      (''POST'', ''/api/v1/connections/{id}/test'', ''testConnection''),
      (''GET'', ''/api/v1/audit'', ''audit''),
      (''GET'', ''/api/openapi.json'', ''openapi'')]"

definition pattern_segments :: "string \<Rightarrow> string list" where
  "pattern_segments pattern = tl (split_on (CHR ''/'') pattern)"

definition segment_matches :: "string \<Rightarrow> string \<Rightarrow> bool" where
  "segment_matches pat seg = (if HasPrefix pat ''{'' then seg \<noteq> [] else pat = seg)"

definition route_matches :: "string \<Rightarrow> string list \<Rightarrow> route \<Rightarrow> bool" where
  "route_matches meth segs r = (case r of (m, pattern, h) \<Rightarrow>
     (m = meth \<or> m = ''GET'' \<and> meth = ''HEAD'') \<and> list_all2 segment_matches (pattern_segments pattern) segs)"

definition mux :: "string \<Rightarrow> string list \<Rightarrow> string option" where
  "mux meth segs = map_option (snd \<circ> snd) (find (route_matches meth segs) routes)"

definition path_of :: "string list \<Rightarrow> string" where
  "path_of segs = concat (map ((#) (CHR ''/'')) segs)"

subsection \<open>The table is unambiguous\<close>

definition shape :: "route \<Rightarrow> string \<times> string list" where
  "shape r = (case r of (m, pattern, h) \<Rightarrow> (m, pattern_segments pattern))"

definition overlap :: "string \<times> string list \<Rightarrow> string \<times> string list \<Rightarrow> bool" where
  "overlap r q = (case (r, q) of ((m, ps), (m', ps')) \<Rightarrow>
     m = m' \<and> list_all2 (\<lambda>a b. HasPrefix a ''{'' \<or> HasPrefix b ''{'' \<or> a = b) ps ps')"

fun pairwise_apart :: "(string \<times> string list) list \<Rightarrow> bool" where
  "pairwise_apart [] = True"
| "pairwise_apart (r # rs) \<longleftrightarrow> list_all (\<lambda>q. \<not> overlap r q) rs \<and> pairwise_apart rs"

lemma routes_apart: "pairwise_apart (map shape routes)"
  by code_simp

lemma match_overlap:
  assumes "list_all2 segment_matches ps segs" and "list_all2 segment_matches qs segs"
  shows "list_all2 (\<lambda>a b. HasPrefix a ''{'' \<or> HasPrefix b ''{'' \<or> a = b) ps qs"
  using assms
proof (induction ps segs arbitrary: qs rule: list_all2_induct)
  case (Cons p ps x segs)
  then show ?case by (cases qs) (auto simp: segment_matches_def split: if_splits)
qed simp

lemma routes_no_HEAD: "list_all (\<lambda>r. fst r \<noteq> ''HEAD'') routes"
  by code_simp

lemma both_overlap:
  "route_matches meth segs r \<Longrightarrow> route_matches meth segs q \<Longrightarrow> fst r \<noteq> ''HEAD'' \<Longrightarrow> fst q \<noteq> ''HEAD'' \<Longrightarrow> overlap (shape r) (shape q)"
  by (auto simp: route_matches_def overlap_def shape_def intro: match_overlap split: prod.splits)

lemma find_apart:
  "pairwise_apart (map shape rs) \<Longrightarrow> list_all (\<lambda>r. fst r \<noteq> ''HEAD'') rs \<Longrightarrow> r \<in> set rs \<Longrightarrow> route_matches meth segs r \<Longrightarrow> find (route_matches meth segs) rs = Some r"
proof (induction rs)
  case (Cons q rs)
  show ?case
  proof (cases "r = q")
    case False
    with Cons.prems have r: "r \<in> set rs" by simp
    have "\<not> route_matches meth segs q"
    proof
      assume "route_matches meth segs q"
      with Cons.prems r have "overlap (shape q) (shape r)" by (intro both_overlap) (auto simp: list_all_iff)
      with Cons.prems(1) r show False by (auto simp: list_all_iff)
    qed
    with Cons r show ?thesis by simp
  qed (use Cons.prems in simp)
qed simp

text \<open>Every route is reached by exactly the requests it matches, whatever the order of registration.\<close>

lemma mux_iff: "mux meth segs = Some h \<longleftrightarrow> (\<exists>m pattern. (m, pattern, h) \<in> set routes \<and> route_matches meth segs (m, pattern, h))"
proof
  assume "mux meth segs = Some h"
  then show "\<exists>m pattern. (m, pattern, h) \<in> set routes \<and> route_matches meth segs (m, pattern, h)"
    by (auto simp: mux_def dest!: find_SomeD)
qed (use find_apart [OF routes_apart routes_no_HEAD] in \<open>fastforce simp: mux_def\<close>)

subsection \<open>Who reaches what\<close>

definition administration :: "string list" where
  "administration = [''userAccess'', ''resourceProfiles'', ''upsertUserAccess'', ''deleteUserAccess'', ''accessRequests'', ''reviewAccessRequest'',
     ''adminBlogPosts'', ''createBlogPost'', ''updateBlogPost'', ''deleteBlogPost'']"

definition reporting :: "string list" where
  "reporting = [''updateRunStep'', ''recordTrace'', ''reportMaterialization'', ''reportRealtime'']"

definition configuration :: "string list" where
  "configuration = [''createConnection'', ''testConnection'']"

definition own_settings :: "string list" where
  "own_settings = [''createAPIToken'', ''revokeAPIToken'', ''createAccessRequest'']"

definition service_writes :: "string list" where
  "service_writes = reporting @ [''cancelRun'', ''retryRun'', ''applyFeatureView'']"

text \<open>What a pattern tells of the paths it matches: the text before the first wildcard, and the last segment.\<close>

definition literal :: "string \<Rightarrow> bool" where
  "literal pat \<longleftrightarrow> \<not> HasPrefix pat ''{''"

definition static_prefix :: "string list \<Rightarrow> string" where
  "static_prefix ps = path_of (takeWhile literal ps) @ (if list_all literal ps then [] else ''/'')"

lemma path_of_simps [simp]: "path_of [] = []" "path_of (x # xs) = CHR ''/'' # x @ path_of xs"
  by (simp_all add: path_of_def)

lemma static_prefix_path: "list_all2 segment_matches ps segs \<Longrightarrow> HasPrefix (path_of segs) (static_prefix ps)"
proof (induction rule: list_all2_induct)
  case (Cons p ps x segs)
  then show ?case
    by (auto simp: static_prefix_def literal_def segment_matches_def HasPrefix_iff_prefix split: if_splits)
qed (simp add: static_prefix_def)

lemma literal_path: "list_all2 segment_matches ps segs \<Longrightarrow> list_all literal ps \<Longrightarrow> path_of segs = path_of ps"
  by (induction rule: list_all2_induct) (simp_all add: segment_matches_def literal_def)

lemma literal_suffix:
  assumes "list_all2 segment_matches ps segs" "ps \<noteq> []" "literal (last ps)"
  shows "HasSuffix (path_of segs) (CHR ''/'' # last ps)"
  using assms
proof (induction rule: list_all2_induct)
  case (Cons p ps x segs)
  show ?case
  proof (cases "ps = []")
    case True
    with Cons show ?thesis by (simp add: segment_matches_def literal_def HasSuffix_iff_suffix)
  next
    case False
    with Cons show ?thesis by (auto simp: HasSuffix_iff_suffix suffix_def)
  qed
qed simp

text \<open>A check of the table, and what it says about requests.\<close>

definition table :: "(string \<Rightarrow> string list \<Rightarrow> bool) \<Rightarrow> string list \<Rightarrow> bool" where
  "table P hs = list_all (\<lambda>(m, pattern, h). List.member hs h \<longrightarrow> P m (pattern_segments pattern)) routes"

lemma tableD:
  assumes "table P hs" and "mux meth segs = Some h" and "h \<in> set hs"
  obtains m ps where "P m ps" "m = meth \<or> m = ''GET'' \<and> meth = ''HEAD''" "list_all2 segment_matches ps segs"
  using assms by (fastforce simp: table_def mux_iff list_all_iff route_matches_def)

lemma tables:
  "table (\<lambda>m ps. HasPrefix (static_prefix ps) ''/api/v1/admin/'') administration"
  "table (\<lambda>m ps. m = ''POST'' \<and> HasPrefix (static_prefix ps) ''/api/v1/connections'') configuration"
  "table (\<lambda>m ps. m = ''POST'' \<and> (list_all literal ps \<and> path_of ps = ''/api/v1/traces'' \<or> HasPrefix (static_prefix ps) ''/api/v1/realtime/'' \<or>
     ps \<noteq> [] \<and> literal (last ps) \<and> (HasPrefix (static_prefix ps) ''/api/v1/pipelines/runs/'' \<and> last ps = ''steps'' \<or>
       HasPrefix (static_prefix ps) ''/api/v1/features/'' \<and> last ps = ''materialized''))) reporting"
  by code_simp+

lemma HasPrefix_trans: "HasPrefix s q \<Longrightarrow> HasPrefix q r \<Longrightarrow> HasPrefix s r"
  by (auto simp: HasPrefix_iff_prefix)

definition clash :: "string \<Rightarrow> string \<Rightarrow> bool" where
  "clash q r \<longleftrightarrow> \<not> HasPrefix q r \<and> \<not> HasPrefix r q"

lemma clash_prefix: "HasPrefix s q \<Longrightarrow> clash q r \<Longrightarrow> \<not> HasPrefix s r"
  by (auto simp: clash_def HasPrefix_iff_prefix dest: prefix_same_cases)

text \<open>Other handlers than these, for requests that write.\<close>

definition other_handlers :: "string list \<Rightarrow> string list" where
  "other_handlers hs = filter (\<lambda>h. \<not> List.member hs h) (map (snd \<circ> snd) routes)"

lemma mux_other: "mux meth segs = Some h \<Longrightarrow> h \<in> set hs \<or> h \<in> set (other_handlers hs)"
  by (force simp: mux_iff other_handlers_def)

lemma other_tables:
  "table (\<lambda>m ps. m = ''GET'' \<or> clash (static_prefix ps) ''/api/v1/settings/'' \<and> clash (static_prefix ps) ''/api/v1/access-requests'') (other_handlers own_settings)"
  "table (\<lambda>m ps. m = ''GET'' \<or> list_all (clash (static_prefix ps)) serviceWrite) (other_handlers service_writes)"
  by code_simp+

subsection \<open>The roles\<close>

lemma roles_allow_roles:
  assumes "roles_allow p m path roles" and "\<not> is_read m"
  shows "''admin'' \<in> set roles \<or> ''operator'' \<in> set roles \<or> ''engineer'' \<in> set roles \<and> hasAnyPrefix path engineerWrite \<or>
    ''service'' \<in> set roles \<and> hasAnyPrefix path serviceWrite \<or>
    ''user'' \<in> set roles \<and> (path = ''/api/v1/me'' \<or> hasAnyPrefix path userWrite \<and> \<not> machineReportingPath path)"
  using assms by (induction p m path roles rule: roles_allow.induct) (auto split: if_splits)

lemma connections_not_written: "HasPrefix path ''/api/v1/connections'' \<Longrightarrow> \<not> hasAnyPrefix path engineerWrite \<and> \<not> hasAnyPrefix path serviceWrite \<and> \<not> hasAnyPrefix path userWrite"
proof -
  assume p: "HasPrefix path ''/api/v1/connections''"
  have "list_all (clash ''/api/v1/connections'') (engineerWrite @ serviceWrite @ userWrite)" by code_simp
  then have "\<forall>r \<in> set (engineerWrite @ serviceWrite @ userWrite). \<not> HasPrefix path r" using clash_prefix [OF p] by (auto simp: list_all_iff)
  then show ?thesis by (auto simp: hasAnyPrefix_def list_ex_iff)
qed

text \<open>The paths of these handlers take none of the special cases of \<open>Allowed\<close>.\<close>

lemma Allowed_plain:
  assumes "Allowed p m path" and "\<not> HasPrefix path ''/api/v1/admin/''" "\<not> HasPrefix path ''/api/v1/settings/''" "path \<noteq> ''/api/v1/access-requests''" "m \<noteq> ''GET''"
  shows "roles_allow p m path (pr_Roles p)"
  using assms by (auto simp: Allowed_def split: if_splits)

lemma administration_reached:
  assumes "mux meth segs = Some h" "h \<in> set administration" "Allowed p meth (path_of segs)"
  shows "hasRole p ''admin'' \<or> hasRole p ''operator''"
proof -
  obtain m ps where "HasPrefix (static_prefix ps) ''/api/v1/admin/''" "list_all2 segment_matches ps segs"
    using tableD [OF tables(1) assms(1,2)] by blast
  then have "HasPrefix (path_of segs) ''/api/v1/admin/''" using static_prefix_path HasPrefix_trans by blast
  with assms(3) show ?thesis by (auto simp: Allowed_def split: if_splits)
qed

text \<open>Below a prefix that clashes with the special paths, a write is decided by the roles.\<close>

definition special_paths :: "string list" where
  "special_paths = [''/api/v1/admin/'', ''/api/v1/settings/'', ''/api/v1/access-requests'', ''/api/v1/me'']"

lemma Allowed_below:
  assumes "Allowed p m path" and "m = ''POST''" and "HasPrefix path q" and "list_all (clash q) special_paths"
  shows "roles_allow p m path (pr_Roles p)" "path \<noteq> ''/api/v1/me''"
proof -
  have c: "\<forall>r \<in> set special_paths. \<not> HasPrefix path r" using assms(3,4) clash_prefix by (auto simp: list_all_iff)
  then have ne: "path \<noteq> ''/api/v1/me''" "path \<noteq> ''/api/v1/access-requests''" by (auto simp: special_paths_def HasPrefix_iff_prefix)
  from c have "\<not> HasPrefix path ''/api/v1/admin/''" "\<not> HasPrefix path ''/api/v1/settings/''" by (auto simp: special_paths_def)
  with Allowed_plain [OF assms(1)] ne assms(2) show "roles_allow p m path (pr_Roles p)" by simp
  show "path \<noteq> ''/api/v1/me''" by (fact ne)
qed

lemma configuration_reached:
  assumes "mux meth segs = Some h" "h \<in> set configuration" "Allowed p meth (path_of segs)"
  shows "hasRole p ''admin'' \<or> hasRole p ''operator''"
proof -
  obtain m ps where t: "m = ''POST''" "HasPrefix (static_prefix ps) ''/api/v1/connections''" "m = meth \<or> m = ''GET'' \<and> meth = ''HEAD''" "list_all2 segment_matches ps segs"
    using tableD [OF tables(2) assms(1,2)] by blast
  then have post: "meth = ''POST''" and pre: "HasPrefix (path_of segs) ''/api/v1/connections''" using static_prefix_path HasPrefix_trans by blast+
  have "list_all (clash ''/api/v1/connections'') special_paths" by code_simp
  note below = Allowed_below [OF assms(3) post pre this]
  have "\<not> is_read meth" by (simp add: post is_read_def)
  from roles_allow_roles [OF below(1) this] connections_not_written [OF pre] below(2) show ?thesis by (auto simp: hasRole_def list_ex_iff)
qed

lemma reporting_path:
  assumes "mux meth segs = Some h" "h \<in> set reporting"
  shows "meth = ''POST''" "machineReportingPath (path_of segs)"
    and "\<exists>q \<in> {''/api/v1/traces'', ''/api/v1/realtime/'', ''/api/v1/pipelines/runs/'', ''/api/v1/features/''}. HasPrefix (path_of segs) q"
proof -
  obtain m ps where t0: "m = ''POST'' \<and> (list_all literal ps \<and> path_of ps = ''/api/v1/traces'' \<or> HasPrefix (static_prefix ps) ''/api/v1/realtime/'' \<or>
     ps \<noteq> [] \<and> literal (last ps) \<and> (HasPrefix (static_prefix ps) ''/api/v1/pipelines/runs/'' \<and> last ps = ''steps'' \<or>
       HasPrefix (static_prefix ps) ''/api/v1/features/'' \<and> last ps = ''materialized''))"
      and t3: "m = meth \<or> m = ''GET'' \<and> meth = ''HEAD''" and ps: "list_all2 segment_matches ps segs"
    by (rule tableD [OF tables(3) assms])
  note t = conjunct1 [OF t0] conjunct2 [OF t0] t3
  show "meth = ''POST''" using t(1,3) by auto
  note pre = HasPrefix_trans [OF static_prefix_path [OF ps]]
  consider "path_of segs = ''/api/v1/traces''" | "HasPrefix (path_of segs) ''/api/v1/realtime/''"
    | "HasPrefix (path_of segs) ''/api/v1/pipelines/runs/''" "HasSuffix (path_of segs) ''/steps''"
    | "HasPrefix (path_of segs) ''/api/v1/features/''" "HasSuffix (path_of segs) ''/materialized''"
    using t(2) pre literal_path [OF ps] literal_suffix [OF ps] by metis
  then have "machineReportingPath (path_of segs) \<and>
      (\<exists>q \<in> {''/api/v1/traces'', ''/api/v1/realtime/'', ''/api/v1/pipelines/runs/'', ''/api/v1/features/''}. HasPrefix (path_of segs) q)"
    by cases (simp_all add: machineReportingPath_def HasPrefix_iff_prefix)
  then show "machineReportingPath (path_of segs)" "\<exists>q \<in> {''/api/v1/traces'', ''/api/v1/realtime/'', ''/api/v1/pipelines/runs/'', ''/api/v1/features/''}. HasPrefix (path_of segs) q"
    by blast+
qed

lemma reporting_reached:
  assumes "mux meth segs = Some h" "h \<in> set reporting" "Allowed p meth (path_of segs)"
  shows "\<exists>role \<in> {''admin'', ''operator'', ''engineer'', ''service''}. hasRole p role"
proof -
  obtain q where q: "q \<in> {''/api/v1/traces'', ''/api/v1/realtime/'', ''/api/v1/pipelines/runs/'', ''/api/v1/features/''}" "HasPrefix (path_of segs) q"
    using reporting_path(3) [OF assms(1,2)] by blast
  have "list_all (\<lambda>q. list_all (clash q) special_paths) [''/api/v1/traces'', ''/api/v1/realtime/'', ''/api/v1/pipelines/runs/'', ''/api/v1/features/'']" by code_simp
  then have "list_all (clash q) special_paths" using q(1) by (auto simp: list_all_iff)
  note below = Allowed_below [OF assms(3) reporting_path(1) [OF assms(1,2)] q(2) this]
  have "\<not> is_read meth" by (simp add: reporting_path(1) [OF assms(1,2)] is_read_def)
  from roles_allow_roles [OF below(1) this] below(2) reporting_path(2) [OF assms(1,2)] show ?thesis by (auto simp: hasRole_def list_ex_iff)
qed

lemma get_read: "m = ''GET'' \<Longrightarrow> m = meth \<or> m = ''GET'' \<and> meth = ''HEAD'' \<Longrightarrow> is_read meth"
  by (auto simp: is_read_def)

lemma viewer_writes:
  assumes "mux meth segs = Some h" "Allowed p meth (path_of segs)" "\<not> is_read meth" "set (pr_Roles p) \<subseteq> {''viewer''}"
  shows "h \<in> set own_settings"
proof (rule ccontr)
  assume "h \<notin> set own_settings"
  then have h: "h \<in> set (other_handlers own_settings)" using mux_other [OF assms(1)] by blast
  obtain m ps where t: "m = ''GET'' \<or> clash (static_prefix ps) ''/api/v1/settings/'' \<and> clash (static_prefix ps) ''/api/v1/access-requests''"
      "m = meth \<or> m = ''GET'' \<and> meth = ''HEAD''" "list_all2 segment_matches ps segs"
    using tableD [OF other_tables(1) assms(1) h] by blast
  have ng: "m \<noteq> ''GET''" using get_read t(2) assms(3) by blast
  have roles: "\<not> hasRole p ''admin''" "\<not> hasRole p ''operator''" using assms(4) by (auto simp: hasRole_def list_ex_iff)
  have s: "\<not> HasPrefix (path_of segs) ''/api/v1/settings/''" "\<not> HasPrefix (path_of segs) ''/api/v1/access-requests''"
    using t(1) ng clash_prefix [OF static_prefix_path [OF t(3)]] by blast+
  then have "path_of segs \<noteq> ''/api/v1/access-requests''" by (auto simp: HasPrefix_iff_prefix)
  then have "roles_allow p meth (path_of segs) (pr_Roles p)"
    using assms(2,3) roles s(1) by (auto simp: Allowed_def is_read_def split: if_splits)
  from roles_allow_roles [OF this assms(3)] assms(4) show False by auto
qed

lemma service_writes_reached:
  assumes "mux meth segs = Some h" "Allowed p meth (path_of segs)" "\<not> is_read meth" "pr_Roles p = [''service'']"
  shows "h \<in> set service_writes"
proof (rule ccontr)
  assume "h \<notin> set service_writes"
  then have h: "h \<in> set (other_handlers service_writes)" using mux_other [OF assms(1)] by blast
  obtain m ps where t: "m = ''GET'' \<or> list_all (clash (static_prefix ps)) serviceWrite" "m = meth \<or> m = ''GET'' \<and> meth = ''HEAD''" "list_all2 segment_matches ps segs"
    using tableD [OF other_tables(2) assms(1) h] by blast
  have "m \<noteq> ''GET''" using get_read t(2) assms(3) by blast
  with t(1) have "\<forall>r \<in> set serviceWrite. \<not> HasPrefix (path_of segs) r" using clash_prefix [OF static_prefix_path [OF t(3)]] by (auto simp: list_all_iff)
  then have "\<not> hasAnyPrefix (path_of segs) serviceWrite" by (auto simp: hasAnyPrefix_def list_ex_iff)
  moreover have "roles_allow p meth (path_of segs) (pr_Roles p)"
    using assms(2-4) by (auto simp: Allowed_def is_read_def hasRole_def split: if_splits)
  ultimately show False using roles_allow_roles [OF _ assms(3)] assms(4) by fastforce
qed

end
