(* ===== verification/Cli.thy ===== *)
theory Cli
  imports Routes Clients
begin

text \<open>
  The command line client \<^verbatim>\<open>go/cmd/cli/main.go\<close>: the request a command line stands for, its
  headers, and what becomes of the answer; and that every command reaches a route of the
  gateway.
\<close>

subsection \<open>Commands\<close>

datatype cli_body = NoBody | FieldMap "string gomap" | RawMessage string

type_synonym cli_request = "string \<times> string \<times> cli_body"

text \<open>Environment variables; an unset one is empty.\<close>

definition cli_env :: "(string \<Rightarrow> string) \<Rightarrow> string \<Rightarrow> string \<Rightarrow> string" where
  "cli_env os key fallback = (if os key \<noteq> [] then os key else fallback)"

definition cli_lists :: "string gomap" where
  "cli_lists =
     [(''project list'', ''/api/v1/projects''),
      (''pipeline list'', ''/api/v1/pipelines/runs''),
      (''pipeline definitions'', ''/api/v1/pipelines/definitions''),
      (''function list'', ''/api/v1/functions''),
      (''model list'', ''/api/v1/models''),
      (''agent list'', ''/api/v1/agents''),
      (''tool list'', ''/api/v1/tools''),
      (''connection list'', ''/api/v1/connections''),
      (''audit list'', ''/api/v1/audit'')]"

text \<open>\<open>strings.Join\<close> with a space.\<close>

fun Join_space :: "string list \<Rightarrow> string" where
  "Join_space [] = []"
| "Join_space [x] = x"
| "Join_space (x # y # ys) = x @ '' '' @ Join_space (y # ys)"

definition invoke_payload :: "(string \<Rightarrow> string) \<Rightarrow> cli_body" where
  "invoke_payload os = RawMessage (cli_env os ''MLAIOPS_FUNCTION_PAYLOAD'' ''{}'')"

text \<open>The arguments after the program's name; \<open>None\<close> prints the usage and exits with status 2.\<close>

definition cli_command :: "(string \<Rightarrow> string) \<Rightarrow> string list \<Rightarrow> cli_request option" where
  "cli_command os args =
     (if args = [] then None else
      case map_of cli_lists (Join_space args) of
        Some path \<Rightarrow> Some (''GET'', path, NoBody)
      | None \<Rightarrow>
          (let n = length args; verb = take 2 args in
           if n = 3 \<and> verb = [''pipeline'', ''submit'']
             then Some (''POST'', ''/api/v1/pipelines/submit'', FieldMap [(''project_id'', args ! 2), (''name'', ''training-pipeline'')])
           else if n = 4 \<and> verb = [''pipeline'', ''submit'']
             then Some (''POST'', ''/api/v1/pipelines/submit'', FieldMap [(''project_id'', args ! 2), (''definition_id'', args ! 3)])
           else if n \<ge> 5 \<and> verb = [''function'', ''deploy'']
             then Some (''POST'', ''/api/v1/functions'', FieldMap [(''project_id'', args ! 2), (''name'', args ! 3), (''image'', args ! 4)])
           else if n \<ge> 3 \<and> verb = [''function'', ''invoke'']
             then Some (''POST'', ''/api/v1/functions/'' @ PathEscape (args ! 2) @ ''/invoke'', invoke_payload os)
           else if n \<ge> 3 \<and> verb = [''function'', ''invoke-async'']
             then Some (''POST'', ''/api/v1/functions/'' @ PathEscape (args ! 2) @ ''/invoke-async'', invoke_payload os)
           else if n \<ge> 4 \<and> verb = [''project'', ''connect'']
             then Some (''PUT'', ''/api/v1/projects/'' @ PathEscape (args ! 2) @ ''/repository'',
               FieldMap [(''url'', args ! 3), (''default_branch'', if n > 4 then args ! 4 else ''main'')])
           else None))"

subsection \<open>The call\<close>

text \<open>
  \<open>json.Marshal\<close> of the body, where \<open>compact\<close> is the encoder's treatment of raw JSON, which
  fails when it is not valid; \<open>indent\<close> is \<open>json.MarshalIndent\<close>.
\<close>

definition marshal_body :: "web \<Rightarrow> (string \<Rightarrow> string option) \<Rightarrow> cli_body \<Rightarrow> string option option" where
  "marshal_body w compact body = (case body of
      NoBody \<Rightarrow> Some None
    | FieldMap m \<Rightarrow> map_option Some (web_marshal w (AnyMap (map (\<lambda>(k, v). (k, AnyStr v)) m)))
    | RawMessage raw \<Rightarrow> map_option Some (compact raw))"

definition cli_headers :: "(string \<Rightarrow> string) \<Rightarrow> string gomap" where
  "cli_headers os = [(''Content-Type'', ''application/json''), (''X-MLAIOps-Actor'', cli_env os ''USER'' ''cli'')] @
     (if os ''MLAIOPS_TOKEN'' \<noteq> [] then [(''Authorization'', ''Bearer '' @ os ''MLAIOPS_TOKEN'')] else [])"

text \<open>The requests sent, the exit status, and what is printed on success.\<close>

definition cli_main ::
  "web \<Rightarrow> (string \<Rightarrow> string option) \<Rightarrow> (gany \<Rightarrow> string) \<Rightarrow> (string \<Rightarrow> string) \<Rightarrow> string list \<Rightarrow> http_request list \<times> int \<times> string" where
  "cli_main w compact indent os args =
     (case cli_command os args of
        None \<Rightarrow> ([], 2, [])
      | Some (meth, path, body) \<Rightarrow>
          (let target = cli_env os ''MLAIOPS_URL'' ''http://localhost:8080'' @ path in
           case marshal_body w compact body of None \<Rightarrow> ([], 1, [])
           | Some raw \<Rightarrow>
               if url_Parse target = None then ([], 1, [])
               else let rq = \<lparr>hq_Method = meth, hq_URL = target, hq_Headers = cli_headers os, hq_BasicAuth = None, hq_Body = raw\<rparr>
               in ([rq], case web_do w rq of Inr _ \<Rightarrow> (1, [])
                   | Inl response \<Rightarrow> if 300 \<le> hr_Status response then (1, [])
                       else (0, case web_decode w (hr_Body response) of Some v \<Rightarrow> indent v | None \<Rightarrow> hr_Body response))))"

subsection \<open>Commands and routes\<close>

text \<open>The decoded segments of an escaped path, as the gateway's multiplexer sees them.\<close>

definition decoded_segments :: "string \<Rightarrow> string list" where
  "decoded_segments path = map (\<lambda>seg. case unescape encodePath seg of Some s \<Rightarrow> s | None \<Rightarrow> seg) (tl (split_on (CHR ''/'') path))"

lemma split_on_append: "CHR ''/'' \<notin> set s \<Longrightarrow> split_on (CHR ''/'') (s @ CHR ''/'' # t) = s # split_on (CHR ''/'') t"
  by (induction s) auto

lemma segments_of_name:
  "decoded_segments (''/api/v1/functions/'' @ PathEscape x @ ''/invoke'') = [''api'', ''v1'', ''functions'', x, ''invoke'']"
  "decoded_segments (''/api/v1/functions/'' @ PathEscape x @ ''/invoke-async'') = [''api'', ''v1'', ''functions'', x, ''invoke-async'']"
  "decoded_segments (''/api/v1/projects/'' @ PathEscape x @ ''/repository'') = [''api'', ''v1'', ''projects'', x, ''repository'']"
proof -
  have "unescape encodePath s = Some s" if "s \<in> {''api'', ''v1'', ''functions'', ''projects'', ''invoke'', ''invoke-async'', ''repository''}" for s
  proof -
    from that have "PathEscape s = s" by (elim insertE; simp; code_simp)
    then show ?thesis using unescape_PathEscape [of s] by simp
  qed
  then show
    "decoded_segments (''/api/v1/functions/'' @ PathEscape x @ ''/invoke'') = [''api'', ''v1'', ''functions'', x, ''invoke'']"
    "decoded_segments (''/api/v1/functions/'' @ PathEscape x @ ''/invoke-async'') = [''api'', ''v1'', ''functions'', x, ''invoke-async'']"
    "decoded_segments (''/api/v1/projects/'' @ PathEscape x @ ''/repository'') = [''api'', ''v1'', ''projects'', x, ''repository'']"
    by (simp_all add: decoded_segments_def split_on_append PathEscape_no_delimiter unescape_PathEscape)
qed

text \<open>The handler a command is meant for.\<close>

definition cli_handler :: "string list \<Rightarrow> string" where
  "cli_handler args =
     (case map_of [(''project list'', ''projects''), (''pipeline list'', ''runs''), (''pipeline definitions'', ''pipelineDefinitions''),
        (''function list'', ''functions''), (''model list'', ''models''), (''agent list'', ''agents''), (''tool list'', ''tools''),
        (''connection list'', ''connections''), (''audit list'', ''audit'')] (Join_space args) of
        Some h \<Rightarrow> h
      | None \<Rightarrow> (case map_of [([''pipeline'', ''submit''], ''submitPipeline''), ([''function'', ''deploy''], ''deployFunction''),
          ([''function'', ''invoke''], ''invokeFunction''), ([''function'', ''invoke-async''], ''invokeFunctionAsync''),
          ([''project'', ''connect''], ''setProjectRepository'')] (take 2 args) of Some h \<Rightarrow> h | None \<Rightarrow> []))"

lemma listed_routes:
  "list_all (\<lambda>(command, path). map_option (\<lambda>h. [h]) (mux ''GET'' (decoded_segments path)) = Some [cli_handler [command]]) cli_lists"
  by code_simp

lemma handler_listed: "map_of cli_lists (Join_space args) = Some path \<Longrightarrow> cli_handler args = cli_handler [Join_space args]"
  by (auto simp: cli_lists_def cli_handler_def split: if_splits)

lemma handler_verb: "map_of cli_lists (Join_space args) = None \<Longrightarrow> cli_handler args = (case map_of [([''pipeline'', ''submit''], ''submitPipeline''),
    ([''function'', ''deploy''], ''deployFunction''), ([''function'', ''invoke''], ''invokeFunction''),
    ([''function'', ''invoke-async''], ''invokeFunctionAsync''), ([''project'', ''connect''], ''setProjectRepository'')] (take 2 args) of Some h \<Rightarrow> h | None \<Rightarrow> [])"
  by (auto simp: cli_lists_def cli_handler_def split: if_splits)

lemma fixed_routes:
  "mux ''POST'' (decoded_segments ''/api/v1/pipelines/submit'') = Some ''submitPipeline''"
  "mux ''POST'' (decoded_segments ''/api/v1/functions'') = Some ''deployFunction''"
  by code_simp+

lemma named_route:
  "(m, pattern, h) \<in> set routes \<Longrightarrow> list_all2 segment_matches (pattern_segments pattern) segs \<Longrightarrow> mux m segs = Some h"
  unfolding mux_iff route_matches_def by fastforce

lemma named_routes:
  assumes "x \<noteq> []"
  shows "mux ''POST'' [''api'', ''v1'', ''functions'', x, ''invoke''] = Some ''invokeFunction''"
    and "mux ''POST'' [''api'', ''v1'', ''functions'', x, ''invoke-async''] = Some ''invokeFunctionAsync''"
    and "mux ''PUT'' [''api'', ''v1'', ''projects'', x, ''repository''] = Some ''setProjectRepository''"
proof -
  have p: "pattern_segments ''/api/v1/functions/{name}/invoke'' = [''api'', ''v1'', ''functions'', ''{name}'', ''invoke'']"
    "pattern_segments ''/api/v1/functions/{name}/invoke-async'' = [''api'', ''v1'', ''functions'', ''{name}'', ''invoke-async'']"
    "pattern_segments ''/api/v1/projects/{id}/repository'' = [''api'', ''v1'', ''projects'', ''{id}'', ''repository'']" by code_simp+
  have w: "segment_matches ''{name}'' x" "segment_matches ''{id}'' x" using assms by (simp_all add: segment_matches_def HasPrefix_iff_prefix)
  have l: "\<not> HasPrefix s ''{'' \<Longrightarrow> segment_matches s s" for s by (simp add: segment_matches_def)
  show "mux ''POST'' [''api'', ''v1'', ''functions'', x, ''invoke''] = Some ''invokeFunction''"
    by (rule named_route [where pattern = "''/api/v1/functions/{name}/invoke''"]) (code_simp, auto simp: p w HasPrefix_iff_prefix intro!: l)
  show "mux ''POST'' [''api'', ''v1'', ''functions'', x, ''invoke-async''] = Some ''invokeFunctionAsync''"
    by (rule named_route [where pattern = "''/api/v1/functions/{name}/invoke-async''"]) (code_simp, auto simp: p w HasPrefix_iff_prefix intro!: l)
  show "mux ''PUT'' [''api'', ''v1'', ''projects'', x, ''repository''] = Some ''setProjectRepository''"
    by (rule named_route [where pattern = "''/api/v1/projects/{id}/repository''"]) (code_simp, auto simp: p w HasPrefix_iff_prefix intro!: l)
qed

text \<open>Every command reaches its handler, unless it names the empty name, which no route matches.\<close>

lemma cli_routed:
  assumes "cli_command os args = Some (m, path, body)" and "2 < length args \<Longrightarrow> args ! 2 \<noteq> []"
  shows "mux m (decoded_segments path) = Some (cli_handler args)"
proof (cases "map_of cli_lists (Join_space args)")
  case (Some p)
  then have "(Join_space args, p) \<in> set cli_lists" by (rule map_of_SomeD)
  with listed_routes have "mux ''GET'' (decoded_segments p) = Some (cli_handler [Join_space args])" by (fastforce simp: list_all_iff)
  with assms(1) Some handler_listed [OF Some] show ?thesis by (auto simp: cli_command_def split: if_splits)
next
  case None
  note verb = handler_verb [OF None]
  from assms(1) None have "cli_command os args = Some (m, path, body)" "args \<noteq> []" by (auto simp: cli_command_def)
  then show ?thesis using assms(2) None
    by (auto simp: cli_command_def Let_def fixed_routes named_routes segments_of_name [simplified] verb split: if_splits)
qed

end
