(* ===== verification/Service_Examples.thy ===== *)
theory Service_Examples
  imports Cluster_Examples Serving Proxies Console Tracing Keys Cli
begin

text \<open>
  Concrete inputs for the services around the gateway: a Docker engine with one container, the
  serving manager in front of it, a key document, and runs for the metrics.
\<close>

subsection \<open>A Docker engine\<close>

definition ex_mg :: Manager where
  "ex_mg = NewManager ''img'' ''net'' []"

definition ex_answer :: "int \<Rightarrow> string \<Rightarrow> http_response" where
  "ex_answer status body = \<lparr>hr_Status = status, hr_StatusText = [], hr_Body = body, hr_CallID = []\<rparr>"

text \<open>The engine knows the container of the model \<open>churn\<close>: it is absent, created or running.\<close>

definition ex_engine :: "bool option engine" where
  "ex_engine = \<lparr>
     en_do = (\<lambda>d rq.
       if rq = docker_request ex_mg ''DELETE'' (remove_path (containerName ''churn'')) None
         then (None, Inl (ex_answer (if d = None then 404 else 204) []))
       else if rq = docker_request ex_mg ''POST'' (create_path (containerName ''churn'')) (Some ''config'')
         then if d = None then (Some False, Inl (ex_answer 201 ''c1'')) else (d, Inl (ex_answer 409 []))
       else if rq = docker_request ex_mg ''POST'' (start_path ''c1'') None
         then if d = None then (d, Inl (ex_answer 404 [])) else (Some True, Inl (ex_answer 204 []))
       else (d, Inl (ex_answer 500 []))),
     en_marshal = (\<lambda>v. if v = serving_container ex_mg ''churn'' ''s3://m'' then Some ''config'' else None),
     en_created = Some, en_listed = (\<lambda>_. Some [])\<rparr>"

definition ex_containers :: "bool option \<Rightarrow> containers" where
  "ex_containers d = (case d of None \<Rightarrow> Map.empty
    | Some up \<Rightarrow> [containerName ''churn'' \<mapsto> \<lparr>ct_ID = ''c1'', ct_Config = serving_container ex_mg ''churn'' ''s3://m'', ct_Running = up\<rparr>])"

lemma docker_request_eq: "docker_request m meth path body = docker_request m meth' path' body' \<longleftrightarrow> meth = meth' \<and> path = path' \<and> body = body'"
  by (auto simp: docker_request_def split: if_splits)

lemma path_eqs:
  "remove_path n = remove_path n' \<longleftrightarrow> n = n'" "create_path n = create_path n' \<longleftrightarrow> n = n'" "start_path i = start_path i' \<longleftrightarrow> i = i'"
proof -
  show "create_path n = create_path n' \<longleftrightarrow> n = n'"
    unfolding create_path_def by (metis append_same_eq QueryUnescape_QueryEscape option.inject same_append_eq)
qed (simp_all add: remove_path_def start_path_def PathEscape_inj)

lemma ex_engine_serves: "docker_serves ex_mg ex_engine ex_containers"
  unfolding docker_serves_def
proof (intro conjI allI impI)
  fix d n d' r
  assume "en_do ex_engine d (docker_request ex_mg ''DELETE'' (remove_path n) None) = (d', r)"
  then show "removed (ex_containers d) n r (ex_containers d')"
    by (cases d) (auto simp: ex_engine_def docker_request_eq path_eqs removed_def ex_answer_def ex_containers_def split: if_splits)
next
  fix d n config raw d' r
  assume "en_marshal ex_engine config = Some raw \<and> en_do ex_engine d (docker_request ex_mg ''POST'' (create_path n) (Some raw)) = (d', r)"
  then show "created ex_engine (ex_containers d) n config r (ex_containers d')"
    by (cases d) (auto simp: ex_engine_def docker_request_eq path_eqs created_def ex_answer_def ex_containers_def read_limit_def split: if_splits)
next
  fix d ident d' r
  assume "en_do ex_engine d (docker_request ex_mg ''POST'' (start_path ident) None) = (d', r)"
  then show "started (ex_containers d) ident r (ex_containers d')"
    by (cases d) (auto simp: ex_engine_def docker_request_eq path_eqs started_def ex_answer_def ex_containers_def Let_def split: if_splits)
next
  fix d
  show "\<forall>c \<in> ran (ex_containers d). ct_ID c \<noteq> []" by (cases d) (auto simp: ex_containers_def)
qed

lemma ex_image_present: "image_present ex_mg ex_engine"
  by (auto simp: image_present_def ex_engine_def docker_request_eq ex_answer_def split: if_splits)

lemma ex_docker_urls:
  "url_Parse (docker_base ex_mg @ create_path (containerName ''churn'')) \<noteq> None" "url_Parse (docker_base ex_mg @ remove_path (containerName ''churn'')) \<noteq> None"
  "url_Parse (docker_base ex_mg @ start_path ''c1'') \<noteq> None"
  by code_simp+

lemma ex_deployed: "Deploy ex_mg ex_engine None ''churn'' ''s3://m'' = (Some True, Inl (serving_endpoint ex_mg ''churn''))"
proof -
  have "\<exists>st. docker_do ex_mg ex_engine None ''DELETE'' (remove_path (containerName ''churn'')) None = (None, st, Inl None)"
    "\<exists>st. docker_do ex_mg ex_engine None ''POST'' (create_path (containerName ''churn'')) (Some (serving_container ex_mg ''churn'' ''s3://m'')) = (Some False, st, Inl (Some ''c1''))"
    "\<exists>st. docker_do ex_mg ex_engine (Some False) ''POST'' (start_path ''c1'') None = (Some True, st, Inl None)"
    using ex_docker_urls by (auto simp: docker_do_def ex_engine_def docker_request_eq ex_answer_def read_limit_def Let_def)
  moreover have "mg_Image ex_mg \<noteq> []" "en_created ex_engine = Some" by (simp_all add: ex_mg_def NewManager_def ex_engine_def)
  ultimately show ?thesis by (auto simp: Deploy_def Undeploy_def Let_def)
qed

subsection \<open>The serving manager behind the gateway\<close>

definition ex_marshal :: "gany \<Rightarrow> string option" where
  "ex_marshal v = (case v of AnyMap [(_, AnyStr name), (_, AnyStr uri)] \<Rightarrow> Some (PathEscape name @ ''/'' @ PathEscape uri) | _ \<Rightarrow> None)"

definition ex_decode :: "string \<Rightarrow> (string \<times> string) option" where
  "ex_decode raw = (case Cut (CHR ''/'') raw of (a, b) \<Rightarrow>
     (case (unescape encodePath a, unescape encodePath b) of (Some name, Some uri) \<Rightarrow> Some (name, uri) | _ \<Rightarrow> None))"

definition ex_serving_web :: web where
  "ex_serving_web = \<lparr>web_do = (\<lambda>rq. case h_deploy ex_mg ex_engine None ''tok'' (authorization_of rq) (Option.bind (hq_Body rq) ex_decode) of
       (_, status, endpoint) \<Rightarrow> Inl (ex_answer status endpoint)),
     web_marshal = ex_marshal, web_decode = (\<lambda>raw. Some (AnyMap [(''endpoint'', AnyStr raw)]))\<rparr>"

lemma ex_coded: "ex_marshal (deployment_json name uri) = Some (PathEscape name @ ''/'' @ PathEscape uri)" "ex_decode (PathEscape name @ ''/'' @ PathEscape uri) = Some (name, uri)"
proof -
  have "\<forall>c \<in> set (PathEscape name). c \<noteq> CHR ''/''" using PathEscape_no_delimiter(1) by metis
  then have "Cut (CHR ''/'') (PathEscape name @ ''/'' @ PathEscape uri) = (PathEscape name, PathEscape uri)"
    by (simp add: Cut_def takeWhile_append2 dropWhile_append2)
  then show "ex_decode (PathEscape name @ ''/'' @ PathEscape uri) = Some (name, uri)" by (simp add: ex_decode_def unescape_PathEscape)
qed (simp add: ex_marshal_def deployment_json_def)

lemma ex_serving_web_serves: "serving_web ex_serving_web ex_decode ex_mg ex_engine None ''tok'' ''http://manager''"
  unfolding serving_web_def
proof (intro conjI allI impI)
  fix rq response
  assume "hq_Method rq = ''POST'' \<and> hq_URL rq = TrimRightByte (CHR ''/'') ''http://manager'' @ ''/deployments'' \<and> web_do ex_serving_web rq = Inl response"
  then show "case h_deploy ex_mg ex_engine None ''tok'' (authorization_of rq) (Option.bind (hq_Body rq) ex_decode) of (_, status, endpoint) \<Rightarrow>
      hr_Status response = status \<and> (status = 201 \<longrightarrow> Option.bind (web_decode ex_serving_web (hr_Body response)) endpoint_field = Some endpoint)"
    by (auto simp: ex_serving_web_def ex_answer_def endpoint_field_def split: prod.splits)
next
  fix name uri
  show "\<exists>raw. web_marshal ex_serving_web (deployment_json name uri) = Some raw \<and> ex_decode raw = Some (name, uri)"
    using ex_coded by (auto simp: ex_serving_web_def)
qed

definition ex_deploy_request :: DeployModelRequest where
  "ex_deploy_request = \<lparr>dmr_CanaryWeight = 10\<rparr>"

lemma ex_requested:
  assumes "mdl_Name model = ''churn''" "mdl_ArtifactURI model = ''s3://m''"
  shows "snd (requestServing ex_serving_web ''tok'' ''http://manager'' model) = Inl (serving_endpoint ex_mg ''churn'')"
proof -
  have url: "url_Parse (TrimRightByte (CHR ''/'') ''http://manager'' @ ''/deployments'') \<noteq> None" by code_simp
  have auth: "serving_authorized ''tok'' (''Bearer '' @ ''tok'')" by code_simp
  have raw: "web_marshal ex_serving_web (AnyMap [(''name'', AnyStr ''churn''), (''artifact_uri'', AnyStr ''s3://m'')]) = Some (PathEscape ''churn'' @ ''/'' @ PathEscape ''s3://m'')"
    using ex_coded(1) [of "''churn''" "''s3://m''"] by (simp add: ex_serving_web_def deployment_json_def)
  have "web_do ex_serving_web \<lparr>hq_Method = ''POST'', hq_URL = TrimRightByte (CHR ''/'') ''http://manager'' @ ''/deployments'',
      hq_Headers = (''Content-Type'', ''application/json'') # internal_headers ''tok'', hq_BasicAuth = None, hq_Body = Some (PathEscape ''churn'' @ ''/'' @ PathEscape ''s3://m'')\<rparr> =
      Inl (ex_answer 201 (serving_endpoint ex_mg ''churn''))"
    using auth ex_coded(2) [of "''churn''" "''s3://m''"] ex_deployed by (simp add: ex_serving_web_def h_deploy_def authorization_of_def internal_headers_def)
  then show ?thesis
    using url by (simp add: requestServing_def Let_def assms raw) (simp add: ex_answer_def ex_serving_web_def endpoint_field_def)
qed

lemma ex_model_deployed:
  "\<exists>s' item. deployModel_served ex_envs ex_servable ex_serving_web ''tok'' ''http://manager'' ex_admin ''mdl-0'' (Some ex_deploy_request) =
     (fst (deployModel_served ex_envs ex_servable ex_serving_web ''tok'' ''http://manager'' ex_admin ''mdl-0'' (Some ex_deploy_request)), s', Reply 202 item)"
proof -
  let ?d = "Store_DeployModel (ex_envs 0) ex_servable ''mdl-0'' (dmr_CanaryWeight ex_deploy_request) (actor ex_admin)"
  have "(case ?d of (_, item, err) \<Rightarrow> mdl_Name item = ''churn'' \<and> mdl_ArtifactURI item = ''s3://m'' \<and> err = None)" by code_simp
  then obtain s1 item where d: "?d = (s1, item, None)" "mdl_Name item = ''churn''" "mdl_ArtifactURI item = ''s3://m''" by (auto split: prod.splits)
  have "modelAllowed (store_view ex_servable) ex_admin ''mdl-0''" by code_simp
  then show ?thesis
    using d ex_requested [OF d(2,3)] by (simp add: deployModel_served_def h_deployModel_def with_body_def Let_def split: prod.splits)
qed

subsection \<open>Keys and metrics\<close>

text \<open>A document with one key, offered at every call.\<close>

definition ex_jwks :: "jwk list" where
  "ex_jwks = [\<lparr>jk_KID = ''k1'', jk_KTY = ''RSA'', jk_N = b64_encode [1, 0, 1], jk_E = b64_encode [1, 0, 1]\<rparr>]"

definition ex_key_call :: "time \<Rightarrow> key_call" where
  "ex_key_call now = \<lparr>kc_kid = ''k1'', kc_now = now, kc_answer = Inl ex_jwks, kc_stored = now + 1\<rparr>"

definition ex_key_claims :: Claims where
  "ex_key_claims = \<lparr>cl_Subject = ''ana'', cl_Email = [], cl_Tenant = [], cl_Roles = [''user''], cl_Groups = [], cl_Namespaces = []\<rparr>"

definition ex_jwt :: jwt_lib where
  "ex_jwt = \<lparr>jl_header = (\<lambda>raw. if raw = ''t'' then Some (''RS256'', ''k1'') else None), jl_claims = (\<lambda>raw k now. Some ex_key_claims)\<rparr>"

lemma ex_key_accepted: "\<exists>v. parse_claims ex_jwt (verifications ex_jwt NewVerifier [(ex_key_call 0, ''t'')]) (ex_key_call 9) ''t'' = (v, Some ex_key_claims)"
proof -
  have "RawURL_bytes (b64_encode [1, 0, 1]) = Some [1, 0, 1]" by (rule RawURL_bytes_encode) simp
  then obtain k where k: "usable_key \<lparr>jk_KID = ''k1'', jk_KTY = ''RSA'', jk_N = b64_encode [1, 0, 1], jk_E = b64_encode [1, 0, 1]\<rparr> = Some k"
    by (simp add: usable_key_def)
  then have "document_keys ex_jwks ''k1'' = Some k" "\<not> list_all (\<lambda>item. usable_key item = None) ex_jwks" by (simp_all add: document_keys_def ex_jwks_def)
  then show ?thesis by (simp add: parse_claims_def ex_jwt_def Verifier_key_def refresh_def ex_key_call_def NewVerifier_def key_ttl_def)
qed

text \<open>The gateway lists a queued and a finished run.\<close>

definition ex_quote :: "string \<Rightarrow> string" where
  "ex_quote s = CHR 0x22 # s @ [CHR 0x22]"

definition ex_metrics_web :: web where
  "ex_metrics_web = \<lparr>web_do = (\<lambda>rq. Inl (ex_answer 200 ''runs'')), web_marshal = (\<lambda>_. None), web_decode = (\<lambda>_. None)\<rparr>"

definition ex_gateway_answers :: gateway_answers where
  "ex_gateway_answers = \<lparr>ga_agents = (\<lambda>_. None), ga_usage = (\<lambda>_. None), ga_runs = (\<lambda>raw. if raw = ''runs'' then Some [''queued'', ''succeeded''] else None), ga_realtime = (\<lambda>_. None)\<rparr>"

definition ex_collector :: PlatformCollector where
  "ex_collector = NewPlatformCollector ''http://gateway/'' []"

lemma ex_collector_url: "pl_GatewayURL ex_collector \<noteq> []"
  by code_simp

lemma ex_quote_inj: "inj ex_quote"
  by (simp add: inj_def ex_quote_def)

lemma ex_submitted_statuses: "map run_Status (st_Runs (data ex_submitted)) = [''queued'', ''succeeded'']"
proof -
  have plan: "submission_plan (data ex_store) ex_submission = Some (defaultSteps ''pending'', ''prefect'', ''nightly'')"
    by (simp add: submission_plan_def ex_submission_def)
  have prj: "hasProject (st_Projects (data ex_store)) (sub_ProjectID ex_submission)" "map run_Status (st_Runs (data ex_store)) = [''succeeded'']" by code_simp+
  show ?thesis by (simp add: ex_submitted_def Store_SubmitPipeline_def Let_def plan prj ex_env_def)
qed

lemma ex_runs_answer: "platform_get ex_metrics_web ex_collector ''/api/v1/pipelines/runs'' (ga_runs ex_gateway_answers) = Inl (map run_Status (h_runs ex_submitted ex_admin))"
proof -
  have "privileged ex_admin" by code_simp
  then have "map run_Status (h_runs ex_submitted ex_admin) = [''queued'', ''succeeded'']"
    using ex_submitted_statuses by (simp add: h_runs_def filterRuns_def filter_by_project_def allowedProjectIDs_def Store_Runs_def)
  moreover have "url_Parse (pl_GatewayURL ex_collector @ ''/api/v1/pipelines/runs'') \<noteq> None" by code_simp
  moreover have "take answer_limit ''runs'' = ''runs''" by (rule take_all) (simp add: answer_limit_def)
  ultimately show ?thesis by (simp add: platform_get_def ex_metrics_web_def ex_answer_def ex_gateway_answers_def Let_def)
qed

end
