(* ===== verification/Consequences.thy ===== *)
theory Consequences
  imports Service_Examples
begin

text \<open>
  Further properties of single operations, and behaviours that differ from what the code
  means to do, shown on concrete inputs.
\<close>

section \<open>Single operations\<close>

text \<open>
  \<open>applyStepTransition\<close>, with its counting loops, computes exactly the documented outcome: the
  named step is updated or appended, a failure fails the run, the run succeeds when every step
  is done and runs as soon as one is running or done, and progress is the integer percentage
  of done steps.
\<close>

lemma applyStepTransition_outcome:
  "applyStepTransition run req = run\<lparr>
     run_Steps := upsert_step req (run_Steps run),
     run_Status := run_verdict (run_Status run) (map ps_Status (upsert_step req (run_Steps run))),
     run_Progress := step_progress (map ps_Status (upsert_step req (run_Steps run)))\<rparr>"
  by (rule applyStepTransition_spec)

text \<open>
  Without the user role the permissions depend only on the set of roles: their order in the token
  does not matter.
\<close>

lemma role_order_irrelevant:
  assumes "set (pr_Roles p) = set roles" and "''user'' \<notin> set roles"
  shows "Allowed (p\<lparr>pr_Roles := roles\<rparr>) m path = Allowed p m path"
proof -
  let ?q = "p\<lparr>pr_Roles := roles\<rparr>"
  have r: "roles_allow ?q m path (pr_Roles ?q) = roles_allow p m path (pr_Roles p)"
    using assms by (simp add: roles_allow_no_user)
  have h: "hasRole ?q role = hasRole p role" for role using assms(1) by (simp add: hasRole_iff)
  have l: "0 < length (pr_Roles ?q) \<longleftrightarrow> 0 < length (pr_Roles p)"
    using assms(1) by (metis Principal.select_convs(4) Principal.surjective Principal.update_convs(4) length_greater_0_conv set_empty)
  have d: "pr_Disabled ?q = pr_Disabled p" "pr_Credential ?q = pr_Credential p" by simp_all
  show ?thesis unfolding Allowed_def r h l d ..
qed

lemma role_order_irrelevant_witness:
  "Allowed (ex_user\<lparr>pr_Roles := [''engineer'', ''viewer'']\<rparr>) ''POST'' ''/api/v1/models'' =
   Allowed (ex_user\<lparr>pr_Roles := [''viewer'', ''engineer'']\<rparr>) ''POST'' ''/api/v1/models''"
  using role_order_irrelevant [of "ex_user\<lparr>pr_Roles := [''viewer'', ''engineer'']\<rparr>" "[''engineer'', ''viewer'']"] by auto

text \<open>
  Namespaces are canonical: a slug consists of lower-case letters, digits and single inner dashes,
  and slugging it again changes nothing.
\<close>

lemma slug_canonical: "slug_shaped (slug v) \<and> slug (slug v) = slug v"
  by (simp add: slug_is_shaped)

text \<open>
  Applying a feature view again updates its schema in place: the view keeps its identifier, its
  creation time and what was reported about its materialization, and no second view appears.
\<close>

lemma feature_view_reapply:
  assumes "find (\<lambda>v. fv_Name v = afv_Name req) (st_Features (data s)) = Some v" and "spath s = []"
    and "afv_Name req \<noteq> []" and "afv_Entity req \<noteq> []" and "afv_Fields req \<noteq> []"
  shows "\<exists>v'. find (\<lambda>v. fv_Name v = afv_Name req) (st_Features (data (fst (Store_ApplyFeatureView e s req who)))) = Some v' \<and>
    snd (Store_ApplyFeatureView e s req who) = (v', None) \<and>
    fv_ID v' = fv_ID v \<and> fv_CreatedAt v' = fv_CreatedAt v \<and> fv_Status v' = fv_Status v \<and>
    fv_OnlineEntityCount v' = fv_OnlineEntityCount v \<and> fv_MaterializedAt v' = fv_MaterializedAt v \<and>
    fv_Fields v' = afv_Fields req \<and> length (st_Features (data (fst (Store_ApplyFeatureView e s req who)))) = length (st_Features (data s))"
proof -
  let ?v = "v\<lparr>fv_Entity := afv_Entity req, fv_Fields := afv_Fields req, fv_Tags := afv_Tags req,
      fv_Source := afv_Source req, fv_TTLSeconds := afv_TTLSeconds req\<rparr>"
  have "fv_Name v = afv_Name req" using find_SomeD [OF assms(1)] by simp
  then show ?thesis
    using assms find_update_first_same [OF assms(1), of "\<lambda>_. ?v"]
    by (simp add: Store_ApplyFeatureView_def Let_def commit_in_memory)
qed

lemma feature_view_reapply_witness:
  "length (st_Features (data (fst (Store_ApplyFeatureView ex_env ex_featured (ex_view ''m'') ''root'')))) = 1"
proof -
  have n: "find (\<lambda>v. fv_Name v = afv_Name (ex_view ''m'')) (st_Features (data ex_featured)) \<noteq> None"
    "length (st_Features (data ex_featured)) = 1" "spath ex_featured = []" by code_simp+
  then obtain v where "find (\<lambda>v. fv_Name v = afv_Name (ex_view ''m'')) (st_Features (data ex_featured)) = Some v" by auto
  from feature_view_reapply [OF this n(3)] show ?thesis by (auto simp: n(2) ex_view_def)
qed

text \<open>
  The usage report of an agent is the total over its sessions: their number, and the sums of their
  input and output tokens as 64-bit integers.
\<close>

lemma usage_totals:
  assumes "h_agentUsage s p i = Reply code u"
  shows "code = 200 \<and> usg_Sessions u = int (length (Store_AgentSessions s i)) \<and>
    usg_InputTokens u = wrap64 (sum_list (map ses_InputTokens (Store_AgentSessions s i))) \<and>
    usg_OutputTokens u = wrap64 (sum_list (map ses_OutputTokens (Store_AgentSessions s i)))"
  using assms by (auto simp: h_agentUsage_def Let_def foldl_add_usage wrap64_def split: if_splits)

text \<open>
  The deployment endpoint answers with success only for a model in the caller's scope whose
  evaluation gates passed, and for a canary weight between 0 and 100.
\<close>

lemma deploy_requires_gate:
  assumes "h_deployModel es s serving p i (Some req) = (s', Reply code item)"
  shows "modelAllowed (store_view s) p i \<and> 0 \<le> dmr_CanaryWeight req \<and> dmr_CanaryWeight req \<le> 100 \<and>
     (\<exists>m \<in> set (st_Models (data s)). mdl_ID m = i \<and> mdl_GateStatus m = ''passed'')"
proof -
  let ?d = "Store_DeployModel (es 0) s i (dmr_CanaryWeight req) (actor p)"
  have "snd (snd ?d) = None" "modelAllowed (store_view s) p i"
    using assms by (auto simp: h_deployModel_def with_body_def split_beta Let_def writeMutation_def
        split: if_splits option.splits error.splits)
  with Store_DeployModel_gate show ?thesis by blast
qed

lemma deploy_requires_gate_witness:
  "\<exists>m \<in> set (st_Models (data ex_servable)). mdl_ID m = ''mdl-0'' \<and> mdl_GateStatus m = ''passed''"
proof -
  let ?x = "h_deployModel ex_envs ex_servable None ex_admin ''mdl-0'' (Some \<lparr>dmr_CanaryWeight = 10\<rparr>)"
  have "ok_reply (snd ?x)" by code_simp
  then obtain s' code item where "?x = (s', Reply code item)" by (cases ?x) (auto simp: ok_reply_def split: response.splits)
  from deploy_requires_gate [OF this] show ?thesis by blast
qed

text \<open>
  Deployment fails closed: when the serving manager does not take the model, the caller gets 502
  and the stored model is marked failed with no endpoint.
\<close>

lemma serving_failure_recorded:
  assumes "h_deployModel es s (Some manager) p i (Some req) = (s', Fail 502 ''serving_failed'')"
  shows "\<exists>m. find (\<lambda>m. mdl_ID m = i) (st_Models (data s')) = Some m \<and> mdl_DeploymentStatus m = ''failed'' \<and> mdl_EndpointURL m = []"
proof -
  let ?d = "Store_DeployModel (es 0) s i (dmr_CanaryWeight req) (actor p)"
  have ok: "snd (snd ?d) = None" and s': "s' = fst (Store_SetModelEndpoint (es 1) (fst ?d) (mdl_ID (fst (snd ?d))) [] ''failed'')"
    using assms by (auto simp: h_deployModel_def with_body_def split_beta Let_def writeMutation_def
        split: if_splits option.splits error.splits)
  note dep = Store_DeployModel_ok [OF ok]
  show ?thesis
    using find_update_first_same [OF dep(2), of "\<lambda>_. (fst (snd ?d))\<lparr>mdl_EndpointURL := [], mdl_DeploymentStatus := ''failed''\<rparr>"] dep(1,2)
    by (simp add: s' Store_SetModelEndpoint_def Let_def)
qed

lemma serving_failure_recorded_witness:
  "\<exists>s' m. h_deployModel ex_envs ex_servable (Some (\<lambda>_. None)) ex_admin ''mdl-0'' (Some \<lparr>dmr_CanaryWeight = 10\<rparr>) =
     (s', Fail 502 ''serving_failed'') \<and> m \<in> set (st_Models (data s')) \<and> mdl_DeploymentStatus m = ''failed''"
proof -
  let ?x = "h_deployModel ex_envs ex_servable (Some (\<lambda>_. None)) ex_admin ''mdl-0'' (Some \<lparr>dmr_CanaryWeight = 10\<rparr>)"
  have "snd ?x = Fail 502 ''serving_failed''" by code_simp
  then obtain s' where x: "?x = (s', Fail 502 ''serving_failed'')" by (cases ?x) auto
  from serving_failure_recorded [OF this] x show ?thesis by (auto dest: find_SomeD)
qed

text \<open>
  A personal token never exceeds its creator: for a caller without a privileged role the services
  and projects of a token issued over the API are among the caller's own, up to surrounding
  white space.
\<close>

lemma token_scope_not_widened:
  assumes "h_createAPIToken es s p (Some req) = (s', Reply status c)" and "\<not> privileged p"
  shows "set (tok_Services (cat_Token c)) \<subseteq> TrimSpace ` set (pr_Services p) \<and>
    set (tok_ProjectIDs (cat_Token c)) \<subseteq> TrimSpace ` scope (store_view s) p"
proof -
  have allowed: "tokenScopesAllowed (store_view s) p (ctr_Services req) (ctr_ProjectIDs req)"
    using assms(1) by (auto simp: h_createAPIToken_def with_body_def split: if_splits)
  then have sub: "set (ctr_Services req) \<subseteq> set (pr_Services p)" "set (ctr_ProjectIDs req) \<subseteq> scope (store_view s) p"
    using assms(2) by (auto simp: tokenScopesAllowed_def scope_def list_ex_iff split: if_splits)
  let ?r = "Store_CreateAPIToken (es 0) s (pr_Subject p) req"
  have "writeMutation (((fst (snd ?r))\<lparr>cat_Token := (cat_Token (fst (snd ?r)))\<lparr>tok_SecretHash := []\<rparr>\<rparr>), snd (snd ?r)) 201 = Reply status c"
    using assms(1) allowed by (simp add: h_createAPIToken_def with_body_def Let_def split_beta)
  then have "tok_Services (cat_Token c) = tok_Services (cat_Token (fst (snd ?r)))"
    "tok_ProjectIDs (cat_Token c) = tok_ProjectIDs (cat_Token (fst (snd ?r)))"
    by (auto simp: writeMutation_def split: option.splits error.splits)
  with Store_CreateAPIToken_scopes [of "es 0" s "pr_Subject p" req] sub show ?thesis by fastforce
qed

text \<open>
  A run submitted for a stored definition runs that definition: in every reachable state its
  steps are the jobs of the definition, in order, all pending, with the same dependencies, and
  these have distinct names and no cycle, so a topological execution order exists.
\<close>

lemma submitted_run_follows_definition:
  assumes "reachable store_start gateway_step s" and "Store_SubmitPipeline e s req actors = (s', (run, None))"
    and "sub_DefinitionID req \<noteq> []"
  shows "\<exists>d \<in> set (st_Definitions (data s)). pd_ID d = sub_DefinitionID req \<and> pd_ProjectID d = run_ProjectID run \<and>
    map ps_Name (run_Steps run) = map job_Name (pd_Jobs d) \<and>
    map ps_DependsOn (run_Steps run) = map job_DependsOn (pd_Jobs d) \<and>
    (\<forall>st \<in> set (run_Steps run). ps_Status st = ''pending'') \<and> distinct (map ps_Name (run_Steps run)) \<and>
    acyclic {(ps_Name st, dep) | st dep. st \<in> set (run_Steps run) \<and> dep \<in> set (ps_DependsOn st)}"
proof -
  from assms(2,3) obtain d where d: "find (\<lambda>d. pd_ID d = sub_DefinitionID req) (st_Definitions (data s)) = Some d"
    and run: "pd_ProjectID d = run_ProjectID run" "run_Steps run = stepsFromDefinition d"
    by (auto simp: Store_SubmitPipeline_def submission_plan_def pipelineDefinitionFrom_def Let_def commit_def split_beta
        split: if_splits option.splits)
  note mem = find_SomeD [OF d]
  have ok: "definition_ok (as_request d)"
    using gateway_inv.reachable_inv [OF assms(1)] mem by (auto simp: store_ok_def definitions_ok_def)
  have "{(ps_Name st, dep) | st dep. st \<in> set (run_Steps run) \<and> dep \<in> set (ps_DependsOn st)} =
      {(job_Name j, dep) | j dep. j \<in> set (pd_Jobs d) \<and> dep \<in> set (job_DependsOn j)}"
    unfolding run stepsFromDefinition_def set_map image_pairs by simp
  moreover have "map ps_Name (run_Steps run) = map job_Name (pd_Jobs d)" "map ps_DependsOn (run_Steps run) = map job_DependsOn (pd_Jobs d)"
    "\<forall>st \<in> set (run_Steps run). ps_Status st = ''pending''"
    by (auto simp: run stepsFromDefinition_def)
  ultimately show ?thesis
    using ok mem run(1) by (intro bexI [of _ d]) (auto simp: definition_ok_def graph_ok_def as_request_def)
qed

text \<open>
  The run quota: as long as a user has no more queued and running runs in their projects than the
  grant allows, no sequence of their submissions and retries, processed one after the other,
  gives them more, whatever the execution engines answer.
\<close>

lemma run_quota_respected:
  assumes "is_user p" and "\<not> privileged p" and "Store_AccessFor s (pr_Subject p) = (a, None)"
    and "int (active_runs p s) \<le> cg_MaxRuns (ua_Compute a)"
  shows "int (active_runs p (foldl (handle_run p) s reqs)) \<le> cg_MaxRuns (ua_Compute a)"
proof -
  have "handle_run p = run_quota.guarded p" by (intro ext handle_run_guarded)
  moreover have "grant_limit cg_MaxRuns p s = Some (cg_MaxRuns (ua_Compute a))"
    using assms(1-3) by (simp add: grant_limit_def)
  ultimately show ?thesis using run_quota.guarded_sequence [OF _ assms(4)] by simp
qed

text \<open>
  A token works as soon as it is issued: presenting the secret that \<open>CreateAPIToken\<close> returned,
  within a day, resolves to the token with the identifier, subject, services, projects and
  expiry it was issued with, whatever else is stored.
\<close>

lemma issued_token_resolves:
  assumes "Store_CreateAPIToken e s subject req = (s', (c, err))" and "cat_Secret c \<noteq> []"
    and "clk e' 0 < clk e 0 + day_ns"
  shows "\<exists>s'' t. Store_ResolveAPIToken e' s' (cat_Secret c) = (s'', (t, None)) \<and>
     token_core t = token_core (cat_Token c) \<and> tok_Subject t = subject"
  using assms by (rule Store_CreateAPIToken_resolves)

lemma issued_token_resolves_witness:
  "\<exists>s'' t. Store_ResolveAPIToken ex_env (fst ex_created) ex_secret = (s'', (t, None)) \<and> tok_Subject t = ''ana''"
proof -
  have "cat_Secret (fst (snd ex_created)) \<noteq> []" "clk ex_env 0 < clk ex_env 0 + day_ns"
    by (simp_all add: ex_created_value ex_secret_def day_ns_def)
  from issued_token_resolves [OF ex_created_eq this] show ?thesis by (auto simp: ex_created_value)
qed

text \<open>
  No anonymous access under OIDC: a request to a path that is not public is passed on only with a
  personal token the store resolves, with the internal service token, or with a bearer token
  or session cookie the identity provider's verification accepts.
\<close>

lemma oidc_requires_credentials:
  assumes "gateway_oidc ae rt verify resolve r = Forward c" and "\<not> publicPath (rq_Method r) (rq_Path r)"
  shows "(\<exists>t. HasPrefix (bearer r) ''nxs_'' \<and> rt (bearer r) = (t, None)) \<or>
    (\<exists>credential. credential \<noteq> [] \<and> (credential = bearer r \<or> rq_Session r = Some credential) \<and>
       (credential = internal_token ae \<or> snd (verify credential) = None))"
proof (cases "HasPrefix (bearer r) ''nxs_''")
  case False
  with assms obtain ctx where "Middleware ae verify r None = Forward ctx"
    unfolding gateway_oidc_def and_then_Forward by (auto simp: APITokenMiddleware_def)
  from Middleware_authenticates [OF this assms(2)] show ?thesis by blast
next
  case True
  from assms(1) obtain ctx where "APITokenMiddleware rt r None = Forward ctx"
    unfolding gateway_oidc_def and_then_Forward by blast
  from token_principal [OF this True] True show ?thesis by blast
qed

lemma oidc_requires_credentials_witness:
  "\<exists>credential. credential \<noteq> [] \<and> snd (ex_verify credential) = None"
proof -
  let ?r = "ex_request ''PUT'' ''/api/v1/admin/users/ana'' ''Bearer jwt-root''"
  have "gateway_oidc ex_auth ex_resolve ex_verify (store_resolver (Store_AccessFor ex_granted)) ?r = Forward (Some ex_admin)"
    "\<not> publicPath (rq_Method ?r) (rq_Path ?r)" by code_simp+
  from oidc_requires_credentials [OF this] have "(\<exists>t. HasPrefix (bearer ?r) ''nxs_'' \<and> ex_resolve (bearer ?r) = (t, None)) \<or>
      (\<exists>credential. credential \<noteq> [] \<and> (credential = bearer ?r \<or> rq_Session ?r = Some credential) \<and>
       (credential = internal_token ex_auth \<or> snd (ex_verify credential) = None))" .
  moreover have "\<not> HasPrefix (bearer ?r) ''nxs_''" by code_simp
  ultimately show ?thesis by (auto simp: ex_auth_def)
qed

text \<open>
  The store's file survives a crash at any point of \<open>persist\<close>: it holds its old contents or the
  complete new document, never a part of it.
\<close>

lemma persist_crash_consistent:
  assumes "persist_crash e s d" and "spath s \<noteq> []"
  shows "d (spath s) = disk s (spath s) \<or> (\<exists>raw. marshal e (data s) = Some raw \<and> d (spath s) = Some raw)"
  using assms by (rule persist_crash_file)

lemma persist_crash_consistent_witness:
  "((disk ex_filed)(tmp_path ex_filed \<mapsto> ''{'')) ''db'' \<in> {Some ''old'', Some ''{}''}"
proof -
  have "persist_crash ex_env ex_filed ((disk ex_filed)(tmp_path ex_filed \<mapsto> ''{''))"
    by (rule persist_crash.writing [of _ _ "''{}''"]) (simp_all add: ex_env_def ex_filed_def)
  from persist_crash_consistent [OF this] show ?thesis by (auto simp: ex_env_def ex_filed_def)
qed

section \<open>Behaviours that differ from what the code means to do\<close>

text \<open>
  The check of the gateway that keeps administrators from removing their own access compares the
  path value with the subject, while the repository trims it: an administrator who updates
  the subject with a trailing blank demotes themself, which the same request without the
  blank is refused for.
\<close>

lemma padded_subject_evades_self_check:
  "ok_reply (snd (h_upsertUserAccess ex_envs ex_store ex_admin ''root '' (Some ex_grant))) \<and>
   ua_Role (fst (Store_AccessFor (fst (h_upsertUserAccess ex_envs ex_store ex_admin ''root '' (Some ex_grant))) ''root'')) = ''user'' \<and>
   snd (h_upsertUserAccess ex_envs ex_store ex_admin ''root'' (Some ex_grant)) = Fail 400 ''invalid_request''"
  by code_simp

text \<open>
  A pipeline definition is looked up by its identifier alone, and only the project named in the
  body is checked: a user overwrites the jobs of a workflow of a project outside their scope.
\<close>

lemma definition_overwritten_across_projects:
  "\<not> projectAllowed (store_view ex_shared) ex_user ''prj-demo'' \<and>
   ok_reply (snd (h_upsertPipelineDefinition ex_envs ex_shared ex_user ''pipe-1'' (Some ex_overwrite))) \<and>
   map (\<lambda>d. (pd_ID d, pd_ProjectID d, map job_Image (pd_Jobs d)))
     (st_Definitions (data (fst (h_upsertPipelineDefinition ex_envs ex_shared ex_user ''pipe-1'' (Some ex_overwrite))))) =
     [(''pipe-1'', ''prj-demo'', [''other''])]"
  by code_simp

text \<open>
  A function is deployed before the repository is asked: a user who deploys under the name of a
  function of a foreign project is answered with a conflict, but the image was already sent to
  OpenFaaS under that name.
\<close>

lemma function_deployed_despite_conflict:
  "\<not> functionAllowed (store_view ex_with_function) ex_user ''score'' \<and>
   fst (snd (h_deployFunction ex_envs ex_with_function (Some ex_faas) ex_user (Some (ex_function ''prj-0'' ''other'')))) =
     Fail 409 ''conflict'' \<and>
   map (\<lambda>d. (fd_Name d, fd_Image d))
     (snd (snd (h_deployFunction ex_envs ex_with_function (Some ex_faas) ex_user (Some (ex_function ''prj-0'' ''other''))))) =
     [(''score'', ''other'')]"
  by code_simp

text \<open>
  A state file that exists but cannot be read is overwritten: \<open>New\<close> drops the error of \<open>load\<close>,
  takes the empty state for a first start and persists the demo project over the file.
\<close>

lemma unreadable_file_overwritten:
  assumes "path \<noteq> []" and "read_err e \<noteq> None" and "mkdir_err e = None" and "write_err e = None" and "rename_err e = None"
    and "\<And>d. marshal e d = Some (doc d)"
  shows "disk (Store_New e dsk [path]) path =
    Some (doc (zero_state\<lparr>st_Projects := [demo_project (clk e 0)], st_Runs := [demo_run (clk e 0)]\<rparr>))"
  using assms by (auto simp: Store_New_def load_def persist_def first_or_empty_def zero_state_def Let_def)

lemma unreadable_file_overwritten_witness:
  "disk (Store_New (ex_env\<lparr>read_err := Some ErrJSON\<rparr>) [''db'' \<mapsto> ''precious''] [''db'']) ''db'' = Some ''{}''"
  using unreadable_file_overwritten [of "''db''" "ex_env\<lparr>read_err := Some ErrJSON\<rparr>" "\<lambda>_. ''{}''" "[''db'' \<mapsto> ''precious'']"]
  by (simp add: ex_env_def)

text \<open>
  The list of projects shows a personal token the projects its owner owns, although they are
  outside the token's scope and every other endpoint hides them.
\<close>

lemma token_lists_owned_projects:
  "map prj_ID (h_projects ex_two ex_token_principal) = [''prj-0''] \<and> \<not> projectAllowed (store_view ex_two) ex_token_principal ''prj-0'' \<and>
   h_project ex_two ex_token_principal ''prj-0'' = Fail 404 ''not_found''"
  by code_simp

text \<open>
  Rejected messages block the outbox: when the oldest hundred pending messages of a tenant cannot
  be decoded or are rejected by the publisher, no flush ever delivers anything, however many
  deliverable messages wait behind them and however often the worker flushes.
\<close>

lemma outbox_blocked_by_rejected:
  assumes "\<forall>(p, w) \<in> set runs. pg_tenant p = t \<and> (\<forall>r \<in> set (take 100 (pending t d)). poison w r)"
  shows "snd (flushes runs d) = []"
  by (rule flushes_blocked [OF assms])

lemma outbox_blocked_by_rejected_witness:
  "snd (flushes (replicate 7 (ex_pg, ex_worker)) (ex_outbox 0 150)) = []"
proof -
  have "take 100 (map ex_message [0..<150]) = map ex_message [0..<100]" by (simp add: take_map del: upt_rec_numeral)
  then have "\<forall>(p, w) \<in> set (replicate 7 (ex_pg, ex_worker)). pg_tenant p = ''acme'' \<and>
      (\<forall>r \<in> set (take 100 (pending ''acme'' (ex_outbox 0 150))). poison w r)"
    by (auto simp: ex_later(2) ex_outbox_pending poison_def ex_worker_def ex_message_def simp del: upt_rec_numeral)
  from outbox_blocked_by_rejected [OF this] show ?thesis .
qed

section \<open>Grants, tokens, sessions and runs\<close>

text \<open>
  A reviewed access request is final: it stays in every later state exactly as it was decided.
\<close>

lemma reviewed_request_final:
  assumes "gateway_step\<^sup>*\<^sup>* s t" and "r \<in> set (st_AccessRequests (data s))" and "ar_Status r \<noteq> ''pending''"
  shows "r \<in> set (st_AccessRequests (data t))"
  using gateway_reviews.steps_keep [OF assms(1), of r] assms(2,3) by simp

text \<open>
  The list endpoints for runs, pipeline definitions, models and agents return exactly the stored
  items of the projects in the caller's scope.
\<close>

lemma listings_in_scope:
  "set (h_runs s p) = {r \<in> set (st_Runs (data s)). run_ProjectID r \<in> scope (store_view s) p} \<and>
   set (h_pipelineDefinitions s p) = {d \<in> set (st_Definitions (data s)). pd_ProjectID d \<in> scope (store_view s) p} \<and>
   set (h_models s p) = {m \<in> set (st_Models (data s)). mdl_ProjectID m \<in> scope (store_view s) p} \<and>
   set (h_agents s p) = {a \<in> set (st_Agents (data s)). agt_ProjectID a \<in> scope (store_view s) p}"
  unfolding h_runs_def h_pipelineDefinitions_def h_models_def h_agents_def filterRuns_def
    filterPipelineDefinitions_def filterModels_def filterAgents_def scope_filter
  by (simp add: Store_Runs_def Store_PipelineDefinitions_def Store_Models_def Store_Agents_def)

text \<open>
  The digest of a token's secret never leaves the control plane: neither the list of tokens nor
  the response to a creation carries it.
\<close>

lemma secret_hash_never_returned:
  "list_all (\<lambda>t. tok_SecretHash t = []) (h_apiTokens s p) \<and>
   (case snd (h_createAPIToken es s p body) of Reply status c \<Rightarrow> tok_SecretHash (cat_Token c) = [] | Fail status code \<Rightarrow> True)"
  by (auto simp: h_apiTokens_def h_createAPIToken_def with_body_def writeMutation_def Let_def split_beta list_all_iff
      split: option.splits if_splits error.splits response.splits)

text \<open>
  Granting access takes effect: after an accepted upsert the subject's effective access, as the
  authorisation layer reads it, is the validated grant.
\<close>

lemma grant_roundtrip:
  assumes "validateAccess subject req = (a, None)" and "TrimSpace subject = subject"
  shows "\<exists>a'. Store_AccessFor (fst (Store_UpsertUserAccess e s subject req who)) subject = (a', None) \<and>
     fst (snd (Store_UpsertUserAccess e s subject req who)) = a' \<and> ua_UpdatedAt a' = clk e 0 \<and>
     (ua_Role a', ua_Services a', ua_ProjectIDs a', ua_Storage a', ua_Compute a', ua_Disabled a') =
     (ua_Role a, ua_Services a, ua_ProjectIDs a, ua_Storage a, ua_Compute a, ua_Disabled a)"
  using assms by (rule Store_UpsertUserAccess_AccessFor)

lemma grant_roundtrip_witness:
  "\<exists>a. Store_AccessFor (fst (Store_UpsertUserAccess ex_env ex_store ''ana'' ex_grant ''root'')) ''ana'' = (a, None) \<and> ua_UpdatedAt a = 0"
proof -
  have "snd (validateAccess ''ana'' ex_grant) = None" "TrimSpace ''ana'' = ''ana''" by code_simp+
  then obtain a where "validateAccess ''ana'' ex_grant = (a, None)" "TrimSpace ''ana'' = ''ana''"
    by (cases "validateAccess ''ana'' ex_grant") auto
  from grant_roundtrip [OF this, of ex_env ex_store "''root''"] show ?thesis by (auto simp: ex_env_def)
qed

text \<open>
  Dispatching never crashes: in a reachable state every stored definition has a job, so the
  access to its first job when OpenFaaS is not configured is within bounds.
\<close>

lemma dispatch_never_panics:
  assumes "reachable store_start gateway_step s"
  shows "snd (snd (dispatchPipeline es s faas prefect run)) \<noteq> Panicked"
proof -
  have "pd_Jobs d \<noteq> []" if "d \<in> set (st_Definitions (data s))" for d
    using gateway_inv.reachable_inv [OF assms] that
    by (auto simp: store_ok_def definitions_ok_def definition_ok_def as_request_def)
  then show ?thesis
    by (auto simp: dispatchPipeline_def Store_PipelineDefinition_def pipelineDefinitionFrom_def split_beta Let_def
        dest!: find_SomeD split: option.splits list.splits sum.splits)
qed

lemma dispatch_never_panics_witness:
  "snd (snd (dispatchPipeline ex_envs ex_shared False None
     (zero_PipelineRun\<lparr>run_ExecutionMode := ''functions'', run_DefinitionID := ''pipe-1''\<rparr>))) \<noteq> Panicked"
  by (rule dispatch_never_panics [OF ex_shared_reachable])

text \<open>
  A secret resolves only to a stored token with its digest and prefix that is neither revoked nor
  expired; the resolution changes nothing of it but the time of its last use.
\<close>

lemma resolved_token_is_live:
  assumes "Store_ResolveAPIToken e s secret = (s', (t, None))"
  shows "\<exists>t0 \<in> set (st_APITokens (data s)). t = t0\<lparr>tok_LastUsedAt := Some (clk e 0)\<rparr> \<and>
     tok_RevokedAt t0 = None \<and> clk e 0 < tok_ExpiresAt t0 \<and>
     tok_SecretHash t0 = hex_EncodeToString (Sum256 secret) \<and> HasPrefix secret (tok_Prefix t0 @ ''_'')"
  using assms by (rule Store_ResolveAPIToken_sound)

lemma resolved_token_is_live_witness:
  "tok_RevokedAt ex_token = None \<and> 0 < tok_ExpiresAt ex_token \<and> HasPrefix ex_secret (tok_Prefix ex_token @ ''_'')"
proof -
  have "cat_Secret (fst (snd ex_created)) \<noteq> []" "clk ex_env 0 < clk ex_env 0 + day_ns"
    by (simp_all add: ex_created_value ex_secret_def day_ns_def)
  from Store_CreateAPIToken_resolves [OF ex_created_eq this] obtain s'' t
    where "Store_ResolveAPIToken ex_env (fst ex_created) ex_secret = (s'', (t, None))" by (auto simp: ex_created_value)
  from resolved_token_is_live [OF this] show ?thesis by (auto simp: ex_created_value ex_env_def)
qed

text \<open>
  Session accounting: in every reachable state the turns of a session are the number of its
  traces, and its tokens the sum of theirs, modulo the wrap-around of 64-bit counters.
\<close>

lemma sessions_accounted:
  assumes "reachable store_start gateway_step s" and "x \<in> set (st_Sessions (data s))"
  shows "ses_Turns x = wrap64 (int (length (session_traces (st_Traces (data s)) x))) \<and>
    wrap64 (ses_InputTokens x + ses_OutputTokens x) = wrap64 (sum_list (map trc_Tokens (session_traces (st_Traces (data s)) x)))"
  using gateway_accounts.reachable_inv [OF assms(1)] assms(2) by (simp add: accounts_ok_def session_accounted_def)

lemma sessions_accounted_witness:
  "\<exists>x \<in> set (st_Sessions (data ex_traced)). ses_Turns x = 2 \<and>
     ses_Turns x = wrap64 (int (length (session_traces (st_Traces (data ex_traced)) x)))"
proof -
  have "map ses_Turns (st_Sessions (data ex_traced)) = [2]" by code_simp
  then obtain x where "x \<in> set (st_Sessions (data ex_traced))" "ses_Turns x = 2" by auto
  with sessions_accounted [OF ex_traced_reachable, of x] show ?thesis by auto
qed

text \<open>
  A revocation can be undone by the lookup of the token: when a lookup has listed the tokens, the
  owner then revokes the token and the revocation commits, the lookup still stores its copy
  with the time of use, and the stored token is not revoked: it resolves again.
\<close>

lemma postgres_revocation_lost:
  assumes "pg_tenant q = pg_tenant p" and "c_token q = c_token p" and "faithful (c_token p)"
    and "find (token_live (pclk p 0) secret) (rows_listed p (c_token p) ''api_token'' d) = Some t"
    and "row_value (c_token p) (row_of p ''api_token'' (tok_ID t) d) = (t, None)"
    and "\<And>k. pg_err p k = None" and "pg_err q 0 = None"
    and "enc (c_token p) (t\<lparr>tok_LastUsedAt := Some (pclk p 0)\<rparr>) \<noteq> None"
    and "interleave [1, 0, 0] (d, [map_prog (\<lambda>r. r) (Pg_RevokeAPIToken q (tok_Subject t) (tok_ID t)),
        map_prog snd (Pg_ResolveAPIToken p secret)]) = (d1, [Return None, rest])"
  shows "(\<exists>revoked. row_value (c_token p) (row_of p ''api_token'' (tok_ID t) d1) = (revoked, None) \<and> tok_RevokedAt revoked \<noteq> None) \<and>
    (\<exists>kept. row_value (c_token p) (row_of p ''api_token'' (tok_ID t) (fst (interleave [1] (d1, [Return None, rest])))) = (kept, None) \<and>
       tok_RevokedAt kept = None \<and> token_live (pclk p 0) secret kept)"
proof -
  note lost = revocation_lost [OF assms]
  have "token_live (pclk p 0) secret (t\<lparr>tok_LastUsedAt := Some (pclk p 0)\<rparr>)"
    using find_SomeD [OF assms(4)] by (simp add: token_live_def tokenMatches_def)
  moreover have "tok_RevokedAt (t\<lparr>tok_LastUsedAt := Some (pclk p 0)\<rparr>) = None" using lost(3) by simp
  ultimately show ?thesis using lost(1,2) by blast
qed

lemma postgres_revocation_lost_witness:
  "\<exists>d1 rest kept. interleave [1, 0, 0] (ex_token_db, [map_prog (\<lambda>r. r)
        (Pg_RevokeAPIToken (ex_pg_later\<lparr>c_token := ex_token_codec\<rparr>) (tok_Subject ex_token) (tok_ID ex_token)),
        map_prog snd (Pg_ResolveAPIToken (ex_pg\<lparr>c_token := ex_token_codec\<rparr>) ex_secret)]) = (d1, [Return None, rest]) \<and>
     row_value ex_token_codec (row_of ex_pg ''api_token'' (tok_ID ex_token) (fst (interleave [1] (d1, [Return None, rest])))) = (kept, None) \<and>
     tok_RevokedAt kept = None"
proof -
  let ?p = "ex_pg\<lparr>c_token := ex_token_codec\<rparr>" and ?q = "ex_pg_later\<lparr>c_token := ex_token_codec\<rparr>"
  have env: "pg_tenant ?q = pg_tenant ?p" "c_token ?q = c_token ?p" "pg_err ?p k = None" "pg_err ?q 0 = None"
    "faithful (c_token ?p)" for k
    by (simp_all add: ex_pg_later_def ex_token_codec_def ex_codec_faithful, simp_all add: ex_pg_def)
  obtain d1 rest where run: "interleave [1, 0, 0] (ex_token_db, [map_prog (\<lambda>r. r) (Pg_RevokeAPIToken ?q (tok_Subject ex_token) (tok_ID ex_token)),
      map_prog snd (Pg_ResolveAPIToken ?p ex_secret)]) = (d1, [Return None, rest])" using ex_revocation(4) by blast
  have same: "row_of ?p kind i x = row_of ex_pg kind i x" for kind i x by (simp add: row_of_def)
  obtain kept where "row_value ex_token_codec (row_of ex_pg ''api_token'' (tok_ID ex_token)
      (fst (interleave [1] (d1, [Return None, rest])))) = (kept, None)" "tok_RevokedAt kept = None"
    using postgres_revocation_lost [OF env(1,2,5) ex_revocation(1,2) env(3,4) ex_revocation(3) run] unfolding same by auto
  with run show ?thesis by blast
qed

text \<open>
  A personal token outlives the grant of its owner: for a token the store resolves, the outcome of
  the middleware chain is the same whatever the owner's grant says, disabled or deleted.
\<close>

lemma token_ignores_grant:
  assumes "HasPrefix (bearer r) ''nxs_''" and "rt (bearer r) = (t, None)"
  shows "gateway_oidc ae rt verify (store_resolver (Store_AccessFor s)) r = gateway_oidc ae rt verify (store_resolver (Store_AccessFor s')) r"
  using assms by (rule oidc_token_resolver)

lemma token_ignores_grant_witness:
  "gateway_oidc ex_auth ex_resolve ex_verify (store_resolver (Store_AccessFor ex_store))
     (ex_request ''GET'' ''/api/v1/projects'' ''Bearer nxs_1_x'') =
   gateway_oidc ex_auth ex_resolve ex_verify (store_resolver (Store_AccessFor ex_granted))
     (ex_request ''GET'' ''/api/v1/projects'' ''Bearer nxs_1_x'')"
proof -
  let ?r = "ex_request ''GET'' ''/api/v1/projects'' ''Bearer nxs_1_x''"
  have "HasPrefix (bearer ?r) ''nxs_''" "bearer ?r = ''nxs_1_x''" by code_simp+
  then have "HasPrefix (bearer ?r) ''nxs_''" "ex_resolve (bearer ?r) = (ex_stored_token, None)" by (simp_all add: ex_resolve_def)
  then show ?thesis by (rule token_ignores_grant)
qed

text \<open>
  A run whose submission to the engine failed cannot be repaired by a retry: the failed run has
  the additional step \<open>submit-to-engine\<close>, the retry copies it as a pending step, and since no
  job has this name no sequence of reports about other steps makes the retried run succeed.
\<close>

lemma retry_after_engine_failure_never_succeeds:
  assumes "Store_Run s (run_ID run) = (run, None)" and "run_ok run" and "\<not> run_terminal run"
    and "run_ExecutionMode run \<noteq> ''functions''"
    and "dispatchPipeline es s faas (Some (Inr message)) run = (s1, failed, outcome)"
    and "Store_RetryRun e s1 (run_ID run) by_whom = (s2, (again, None))"
    and "\<forall>(e, req) \<in> set reqs. usr_Step req \<noteq> [] \<and> validStepStatus (usr_Status req) \<and> usr_Step req \<noteq> ''submit-to-engine''"
  shows "\<exists>r. Store_Run (report_all (run_ID again) who reqs s2) (run_ID again) = (r, None) \<and> run_Status r \<noteq> ''succeeded''"
proof -
  let ?req = "system_fail ''submit-to-engine'' message" and ?step = "''submit-to-engine''"
  have valid: "usr_Step ?req \<noteq> []" "validStepStatus (usr_Status ?req)" by (simp_all add: system_fail_def validStepStatus_def)
  have s1: "s1 = fst (Store_UpdateRunStep (es 0) s (run_ID run) ?req ''system'')"
    using assms(4,5) by (simp add: dispatchPipeline_def split_beta Let_def)
  have old: "Store_Run s1 (run_ID run) = (report_step (clk (es 0) 0) ?req run, None)"
    unfolding s1 by (rule Store_UpdateRunStep_Run [OF assms(1) valid])
  have status: "step_status (report_step (clk (es 0) 0) ?req run) ?step = Some ''failed''"
    using report_step_live(1) [OF assms(3), of "clk (es 0) 0" ?req ?step] by (simp add: system_fail_def)
  have "run_ok (report_step (clk (es 0) 0) ?req run)" "step_status (report_step (clk (es 0) 0) ?req run) ?step \<noteq> None"
    using report_step_ok [OF assms(2) valid(2)] status by simp_all
  note new = retried_run [OF old this assms(6)]
  from report_all_pending [OF new assms(7)] pending_not_succeeded show ?thesis by blast
qed

lemma retry_after_engine_failure_never_succeeds_witness:
  "\<exists>run s1 failed outcome s2 again r. dispatchPipeline ex_envs ex_submitted False (Some (Inr ''down'')) run = (s1, failed, outcome) \<and>
     Store_RetryRun ex_env s1 ''run-1'' ''ana'' = (s2, (again, None)) \<and>
     Store_Run (report_all (run_ID again) ''ci'' [(ex_env, ex_done ''train-model'')] s2) (run_ID again) = (r, None) \<and>
     run_Status r \<noteq> ''succeeded''"
proof -
  obtain run where run: "Store_Run ex_submitted ''run-1'' = (run, None)" "run_Status run = ''queued''"
    "run_Steps run = defaultSteps ''pending''" "run_Progress run = 0" "run_ExecutionMode run = ''prefect''"
    using ex_submitted_run by blast
  have i: "run_ID run = ''run-1''" using run(1) by (auto simp: Store_Run_def split: option.splits dest: find_SomeD)
  have ok: "run_ok run" using run by (intro run_ok_new) (auto simp: defaultSteps_def default_step_def)
  have mode: "run_ExecutionMode run \<noteq> ''functions''" by (simp add: run)
  obtain s1 failed outcome where dis: "dispatchPipeline ex_envs ex_submitted False (Some (Inr ''down'')) run = (s1, failed, outcome)"
    by (metis prod_cases3)
  have s1: "s1 = fst (Store_UpdateRunStep (ex_envs 0) ex_submitted ''run-1'' (system_fail ''submit-to-engine'' ''down'') ''system'')"
    using dis mode i by (simp add: dispatchPipeline_def split_beta Let_def)
  have "Store_Run s1 ''run-1'' = (report_step (clk (ex_envs 0) 0) (system_fail ''submit-to-engine'' ''down'') run, None)"
    unfolding s1 by (rule Store_UpdateRunStep_Run [OF run(1)]) (simp_all add: system_fail_def validStepStatus_def)
  moreover have "spath s1 = []"
    by (simp add: s1 Store_UpdateRunStep_spath) (simp add: ex_submitted_def Store_SubmitPipeline_def Let_def ex_store_def Store_New_def first_or_empty_def split: option.splits)
  ultimately obtain s2 again where retry: "Store_RetryRun ex_env s1 ''run-1'' ''ana'' = (s2, (again, None))"
    using retry_accepted by blast
  have "\<forall>(e, req) \<in> set [(ex_env, ex_done ''train-model'')]. usr_Step req \<noteq> [] \<and> validStepStatus (usr_Status req) \<and>
      usr_Step req \<noteq> ''submit-to-engine''" by (simp add: ex_done_def validStepStatus_def)
  moreover have "\<not> run_terminal run" by (simp add: run_terminal_def run(2))
  ultimately obtain r where "Store_Run (report_all (run_ID again) ''ci'' [(ex_env, ex_done ''train-model'')] s2) (run_ID again) = (r, None)"
    "run_Status r \<noteq> ''succeeded''"
    using retry_after_engine_failure_never_succeeds [OF run(1) [folded i] ok _ mode dis retry [folded i]] by blast
  with dis retry show ?thesis by blast
qed

text \<open>
  Function names cannot redirect an invocation: the request goes to the path below \<open>/function/\<close>
  of the configured server, in one segment without a query or fragment, which the server decodes
  to exactly the name; the credentials and the payload are those of the caller.
\<close>

lemma invocation_addressed:
  assumes "rq \<in> set (fst (Invoke w faas name payload))"
  shows "\<exists>seg. hq_URL rq = cl_BaseURL (of_client faas) @ ''/function/'' @ seg \<and> unescape encodePath seg = Some name \<and>
    set seg \<inter> {CHR ''/'', CHR ''?'', CHR ''#''} = {} \<and> hq_Body rq = Some payload \<and>
    hq_BasicAuth rq = (if of_user faas = [] then None else Some (of_user faas, of_password faas))"
  using Invoke_sent [OF assms] unescape_PathEscape [of name] PathEscape_no_delimiter [of name] by blast

lemma invocation_addressed_witness:
  "\<exists>rq seg. fst (Invoke ex_web (NewOpenFaaS ''http://faas/'' ''u'' ''p'') ''../system?x'' ''{}'') = [rq] \<and>
     hq_URL rq = ''http://faas/function/'' @ seg \<and> unescape encodePath seg = Some ''../system?x''"
proof -
  obtain rq where rq: "fst (Invoke ex_web (NewOpenFaaS ''http://faas/'' ''u'' ''p'') ''../system?x'' ''{}'') = [rq]"
    using ex_invocation by blast
  have "cl_BaseURL (of_client (NewOpenFaaS ''http://faas/'' ''u'' ''p'')) = ''http://faas''" by code_simp
  with invocation_addressed [of rq ex_web "NewOpenFaaS ''http://faas/'' ''u'' ''p''" "''../system?x''" "''{}''"] rq show ?thesis by auto
qed

end
