(* ===== verification/Spec2Isabelle.thy ===== *)
theory Spec2Isabelle
  imports Consequences
begin

text \<open>
  A verification of the control plane of the Nexus ML/AI operations platform (\<^verbatim>\<open>src/go\<close>).

  \<^bold>\<open>The program.\<close> The gateway (\<^verbatim>\<open>cmd/gateway\<close>) serves an HTTP API. A request passes the
  middlewares of \<^verbatim>\<open>internal/auth\<close> (personal API tokens, OIDC, role-based access control) and
  reaches a handler of \<^verbatim>\<open>internal/httpapi\<close>, which scopes it to the caller's projects, enforces
  quotas and calls a repository of \<^verbatim>\<open>internal/store\<close>. The repository keeps projects, workflows,
  runs, functions, models, agents, features, tools, connections, grants, access requests,
  tokens, blog posts and the audit log. The file-backed one holds them in memory under a mutex
  and replaces a JSON file after every change; the PostgreSQL one keeps them as rows of one
  table per tenant and writes an audit event and outbox messages in the same transaction, which
  a worker publishes. A function workflow is executed by goroutines of the gateway. The
  integration worker (\<^verbatim>\<open>internal/integrations\<close>) turns published commands into Kubernetes custom
  resources, which the operator (\<^verbatim>\<open>internal/operator\<close>) turns into workloads. Beside the gateway
  run a feature gateway (\<^verbatim>\<open>internal/feature\<close>), a storage proxy (\<^verbatim>\<open>internal/storage\<close>), a
  serving manager that runs a container per deployed model (\<^verbatim>\<open>internal/serving\<close>), a metrics
  collector (\<^verbatim>\<open>internal/metrics\<close>) and a proxy that traces language model calls
  (\<^verbatim>\<open>internal/traceproxy\<close>); \<^verbatim>\<open>cmd/cli\<close> is a command line client.

  \<^bold>\<open>Model.\<close> A struct is a record, a Go string a byte list, an \<open>int64\<close> an \<open>int\<close> with
  \<open>wrap64\<close> where the code adds, a \<open>float64\<close> its 64-bit pattern with IEEE rounding, a
  \<open>time.Time\<close> its nanoseconds. A method of the store is a function from the store to the
  store and its results, errors included; what it observes of the outside (clock, random
  bytes, map iteration order, JSON coding, failing system calls) is the record \<open>env\<close>.
  A handler gets one \<open>env\<close> per repository call, the principal of the request and the decoded
  body; external services are arguments of the handler.

  \<^item> \<open>Prelude\<close>: errors, Go's string functions on UTF-8 bytes, first-match updates of slices,
    map iteration orders, reachability and the locales \<open>transition_invariant\<close> and \<open>sticky_fact\<close>.
  \<^item> \<open>Float64\<close>, \<open>Go_Crypto\<close>, \<open>Go_Url\<close>: the parts of Go's standard library the code uses
    (float comparison and addition; SHA-256, hex, base64; \<open>url.Parse\<close>).
  \<^item> \<open>Api\<close>: the structs of \<^verbatim>\<open>pkg/api/types.go\<close>.
  \<^item> \<open>Store_Base\<close>, \<open>Access\<close>, \<open>Runs\<close>, \<open>Projects\<close>, \<open>Models\<close>, \<open>Registry\<close>, \<open>Tokens\<close>,
    \<open>Blog\<close>: the file-backed repository, one theory per component, each with its invariant and
    the effect of every operation; \<open>Pipeline_Graph\<close> and \<open>Workload_Validation\<close>: the cycle
    check and the validation of workflows, functions and Git repositories against declarative
    specifications.
  \<^item> \<open>Store_Steps\<close>: the repository as a state machine over all its mutating methods; invariants
    and facts no later call can undo.
  \<^item> \<open>Auth\<close>: the role table and the middlewares. \<open>Http_Access\<close>: scoping and quotas with the
    locale \<open>guarded_creation\<close>. \<open>Handlers\<close>: the handlers. \<open>Gateway\<close>: the handlers as a state
    machine that refines the repository's, isolation, and the quotas as interpretations.
  \<^item> \<open>Executor\<close>: \<open>executeFunctionPipeline\<close> as a small-step machine whose main goroutine and
    workers are interleaved arbitrarily with each other and with other clients: a bound on its
    steps, the order of the jobs, and its outcome in the locale \<open>quiet_run\<close>. \<open>Execution\<close>
    interprets it for the requests of the gateway.
  \<^item> \<open>Postgres_Base\<close>, \<open>Postgres\<close>: the tables and every method of the PostgreSQL repository
    as a program, a tree of atomic database accesses that may fail; concurrent methods are
    interleaved access by access. \<open>Postgres_Contracts\<close>: what every access respects, in the
    locales \<open>write_contract\<close>, \<open>access_contract\<close> and \<open>statement_contract\<close> with
    interpretations for atomicity, tenants and the logs. \<open>Postgres_Refinement\<close>: serial
    executions are simulated by the file-backed repository. \<open>Postgres_Races\<close>: updates that
    concurrency loses. \<open>Outbox\<close>: the worker that publishes messages.
  \<^item> \<open>Dispatcher\<close>: the integration worker; every call of an external service is an answer it is
    given and a request it returns. \<open>Delivery\<close>: the command a repository transaction leaves in
    the outbox and what the worker makes of it. \<open>Clients\<close>: the HTTP clients of the engines.
  \<^item> \<open>Operator\<close>, \<open>Workspaces\<close>: the four reconcilers of the operator: the objects they ask for,
    the bounds a grant puts on a pod, submission at most once.
  \<^item> \<open>Provisioning\<close>: from an accepted grant through the outbox, the worker and the operator to the
    Deployment of a workspace.
  \<^item> \<open>Sessions\<close>: the browser login through the identity provider and the local login, with the
    cookies a browser keeps; where a login may return to; the lifetime of a local session.
  \<^item> \<open>Go_Fmt\<close>, \<open>Features\<close>: the feature gateway, its stores as interpretations of the locale
    \<open>feature_store\<close>, and the translation to Feast's columns. \<open>Storage\<close>: request signing, the
    object browser, the storage proxy and the gateway's handler before it.
  \<^item> \<open>Serving\<close>: the serving manager over a Docker engine, given as a state machine over HTTP
    requests; what the manager relies on is the predicate \<open>docker_serves\<close>, and the gateway's calls
    reach it through \<open>serving_web\<close>. \<open>Proxies\<close>: the handlers that pass a call on to a model, an
    agent or a function, the function list and the prompts.
  \<^item> \<open>Console\<close>: component health, the catalog, dashboard, readiness, the event stream, live
    statistics, the plain listings and the first blog post. \<open>Metrics\<close>: the two collectors and
    their exposition. \<open>Tracing\<close>: the trace proxy and its sinks.
  \<^item> \<open>Keys\<close>: the verifier's cache of signing keys. \<open>Routes\<close>: the route table, that its patterns
    are pairwise apart, and which handlers a role reaches. \<open>Cli\<close>: the command line client and the
    handlers its commands reach.
  \<^item> \<open>Examples\<close>, \<open>Backend_Examples\<close>, \<open>Cluster_Examples\<close>, \<open>Service_Examples\<close>: concrete inputs for the witnesses.
    \<open>Consequences\<close>: further properties of single operations and divergences shown on these
    inputs.

  \<^bold>\<open>Bounds.\<close> The depth-first search of the cycle check runs on fuel one more than the number of
  jobs, which \<open>Pipeline_Graph\<close> proves to be enough. The executor has no fuel: its runs are an
  inductive relation with a proved bound. All other definitions are total.

  \<^bold>\<open>Not modelled.\<close> Process start-up (listeners, timeouts, most of the reading of the environment),
  connecting to PostgreSQL and its migration, the registration of the operator's controllers and
  the deep copies of the custom resources: input, output and boilerplate without decisions of its
  own. The OpenAPI document, the text of the first blog post and the static files are content. The
  verification of a token's signature, Docker, Kubernetes, Redis, object stores and the engines
  are parameters. JSON decoding of requests is represented by its result.
\<close>

section \<open>The control plane as a whole\<close>

text \<open>
  C1. Every state the gateway can reach, from a fresh store and by any sequence of requests with any
  bodies, principals, clock readings and system-call failures, satisfies \<open>store_ok\<close>: names,
  versions and slugs are unique where they must be, every run, model, agent, function and
  definition belongs to an existing project, stored workflows are acyclic, grants and tokens are
  within their limits, run progress and status follow from the steps.
\<close>

theorem gateway_keeps_store_ok:
  assumes "reachable store_start gateway_step s"
  shows "store_ok (data s)"
  using assms by (rule gateway_inv.reachable_inv)

theorem gateway_keeps_store_ok_witness: "store_ok (data ex_shared)"
  by (rule gateway_keeps_store_ok [OF ex_shared_reachable])



text \<open>
  C3. The audit log is append only: the log of any earlier state is the tail of the log of any
  later one.
\<close>

theorem audit_append_only:
  assumes "gateway_step\<^sup>*\<^sup>* s t"
  shows "suffix (st_Audit (data s)) (st_Audit (data t))"
  using gateway_audit.steps_keep [OF assms] by simp

theorem audit_append_only_witness: "suffix (st_Audit (data ex_store)) (st_Audit (data ex_granted))"
  by (rule audit_append_only) (rule r_into_rtranclp [of gateway_step, OF ex_granted_step])

section \<open>Authentication and authorisation\<close>

text \<open>
  C4. Under OIDC a request to \<^verbatim>\<open>/api/v1/admin/\<close> reaches its handler only for an enabled principal
  with the admin or the operator role, never with a personal token, and when the store holds
  a grant for the subject it is an enabled grant with that role.
\<close>

theorem admin_area_protected:
  assumes "gateway_oidc ae rt verify (store_resolver (Store_AccessFor s)) r = Forward c"
    and "HasPrefix (rq_Path r) ''/api/v1/admin/''"
  shows "\<exists>p. c = Some p \<and> \<not> pr_Disabled p \<and> (hasRole p ''admin'' \<or> hasRole p ''operator'') \<and> \<not> HasPrefix (bearer r) ''nxs_'' \<and>
    (\<forall>a. Store_AccessFor s (pr_Subject p) = (a, None) \<longrightarrow> pr_Subject p \<noteq> [] \<longrightarrow> \<not> hasRole p ''service'' \<longrightarrow>
       pr_Credential p \<noteq> ''api_token'' \<longrightarrow> (ua_Role a = ''admin'' \<or> ua_Role a = ''operator'') \<and> \<not> ua_Disabled a)"
proof -
  note path = admin_not_public(2-4) [OF assms(2)]
  obtain ctx p where m: "c = Some p" "Allowed p (rq_Method r) (rq_Path r)"
    "p = resolved_principal (Some (store_resolver (Store_AccessFor s))) (case ctx of Some p \<Rightarrow> p | None \<Rightarrow> default_principal ae r)"
    using oidc_api [OF assms(1) path] by metis
  have adm: "\<not> pr_Disabled p" "hasRole p ''admin'' \<or> hasRole p ''operator''"
    using Allowed_not_disabled [OF m(2)] Allowed_admin [OF m(2) assms(2)] by simp_all
  have "\<not> HasPrefix (bearer r) ''nxs_''"
  proof
    assume "HasPrefix (bearer r) ''nxs_''"
    from oidc_token [OF assms(1) this path] m(1) have "pr_Roles p = [''user'']" by auto
    with adm(2) show False by (simp add: hasRole_def)
  qed
  moreover have "(ua_Role a = ''admin'' \<or> ua_Role a = ''operator'') \<and> \<not> ua_Disabled a"
    if g: "Store_AccessFor s (pr_Subject p) = (a, None)" "pr_Subject p \<noteq> []" "\<not> hasRole p ''service''" "pr_Credential p \<noteq> ''api_token''" for a
  proof -
    from resolved_grant [OF m(3) g(1,2,4) resolved_not_service [OF m(3) g(3)]]
    have "pr_Roles p = [ua_Role a]" "pr_Disabled p = ua_Disabled a" by blast+
    with adm show ?thesis by (simp add: hasRole_def)
  qed
  ultimately show ?thesis using adm m(1) by blast
qed

theorem admin_area_protected_witness:
  "\<exists>p. gateway_oidc ex_auth ex_resolve ex_verify (store_resolver (Store_AccessFor ex_granted))
     (ex_request ''PUT'' ''/api/v1/admin/users/ana'' ''Bearer jwt-root'') = Forward (Some p) \<and> hasRole p ''admin'' \<and> \<not> pr_Disabled p"
proof -
  have fwd: "gateway_oidc ex_auth ex_resolve ex_verify (store_resolver (Store_AccessFor ex_granted))
     (ex_request ''PUT'' ''/api/v1/admin/users/ana'' ''Bearer jwt-root'') = Forward (Some ex_admin)"
    and "HasPrefix (rq_Path (ex_request ''PUT'' ''/api/v1/admin/users/ana'' ''Bearer jwt-root'')) ''/api/v1/admin/''" by code_simp+
  from admin_area_protected [OF this] show ?thesis
    unfolding fwd by (auto simp: ex_admin_def hasRole_def zero_Principal_def)
qed





section \<open>Workflows and runs\<close>

text \<open>
  C7. \<open>validatePipelineDefinition\<close> accepts a request, for every iteration order of its maps, exactly
  when the trimmed and defaulted request is a well-formed workflow: required fields,
  well-formed jobs with distinct names, dependencies among them, and no cycle; what it returns
  is that normalised request.
\<close>

theorem validatePipelineDefinition_correct:
  "validatePipelineDefinition seed req = (req', None) \<longleftrightarrow> req' = normalise req \<and> definition_ok (normalise req)"
  by (rule validatePipelineDefinition_iff)

text \<open>
  C8. A finished run is frozen: a run that succeeded, failed or was cancelled keeps its status, its
  steps and its progress in every later state, also when late step reports, cancellations or
  engine links arrive.
\<close>

theorem finished_run_immutable:
  assumes "gateway_step\<^sup>*\<^sup>* s t" and "r \<in> set (st_Runs (data s))"
    and "run_Status r \<in> {''succeeded'', ''failed'', ''cancelled''}"
  shows "\<exists>r' \<in> set (st_Runs (data t)). run_ID r' = run_ID r \<and> run_Status r' = run_Status r \<and>
    run_Steps r' = run_Steps r \<and> run_Progress r' = run_Progress r"
  using gateway_runs.steps_keep [OF assms(1), of "(run_ID r, run_Status r, run_Steps r, run_Progress r)"] assms(2,3)
  by (auto simp: run_frozen_def)

theorem finished_run_immutable_witness:
  "\<exists>r \<in> set (st_Runs (data ex_granted)). run_ID r = ''run-demo'' \<and> run_Status r = ''succeeded''"
proof -
  have "gateway_step\<^sup>*\<^sup>* ex_store ex_granted" by (rule r_into_rtranclp [of gateway_step, OF ex_granted_step])
  from finished_run_immutable [OF this, of "demo_run 0"] show ?thesis
    by (auto simp: ex_store_runs demo_run_def)
qed

text \<open>
  C9. A run succeeds once its work is done: when every unfinished step of a queued or running run is
  reported as succeeded or skipped, in any order and mixed with repeated reports, the run has
  the status \<open>succeeded\<close> and progress 100 afterwards.
\<close>

theorem all_steps_done_succeeds:
  assumes "Store_Run s i = (r, None)" and "run_ok r" and "run_Status r \<in> {''queued'', ''running''}"
    and "distinct (map ps_Name (run_Steps r))"
    and "\<forall>st \<in> set (run_Steps r). step_done (ps_Status st) \<or> ps_Name st \<in> usr_Step ` snd ` set reqs"
    and "\<forall>(e, req) \<in> set reqs. usr_Step req \<noteq> [] \<and> step_done (usr_Status req)"
  shows "\<exists>r'. Store_Run (report_all i who reqs s) i = (r', None) \<and> run_Status r' = ''succeeded'' \<and> run_Progress r' = 100"
proof -
  from assms have "awaits (usr_Step ` snd ` set reqs) r" by (auto simp: awaits_def)
  from report_all_awaits [OF assms(1) this assms(6)] show ?thesis using awaits_none by blast
qed

theorem all_steps_done_succeeds_witness:
  "\<exists>r. Store_Run (report_all ''run-1'' ''ci'' (map (\<lambda>st. (ex_env, ex_done st))
      [''register-model'', ''validate-data'', ''evaluate'', ''train-model'']) ex_submitted) ''run-1'' = (r, None) \<and>
     run_Status r = ''succeeded'' \<and> run_Progress r = 100"
proof -
  obtain r where r: "Store_Run ex_submitted ''run-1'' = (r, None)" "run_Status r = ''queued''"
    "run_Steps r = defaultSteps ''pending''" "run_Progress r = 0" using ex_submitted_run by blast
  have names: "map ps_Name (defaultSteps ''pending'') = [''validate-data'', ''train-model'', ''evaluate'', ''register-model'']"
    by code_simp
  have "run_ok r"
    using r by (intro run_ok_new) (auto simp: defaultSteps_def default_step_def)
  moreover have "\<forall>st \<in> set (run_Steps r). ps_Name st \<in> {''validate-data'', ''train-model'', ''evaluate'', ''register-model''}"
    using names r(3) by (simp add: defaultSteps_def default_step_def)
  moreover have "distinct (map ps_Name (run_Steps r))" by (simp add: r(3) names)
  ultimately show ?thesis
    using r by (intro all_steps_done_succeeds [OF r(1)]) (auto simp: ex_done_def step_done_def)
qed

text \<open>
  C10. The status of a run means what it says, in every reachable state: progress stays within 0 and
  100; a run that was not cancelled has succeeded exactly when all its steps are done, and
  has failed exactly when one of them failed.
\<close>

theorem run_status_meaning:
  assumes "reachable store_start gateway_step s" and "r \<in> set (st_Runs (data s))"
  shows "0 \<le> run_Progress r \<and> run_Progress r \<le> 100 \<and>
    run_Status r \<in> {''queued'', ''running'', ''succeeded'', ''failed'', ''cancelled''} \<and>
    (run_Status r = ''succeeded'' \<longleftrightarrow> run_Status r \<noteq> ''cancelled'' \<and> (\<forall>st \<in> set (run_Steps r). step_done (ps_Status st))) \<and>
    (run_Status r = ''failed'' \<longleftrightarrow> run_Status r \<noteq> ''cancelled'' \<and> (\<exists>st \<in> set (run_Steps r). ps_Status st = ''failed''))"
proof -
  have ok: "run_ok r" using gateway_inv.reachable_inv [OF assms(1)] assms(2) by (simp add: store_ok_def)
  show ?thesis using run_ok_status [OF ok] run_progress_bounds [OF ok] by blast
qed

theorem run_status_meaning_witness: "run_Progress (demo_run 0) \<le> 100"
  using run_status_meaning [OF ex_reachable, of "demo_run 0"] by (simp add: ex_store_runs)

section \<open>Quotas\<close>

text \<open>
  C11. The project quota: as long as a user owns no more projects than the grant allows, no sequence of
  their creation requests, processed one after the other, makes them own more.
\<close>

theorem project_quota_respected:
  assumes "is_user p" and "\<not> privileged p" and "Store_AccessFor s (pr_Subject p) = (a, None)"
    and "int (count_owned (pr_Subject p) (st_Projects (data s))) \<le> cg_MaxProjects (ua_Compute a)"
  shows "int (count_owned (pr_Subject p) (st_Projects (data
      (foldl (\<lambda>s (es, body). fst (h_createProject es s p body)) s reqs)))) \<le> cg_MaxProjects (ua_Compute a)"
proof -
  have "grant_limit cg_MaxProjects p s = Some (cg_MaxProjects (ua_Compute a))"
    using assms(1-3) by (simp add: grant_limit_def)
  then show ?thesis
    using assms(4)
    by (induction reqs arbitrary: s)
      (auto simp: createProject_body project_quota.guarded_limit project_quota.guarded_keeps split: option.splits)
qed

theorem project_quota_respected_witness:
  "int (count_owned ''ana'' (st_Projects (data (foldl (\<lambda>s (es, body). fst (h_createProject es s ex_user body)) ex_granted
     [(ex_envs, Some ex_project), (ex_envs, Some (ex_project\<lparr>cpr_Name := ''Second''\<rparr>))])))) \<le> 1"
proof -
  obtain a where a: "Store_AccessFor ex_granted (pr_Subject ex_user) = (a, None)" "cg_MaxProjects (ua_Compute a) = 1"
    using ex_grant_access by auto
  have "count_owned (pr_Subject ex_user) (st_Projects (data ex_granted)) = 0" by code_simp
  then show ?thesis
    using project_quota_respected [OF _ _ a(1), of "[(ex_envs, Some ex_project), (ex_envs, Some (ex_project\<lparr>cpr_Name := ''Second''\<rparr>))]"]
    by (simp add: a(2))
qed

section \<open>Models\<close>

text \<open>
  C12. A model registered with an accuracy below 0.8 never serves: in every reachable state its gate
  has failed, it is not in production, and it gets no canary traffic.
\<close>

theorem failed_gate_never_in_production:
  assumes "reachable store_start gateway_step s" and "m \<in> set (st_Models (data s))"
    and "map_of (mdl_Metrics m) ''accuracy'' = Some a" and "f64_less a f64_0_8"
  shows "mdl_GateStatus m = ''failed'' \<and> mdl_Stage m \<noteq> ''production'' \<and> mdl_CanaryWeight m = 0"
proof -
  have "model_ok m"
    using gateway_inv.reachable_inv [OF assms(1)] assms(2) by (simp add: store_ok_def models_ok_def)
  with assms(3,4) show ?thesis using evaluation_gate_failed [of "mdl_Metrics m"] by (auto simp: model_ok_def)
qed

theorem failed_gate_never_in_production_witness:
  "\<exists>m \<in> set (st_Models (data ex_registered)). mdl_GateStatus m = ''failed'' \<and> mdl_Stage m \<noteq> ''production'' \<and> mdl_CanaryWeight m = 0"
proof -
  have "map mdl_Metrics (st_Models (data ex_registered)) = [[(''accuracy'', 0x3FE0000000000000)]]" by code_simp
  then obtain m where m: "st_Models (data ex_registered) = [m]" "mdl_Metrics m = [(''accuracy'', 0x3FE0000000000000)]" by auto
  have "reachable store_start gateway_step ex_registered"
    unfolding ex_registered_def by (rule ex_reach_step) (rule gateway_step.intros)
  moreover have "f64_less 0x3FE0000000000000 f64_0_8" by code_simp
  ultimately show ?thesis using failed_gate_never_in_production [of ex_registered m] m by simp
qed

section \<open>Personal API tokens\<close>

text \<open>
  C13. Revocation is final: once every stored token with the digest of a secret is revoked, the secret
  is refused in every later state, unless a token with the same digest is issued again.
\<close>

theorem revoked_token_never_resolves:
  assumes "(avoids (hex_EncodeToString (Sum256 secret)))\<^sup>*\<^sup>* s t" and "all_revoked (hex_EncodeToString (Sum256 secret)) s"
  shows "Store_ResolveAPIToken e t secret = (t, (zero_APIToken, Some ErrNotFound))"
proof -
  have "find (token_live (clk e 0) secret) (st_APITokens (data t)) = None"
    using avoids_steps [OF assms] by (auto simp: all_revoked_def find_None_iff token_live_def tokenMatches_def)
  then show ?thesis by (simp add: Store_ResolveAPIToken_def Let_def)
qed

theorem revoked_token_never_resolves_witness:
  "snd (Store_ResolveAPIToken ex_env (fst (Store_DeleteUserAccess ex_env ex_revoked ''ana'' ''root'')) ex_secret) =
     (zero_APIToken, Some ErrNotFound)"
proof -
  let ?t = "fst (Store_DeleteUserAccess ex_env ex_revoked ''ana'' ''root'')"
  have "st_APITokens (data ?t) = st_APITokens (data ex_revoked)"
    by (simp add: Store_DeleteUserAccess_def Let_def split: option.split)
  then have "avoids h ex_revoked ?t" for h
    unfolding avoids_def using store_step.delete_user_access by auto
  moreover have "all_revoked h ex_revoked" for h
    by (simp add: all_revoked_def ex_revoked_tokens)
  ultimately show ?thesis
    using revoked_token_never_resolves [of ex_secret ex_revoked ?t ex_env] by (simp add: r_into_rtranclp)
qed

section \<open>Persistence\<close>

text \<open>
  C14. Restart after a crash: provided the JSON decoder reads back what the encoder wrote, a process that
  starts on the disk a crash left behind has exactly the state before or the state after the
  interrupted operation.
\<close>

theorem restart_after_crash:
  assumes "persist_crash e s d" and "spath s \<noteq> []" and "read_err e' = None"
    and "disk s (spath s) = Some old" and "unmarshal e' old zero_state = (d0, None)" and "st_Projects d0 \<noteq> []"
    and "\<And>raw. marshal e (data s) = Some raw \<Longrightarrow> unmarshal e' raw zero_state = (data s, None)"
    and "st_Projects (data s) \<noteq> []"
  shows "data (Store_New e' d [spath s]) \<in> {d0, data s}"
  using persist_crash_file [OF assms(1,2)] assms(2-) by (auto simp: Store_New_def load_def first_or_empty_def Let_def)

theorem restart_after_crash_witness:
  "data (Store_New ex_reader ((disk ex_filed)(tmp_path ex_filed \<mapsto> ''{'')) [''db'']) \<in> {data ex_store, data ex_granted}"
proof -
  have crash: "persist_crash ex_env ex_filed ((disk ex_filed)(tmp_path ex_filed \<mapsto> ''{''))"
    by (rule persist_crash.writing [of _ _ "''{}''"]) (simp_all add: ex_env_def ex_filed_def)
  have p: "st_Projects (data ex_store) \<noteq> []" "st_Projects (data ex_granted) \<noteq> []" by code_simp+
  have "data (Store_New ex_reader ((disk ex_filed)(tmp_path ex_filed \<mapsto> ''{'')) [spath ex_filed]) \<in> {data ex_store, data ex_filed}"
    by (rule restart_after_crash [OF crash, of ex_reader "''old''"])
      (simp_all add: ex_filed_def ex_reader_def ex_env_def p split: if_splits)
  then show ?thesis by (simp add: ex_filed_def)
qed

section \<open>The executor of function workflows\<close>

text \<open>
  C15. The executor terminates: whatever the functions answer, however the goroutines are scheduled
  and whatever other clients do to the repository, it makes at most as many steps as its jobs
  have attempts, plus seven for every job and one to return, and until it returns it always
  has a next step.
\<close>

theorem executor_terminates:
  assumes "exec_run c run other (exec_start s jobs) n st"
  shows "n \<le> 1 + sum_list (map (\<lambda>job. nat (job_Retries job + 1) + 6) jobs) \<and>
    (\<not> x_returned st \<longrightarrow> (\<forall>e. \<exists>who st'. exec_move c e run who st = Some st'))"
proof
  have "n + exec_cost st \<le> 1 + sum_list (map job_cost jobs)"
    using exec_run_cost [OF assms] exec_cost_start [of s jobs] by linarith
  then show "n \<le> 1 + sum_list (map (\<lambda>job. nat (job_Retries job + 1) + 6) jobs)"
    by (simp add: job_cost_def [abs_def])
  show "\<not> x_returned st \<longrightarrow> (\<forall>e. \<exists>who st'. exec_move c e run who st = Some st')"
    using exec_not_stuck by blast
qed

theorem executor_terminates_witness:
  "\<exists>n st. exec_run ex_client ex_run (\<lambda>_ _. False) ex_exec n st \<and> x_returned st \<and> n \<le> 17"
proof -
  obtain n st where run: "exec_run ex_client ex_run (\<lambda>_ _. False) ex_exec n st" "x_returned st"
    using exec_returns [OF exec_run.start] by blast
  from executor_terminates [OF run(1) [unfolded ex_exec_def]] have "n \<le> 17"
    by (simp add: ex_calls_def ex_call_def)
  with run show ?thesis by blast
qed

text \<open>
  C16. The executor respects the dependencies, whatever happens concurrently: at every moment a job
  that was started has only dependencies whose invocation succeeded and whose output is
  stored, the payload it sends contains exactly these outputs, no job is started twice, and
  the executor never reports a graph without progress.
\<close>

theorem executor_order:
  assumes "graph_ok jobs" and "exec_run c run other (exec_start s jobs) n st" and "(job, pc) \<in> set (x_workers st)"
  shows "distinct (map (job_Name \<circ> fst) (x_workers st)) \<and>
    (\<forall>d \<in> set (job_DependsOn job). d \<in> x_completed st \<and> x_outputs st d \<noteq> None \<and>
       (\<exists>j. (j, Finished) \<in> set (x_workers st) \<and> job_Name j = d)) \<and>
    (\<forall>payload attempt raw err. pc = Invoking payload attempt raw err \<longrightarrow> payload = job_payload c run job (x_outputs st)) \<and>
    (list_all (\<lambda>w. snd w = Finished) (x_workers st) \<and> \<not> x_failed st \<and> x_remaining st \<noteq> [] \<longrightarrow>
       filter (job_ready (x_completed st)) (x_remaining st) \<noteq> [])"
proof -
  have ok: "exec_ok c run jobs st" by (rule exec_run_ok [OF assms(2) exec_ok_start [OF assms(1)] assms(1)])
  have w: "worker_ok c run st (job, pc)" using ok assms(3) by (simp add: exec_ok_def)
  have "distinct (map (job_Name \<circ> fst) (x_workers st))" using ok by (simp add: exec_ok_def comp_def)
  then show ?thesis
    using w never_stuck [OF assms(1) ok] by (auto simp: worker_ok_def succeeded_dep_def)
qed

theorem executor_order_witness:
  "\<exists>st. exec_schedule ex_client ex_run ex_waves ex_exec = Some st \<and>
     (ex_call ''fit'' [''load''], Reading) \<in> set (x_workers st) \<and> ''load'' \<in> x_completed st"
proof -
  have "map_option (\<lambda>st. map snd (x_workers st)) (exec_schedule ex_client ex_run ex_waves ex_exec) = Some [Finished, Reading]"
    "map_option (\<lambda>st. map fst (x_workers st)) (exec_schedule ex_client ex_run ex_waves ex_exec) =
       Some [ex_call ''load'' [], ex_call ''fit'' [''load'']]"
    by code_simp+
  then obtain st where st: "exec_schedule ex_client ex_run ex_waves ex_exec = Some st"
    and w: "map snd (x_workers st) = [Finished, Reading]" "map fst (x_workers st) = [ex_call ''load'' [], ex_call ''fit'' [''load'']]"
    by auto
  have mem: "(ex_call ''fit'' [''load''], Reading) \<in> set (x_workers st)"
    using w by (auto simp: map_eq_Cons_conv)
  have "exec_run ex_client ex_run (\<lambda>_ _. False) ex_exec (0 + length ex_waves) st"
    by (rule exec_schedule_run [OF st exec_run.start])
  from executor_order [OF ex_graph_ok this [unfolded ex_exec_def] mem] st mem show ?thesis
    by (auto simp: ex_call_def)
qed

text \<open>
  C17. A function workflow runs to its end: when a run is submitted for a stored definition in a
  reachable state and dispatched to the executor, then, once the executor returns (while the
  gateway served any requests that leave this run alone), the stored run has succeeded with
  progress 100 and every job was executed, or it has failed and some job used up all its
  attempts.
\<close>

theorem executor_outcome:
  assumes "reachable store_start gateway_step s" and "Store_SubmitPipeline e s req actors = (s1, (run, None))"
    and "sub_DefinitionID req \<noteq> []" and "dispatchPipeline es s1 faas prefect run = (s2, run', Executing)"
    and "Store_PipelineDefinition s1 (run_DefinitionID run) = (d, None)"
    and "exec_run c run' (elsewhere (run_ID run')) (exec_start s2 (pd_Jobs d)) n st" and "x_returned st"
  shows "\<exists>r. Store_Run (x_store st) (run_ID run') = (r, None) \<and>
    (run_Status r = ''succeeded'' \<and> run_Progress r = 100 \<and> x_completed st = job_Name ` set (pd_Jobs d) \<or>
     run_Status r = ''failed'' \<and> (\<exists>job \<in> set (pd_Jobs d). exhausted c job))"
proof -
  have s2: "s2 = s1" "run' = run" using dispatch_executing [OF assms(4)] by simp_all
  obtain d' where d': "find (\<lambda>d. pd_ID d = sub_DefinitionID req) (st_Definitions (data s)) = Some d'"
    and run: "run_Steps run = stepsFromDefinition d'" "run_Status run = ''queued''" "run_Progress run = 0"
      "run_DefinitionID run = sub_DefinitionID req" "Store_Run s1 (run_ID run) = (run, None)"
      "st_Definitions (data s1) = st_Definitions (data s)"
    using submitted_run [OF assms(2,3)] by blast
  have d: "d = d'" using assms(5) d' run by (simp add: Store_PipelineDefinition_def pipelineDefinitionFrom_def)
  have mem: "d \<in> set (st_Definitions (data s))" using find_SomeD [OF d'] d by simp
  note jobs = stored_definition_ok [OF gateway_inv.reachable_inv [OF assms(1)] mem]
  have "run_ok run" using run_ok_submitted [OF jobs(3)] run d by blast
  moreover have "map ps_Name (run_Steps run) = map job_Name (pd_Jobs d)" by (simp add: run d stepsFromDefinition_def)
  ultimately show ?thesis
    using quiet.exec_outcome [OF assms(6)[unfolded s2] assms(7) jobs(1,2) run(5)] run(2)
    by (auto simp: s2 split: if_splits)
qed

theorem executor_outcome_witness:
  "\<exists>s1 run (st :: exec) r. Store_SubmitPipeline ex_env ex_composed (ex_submission\<lparr>sub_DefinitionID := ''pipe-1''\<rparr>) [] = (s1, (run, None)) \<and>
     Store_Run (x_store st) (run_ID run) = (r, None) \<and> run_Status r \<in> {''succeeded'', ''failed''}"
proof -
  let ?req = "ex_submission\<lparr>sub_DefinitionID := ''pipe-1''\<rparr>"
  have "spath ex_composed = []" "hasProject (st_Projects (data ex_composed)) (sub_ProjectID ?req)"
    and plan: "submission_plan (data ex_composed) ?req \<noteq> None" by code_simp+
  from Store_SubmitPipeline_accepted [OF this] obtain s1 run where
    sub: "Store_SubmitPipeline ex_env ex_composed ?req [] = (s1, (run, None))" by blast
  have req: "sub_DefinitionID ?req \<noteq> []" by simp
  have mode: "run_ExecutionMode run = ''functions''"
  proof -
    have "map_option (\<lambda>(a, b, c). b) (submission_plan (data ex_composed) ?req) = Some ''functions''" by code_simp
    with sub show ?thesis by (auto simp: Store_SubmitPipeline_def Let_def commit_def split_beta split: if_splits option.splits)
  qed
  obtain d where d: "Store_PipelineDefinition s1 (run_DefinitionID run) = (d, None)"
    using submitted_run [OF sub req] by (auto simp: Store_PipelineDefinition_def pipelineDefinitionFrom_def)
  then have dis: "dispatchPipeline ex_envs s1 True None run = (s1, run, Executing)" by (simp add: dispatchPipeline_def mode)
  obtain n st where run: "exec_run ex_client run (elsewhere (run_ID run)) (exec_start s1 (pd_Jobs d)) n st" "x_returned st"
    using exec_returns [OF exec_run.start] by blast
  from executor_outcome [OF ex_composed_reachable sub req dis d run] obtain r where
    "Store_Run (x_store st) (run_ID run) = (r, None)" "run_Status r \<in> {''succeeded'', ''failed''}" by auto
  with sub show ?thesis by blast
qed

section \<open>The PostgreSQL repository\<close>





text \<open>
  C20. Tenants are isolated: whatever methods of one tenant's repository run concurrently, deletions
  and token lookups included, no row of another tenant is changed in any table.
\<close>

theorem postgres_tenant_isolation:
  assumes "\<forall>q \<in> set ps. \<exists>p. pg_tenant p = t \<and> pg_method p q" and "prog_step\<^sup>*\<^sup>* (d, ps) (d', ps')"
  shows "filter (\<lambda>r. rr_tenant r \<noteq> t) (db_resources d') = filter (\<lambda>r. rr_tenant r \<noteq> t) (db_resources d) \<and>
    filter (\<lambda>r. ad_tenant r \<noteq> t) (db_audit d') = filter (\<lambda>r. ad_tenant r \<noteq> t) (db_audit d) \<and>
    filter (\<lambda>r. ob_tenant r \<noteq> t) (db_outbox d') = filter (\<lambda>r. ob_tenant r \<noteq> t) (db_outbox d)"
proof -
  let ?P = "\<lambda>d d'. \<forall>p. pg_tenant p = t \<longrightarrow> other_tenants p d d'"
  have "every ?P q" if q: "q \<in> set ps" for q
  proof -
    obtain p where p: "pg_tenant p = t" "pg_method p q" using assms(1) q by blast
    show ?thesis by (rule every_mono [OF pg_method_tenants [OF p(2)]]) (simp add: other_tenants_def p(1))
  qed
  then have "?P d d'" using every_steps [OF assms(2), of ?P] by (auto simp: other_tenants_def)
  moreover obtain p :: pgenv where "pg_tenant p = t" by (metis pgenv.select_convs(2))
  ultimately show ?thesis by (auto simp: other_tenants_def)
qed

theorem postgres_tenant_isolation_witness:
  "filter (\<lambda>r. rr_tenant r \<noteq> ''acme'') (db_resources (fst (interleave [0, 0] (ex_db, [map_prog (\<lambda>_. ()) (Pg_CancelRun ex_pg ''r1'' ''ana'')])))) = []"
proof -
  let ?q = "map_prog (\<lambda>_. ()) (Pg_CancelRun ex_pg ''r1'' ''ana'')"
  have "\<forall>q \<in> set [?q]. \<exists>p. pg_tenant p = ''acme'' \<and> pg_method p q"
    using ex_later(2) by (auto intro!: exI [of _ ex_pg] pg_method.writer pg_writer.intros)
  moreover obtain d' ps' where r: "interleave [0, 0] (ex_db, [?q]) = (d', ps')" by (cases "interleave [0, 0] (ex_db, [?q])")
  moreover have "prog_step\<^sup>*\<^sup>* (ex_db, [?q]) (d', ps')" using interleave_steps [of "(ex_db, [?q])" "[0, 0]"] r by simp
  ultimately show ?thesis
    using postgres_tenant_isolation [of "[?q]" "''acme''" ex_db d' ps'] by (simp add: ex_db_def)
qed



text \<open>
  C22. The outbox loses nothing: a flush changes only delivery columns, hands messages over in the
  order of their sequence and at most a hundred of them, and a message is marked as published
  only when it was handed over and the publisher accepted it, whatever database calls and
  publications fail. All other messages remain pending.
\<close>

theorem outbox_no_loss:
  assumes "run_prog (Flush p w) d = (d', (sent, err))"
  shows "db_resources d' = db_resources d \<and> db_audit d' = db_audit d \<and> subseq sent (take 100 (pending (pg_tenant p) d)) \<and>
    (\<forall>m \<in> set sent. \<exists>v n. ow_decode w (ob_payload m) = Some v \<and> ow_publish w n (ob_topic m) v = None) \<and>
    list_all2 (\<lambda>r r'. ob_id r' = ob_id r \<and> ob_sequence r' = ob_sequence r \<and> ob_payload r' = ob_payload r \<and>
       (ob_published r = None \<and> ob_published r' \<noteq> None \<longrightarrow> ob_tenant r = pg_tenant p \<and> ob_sequence r \<in> ob_sequence ` set sent))
      (db_outbox d) (db_outbox d')"
proof -
  have d': "d' = fst (run_prog (Flush p w) d)" "sent = fst (snd (run_prog (Flush p w) d))" using assms by simp_all
  from Flush_delivers [of p w d] have "subseq sent (take 100 (pending (pg_tenant p) d))"
    "\<forall>m \<in> set sent. \<exists>v n. ow_decode w (ob_payload m) = Some v \<and> ow_publish w n (ob_topic m) v = None"
    and all: "list_all2 (delivered (pg_tenant p) (ob_sequence ` set sent)) (db_outbox d) (db_outbox d')"
    by (auto simp: d')
  moreover have "list_all2 (\<lambda>r r'. ob_id r' = ob_id r \<and> ob_sequence r' = ob_sequence r \<and> ob_payload r' = ob_payload r \<and>
       (ob_published r = None \<and> ob_published r' \<noteq> None \<longrightarrow> ob_tenant r = pg_tenant p \<and> ob_sequence r \<in> ob_sequence ` set sent))
      (db_outbox d) (db_outbox d')"
    by (rule list_all2_mono [OF all]) (simp add: delivered_def same_message_def)
  ultimately show ?thesis using Flush_marked [of d p w] by (simp add: d' marked_def)
qed

theorem outbox_no_loss_witness:
  "\<exists>d' sent err. run_prog (Flush ex_pg ex_worker) (ex_outbox 99 102) = (d', (sent, err)) \<and>
     subseq sent (take 100 (map ex_message [99..<102]))"
proof -
  obtain d' sent err where run: "run_prog (Flush ex_pg ex_worker) (ex_outbox 99 102) = (d', (sent, err))" by (metis prod_cases3)
  from outbox_no_loss [OF run] run show ?thesis by (auto simp: ex_later(2) ex_outbox_pending)
qed

text \<open>
  C23. The outbox drains: while the database answers and the publisher accepts the pending messages,
  \<open>k\<close> flushes hand over exactly the oldest \<open>100 k\<close> of them, in order and each once, and only
  the others are left.
\<close>

theorem outbox_drains:
  assumes "db_ok d" and "\<forall>(p, w) \<in> set runs. pg_tenant p = t \<and> (\<forall>r \<in> set (pending t d). healthy p w r)"
  shows "pending t (fst (flushes runs d)) = drop (100 * length runs) (pending t d) \<and>
    snd (flushes runs d) = take (100 * length runs) (pending t d)"
  by (rule flushes_drain [OF assms])

theorem outbox_drains_witness:
  "pending ''acme'' (fst (flushes [(ex_pg, ex_worker), (ex_pg, ex_worker)] (ex_outbox 100 250))) = []"
proof -
  have "\<forall>(p, w) \<in> set [(ex_pg, ex_worker), (ex_pg, ex_worker)]. pg_tenant p = ''acme'' \<and>
      (\<forall>r \<in> set (pending ''acme'' (ex_outbox 100 250)). healthy p w r)"
    by (auto simp: ex_later(2) ex_outbox_pending healthy_def ex_worker_def ex_message_def ex_pg_def simp del: upt_rec_numeral)
  from outbox_drains [OF ex_outbox_ok this] show ?thesis by (simp add: ex_outbox_pending del: upt_rec_numeral)
qed

text \<open>
  C24. Concurrent changes are lost: when a step report reads a run, a cancellation of that run then
  reads and commits, and the report commits last, both calls succeed, the cancellation
  answers \<open>cancelled\<close>, and the stored run is not cancelled any more. The file-backed store
  holds its mutex during the whole call and never loses a cancellation.
\<close>

theorem postgres_cancellation_lost:
  assumes "pg_tenant q = pg_tenant p" and "c_run q = c_run p" and "faithful (c_run p)"
    and "row_value (c_run p) (row_of p ''pipeline_run'' i d) = (r, None)" and "run_ID r = i" and "\<not> run_terminal r"
    and "usr_Step req \<noteq> []" and "validStepStatus (usr_Status req)" and "pg_err p 0 = None" and "pg_err q 0 = None"
    and "interleave [1, 0, 0, 1] (d, [Pg_CancelRun q i user, Pg_UpdateRunStep p i req who]) =
      (d', [Return (c, None), Return (u, None)])"
  shows "run_Status c = ''cancelled'' \<and> run_prog (Pg_Run p i) d' = (d', (u, None)) \<and> run_Status u \<noteq> ''cancelled''"
  by (rule cancel_lost [OF assms])

theorem postgres_cancellation_lost_witness:
  "\<exists>d' c u. interleave [1, 0, 0, 1] (ex_db, [Pg_CancelRun ex_pg_later ''r1'' ''ana'', Pg_UpdateRunStep ex_pg ''r1'' (ex_done ''load'') ''ci'']) =
     (d', [Return (c, None), Return (u, None)]) \<and> run_Status c = ''cancelled'' \<and> run_Status u \<noteq> ''cancelled''"
proof -
  let ?final = "interleave [1, 0, 0, 1] (ex_db, [Pg_CancelRun ex_pg_later ''r1'' ''ana'', Pg_UpdateRunStep ex_pg ''r1'' (ex_done ''load'') ''ci''])"
  have "map (\<lambda>q. map_option snd (returned q)) (snd ?final) = [Some None, Some None]" by code_simp
  then obtain d' c u where run: "?final = (d', [Return (c, None), Return (u, None)])"
    by (cases ?final) (auto simp: map_eq_Cons_conv returned_Some)
  have eq: "pg_tenant ex_pg_later = pg_tenant ex_pg" "c_run ex_pg_later = c_run ex_pg" using ex_later(1) by (simp_all add: later_def)
  have row: "row_value (c_run ex_pg) (row_of ex_pg ''pipeline_run'' ''r1'' ex_db) = (ex_pg_run, None)"
    by (simp add: row_value_def row_of_def ex_db_def ex_pg_def ex_codec_def)
  have r: "run_ID ex_pg_run = ''r1''" "\<not> run_terminal ex_pg_run" by (simp_all add: ex_pg_run_def run_terminal_def)
  have "usr_Step (ex_done ''load'') \<noteq> []" "validStepStatus (usr_Status (ex_done ''load''))"
    by (simp_all add: ex_done_def validStepStatus_def)
  moreover have "pg_err ex_pg 0 = None" "pg_err ex_pg_later 0 = None" by (simp_all add: ex_pg_later_def ex_pg_def)
  moreover have "faithful (c_run ex_pg)" using ex_codecs_ok by (simp add: codecs_ok_def)
  ultimately show ?thesis using postgres_cancellation_lost [OF eq _ row r _ _ _ _ run] run by blast
qed

section \<open>Behaviours that differ from what the code means to do\<close>

section \<open>From grants to workloads\<close>



text \<open>
  C26. Delivery is idempotent: in a cluster that answers the calls of a dispatch, delivering the same
  record again leaves the objects as the first delivery left them, up to the resource versions the
  server assigns, and no object but one, whose name is a valid DNS label, is ever touched.
\<close>

theorem dispatch_idempotent:
  assumes "honest K a (fst (Dispatch j namespace a r))" and "unversioned K1 = unversioned (foldl store_call K (fst (Dispatch j namespace a r)))"
    and "honest K1 b (fst (Dispatch j namespace b r))"
  shows "unversioned (foldl store_call K1 (fst (Dispatch j namespace b r))) = unversioned K1 \<and>
    (\<exists>k. dns_label (snd k) \<and> (\<forall>k'. k' \<noteq> k \<longrightarrow> unversioned K1 k' = unversioned K k'))"
  using redelivery [OF assms] by blast

theorem dispatch_idempotent_witness:
  "\<exists>K1. K1 (''nexusworkspaces'', ''workspace-ana'') \<noteq> None \<and>
     unversioned (foldl store_call K1 (fst (Dispatch ex_ws_json ''default'' ex_again ex_ws_record))) = unversioned K1"
proof -
  obtain obj where obj: "cr_Name obj = ''workspace-ana''" "cr_ResourceVersion obj = []"
      "fst (Dispatch ex_ws_json ''default'' ex_absent ex_ws_record) = [KubeGet ''nexusworkspaces'' ''workspace-ana'', KubeCreate ''nexusworkspaces'' obj]"
      "fst (Dispatch ex_ws_json ''default'' ex_again ex_ws_record) = [KubeGet ''nexusworkspaces'' ''workspace-ana'', KubeUpdate ''nexusworkspaces'' obj]"
      "ka_get ex_absent = Inr KubeNotFound" "ka_get ex_again = Inl []" "ka_create ex_absent = None" "ka_update ex_again = None"
    using ex_ws_dispatched by blast
  let ?K1 = "[(''nexusworkspaces'', ''workspace-ana'') \<mapsto> obj]"
  have "unversioned (foldl store_call ?K1 (fst (Dispatch ex_ws_json ''default'' ex_again ex_ws_record))) = unversioned ?K1"
    using dispatch_idempotent [of Map.empty ex_absent ex_ws_json "''default''" ex_ws_record ?K1 ex_again] obj
    by (simp add: honest_def store_call_def)
  then show ?thesis by (intro exI [of _ ?K1]) simp
qed


text \<open>
  C28. A pipeline run is submitted once: over any number of reconciliations, also failing ones, the
  engine accepts at most one submission, provided that it names the run it accepted and that the
  status update after an accepted submission succeeds.
\<close>

theorem pipeline_submitted_once:
  assumes "\<And>ans result. ans \<in> set anss \<Longrightarrow> pa_submit ans = Inl result \<Longrightarrow>
      pa_status ans = None \<and> stringValue result [''run_id'', ''runId'', ''id''] \<noteq> []"
  shows "snd (foldl (pipeline_round exp) (run, 0) anss) \<le> 1"
  using pipeline_rounds_once [of anss "exp" run 0] assms by simp

theorem pipeline_submitted_once_witness:
  "snd (foldl (pipeline_round ''e'') (ex_kube_run, 0) [ex_submission_refused, ex_submission_taken, ex_submission_taken]) = 1"
proof -
  let ?anss = "[ex_submission_refused, ex_submission_taken, ex_submission_taken]"
  have "snd (foldl (pipeline_round ''e'') (ex_kube_run, 0) ?anss) \<le> 1"
    by (rule pipeline_submitted_once) (auto simp: ex_submission_refused_def ex_submission_taken_def stringValue_def List.map_filter_simps)
  moreover have "snd (foldl (pipeline_round ''e'') (ex_kube_run, 0) ?anss) = 1" by code_simp
  ultimately show ?thesis by simp
qed

section \<open>Browser sessions\<close>

text \<open>
  C29. The login flow cannot be hijacked or replayed: a callback sets a session only in the browser
  that started the login (its state cookie is the state of the callback), only with an ID token
  that the provider issued for the code and that was verified; it sends the browser to a target on
  the same site, whatever the parameters and cookies say; and it uses the state up, so that no
  callback is accepted before the next login.
\<close>

theorem login_flow_safe:
  assumes "callback s se b query = (cookies, ans)" and "cookies \<noteq> []"
  shows "b stateCookieName = Some (query_get query ''state'') \<and> query_get query ''state'' \<noteq> [] \<and>
    (\<exists>t target. se_exchange se (query_get query ''code'') = Some (AnyStr t) \<and> snd (se_verify se t) = None \<and>
       browse b (cookies, ans) SessionCookieName = Some (filter cookie_byte t) \<and> ans = RedirectTo target \<and> local_target target) \<and>
    (\<forall>se' query'. callback s se' (browse b (cookies, ans)) query' = ([], Denied 400 ''invalid login state''))"
proof -
  obtain t where t: "b stateCookieName = Some (query_get query ''state'')" "query_get query ''state'' \<noteq> []"
      "se_exchange se (query_get query ''code'') = Some (AnyStr t)" "snd (se_verify se t) = None"
      "cookies = [setCookie s SessionCookieName t (8 * 3600), clearCookie s stateCookieName, clearCookie s returnCookieName]"
      "ans = RedirectTo (case b returnCookieName of Some v \<Rightarrow> safeReturnTo v | None \<Rightarrow> ''/console.html'')"
    by (rule callback_sets [OF assms])
  have "browse b (cookies, ans) SessionCookieName = Some (filter cookie_byte t)"
    by (simp add: t(5) browse_def keep_cookie_def setCookie_def clearCookie_def)
  moreover have "local_target (case b returnCookieName of Some v \<Rightarrow> safeReturnTo v | None \<Rightarrow> ''/console.html'')"
    using callback_targets [of s se b query] assms(1) t(6) by simp
  ultimately show ?thesis using t callback_once [of s se b query] assms by auto
qed

theorem login_flow_safe_witness:
  "\<exists>cookies ans target. callback ex_session_config ex_session_env [stateCookieName \<mapsto> ''YWJj'', returnCookieName \<mapsto> ''//evil.com/''] ex_callback_query = (cookies, ans) \<and>
     ans = RedirectTo target \<and> local_target target"
proof -
  let ?b = "[stateCookieName \<mapsto> ''YWJj'', returnCookieName \<mapsto> ''//evil.com/'']"
  obtain cookies ans where c: "callback ex_session_config ex_session_env ?b ex_callback_query = (cookies, ans)"
    by (cases "callback ex_session_config ex_session_env ?b ex_callback_query")
  moreover have "cookies \<noteq> []"
    using c by (auto simp: callback_def ex_session_values) (auto simp: ex_session_env_def split: if_splits)
  ultimately show ?thesis using login_flow_safe [OF c] by blast
qed

text \<open>
  C30. A login returns to where it started: the middleware sends a browser without a session to the
  login with the page it asked for, and after a successful exchange with the provider the callback
  sends it back to exactly that page, with a session cookie under which the middleware then
  passes its requests on as the verified principal.
\<close>

theorem login_returns:
  assumes "safeReturnTo page = page" and "\<forall>c \<in> set page. cookie_byte c" and "\<forall>c \<in> set t. cookie_byte c"
    and "se_rand se = Some r" and "r \<noteq> []"
    and "query_get q ''state'' = RawURLEncoding r" and "query_get q ''error'' = []"
    and "se_exchange se (query_get q ''code'') = Some (AnyStr t)" and "t \<noteq> []" and "snd (se_verify se t) = None"
    and "b1 = browse b (login s se (''return_to='' @ QueryEscape page))"
    and "\<not> publicPath (rq_Method rq) (rq_Path rq)" and "bearer rq = []" and "servicePrincipal ae t = None"
    and "\<not> HasPrefix (rq_Path rq) ''/api/''" and "rq_URI rq = page"
  shows "Middleware ae (se_verify se) (rq\<lparr>rq_Session := None\<rparr>) None = Redirect (''/auth/login?return_to='' @ QueryEscape page) \<and>
    snd (callback s se b1 q) = RedirectTo page \<and>
    (\<exists>v. browse b1 (callback s se b1 q) SessionCookieName = Some v \<and>
       Middleware ae (se_verify se) (rq\<lparr>rq_Session := Some v\<rparr>) None = Forward (Some (fst (se_verify se t))))"
proof -
  note kept = return_kept [OF assms(1,2,4-11)]
  have "filter cookie_byte t = t" using assms(3) by (simp add: filter_id_conv)
  moreover have "Middleware ae (se_verify se) (rq\<lparr>rq_Session := Some t\<rparr>) None = Forward (Some (fst (se_verify se t)))"
    by (rule session_forwarded) (use assms in \<open>simp_all add: bearer_def\<close>)
  moreover have "Middleware ae (se_verify se) (rq\<lparr>rq_Session := None\<rparr>) None = Redirect (''/auth/login?return_to='' @ QueryEscape page)"
    using assms(12,13,15,16) by (simp add: Middleware_def bearer_def)
  ultimately show ?thesis using kept by simp
qed

theorem login_returns_witness:
  "snd (callback ex_session_config ex_session_env
     (browse Map.empty (login ex_session_config ex_session_env (''return_to='' @ QueryEscape ex_page))) ex_callback_query) = RedirectTo ex_page"
proof -
  have "se_rand ex_session_env = Some ''abc''" "se_exchange ex_session_env ''code1'' = Some (AnyStr ''jwt'')" "snd (se_verify ex_session_env ''jwt'') = None"
    by (simp_all add: ex_session_env_def)
  moreover have "\<forall>c \<in> set ''jwt''. cookie_byte c" using ex_page_private(4) by (simp only: filter_id_conv)
  moreover have "\<not> HasPrefix (rq_Path ex_page_request) ''/api/''" "rq_URI ex_page_request = ex_page"
    by (simp_all add: ex_page_request_def HasPrefix_def)
  moreover have "servicePrincipal \<lparr>internal_token = [], local_role = []\<rparr> ''jwt'' = None" by (simp add: servicePrincipal_def)
  ultimately show ?thesis
    using login_returns [OF ex_session_values(1), of "''jwt''" ex_session_env "''abc''" ex_callback_query
        "browse Map.empty (login ex_session_config ex_session_env (''return_to='' @ QueryEscape ex_page))" Map.empty ex_session_config
        ex_page_request "\<lparr>internal_token = [], local_role = []\<rparr>"]
      ex_session_values ex_page_private by (simp add: list_all_iff)
qed

text \<open>
  C31. A local session lives from its login to its logout or its expiry: in a manager that has
  processed any sequence of logins and logouts, a browser is authenticated exactly when its cookie
  is a token issued by a login with the configured credentials at most eight hours ago, and no
  logout with that token or login that drew it again came after.
\<close>

theorem local_session_lifecycle:
  "authenticated (foldl local_step (NewLocalSessionManager u p) ops) now cookies \<longleftrightarrow>
     (\<exists>token pre rand t form post. cookies localSessionCookie = Some token \<and> ops = pre @ LocalLogin rand t form # post \<and>
        right_credentials u p form \<and> randomToken rand = Some token \<and> now \<le> t + session_ns \<and> \<not> list_ex (touches u p token) post)"
  unfolding authenticated_history issued_def touches_login by blast
section \<open>Object storage and features\<close>



text \<open>
  C33. Object storage keeps to the grant: of a plain user, the storage proxy behind the gateway asks
  the object store only for the bucket list, for the listing of a granted bucket, or for an object
  of a granted bucket whose key has no double dot, and only while the user is registered with
  storage; the bucket list the user gets names granted buckets only. Without the internal token
  nobody reaches the object store through the storage proxy.
\<close>

theorem storage_scoped:
  assumes "is_user p" and "\<not> privileged p" and "rv_AccessFor rv (pr_Subject p) = (access, err)"
    and "storageProxy config os token reached now rv p path query = (sent, status, body)" and "path \<in> {''/buckets'', ''/objects'', ''/object''}"
  shows "(\<forall>u \<in> set sent. err = None \<and> sg_SizeGB (ua_Storage access) \<noteq> 0 \<and>
      (path = ''/buckets'' \<and> url_Path u = ''/'' \<or>
       (\<exists>bucket \<in> set (sg_Buckets (ua_Storage access)). path = ''/objects'' \<and> url_Path u = ''/'' @ bucket \<or>
          (\<exists>key. path = ''/object'' \<and> url_Path u = ''/'' @ bucket @ ''/'' @ key \<and> \<not> Contains key ''..'')))) \<and>
    (\<forall>bs. body = SB_buckets bs \<longrightarrow> fst ` set bs \<subseteq> set (sg_Buckets (ua_Storage access))) \<and>
    (token \<noteq> [] \<longrightarrow> fst (proxy_read config os token now [] path query) = [])"
proof (intro conjI ballI allI impI)
  let ?bucket = "query_get query ''bucket''"
  fix u assume u: "u \<in> set sent"
  then have r: "u \<in> set (fst (proxy_read config os token now (if token = [] then [] else ''Bearer '' @ token) path query))"
    and al: "storageAllowed rv p ?bucket"
    using assms(4) by (auto simp: storageProxy_def split: if_splits prod.splits)
  have allowed: "err = None" "sg_SizeGB (ua_Storage access) \<noteq> 0" "?bucket \<noteq> [] \<Longrightarrow> ?bucket \<in> set (sg_Buckets (ua_Storage access))"
    using al assms(1-3) by (auto simp: storageAllowed_def split: option.splits if_splits)
  show "err = None" "sg_SizeGB (ua_Storage access) \<noteq> 0" by (fact allowed)+
  show "path = ''/buckets'' \<and> url_Path u = ''/'' \<or>
       (\<exists>bucket \<in> set (sg_Buckets (ua_Storage access)). path = ''/objects'' \<and> url_Path u = ''/'' @ bucket \<or>
          (\<exists>key. path = ''/object'' \<and> url_Path u = ''/'' @ bucket @ ''/'' @ key \<and> \<not> Contains key ''..''))"
    using proxy_read_sent(2) [OF r] allowed(3) assms(5) by (auto split: if_splits)
next
  fix bs assume "body = SB_buckets bs"
  then have "bs = [] \<or> (\<exists>all. bs = visible_buckets rv p all)"
    using assms(1,4,5) by (auto simp: storageProxy_def proxy_read_def storage_reply_def split: if_splits prod.splits sum.splits storage_body.splits)
  then show "fst ` set bs \<subseteq> set (sg_Buckets (ua_Storage access))" using assms(3) by (auto simp: visible_buckets_def)
next
  assume "token \<noteq> []"
  then show "fst (proxy_read config os token now [] path query) = []" by (simp add: proxy_read_def internal_caller_def)
qed

theorem storage_scoped_witness:
  "\<exists>u. fst (storageProxy ex_storage ex_objects ''tok'' True 0 ex_storage_view ex_user ''/objects'' ''bucket=data'') = [u] \<and> url_Path u = ''/data''"
proof -
  obtain u st body where s: "storageProxy ex_storage ex_objects ''tok'' True 0 ex_storage_view ex_user ''/objects'' ''bucket=data'' = ([u], st, body)"
    using ex_storage_asked by blast
  have "url_Path u = ''/data''"
    using storage_scoped [OF ex_user_kind ex_storage_access s] by (auto simp: ex_storage_grant)
  with s show ?thesis by simp
qed

text \<open>
  C34. Materialized features are served: after any sequence of authorized writes the gateway accepts,
  a lookup answers, in the order of the entities, with the values of the last write to each entity
  of the service, all of them \<open>PRESENT\<close>, and with \<open>NOT_FOUND\<close> where there was none; the store in
  memory and Redis give the same answer, for services without a colon and documents that survive
  their encoding.
\<close>

theorem materialized_features_served:
  assumes "authorized token auth" and "service \<noteq> []" "es \<noteq> []" and "list_all (\<lambda>e. isl (EntityKey e)) es"
    and "rd_data s = Map.empty" and "\<forall>(a, k, v) \<in> set ws. redis_storable s v" and "CHR '':'' \<notin> set service" "\<forall>(a, k, v) \<in> set ws. CHR '':'' \<notin> set a"
  shows "h_get_features (Lookup Redis_Get (materialize Redis_Put token auth s ws)) (Some \<lparr>fq_FeatureService = service, fq_Entities = es\<rparr>) =
      (200, map (\<lambda>e. found_row (last_written ws service (projl (EntityKey e)))) es) \<and>
    h_get_features (Lookup Memory_Get (materialize Memory_Put token auth NewMemoryStore ws)) (Some \<lparr>fq_FeatureService = service, fq_Entities = es\<rparr>) =
      (200, map (\<lambda>e. found_row (last_written ws service (projl (EntityKey e)))) es)"
  using assms by (simp add: h_get_features_def Lookup_def lookup_rows_all redis_materialized memory_materialized)

theorem materialized_features_served_witness:
  "h_get_features (Lookup Redis_Get (materialize Redis_Put ''tok'' ''Bearer tok'' ex_redis [(''svc'', ''user=ana'', ex_features)]))
     (Some \<lparr>fq_FeatureService = ''svc'', fq_Entities = [[(''user'', AnyStr ''ana'')], [(''user'', AnyStr ''bo'')]]\<rparr>) =
     (200, [found_row (Some ex_features), found_row None])"
  using materialized_features_served [of "''tok''" "''Bearer tok''" "''svc''" "[[(''user'', AnyStr ''ana'')], [(''user'', AnyStr ''bo'')]]" ex_redis
    "[(''svc'', ''user=ana'', ex_features)]"]
  by (simp add: authorized_def EntityKey_def ex_redis_storable materialize_def last_written_def) (simp add: ex_redis_def)
section \<open>Services around the gateway\<close>



text \<open>
  C36. Requests are passed on in scope only: of a principal who is neither administrator, operator nor
  service, a prediction is sent only for a model, an agent invocation only for an agent, and a
  function call, waited for or not, only for a function of a project in the caller's scope; and
  the list of functions shows functions of such projects only, each one stored.
\<close>

theorem proxied_in_scope:
  assumes "\<not> privileged p"
  shows "(fst (h_predictModel w s p i body) \<noteq> [] \<longrightarrow> (\<exists>x \<in> set (st_Models (data s)). mdl_ID x = i \<and> mdl_ProjectID x \<in> scope (store_view s) p)) \<and>
    (fst (h_invokeAgent w runtime s p i msg) \<noteq> [] \<longrightarrow> (\<exists>x \<in> set (st_Agents (data s)). agt_ID x = i \<and> agt_ProjectID x \<in> scope (store_view s) p)) \<and>
    (fst (h_invokeFunction w client s p name body) @ fst (h_invokeFunctionAsync w client s p name body) \<noteq> [] \<longrightarrow>
       (\<exists>x \<in> set (st_Functions (data s)). fn_Name x = name \<and> fn_ProjectID x \<in> scope (store_view s) p)) \<and>
    (\<forall>live fs. snd (h_functions w decode client seed s p) = Reply 200 (live, fs) \<longrightarrow>
       (\<forall>f \<in> set fs. \<exists>x \<in> set (st_Functions (data s)). fn_Name x = fn_Name f \<and> fn_ProjectID x = fn_ProjectID f \<and> fn_ProjectID f \<in> scope (store_view s) p))"
proof (intro conjI impI allI ballI)
  assume "fst (h_predictModel w s p i body) \<noteq> []"
  then obtain rq where "rq \<in> set (fst (h_predictModel w s p i body))" by (metis list.set_sel(1))
  then show "\<exists>x \<in> set (st_Models (data s)). mdl_ID x = i \<and> mdl_ProjectID x \<in> scope (store_view s) p"
    by (rule predictModel_sent) (auto dest: find_SomeD)
next
  assume "fst (h_invokeAgent w runtime s p i msg) \<noteq> []"
  then obtain rq where "rq \<in> set (fst (h_invokeAgent w runtime s p i msg))" by (metis list.set_sel(1))
  then show "\<exists>x \<in> set (st_Agents (data s)). agt_ID x = i \<and> agt_ProjectID x \<in> scope (store_view s) p"
    by (rule invokeAgent_sent) (auto dest: find_SomeD)
next
  assume "fst (h_invokeFunction w client s p name body) @ fst (h_invokeFunctionAsync w client s p name body) \<noteq> []"
  then obtain rq where "rq \<in> set (fst (h_invokeFunction w client s p name body) @ fst (h_invokeFunctionAsync w client s p name body))"
    by (metis list.set_sel(1))
  then have "rq \<in> set (fst (h_invokeFunction w client s p name body)) \<union> set (fst (h_invokeFunctionAsync w client s p name body))" by simp
  then show "\<exists>x \<in> set (st_Functions (data s)). fn_Name x = name \<and> fn_ProjectID x \<in> scope (store_view s) p"
    using assms by (rule invokeFunction_sent) (auto dest: find_SomeD)
next
  fix live fs f
  assume "snd (h_functions w decode client seed s p) = Reply 200 (live, fs)" and f: "f \<in> set fs"
  then show "\<exists>x \<in> set (st_Functions (data s)). fn_Name x = fn_Name f \<and> fn_ProjectID x = fn_ProjectID f \<and> fn_ProjectID f \<in> scope (store_view s) p"
    using functions_listed assms by blast
qed

theorem proxied_in_scope_witness:
  "fst (h_predictModel ex_serving_web ex_servable ex_user ''mdl-0'' (Some [])) = [] \<and> fst (h_invokeFunction ex_serving_web None ex_with_function ex_user ''score'' (Some [])) = []"
proof -
  have "list_all (\<lambda>x. \<not> projectAllowed (store_view ex_servable) ex_user (mdl_ProjectID x)) (st_Models (data ex_servable))"
    "list_all (\<lambda>x. \<not> projectAllowed (store_view ex_with_function) ex_user (fn_ProjectID x)) (st_Functions (data ex_with_function))" by code_simp+
  then show ?thesis
    using proxied_in_scope [OF ex_user_kind(2), of ex_serving_web ex_servable "''mdl-0''" "Some []" _ _ None]
      proxied_in_scope [OF ex_user_kind(2), of ex_serving_web ex_with_function _ _ _ _ None "''score''"]
    by (fastforce simp: list_all_iff scope_def)
qed



text \<open>
  C38. Signing keys are fresh: whatever verifications came before, claims are accepted only of a
  token signed with RS256 under a key that a document of the identity provider held, which was
  fetched less than ten minutes before this verification began or during it.
\<close>

theorem accepted_key_fresh:
  assumes "parse_claims lib (verifications lib NewVerifier calls) c raw = (v, Some claims)" and "kc_now c \<le> kc_stored c"
  shows "\<exists>kid k t doc. jl_header lib raw = Some (''RS256'', kid) \<and> jl_claims lib raw k (kc_stored c) = Some claims \<and>
    (t, doc) \<in> (\<Union>call \<in> insert c (fst ` set calls). offered call) \<and> document_keys doc kid = Some k \<and> kc_now c < t + key_ttl"
proof -
  have "cached NewVerifier {}" by (simp add: cached_def)
  from parse_claims_key [OF assms(1) verifications_cached [OF this] assms(2)] show ?thesis by fastforce
qed

theorem accepted_key_fresh_witness:
  "\<exists>v t doc k. parse_claims ex_jwt (verifications ex_jwt NewVerifier [(ex_key_call 0, ''t'')]) (ex_key_call 9) ''t'' = (v, Some ex_key_claims) \<and>
     document_keys doc ''k1'' = Some k \<and> 9 < t + key_ttl"
proof -
  obtain v where v: "parse_claims ex_jwt (verifications ex_jwt NewVerifier [(ex_key_call 0, ''t'')]) (ex_key_call 9) ''t'' = (v, Some ex_key_claims)"
    using ex_key_accepted by blast
  from accepted_key_fresh [OF v] v show ?thesis by (fastforce simp: ex_key_call_def ex_jwt_def)
qed

text \<open>
  C39. The metrics count what is stored: a poll that gets the runs as the gateway lists them for a
  privileged caller exports, for every status, exactly the number of stored runs in it, and no
  metric for a status no run has; nothing of an earlier poll is left.
\<close>

theorem metrics_measured:
  assumes "pl_GatewayURL c \<noteq> []" and "platform_get w c ''/api/v1/pipelines/runs'' (ga_runs ga) = Inl (map run_Status (h_runs s p))"
    and "privileged p" and "inj quote" and "int (length (st_Runs (data s))) < 2 ^ 53"
  shows "map_of (pl_metrics (Platform_Poll quote w ga now seeds c)) (run_metric quote st) =
      (let n = length (filter (\<lambda>r. run_Status r = st) (st_Runs (data s))) in if n = 0 then None else Some (f64_of_int (int n))) \<and>
    Platform_Poll quote w ga now seeds (c\<lparr>pl_metrics := old, pl_scraped := t\<rparr>) = Platform_Poll quote w ga now seeds c"
proof -
  have runs: "map run_Status (h_runs s p) = map run_Status (st_Runs (data s))"
    using assms(3) by (simp add: h_runs_def filterRuns_def filter_by_project_def allowedProjectIDs_def Store_Runs_def)
  have "count_list (map run_Status rs) st = length (filter (\<lambda>r. run_Status r = st) rs)" for rs :: "PipelineRun list"
    by (induction rs) auto
  moreover have "st \<in> set (map run_Status (st_Runs (data s))) \<longleftrightarrow> filter (\<lambda>r. run_Status r = st) (st_Runs (data s)) \<noteq> []"
    by (auto simp: filter_empty_conv)
  ultimately show ?thesis
    using Platform_Poll_runs [OF assms(1,2) assms(4)] Platform_Poll_fresh [OF assms(1)] assms(5) unfolding runs by (simp add: Let_def)
qed

theorem metrics_measured_witness:
  "map_of (pl_metrics (Platform_Poll ex_quote ex_metrics_web ex_gateway_answers 0 ([], []) ex_collector)) (run_metric ex_quote ''queued'') = Some (f64_of_int 1)"
proof -
  obtain r q where "st_Runs (data ex_submitted) = [r, q]" "run_Status r = ''queued''" "run_Status q = ''succeeded''" using ex_submitted_statuses by auto
  then have "length (filter (\<lambda>r. run_Status r = ''queued'') (st_Runs (data ex_submitted))) = 1" "length (st_Runs (data ex_submitted)) = 2" by simp_all
  moreover have "privileged ex_admin" by code_simp
  ultimately show ?thesis
    using metrics_measured [OF _ ex_runs_answer, of "ex_quote" 0 "([], [])" "''queued''"] ex_collector_url ex_quote_inj by simp
qed


end
